(* ===== verification/Prelude.thy ===== *)
theory Prelude
  imports Main "HOL-Library.Char_ord" "HOL-Library.List_Lexorder" "HOL-Library.Product_Lexorder"
begin

text \<open>
  Shared vocabulary of the development.

  \<^item> Strings of the source are JavaScript strings. They are modelled as \<open>char list\<close>, one
    \<open>char\<close> per code unit, so the model covers the strings whose code units are below 256.
  \<^item> A table of the panel's database is the list of its rows. The order of the list is the
    order in which an unordered query happens to return the rows: every lemma is about any
    list, so about any such order. \<open>find_first\<close>, \<open>find_many\<close>, \<open>count_rows\<close>,
    \<open>update_rows\<close> and \<open>delete_rows\<close> are the calls \<open>findFirst\<close>/\<open>findUnique\<close>,
    \<open>findMany\<close>, \<open>count\<close>, \<open>updateMany\<close>, \<open>deleteMany\<close> that the services make on it, with the
    \<open>where\<close> clause as a predicate and the \<open>data\<close> clause as a function on a row.
  \<^item> The locale \<open>row_store\<close> states what the services rely on when they use such a table by
    its key; the lemmas of the services about guarded updates are proved from it.
\<close>

named_theorems row_simps \<open>characteristic equations of the table operations\<close>
named_theorems state_defs \<open>definitions of the operations on the panel's state\<close>

section \<open>Time and optional values\<close>

type_synonym time = int

text \<open>\<open>value || null\<close> on an optional string: the empty string is falsy.\<close>

definition truthy :: "string option \<Rightarrow> string option" where
  "truthy s = (case s of Some [] \<Rightarrow> None | _ \<Rightarrow> s)"

lemma truthy_simps [simp]:
  "truthy None = None"
  "truthy (Some []) = None"
  "truthy (Some (c # cs)) = Some (c # cs)"
  by (simp_all add: truthy_def)

lemma truthy_eq_Some: "truthy s = Some x \<longleftrightarrow> s = Some x \<and> x \<noteq> []"
  by (cases s; cases "the s") (auto simp: truthy_def)

lemma truthy_neq_Some_Nil [simp]: "truthy s \<noteq> Some []"
  by (simp add: truthy_eq_Some)

lemma truthy_idem [simp]: "truthy (truthy s) = truthy s"
  by (auto simp: truthy_def split: option.splits list.splits)

section \<open>Strings\<close>

text \<open>The white space that \<open>String.prototype.trim\<close> removes, among the code units below 256.\<close>

definition js_space :: "char \<Rightarrow> bool" where
  "js_space c = ((of_char c :: nat) \<in> set [9, 10, 11, 12, 13, 32, 160])"

definition js_trim :: "string \<Rightarrow> string" where
  "js_trim s = rev (dropWhile js_space (rev (dropWhile js_space s)))"

lemma length_js_trim: "length (js_trim s) \<le> length s"
  unfolding js_trim_def
  by (metis length_dropWhile_le length_rev order_trans)

text \<open>The case folding of the flag \<open>i\<close> of a regular expression, on ASCII.\<close>

definition to_lower :: "char \<Rightarrow> char" where
  "to_lower c = (if CHR ''A'' \<le> c \<and> c \<le> CHR ''Z'' then char_of ((of_char c :: nat) + 32) else c)"

text \<open>Length in bytes of the UTF-8 form, for code units below 256.\<close>

definition utf8_length :: "string \<Rightarrow> nat" where
  "utf8_length s = sum_list (map (\<lambda>c. if (of_char c :: nat) < 128 then 1 else 2) s)"

lemma utf8_length_simps [simp]:
  "utf8_length [] = 0"
  "utf8_length (s @ t) = utf8_length s + utf8_length t"
  by (simp_all add: utf8_length_def)

lemma length_le_utf8_length: "length s \<le> utf8_length s"
  by (induction s) (auto simp: utf8_length_def)

text \<open>\<open>s.slice(i, j)\<close> for \<open>0 \<le> i \<le> j\<close>.\<close>

definition js_slice :: "nat \<Rightarrow> nat \<Rightarrow> string \<Rightarrow> string" where
  "js_slice i j s = take (j - i) (drop i s)"

section \<open>Lists\<close>

lemma length_filter_map_le:
  assumes "\<And>x. x \<in> set xs \<Longrightarrow> P (f x) \<Longrightarrow> P x"
  shows "length (filter P (map f xs)) \<le> length (filter P xs)"
  using assms by (induction xs) auto

lemma length_filter_map_le_count:
  assumes "\<And>x. x \<in> set xs \<Longrightarrow> P (f x) \<Longrightarrow> P x \<or> Q x"
  shows "length (filter P (map f xs)) \<le> length (filter P xs) + length (filter Q xs)"
  using assms by (induction xs) fastforce+

lemma length_filter_mono:
  assumes "\<And>x. x \<in> set xs \<Longrightarrow> P x \<Longrightarrow> Q x"
  shows "length (filter P xs) \<le> length (filter Q xs)"
  using assms by (induction xs) auto

lemma find_eq_None: "find P xs = None \<longleftrightarrow> (\<forall>x \<in> set xs. \<not> P x)"
  by (induction xs) auto

lemma find_eq_SomeD: "find P xs = Some x \<Longrightarrow> x \<in> set xs \<and> P x"
  by (induction xs) (auto split: if_splits)

lemma distinct_map_inj_onD:
  "distinct (map f xs) \<Longrightarrow> x \<in> set xs \<Longrightarrow> y \<in> set xs \<Longrightarrow> f x = f y \<Longrightarrow> x = y"
  by (auto simp: distinct_map dest: inj_onD)

lemma length_filter_key_le_1:
  "distinct (map k xs) \<Longrightarrow> length (filter (\<lambda>x. k x = a \<and> P x) xs) \<le> 1"
proof (induction xs)
  case (Cons x xs)
  then have "k x \<notin> k ` set xs" by simp
  then have other: "k y \<noteq> k x" if "y \<in> set xs" for y
    using that by (metis imageI)
  have "filter (\<lambda>y. k y = a \<and> P y) xs = []" if "k x = a"
    using that other by (auto simp: filter_empty_conv)
  with Cons show ?case by auto
qed simp

section \<open>Tables\<close>

definition find_first :: "('r \<Rightarrow> bool) \<Rightarrow> 'r list \<Rightarrow> 'r option" where
  "find_first P rows = find P rows"

definition find_many :: "('r \<Rightarrow> bool) \<Rightarrow> nat \<Rightarrow> 'r list \<Rightarrow> 'r list" where
  "find_many P n rows = take n (filter P rows)"

definition count_rows :: "('r \<Rightarrow> bool) \<Rightarrow> 'r list \<Rightarrow> nat" where
  "count_rows P rows = length (filter P rows)"

definition update_rows :: "('r \<Rightarrow> bool) \<Rightarrow> ('r \<Rightarrow> 'r) \<Rightarrow> 'r list \<Rightarrow> 'r list" where
  "update_rows P f rows = map (\<lambda>r. if P r then f r else r) rows"

definition delete_rows :: "('r \<Rightarrow> bool) \<Rightarrow> 'r list \<Rightarrow> 'r list" where
  "delete_rows P rows = filter (\<lambda>r. \<not> P r) rows"

definition find_key :: "('r \<Rightarrow> 'k) \<Rightarrow> 'k \<Rightarrow> 'r list \<Rightarrow> 'r option" where
  "find_key key k rows = find_first (\<lambda>r. key r = k) rows"

definition keyed :: "('r \<Rightarrow> 'k) \<Rightarrow> 'r list \<Rightarrow> bool" where
  "keyed key rows = distinct (map key rows)"

lemma find_first_SomeD: "find_first P rows = Some r \<Longrightarrow> r \<in> set rows \<and> P r"
  by (simp add: find_first_def find_eq_SomeD)

lemma find_first_None [row_simps]: "find_first P rows = None \<longleftrightarrow> (\<forall>r \<in> set rows. \<not> P r)"
  by (simp add: find_first_def find_eq_None)

lemma find_key_SomeD: "find_key key k rows = Some r \<Longrightarrow> r \<in> set rows \<and> key r = k"
  by (auto simp: find_key_def dest: find_first_SomeD)

lemma find_key_None [row_simps]: "find_key key k rows = None \<longleftrightarrow> k \<notin> key ` set rows"
  by (auto simp: find_key_def row_simps)

lemma find_key_unique:
  "keyed key rows \<Longrightarrow> r \<in> set rows \<Longrightarrow> find_key key (key r) rows = Some r"
  by (cases "find_key key (key r) rows")
     (auto simp: row_simps keyed_def dest: find_key_SomeD distinct_map_inj_onD)

lemma find_key_iff:
  "keyed key rows \<Longrightarrow> find_key key k rows = Some r \<longleftrightarrow> r \<in> set rows \<and> key r = k"
  by (metis find_key_SomeD find_key_unique)

lemma set_update_rows [row_simps]:
  "set (update_rows P f rows) = (\<lambda>r. if P r then f r else r) ` set rows"
  by (simp add: update_rows_def)

lemma update_rows_Nil [simp]: "update_rows P f [] = []"
  by (simp add: update_rows_def)

lemma update_rows_cong [fundef_cong]:
  "rows = rows' \<Longrightarrow> (\<And>r. r \<in> set rows' \<Longrightarrow> P r = Q r) \<Longrightarrow>
   (\<And>r. r \<in> set rows' \<Longrightarrow> Q r \<Longrightarrow> f r = g r) \<Longrightarrow> update_rows P f rows = update_rows Q g rows'"
  by (simp add: update_rows_def)

lemma update_rows_none: "(\<And>r. r \<in> set rows \<Longrightarrow> \<not> P r) \<Longrightarrow> update_rows P f rows = rows"
  by (simp add: update_rows_def map_idI)

lemma set_delete_rows [row_simps]: "set (delete_rows P rows) = {r \<in> set rows. \<not> P r}"
  by (auto simp: delete_rows_def)

lemma count_rows_eq_0 [row_simps]: "count_rows P rows = 0 \<longleftrightarrow> (\<forall>r \<in> set rows. \<not> P r)"
  by (simp add: count_rows_def filter_empty_conv)

lemma map_update_rows:
  assumes "\<And>r. g (f r) = g r"
  shows "map g (update_rows P f rows) = map g rows"
  using assms by (simp add: update_rows_def)

lemma keyed_update_rows: "(\<And>r. key (f r) = key r) \<Longrightarrow> keyed key (update_rows P f rows) = keyed key rows"
  by (simp add: keyed_def map_update_rows)

lemma keyed_append_row:
  "keyed key (rows @ [r]) \<longleftrightarrow> keyed key rows \<and> key r \<notin> key ` set rows"
  by (auto simp: keyed_def)

lemma keyed_delete_rows: "keyed key rows \<Longrightarrow> keyed key (delete_rows P rows)"
  by (auto simp: keyed_def delete_rows_def distinct_map_filter)

lemma find_key_update_rows:
  assumes "\<And>r. key (f r) = key r"
  shows "find_key key k (update_rows P f rows)
           = map_option (\<lambda>r. if P r then f r else r) (find_key key k rows)"
  using assms by (induction rows) (auto simp: find_key_def find_first_def update_rows_def)

lemma find_key_append:
  "find_key key k (rows @ [r])
     = (case find_key key k rows of None \<Rightarrow> (if key r = k then Some r else None) | Some q \<Rightarrow> Some q)"
  by (induction rows) (auto simp: find_key_def find_first_def)

lemma count_rows_key:
  assumes "keyed key rows"
  shows "count_rows (\<lambda>r. key r = k \<and> P r) rows
           = (case find_key key k rows of None \<Rightarrow> 0 | Some r \<Rightarrow> if P r then 1 else 0)"
  using assms
proof (induction rows)
  case (Cons r rows)
  then have IH: "count_rows (\<lambda>r. key r = k \<and> P r) rows
           = (case find_key key k rows of None \<Rightarrow> 0 | Some r \<Rightarrow> if P r then 1 else 0)"
    and new: "key r \<notin> key ` set rows"
    by (auto simp: keyed_def)
  show ?case
  proof (cases "key r = k")
    case True
    with new have "find_key key k rows = None" by (simp add: row_simps)
    with IH True show ?thesis
      by (auto simp: count_rows_def find_key_def find_first_def)
  next
    case False
    with IH show ?thesis
      by (simp add: count_rows_def find_key_def find_first_def)
  qed
qed (simp add: count_rows_def find_key_def find_first_def)

section \<open>The contract of a table with a key\<close>

text \<open>
  What the services rely on when they change a row with \<open>updateMany\<close>: the \<open>where\<close> clause
  names the key and a guard, and the returned count says whether the guard held. The laws
  are those of any table whose key column is unique.
\<close>

locale row_store =
  fixes key :: "'r \<Rightarrow> 'k"
    and valid :: "'t \<Rightarrow> bool"
    and look :: "'k \<Rightarrow> 't \<Rightarrow> 'r option"
    and update_where :: "('r \<Rightarrow> bool) \<Rightarrow> ('r \<Rightarrow> 'r) \<Rightarrow> 't \<Rightarrow> 't"
    and count_where :: "('r \<Rightarrow> bool) \<Rightarrow> 't \<Rightarrow> nat"
  assumes look_key: "look k t = Some r \<Longrightarrow> key r = k"
    and valid_update: "valid t \<Longrightarrow> (\<And>r. key (f r) = key r) \<Longrightarrow> valid (update_where P f t)"
    and look_update: "(\<And>r. key (f r) = key r) \<Longrightarrow>
          look k (update_where P f t) = map_option (\<lambda>r. if P r then f r else r) (look k t)"
    and count_key: "valid t \<Longrightarrow>
          count_where (\<lambda>r. key r = k \<and> P r) t
            = (case look k t of None \<Rightarrow> 0 | Some r \<Rightarrow> if P r then 1 else 0)"
begin

lemma guard_hit:
  "valid t \<Longrightarrow> count_where (\<lambda>r. key r = k \<and> P r) t = 1 \<longleftrightarrow> (\<exists>r. look k t = Some r \<and> P r)"
  by (auto simp: count_key split: option.splits)

lemma guard_le_1: "valid t \<Longrightarrow> count_where (\<lambda>r. key r = k \<and> P r) t \<le> 1"
  by (auto simp: count_key split: option.splits)

lemma guarded_look_same:
  assumes "look k t = Some r" "P r" "\<And>r. key (f r) = key r"
  shows "look k (update_where (\<lambda>r. key r = k \<and> P r) f t) = Some (f r)"
  using assms look_key [OF assms(1)] by (simp add: look_update)

lemma guarded_look_other:
  assumes "k' \<noteq> k" "\<And>r. key (f r) = key r"
  shows "look k' (update_where (\<lambda>r. key r = k \<and> P r) f t) = look k' t"
  using assms by (auto simp: look_update map_option_case split: option.splits dest: look_key)

lemma guarded_miss:
  assumes "valid t" "count_where (\<lambda>r. key r = k \<and> P r) t \<noteq> 1" "\<And>r. key (f r) = key r"
  shows "look k' (update_where (\<lambda>r. key r = k \<and> P r) f t) = look k' t"
proof (cases "look k' t")
  case (Some r)
  with assms(2) have "\<not> (key r = k \<and> P r)"
    unfolding guard_hit [OF assms(1)] using look_key [OF Some] by auto
  with Some assms(3) show ?thesis by (auto simp: look_update)
qed (simp add: look_update assms(3))

text \<open>
  A guard that the update falsifies admits one caller: once the guarded update went
  through, the same guard no longer holds, whatever the second update would write.
\<close>

lemma guarded_once:
  assumes "valid t" "count_where (\<lambda>r. key r = k \<and> P r) t = 1"
    and key: "\<And>r. key (f r) = key r" and falsifies: "\<And>r. P r \<Longrightarrow> \<not> P (f r)"
  shows "count_where (\<lambda>r. key r = k \<and> P r) (update_where (\<lambda>r. key r = k \<and> P r) f t) = 0"
proof -
  from assms(2) obtain r where r: "look k t = Some r" "P r"
    unfolding guard_hit [OF assms(1)] by auto
  have "look k (update_where (\<lambda>r. key r = k \<and> P r) f t) = Some (f r)"
    using r key by (rule guarded_look_same)
  with assms(1) falsifies [OF r(2)] key show ?thesis
    by (simp add: count_key valid_update)
qed

end

text \<open>Lists of rows with distinct keys satisfy the contract, for every key column.\<close>

lemma list_row_store: "row_store key (keyed key) (find_key key) update_rows count_rows"
  by unfold_locales
     (auto simp: keyed_update_rows find_key_update_rows count_rows_key dest: find_key_SomeD)

end
