(* ===== verification/Json.thy ===== *)
theory Json
  imports Prelude
begin

text \<open>
  The JSON values that the services store and hash, and their canonical text.

  \<open>stable_json\<close> is \<open>stableJson\<close> of \<open>api/src/common/stable-json.ts\<close>; \<open>quote\<close> and
  \<open>show_int\<close> are what \<open>JSON.stringify\<close> does on strings and on integers. Numbers are
  integers here: no service of the model hashes a fraction. The main result,
  \<open>stable_json_iff_canonical\<close>, is that two values have the same text exactly when they are the
  same value up to the order of the members of an object and \<open>undefined\<close> read as \<open>null\<close>;
  the replay check of the operation ledger rests on it.
\<close>

section \<open>Values\<close>

datatype json =
    JUndefined
  | JNull
  | JBool bool
  | JNum int
  | JStr string
  | JArr "json list"
  | JObj "(string \<times> json) list"

definition json_opt :: "string option \<Rightarrow> json" where
  "json_opt s = (case s of None \<Rightarrow> JNull | Some x \<Rightarrow> JStr x)"

lemma size_member [termination_simp]:
  "(k, v) \<in> set kvs \<Longrightarrow> size v < Suc (size_list (size_prod (\<lambda>_. 0) size) kvs)"
  by (induction kvs) auto

section \<open>The canonical text\<close>

definition digit :: "nat \<Rightarrow> char" where
  "digit n = char_of (n + 48)"

fun show_nat :: "nat \<Rightarrow> string" where
  "show_nat n = (if n < 10 then [digit n] else show_nat (n div 10) @ [digit (n mod 10)])"

declare show_nat.simps [simp del]

definition show_int :: "int \<Rightarrow> string" where
  "show_int i = (if i < 0 then CHR ''-'' # show_nat (nat (- i)) else show_nat (nat i))"

definition hex_digit :: "nat \<Rightarrow> char" where
  "hex_digit n = (if n < 10 then char_of (n + 48) else char_of (n + 87))"

definition esc :: "char \<Rightarrow> string" where
  "esc c = (let n = (of_char c :: nat) in
     if n = 34 then [CHR 0x5C, CHR 0x22]
     else if n = 92 then [CHR 0x5C, CHR 0x5C]
     else if n = 8 then [CHR 0x5C, CHR ''b'']
     else if n = 9 then [CHR 0x5C, CHR ''t'']
     else if n = 10 then [CHR 0x5C, CHR ''n'']
     else if n = 12 then [CHR 0x5C, CHR ''f'']
     else if n = 13 then [CHR 0x5C, CHR ''r'']
     else if n < 32 then [CHR 0x5C, CHR ''u'', CHR ''0'', CHR ''0'', hex_digit (n div 16), hex_digit (n mod 16)]
     else [c])"

definition quote :: "string \<Rightarrow> string" where
  "quote s = [CHR 0x22] @ concat (map esc s) @ [CHR 0x22]"

fun join_with :: "char \<Rightarrow> string list \<Rightarrow> string" where
  "join_with c [] = []"
| "join_with c [s] = s"
| "join_with c (s # t # ss) = s @ [c] @ join_with c (t # ss)"

fun stable_json :: "json \<Rightarrow> string" where
  "stable_json JUndefined = ''null''"
| "stable_json JNull = ''null''"
| "stable_json (JBool b) = (if b then ''true'' else ''false'')"
| "stable_json (JNum i) = show_int i"
| "stable_json (JStr s) = quote s"
| "stable_json (JArr vs) = ''['' @ join_with (CHR '','') (map stable_json vs) @ '']''"
| "stable_json (JObj kvs) =
     ''{'' @ join_with (CHR '','')
       (map (\<lambda>(key, v). quote key @ '':'' @ stable_json v) (sort_key fst kvs)) @ ''}''"

text \<open>\<open>JSON.stringify\<close> itself: members in their order, without those that are \<open>undefined\<close>.\<close>

fun json_stringify :: "json \<Rightarrow> string" where
  "json_stringify JUndefined = ''null''"
| "json_stringify JNull = ''null''"
| "json_stringify (JBool b) = (if b then ''true'' else ''false'')"
| "json_stringify (JNum i) = show_int i"
| "json_stringify (JStr s) = quote s"
| "json_stringify (JArr vs) = ''['' @ join_with (CHR '','') (map json_stringify vs) @ '']''"
| "json_stringify (JObj kvs) =
     ''{'' @ join_with (CHR '','')
       (map (\<lambda>(key, v). quote key @ '':'' @ json_stringify v) (filter (\<lambda>(key, v). v \<noteq> JUndefined) kvs)) @ ''}''"

lemma stable_json_examples:
  "stable_json (JObj [(''b'', JNum (-12)), (''a'', JArr [JBool True, JUndefined])])
     = [CHR 0x7B, CHR 0x22, CHR ''a'', CHR 0x22, CHR '':'', CHR ''['', CHR ''t'', CHR ''r'', CHR ''u'', CHR ''e'',
        CHR '','', CHR ''n'', CHR ''u'', CHR ''l'', CHR ''l'', CHR '']'', CHR '','',
        CHR 0x22, CHR ''b'', CHR 0x22, CHR '':'', CHR ''-'', CHR ''1'', CHR ''2'', CHR 0x7D]"
  by code_simp

section \<open>The canonical text determines the value\<close>

text \<open>
  \<open>canonical\<close> sorts the members of every object and reads \<open>undefined\<close> as \<open>null\<close>;
  \<open>print_json\<close> prints a value as it stands. \<open>stable_json\<close> is their composition.
\<close>

fun canonical :: "json \<Rightarrow> json" where
  "canonical JUndefined = JNull"
| "canonical (JArr vs) = JArr (map canonical vs)"
| "canonical (JObj kvs) = JObj (map (\<lambda>(key, v). (key, canonical v)) (sort_key fst kvs))"
| "canonical v = v"

fun print_json :: "json \<Rightarrow> string" where
  "print_json JUndefined = ''null''"
| "print_json JNull = ''null''"
| "print_json (JBool b) = (if b then ''true'' else ''false'')"
| "print_json (JNum i) = show_int i"
| "print_json (JStr s) = quote s"
| "print_json (JArr vs) = ''['' @ join_with (CHR '','') (map print_json vs) @ '']''"
| "print_json (JObj kvs) =
     ''{'' @ join_with (CHR '','') (map (\<lambda>(key, v). quote key @ '':'' @ print_json v) kvs) @ ''}''"

fun defined :: "json \<Rightarrow> bool" where
  "defined JUndefined = False"
| "defined (JArr vs) = list_all defined vs"
| "defined (JObj kvs) = list_all (\<lambda>(_, v). defined v) kvs"
| "defined _ = True"

lemma defined_canonical: "defined (canonical v)"
  by (induction v rule: canonical.induct) (auto simp: list_all_iff)

lemma stable_json_canonical: "stable_json v = print_json (canonical v)"
proof (induction v rule: canonical.induct)
  case (2 vs)
  then have "map stable_json vs = map print_json (map canonical vs)" by simp
  then show ?case by (simp del: map_map map_eq_conv)
next
  case (3 kvs)
  then have "map (\<lambda>(key, v). quote key @ '':'' @ stable_json v) (sort_key fst kvs)
      = map (\<lambda>(key, v). quote key @ '':'' @ print_json v)
          (map (\<lambda>(key, v). (key, canonical v)) (sort_key fst kvs))"
    by (auto simp: case_prod_beta)
  then show ?case by (simp del: map_map map_eq_conv)
qed simp_all

subsection \<open>Numbers\<close>

definition is_digit :: "char \<Rightarrow> bool" where
  "is_digit c \<longleftrightarrow> 48 \<le> (of_char c :: nat) \<and> (of_char c :: nat) \<le> 57"

lemma of_char_digit: "n < 10 \<Longrightarrow> (of_char (digit n) :: nat) = n + 48"
  by (simp add: digit_def)

lemma is_digit_digit [simp]: "n < 10 \<Longrightarrow> is_digit (digit n)"
  by (simp add: is_digit_def of_char_digit)

definition read_nat :: "string \<Rightarrow> nat" where
  "read_nat s = foldl (\<lambda>n c. n * 10 + (of_char c - 48)) 0 s"

lemma read_nat_append_digit: "n < 10 \<Longrightarrow> read_nat (s @ [digit n]) = read_nat s * 10 + n"
  by (simp add: read_nat_def of_char_digit)

lemma read_show_nat: "read_nat (show_nat n) = n"
proof (induction n rule: show_nat.induct)
  case (1 n)
  show ?case
  proof (cases "n < 10")
    case True
    then show ?thesis
      by (subst show_nat.simps) (simp add: read_nat_def of_char_digit)
  next
    case False
    with 1 have "read_nat (show_nat (n div 10)) = n div 10" by simp
    with False show ?thesis
      by (subst show_nat.simps) (simp add: read_nat_append_digit)
  qed
qed

lemma show_nat_digits: "list_all is_digit (show_nat n)"
proof (induction n rule: show_nat.induct)
  case (1 n)
  then show ?case by (subst show_nat.simps) auto
qed

lemma show_nat_neq_Nil [simp]: "show_nat n \<noteq> []"
  by (subst show_nat.simps) simp

lemma show_nat_inj: "show_nat n = show_nat m \<longleftrightarrow> n = m"
  by (metis read_show_nat)

text \<open>A text that is followed by the end of the input or by a delimiter.\<close>

definition delim :: "string \<Rightarrow> bool" where
  "delim r \<longleftrightarrow> (case r of [] \<Rightarrow> True | c # _ \<Rightarrow> c = CHR '','' \<or> c = CHR '']'' \<or> c = CHR 0x7D)"

lemma delim_simps [simp]:
  "delim []"
  "delim (CHR '','' # r)" "delim (CHR '']'' # r)" "delim (CHR 0x7D # r)"
  by (simp_all add: delim_def)

lemma delim_not_digit: "delim (c # r) \<Longrightarrow> \<not> is_digit c"
  by (auto simp: delim_def is_digit_def)

lemma digits_prefix:
  assumes "s @ r = t @ r'" "list_all is_digit s" "list_all is_digit t" "delim r" "delim r'"
  shows "s = t \<and> r = r'"
  using assms
proof (induction s arbitrary: t)
  case Nil
  then show ?case by (cases t) (auto dest: delim_not_digit)
next
  case (Cons c s)
  then show ?case by (cases t) (auto dest: delim_not_digit)
qed

lemma show_int_prefix:
  assumes "show_int i @ r = show_int j @ r'" "delim r" "delim r'"
  shows "i = j \<and> r = r'"
proof -
  have minus: "\<not> is_digit (CHR ''-'')" by (simp add: is_digit_def)
  have no_minus: "show_nat n @ u \<noteq> CHR ''-'' # w" for n u w
    using show_nat_digits [of n] minus by (cases "show_nat n") auto
  show ?thesis
  proof (cases "i < 0"; cases "j < 0")
    assume "i < 0" "j < 0"
    with assms digits_prefix [OF _ show_nat_digits show_nat_digits, of "nat (- i)" r "nat (- j)" r']
    show ?thesis by (auto simp: show_int_def show_nat_inj)
  next
    assume "\<not> i < 0" "\<not> j < 0"
    with assms digits_prefix [OF _ show_nat_digits show_nat_digits, of "nat i" r "nat j" r']
    show ?thesis by (auto simp: show_int_def show_nat_inj)
  next
    assume "i < 0" "\<not> j < 0"
    with assms(1) show ?thesis
      using no_minus [of "nat j" r' "show_nat (nat (- i)) @ r"] by (auto simp: show_int_def)
  next
    assume "\<not> i < 0" "j < 0"
    with assms(1) show ?thesis
      using no_minus [of "nat i" r "show_nat (nat (- j)) @ r'"] by (auto simp: show_int_def)
  qed
qed

subsection \<open>Strings\<close>

text \<open>
  The escape of a character is prefix free and never starts with the closing quote, so the
  quoted text can be read back one character at a time.
\<close>

definition hex_value :: "char \<Rightarrow> nat" where
  "hex_value c = (if (of_char c :: nat) < 58 then of_char c - 48 else of_char c - 87)"

fun read_esc :: "string \<Rightarrow> (char \<times> string) option" where
  "read_esc [] = None"
| "read_esc [c] = (if c = CHR 0x5C then None else Some (c, []))"
| "read_esc (c # d # r) =
     (if c \<noteq> CHR 0x5C then Some (c, d # r)
      else if d = CHR ''b'' then Some (CHR 0x08, r)
      else if d = CHR ''t'' then Some (CHR 0x09, r)
      else if d = CHR ''n'' then Some (CHR 0x0A, r)
      else if d = CHR ''f'' then Some (CHR 0x0C, r)
      else if d = CHR ''r'' then Some (CHR 0x0D, r)
      else if d = CHR ''u'' then
        (case r of _ # _ # h # l # r' \<Rightarrow> Some (char_of (16 * hex_value h + hex_value l), r') | _ \<Rightarrow> None)
      else Some (d, r))"

lemma hex_value_hex_digit [simp]: "n < 16 \<Longrightarrow> hex_value (hex_digit n) = n"
  by (auto simp: hex_value_def hex_digit_def)

lemma of_char_eq_iff: "(of_char c :: nat) = of_char d \<longleftrightarrow> c = d"
  by simp

lemma esc_first: "\<exists>d ds. esc c = d # ds \<and> d \<noteq> CHR 0x22"
  by (auto simp: esc_def Let_def)

lemma read_esc_plain: "c \<noteq> CHR 0x5C \<Longrightarrow> read_esc (c # r) = Some (c, r)"
  by (cases r) auto

lemma char_by_code: "(of_char c :: nat) = of_char d \<Longrightarrow> c = d"
  by simp

lemma read_esc_esc: "read_esc (esc c @ r) = Some (c, r)"
proof -
  let ?n = "of_char c :: nat"
  consider "?n \<in> {8, 9, 10, 12, 13, 34, 92}" | "?n < 32" "?n \<notin> {8, 9, 10, 12, 13}"
    | "\<not> ?n < 32" "?n \<notin> {34, 92}"
    by auto
  then show ?thesis
  proof cases
    case 1
    then have "c = CHR 0x08 \<or> c = CHR 0x09 \<or> c = CHR 0x0A \<or> c = CHR 0x0C \<or> c = CHR 0x0D
        \<or> c = CHR 0x22 \<or> c = CHR 0x5C"
      by (auto intro!: char_by_code)
    then show ?thesis by (elim disjE) (simp_all add: esc_def)
  next
    case 2
    then have "esc c = [CHR 0x5C, CHR ''u'', CHR ''0'', CHR ''0'', hex_digit (?n div 16), hex_digit (?n mod 16)]"
      by (simp add: esc_def Let_def)
    moreover have "16 * (?n div 16) + ?n mod 16 = ?n" by simp
    ultimately show ?thesis using 2(1) by simp
  next
    case 3
    then have "esc c = [c]" "c \<noteq> CHR 0x5C"
      by (auto simp: esc_def Let_def)
    then show ?thesis by (simp add: read_esc_plain)
  qed
qed

lemma esc_prefix:
  assumes "esc c @ r = esc d @ r'"
  shows "c = d \<and> r = r'"
proof -
  have "Some (c, r) = read_esc (esc c @ r)" by (rule read_esc_esc [symmetric])
  also have "\<dots> = read_esc (esc d @ r')" by (simp only: assms)
  also have "\<dots> = Some (d, r')" by (rule read_esc_esc)
  finally show ?thesis by simp
qed

lemma body_prefix:
  "concat (map esc s) @ CHR 0x22 # r = concat (map esc t) @ CHR 0x22 # r' \<Longrightarrow> s = t \<and> r = r'"
proof (induction s arbitrary: t)
  case Nil
  show ?case
  proof (cases t)
    case (Cons d u)
    obtain e es where "esc d = e # es" "e \<noteq> CHR 0x22" using esc_first by blast
    with Nil Cons show ?thesis by simp
  qed (use Nil in simp)
next
  case (Cons c s)
  show ?case
  proof (cases t)
    case Nil
    obtain e es where "esc c = e # es" "e \<noteq> CHR 0x22" using esc_first by blast
    with Cons.prems Nil show ?thesis by simp
  next
    case t: (Cons d u)
    with Cons.prems have "esc c @ concat (map esc s) @ CHR 0x22 # r
        = esc d @ concat (map esc u) @ CHR 0x22 # r'" by simp
    from esc_prefix [OF this] have "c = d"
      and "concat (map esc s) @ CHR 0x22 # r = concat (map esc u) @ CHR 0x22 # r'" by auto
    with Cons.IH t show ?thesis by blast
  qed
qed

lemma quote_prefix: "quote s @ r = quote t @ r' \<Longrightarrow> s = t \<and> r = r'"
  using body_prefix [of s r t r'] by (simp add: quote_def)

subsection \<open>Values\<close>

text \<open>The first character of a text tells the kind of the value.\<close>

lemma quote_first: "\<exists>w. quote s = CHR 0x22 # w"
  by (simp add: quote_def)

lemma show_int_first: "\<exists>c w. show_int i = c # w \<and> (c = CHR ''-'' \<or> is_digit c)"
proof -
  have "\<exists>c w. show_nat n = c # w \<and> is_digit c" for n
    using show_nat_digits [of n] by (cases "show_nat n") auto
  from this [of "nat i"] show ?thesis by (auto simp: show_int_def)
qed

text \<open>A separated list of prefix-free texts, each followed by a delimiter, is prefix free.\<close>

definition tail_text :: "('x \<Rightarrow> string) \<Rightarrow> 'x list \<Rightarrow> string" where
  "tail_text p xs = concat (map (\<lambda>x. CHR '','' # p x) xs)"

lemma join_with_tail: "join_with (CHR '','') (map p (x # xs)) = p x @ tail_text p xs"
  by (induction xs arbitrary: x) (auto simp: tail_text_def)

lemma delim_tail: "delim (e # r) \<Longrightarrow> delim (tail_text p xs @ e # r)"
  by (cases xs) (auto simp: tail_text_def)

lemma tail_prefix:
  assumes elems: "\<And>x y u u'. x \<in> set xs \<Longrightarrow> y \<in> Y \<Longrightarrow> p x @ u = p y @ u' \<Longrightarrow>
                    delim u \<Longrightarrow> delim u' \<Longrightarrow> x = y \<and> u = u'"
    and e: "e \<noteq> CHR '',''" "\<And>w. delim (e # w)"
    and ys: "set ys \<subseteq> Y"
    and eq: "tail_text p xs @ e # r = tail_text p ys @ e # r'"
  shows "xs = ys \<and> r = r'"
  using elems ys eq
proof (induction xs arbitrary: ys)
  case Nil
  with e(1) show ?case by (cases ys) (auto simp: tail_text_def)
next
  case (Cons x xs)
  show ?case
  proof (cases ys)
    case Nil
    with Cons.prems(3) e(1) show ?thesis by (auto simp: tail_text_def)
  next
    case y: (Cons y zs)
    let ?u = "tail_text p xs @ e # r" and ?u' = "tail_text p zs @ e # r'"
    from Cons.prems(3) y have "p x @ ?u = p y @ ?u'" by (simp add: tail_text_def)
    moreover have "delim ?u" "delim ?u'" by (rule delim_tail [OF e(2)])+
    ultimately have "x = y \<and> ?u = ?u'"
      using Cons.prems(1) [of x y ?u ?u'] Cons.prems(2) y by auto
    moreover from this Cons.IH [of zs] Cons.prems(1,2) y have "xs = zs \<and> r = r'" by auto
    ultimately show ?thesis using y by simp
  qed
qed

lemma join_with_prefix:
  assumes elems: "\<And>x y u u'. x \<in> set xs \<Longrightarrow> y \<in> set ys \<Longrightarrow> p x @ u = p y @ u' \<Longrightarrow>
                    delim u \<Longrightarrow> delim u' \<Longrightarrow> x = y \<and> u = u'"
    and e: "e \<noteq> CHR '',''" "\<And>w. delim (e # w)"
    and first: "\<And>x. \<exists>c w. p x = c # w \<and> c \<noteq> e"
    and eq: "join_with (CHR '','') (map p xs) @ e # r = join_with (CHR '','') (map p ys) @ e # r'"
  shows "xs = ys \<and> r = r'"
proof (cases xs)
  case Nil
  with eq first [of "hd ys"] show ?thesis
    by (cases ys) (auto simp: join_with_tail simp del: list.map(2))
next
  case x: (Cons x xs')
  show ?thesis
  proof (cases ys)
    case Nil
    with eq x first [of x] show ?thesis by (auto simp: join_with_tail simp del: list.map(2))
  next
    case y: (Cons y ys')
    let ?u = "tail_text p xs' @ e # r" and ?u' = "tail_text p ys' @ e # r'"
    from eq x y have "p x @ ?u = p y @ ?u'"
      by (simp add: join_with_tail del: list.map(2))
    moreover have "delim ?u" "delim ?u'" by (rule delim_tail [OF e(2)])+
    ultimately have hd: "x = y" and tl: "?u = ?u'" using elems [of x y ?u ?u'] x y by auto
    have "xs' = ys' \<and> r = r'"
      by (rule tail_prefix [where Y = "set ys", OF _ e _ tl]) (use elems x y in auto)
    with hd x y show ?thesis by simp
  qed
qed

lemma print_json_first: "\<exists>c w. print_json v = c # w \<and> c \<noteq> CHR '']'' \<and> c \<noteq> CHR 0x7D"
proof (cases v)
  case (JNum i)
  then show ?thesis using show_int_first [of i] by (auto simp: is_digit_def)
qed (auto simp: quote_def)

text \<open>The kind of the value from the first character of its text.\<close>

definition json_kind :: "json \<Rightarrow> nat" where
  "json_kind v = (case v of JUndefined \<Rightarrow> 0 | JNull \<Rightarrow> 0 | JBool b \<Rightarrow> (if b then 1 else 2) | JNum _ \<Rightarrow> 3
     | JStr _ \<Rightarrow> 4 | JArr _ \<Rightarrow> 5 | JObj _ \<Rightarrow> 6)"

definition first_kind :: "char \<Rightarrow> nat" where
  "first_kind c = (if c = CHR ''n'' then 0 else if c = CHR ''t'' then 1 else if c = CHR ''f'' then 2
     else if c = CHR 0x22 then 4 else if c = CHR ''['' then 5 else if c = CHR 0x7B then 6 else 3)"

lemma first_kind_digit: "is_digit c \<Longrightarrow> first_kind c = 3"
  by (auto simp: is_digit_def first_kind_def)

lemma print_json_kind: "\<exists>c w. print_json v = c # w \<and> first_kind c = json_kind v"
proof (cases v)
  case (JNum i)
  obtain c w where c: "show_int i = c # w" "c = CHR ''-'' \<or> is_digit c"
    using show_int_first by blast
  have "first_kind (CHR ''-'') = 3" by (simp add: first_kind_def)
  with c(2) first_kind_digit have "first_kind c = 3" by blast
  with c(1) JNum show ?thesis by (simp add: json_kind_def)
qed (auto simp: quote_def first_kind_def json_kind_def)

lemma print_json_same_kind:
  assumes "print_json v @ r = print_json w @ r'"
  shows "json_kind v = json_kind w"
proof -
  obtain c x d y where "print_json v = c # x" "first_kind c = json_kind v"
    "print_json w = d # y" "first_kind d = json_kind w"
    using print_json_kind [of v] print_json_kind [of w] by auto
  with assms show ?thesis by simp
qed

lemma print_json_prefix:
  assumes "defined v" "defined w" "print_json v @ r = print_json w @ r'" "delim r" "delim r'"
  shows "v = w \<and> r = r'"
  using assms
proof (induction v arbitrary: w r r')
  case JUndefined
  then show ?case by simp
next
  case JNull
  from print_json_same_kind [OF JNull(3)] JNull show ?case
    by (cases w) (auto simp: json_kind_def split: if_splits)
next
  case (JBool b)
  from print_json_same_kind [OF JBool(3)] JBool show ?case
    by (cases w) (auto simp: json_kind_def split: if_splits)
next
  case (JNum i)
  from print_json_same_kind [OF JNum(3)] obtain j where "w = JNum j"
    by (cases w) (auto simp: json_kind_def split: if_splits)
  with JNum show_int_prefix [of i r j r'] show ?case by simp
next
  case (JStr s)
  from print_json_same_kind [OF JStr(3)] obtain t where "w = JStr t"
    by (cases w) (auto simp: json_kind_def split: if_splits)
  with JStr quote_prefix [of s r t r'] show ?case by simp
next
  case (JArr vs)
  from print_json_same_kind [OF JArr.prems(3)] obtain ws where w: "w = JArr ws"
    by (cases w) (auto simp: json_kind_def split: if_splits)
  have "vs = ws \<and> r = r'"
  proof (rule join_with_prefix [where p = print_json and e = "CHR '']''"])
    fix x y u u'
    assume "x \<in> set vs" "y \<in> set ws" "print_json x @ u = print_json y @ u'" "delim u" "delim u'"
    with JArr.IH [of x y u u'] JArr.prems(1,2) w show "x = y \<and> u = u'"
      by (auto simp: list_all_iff)
  next
    show "\<exists>c u. print_json x = c # u \<and> c \<noteq> CHR '']''" for x
      using print_json_first [of x] by blast
  qed (use JArr.prems(3) w in auto)
  with w show ?case by simp
next
  case (JObj kvs)
  from print_json_same_kind [OF JObj.prems(3)] obtain ws where w: "w = JObj ws"
    by (cases w) (auto simp: json_kind_def split: if_splits)
  let ?p = "\<lambda>(key, v). quote key @ '':'' @ print_json v"
  have "kvs = ws \<and> r = r'"
  proof (rule join_with_prefix [where p = ?p and e = "CHR 0x7D"])
    fix x y u u'
    assume xy: "x \<in> set kvs" "y \<in> set ws" "?p x @ u = ?p y @ u'" "delim u" "delim u'"
    obtain k v where x: "x = (k, v)" by (cases x)
    obtain l z where y: "y = (l, z)" by (cases y)
    from xy(3) x y quote_prefix [of k "'':'' @ print_json v @ u" l "'':'' @ print_json z @ u'"]
    have "k = l" "print_json v @ u = print_json z @ u'" by auto
    moreover have "defined v" "defined z"
      using JObj.prems(1,2) xy(1,2) w x y by (auto simp: list_all_iff)
    ultimately show "x = y \<and> u = u'"
      using JObj.IH [of x v z u u'] xy x y by auto
  next
    show "\<exists>c u. ?p x = c # u \<and> c \<noteq> CHR 0x7D" for x
      by (cases x) (simp add: quote_def)
  qed (use JObj.prems(3) w in auto)
  with w show ?case by simp
qed

lemma length_esc: "1 \<le> length (esc c) \<and> length (esc c) \<le> 6"
  by (simp add: esc_def Let_def)

lemma length_quote: "length s + 2 \<le> length (quote s) \<and> length (quote s) \<le> 6 * length s + 2"
proof -
  have "length s \<le> length (concat (map esc s)) \<and> length (concat (map esc s)) \<le> 6 * length s"
  proof (induction s)
    case (Cons c s)
    then show ?case using length_esc [of c] by simp
  qed simp
  then show ?thesis by (simp add: quote_def)
qed

lemma print_json_inj: "defined v \<Longrightarrow> defined w \<Longrightarrow> print_json v = print_json w \<Longrightarrow> v = w"
  using print_json_prefix [of v w "[]" "[]"] by simp

lemma stable_json_iff_canonical: "stable_json v = stable_json w \<longleftrightarrow> canonical v = canonical w"
  by (auto simp: stable_json_canonical defined_canonical intro: print_json_inj)

end
