(* ===== verification/Patterns.thy ===== *)
theory Patterns
  imports Prelude "HOL-Library.Sublist"
begin

text \<open>
  The regular expressions of the source, with a matcher.

  Every pattern that the services test is anchored (\<open>/^ ... $/\<close> without the flag \<open>m\<close>, so
  \<open>$\<close> is the end of the input) and is transcribed literally into \<open>rx\<close>. \<open>rx_test\<close> decides a
  match by derivatives; \<open>rx_test_iff\<close> is its correctness against the language of the pattern.
  Unanchored searches are \<open>rx_search\<close>; the flag \<open>i\<close> is \<open>rx_search_ci\<close>, for patterns written
  in lower case.
\<close>

section \<open>Patterns and their language\<close>

datatype rx =
    Never
  | Empty
  | Cls "char \<Rightarrow> bool"
  | Cat rx rx
  | Alt rx rx
  | Star rx
  | Rep nat nat rx

definition conc :: "string set \<Rightarrow> string set \<Rightarrow> string set" where
  "conc A B = {s @ t | s t. s \<in> A \<and> t \<in> B}"

primrec pow :: "string set \<Rightarrow> nat \<Rightarrow> string set" where
  "pow A 0 = {[]}"
| "pow A (Suc n) = conc A (pow A n)"

primrec lang :: "rx \<Rightarrow> string set" where
  "lang Never = {}"
| "lang Empty = {[]}"
| "lang (Cls P) = {[c] | c. P c}"
| "lang (Cat r q) = conc (lang r) (lang q)"
| "lang (Alt r q) = lang r \<union> lang q"
| "lang (Star r) = (\<Union>n. pow (lang r) n)"
| "lang (Rep m n r) = (\<Union>k \<in> {m..n}. pow (lang r) k)"

section \<open>The matcher\<close>

primrec nullable :: "rx \<Rightarrow> bool" where
  "nullable Never = False"
| "nullable Empty = True"
| "nullable (Cls P) = False"
| "nullable (Cat r q) = (nullable r \<and> nullable q)"
| "nullable (Alt r q) = (nullable r \<or> nullable q)"
| "nullable (Star r) = True"
| "nullable (Rep m n r) = (m \<le> n \<and> (m = 0 \<or> nullable r))"

fun cat :: "rx \<Rightarrow> rx \<Rightarrow> rx" where
  "cat Never q = Never"
| "cat Empty q = q"
| "cat r q = Cat r q"

fun alt :: "rx \<Rightarrow> rx \<Rightarrow> rx" where
  "alt Never q = q"
| "alt r Never = r"
| "alt r q = Alt r q"

primrec deriv :: "char \<Rightarrow> rx \<Rightarrow> rx" where
  "deriv c Never = Never"
| "deriv c Empty = Never"
| "deriv c (Cls P) = (if P c then Empty else Never)"
| "deriv c (Cat r q) =
     (if nullable r then alt (cat (deriv c r) q) (deriv c q) else cat (deriv c r) q)"
| "deriv c (Alt r q) = alt (deriv c r) (deriv c q)"
| "deriv c (Star r) = cat (deriv c r) (Star r)"
| "deriv c (Rep m n r) = (if n = 0 then Never else cat (deriv c r) (Rep (m - 1) (n - 1) r))"

fun rx_test :: "rx \<Rightarrow> string \<Rightarrow> bool" where
  "rx_test r [] = nullable r"
| "rx_test r (c # s) = rx_test (deriv c r) s"

definition any_char :: rx where
  "any_char = Cls (\<lambda>c. True)"

definition rx_search :: "rx \<Rightarrow> string \<Rightarrow> bool" where
  "rx_search r s = rx_test (Cat (Star any_char) (Cat r (Star any_char))) s"

definition rx_search_ci :: "rx \<Rightarrow> string \<Rightarrow> bool" where
  "rx_search_ci r s = rx_search r (map to_lower s)"

fun lit :: "string \<Rightarrow> rx" where
  "lit [] = Empty"
| "lit [c] = Cls (\<lambda>d. d = c)"
| "lit (c # s) = Cat (Cls (\<lambda>d. d = c)) (lit s)"

fun cats :: "rx list \<Rightarrow> rx" where
  "cats [] = Empty"
| "cats [r] = r"
| "cats (r # rs) = Cat r (cats rs)"

fun alts :: "rx list \<Rightarrow> rx" where
  "alts [] = Never"
| "alts [r] = r"
| "alts (r # rs) = Alt r (alts rs)"

definition plus :: "rx \<Rightarrow> rx" where
  "plus r = Cat r (Star r)"

definition opt :: "rx \<Rightarrow> rx" where
  "opt r = Alt r Empty"

section \<open>Correctness of the matcher\<close>

definition left :: "char \<Rightarrow> string set \<Rightarrow> string set" where
  "left c A = {s. c # s \<in> A}"

lemma in_conc: "s \<in> conc A B \<longleftrightarrow> (\<exists>u v. s = u @ v \<and> u \<in> A \<and> v \<in> B)"
  by (auto simp: conc_def)

lemma conc_simps [simp]: "conc {} B = {}" "conc {[]} B = B"
  by (auto simp: conc_def)

lemma lang_cat: "lang (cat r q) = conc (lang r) (lang q)"
  by (cases r) auto

lemma lang_alt: "lang (alt r q) = lang r \<union> lang q"
  by (cases r; cases q) auto

lemma left_conc:
  "left c (conc A B) = conc (left c A) B \<union> (if [] \<in> A then left c B else {})"
proof -
  have "s \<in> left c (conc A B) \<longleftrightarrow> s \<in> conc (left c A) B \<union> (if [] \<in> A then left c B else {})" for s
    by (auto simp: left_def in_conc Cons_eq_append_conv)
  then show ?thesis by blast
qed

lemma Nil_pow: "[] \<in> pow A n \<longleftrightarrow> n = 0 \<or> [] \<in> A"
  by (induction n) (auto simp: in_conc)

lemma nullable_iff: "nullable r \<longleftrightarrow> [] \<in> lang r"
  by (induction r) (auto simp: in_conc Nil_pow)

lemma conc_mono: "B \<subseteq> C \<Longrightarrow> conc A B \<subseteq> conc A C"
  by (auto simp: conc_def)

lemma pow_mono_Suc:
  assumes "[] \<in> A"
  shows "pow A k \<subseteq> pow A (Suc k)"
proof
  fix s assume "s \<in> pow A k"
  with assms have "[] @ s \<in> conc A (pow A k)" unfolding in_conc by blast
  then show "s \<in> pow A (Suc k)" by simp
qed

lemma left_pow: "left c (pow A (Suc k)) = conc (left c A) (pow A k)"
proof (induction k)
  case 0
  show ?case by (auto simp: left_conc) (simp add: left_def)
next
  case (Suc k)
  have sub: "conc (left c A) (pow A k) \<subseteq> conc (left c A) (pow A (Suc k))" if "[] \<in> A"
    by (rule conc_mono [OF pow_mono_Suc [OF that]])
  have "left c (pow A (Suc (Suc k)))
      = conc (left c A) (pow A (Suc k)) \<union> (if [] \<in> A then left c (pow A (Suc k)) else {})"
    by (subst pow.simps(2)) (rule left_conc)
  also have "\<dots> = conc (left c A) (pow A (Suc k))"
    using Suc.IH sub by (auto simp del: pow.simps)
  finally show ?case .
qed

lemma left_UN: "left c (\<Union>x \<in> X. F x) = (\<Union>x \<in> X. left c (F x))"
  by (auto simp: left_def)

lemma conc_UN: "conc A (\<Union>x \<in> X. F x) = (\<Union>x \<in> X. conc A (F x))"
  unfolding conc_def by blast

lemma left_star: "left c (\<Union>n. pow A n) = conc (left c A) (\<Union>n. pow A n)"
proof -
  have "(\<Union>n. pow A n) = {[]} \<union> (\<Union>n. pow A (Suc n))"
    (is "?P = ?Q")
  proof
    show "?P \<subseteq> ?Q"
    proof
      fix s assume "s \<in> ?P"
      then obtain n where "s \<in> pow A n" by blast
      then show "s \<in> ?Q" by (cases n) (auto simp del: pow.simps(2))
    qed
    have "[] \<in> pow A 0" by simp
    then show "?Q \<subseteq> ?P" by blast
  qed
  then have "left c (\<Union>n. pow A n) = (\<Union>n. left c (pow A (Suc n)))"
    by (auto simp: left_def simp del: pow.simps)
  then show ?thesis by (simp add: left_pow conc_UN del: pow.simps)
qed

lemma left_rep:
  "left c (\<Union>k \<in> {m..n}. pow A k)
     = (if n = 0 then {} else conc (left c A) (\<Union>k \<in> {m - 1..n - 1}. pow A k))"
proof (cases n)
  case 0
  then show ?thesis by (auto simp: left_def)
next
  case (Suc n')
  have zero: "left c (pow A 0) = {}" by (simp add: left_def)
  have "left c (\<Union>k \<in> {m..n}. pow A k) = (\<Union>k \<in> Suc ` {m - 1..n - 1}. left c (pow A k))"
    (is "?L = ?R")
  proof
    show "?L \<subseteq> ?R"
    proof
      fix s assume "s \<in> ?L"
      then obtain k where k: "k \<in> {m..n}" "s \<in> left c (pow A k)" unfolding left_UN by blast
      with zero obtain j where "k = Suc j" by (cases k) auto
      with k Suc show "s \<in> ?R" by force
    qed
    have "Suc j \<in> {m..n}" if "j \<in> {m - 1..n - 1}" for j using that Suc by auto
    then show "?R \<subseteq> ?L" unfolding left_UN by blast
  qed
  also have "\<dots> = (\<Union>k \<in> {m - 1..n - 1}. conc (left c A) (pow A k))"
    unfolding UN_simps left_pow by blast
  finally show ?thesis using Suc by (simp add: conc_UN)
qed

lemma lang_deriv: "lang (deriv c r) = left c (lang r)"
proof (induction r)
  case (Cat r q)
  then show ?case by (simp add: lang_cat lang_alt left_conc nullable_iff)
next
  case (Star r)
  then show ?case by (simp add: lang_cat left_star)
next
  case (Rep m n r)
  then show ?case by (simp add: lang_cat left_rep)
qed (auto simp: left_def lang_alt)

theorem rx_test_iff: "rx_test r s \<longleftrightarrow> s \<in> lang r"
  by (induction s arbitrary: r) (simp_all add: nullable_iff lang_deriv left_def)

declare rx_test.simps [simp del]

section \<open>Character classes and the patterns of the services\<close>

definition lower :: "char \<Rightarrow> bool" where "lower c = (CHR ''a'' \<le> c \<and> c \<le> CHR ''z'')"
definition upper :: "char \<Rightarrow> bool" where "upper c = (CHR ''A'' \<le> c \<and> c \<le> CHR ''Z'')"
definition digit_char :: "char \<Rightarrow> bool" where "digit_char c = (CHR ''0'' \<le> c \<and> c \<le> CHR ''9'')"
definition hex_lower :: "char \<Rightarrow> bool" where
  "hex_lower c = (digit_char c \<or> (CHR ''a'' \<le> c \<and> c \<le> CHR ''f''))"
definition printable :: "char \<Rightarrow> bool" where "printable c = (CHR 0x21 \<le> c \<and> c \<le> CHR 0x7E)"

text \<open>\<open>/^[0-9a-f]{8}-[0-9a-f]{4}-[1-8][0-9a-f]{3}-[89ab][0-9a-f]{3}-[0-9a-f]{12}$/\<close>\<close>

definition UUID :: rx where
  "UUID = cats [Rep 8 8 (Cls hex_lower), lit ''-'', Rep 4 4 (Cls hex_lower), lit ''-'',
     Cls (\<lambda>c. CHR ''1'' \<le> c \<and> c \<le> CHR ''8''), Rep 3 3 (Cls hex_lower), lit ''-'',
     Cls (\<lambda>c. c \<in> set ''89ab''), Rep 3 3 (Cls hex_lower), lit ''-'', Rep 12 12 (Cls hex_lower)]"

text \<open>\<open>/^[a-z][a-z0-9]*(?:\.[a-z0-9_-]+)+$/\<close>\<close>

definition ACTION_ID :: rx where
  "ACTION_ID = cats [Cls lower, Star (Cls (\<lambda>c. lower c \<or> digit_char c)),
     plus (Cat (lit ''.'') (plus (Cls (\<lambda>c. lower c \<or> digit_char c \<or> c \<in> set ''_-''))))]"

text \<open>\<open>/^[A-Za-z0-9._:-]{8,128}$/\<close>, for idempotency keys and lease owners.\<close>

definition safe_id_char :: "char \<Rightarrow> bool" where
  "safe_id_char c = (upper c \<or> lower c \<or> digit_char c \<or> c \<in> set ''._:-'')"

definition IDEMPOTENCY_KEY :: rx where
  "IDEMPOTENCY_KEY = Rep 8 128 (Cls safe_id_char)"

text \<open>\<open>/^[a-z][a-z0-9:-]{0,63}$/\<close>\<close>

definition GLOBAL_LOCK_KEY :: rx where
  "GLOBAL_LOCK_KEY = Cat (Cls lower) (Rep 0 63 (Cls (\<lambda>c. lower c \<or> digit_char c \<or> c \<in> set '':-'')))"

text \<open>\<open>/^[\x21-\x7e]{8,128}$/\<close> of the admission service.\<close>

definition ADMISSION_KEY :: rx where
  "ADMISSION_KEY = Rep 8 128 (Cls printable)"

lemma uuid_example: "rx_test UUID ''0b9f2c1e-7d3a-4c55-9a10-0123456789ab''"
  by code_simp

lemma action_id_example: "rx_test ACTION_ID ''sites.backup-run''" "\<not> rx_test ACTION_ID ''sites''"
  by code_simp+

text \<open>A bounded repetition of one class is a length check and a check of every character.\<close>

lemma pow_Cls: "pow {[c] | c. P c} n = {s. length s = n \<and> list_all P s}"
proof (induction n)
  case (Suc n)
  have "conc {[c] | c. P c} B = {c # s | c s. P c \<and> s \<in> B}" for B
  proof -
    have "s \<in> conc {[c] | c. P c} B \<longleftrightarrow> (\<exists>c t. s = c # t \<and> P c \<and> t \<in> B)" for s
    proof
      assume "\<exists>c t. s = c # t \<and> P c \<and> t \<in> B"
      then obtain c t where "s = [c] @ t" "[c] \<in> {[c] | c. P c}" "t \<in> B" by auto
      then show "s \<in> conc {[c] | c. P c} B" unfolding in_conc by blast
    qed (auto simp: in_conc)
    then show ?thesis by blast
  qed
  with Suc show ?case
    by (auto simp: length_Suc_conv)
qed auto

lemma rx_test_Rep_Cls:
  "rx_test (Rep m n (Cls P)) s \<longleftrightarrow> m \<le> length s \<and> length s \<le> n \<and> list_all P s"
  by (auto simp: rx_test_iff pow_Cls)

lemma rx_test_plus_Cls: "rx_test (plus (Cls P)) s \<longleftrightarrow> s \<noteq> [] \<and> list_all P s"
proof -
  have "s \<in> lang (plus (Cls P)) \<longleftrightarrow> (\<exists>c t. s = c # t \<and> P c \<and> list_all P t)"
    unfolding plus_def by (auto simp: in_conc pow_Cls) (metis append_Cons append_Nil)
  then show ?thesis unfolding rx_test_iff by (cases s) auto
qed

section \<open>Searches as substrings\<close>

lemma conc_single: "conc {u} {v} = {u @ v}"
  by (simp add: conc_def)

lemma lang_Cls_single: "lang (Cls (\<lambda>d. d = c)) = {[c]}"
  by auto

lemma lang_lit: "lang (lit w) = {w}"
  by (induction w rule: lit.induct)
     (simp_all only: lit.simps lang.simps(2,4) lang_Cls_single conc_single append_Cons append_Nil)

lemma lang_any: "lang (Star any_char) = UNIV"
proof -
  have "s \<in> pow {[c] | c. True} (length s)" for s :: string
    using pow_Cls [of "\<lambda>_. True"] by (simp add: list_all_iff)
  then have "s \<in> lang (Star any_char)" for s unfolding lang.simps any_char_def by blast
  then show ?thesis by blast
qed

lemma rx_search_iff: "rx_search r s \<longleftrightarrow> (\<exists>b. sublist b s \<and> b \<in> lang r)"
proof -
  have "rx_search r s \<longleftrightarrow> (\<exists>a b c. s = a @ b @ c \<and> b \<in> lang r)"
    unfolding rx_search_def rx_test_iff lang.simps(4) in_conc lang_any by blast
  then show ?thesis by (auto simp: sublist_def)
qed

lemma lang_alts: "lang (alts rs) = (\<Union>r \<in> set rs. lang r)"
  by (induction rs rule: alts.induct) auto

end
