(* ===== verification/Persisted_Json.thy ===== *)
theory Persisted_Json
  imports Json Patterns
begin

text \<open>
  What may be written to the database in clear: \<open>assertNoSecretFields\<close> of
  \<open>api/src/common/safe-persisted-json.ts\<close>, which refuses an object that has, at any depth, a
  member whose name looks like a credential, and the errors the services raise.
\<close>

section \<open>Errors\<close>

text \<open>
  The HTTP exceptions of the services by class, with their message; \<open>ConflictWith\<close> is a
  \<open>ConflictException\<close> whose body carries the conflicting operation or backup. \<open>Plain\<close> is an
  \<open>Error\<close>; \<open>NeedsAttention\<close>, \<open>OperationFailed\<close> and \<open>OperationCancelled\<close> are the classes of errors that
  decide how the worker ends an operation, and \<open>HttpError\<close> is an \<open>HttpException\<close> with its status.
  \<open>DbFault\<close> is an error that the database client raises: its code, the code and
  the error of its \<open>meta\<close>, and its message.
\<close>

record db_error =
  err_code :: string
  err_meta_code :: "string option"
  err_meta_error :: "string option"
  err_message :: string

datatype exn =
    Conflict string
  | ConflictWith string json
  | Forbidden string
  | NotFound string
  | BadRequest string
  | Gone string
  | Unauthorized string
  | TooMany string
  | Unavailable string
  | Plain string
  | NeedsAttention string
  | OperationFailed string
  | OperationCancelled
  | HttpError nat string
  | DbFault db_error

text \<open>An operation of a service returns an error or a value, and the state it leaves.\<close>

type_synonym ('a, 's) outcome = "(exn + 'a) \<times> 's"

text \<open>
  \<open>prisma.$transaction\<close>: the state of the body when it returns, the state before when it
  throws, and no effect when the database client itself raises an error.
\<close>

definition transaction :: "db_error option \<Rightarrow> ('s \<Rightarrow> ('a, 's) outcome) \<Rightarrow> 's \<Rightarrow> ('a, 's) outcome" where
  "transaction fault body s =
     (case fault of
        Some e \<Rightarrow> (Inl (DbFault e), s)
      | None \<Rightarrow> (case body s of (Inl e, _) \<Rightarrow> (Inl e, s) | (Inr v, s') \<Rightarrow> (Inr v, s')))"

lemma transaction_error: "fst (transaction fault body s) = Inl e \<Longrightarrow> snd (transaction fault body s) = s"
  by (auto simp: transaction_def split: option.splits prod.splits sum.splits)

lemma transaction_ok:
  "transaction fault body s = (Inr v, s') \<longleftrightarrow> fault = None \<and> body s = (Inr v, s')"
  by (auto simp: transaction_def split: option.splits prod.splits sum.splits)

section \<open>Names that look like a credential\<close>

text \<open>\<open>/(password|secret|token|credential|private.?key|envvars)/i\<close>\<close>

definition SECRET_NAME :: rx where
  "SECRET_NAME = alts [lit ''password'', lit ''secret'', lit ''token'', lit ''credential'',
     cats [lit ''private'', opt (Cls (\<lambda>c. c \<noteq> CHR 0x0A \<and> c \<noteq> CHR 0x0D)), lit ''key''], lit ''envvars'']"

definition secret_name :: "string \<Rightarrow> bool" where
  "secret_name key = rx_search_ci SECRET_NAME key"

definition ends_with :: "string \<Rightarrow> string \<Rightarrow> bool" where
  "ends_with s t = (length t \<le> length s \<and> drop (length s - length t) s = t)"

text \<open>\<open>/^[a-z][a-z0-9.-]{1,255}$/\<close> below \<open>.manifest.actions\<close>\<close>

definition CATALOGUE_KEY :: rx where
  "CATALOGUE_KEY = Cat (Cls lower) (Rep 1 255 (Cls (\<lambda>c. lower c \<or> digit_char c \<or> c \<in> set ''.-'')))"

definition action_catalogue_key :: "string \<Rightarrow> string \<Rightarrow> bool" where
  "action_catalogue_key path key = (ends_with path ''.manifest.actions'' \<and> rx_test CATALOGUE_KEY key)"

text \<open>
  The recursion of \<open>assertNoSecretFields\<close>: \<open>None\<close> when it returns, \<open>Some m\<close> when it throws
  the error \<open>m\<close>. \<open>no_secret_items\<close> is its \<open>forEach\<close> over an array from index \<open>i\<close>, and
  \<open>no_secret_entries\<close> its loop over \<open>Object.entries\<close>.
\<close>

fun assertNoSecretFields :: "string \<Rightarrow> json \<Rightarrow> string option"
  and no_secret_items :: "string \<Rightarrow> nat \<Rightarrow> json list \<Rightarrow> string option"
  and no_secret_entries :: "string \<Rightarrow> (string \<times> json) list \<Rightarrow> string option"
where
  "assertNoSecretFields path (JArr vs) = no_secret_items path 0 vs"
| "assertNoSecretFields path (JObj kvs) = no_secret_entries path kvs"
| "assertNoSecretFields path _ = None"
| "no_secret_items path i [] = None"
| "no_secret_items path i (v # vs) =
     (case assertNoSecretFields (path @ ''['' @ show_nat i @ '']'') v of
        Some m \<Rightarrow> Some m
      | None \<Rightarrow> no_secret_items path (Suc i) vs)"
| "no_secret_entries path [] = None"
| "no_secret_entries path ((key, v) # kvs) =
     (if secret_name key \<and> \<not> action_catalogue_key path key
      then Some (path @ '' contains forbidden secret field: '' @ path @ ''.'' @ key)
      else case assertNoSecretFields (path @ ''.'' @ key) v of
        Some m \<Rightarrow> Some m
      | None \<Rightarrow> no_secret_entries path kvs)"

text \<open>
  Independent of the recursion: \<open>member_at path v p key\<close> says that the value \<open>v\<close>, found at
  \<open>path\<close>, holds at \<open>p\<close> an object with a member \<open>key\<close>.
\<close>

inductive member_at :: "string \<Rightarrow> json \<Rightarrow> string \<Rightarrow> string \<Rightarrow> bool" where
  here: "(key, v) \<in> set kvs \<Longrightarrow> member_at path (JObj kvs) path key"
| field: "(k, v) \<in> set kvs \<Longrightarrow> member_at (path @ ''.'' @ k) v p key \<Longrightarrow> member_at path (JObj kvs) p key"
| item: "i < length vs \<Longrightarrow> member_at (path @ ''['' @ show_nat i @ '']'') (vs ! i) p key \<Longrightarrow>
     member_at path (JArr vs) p key"

inductive_simps member_at_simps:
  "member_at path (JObj kvs) p key"
  "member_at path (JArr vs) p key"
  "member_at path JUndefined p key"
  "member_at path JNull p key"
  "member_at path (JBool b) p key"
  "member_at path (JNum i) p key"
  "member_at path (JStr s) p key"

definition allowed_member :: "string \<Rightarrow> string \<Rightarrow> bool" where
  "allowed_member p key \<longleftrightarrow> \<not> secret_name key \<or> action_catalogue_key p key"

lemma member_at_Cons:
  "member_at path (JObj ((key, v) # kvs)) p k \<longleftrightarrow>
     (p = path \<and> k = key) \<or> member_at (path @ ''.'' @ key) v p k \<or> member_at path (JObj kvs) p k"
  by (simp add: member_at_simps) blast

lemma no_secret_aux:
  "assertNoSecretFields path v = None \<longleftrightarrow> (\<forall>p key. member_at path v p key \<longrightarrow> allowed_member p key)"
  "no_secret_items path i vs = None \<longleftrightarrow>
     (\<forall>j < length vs. \<forall>p key. member_at (path @ ''['' @ show_nat (i + j) @ '']'') (vs ! j) p key \<longrightarrow> allowed_member p key)"
  "no_secret_entries path kvs = None \<longleftrightarrow> (\<forall>p key. member_at path (JObj kvs) p key \<longrightarrow> allowed_member p key)"
proof (induction path v and path i vs and path kvs
    rule: assertNoSecretFields_no_secret_items_no_secret_entries.induct)
  case (1 path vs)
  then show ?case by (auto simp: member_at_simps)
next
  case (5 path i v vs)
  have split: "(\<forall>j < length (v # vs). Q j) \<longleftrightarrow> Q 0 \<and> (\<forall>j < length vs. Q (Suc j))" for Q
    by (auto simp: less_Suc_eq_0_disj)
  show ?case unfolding split using 5 by (auto split: option.splits)
next
  case (7 path key v kvs)
  have "(\<forall>p k. member_at path (JObj ((key, v) # kvs)) p k \<longrightarrow> allowed_member p k) \<longleftrightarrow>
      allowed_member path key \<and> (\<forall>p k. member_at (path @ ''.'' @ key) v p k \<longrightarrow> allowed_member p k)
      \<and> (\<forall>p k. member_at path (JObj kvs) p k \<longrightarrow> allowed_member p k)"
    unfolding member_at_Cons by blast
  with 7 show ?case by (auto simp: allowed_member_def split: option.splits)
qed (auto simp: member_at_simps)

lemma no_secret_iff:
  "assertNoSecretFields path v = None \<longleftrightarrow> (\<forall>p key. member_at path v p key \<longrightarrow> allowed_member p key)"
  by (rule no_secret_aux)

lemma secret_name_examples:
  "secret_name ''apiToken''" "secret_name ''private_key''" "\<not> secret_name ''siteId''"
  by code_simp+

text \<open>A name that contains none of the words is not secret.\<close>

definition secret_words :: "string list" where
  "secret_words = [''password'', ''secret'', ''token'', ''credential'', ''private'', ''envvars'']"

lemma lang_SECRET_NAME:
  "lang SECRET_NAME = {''password''} \<union> ({''secret''} \<union> ({''token''} \<union> ({''credential''} \<union>
     (conc {''private''} (lang (cats [opt (Cls (\<lambda>c. c \<noteq> CHR 0x0A \<and> c \<noteq> CHR 0x0D)), lit ''key'']))
       \<union> {''envvars''}))))"
  unfolding SECRET_NAME_def by (simp only: alts.simps lang.simps(4,5) lang_lit cats.simps)

lemma lang_secret_word: "b \<in> lang SECRET_NAME \<Longrightarrow> \<exists>w \<in> set secret_words. prefix w b"
  unfolding lang_SECRET_NAME secret_words_def list.set
  by (elim UnE) (simp_all only: singleton_iff bex_simps prefix_order.refl simp_thms in_conc, auto)

lemma not_secret_name:
  assumes "\<not> list_ex (\<lambda>w. sublist w (map to_lower key)) secret_words"
  shows "\<not> secret_name key"
proof
  assume "secret_name key"
  then obtain b where b: "sublist b (map to_lower key)" "b \<in> lang SECRET_NAME"
    unfolding secret_name_def rx_search_ci_def rx_search_iff by blast
  from lang_secret_word [OF b(2)] obtain w where w: "w \<in> set secret_words" "prefix w b" by blast
  from w(2) b(1) have "sublist w (map to_lower key)"
    by (meson prefix_imp_sublist sublist_order.order_trans)
  with w(1) assms show False by (auto simp: list_ex_iff)
qed
end
