(* ===== verification/Contract_Validation.thy ===== *)
theory Contract_Validation
  imports Persisted_Json
begin

text \<open>
  The shared contract validators of \<open>shared/src/contract-validation.ts\<close>. A validator is a
  check: \<open>None\<close> when it returns, \<open>Some m\<close> when it throws \<open>new Error(m)\<close>. A sequence of
  checks is \<open>first_error\<close>: the source runs them one after the other, the first that throws
  decides. The checks are total on every JSON value, so running them all and taking the
  first error is the same as stopping at it.
\<close>

type_synonym check = "string option"

definition first_error :: "check list \<Rightarrow> check" where
  "first_error cs = (case dropWhile (\<lambda>c. c = None) cs of [] \<Rightarrow> None | c # _ \<Rightarrow> c)"

lemma first_error_None [simp]: "first_error cs = None \<longleftrightarrow> (\<forall>c \<in> set cs. c = None)"
  by (induction cs) (auto simp: first_error_def)

definition throw_if :: "bool \<Rightarrow> string \<Rightarrow> check" where
  "throw_if b m = (if b then Some m else None)"

lemma throw_if_None [simp]: "throw_if b m = None \<longleftrightarrow> \<not> b"
  by (simp add: throw_if_def)

section \<open>Access to a record\<close>

fun isContractRecord :: "json \<Rightarrow> bool" where
  "isContractRecord (JObj _) = True"
| "isContractRecord _ = False"

fun field :: "json \<Rightarrow> string \<Rightarrow> json" where
  "field (JObj kvs) k = (case map_of kvs k of Some v \<Rightarrow> v | None \<Rightarrow> JUndefined)"
| "field _ k = JUndefined"

fun own_keys :: "json \<Rightarrow> string list" where
  "own_keys (JObj kvs) = map fst kvs"
| "own_keys _ = []"

definition requireExactKeys :: "json \<Rightarrow> string list \<Rightarrow> string list \<Rightarrow> string \<Rightarrow> check" where
  "requireExactKeys value required optional label = first_error
     (map (\<lambda>key. throw_if (key \<notin> set (own_keys value)) (label @ ''.'' @ key @ '' is required'')) required @
      map (\<lambda>key. throw_if (key \<notin> set (required @ optional)) (label @ ''.'' @ key @ '' is not allowed''))
        (own_keys value))"

lemma requireExactKeys_None:
  "requireExactKeys value required optional label = None \<longleftrightarrow>
     set required \<subseteq> set (own_keys value) \<and> set (own_keys value) \<subseteq> set required \<union> set optional"
  unfolding requireExactKeys_def first_error_None by (auto simp: ball_Un)

section \<open>Values\<close>

definition max_safe_integer :: int where
  "max_safe_integer = 9007199254740991"

definition requireString :: "json \<Rightarrow> string \<Rightarrow> nat \<Rightarrow> nat \<Rightarrow> rx option \<Rightarrow> check" where
  "requireString value label mn mx pattern =
     (case value of
        JStr s \<Rightarrow> throw_if (length s < mn \<or> length s > mx
                    \<or> (case pattern of None \<Rightarrow> False | Some r \<Rightarrow> \<not> rx_test r s)) (label @ '' is invalid'')
      | _ \<Rightarrow> Some (label @ '' is invalid''))"

definition requireInteger :: "json \<Rightarrow> string \<Rightarrow> int \<Rightarrow> int \<Rightarrow> check" where
  "requireInteger value label mn mx =
     (case value of
        JNum i \<Rightarrow> throw_if (\<not> (- max_safe_integer \<le> i \<and> i \<le> max_safe_integer) \<or> i < mn \<or> i > mx)
                    (label @ '' is invalid'')
      | _ \<Rightarrow> Some (label @ '' is invalid''))"

definition requireBoolean :: "json \<Rightarrow> string \<Rightarrow> check" where
  "requireBoolean value label =
     (case value of JBool _ \<Rightarrow> None | _ \<Rightarrow> Some (label @ '' is invalid''))"

definition requireEnum :: "json \<Rightarrow> string list \<Rightarrow> string \<Rightarrow> check" where
  "requireEnum value values label =
     (case value of
        JStr s \<Rightarrow> throw_if (s \<notin> set values) (label @ '' is invalid'')
      | _ \<Rightarrow> Some (label @ '' is invalid''))"

lemma requireString_None:
  "requireString v l mn mx p = None \<longleftrightarrow>
     (\<exists>s. v = JStr s \<and> mn \<le> length s \<and> length s \<le> mx \<and> (\<forall>r. p = Some r \<longrightarrow> rx_test r s))"
  by (auto simp: requireString_def split: json.splits option.splits)

lemma requireInteger_None:
  "requireInteger v l mn mx = None \<longleftrightarrow>
     (\<exists>i. v = JNum i \<and> \<bar>i\<bar> \<le> max_safe_integer \<and> mn \<le> i \<and> i \<le> mx)"
  by (auto simp: requireInteger_def split: json.splits)

lemma requireBoolean_None: "requireBoolean v l = None \<longleftrightarrow> (\<exists>b. v = JBool b)"
  by (auto simp: requireBoolean_def split: json.splits)

lemma requireEnum_None: "requireEnum v vs l = None \<longleftrightarrow> (\<exists>s \<in> set vs. v = JStr s)"
  by (auto simp: requireEnum_def split: json.splits)

lemmas require_simps =
  requireExactKeys_None requireString_None requireInteger_None requireBoolean_None requireEnum_None

text \<open>
  \<open>requireUniqueStrings\<close>: an array of at most \<open>maxItems\<close> strings without a repetition. The
  label of an item carries its index.
\<close>

definition requireUniqueStrings :: "json \<Rightarrow> string \<Rightarrow> nat \<Rightarrow> nat \<Rightarrow> rx option \<Rightarrow> check" where
  "requireUniqueStrings value label maxItems maxLength pattern =
     (case value of
        JArr vs \<Rightarrow>
          if length vs > maxItems then Some (label @ '' is invalid'')
          else first_error
            (map (\<lambda>(i, item). requireString item (label @ ''['' @ show_nat i @ '']'') 1 maxLength pattern)
               (enumerate 0 vs) @
             [throw_if (\<not> distinct vs) (label @ '' has duplicates'')])
      | _ \<Rightarrow> Some (label @ '' is invalid''))"

lemma requireUniqueStrings_None:
  "requireUniqueStrings v l mi ml p = None \<longleftrightarrow>
     (\<exists>ss. v = JArr (map JStr ss) \<and> length ss \<le> mi \<and> distinct ss \<and>
        (\<forall>s \<in> set ss. 1 \<le> length s \<and> length s \<le> ml \<and> (\<forall>r. p = Some r \<longrightarrow> rx_test r s)))"
    (is "?L = ?R")
proof
  have inj: "inj JStr" by (simp add: inj_def)
  assume ?R
  then show ?L
    by (auto simp: requireUniqueStrings_def requireString_None distinct_map inj_on_def
        in_set_enumerate_eq)
next
  assume ?L
  then obtain vs where vs: "v = JArr vs" "length vs \<le> mi" "distinct vs"
      "\<forall>y \<in> set (enumerate 0 vs). requireString (snd y) (l @ ''['' @ show_nat (fst y) @ '']'') 1 ml p = None"
    unfolding requireUniqueStrings_def
    by (cases v) (simp_all add: ball_Un case_prod_beta split: if_splits)
  have item: "\<exists>s. x = JStr s \<and> 1 \<le> length s \<and> length s \<le> ml \<and> (\<forall>r. p = Some r \<longrightarrow> rx_test r s)"
    if "x \<in> set vs" for x
  proof -
    from that obtain i where "i < length vs" "vs ! i = x" by (auto simp: in_set_conv_nth)
    then have "(i, x) \<in> set (enumerate 0 vs)" by (simp add: in_set_enumerate_eq)
    with vs(4) have "requireString x (l @ ''['' @ show_nat i @ '']'') 1 ml p = None" by fastforce
    then show ?thesis by (simp add: requireString_None)
  qed
  define get where "get = (\<lambda>x. case x of JStr s \<Rightarrow> s | _ \<Rightarrow> [])"
  have get: "JStr (get x) = x" if "x \<in> set vs" for x
    using item [OF that] by (auto simp: get_def)
  have eq: "vs = map JStr (map get vs)"
    unfolding map_map by (rule map_idI [symmetric]) (simp add: get)
  have "distinct (map get vs)"
    using vs(3) eq by (metis distinct_map)
  moreover have "\<forall>s \<in> set (map get vs). 1 \<le> length s \<and> length s \<le> ml \<and> (\<forall>r. p = Some r \<longrightarrow> rx_test r s)"
    using item by (fastforce simp: get_def)
  ultimately show ?R
    using vs(1,2) eq by (intro exI [of _ "map get vs"]) auto
qed

section \<open>Dates\<close>

text \<open>
  \<open>requireIsoDate\<close> accepts a string exactly when it is the \<open>toISOString\<close> form of a time
  that a \<open>Date\<close> can hold: \<open>YYYY-MM-DDTHH:mm:ss.sssZ\<close> for the years 0 to 9999, and a signed
  year of six digits outside them, up to 8.64e15 milliseconds from the epoch. The longest
  form has 27 characters, so the bound of 64 never decides.
\<close>

definition leap :: "int \<Rightarrow> bool" where
  "leap y = (y mod 4 = 0 \<and> (y mod 100 \<noteq> 0 \<or> y mod 400 = 0))"

definition days_in_month :: "int \<Rightarrow> nat \<Rightarrow> nat" where
  "days_in_month y m =
     (if m = 2 then (if leap y then 29 else 28) else if m \<in> {4, 6, 9, 11} then 30 else 31)"

definition DATE_TAIL :: rx where
  "DATE_TAIL = cats [lit ''-'', Rep 2 2 (Cls digit_char), lit ''-'', Rep 2 2 (Cls digit_char), lit ''T'',
     Rep 2 2 (Cls digit_char), lit '':'', Rep 2 2 (Cls digit_char), lit '':'', Rep 2 2 (Cls digit_char),
     lit ''.'', Rep 3 3 (Cls digit_char), lit ''Z'']"

text \<open>The fields after the year, at their fixed places.\<close>

definition date_tail_ok :: "int \<Rightarrow> string \<Rightarrow> bool" where
  "date_tail_ok y t =
     (rx_test DATE_TAIL t \<and>
      (let mo = read_nat (js_slice 1 3 t); d = read_nat (js_slice 4 6 t) in
         1 \<le> mo \<and> mo \<le> 12 \<and> 1 \<le> d \<and> d \<le> days_in_month y mo \<and>
         read_nat (js_slice 7 9 t) \<le> 23 \<and> read_nat (js_slice 10 12 t) \<le> 59 \<and> read_nat (js_slice 13 15 t) \<le> 59))"

definition is_iso_date :: "string \<Rightarrow> bool" where
  "is_iso_date s =
     (if rx_test (Rep 4 4 (Cls digit_char)) (take 4 s) then date_tail_ok (int (read_nat (take 4 s))) (drop 4 s)
      else case s of
        sign # r \<Rightarrow>
          rx_test (Rep 6 6 (Cls digit_char)) (take 6 r) \<and>
          (let n = int (read_nat (take 6 r)) in
             if sign = CHR ''+'' then n > 9999 \<and> date_tail_ok n (drop 6 r) \<and>
               (n < 275760 \<or> (n = 275760 \<and> drop 6 r \<le> ''-09-13T00:00:00.000Z''))
             else if sign = CHR ''-'' then n > 0 \<and> date_tail_ok (- n) (drop 6 r) \<and>
               (n < 271821 \<or> (n = 271821 \<and> ''-04-20T00:00:00.000Z'' \<le> drop 6 r))
             else False)
      | [] \<Rightarrow> False)"

definition requireIsoDate :: "json \<Rightarrow> string \<Rightarrow> check" where
  "requireIsoDate value label =
     first_error [requireString value label 1 64 None,
       throw_if (\<not> (case value of JStr s \<Rightarrow> is_iso_date s | _ \<Rightarrow> False)) (label @ '' is invalid'')]"

lemma requireIsoDate_None:
  "requireIsoDate v l = None \<longleftrightarrow> (\<exists>s. v = JStr s \<and> 1 \<le> length s \<and> length s \<le> 64 \<and> is_iso_date s)"
  by (auto simp: requireIsoDate_def requireString_None split: json.splits)

lemma iso_date_examples:
  "is_iso_date ''2024-02-29T23:59:59.999Z''"
  "\<not> is_iso_date ''2023-02-29T00:00:00.000Z''"
  "\<not> is_iso_date ''2024-01-01T00:00:00Z''"
  by code_simp+

end
