(* ===== verification/Operation_Contract.thy ===== *)
theory Operation_Contract
  imports Contract_Validation
begin

text \<open>
  The operation contract that the panels share, \<open>shared/src/operation-contract.ts\<close>: the
  states of an operation, the transitions the contract allows, and the validators of an
  operation envelope and of an acceptance receipt. \<open>JSON.parse\<close>, of which the envelope
  validator only uses whether it throws, is the argument \<open>json_ok\<close>.
\<close>

section \<open>States and transitions\<close>

datatype op_state =
    PENDING | QUEUED | CLAIMED | RUNNING | RECOVERING | CANCEL_REQUESTED
  | CANCELLED | SUCCEEDED | FAILED | UNKNOWN_RECOVERY_REQUIRED | NEEDS_ATTENTION

definition OPERATION_STATES :: "op_state list" where
  "OPERATION_STATES = [PENDING, QUEUED, CLAIMED, RUNNING, RECOVERING, CANCEL_REQUESTED,
     CANCELLED, SUCCEEDED, FAILED, UNKNOWN_RECOVERY_REQUIRED, NEEDS_ATTENTION]"

fun state_name :: "op_state \<Rightarrow> string" where
  "state_name PENDING = ''PENDING''"
| "state_name QUEUED = ''QUEUED''"
| "state_name CLAIMED = ''CLAIMED''"
| "state_name RUNNING = ''RUNNING''"
| "state_name RECOVERING = ''RECOVERING''"
| "state_name CANCEL_REQUESTED = ''CANCEL_REQUESTED''"
| "state_name CANCELLED = ''CANCELLED''"
| "state_name SUCCEEDED = ''SUCCEEDED''"
| "state_name FAILED = ''FAILED''"
| "state_name UNKNOWN_RECOVERY_REQUIRED = ''UNKNOWN_RECOVERY_REQUIRED''"
| "state_name NEEDS_ATTENTION = ''NEEDS_ATTENTION''"

datatype recovery_policy = RETRY_SAFE | RECONCILE_ONLY | MANUAL

fun recovery_name :: "recovery_policy \<Rightarrow> string" where
  "recovery_name RETRY_SAFE = ''RETRY_SAFE''"
| "recovery_name RECONCILE_ONLY = ''RECONCILE_ONLY''"
| "recovery_name MANUAL = ''MANUAL''"

definition OPERATION_RECOVERY_POLICIES :: "string list" where
  "OPERATION_RECOVERY_POLICIES = [''RETRY_SAFE'', ''RECONCILE_ONLY'', ''MANUAL'']"

datatype cancel_outcome =
  NOT_REQUESTED | CO_PENDING | CO_CANCELLED | TOO_LATE | UNSAFE | CO_FAILED

definition OPERATION_CANCEL_OUTCOMES :: "string list" where
  "OPERATION_CANCEL_OUTCOMES =
     [''NOT_REQUESTED'', ''PENDING'', ''CANCELLED'', ''TOO_LATE'', ''UNSAFE'', ''FAILED'']"

definition isTerminalOperationState :: "op_state \<Rightarrow> bool" where
  "isTerminalOperationState s =
     (s \<in> set [CANCELLED, SUCCEEDED, FAILED, UNKNOWN_RECOVERY_REQUIRED, NEEDS_ATTENTION])"

fun TRANSITIONS :: "op_state \<Rightarrow> op_state list" where
  "TRANSITIONS PENDING = [QUEUED, CANCELLED, FAILED]"
| "TRANSITIONS QUEUED = [CLAIMED, CANCELLED, FAILED]"
| "TRANSITIONS CLAIMED = [RUNNING, RECOVERING, QUEUED, FAILED, NEEDS_ATTENTION]"
| "TRANSITIONS RUNNING =
     [CANCEL_REQUESTED, SUCCEEDED, FAILED, RECOVERING, UNKNOWN_RECOVERY_REQUIRED, NEEDS_ATTENTION]"
| "TRANSITIONS RECOVERING =
     [QUEUED, RUNNING, SUCCEEDED, FAILED, UNKNOWN_RECOVERY_REQUIRED, NEEDS_ATTENTION]"
| "TRANSITIONS CANCEL_REQUESTED = [CANCELLED, RUNNING, FAILED, NEEDS_ATTENTION]"
| "TRANSITIONS CANCELLED = []"
| "TRANSITIONS SUCCEEDED = []"
| "TRANSITIONS FAILED = []"
| "TRANSITIONS UNKNOWN_RECOVERY_REQUIRED = [NEEDS_ATTENTION, SUCCEEDED, FAILED]"
| "TRANSITIONS NEEDS_ATTENTION = [SUCCEEDED, FAILED, CANCELLED]"

definition assertOperationTransition :: "op_state \<Rightarrow> op_state \<Rightarrow> check" where
  "assertOperationTransition from to = throw_if (to \<notin> set (TRANSITIONS from))
     (''Operation transition '' @ state_name from @ '' -> '' @ state_name to @ '' is not allowed'')"

text \<open>The runs the contract allows, and that every one of them can still be finished.\<close>

definition final_state :: "op_state \<Rightarrow> bool" where
  "final_state s \<longleftrightarrow> s \<in> {CANCELLED, SUCCEEDED, FAILED}"

inductive contract_run :: "op_state \<Rightarrow> op_state \<Rightarrow> bool" where
  stop: "contract_run s s"
| move: "assertOperationTransition s t = None \<Longrightarrow> contract_run t u \<Longrightarrow> contract_run s u"

lemma transition_iff: "assertOperationTransition s t = None \<longleftrightarrow> t \<in> set (TRANSITIONS s)"
  by (simp add: assertOperationTransition_def)

lemma final_state_stuck: "final_state s \<Longrightarrow> contract_run s t \<Longrightarrow> t = s"
  by (erule contract_run.cases) (auto simp: final_state_def transition_iff)

lemma to_failed: "\<not> final_state s \<Longrightarrow> assertOperationTransition s FAILED = None"
  by (cases s) (simp_all add: final_state_def transition_iff)

lemma rank_exists: "\<exists>t. contract_run s t \<and> final_state t"
proof (cases "final_state s")
  case False
  from contract_run.move [OF to_failed [OF False] contract_run.stop]
  show ?thesis by (auto simp: final_state_def)
qed (blast intro: contract_run.stop)

section \<open>The envelope\<close>

definition PERMISSION :: rx where
  "PERMISSION = cats [Cls lower, Star (Cls (\<lambda>c. lower c \<or> digit_char c)),
     Star (Cat (Cls (\<lambda>c. c \<in> set ''.:_-'')) (plus (Cls (\<lambda>c. lower c \<or> digit_char c))))]"

definition SAFE_CODE :: rx where
  "SAFE_CODE = Cat (Cls upper) (Rep 1 127 (Cls (\<lambda>c. upper c \<or> digit_char c \<or> c = CHR ''_'')))"

definition validatePolicy :: "json \<Rightarrow> check" where
  "validatePolicy value =
     (if \<not> isContractRecord value then Some ''operation.policy is invalid''
      else first_error
        [requireExactKeys value [''actionId'', ''schemaVersion'', ''actorKind'', ''issuerId'', ''subject'', ''role'',
           ''permissions'', ''idempotencyId'', ''requestId'', ''recoveryPolicy'', ''retryable''] [] ''operation.policy'',
         requireString (field value ''actionId'') ''operation.policy.actionId'' 1 1024 (Some ACTION_ID),
         requireInteger (field value ''schemaVersion'') ''operation.policy.schemaVersion'' 1 1000,
         requireEnum (field value ''actorKind'') [''OPERATOR'', ''SERVICE''] ''operation.policy.actorKind'',
         requireString (field value ''issuerId'') ''operation.policy.issuerId'' 1 1024 (Some UUID),
         requireString (field value ''subject'') ''operation.policy.subject'' 1 128 (Some (plus (Cls printable))),
         requireEnum (field value ''role'') [''ADMIN'', ''MANAGER'', ''VIEWER'', ''SERVICE''] ''operation.policy.role'',
         throw_if ((field value ''actorKind'' = JStr ''SERVICE'') \<noteq> (field value ''role'' = JStr ''SERVICE''))
           ''operation.policy actor/role mismatch'',
         requireUniqueStrings (field value ''permissions'') ''operation.policy.permissions'' 64 256 (Some PERMISSION),
         requireString (field value ''idempotencyId'') ''operation.policy.idempotencyId'' 8 128
           (Some (plus (Cls printable))),
         requireString (field value ''requestId'') ''operation.policy.requestId'' 1 1024 (Some UUID),
         requireEnum (field value ''recoveryPolicy'') OPERATION_RECOVERY_POLICIES ''operation.policy.recoveryPolicy'',
         requireBoolean (field value ''retryable'') ''operation.policy.retryable'',
         throw_if (field value ''recoveryPolicy'' \<noteq> JStr ''RETRY_SAFE'' \<and> field value ''retryable'' = JBool True)
           ''Only RETRY_SAFE operations may be retryable''])"

definition unless_null :: "json \<Rightarrow> check \<Rightarrow> check" where
  "unless_null v c = (if v = JNull then None else c)"

definition validateResult :: "(string \<Rightarrow> bool) \<Rightarrow> json \<Rightarrow> check" where
  "validateResult json_ok value =
     (if \<not> isContractRecord value then Some ''operation.result is invalid''
      else first_error
        [requireExactKeys value [''inlineJson'', ''artifactId''] [] ''operation.result'',
         unless_null (field value ''inlineJson'') (first_error
           [requireString (field value ''inlineJson'') ''operation.result.inlineJson'' 0 1048576 None,
            throw_if (\<not> (case field value ''inlineJson'' of JStr s \<Rightarrow> json_ok s | _ \<Rightarrow> False))
              ''operation.result.inlineJson is invalid JSON'']),
         unless_null (field value ''artifactId'')
           (requireString (field value ''artifactId'') ''operation.result.artifactId'' 1 1024 (Some UUID)),
         throw_if (field value ''inlineJson'' \<noteq> JNull \<and> field value ''artifactId'' \<noteq> JNull)
           ''operation result must be inline or artifact, not both''])"

definition validateError :: "json \<Rightarrow> check" where
  "validateError value = unless_null value
     (if \<not> isContractRecord value then Some ''operation.error is invalid''
      else first_error
        [requireExactKeys value [''code'', ''message'', ''retryable''] [] ''operation.error'',
         requireString (field value ''code'') ''operation.error.code'' 1 1024 (Some SAFE_CODE),
         requireString (field value ''message'') ''operation.error.message'' 1 2048 None,
         requireBoolean (field value ''retryable'') ''operation.error.retryable''])"

definition state_of_name :: "string \<Rightarrow> op_state option" where
  "state_of_name s = find (\<lambda>t. state_name t = s) OPERATION_STATES"

definition terminal_json :: "json \<Rightarrow> bool" where
  "terminal_json v = (case v of
     JStr s \<Rightarrow> (case state_of_name s of Some t \<Rightarrow> isTerminalOperationState t | None \<Rightarrow> False)
   | _ \<Rightarrow> False)"

definition validateFederatedOperation :: "(string \<Rightarrow> bool) \<Rightarrow> json \<Rightarrow> check" where
  "validateFederatedOperation json_ok value =
     (if \<not> isContractRecord value then Some ''FederatedOperation is invalid''
      else first_error
        [requireExactKeys value [''operationId'', ''targetInstallationId'', ''state'', ''progress'', ''attempt'',
           ''policy'', ''leaseOwner'', ''leaseExpiresAt'', ''heartbeatAt'', ''deadlineAt'', ''cancelRequestedAt'',
           ''cancelOutcome'', ''result'', ''error'', ''createdAt'', ''updatedAt'', ''completedAt''] [] ''operation'',
         requireString (field value ''operationId'') ''operation.operationId'' 1 1024 (Some UUID),
         requireString (field value ''targetInstallationId'') ''operation.targetInstallationId'' 1 1024 (Some UUID),
         requireEnum (field value ''state'') (map state_name OPERATION_STATES) ''operation.state'',
         requireInteger (field value ''progress'') ''operation.progress'' 0 100,
         requireInteger (field value ''attempt'') ''operation.attempt'' 0 100,
         validatePolicy (field value ''policy''),
         unless_null (field value ''leaseOwner'')
           (requireString (field value ''leaseOwner'') ''operation.leaseOwner'' 1 128 None),
         unless_null (field value ''leaseExpiresAt'')
           (requireIsoDate (field value ''leaseExpiresAt'') ''operation.leaseExpiresAt''),
         unless_null (field value ''heartbeatAt'')
           (requireIsoDate (field value ''heartbeatAt'') ''operation.heartbeatAt''),
         requireIsoDate (field value ''deadlineAt'') ''operation.deadlineAt'',
         unless_null (field value ''cancelRequestedAt'')
           (requireIsoDate (field value ''cancelRequestedAt'') ''operation.cancelRequestedAt''),
         requireEnum (field value ''cancelOutcome'') OPERATION_CANCEL_OUTCOMES ''operation.cancelOutcome'',
         validateResult json_ok (field value ''result''),
         validateError (field value ''error''),
         requireIsoDate (field value ''createdAt'') ''operation.createdAt'',
         requireIsoDate (field value ''updatedAt'') ''operation.updatedAt'',
         unless_null (field value ''completedAt'')
           (requireIsoDate (field value ''completedAt'') ''operation.completedAt''),
         throw_if (terminal_json (field value ''state'') \<noteq> (field value ''completedAt'' \<noteq> JNull))
           ''operation terminal state/completedAt mismatch''])"

definition STATUS_PATH :: rx where
  "STATUS_PATH = Cat (lit ''/api/operations/'') (Rep 36 36 (Cls (\<lambda>c. hex_lower c \<or> c = CHR ''-'')))"

definition validateOperationAccepted :: "json \<Rightarrow> check" where
  "validateOperationAccepted value =
     (if \<not> isContractRecord value then Some ''OperationAccepted is invalid''
      else first_error
        [requireExactKeys value [''operationId'', ''requestId'', ''state'', ''statusPath'', ''retryAfterSeconds''] []
           ''operationAccepted'',
         requireString (field value ''operationId'') ''operationAccepted.operationId'' 1 1024 (Some UUID),
         requireString (field value ''requestId'') ''operationAccepted.requestId'' 1 1024 (Some UUID),
         requireEnum (field value ''state'') [''PENDING'', ''QUEUED''] ''operationAccepted.state'',
         requireString (field value ''statusPath'') ''operationAccepted.statusPath'' 1 1024 (Some STATUS_PATH),
         requireInteger (field value ''retryAfterSeconds'') ''operationAccepted.retryAfterSeconds'' 1 60])"

end
