(* ===== verification/Json_Parse.thy ===== *)
theory Json_Parse
  imports Json
begin

text \<open>
  \<open>JSON.parse\<close> as the services use it: on text that the panel wrote itself. The reader
  follows the grammar of ECMA-404 on strings of code units below 256 and on integers; a
  fraction, an exponent or an escape of a larger code unit, which the panel never writes
  there, is rejected (\<open>None\<close>) like malformed text. A repeated member keeps its place and
  takes the last value, as \<open>JSON.parse\<close> does. \<open>parse_stringify\<close> is the round trip with
  \<open>JSON.stringify\<close>.
\<close>

section \<open>The reader\<close>

definition json_space :: "char \<Rightarrow> bool" where
  "json_space c \<longleftrightarrow> c = CHR '' '' \<or> c = CHR 0x09 \<or> c = CHR 0x0A \<or> c = CHR 0x0D"

definition skip_ws :: "string \<Rightarrow> string" where
  "skip_ws s = dropWhile json_space s"

definition is_hex :: "char \<Rightarrow> bool" where
  "is_hex c \<longleftrightarrow> is_digit c \<or> (97 \<le> (of_char c :: nat) \<and> (of_char c :: nat) \<le> 102) \<or>
     (65 \<le> (of_char c :: nat) \<and> (of_char c :: nat) \<le> 70)"

definition hex_number :: "char \<Rightarrow> nat" where
  "hex_number c = (let n = (of_char c :: nat) in if n < 58 then n - 48 else if n < 71 then n - 55 else n - 87)"

text \<open>One character of a string literal, after its opening quote; not the closing quote.\<close>

fun read_unit :: "string \<Rightarrow> (char \<times> string) option" where
  "read_unit [] = None"
| "read_unit (c # r) =
     (if (of_char c :: nat) < 32 then None
      else if c \<noteq> CHR 0x5C then Some (c, r)
      else (case r of
          [] \<Rightarrow> None
        | d # r' \<Rightarrow>
            if d = CHR 0x22 \<or> d = CHR 0x5C \<or> d = CHR ''/'' then Some (d, r')
            else if d = CHR ''b'' then Some (CHR 0x08, r')
            else if d = CHR ''t'' then Some (CHR 0x09, r')
            else if d = CHR ''n'' then Some (CHR 0x0A, r')
            else if d = CHR ''f'' then Some (CHR 0x0C, r')
            else if d = CHR ''r'' then Some (CHR 0x0D, r')
            else if d = CHR ''u'' then
              (case r' of
                 a # b # h # l # r'' \<Rightarrow>
                   if a = CHR ''0'' \<and> b = CHR ''0'' \<and> is_hex h \<and> is_hex l
                   then Some (char_of (16 * hex_number h + hex_number l), r'') else None
               | _ \<Rightarrow> None)
            else None))"

lemma read_unit_shorter: "read_unit s = Some (c, r) \<Longrightarrow> length r < length s"
  by (cases s) (auto split: if_splits list.splits)

function (sequential) read_string :: "string \<Rightarrow> (string \<times> string) option" where
  "read_string [] = None"
| "read_string (c # r) =
     (if c = CHR 0x22 then Some ([], r)
      else case read_unit (c # r) of
        None \<Rightarrow> None
      | Some (u, r') \<Rightarrow> (case read_string r' of None \<Rightarrow> None | Some (s, r'') \<Rightarrow> Some (u # s, r'')))"
  by pat_completeness auto
termination
  by (relation "measure length") (auto simp del: read_unit.simps dest: read_unit_shorter)

definition read_number :: "string \<Rightarrow> (int \<times> string) option" where
  "read_number s =
     (let neg = (s \<noteq> [] \<and> hd s = CHR ''-''); t = (if neg then tl s else s);
          ds = takeWhile is_digit t; r = dropWhile is_digit t
      in if ds = [] \<or> (hd ds = CHR ''0'' \<and> length ds > 1) \<or>
            (r \<noteq> [] \<and> (hd r = CHR ''.'' \<or> hd r = CHR ''e'' \<or> hd r = CHR ''E''))
         then None else Some ((if neg then - int (read_nat ds) else int (read_nat ds)), r))"

definition read_word :: "string \<Rightarrow> json \<Rightarrow> string \<Rightarrow> (json \<times> string) option" where
  "read_word w v s = (if take (length w) s = w then Some (v, drop (length w) s) else None)"

fun set_member :: "(string \<times> json) list \<Rightarrow> string \<Rightarrow> json \<Rightarrow> (string \<times> json) list" where
  "set_member [] k v = [(k, v)]"
| "set_member ((k', v') # kvs) k v = (if k' = k then (k, v) # kvs else (k', v') # set_member kvs k v)"

text \<open>
  Values, the items of an array after \<open>[\<close> or a comma, and the members of an object after
  an opening brace or a comma, with the members read so far. The first argument is fuel: one unit per
  value, item or member, so the length of the text is enough.
\<close>

fun read_value :: "nat \<Rightarrow> string \<Rightarrow> (json \<times> string) option"
  and read_items :: "nat \<Rightarrow> string \<Rightarrow> (json list \<times> string) option"
  and read_members :: "nat \<Rightarrow> (string \<times> json) list \<Rightarrow> string \<Rightarrow> ((string \<times> json) list \<times> string) option"
where
  "read_value 0 s = None"
| "read_value (Suc n) s =
     (case skip_ws s of
        [] \<Rightarrow> None
      | c # r \<Rightarrow>
          if c = CHR 0x22 then map_option (\<lambda>(t, r'). (JStr t, r')) (read_string r)
          else if c = CHR ''['' then
            (if skip_ws r \<noteq> [] \<and> hd (skip_ws r) = CHR '']'' then Some (JArr [], tl (skip_ws r))
             else map_option (\<lambda>(vs, r'). (JArr vs, r')) (read_items n r))
          else if c = CHR 0x7B then
            (if skip_ws r \<noteq> [] \<and> hd (skip_ws r) = CHR 0x7D then Some (JObj [], tl (skip_ws r))
             else map_option (\<lambda>(kvs, r'). (JObj kvs, r')) (read_members n [] r))
          else if c = CHR ''n'' then read_word ''null'' JNull (c # r)
          else if c = CHR ''t'' then read_word ''true'' (JBool True) (c # r)
          else if c = CHR ''f'' then read_word ''false'' (JBool False) (c # r)
          else map_option (\<lambda>(i, r'). (JNum i, r')) (read_number (c # r)))"
| "read_items 0 s = None"
| "read_items (Suc n) s =
     (case read_value n s of
        None \<Rightarrow> None
      | Some (v, r) \<Rightarrow>
          (case skip_ws r of
             [] \<Rightarrow> None
           | c # r' \<Rightarrow>
               if c = CHR '','' then map_option (\<lambda>(vs, r''). (v # vs, r'')) (read_items n r')
               else if c = CHR '']'' then Some ([v], r') else None))"
| "read_members 0 acc s = None"
| "read_members (Suc n) acc s =
     (case skip_ws s of
        [] \<Rightarrow> None
      | q # r \<Rightarrow>
          if q \<noteq> CHR 0x22 then None
          else (case read_string r of
              None \<Rightarrow> None
            | Some (k, r1) \<Rightarrow>
                (case skip_ws r1 of
                   [] \<Rightarrow> None
                 | c # r2 \<Rightarrow>
                     if c \<noteq> CHR '':'' then None
                     else (case read_value n r2 of
                         None \<Rightarrow> None
                       | Some (v, r3) \<Rightarrow>
                           (case skip_ws r3 of
                              [] \<Rightarrow> None
                            | e # r4 \<Rightarrow>
                                if e = CHR '','' then read_members n (set_member acc k v) r4
                                else if e = CHR 0x7D then Some (set_member acc k v, r4) else None)))))"

definition json_parse :: "string \<Rightarrow> json option" where
  "json_parse s =
     (case read_value (Suc (length s)) s of
        None \<Rightarrow> None
      | Some (v, r) \<Rightarrow> if skip_ws r = [] then Some v else None)"

section \<open>The round trip\<close>

text \<open>What \<open>JSON.parse\<close> can return: no \<open>undefined\<close>, and no repeated member.\<close>

fun plain :: "json \<Rightarrow> bool" where
  "plain JUndefined = False"
| "plain (JArr vs) = list_all plain vs"
| "plain (JObj kvs) = (distinct (map fst kvs) \<and> list_all (\<lambda>(_, v). plain v) kvs)"
| "plain _ = True"

fun json_cost :: "json \<Rightarrow> nat" where
  "json_cost (JArr vs) = Suc (sum_list (map (\<lambda>v. Suc (json_cost v)) vs))"
| "json_cost (JObj kvs) = Suc (sum_list (map (\<lambda>(_, v). Suc (json_cost v)) kvs))"
| "json_cost _ = 1"

lemma skip_ws_simps [simp]:
  "skip_ws [] = []"
  "\<not> json_space c \<Longrightarrow> skip_ws (c # r) = c # r"
  by (simp_all add: skip_ws_def)

lemma json_space_simps [simp]:
  "\<not> json_space (CHR '','')" "\<not> json_space (CHR '']'')" "\<not> json_space (CHR ''['')" "\<not> json_space (CHR 0x7D)"
  "\<not> json_space (CHR 0x7B)" "\<not> json_space (CHR 0x22)" "\<not> json_space (CHR '':'')" "\<not> json_space (CHR ''n'')"
  "\<not> json_space (CHR ''t'')" "\<not> json_space (CHR ''f'')" "\<not> json_space (CHR ''-'')"
  by (simp_all add: json_space_def)

lemma hex_number_hex_digit [simp]: "n < 16 \<Longrightarrow> hex_number (hex_digit n) = n"
  by (auto simp: hex_number_def hex_digit_def Let_def)

lemma is_hex_hex_digit [simp]: "n < 16 \<Longrightarrow> is_hex (hex_digit n)"
  by (auto simp: is_hex_def is_digit_def hex_digit_def)

lemma read_unit_esc: "read_unit (esc c @ r) = Some (c, r)"
proof -
  let ?n = "of_char c :: nat"
  consider "?n \<in> {8, 9, 10, 12, 13, 34, 92}" | "?n < 32" "?n \<notin> {8, 9, 10, 12, 13}"
    | "\<not> ?n < 32" "?n \<notin> {34, 92}"
    by auto
  then show ?thesis
  proof cases
    case 1
    then have "c = CHR 0x08 \<or> c = CHR 0x09 \<or> c = CHR 0x0A \<or> c = CHR 0x0C \<or> c = CHR 0x0D
        \<or> c = CHR 0x22 \<or> c = CHR 0x5C"
      by (auto intro!: char_by_code)
    then show ?thesis by (elim disjE) (simp_all add: esc_def)
  next
    case 2
    then have "esc c = [CHR 0x5C, CHR ''u'', CHR ''0'', CHR ''0'', hex_digit (?n div 16), hex_digit (?n mod 16)]"
      by (simp add: esc_def Let_def)
    moreover have "16 * (?n div 16) + ?n mod 16 = ?n" by simp
    ultimately show ?thesis using 2(1) by simp
  next
    case 3
    then have "esc c = [c]" "c \<noteq> CHR 0x5C"
      by (auto simp: esc_def Let_def)
    with 3 show ?thesis by simp
  qed
qed

lemma read_string_quoted: "read_string (concat (map esc s) @ CHR 0x22 # r) = Some (s, r)"
proof (induction s)
  case (Cons c s)
  obtain e es where e: "esc c = e # es" "e \<noteq> CHR 0x22" using esc_first by blast
  let ?t = "concat (map esc s) @ CHR 0x22 # r"
  have "read_unit (e # (es @ ?t)) = Some (c, ?t)" using read_unit_esc [of c ?t] e by simp
  with e Cons show ?case by simp
qed simp

lemma hd_show_nat: "0 < n \<Longrightarrow> hd (show_nat n) \<noteq> CHR ''0''"
proof (induction n rule: show_nat.induct)
  case (1 n)
  show ?case
  proof (cases "n < 10")
    case True
    with 1(2) have "digit n \<noteq> CHR ''0''" using of_char_digit [of n] by auto
    with True show ?thesis by (subst show_nat.simps) simp
  next
    case False
    with 1(1) have "hd (show_nat (n div 10)) \<noteq> CHR ''0''" by simp
    with False show ?thesis by (subst show_nat.simps) (simp add: hd_append)
  qed
qed

lemma no_leading_zero: "\<not> (hd (show_nat n) = CHR ''0'' \<and> length (show_nat n) > 1)"
proof (cases "n = 0")
  case True
  have "show_nat 0 = [digit 0]" by (subst show_nat.simps) simp
  with True show ?thesis by simp
qed (use hd_show_nat in simp)

lemma read_number_show:
  assumes "delim r"
  shows "read_number (show_int i @ r) = Some (i, r)"
proof -
  have stop: "r = [] \<or> \<not> is_digit (hd r)" using assms by (cases r) (auto dest: delim_not_digit)
  have digits: "\<forall>x \<in> set (show_nat n). is_digit x" for n
    using show_nat_digits [of n] by (simp add: list_all_iff)
  have spl: "takeWhile is_digit (show_nat n @ r) = show_nat n" "dropWhile is_digit (show_nat n @ r) = r" for n
    using digits [of n] stop by (cases r; simp)+
  have spl0: "takeWhile is_digit (show_nat n) = show_nat n" "dropWhile is_digit (show_nat n) = []" for n
    using digits [of n] by simp_all
  have dot: "\<not> (r \<noteq> [] \<and> (hd r = CHR ''.'' \<or> hd r = CHR ''e'' \<or> hd r = CHR ''E''))"
    using assms by (cases r) (auto simp: delim_def)
  have minus: "hd (show_nat n @ r) \<noteq> CHR ''-''" for n
    using digits [of n] by (cases "show_nat n") (auto simp: is_digit_def)
  show ?thesis
  proof (cases "i < 0")
    case True
    then have "show_int i @ r = CHR ''-'' # show_nat (nat (- i)) @ r" by (simp add: show_int_def)
    with True dot no_leading_zero [of "nat (- i)"] show ?thesis
      by (cases "r = []") (simp_all add: read_number_def Let_def spl spl0 digits read_show_nat)
  next
    case False
    then have "show_int i @ r = show_nat (nat i) @ r" by (simp add: show_int_def)
    with False dot no_leading_zero [of "nat i"] minus [of "nat i"] show ?thesis
      by (cases "r = []") (simp_all add: read_number_def Let_def spl spl0 digits read_show_nat)
  qed
qed

lemma show_int_start: "\<exists>c w. show_int i = c # w \<and> \<not> json_space c \<and>
    c \<notin> {CHR 0x22, CHR ''['', CHR 0x7B, CHR ''n'', CHR ''t'', CHR ''f''}"
proof -
  obtain c w where "show_int i = c # w" "c = CHR ''-'' \<or> is_digit c" using show_int_first by blast
  then show ?thesis by (intro exI [of _ c] exI [of _ w]) (auto simp: is_digit_def json_space_def)
qed

lemma stringify_first:
  "\<exists>c w. json_stringify v = c # w \<and> \<not> json_space c \<and> c \<noteq> CHR '']'' \<and> c \<noteq> CHR 0x7D"
proof (cases v)
  case (JNum i)
  obtain c w where "show_int i = c # w" "c = CHR ''-'' \<or> is_digit c" using show_int_first by blast
  with JNum show ?thesis by (auto simp: is_digit_def json_space_def)
qed (auto simp: quote_def)

lemma set_member_new: "k \<notin> set (map fst acc) \<Longrightarrow> set_member acc k v = acc @ [(k, v)]"
  by (induction acc k v rule: set_member.induct) auto

definition member_text :: "string \<times> json \<Rightarrow> string" where
  "member_text kv = quote (fst kv) @ '':'' @ json_stringify (snd kv)"

lemma tail_text_simps: "tail_text p [] = []" "tail_text p (x # xs) = CHR '','' # p x @ tail_text p xs"
  by (simp_all add: tail_text_def)

text \<open>The loops over items and members, given that each value is read back.\<close>

lemma read_items_back:
  assumes "\<And>v k r. v \<in> set us \<Longrightarrow> json_cost v \<le> k \<Longrightarrow> delim r \<Longrightarrow> read_value k (json_stringify v @ r) = Some (v, r)"
    and "us \<noteq> []" "sum_list (map (\<lambda>v. Suc (json_cost v)) us) \<le> k"
  shows "read_items k (join_with (CHR '','') (map json_stringify us) @ CHR '']'' # r) = Some (us, r)"
  using assms
proof (induction us arbitrary: k)
  case (Cons u us)
  then obtain j where k: "k = Suc j" by (cases k) auto
  let ?rest = "tail_text json_stringify us @ CHR '']'' # r"
  have "delim ?rest" by (rule delim_tail) simp
  then have u: "read_value j (json_stringify u @ ?rest) = Some (u, ?rest)"
    using Cons.prems k by simp
  show ?case
  proof (cases us)
    case Nil
    with u k show ?thesis by (simp add: tail_text_def)
  next
    case us: (Cons u' us')
    have "read_items j (join_with (CHR '','') (map json_stringify us) @ CHR '']'' # r) = Some (us, r)"
      by (rule Cons.IH) (use Cons.prems k us in auto)
    with u k us show ?thesis
      unfolding join_with_tail us by (simp add: join_with_tail tail_text_simps)
  qed
qed simp

lemma read_members_back:
  assumes "\<And>v k r. v \<in> snd ` set kvs \<Longrightarrow> json_cost v \<le> k \<Longrightarrow> delim r \<Longrightarrow> read_value k (json_stringify v @ r) = Some (v, r)"
    and "kvs \<noteq> []" "sum_list (map (\<lambda>kv. Suc (json_cost (snd kv))) kvs) \<le> k" "distinct (map fst (acc @ kvs))"
  shows "read_members k acc (join_with (CHR '','') (map member_text kvs) @ CHR 0x7D # r) = Some (acc @ kvs, r)"
  using assms
proof (induction kvs arbitrary: k acc)
  case (Cons kv kvs)
  then obtain j where k: "k = Suc j" by (cases k) auto
  obtain key v where kv: "kv = (key, v)" by fastforce
  let ?rest = "tail_text member_text kvs @ CHR 0x7D # r"
  have "delim ?rest" by (rule delim_tail) simp
  then have v: "read_value j (json_stringify v @ ?rest) = Some (v, ?rest)"
    using Cons.prems k kv by simp
  have str: "read_string (concat (map esc key) @ CHR 0x22 # CHR '':'' # json_stringify v @ ?rest)
      = Some (key, CHR '':'' # json_stringify v @ ?rest)" by (rule read_string_quoted)
  have new: "set_member acc key v = acc @ [kv]"
    using Cons.prems(4) kv by (simp add: set_member_new)
  show ?case
  proof (cases kvs)
    case Nil
    with v k kv str new show ?thesis by (simp add: member_text_def quote_def tail_text_def)
  next
    case kvs: (Cons kv' kvs')
    have "read_members j (acc @ [kv]) (join_with (CHR '','') (map member_text kvs) @ CHR 0x7D # r)
        = Some ((acc @ [kv]) @ kvs, r)"
      by (rule Cons.IH) (use Cons.prems k kvs in auto)
    with v k kv str new kvs show ?thesis
      unfolding join_with_tail kvs by (simp add: join_with_tail tail_text_simps member_text_def quote_def)
  qed
qed simp

lemma members_text:
  "list_all (\<lambda>(_, v). plain v) kvs \<Longrightarrow>
     json_stringify (JObj kvs) = ''{'' @ join_with (CHR '','') (map member_text kvs) @ ''}''"
proof -
  assume "list_all (\<lambda>(_, v). plain v) kvs"
  then have "filter (\<lambda>(key, v). v \<noteq> JUndefined) kvs = kvs"
    by (intro filter_True) (auto simp: list_all_iff)
  moreover have "member_text = (\<lambda>(key, v). quote key @ '':'' @ json_stringify v)"
    by (simp add: fun_eq_iff member_text_def)
  ultimately show ?thesis by simp
qed

lemma join_first:
  assumes "xs \<noteq> []" "\<exists>c w. p (hd xs) = c # w \<and> P c"
  shows "\<exists>c w. join_with (CHR '','') (map p xs) = c # w \<and> P c"
  using assms by (cases xs) (auto simp: join_with_tail simp del: join_with.simps list.map)

lemma read_back:
  "plain v \<Longrightarrow> json_cost v \<le> n \<Longrightarrow> delim r \<Longrightarrow> read_value n (json_stringify v @ r) = Some (v, r)"
proof (induction v arbitrary: n r rule: json_stringify.induct)
  case (4 i)
  obtain c w where c: "show_int i = c # w" "\<not> json_space c"
    "c \<notin> {CHR 0x22, CHR ''['', CHR 0x7B, CHR ''n'', CHR ''t'', CHR ''f''}" using show_int_start by blast
  from 4 obtain m where n: "n = Suc m" by (cases n) auto
  have "read_number (c # w @ r) = Some (i, r)" using read_number_show [OF 4(3), of i] c(1) by simp
  with c n show ?case by simp
next
  case (5 s)
  then obtain m where "n = Suc m" by (cases n) auto
  then show ?case using read_string_quoted [of s r] by (simp add: quote_def)
next
  case (6 vs)
  then obtain m where n: "n = Suc m" by (cases n) auto
  show ?case
  proof (cases "vs = []")
    case False
    have items: "read_items m (join_with (CHR '','') (map json_stringify vs) @ CHR '']'' # r) = Some (vs, r)"
      by (rule read_items_back) (use 6 False n in \<open>auto simp: list_all_iff\<close>)
    obtain c w where c: "join_with (CHR '','') (map json_stringify vs) = c # w" "\<not> json_space c \<and> c \<noteq> CHR '']''"
      using join_first [OF False, of json_stringify "\<lambda>c. \<not> json_space c \<and> c \<noteq> CHR '']''"]
        stringify_first [of "hd vs"] by blast
    with items n show ?thesis by simp
  qed (use n in simp)
next
  case (7 kvs)
  then obtain m where n: "n = Suc m" by (cases n) auto
  have pl: "list_all (\<lambda>(_, v). plain v) kvs" "distinct (map fst kvs)" using 7(2) by auto
  show ?case
  proof (cases "kvs = []")
    case False
    have ih: "read_value k (json_stringify v @ r') = Some (v, r')"
      if "v \<in> snd ` set kvs" "json_cost v \<le> k" "delim r'" for v k r'
    proof -
      from that(1) obtain key where "(key, v) \<in> set kvs" by auto
      with pl(1) have "plain v" "(key, v) \<in> set (filter (\<lambda>(key, v). v \<noteq> JUndefined) kvs)"
        by (auto simp: list_all_iff)
      with "7.IH" [OF this(2)] that(2,3) show ?thesis by blast
    qed
    have members: "read_members m [] (join_with (CHR '','') (map member_text kvs) @ CHR 0x7D # r) = Some ([] @ kvs, r)"
      by (rule read_members_back [OF ih]) (use 7 False n in \<open>auto simp: case_prod_unfold\<close>)
    obtain c w where c: "join_with (CHR '','') (map member_text kvs) = c # w" "\<not> json_space c \<and> c \<noteq> CHR 0x7D"
      using join_first [OF False, of member_text "\<lambda>c. \<not> json_space c \<and> c \<noteq> CHR 0x7D"]
      by (auto simp: member_text_def quote_def)
    have "json_stringify (JObj kvs) @ r = CHR 0x7B # (c # w) @ CHR 0x7D # r"
      unfolding members_text [OF pl(1)] c(1) by simp
    with members c n show ?thesis by (simp del: json_stringify.simps)
  qed (use n in simp)
next
  case 2
  then show ?case by (cases n) (auto simp: read_word_def)
next
  case (3 b)
  then show ?case by (cases n) (auto simp: read_word_def)
qed (auto simp: read_word_def)

lemma length_join_with:
  "xs \<noteq> [] \<Longrightarrow> length (join_with c (map p xs)) + 1 = sum_list (map (\<lambda>x. length (p x) + 1) xs)"
  by (induction xs rule: list_nonempty_induct) (auto simp: neq_Nil_conv)

lemma json_cost_le: "plain v \<Longrightarrow> json_cost v \<le> length (json_stringify v)"
proof (induction v rule: json_stringify.induct)
  case (4 i)
  then show ?case using show_int_first [of i] by auto
next
  case (6 vs)
  have "sum_list (map (\<lambda>v. Suc (json_cost v)) vs) \<le> sum_list (map (\<lambda>v. length (json_stringify v) + 1) vs)"
    by (rule sum_list_mono) (use 6 in \<open>auto simp: list_all_iff\<close>)
  then show ?case using length_join_with [of vs "CHR '',''" json_stringify] by (cases "vs = []") auto
next
  case (7 kvs)
  have pl: "list_all (\<lambda>(_, v). plain v) kvs" using 7(2) by auto
  have le: "Suc (json_cost (snd kv)) \<le> length (member_text kv) + 1" if kv: "kv \<in> set kvs" for kv
  proof -
    obtain key v where e: "kv = (key, v)" by fastforce
    with pl kv have "plain v" "(key, v) \<in> set (filter (\<lambda>(key, v). v \<noteq> JUndefined) kvs)"
      by (auto simp: list_all_iff)
    with "7.IH" [OF this(2)] have "json_cost v \<le> length (json_stringify v)" by blast
    with e show ?thesis by (simp add: member_text_def)
  qed
  have "sum_list (map (\<lambda>kv. Suc (json_cost (snd kv))) kvs) \<le> sum_list (map (\<lambda>kv. length (member_text kv) + 1) kvs)"
    by (rule sum_list_mono) (rule le)
  then show ?case unfolding members_text [OF pl]
    using length_join_with [of kvs "CHR '',''" member_text] by (cases "kvs = []") (auto simp: case_prod_unfold)
qed (auto simp: quote_def)

lemma parse_stringify: "plain v \<Longrightarrow> json_parse (json_stringify v) = Some v"
  using read_back [of v "Suc (length (json_stringify v))" "[]"] json_cost_le [of v]
  by (simp add: json_parse_def del: read_value.simps)

lemma json_parse_examples:
  "json_parse ''[1, {}, true ]'' = Some (JArr [JNum 1, JObj [], JBool True])"
  "json_parse ''[1,]'' = None"
  by code_simp+

end
