(* ===== verification/Operation_Store.thy ===== *)
theory Operation_Store
  imports Operation_Contract Json_Parse
begin

text \<open>
  The tables that \<open>api/src/operations/operations.service.ts\<close> reads and writes, with the columns
  it uses (\<open>api/prisma/schema.prisma\<close>, models \<open>Operation\<close> and \<open>OperationLock\<close>), and the
  helper functions at the head of that file.

  A row of \<open>operations\<close> is \<open>op_row\<close>; a nullable column is an option. The column
  \<open>updated_at\<close>, which the database client writes by itself, is left out. \<open>op_env\<close> holds what
  the service takes from outside the repository: SHA-256 and the authenticated encryption of
  \<open>node:crypto\<close>, the redaction of \<open>safeErrorMessage\<close>, and the conversions
  \<open>toISOString\<close> and \<open>Date.parse\<close> of a date.
\<close>

section \<open>Rows\<close>

datatype exec_mode = INLINE | MODE_QUEUED

record op_row =
  op_id :: string
  op_idempotencyKey :: string
  op_requestHash :: string
  op_type :: string
  op_status :: op_state
  op_siteId :: "string option"
  op_siteDomainId :: "string option"
  op_databaseId :: "string option"
  op_globalLockKey :: "string option"
  op_parentOperationId :: "string option"
  op_createdByUserId :: string
  op_currentStep :: "string option"
  op_progress :: int
  op_actionId :: "string option"
  op_executionMode :: exec_mode
  op_policySnapshot :: "string option"
  op_requestPayloadEnc :: "string option"
  op_attempt :: int
  op_maxAttempts :: int
  op_retryable :: bool
  op_recoveryPolicy :: recovery_policy
  op_leaseOwner :: "string option"
  op_leaseExpiresAt :: "time option"
  op_heartbeatAt :: "time option"
  op_claimedAt :: "time option"
  op_deadlineAt :: "time option"
  op_cancelRequestedAt :: "time option"
  op_cancelOutcome :: "cancel_outcome option"
  op_result :: "string option"
  op_errorMessage :: "string option"
  op_startedAt :: "time option"
  op_completedAt :: "time option"
  op_createdAt :: time

datatype lock_kind = GLOBAL | SITE | DOMAIN | DATABASE

record lock_spec =
  lk_resourceKey :: string
  lk_kind :: lock_kind

record lock_row = lock_spec +
  lk_operationId :: string

record backup_row =
  bk_id :: string
  bk_siteId :: "string option"
  bk_status :: string

record site_row =
  st_id :: string
  st_userId :: string
  st_status :: string
  st_errorMessage :: "string option"

record domain_row =
  sd_id :: string
  sd_siteId :: string
  sd_isPrimary :: bool
  sd_position :: int
  sd_domain :: string
  sd_deployBranch :: "string option"
  sd_gitRepository :: "string option"
  sd_appStatus :: string
  sd_appErrorMessage :: "string option"

record database_row =
  da_id :: string
  da_siteDomainId :: "string option"
  da_purpose :: string

record deploy_row =
  dl_id :: string
  dl_siteId :: string
  dl_siteDomainId :: string
  dl_operationId :: "string option"
  dl_branch :: string
  dl_triggeredBy :: "string option"
  dl_output :: string
  dl_status :: string
  dl_commitSha :: "string option"
  dl_commitMessage :: "string option"
  dl_durationMs :: "int option"
  dl_startedAt :: time
  dl_completedAt :: "time option"

record db =
  db_ops :: "op_row list"
  db_locks :: "lock_row list"
  db_backups :: "backup_row list"
  db_sites :: "site_row list"
  db_domains :: "domain_row list"
  db_databases :: "database_row list"
  db_deploys :: "deploy_row list"

record op_env =
  sha256_hex :: "string \<Rightarrow> string"
  encrypt_operations :: "json \<Rightarrow> string"
  decrypt_operations :: "string \<Rightarrow> json option"
  safe_message :: "string \<Rightarrow> string"
  iso_of :: "time \<Rightarrow> string"
  date_parse :: "string \<Rightarrow> time option"

text \<open>
  The two tables that the service changes by key satisfy the contract of a table with a
  unique key: \<open>id\<close> for operations and \<open>resource_key\<close> for locks.
\<close>

interpretation op_table: row_store op_id "keyed op_id" "find_key op_id" update_rows count_rows
  by (rule list_row_store)

interpretation lock_table: row_store lk_resourceKey "keyed lk_resourceKey" "find_key lk_resourceKey"
    update_rows count_rows
  by (rule list_row_store)

section \<open>Groups of states\<close>

definition EXECUTING_STATUSES :: "op_state list" where
  "EXECUTING_STATUSES = [PENDING, QUEUED, CLAIMED, RUNNING, RECOVERING, CANCEL_REQUESTED]"

definition LOCK_HOLDING_STATUSES :: "op_state list" where
  "LOCK_HOLDING_STATUSES = EXECUTING_STATUSES @ [UNKNOWN_RECOVERY_REQUIRED, NEEDS_ATTENTION]"

text \<open>The states an admitted queue entry occupies, and those in which it has a lease.\<close>

definition QUEUE_STATUSES :: "op_state list" where
  "QUEUE_STATUSES = [QUEUED, CLAIMED, RUNNING, RECOVERING, CANCEL_REQUESTED]"

definition LEASED_STATUSES :: "op_state list" where
  "LEASED_STATUSES = [CLAIMED, RUNNING, CANCEL_REQUESTED]"

lemmas status_defs =
  EXECUTING_STATUSES_def LOCK_HOLDING_STATUSES_def QUEUE_STATUSES_def LEASED_STATUSES_def

lemma lock_holding_iff: "s \<in> set LOCK_HOLDING_STATUSES \<longleftrightarrow> \<not> final_state s"
  by (cases s) (simp_all add: status_defs final_state_def)

definition MAX_QUEUED_PER_TARGET :: nat where "MAX_QUEUED_PER_TARGET = 128"
definition MAX_QUEUED_PER_ACTOR :: nat where "MAX_QUEUED_PER_ACTOR = 32"
definition MAX_OPERATION_PAYLOAD_BYTES :: nat where "MAX_OPERATION_PAYLOAD_BYTES = 1048576"

section \<open>Requests\<close>

record policy =
  p_actionId :: string
  p_schemaVersion :: int
  p_actorKind :: string
  p_issuerId :: string
  p_subject :: string
  p_role :: string
  p_permissions :: "string list"
  p_idempotencyId :: string
  p_requestId :: string
  p_recoveryPolicy :: recovery_policy
  p_retryable :: bool

definition policy_members :: "policy \<Rightarrow> json \<Rightarrow> (string \<times> json) list" where
  "policy_members p request_id =
     [(''actionId'', JStr (p_actionId p)), (''schemaVersion'', JNum (p_schemaVersion p)),
      (''actorKind'', JStr (p_actorKind p)), (''issuerId'', JStr (p_issuerId p)),
      (''subject'', JStr (p_subject p)), (''role'', JStr (p_role p)),
      (''permissions'', JArr (map JStr (p_permissions p))), (''idempotencyId'', JStr (p_idempotencyId p)),
      (''requestId'', request_id), (''recoveryPolicy'', JStr (recovery_name (p_recoveryPolicy p))),
      (''retryable'', JBool (p_retryable p))]"

definition policy_json :: "policy \<Rightarrow> json" where
  "policy_json p = JObj (policy_members p (JStr (p_requestId p)))"

text \<open>\<open>deadlineAt\<close> is a \<open>Date\<close>: \<open>None\<close> is an invalid one.\<close>

record queued_input =
  q_actionId :: string
  q_policySnapshot :: policy
  q_recoveryPolicy :: recovery_policy
  q_retryable :: bool
  q_deadlineAt :: "time option"
  q_maxAttempts :: "int option"

record begin_input =
  bi_idempotencyKey :: "string option"
  bi_type :: string
  bi_siteId :: "string option"
  bi_siteDomainId :: "string option"
  bi_databaseId :: "string option"
  bi_globalLockKey :: "string option"
  bi_lockSite :: "bool option"
  bi_parentOperationId :: "string option"
  bi_userId :: string
  bi_request :: json
  bi_queued :: "queued_input option"

record ticket =
  tk_id :: string
  tk_siteId :: "string option"
  tk_siteDomainId :: "string option"
  tk_replayed :: bool
  tk_status :: op_state
  tk_result :: json

record claimed_operation =
  c_id :: string
  c_actionId :: string
  c_recovering :: bool
  c_attempt :: int
  c_maxAttempts :: int
  c_retryable :: bool
  c_recoveryPolicy :: recovery_policy
  c_deadlineAt :: time
  c_request :: json
  c_policySnapshot :: json
  c_cancelRequestedAt :: "time option"

section \<open>Helper functions\<close>

text \<open>The scope of an operation, as far as its locks depend on it.\<close>

record scope =
  sc_globalLockKey :: "string option"
  sc_siteId :: "string option"
  sc_siteDomainId :: "string option"
  sc_databaseId :: "string option"
  sc_lockSite :: "bool option"
  sc_parentOperationId :: "string option"

definition operationLockSpecs :: "scope \<Rightarrow> lock_spec list" where
  "operationLockSpecs sc =
     (case truthy (map_option js_trim (sc_globalLockKey sc)) of
        Some key \<Rightarrow> if truthy (sc_parentOperationId sc) = None
          then [\<lparr>lk_resourceKey = ''global:'' @ key, lk_kind = GLOBAL\<rparr>] else []
      | None \<Rightarrow> []) @
     (case truthy (sc_siteId sc) of
        Some site \<Rightarrow> if sc_lockSite sc \<noteq> Some False \<and> truthy (sc_parentOperationId sc) = None
          then [\<lparr>lk_resourceKey = ''site:'' @ site, lk_kind = SITE\<rparr>] else []
      | None \<Rightarrow> []) @
     (case truthy (sc_siteDomainId sc) of
        Some domain \<Rightarrow> [\<lparr>lk_resourceKey = ''domain:'' @ domain, lk_kind = DOMAIN\<rparr>] | None \<Rightarrow> []) @
     (case truthy (sc_databaseId sc) of
        Some database \<Rightarrow> [\<lparr>lk_resourceKey = ''database:'' @ database, lk_kind = DATABASE\<rparr>] | None \<Rightarrow> [])"

fun error_code :: "exn \<Rightarrow> string" where
  "error_code (DbFault e) = err_code e"
| "error_code _ = []"

definition isTransactionContention :: "exn \<Rightarrow> bool" where
  "isTransactionContention e = (error_code e \<in> set [''P1008'', ''P2028'', ''P2034''])"

definition option_text :: "string option \<Rightarrow> string" where
  "option_text s = (case s of Some t \<Rightarrow> t | None \<Rightarrow> [])"

text \<open>\<open>/SQLITE_BUSY|SQLITE_LOCKED|database is locked/i\<close>\<close>

definition BUSY_TEXT :: rx where
  "BUSY_TEXT = alts [lit ''sqlite_busy'', lit ''sqlite_locked'', lit ''database is locked'']"

definition isSafeClaimBusy :: "db_error \<Rightarrow> bool" where
  "isSafeClaimBusy e =
     (err_code e = ''P1008'' \<or> err_code e = ''P2034'' \<or>
      (err_code e = ''P2010'' \<and> rx_search_ci BUSY_TEXT (option_text (err_meta_code e) @ '' '' @ err_message e)))"

text \<open>
  \<open>/\btransaction\b.{0,160}\b(?:timeout|timed out)\b|\b(?:timeout|timed out)\b.{0,160}\btransaction\b/i\<close>:
  \<open>word_at s i w\<close> is \<open>\bw\b\<close> at position \<open>i\<close>, and two words are near when the text between
  them is at most 160 characters long and has no line terminator.
\<close>

definition word_char :: "char \<Rightarrow> bool" where
  "word_char c = (lower c \<or> upper c \<or> digit_char c \<or> c = CHR ''_'')"

definition word_at :: "string \<Rightarrow> nat \<Rightarrow> string \<Rightarrow> bool" where
  "word_at s i w =
     (take (length w) (drop i s) = w \<and> (i = 0 \<or> \<not> word_char (s ! (i - 1))) \<and>
      (i + length w \<ge> length s \<or> \<not> word_char (s ! (i + length w))))"

definition near :: "string \<Rightarrow> string \<Rightarrow> string \<Rightarrow> bool" where
  "near s w v = list_ex (\<lambda>i. word_at s i w \<and>
     list_ex (\<lambda>j. word_at s j v \<and> i + length w \<le> j \<and> j - (i + length w) \<le> 160 \<and>
         list_all (\<lambda>c. c \<noteq> CHR 0x0A \<and> c \<noteq> CHR 0x0D) (js_slice (i + length w) j s))
       [0..<length s]) [0..<length s]"

definition isExplicitPrismaTransactionTimeout :: "exn \<Rightarrow> bool" where
  "isExplicitPrismaTransactionTimeout error =
     (case error of
        DbFault e \<Rightarrow> err_code e = ''P2028'' \<and>
          (let message = map to_lower (err_message e @ '' '' @ option_text (err_meta_error e)) in
             list_ex (\<lambda>w. near message ''transaction'' w \<or> near message w ''transaction'')
               [''timeout'', ''timed out''])
      | _ \<Rightarrow> False)"

definition parseResult :: "string option \<Rightarrow> json" where
  "parseResult raw =
     (case truthy raw of
        None \<Rightarrow> JNull
      | Some s \<Rightarrow> (case json_parse s of Some v \<Rightarrow> v | None \<Rightarrow> JNull))"

definition parsePolicySnapshot :: "string option \<Rightarrow> json option" where
  "parsePolicySnapshot raw =
     (case truthy raw of None \<Rightarrow> None | Some s \<Rightarrow> json_parse s)"

definition payloadBytes :: "json \<Rightarrow> nat" where
  "payloadBytes value = utf8_length (stable_json value)"

definition thirty_days :: time where "thirty_days = 30 * 24 * 60 * 60 * 1000"

definition queued_max_attempts :: "queued_input \<Rightarrow> int" where
  "queued_max_attempts q = (case q_maxAttempts q of Some n \<Rightarrow> n | None \<Rightarrow> if q_retryable q then 3 else 1)"

definition assertQueuedConfiguration :: "queued_input \<Rightarrow> string \<Rightarrow> time \<Rightarrow> exn option" where
  "assertQueuedConfiguration q idempotencyKey now =
     (if \<not> rx_test ACTION_ID (q_actionId q) \<or> p_actionId (q_policySnapshot q) \<noteq> q_actionId q
        then Some (Conflict ''Queued operation action is invalid'')
      else if p_idempotencyId (q_policySnapshot q) \<noteq> idempotencyKey
        then Some (Conflict ''Operation policy idempotency binding is invalid'')
      else if p_recoveryPolicy (q_policySnapshot q) \<noteq> q_recoveryPolicy q \<or>
              p_retryable (q_policySnapshot q) \<noteq> q_retryable q
        then Some (Conflict ''Operation policy recovery binding is invalid'')
      else if q_retryable q \<noteq> (q_recoveryPolicy q = RETRY_SAFE)
        then Some (Conflict ''Only RETRY_SAFE operations may be retried'')
      else if (case q_deadlineAt q of None \<Rightarrow> True | Some d \<Rightarrow> d \<le> now \<or> d > now + thirty_days)
        then Some (Conflict ''Queued operation deadline is invalid'')
      else if queued_max_attempts q < 1 \<or> queued_max_attempts q > 3
        then Some (Conflict ''Queued operation maxAttempts must be 1-3'')
      else map_option Plain (assertNoSecretFields ''policySnapshot'' (policy_json (q_policySnapshot q))))"

text \<open>The members of a policy have harmless names, whatever its values.\<close>

lemma policy_is_safe: "assertNoSecretFields path (policy_json p) = None"
proof -
  have safe: "\<not> secret_name k" if "k \<in> set [''actionId'', ''schemaVersion'', ''actorKind'', ''issuerId'', ''subject'',
      ''role'', ''permissions'', ''idempotencyId'', ''requestId'', ''recoveryPolicy'', ''retryable'']" for k
  proof -
    have "list_all (\<lambda>k. \<not> list_ex (\<lambda>w. sublist w (map to_lower k)) secret_words)
      [''actionId'', ''schemaVersion'', ''actorKind'', ''issuerId'', ''subject'',
      ''role'', ''permissions'', ''idempotencyId'', ''requestId'', ''recoveryPolicy'', ''retryable'']"
      by code_simp
    then show ?thesis using that unfolding list_all_iff by (intro not_secret_name) (rule bspec)
  qed
  have strings: "no_secret_items q i (map JStr ss) = None" for q i ss
    by (induction ss arbitrary: i) simp_all
  show ?thesis by (simp add: policy_json_def policy_members_def safe strings)
qed

lemma timeout_examples:
  "isExplicitPrismaTransactionTimeout (DbFault \<lparr>err_code = ''P2028'', err_meta_code = None,
     err_meta_error = None, err_message = ''Transaction API error: the transaction timed out''\<rparr>)"
  "\<not> isExplicitPrismaTransactionTimeout (DbFault \<lparr>err_code = ''P2028'', err_meta_code = None,
     err_meta_error = None, err_message = ''Transaction already closed''\<rparr>)"
  by code_simp+

end
