(* ===== verification/Operation_Begin.thy ===== *)
theory Operation_Begin
  imports Operation_Store
begin

text \<open>
  Admission of an operation: \<open>begin\<close> of \<open>OperationsService\<close> with the checks it calls, and
  \<open>start\<close>.

  \<open>begin\<close> looks the idempotency key up, then inserts the operation and its locks in one
  transaction. Another process may insert in between, so the model takes two states: the
  one at the lookup (\<open>seen\<close>) and the one at the transaction. \<open>fault\<close> is an error the database
  client raises in the transaction, \<open>u1\<close> and \<open>u2\<close> are the two values of \<open>randomUUID()\<close>, and
  \<open>maintenance\<close> is the presence of the release marker file.
\<close>

section \<open>Replay\<close>

definition assertReplay :: "op_row \<Rightarrow> begin_input \<Rightarrow> string \<Rightarrow> exn option" where
  "assertReplay existing inp requestHash =
     (if op_type existing \<noteq> bi_type inp \<or> op_createdByUserId existing \<noteq> bi_userId inp \<or>
         op_requestHash existing \<noteq> requestHash
      then Some (Conflict ''Idempotency-Key was already used for a different request'')
      else None)"

definition replay_ticket :: "op_row \<Rightarrow> ticket" where
  "replay_ticket r = \<lparr>tk_id = op_id r, tk_siteId = op_siteId r, tk_siteDomainId = op_siteDomainId r,
     tk_replayed = True, tk_status = op_status r, tk_result = parseResult (op_result r)\<rparr>"

text \<open>The value whose canonical text is hashed; \<open>requestId\<close> is left out of the policy.\<close>

definition request_fingerprint :: "begin_input \<Rightarrow> string option \<Rightarrow> json" where
  "request_fingerprint inp globalLockKey = JObj
     [(''request'', bi_request inp),
      (''scope'', JObj
        [(''siteId'', json_opt (truthy (bi_siteId inp))),
         (''siteDomainId'', json_opt (truthy (bi_siteDomainId inp))),
         (''databaseId'', json_opt (truthy (bi_databaseId inp))),
         (''globalLockKey'', json_opt globalLockKey),
         (''lockSite'', JBool (bi_lockSite inp \<noteq> Some False)),
         (''parentOperationId'', json_opt (truthy (bi_parentOperationId inp)))]),
      (''execution'', (case bi_queued inp of
         None \<Rightarrow> JNull
       | Some q \<Rightarrow> JObj
          [(''actionId'', JStr (q_actionId q)),
           (''policy'', JObj (policy_members (q_policySnapshot q) JUndefined)),
           (''recoveryPolicy'', JStr (recovery_name (q_recoveryPolicy q))),
           (''retryable'', JBool (q_retryable q)),
           (''maxAttempts'', JNum (queued_max_attempts q))]))]"

definition request_hash :: "op_env \<Rightarrow> begin_input \<Rightarrow> string option \<Rightarrow> string" where
  "request_hash env inp globalLockKey = sha256_hex env (stable_json (request_fingerprint inp globalLockKey))"

section \<open>The scope hierarchy\<close>

definition op_summary :: "op_row \<Rightarrow> json" where
  "op_summary r = JObj [(''id'', JStr (op_id r)), (''type'', JStr (op_type r)),
     (''status'', JStr (state_name (op_status r))), (''currentStep'', json_opt (op_currentStep r))]"

definition summary_opt :: "op_row option \<Rightarrow> json" where
  "summary_opt r = (case r of None \<Rightarrow> JNull | Some x \<Rightarrow> op_summary x)"

definition lock_operation :: "db \<Rightarrow> lock_row \<Rightarrow> op_row option" where
  "lock_operation d l = find_key op_id (lk_operationId l) (db_ops d)"

definition scope_locked :: "db \<Rightarrow> lock_row \<Rightarrow> exn" where
  "scope_locked d l = ConflictWith ''Operation scope is locked'' (summary_opt (lock_operation d l))"

definition site_lock_key :: "string \<Rightarrow> string" where
  "site_lock_key site = ''site:'' @ site"

text \<open>A lock on a domain or a database of \<open>site\<close> whose operation still holds its locks.\<close>

definition nested_lock_of :: "db \<Rightarrow> string \<Rightarrow> lock_row \<Rightarrow> bool" where
  "nested_lock_of d site l =
     (lk_kind l \<in> set [DOMAIN, DATABASE] \<and>
      (case lock_operation d l of
         None \<Rightarrow> False
       | Some r \<Rightarrow> op_siteId r = Some site \<and> op_status r \<in> set LOCK_HOLDING_STATUSES))"

definition assertScopeHierarchyAvailable :: "db \<Rightarrow> scope \<Rightarrow> string option \<Rightarrow> exn option" where
  "assertScopeHierarchyAvailable d sc excludeOperationId =
     (case truthy (sc_siteId sc) of
        None \<Rightarrow> None
      | Some site \<Rightarrow>
          (let siteLock = find_key lk_resourceKey (site_lock_key site) (db_locks d) in
           if truthy (sc_parentOperationId sc) \<noteq> None then
             (case siteLock of
                None \<Rightarrow> None
              | Some l \<Rightarrow>
                  if Some (lk_operationId l) \<noteq> sc_parentOperationId sc \<and> Some (lk_operationId l) \<noteq> excludeOperationId
                  then Some (scope_locked d l) else None)
           else if sc_lockSite sc = Some False then
             (case siteLock of
                None \<Rightarrow> None
              | Some l \<Rightarrow>
                  if Some (lk_operationId l) \<noteq> excludeOperationId then Some (scope_locked d l) else None)
           else
             (case find_first (\<lambda>l. nested_lock_of d site l \<and>
                 (case truthy excludeOperationId of None \<Rightarrow> True | Some x \<Rightarrow> lk_operationId l \<noteq> x)) (db_locks d) of
                None \<Rightarrow> None
              | Some l \<Rightarrow> Some (scope_locked d l))))"

definition findResourceLock :: "db \<Rightarrow> string list \<Rightarrow> op_row option" where
  "findResourceLock d resourceKeys =
     (if resourceKeys = [] then None
      else case find_first (\<lambda>l. lk_resourceKey l \<in> set resourceKeys \<and>
          (case lock_operation d l of None \<Rightarrow> False | Some r \<Rightarrow> op_status r \<in> set LOCK_HOLDING_STATUSES)) (db_locks d) of
        None \<Rightarrow> None
      | Some l \<Rightarrow> lock_operation d l)"

section \<open>The insertion\<close>

definition unique_violation :: db_error where
  "unique_violation = \<lparr>err_code = ''P2002'', err_meta_code = None, err_meta_error = None,
     err_message = ''Unique constraint failed''\<rparr>"

definition own_lock :: "string \<Rightarrow> lock_spec \<Rightarrow> lock_row" where
  "own_lock operationId sp =
     \<lparr>lk_resourceKey = lk_resourceKey sp, lk_kind = lk_kind sp, lk_operationId = operationId\<rparr>"

text \<open>Inserting rows into a table with a unique key: all of them, or the error P2002.\<close>

definition create_locks :: "string \<Rightarrow> lock_spec list \<Rightarrow> lock_row list \<Rightarrow> lock_row list option" where
  "create_locks operationId specs ls =
     (if distinct (map lk_resourceKey specs) \<and> set (map lk_resourceKey specs) \<inter> lk_resourceKey ` set ls = {}
      then Some (ls @ map (own_lock operationId) specs) else None)"

definition create_operation :: "op_row \<Rightarrow> lock_spec list \<Rightarrow> db \<Rightarrow> (op_row, db) outcome" where
  "create_operation r specs d =
     (if op_id r \<in> op_id ` set (db_ops d) \<or> op_idempotencyKey r \<in> op_idempotencyKey ` set (db_ops d)
      then (Inl (DbFault unique_violation), d)
      else case create_locks (op_id r) specs (db_locks d) of
        None \<Rightarrow> (Inl (DbFault unique_violation), d)
      | Some ls \<Rightarrow> (Inr r, d\<lparr>db_ops := db_ops d @ [r], db_locks := ls\<rparr>))"

section \<open>begin\<close>

definition begin_key :: "string \<Rightarrow> begin_input \<Rightarrow> string" where
  "begin_key u1 inp = (case truthy (map_option js_trim (bi_idempotencyKey inp)) of Some k \<Rightarrow> k | None \<Rightarrow> u1)"

definition begin_lock_key :: "begin_input \<Rightarrow> string option" where
  "begin_lock_key inp = truthy (map_option js_trim (bi_globalLockKey inp))"

definition begin_scope :: "begin_input \<Rightarrow> scope" where
  "begin_scope inp = \<lparr>sc_globalLockKey = begin_lock_key inp, sc_siteId = bi_siteId inp,
     sc_siteDomainId = bi_siteDomainId inp, sc_databaseId = bi_databaseId inp,
     sc_lockSite = bi_lockSite inp, sc_parentOperationId = bi_parentOperationId inp\<rparr>"

text \<open>The checks before the first read.\<close>

definition begin_invalid :: "bool \<Rightarrow> begin_input \<Rightarrow> string \<Rightarrow> time \<Rightarrow> exn option" where
  "begin_invalid maintenance inp key now =
     (if maintenance then Some (Unavailable ''Panel writes are temporarily paused for a release migration'')
      else if \<not> rx_test IDEMPOTENCY_KEY key
        then Some (Conflict ''Idempotency-Key must be 8-128 safe ASCII characters'')
      else case (case bi_queued inp of
            None \<Rightarrow> None
          | Some q \<Rightarrow> (case assertQueuedConfiguration q key now of
                Some e \<Rightarrow> Some e
              | None \<Rightarrow> if payloadBytes (bi_request inp) > MAX_OPERATION_PAYLOAD_BYTES
                  then Some (Conflict ''Queued operation payload exceeds 1 MiB'') else None)) of
          Some e \<Rightarrow> Some e
        | None \<Rightarrow>
            (case begin_lock_key inp of
               None \<Rightarrow> None
             | Some g \<Rightarrow>
                 if \<not> rx_test GLOBAL_LOCK_KEY g
                   then Some (Conflict ''Global operation lock key must be 1-64 safe lowercase characters'')
                 else if truthy (bi_parentOperationId inp) \<noteq> None
                   then Some (Conflict ''Only top-level operations can acquire a global lock'')
                 else None))"

definition in_queue :: "op_row \<Rightarrow> bool" where
  "in_queue r = (op_executionMode r = MODE_QUEUED \<and> op_status r \<in> set QUEUE_STATUSES)"

definition queue_full :: "db \<Rightarrow> begin_input \<Rightarrow> bool" where
  "queue_full d inp =
     (bi_queued inp \<noteq> None \<and>
      (count_rows in_queue (db_ops d) \<ge> MAX_QUEUED_PER_TARGET \<or>
       count_rows (\<lambda>r. in_queue r \<and> op_createdByUserId r = bi_userId inp) (db_ops d) \<ge> MAX_QUEUED_PER_ACTOR))"

definition parent_unfit :: "db \<Rightarrow> begin_input \<Rightarrow> bool" where
  "parent_unfit d inp =
     (case truthy (bi_parentOperationId inp) of
        None \<Rightarrow> False
      | Some p \<Rightarrow> (case find_key op_id p (db_ops d) of
            None \<Rightarrow> True
          | Some parent \<Rightarrow> op_status parent \<notin> set EXECUTING_STATUSES \<or>
              op_createdByUserId parent \<noteq> bi_userId inp \<or>
              (bi_siteId inp \<noteq> None \<and> op_siteId parent \<noteq> bi_siteId inp)))"

definition active_backup :: "db \<Rightarrow> string option \<Rightarrow> backup_row option" where
  "active_backup d siteId =
     find_first (\<lambda>b. bk_siteId b = siteId \<and> bk_status b \<in> set [''PENDING'', ''IN_PROGRESS'']) (db_backups d)"

definition backup_conflict :: "backup_row \<Rightarrow> exn" where
  "backup_conflict b = ConflictWith ''Site backup is active''
     (JObj [(''id'', JStr (bk_id b)), (''status'', JStr (bk_status b))])"

definition new_operation :: "op_env \<Rightarrow> begin_input \<Rightarrow> string \<Rightarrow> string \<Rightarrow> time \<Rightarrow> op_row" where
  "new_operation env inp key u2 now =
     \<lparr>op_id = u2, op_idempotencyKey = key, op_requestHash = request_hash env inp (begin_lock_key inp),
      op_type = bi_type inp,
      op_status = (case bi_queued inp of Some _ \<Rightarrow> QUEUED | None \<Rightarrow> PENDING),
      op_siteId = truthy (bi_siteId inp), op_siteDomainId = truthy (bi_siteDomainId inp),
      op_databaseId = truthy (bi_databaseId inp), op_globalLockKey = begin_lock_key inp,
      op_parentOperationId = truthy (bi_parentOperationId inp), op_createdByUserId = bi_userId inp,
      op_currentStep = None, op_progress = 0,
      op_actionId = Option.bind (bi_queued inp) (\<lambda>q. truthy (Some (q_actionId q))),
      op_executionMode = (case bi_queued inp of Some _ \<Rightarrow> MODE_QUEUED | None \<Rightarrow> INLINE),
      op_policySnapshot = map_option (\<lambda>q. stable_json (policy_json (q_policySnapshot q))) (bi_queued inp),
      op_requestPayloadEnc = map_option (\<lambda>q. encrypt_operations env
        (JObj [(''operationId'', JStr u2), (''request'', bi_request inp)])) (bi_queued inp),
      op_attempt = 0,
      op_maxAttempts = (case bi_queued inp of Some q \<Rightarrow> queued_max_attempts q | None \<Rightarrow> 1),
      op_retryable = (case bi_queued inp of Some q \<Rightarrow> q_retryable q | None \<Rightarrow> False),
      op_recoveryPolicy = (case bi_queued inp of Some q \<Rightarrow> q_recoveryPolicy q | None \<Rightarrow> MANUAL),
      op_leaseOwner = None, op_leaseExpiresAt = None, op_heartbeatAt = None, op_claimedAt = None,
      op_deadlineAt = Option.bind (bi_queued inp) q_deadlineAt,
      op_cancelRequestedAt = None,
      op_cancelOutcome = map_option (\<lambda>_. NOT_REQUESTED) (bi_queued inp),
      op_result = None, op_errorMessage = None, op_startedAt = None, op_completedAt = None,
      op_createdAt = now\<rparr>"

definition begin_tx :: "op_env \<Rightarrow> begin_input \<Rightarrow> string \<Rightarrow> string \<Rightarrow> time \<Rightarrow> db \<Rightarrow> (op_row, db) outcome" where
  "begin_tx env inp key u2 now d =
     (if queue_full d inp then (Inl (TooMany ''Operation queue admission limit reached''), d)
      else if parent_unfit d inp then (Inl (Conflict ''Parent operation is not active or compatible''), d)
      else case (case truthy (bi_siteId inp) of None \<Rightarrow> None | Some s \<Rightarrow> active_backup d (Some s)) of
          Some b \<Rightarrow> (Inl (backup_conflict b), d)
        | None \<Rightarrow> (case assertScopeHierarchyAvailable d (begin_scope inp) None of
              Some e \<Rightarrow> (Inl e, d)
            | None \<Rightarrow> create_operation (new_operation env inp key u2 now) (operationLockSpecs (begin_scope inp)) d))"

text \<open>What the caller gets when the insertion failed on a unique key.\<close>

definition scope_holder :: "db \<Rightarrow> begin_input \<Rightarrow> op_row option" where
  "scope_holder d inp =
     (case findResourceLock d (map lk_resourceKey (operationLockSpecs (begin_scope inp))) of
        Some r \<Rightarrow> Some r
      | None \<Rightarrow> find_first (\<lambda>r. op_status r \<in> set LOCK_HOLDING_STATUSES \<and>
          ((truthy (bi_siteId inp) \<noteq> None \<and> op_siteId r = bi_siteId inp) \<or>
           (truthy (bi_siteDomainId inp) \<noteq> None \<and> op_siteDomainId r = bi_siteDomainId inp) \<or>
           (truthy (bi_databaseId inp) \<noteq> None \<and> op_databaseId r = bi_databaseId inp) \<or>
           (begin_lock_key inp \<noteq> None \<and> op_globalLockKey r = begin_lock_key inp))) (db_ops d))"

definition begin_failed :: "op_env \<Rightarrow> begin_input \<Rightarrow> string \<Rightarrow> exn \<Rightarrow> db \<Rightarrow> exn + ticket" where
  "begin_failed env inp key error d =
     (if error_code error = ''P2002'' then
        (case find_key op_idempotencyKey key (db_ops d) of
           Some replay \<Rightarrow> (case assertReplay replay inp (request_hash env inp (begin_lock_key inp)) of
               Some e \<Rightarrow> Inl e
             | None \<Rightarrow> Inr (replay_ticket replay))
         | None \<Rightarrow> Inl (ConflictWith ''Operation scope is locked'' (summary_opt (scope_holder d inp))))
      else if isTransactionContention error then Inl (Conflict ''Operation scope is busy'')
      else Inl error)"

definition begin_operation ::
  "op_env \<Rightarrow> bool \<Rightarrow> begin_input \<Rightarrow> string \<Rightarrow> string \<Rightarrow> time \<Rightarrow> db_error option \<Rightarrow> db \<Rightarrow> db \<Rightarrow> (ticket, db) outcome"
where
  "begin_operation env maintenance inp u1 u2 now fault seen d =
     (let key = begin_key u1 inp; hash = request_hash env inp (begin_lock_key inp) in
      case begin_invalid maintenance inp key now of
        Some e \<Rightarrow> (Inl e, d)
      | None \<Rightarrow>
         (case find_key op_idempotencyKey key (db_ops seen) of
            Some existing \<Rightarrow> (case assertReplay existing inp hash of
                Some e \<Rightarrow> (Inl e, d)
              | None \<Rightarrow> (Inr (replay_ticket existing), d))
          | None \<Rightarrow>
              if (truthy (bi_siteDomainId inp) \<noteq> None \<or> truthy (bi_databaseId inp) \<noteq> None) \<and> truthy (bi_siteId inp) = None
              then (Inl (Conflict ''Domain and database operations require a Site scope''), d)
              else (case transaction fault (begin_tx env inp key u2 now) d of
                  (Inr created, d') \<Rightarrow>
                    (Inr \<lparr>tk_id = op_id created, tk_siteId = op_siteId created, tk_siteDomainId = op_siteDomainId created,
                       tk_replayed = False, tk_status = op_status created, tk_result = JNull\<rparr>, d')
                | (Inl error, d') \<Rightarrow> (begin_failed env inp key error d', d'))))"

section \<open>start\<close>

text \<open>
  \<open>updateMany\<close> with a guard, then an error unless exactly one row changed: the shape of
  nearly every write of the service.
\<close>

definition guarded_update :: "(op_row \<Rightarrow> bool) \<Rightarrow> (op_row \<Rightarrow> op_row) \<Rightarrow> exn \<Rightarrow> db \<Rightarrow> (unit, db) outcome" where
  "guarded_update P f e d =
     (if count_rows P (db_ops d) = 1 then Inr () else Inl e, d\<lparr>db_ops := update_rows P f (db_ops d)\<rparr>)"

definition start :: "string \<Rightarrow> string \<Rightarrow> time \<Rightarrow> db \<Rightarrow> (unit, db) outcome" where
  "start operationId step now =
     guarded_update (\<lambda>r. op_id r = operationId \<and> op_status r = PENDING)
       (\<lambda>r. r\<lparr>op_status := RUNNING, op_currentStep := Some step, op_startedAt := Some now, op_progress := 0\<rparr>)
       (Conflict ''Operation is not pending'')"

end
