(* ===== verification/Operation_Queue.thy ===== *)
theory Operation_Queue
  imports Operation_Begin
begin

text \<open>
  The queue side of \<open>OperationsService\<close>: claiming under a lease, heartbeats, the maintenance
  sweep, and the ways a claimed operation is finished. Every write is one \<open>updateMany\<close> or one
  transaction, and is a definition of its own, so that the step relation of
  \<open>Operation_System\<close> can interleave them; \<open>maintainQueue\<close> and \<open>claimNext\<close> compose them in
  the order of the code. Times are readings of \<open>new Date()\<close> in milliseconds.
\<close>

definition lease_ms :: time where "lease_ms = 30000"

definition lease_expired :: "time \<Rightarrow> op_row \<Rightarrow> bool" where
  "lease_expired now r = (case op_leaseExpiresAt r of None \<Rightarrow> False | Some t \<Rightarrow> t \<le> now)"

definition lease_alive :: "time \<Rightarrow> op_row \<Rightarrow> bool" where
  "lease_alive now r = (case op_leaseExpiresAt r of None \<Rightarrow> False | Some t \<Rightarrow> t > now)"

definition deadline_ahead :: "time \<Rightarrow> op_row \<Rightarrow> bool" where
  "deadline_ahead now r = (case op_deadlineAt r of None \<Rightarrow> False | Some t \<Rightarrow> t > now)"

definition deadline_passed :: "time \<Rightarrow> op_row \<Rightarrow> bool" where
  "deadline_passed now r = (case op_deadlineAt r of None \<Rightarrow> False | Some t \<Rightarrow> t \<le> now)"

definition drop_lease :: "op_row \<Rightarrow> op_row" where
  "drop_lease r = r\<lparr>op_leaseOwner := None, op_leaseExpiresAt := None, op_heartbeatAt := None\<rparr>"

section \<open>The claim statement\<close>

definition claimable :: "time \<Rightarrow> op_row \<Rightarrow> bool" where
  "claimable now r =
     (op_executionMode r = MODE_QUEUED \<and> op_status r \<in> set [QUEUED, RECOVERING] \<and> op_leaseOwner r = None \<and>
      op_cancelRequestedAt r = None \<and> deadline_ahead now r \<and>
      (op_status r = RECOVERING \<or> op_attempt r < op_maxAttempts r))"

definition claim_order :: "op_row \<Rightarrow> time \<times> string" where
  "claim_order r = (op_createdAt r, op_id r)"

definition claim_candidate :: "time \<Rightarrow> op_row list \<Rightarrow> op_row option" where
  "claim_candidate now rows =
     (case sort_key claim_order (filter (claimable now) rows) of [] \<Rightarrow> None | r # _ \<Rightarrow> Some r)"

definition holds_slot :: "time \<Rightarrow> op_row \<Rightarrow> bool" where
  "holds_slot now r =
     (op_executionMode r = MODE_QUEUED \<and> op_status r \<in> set LEASED_STATUSES \<and> lease_alive now r)"

definition claim_capacity :: nat where "claim_capacity = 2"

definition claim_write :: "string \<Rightarrow> time \<Rightarrow> op_row \<Rightarrow> op_row" where
  "claim_write leaseOwner now r = r\<lparr>
     op_status := CLAIMED,
     op_currentStep := Some (if op_status r = RECOVERING then ''reconcile'' else ''start''),
     op_attempt := (if op_status r = QUEUED then op_attempt r + 1 else op_attempt r),
     op_leaseOwner := Some leaseOwner,
     op_leaseExpiresAt := Some (now + lease_ms),
     op_heartbeatAt := Some now,
     op_claimedAt := Some now,
     op_completedAt := None\<rparr>"

text \<open>The \<open>UPDATE ... RETURNING\<close>: the id of the claimed row and whether it was recovering.\<close>

definition claim_sql :: "string \<Rightarrow> time \<Rightarrow> db \<Rightarrow> (string \<times> bool) option \<times> db" where
  "claim_sql leaseOwner now d =
     (case claim_candidate now (db_ops d) of
        None \<Rightarrow> (None, d)
      | Some r \<Rightarrow>
          if count_rows (holds_slot now) (db_ops d) < claim_capacity
          then (Some (op_id r, op_status r = RECOVERING),
                d\<lparr>db_ops := update_rows (\<lambda>x. op_id x = op_id r) (claim_write leaseOwner now) (db_ops d)\<rparr>)
          else (None, d))"

text \<open>The retry loop around it; \<open>faults\<close> are the errors of the successive attempts.\<close>

definition claim_retries :: nat where "claim_retries = 2"

fun claim_attempts ::
  "string \<Rightarrow> time \<Rightarrow> nat \<Rightarrow> db_error option list \<Rightarrow> db \<Rightarrow> ((string \<times> bool) option, db) outcome"
where
  "claim_attempts leaseOwner now attempt (Some e # faults) d =
     (if \<not> isSafeClaimBusy e \<or> attempt = claim_retries then (Inl (DbFault e), d)
      else claim_attempts leaseOwner now (attempt + 1) faults d)"
| "claim_attempts leaseOwner now attempt _ d = (let (c, d') = claim_sql leaseOwner now d in (Inr c, d'))"

section \<open>The maintenance sweep\<close>

definition sweep_batch :: nat where "sweep_batch = 16"

definition lost_lease :: "time \<Rightarrow> op_row \<Rightarrow> bool" where
  "lost_lease now r =
     (op_executionMode r = MODE_QUEUED \<and> op_status r \<in> set LEASED_STATUSES \<and> lease_expired now r)"

definition recoverable :: "op_row \<Rightarrow> bool" where
  "recoverable r =
     (op_recoveryPolicy r = RECONCILE_ONLY \<or> (op_recoveryPolicy r = RETRY_SAFE \<and> op_retryable r))"

definition recover_write :: "op_row \<Rightarrow> op_row" where
  "recover_write r = drop_lease (r\<lparr>op_status := RECOVERING, op_currentStep := Some ''reconcile''\<rparr>)"

definition attention_write :: "string \<Rightarrow> time \<Rightarrow> op_row \<Rightarrow> op_row" where
  "attention_write message now r = drop_lease (r\<lparr>op_status := NEEDS_ATTENTION, op_currentStep := None,
     op_errorMessage := Some message, op_completedAt := Some now\<rparr>)"

definition sweep_lost :: "time \<Rightarrow> op_row \<Rightarrow> db \<Rightarrow> db" where
  "sweep_lost now operation d =
     d\<lparr>db_ops := update_rows
        (\<lambda>r. op_id r = op_id operation \<and> op_status r = op_status operation \<and> lease_expired now r)
        (if op_status operation \<noteq> CANCEL_REQUESTED \<and> recoverable operation then recover_write
         else attention_write ''Operation lease expired; reconciliation is required'' now)
        (db_ops d)\<rparr>"

definition expired_in_queue :: "time \<Rightarrow> op_row \<Rightarrow> bool" where
  "expired_in_queue now r =
     (op_executionMode r = MODE_QUEUED \<and> op_status r \<in> set [QUEUED, RECOVERING] \<and> deadline_passed now r)"

definition expire_guard :: "time \<Rightarrow> op_row \<Rightarrow> op_row \<Rightarrow> bool" where
  "expire_guard now operation r =
     (op_id r = op_id operation \<and> op_status r = op_status operation \<and> deadline_passed now r)"

definition expire_write :: "time \<Rightarrow> op_row \<Rightarrow> op_row" where
  "expire_write now r = r\<lparr>op_status := FAILED,
     op_errorMessage := Some ''Operation deadline expired before execution'',
     op_completedAt := Some now, op_currentStep := None\<rparr>"

definition expire_mark :: "time \<Rightarrow> op_row \<Rightarrow> db \<Rightarrow> db" where
  "expire_mark now operation d =
     d\<lparr>db_ops := update_rows (expire_guard now operation) (expire_write now) (db_ops d)\<rparr>"

definition expire_unlock :: "string \<Rightarrow> db \<Rightarrow> db" where
  "expire_unlock operationId d =
     d\<lparr>db_locks := delete_rows (\<lambda>l. lk_operationId l = operationId \<and>
        (case lock_operation d l of None \<Rightarrow> False | Some r \<Rightarrow> op_status r = FAILED)) (db_locks d)\<rparr>"

definition sweep_expired :: "time \<Rightarrow> op_row \<Rightarrow> db \<Rightarrow> db" where
  "sweep_expired now operation d =
     (if count_rows (expire_guard now operation) (db_ops d) = 1
      then expire_unlock (op_id operation) (expire_mark now operation d)
      else expire_mark now operation d)"

definition sweep_exhausted :: "time \<Rightarrow> op_row \<Rightarrow> db \<Rightarrow> db" where
  "sweep_exhausted now operation d =
     (if op_attempt operation < op_maxAttempts operation then d
      else d\<lparr>db_ops := update_rows
        (\<lambda>r. op_id r = op_id operation \<and> op_status r = QUEUED \<and> op_attempt r = op_attempt operation)
        (\<lambda>r. r\<lparr>op_status := NEEDS_ATTENTION, op_errorMessage := Some ''Operation attempt budget exhausted'',
               op_completedAt := Some now\<rparr>) (db_ops d)\<rparr>)"

definition maintainQueue :: "time \<Rightarrow> db \<Rightarrow> db" where
  "maintainQueue now d =
     (let d1 = fold (sweep_lost now) (find_many (lost_lease now) sweep_batch (db_ops d)) d;
          d2 = fold (sweep_expired now) (find_many (expired_in_queue now) sweep_batch (db_ops d1)) d1
      in fold (sweep_exhausted now)
           (find_many (\<lambda>r. op_executionMode r = MODE_QUEUED \<and> op_status r = QUEUED \<and> op_attempt r \<ge> 1)
              sweep_batch (db_ops d2)) d2)"

section \<open>Attention\<close>

definition requireAttention :: "string \<Rightarrow> string \<Rightarrow> string \<Rightarrow> time \<Rightarrow> db \<Rightarrow> (unit, db) outcome" where
  "requireAttention operationId leaseOwner message now =
     guarded_update (\<lambda>r. op_id r = operationId \<and> op_leaseOwner r = Some leaseOwner)
       (attention_write message now) (Conflict ''Operation claim is stale'')"

section \<open>claimNext\<close>

definition json_falsy :: "json \<Rightarrow> bool" where
  "json_falsy v = (v \<in> set [JUndefined, JNull, JBool False, JNum 0, JStr []])"

text \<open>The claimed row as the worker gets it, \<open>None\<close> when its payload cannot be used.\<close>

definition claimed_payload :: "op_env \<Rightarrow> op_row \<Rightarrow> string \<Rightarrow> string \<Rightarrow> (json \<times> json) option" where
  "claimed_payload env r payload_enc snapshot =
     (case decrypt_operations env payload_enc of
        None \<Rightarrow> None
      | Some payload \<Rightarrow>
          (case parsePolicySnapshot (Some snapshot) of
             None \<Rightarrow> None
           | Some p \<Rightarrow> if field payload ''operationId'' \<noteq> JStr (op_id r) \<or> json_falsy p then None
               else Some (field payload ''request'', p)))"

definition claimed_view :: "op_row \<Rightarrow> bool \<Rightarrow> string \<Rightarrow> time \<Rightarrow> json \<times> json \<Rightarrow> claimed_operation" where
  "claimed_view r recovering actionId deadlineAt payload =
     \<lparr>c_id = op_id r, c_actionId = actionId, c_recovering = recovering, c_attempt = op_attempt r,
      c_maxAttempts = op_maxAttempts r, c_retryable = op_retryable r, c_recoveryPolicy = op_recoveryPolicy r,
      c_deadlineAt = deadlineAt, c_request = fst payload, c_policySnapshot = snd payload,
      c_cancelRequestedAt = op_cancelRequestedAt r\<rparr>"

definition give_up_claim ::
  "string \<Rightarrow> string \<Rightarrow> string \<Rightarrow> time \<Rightarrow> db \<Rightarrow> (claimed_operation option, db) outcome"
where
  "give_up_claim operationId leaseOwner message now d =
     (case requireAttention operationId leaseOwner message now d of
        (Inl e, d') \<Rightarrow> (Inl e, d')
      | (Inr _, d') \<Rightarrow> (Inr None, d'))"

definition read_claim ::
  "op_env \<Rightarrow> string \<Rightarrow> time \<Rightarrow> string \<times> bool \<Rightarrow> db \<Rightarrow> (claimed_operation option, db) outcome"
where
  "read_claim env leaseOwner now claimed d =
     (let incomplete = give_up_claim (fst claimed) leaseOwner ''Queued operation state is incomplete'' now d in
      case find_key op_id (fst claimed) (db_ops d) of
        None \<Rightarrow> incomplete
      | Some r \<Rightarrow>
         (case (truthy (op_actionId r), op_deadlineAt r, truthy (op_requestPayloadEnc r), truthy (op_policySnapshot r)) of
            (Some actionId, Some deadlineAt, Some enc, Some snapshot) \<Rightarrow>
              (case claimed_payload env r enc snapshot of
                 None \<Rightarrow> give_up_claim (fst claimed) leaseOwner ''Queued operation payload cannot be decrypted'' now d
               | Some payload \<Rightarrow> (Inr (Some (claimed_view r (snd claimed) actionId deadlineAt payload)), d))
          | _ \<Rightarrow> incomplete))"

text \<open>
  One pass of \<open>claimNext\<close> up to its recursive call: the maintenance every thirty seconds
  (\<open>next_at\<close> is \<open>nextQueueMaintenanceAt\<close>, \<open>wall\<close> the reading of \<open>Date.now()\<close>), then the claim.
\<close>

definition claim_pass ::
  "string \<Rightarrow> time \<Rightarrow> time \<Rightarrow> db_error option list \<Rightarrow> time \<times> db \<Rightarrow> ((string \<times> bool) option, time \<times> db) outcome"
where
  "claim_pass leaseOwner now wall faults s =
     (let (next_at, d) = s;
          (next_at', d1) = (if wall \<ge> next_at then (wall + 30000, maintainQueue now d) else (next_at, d));
          (res, d2) = claim_attempts leaseOwner now 0 faults d1
      in (res, next_at', d2))"

definition finish_claim ::
  "op_env \<Rightarrow> string \<Rightarrow> time \<Rightarrow> (string \<times> bool) option \<Rightarrow> time \<times> db \<Rightarrow> (claimed_operation option, time \<times> db) outcome"
where
  "finish_claim env leaseOwner now claimed s =
     (case claimed of
        None \<Rightarrow> (Inr None, s)
      | Some c \<Rightarrow> (let (res, d) = read_claim env leaseOwner now c (snd s) in (res, fst s, d)))"

definition claimNext ::
  "op_env \<Rightarrow> string \<Rightarrow> time \<Rightarrow> time \<Rightarrow> db_error option list \<Rightarrow> db_error option list \<Rightarrow> time \<times> db
     \<Rightarrow> (claimed_operation option, time \<times> db) outcome"
where
  "claimNext env leaseOwner now wall faults faults2 s =
     (if \<not> rx_test IDEMPOTENCY_KEY leaseOwner then (Inl (Plain ''Invalid operation lease owner''), s)
      else case claim_pass leaseOwner now wall faults s of
        (Inl e, s1) \<Rightarrow> (Inl e, s1)
      | (Inr (Some c), s1) \<Rightarrow> finish_claim env leaseOwner now (Some c) s1
      | (Inr None, s1) \<Rightarrow>
          (case find_first (lost_lease now) (db_ops (snd s1)) of
             None \<Rightarrow> (Inr None, s1)
           | Some _ \<Rightarrow>
              (case claim_pass leaseOwner now wall faults2 (fst s1, maintainQueue now (snd s1)) of
                 (Inl e, s2) \<Rightarrow> (Inl e, s2)
               | (Inr c, s2) \<Rightarrow> finish_claim env leaseOwner now c s2)))"

section \<open>A running claim\<close>

definition startClaimed :: "string \<Rightarrow> string \<Rightarrow> string \<Rightarrow> time \<Rightarrow> db \<Rightarrow> (unit, db) outcome" where
  "startClaimed operationId leaseOwner step now =
     guarded_update (\<lambda>r. op_id r = operationId \<and> op_status r = CLAIMED \<and> op_leaseOwner r = Some leaseOwner \<and>
         lease_alive now r)
       (\<lambda>r. r\<lparr>op_status := RUNNING, op_currentStep := Some step, op_startedAt := Some now, op_heartbeatAt := Some now\<rparr>)
       (Conflict ''Operation claim is stale'')"

text \<open>\<open>Math.max(0, Math.min(99, Math.trunc(progress)))\<close> on an integer.\<close>

definition clamp_progress :: "int \<Rightarrow> int" where
  "clamp_progress p = max 0 (min 99 p)"

definition heartbeat_guard :: "string \<Rightarrow> string \<Rightarrow> time \<Rightarrow> op_row \<Rightarrow> bool" where
  "heartbeat_guard operationId leaseOwner now r =
     (op_id r = operationId \<and> op_leaseOwner r = Some leaseOwner \<and> op_status r \<in> set LEASED_STATUSES \<and>
      lease_alive now r \<and> deadline_ahead now r)"

definition heartbeatClaim ::
  "string \<Rightarrow> string \<Rightarrow> string option \<Rightarrow> int option \<Rightarrow> time \<Rightarrow> db \<Rightarrow> bool \<times> db"
where
  "heartbeatClaim operationId leaseOwner step progress now d =
     (count_rows (heartbeat_guard operationId leaseOwner now) (db_ops d) = 1,
      d\<lparr>db_ops := update_rows (heartbeat_guard operationId leaseOwner now)
        (\<lambda>r. r\<lparr>op_heartbeatAt := Some now, op_leaseExpiresAt := Some (now + lease_ms),
               op_currentStep := (case step of None \<Rightarrow> op_currentStep r | Some st \<Rightarrow> Some st),
               op_progress := (case progress of None \<Rightarrow> op_progress r | Some p \<Rightarrow> clamp_progress p)\<rparr>)
        (db_ops d)\<rparr>)"

definition isCancellationRequested :: "string \<Rightarrow> string \<Rightarrow> db \<Rightarrow> bool" where
  "isCancellationRequested operationId leaseOwner d =
     (case find_first (\<lambda>r. op_id r = operationId \<and> op_leaseOwner r = Some leaseOwner) (db_ops d) of
        None \<Rightarrow> False
      | Some r \<Rightarrow> op_status r = CANCEL_REQUESTED \<or> op_cancelRequestedAt r \<noteq> None)"

section \<open>Finalization\<close>

definition release_locks :: "string \<Rightarrow> db \<Rightarrow> db" where
  "release_locks operationId d =
     d\<lparr>db_locks := delete_rows (\<lambda>l. lk_operationId l = operationId) (db_locks d)\<rparr>"

text \<open>
  The guarded update and the deletion of the operation's locks, in one transaction. A
  conflict rolls both back.
\<close>

definition finalize_and_release ::
  "string \<Rightarrow> (op_row \<Rightarrow> bool) \<Rightarrow> (op_row \<Rightarrow> op_row) \<Rightarrow> exn \<Rightarrow> db \<Rightarrow> (unit, db) outcome"
where
  "finalize_and_release operationId P f e d =
     (case guarded_update P f e d of
        (Inl x, d') \<Rightarrow> (Inl x, d')
      | (Inr _, d') \<Rightarrow> (Inr (), release_locks operationId d'))"

definition FINALIZATION_TRANSACTION_MAX_ATTEMPTS :: nat where
  "FINALIZATION_TRANSACTION_MAX_ATTEMPTS = 3"

text \<open>The loop of \<open>withFinalizationTransaction\<close>; the first argument is the attempts left.\<close>

fun finalization_loop :: "nat \<Rightarrow> db_error option list \<Rightarrow> (db \<Rightarrow> ('a, db) outcome) \<Rightarrow> db \<Rightarrow> ('a, db) outcome" where
  "finalization_loop 0 faults body d = (Inl (Plain ''Operation finalization retry budget was exhausted''), d)"
| "finalization_loop (Suc n) faults body d =
     (case transaction (case faults of [] \<Rightarrow> None | f # _ \<Rightarrow> f) body d of
        (Inr v, d') \<Rightarrow> (Inr v, d')
      | (Inl e, d') \<Rightarrow>
          if n = 0 \<or> \<not> isExplicitPrismaTransactionTimeout e then (Inl e, d')
          else finalization_loop n (tl faults) body d')"

definition withFinalizationTransaction ::
  "db_error option list \<Rightarrow> (db \<Rightarrow> ('a, db) outcome) \<Rightarrow> db \<Rightarrow> ('a, db) outcome"
where
  "withFinalizationTransaction faults body d =
     finalization_loop FINALIZATION_TRANSACTION_MAX_ATTEMPTS faults body d"

definition result_column :: "json \<Rightarrow> string option" where
  "result_column result = (if result = JUndefined then None else Some (json_stringify result))"

definition succeed_write :: "json \<Rightarrow> bool \<Rightarrow> time \<Rightarrow> op_row \<Rightarrow> op_row" where
  "succeed_write result tooLate now r = drop_lease (r\<lparr>op_status := SUCCEEDED, op_currentStep := None,
     op_progress := 100, op_result := result_column result, op_errorMessage := None,
     op_completedAt := Some now, op_cancelOutcome := Some (if tooLate then TOO_LATE else NOT_REQUESTED)\<rparr>)"

definition succeed_body :: "string \<Rightarrow> string \<Rightarrow> json \<Rightarrow> bool \<Rightarrow> time \<Rightarrow> db \<Rightarrow> (unit, db) outcome" where
  "succeed_body operationId leaseOwner result cancelTooLate now d =
     (case find_first (\<lambda>r. op_id r = operationId \<and> op_status r \<in> set [RUNNING, CANCEL_REQUESTED] \<and>
          op_leaseOwner r = Some leaseOwner) (db_ops d) of
        None \<Rightarrow> (Inl (Conflict ''Operation claim is stale''), d)
      | Some current \<Rightarrow>
          finalize_and_release operationId
            (\<lambda>r. op_id r = operationId \<and> op_status r = op_status current \<and> op_leaseOwner r = Some leaseOwner)
            (succeed_write result (cancelTooLate \<or> op_status current = CANCEL_REQUESTED \<or>
               op_cancelRequestedAt current \<noteq> None) now)
            (Conflict ''Operation claim is stale'') d)"

definition succeedClaimed ::
  "string \<Rightarrow> string \<Rightarrow> json \<Rightarrow> bool \<Rightarrow> time \<Rightarrow> db_error option list \<Rightarrow> db \<Rightarrow> (unit, db) outcome"
where
  "succeedClaimed operationId leaseOwner result cancelTooLate now faults d =
     (case assertNoSecretFields ''result'' result of
        Some m \<Rightarrow> (Inl (Plain m), d)
      | None \<Rightarrow> withFinalizationTransaction faults
          (succeed_body operationId leaseOwner result cancelTooLate now) d)"

definition leased_by :: "string \<Rightarrow> string \<Rightarrow> op_row \<Rightarrow> bool" where
  "leased_by operationId leaseOwner r =
     (op_id r = operationId \<and> op_status r \<in> set LEASED_STATUSES \<and> op_leaseOwner r = Some leaseOwner)"

definition fail_write :: "string \<Rightarrow> time \<Rightarrow> op_row \<Rightarrow> op_row" where
  "fail_write message now r = drop_lease (r\<lparr>op_status := FAILED, op_currentStep := None,
     op_errorMessage := Some message, op_completedAt := Some now, op_cancelOutcome := Some NOT_REQUESTED\<rparr>)"

definition failClaimed ::
  "op_env \<Rightarrow> string \<Rightarrow> string \<Rightarrow> string \<Rightarrow> time \<Rightarrow> db_error option list \<Rightarrow> db \<Rightarrow> (unit, db) outcome"
where
  "failClaimed env operationId leaseOwner error now faults =
     withFinalizationTransaction faults
       (finalize_and_release operationId (leased_by operationId leaseOwner)
         (fail_write (safe_message env error) now) (Conflict ''Operation claim is stale''))"

definition cancel_write :: "time \<Rightarrow> op_row \<Rightarrow> op_row" where
  "cancel_write now r = drop_lease (r\<lparr>op_status := CANCELLED, op_currentStep := None,
     op_cancelOutcome := Some CO_CANCELLED, op_completedAt := Some now\<rparr>)"

definition cancelClaimed :: "string \<Rightarrow> string \<Rightarrow> time \<Rightarrow> db_error option list \<Rightarrow> db \<Rightarrow> (unit, db) outcome" where
  "cancelClaimed operationId leaseOwner now faults =
     withFinalizationTransaction faults
       (finalize_and_release operationId (leased_by operationId leaseOwner) (cancel_write now)
         (Conflict ''Operation claim is stale''))"

definition can_retry :: "claimed_operation \<Rightarrow> time \<Rightarrow> bool" where
  "can_retry operation now =
     (c_retryable operation \<and> c_recoveryPolicy operation = RETRY_SAFE \<and>
      c_attempt operation < c_maxAttempts operation \<and> c_deadlineAt operation > now)"

definition requeue_write :: "string \<Rightarrow> op_row \<Rightarrow> op_row" where
  "requeue_write message r = drop_lease (r\<lparr>op_status := QUEUED, op_currentStep := None,
     op_errorMessage := Some message, op_claimedAt := None\<rparr>)"

definition retryOrRequireAttention ::
  "op_env \<Rightarrow> claimed_operation \<Rightarrow> string \<Rightarrow> string \<Rightarrow> time \<Rightarrow> db \<Rightarrow> (unit, db) outcome"
where
  "retryOrRequireAttention env operation leaseOwner error now =
     guarded_update (leased_by (c_id operation) leaseOwner)
       (if can_retry operation now then requeue_write (safe_message env error)
        else attention_write (safe_message env error) now)
       (Conflict ''Operation claim is stale'')"

end
