(* ===== verification/Operation_Inline.thy ===== *)
theory Operation_Inline
  imports Operation_Queue
begin

text \<open>
  The rest of \<open>OperationsService\<close>: recovery at start-up, cancellation by a user, the scope of
  an operation that creates a Site, progress and completion of the operations that the API
  runs in the request, and the views \<open>list\<close> and \<open>getById\<close>.
\<close>

section \<open>Recovery at start-up\<close>

definition RESTART_ATTENTION :: string where
  "RESTART_ATTENTION = ''Interrupted by API restart; operator reconciliation is required''"

definition interrupted :: "op_row \<Rightarrow> bool" where
  "interrupted r =
     ((op_executionMode r = INLINE \<and> op_status r \<in> set [PENDING, RUNNING]) \<or>
      (op_executionMode r = MODE_QUEUED \<and> op_status r \<in> set [CLAIMED, RUNNING, RECOVERING, CANCEL_REQUESTED]))"

definition recovers :: "op_row \<Rightarrow> bool" where
  "recovers r = (op_executionMode r = MODE_QUEUED \<and> recoverable r)"

definition restart_recover_write :: "op_row \<Rightarrow> op_row" where
  "restart_recover_write r = r\<lparr>op_status := RECOVERING, op_currentStep := Some ''reconcile'',
     op_leaseOwner := None, op_leaseExpiresAt := None, op_heartbeatAt := None, op_completedAt := None\<rparr>"

definition restart_attention_write :: "time \<Rightarrow> op_row \<Rightarrow> op_row" where
  "restart_attention_write now r = r\<lparr>op_status := NEEDS_ATTENTION, op_currentStep := None,
     op_leaseOwner := None, op_leaseExpiresAt := None, op_errorMessage := Some RESTART_ATTENTION,
     op_completedAt := Some now\<rparr>"

text \<open>The updates of one transaction, from the rows \<open>findMany\<close> returned before it.\<close>

definition restart_tx :: "op_row list \<Rightarrow> time \<Rightarrow> db \<Rightarrow> db" where
  "restart_tx interrupted_rows now d =
     (let recovering = map op_id (filter recovers interrupted_rows);
          attention = filter (\<lambda>r. op_id r \<notin> set recovering) interrupted_rows;
          attentionIds = map op_id attention;
          ops1 = update_rows (\<lambda>r. op_id r \<in> set recovering) restart_recover_write (db_ops d)
      in if attentionIds = [] then d\<lparr>db_ops := ops1\<rparr>
         else d\<lparr>
           db_ops := update_rows (\<lambda>r. op_id r \<in> set attentionIds) (restart_attention_write now) ops1,
           db_domains := update_rows (\<lambda>s. Some (sd_id s) \<in> set (map op_siteDomainId attention) \<and>
               sd_appStatus s \<in> set [''PROVISIONING'', ''DEPLOYING'', ''UPDATING''])
             (\<lambda>s. s\<lparr>sd_appStatus := ''ERROR'', sd_appErrorMessage := Some RESTART_ATTENTION\<rparr>) (db_domains d),
           db_sites := update_rows (\<lambda>s. Some (st_id s) \<in> set (map op_siteId attention) \<and> st_status s = ''DEPLOYING'')
             (\<lambda>s. s\<lparr>st_status := ''ERROR'', st_errorMessage := Some RESTART_ATTENTION\<rparr>) (db_sites d),
           db_deploys := update_rows (\<lambda>l. dl_operationId l \<in> Some ` set attentionIds \<and>
               dl_status l \<in> set [''PENDING'', ''IN_PROGRESS''])
             (\<lambda>l. l\<lparr>dl_status := ''FAILED'', dl_completedAt := Some now\<rparr>) (db_deploys d)\<rparr>)"

definition onModuleInit :: "time \<Rightarrow> db \<Rightarrow> db" where
  "onModuleInit now d =
     (let rows = filter interrupted (db_ops d) in if rows = [] then d else restart_tx rows now d)"

section \<open>Views\<close>

record op_view =
  v_id :: string
  v_type :: string
  v_status :: op_state
  v_siteId :: "string option"
  v_siteDomainId :: "string option"
  v_databaseId :: "string option"
  v_parentOperationId :: "string option"
  v_locks :: "(lock_kind \<times> string) list"
  v_currentStep :: "string option"
  v_progress :: int
  v_actionId :: "string option"
  v_executionMode :: exec_mode
  v_policySnapshot :: "json option"
  v_attempt :: int
  v_maxAttempts :: int
  v_retryable :: bool
  v_recoveryPolicy :: recovery_policy
  v_leaseOwner :: "string option"
  v_leaseExpiresAt :: "time option"
  v_heartbeatAt :: "time option"
  v_claimedAt :: "time option"
  v_deadlineAt :: "time option"
  v_cancelRequestedAt :: "time option"
  v_cancelOutcome :: "cancel_outcome option"
  v_result :: json
  v_errorMessage :: "string option"
  v_startedAt :: "time option"
  v_completedAt :: "time option"
  v_createdAt :: time

definition locks_of :: "db \<Rightarrow> string \<Rightarrow> (lock_kind \<times> string) list" where
  "locks_of d operationId =
     map (\<lambda>l. (lk_kind l, lk_resourceKey l))
       (sort_key lk_resourceKey (filter (\<lambda>l. lk_operationId l = operationId) (db_locks d)))"

definition view_of :: "db \<Rightarrow> op_row \<Rightarrow> op_view" where
  "view_of d r =
     \<lparr>v_id = op_id r, v_type = op_type r, v_status = op_status r, v_siteId = op_siteId r,
      v_siteDomainId = op_siteDomainId r, v_databaseId = op_databaseId r,
      v_parentOperationId = op_parentOperationId r, v_locks = locks_of d (op_id r),
      v_currentStep = op_currentStep r, v_progress = op_progress r, v_actionId = op_actionId r,
      v_executionMode = op_executionMode r, v_policySnapshot = parsePolicySnapshot (op_policySnapshot r),
      v_attempt = op_attempt r, v_maxAttempts = op_maxAttempts r, v_retryable = op_retryable r,
      v_recoveryPolicy = op_recoveryPolicy r, v_leaseOwner = op_leaseOwner r,
      v_leaseExpiresAt = op_leaseExpiresAt r, v_heartbeatAt = op_heartbeatAt r, v_claimedAt = op_claimedAt r,
      v_deadlineAt = op_deadlineAt r, v_cancelRequestedAt = op_cancelRequestedAt r,
      v_cancelOutcome = op_cancelOutcome r, v_result = parseResult (op_result r),
      v_errorMessage = op_errorMessage r, v_startedAt = op_startedAt r, v_completedAt = op_completedAt r,
      v_createdAt = op_createdAt r\<rparr>"

text \<open>The owner of the Site of an operation, through the relation \<open>site\<close>.\<close>

definition site_owner :: "db \<Rightarrow> op_row \<Rightarrow> string option" where
  "site_owner d r =
     (case op_siteId r of
        None \<Rightarrow> None
      | Some s \<Rightarrow> map_option st_userId (find_key st_id s (db_sites d)))"

definition access_denied :: "db \<Rightarrow> op_row \<Rightarrow> string \<Rightarrow> string \<Rightarrow> bool" where
  "access_denied d r userId role =
     (role \<noteq> ''ADMIN'' \<and> op_createdByUserId r \<noteq> userId \<and> site_owner d r \<noteq> Some userId)"

definition getById :: "string \<Rightarrow> string \<Rightarrow> string \<Rightarrow> db \<Rightarrow> exn + (op_view \<times> op_view list)" where
  "getById operationId userId role d =
     (case find_key op_id operationId (db_ops d) of
        None \<Rightarrow> Inl (NotFound ''Operation not found'')
      | Some operation \<Rightarrow>
          if access_denied d operation userId role then Inl (Forbidden ''Access denied'')
          else Inr (view_of d operation,
            map (view_of d)
              (sort_key op_createdAt
                (filter (\<lambda>c. op_parentOperationId c = Some operationId) (db_ops d)))))"

section \<open>Listing\<close>

text \<open>
  The rows are read from the position of the cursor's row in the order \<open>createdAt desc,
  id desc\<close>, the first of them is skipped, and one row more than the page is asked for. An
  unknown cursor gives no rows.
\<close>

definition list_order :: "op_row \<Rightarrow> time \<times> string" where
  "list_order r = (op_createdAt r, op_id r)"

definition visible :: "db \<Rightarrow> string \<Rightarrow> string \<Rightarrow> op_state option \<Rightarrow> op_row \<Rightarrow> bool" where
  "visible d userId role status r =
     ((case status of None \<Rightarrow> True | Some s \<Rightarrow> op_status r = s) \<and>
      (role = ''ADMIN'' \<or> op_createdByUserId r = userId \<or> site_owner d r = Some userId))"

definition page_limit :: "int option \<Rightarrow> nat" where
  "page_limit limit = nat (max 1 (min 100 (case limit of None \<Rightarrow> 25 | Some n \<Rightarrow> if n = 0 then 25 else n)))"

definition list_rows :: "string \<Rightarrow> string \<Rightarrow> op_state option \<Rightarrow> string option \<Rightarrow> db \<Rightarrow> op_row list" where
  "list_rows userId role status cursor d =
     (let rows = rev (sort_key list_order (filter (visible d userId role status) (db_ops d))) in
      case truthy cursor of
        None \<Rightarrow> rows
      | Some c \<Rightarrow> (case find_key op_id c (db_ops d) of
            None \<Rightarrow> []
          | Some r \<Rightarrow> drop 1 (dropWhile (\<lambda>x. list_order x > list_order r) rows)))"

definition list_page ::
  "string \<Rightarrow> string \<Rightarrow> op_state option \<Rightarrow> string option \<Rightarrow> int option \<Rightarrow> db \<Rightarrow> op_row list \<times> string option"
where
  "list_page userId role status cursor limit d =
     (let n = page_limit limit; rows = take (n + 1) (list_rows userId role status cursor d); page = take n rows in
      (page, if length rows > n then Some (op_id (last page)) else None))"

fun sequence_results :: "(exn + 'a) list \<Rightarrow> exn + 'a list" where
  "sequence_results [] = Inr []"
| "sequence_results (Inl e # rs) = Inl e"
| "sequence_results (Inr v # rs) = (case sequence_results rs of Inl e \<Rightarrow> Inl e | Inr vs \<Rightarrow> Inr (v # vs))"

definition list_operations ::
  "string \<Rightarrow> string \<Rightarrow> op_state option \<Rightarrow> string option \<Rightarrow> int option \<Rightarrow> db
     \<Rightarrow> exn + ((op_view \<times> op_view list) list \<times> string option)"
where
  "list_operations userId role status cursor limit d =
     (let (page, nextCursor) = list_page userId role status cursor limit d in
      case sequence_results (map (\<lambda>r. getById (op_id r) userId role d) page) of
        Inl e \<Rightarrow> Inl e
      | Inr items \<Rightarrow> Inr (items, nextCursor))"

section \<open>Cancellation by a user\<close>

definition cancel_now_write :: "time \<Rightarrow> op_row \<Rightarrow> op_row" where
  "cancel_now_write now r = r\<lparr>op_status := CANCELLED, op_cancelRequestedAt := Some now,
     op_cancelOutcome := Some CO_CANCELLED, op_completedAt := Some now, op_currentStep := None\<rparr>"

definition cancel_request_write :: "time \<Rightarrow> op_row \<Rightarrow> op_row" where
  "cancel_request_write now r = r\<lparr>op_status := CANCEL_REQUESTED, op_cancelRequestedAt := Some now,
     op_cancelOutcome := Some CO_PENDING\<rparr>"

text \<open>The transaction; \<open>status\<close> is the state read before it.\<close>

definition cancel_tx :: "string \<Rightarrow> op_state \<Rightarrow> time \<Rightarrow> db \<Rightarrow> (unit, db) outcome" where
  "cancel_tx operationId status now =
     (if status \<in> set [PENDING, QUEUED, RECOVERING]
      then finalize_and_release operationId
             (\<lambda>r. op_id r = operationId \<and> op_status r = status \<and> op_cancelRequestedAt r = None)
             (cancel_now_write now) (Conflict ''Operation state changed'')
      else guarded_update
             (\<lambda>r. op_id r = operationId \<and> op_status r \<in> set [CLAIMED, RUNNING] \<and> op_cancelRequestedAt r = None)
             (cancel_request_write now) (Conflict ''Operation state changed''))"

definition requestCancellation ::
  "string \<Rightarrow> string \<Rightarrow> string \<Rightarrow> time \<Rightarrow> db_error option \<Rightarrow> db \<Rightarrow> db \<Rightarrow> (op_view \<times> op_view list, db) outcome"
where
  "requestCancellation operationId userId role now fault seen d =
     (case find_key op_id operationId (db_ops seen) of
        None \<Rightarrow> (Inl (NotFound ''Operation not found''), d)
      | Some operation \<Rightarrow>
          if access_denied seen operation userId role then (Inl (Forbidden ''Access denied''), d)
          else if op_status operation \<in> set [CANCELLED, SUCCEEDED, FAILED]
            then (getById operationId userId role d, d)
          else if op_status operation \<in> set [UNKNOWN_RECOVERY_REQUIRED, NEEDS_ATTENTION]
            then (Inl (Conflict ''Operation requires manual reconciliation''), d)
          else (case transaction fault (cancel_tx operationId (op_status operation) now) d of
              (Inl e, d') \<Rightarrow> (Inl e, d')
            | (Inr _, d') \<Rightarrow> (getById operationId userId role d', d')))"

section \<open>The scope of a new Site\<close>

record attach_scope =
  as_siteId :: string
  as_siteDomainId :: "string option"

definition attach_lock_scope :: "attach_scope \<Rightarrow> scope" where
  "attach_lock_scope sc = \<lparr>sc_globalLockKey = None, sc_siteId = Some (as_siteId sc),
     sc_siteDomainId = as_siteDomainId sc, sc_databaseId = None, sc_lockSite = None, sc_parentOperationId = None\<rparr>"

definition attach_write :: "attach_scope \<Rightarrow> op_row \<Rightarrow> op_row" where
  "attach_write sc r = r\<lparr>op_siteId := Some (as_siteId sc), op_siteDomainId := truthy (as_siteDomainId sc)\<rparr>"

definition attachScopeWithClient :: "string \<Rightarrow> attach_scope \<Rightarrow> db \<Rightarrow> (unit, db) outcome" where
  "attachScopeWithClient operationId sc d =
     (let lockSpecs = operationLockSpecs (attach_lock_scope sc) in
      case find_first (\<lambda>r. op_id r = operationId \<and> op_status r \<in> set EXECUTING_STATUSES) (db_ops d) of
        None \<Rightarrow> (Inl (Conflict ''Operation is not active''), d)
      | Some operation \<Rightarrow>
          (case active_backup d (Some (as_siteId sc)) of
             Some b \<Rightarrow> (Inl (backup_conflict b), d)
           | None \<Rightarrow>
              (case assertScopeHierarchyAvailable d ((attach_lock_scope sc)\<lparr>sc_lockSite := Some True\<rparr>) (Some operationId) of
                 Some e \<Rightarrow> (Inl e, d)
               | None \<Rightarrow>
                  (let owned = map lk_resourceKey (filter (\<lambda>l. lk_operationId l = op_id operation \<and>
                         lk_resourceKey l \<in> set (map lk_resourceKey lockSpecs)) (db_locks d));
                       missing = filter (\<lambda>sp. lk_resourceKey sp \<notin> set owned) lockSpecs in
                   case create_locks operationId missing (db_locks d) of
                     None \<Rightarrow> (Inl (DbFault unique_violation), d)
                   | Some ls \<Rightarrow>
                       guarded_update (\<lambda>r. op_id r = operationId \<and> op_status r \<in> set EXECUTING_STATUSES)
                         (attach_write sc) (Conflict ''Operation is not active'') (d\<lparr>db_locks := ls\<rparr>)))))"

definition attachScope :: "string \<Rightarrow> attach_scope \<Rightarrow> db_error option \<Rightarrow> db \<Rightarrow> (unit, db) outcome" where
  "attachScope operationId sc fault d =
     (case transaction fault (attachScopeWithClient operationId sc) d of
        (Inr v, d') \<Rightarrow> (Inr v, d')
      | (Inl error, d') \<Rightarrow>
          (if error_code error = ''P2002''
             then Inl (ConflictWith ''Operation scope is locked''
                (summary_opt (findResourceLock d' (map lk_resourceKey (operationLockSpecs (attach_lock_scope sc))))))
           else if isTransactionContention error then Inl (Conflict ''Operation scope is busy'')
           else Inl error, d'))"

section \<open>Operations run by the API itself\<close>

definition step :: "string \<Rightarrow> string \<Rightarrow> int \<Rightarrow> db \<Rightarrow> (unit, db) outcome" where
  "step operationId stepName progress =
     guarded_update (\<lambda>r. op_id r = operationId \<and> op_status r = RUNNING)
       (\<lambda>r. r\<lparr>op_currentStep := Some stepName, op_progress := clamp_progress progress\<rparr>)
       (Conflict ''Operation is not running'')"

definition child_holds :: "string \<Rightarrow> op_row \<Rightarrow> bool" where
  "child_holds operationId r =
     (op_parentOperationId r = Some operationId \<and> op_status r \<in> set LOCK_HOLDING_STATUSES)"

definition inline_succeed_write :: "json \<Rightarrow> time \<Rightarrow> op_row \<Rightarrow> op_row" where
  "inline_succeed_write result now r = r\<lparr>op_status := SUCCEEDED, op_currentStep := None, op_progress := 100,
     op_result := result_column result, op_errorMessage := None, op_completedAt := Some now\<rparr>"

definition succeed_tx :: "string \<Rightarrow> json \<Rightarrow> time \<Rightarrow> db \<Rightarrow> (unit, db) outcome" where
  "succeed_tx operationId result now d =
     (case find_first (child_holds operationId) (db_ops d) of
        Some activeChild \<Rightarrow> (Inl (ConflictWith ''Child operation is still active'' (op_summary activeChild)), d)
      | None \<Rightarrow> finalize_and_release operationId (\<lambda>r. op_id r = operationId \<and> op_status r = RUNNING)
          (inline_succeed_write result now) (Conflict ''Operation is not running'') d)"

definition succeed :: "string \<Rightarrow> json \<Rightarrow> time \<Rightarrow> db_error option \<Rightarrow> db \<Rightarrow> (unit, db) outcome" where
  "succeed operationId result now fault d =
     (case assertNoSecretFields ''result'' result of
        Some m \<Rightarrow> (Inl (Plain m), d)
      | None \<Rightarrow> transaction fault (succeed_tx operationId result now) d)"

definition inline_fail_write :: "string \<Rightarrow> time \<Rightarrow> op_row \<Rightarrow> op_row" where
  "inline_fail_write message now r = r\<lparr>op_status := FAILED, op_currentStep := None,
     op_errorMessage := Some message, op_completedAt := Some now\<rparr>"

definition fail_tx :: "string \<Rightarrow> string \<Rightarrow> time \<Rightarrow> db \<Rightarrow> (unit, db) outcome" where
  "fail_tx operationId message now d =
     (let childIds = map op_id (filter (child_holds operationId) (db_ops d));
          ops1 = update_rows (\<lambda>r. op_id r \<in> set childIds \<and> op_status r \<in> set LOCK_HOLDING_STATUSES)
                   (inline_fail_write message now) (db_ops d);
          locks1 = delete_rows (\<lambda>l. lk_operationId l \<in> set childIds) (db_locks d)
      in (Inr (), d\<lparr>
        db_ops := update_rows (\<lambda>r. op_id r = operationId \<and> op_status r \<in> set LOCK_HOLDING_STATUSES)
          (inline_fail_write message now) ops1,
        db_locks := delete_rows (\<lambda>l. lk_operationId l = operationId) locks1\<rparr>))"

definition fail :: "op_env \<Rightarrow> string \<Rightarrow> string \<Rightarrow> time \<Rightarrow> db_error option \<Rightarrow> db \<Rightarrow> (unit, db) outcome" where
  "fail env operationId error now fault d =
     transaction fault (fail_tx operationId (safe_message env error) now) d"

end
