(* ===== verification/Operation_Completion.thy ===== *)
theory Operation_Completion
  imports Operation_Inline
begin

text \<open>
  The operations are finished outside \<open>OperationsService\<close> in two places, each with its own
  transaction: the end of a deploy (\<open>completeDeploy\<close> of \<open>api/src/deploy/deploy.service.ts\<close>)
  and the end of the deletion of a domain (\<open>commitDomainDeletionMetadata\<close> of
  \<open>api/src/sites/site-domains.service.ts\<close>). The third writer of the table is the delivery
  of a sealed result (\<open>api/src/operations/operation-sensitive-result.service.ts\<close>).
\<close>

section \<open>The end of a deploy\<close>

definition deploy_failure :: "op_env \<Rightarrow> string option \<Rightarrow> string" where
  "deploy_failure env commitMessage =
     (case commitMessage of
        Some m \<Rightarrow> if js_trim m = [] then ''Deploy failed'' else safe_message env m
      | None \<Rightarrow> ''Deploy failed'')"

definition deploy_result :: "string \<Rightarrow> string option \<Rightarrow> string" where
  "deploy_result deployId commitSha =
     json_stringify (JObj [(''deployId'', JStr deployId), (''commitSha'', json_opt (truthy commitSha))])"

definition deploy_op_write ::
  "op_env \<Rightarrow> string \<Rightarrow> bool \<Rightarrow> string option \<Rightarrow> string option \<Rightarrow> time \<Rightarrow> op_row \<Rightarrow> op_row"
where
  "deploy_op_write env deployId success commitSha commitMessage now r =
     r\<lparr>op_status := (if success then SUCCEEDED else FAILED), op_currentStep := None,
       op_progress := (if success then 100 else op_progress r),
       op_result := (if success then Some (deploy_result deployId commitSha) else None),
       op_errorMessage := (if success then None else Some (deploy_failure env commitMessage)),
       op_completedAt := Some now\<rparr>"

definition deploy_log_write :: "bool \<Rightarrow> string option \<Rightarrow> string option \<Rightarrow> time \<Rightarrow> deploy_row \<Rightarrow> deploy_row" where
  "deploy_log_write success commitSha commitMessage now l =
     l\<lparr>dl_status := (if success then ''SUCCESS'' else ''FAILED''),
       dl_commitSha := (case commitSha of None \<Rightarrow> dl_commitSha l | Some s \<Rightarrow> Some s),
       dl_commitMessage := (case commitMessage of None \<Rightarrow> dl_commitMessage l | Some s \<Rightarrow> Some s),
       dl_completedAt := Some now, dl_durationMs := Some (now - dl_startedAt l)\<rparr>"

definition not_found_fault :: db_error where
  "not_found_fault = \<lparr>err_code = ''P2025'', err_meta_code = None, err_meta_error = None,
     err_message = ''Record to update not found.''\<rparr>"

text \<open>The two updates after the operation: the log and the application state of the domain.\<close>

definition deploy_tail ::
  "op_env \<Rightarrow> deploy_row \<Rightarrow> bool \<Rightarrow> string option \<Rightarrow> string option \<Rightarrow> time \<Rightarrow> db \<Rightarrow> ((string \<times> time) option, db) outcome"
where
  "deploy_tail env l success commitSha commitMessage now d =
     (if find_key sd_id (dl_siteDomainId l) (db_domains d) = None then (Inl (DbFault not_found_fault), d)
      else (Inr (Some (dl_siteId l, now - dl_startedAt l)), d\<lparr>
        db_deploys := update_rows (\<lambda>x. dl_id x = dl_id l)
          (deploy_log_write success commitSha commitMessage now) (db_deploys d),
        db_domains := update_rows (\<lambda>s. sd_id s = dl_siteDomainId l)
          (\<lambda>s. s\<lparr>sd_appStatus := (if success then ''RUNNING'' else ''ERROR''),
                 sd_appErrorMessage := (if success then None else Some (deploy_failure env commitMessage))\<rparr>)
          (db_domains d)\<rparr>))"

text \<open>The transaction: \<open>None\<close> when there is nothing to report.\<close>

definition deploy_tx ::
  "op_env \<Rightarrow> string \<Rightarrow> bool \<Rightarrow> string option \<Rightarrow> string option \<Rightarrow> time \<Rightarrow> db \<Rightarrow> ((string \<times> time) option, db) outcome"
where
  "deploy_tx env deployId success commitSha commitMessage now d =
     (case find_key dl_id deployId (db_deploys d) of
        None \<Rightarrow> (Inr None, d)
      | Some l \<Rightarrow>
          (case truthy (dl_operationId l) of
             None \<Rightarrow> deploy_tail env l success commitSha commitMessage now d
           | Some k \<Rightarrow>
              (case finalize_and_release k (\<lambda>r. op_id r = k \<and> op_status r \<in> set [PENDING, RUNNING])
                  (deploy_op_write env deployId success commitSha commitMessage now) (Plain []) d of
                 (Inl _, d') \<Rightarrow> (Inr None, d')
               | (Inr _, d') \<Rightarrow> deploy_tail env l success commitSha commitMessage now d')))"

definition completeDeploy ::
  "op_env \<Rightarrow> string \<Rightarrow> bool \<Rightarrow> string option \<Rightarrow> string option \<Rightarrow> time \<Rightarrow> db_error option \<Rightarrow> db
     \<Rightarrow> ((string \<times> time) option, db) outcome"
where
  "completeDeploy env deployId success commitSha commitMessage now fault d =
     transaction fault (deploy_tx env deployId success commitSha commitMessage now) d"

section \<open>The end of the deletion of a domain\<close>

text \<open>The rows are updated one by one, first to negative positions, then to their new ones.\<close>

definition domain_order :: "domain_row \<Rightarrow> nat \<times> int" where
  "domain_order s = (if sd_isPrimary s then 0 else 1, sd_position s)"

definition remaining_domains :: "string \<Rightarrow> domain_row list \<Rightarrow> domain_row list" where
  "remaining_domains siteId rows = sort_key domain_order (filter (\<lambda>s. sd_siteId s = siteId) rows)"

fun set_positions :: "(nat \<Rightarrow> int) \<Rightarrow> nat \<Rightarrow> domain_row list \<Rightarrow> domain_row list \<Rightarrow> domain_row list" where
  "set_positions pos i [] rows = rows"
| "set_positions pos i (s # ss) rows =
     set_positions pos (Suc i) ss (update_rows (\<lambda>x. sd_id x = sd_id s) (\<lambda>x. x\<lparr>sd_position := pos i\<rparr>) rows)"

definition renumber_domains :: "string \<Rightarrow> domain_row list \<Rightarrow> domain_row list" where
  "renumber_domains siteId rows =
     (let remaining = remaining_domains siteId rows;
          rows1 = set_positions (\<lambda>i. - (int (length remaining) + int i + 1)) 0 remaining rows
      in set_positions int 0 remaining rows1)"

definition deletion_op_write :: "json \<Rightarrow> time \<Rightarrow> op_row \<Rightarrow> op_row" where
  "deletion_op_write result now r = r\<lparr>op_status := SUCCEEDED, op_currentStep := None, op_progress := 100,
     op_result := Some (json_stringify result), op_errorMessage := None, op_completedAt := Some now\<rparr>"

definition domain_deletion_tx ::
  "string \<Rightarrow> string \<Rightarrow> string \<Rightarrow> bool \<Rightarrow> string \<Rightarrow> json \<Rightarrow> time \<Rightarrow> db \<Rightarrow> (unit, db) outcome"
where
  "domain_deletion_tx siteId domainId preservedDatabaseTargetId deleteOwnedDatabases operationId result now d =
     (let owned = (\<lambda>b. da_siteDomainId b = Some domainId);
          databases = (if deleteOwnedDatabases then delete_rows owned (db_databases d)
            else update_rows owned (\<lambda>b. b\<lparr>da_siteDomainId := Some preservedDatabaseTargetId, da_purpose := ''AUXILIARY''\<rparr>)
              (db_databases d))
      in if find_key sd_id domainId (db_domains d) = None then (Inl (DbFault not_found_fault), d)
         else finalize_and_release operationId (\<lambda>r. op_id r = operationId \<and> op_status r = RUNNING)
           (deletion_op_write result now) (Conflict ''Deletion operation is not running'')
           (d\<lparr>db_databases := databases,
              db_domains := renumber_domains siteId (delete_rows (\<lambda>s. sd_id s = domainId) (db_domains d))\<rparr>))"

definition commitDomainDeletionMetadata ::
  "string \<Rightarrow> string \<Rightarrow> string \<Rightarrow> bool \<Rightarrow> string \<Rightarrow> json \<Rightarrow> time \<Rightarrow> db_error option \<Rightarrow> db \<Rightarrow> (unit, db) outcome"
where
  "commitDomainDeletionMetadata siteId domainId target deleteOwnedDatabases operationId result now fault d =
     transaction fault (domain_deletion_tx siteId domainId target deleteOwnedDatabases operationId result now) d"

section \<open>Sealed results\<close>

definition SENSITIVE_SCHEMA :: string where
  "SENSITIVE_SCHEMA = ''meowbox.operation-sensitive-result/v1''"

text \<open>\<open>/^[A-Z][A-Z0-9_]{2,63}$/\<close>\<close>

definition KIND :: rx where
  "KIND = Cat (Cls upper) (Rep 2 63 (Cls (\<lambda>c. upper c \<or> digit_char c \<or> c = CHR ''_'')))"

definition unavailable :: exn where
  "unavailable = Gone ''Operation sensitive result is unavailable''"

definition sealed_payload :: "string \<Rightarrow> string \<Rightarrow> json \<Rightarrow> string \<Rightarrow> json" where
  "sealed_payload operationId kind v expiresAt =
     JObj [(''operationId'', JStr operationId), (''kind'', JStr kind), (''value'', v), (''expiresAt'', JStr expiresAt)]"

definition seal :: "op_env \<Rightarrow> string \<Rightarrow> string \<Rightarrow> json \<Rightarrow> time \<Rightarrow> time \<Rightarrow> exn + json" where
  "seal env operationId kind v ttlMs now =
     (if \<not> rx_test KIND kind then Inl (BadRequest ''Sensitive result kind is invalid'')
      else if ttlMs < 60000 \<or> ttlMs > 60 * 60000 then Inl (BadRequest ''Sensitive result TTL is invalid'')
      else if utf8_length (json_stringify v) > 16 * 1024 then Inl (BadRequest ''Sensitive result is too large'')
      else Inr (JObj
        [(''schema'', JStr SENSITIVE_SCHEMA),
         (''sealed'', JStr (encrypt_operations env (sealed_payload operationId kind v (iso_of env (now + ttlMs))))),
         (''expiresAt'', JStr (iso_of env (now + ttlMs)))]))"

text \<open>\<open>Object.keys(v).sort().join(',')\<close> compared with a sorted list of names without commas.\<close>

definition keys_are :: "json \<Rightarrow> string list \<Rightarrow> bool" where
  "keys_are v ks = (sort (own_keys v) = ks)"

definition parse_sensitive :: "string option \<Rightarrow> exn + json" where
  "parse_sensitive raw =
     (case truthy raw of
        None \<Rightarrow> Inl unavailable
      | Some s \<Rightarrow> (case json_parse s of
            Some v \<Rightarrow> if isContractRecord v then Inr v else Inl unavailable
          | None \<Rightarrow> Inl unavailable))"

definition parseEnvelope :: "op_env \<Rightarrow> json \<Rightarrow> exn + (string \<times> string)" where
  "parseEnvelope env v =
     (if isContractRecord v \<and> keys_are v [''expiresAt'', ''schema'', ''sealed''] \<and>
         field v ''schema'' = JStr SENSITIVE_SCHEMA
      then (case (field v ''sealed'', field v ''expiresAt'') of
          (JStr sealed, JStr expiresAt) \<Rightarrow>
            if length sealed < 32 \<or> length sealed > 32768 \<or> date_parse env expiresAt = None then Inl unavailable
            else Inr (sealed, expiresAt)
        | _ \<Rightarrow> Inl unavailable)
      else Inl unavailable)"

text \<open>\<open>None\<close> when the sealed payload is not the operation's, malformed or expired.\<close>

definition open_sealed :: "op_env \<Rightarrow> op_row \<Rightarrow> string \<times> string \<Rightarrow> time \<Rightarrow> (string \<times> json) option" where
  "open_sealed env r envelope now =
     (case decrypt_operations env (fst envelope) of
        None \<Rightarrow> None
      | Some payload \<Rightarrow>
          (case field payload ''kind'' of
             JStr kind \<Rightarrow>
               if isContractRecord payload \<and> keys_are payload [''expiresAt'', ''kind'', ''operationId'', ''value''] \<and>
                  field payload ''operationId'' = JStr (op_id r) \<and> rx_test KIND kind \<and>
                  field payload ''expiresAt'' = JStr (snd envelope) \<and>
                  (case date_parse env (snd envelope) of Some t \<Rightarrow> t > now | None \<Rightarrow> True)
               then Some (kind, field payload ''value'') else None
           | _ \<Rightarrow> None))"

text \<open>\<open>{ ...publicResult, sensitiveResultConsumedAt }\<close> without \<open>sensitiveResult\<close>.\<close>

fun consumed_result :: "string \<Rightarrow> json \<Rightarrow> json" where
  "consumed_result at (JObj kvs) =
     (let rest = filter (\<lambda>(k, _). k \<noteq> ''sensitiveResult'') kvs in
      if ''sensitiveResultConsumedAt'' \<in> set (map fst rest)
      then JObj (map (\<lambda>(k, v). (k, if k = ''sensitiveResultConsumedAt'' then JStr at else v)) rest)
      else JObj (rest @ [(''sensitiveResultConsumedAt'', JStr at)]))"
| "consumed_result at v = v"

text \<open>\<open>consume\<close>: the row is read in the state \<open>seen\<close> and written in the state \<open>d\<close>.\<close>

definition consume :: "op_env \<Rightarrow> string \<Rightarrow> string \<Rightarrow> time \<Rightarrow> db \<Rightarrow> db \<Rightarrow> (string \<times> json, db) outcome" where
  "consume env operationId userId now seen d =
     (case find_key op_id operationId (db_ops seen) of
        None \<Rightarrow> (Inl (NotFound ''Operation not found''), d)
      | Some r \<Rightarrow>
          if op_createdByUserId r \<noteq> userId then (Inl (NotFound ''Operation not found''), d)
          else if op_status r \<noteq> SUCCEEDED then (Inl unavailable, d)
          else (case parse_sensitive (op_result r) of
              Inl e \<Rightarrow> (Inl e, d)
            | Inr result \<Rightarrow> (case parseEnvelope env (field result ''sensitiveResult'') of
                Inl e \<Rightarrow> (Inl e, d)
              | Inr envelope \<Rightarrow> (case open_sealed env r envelope now of
                  None \<Rightarrow> (Inl unavailable, d)
                | Some out \<Rightarrow>
                   (case guarded_update (\<lambda>x. op_id x = op_id r \<and> op_status x = SUCCEEDED \<and> op_result x = op_result r)
                      (\<lambda>x. x\<lparr>op_result := Some (json_stringify (consumed_result (iso_of env now) result))\<rparr>)
                      unavailable d of
                      (Inl e, d') \<Rightarrow> (Inl e, d')
                    | (Inr _, d') \<Rightarrow> (Inr out, d'))))))"

end
