(* ===== verification/Operation_Invariants.thy ===== *)
theory Operation_Invariants
  imports Operation_Completion
begin

text \<open>
  The invariant of the operation tables, and the two ways to keep it: an update of rows that
  respects the identity of each row (\<open>update_keeps_inv\<close>), and the insertion of an operation
  with its locks (in \<open>Operation_System\<close>).
\<close>

section \<open>The invariant\<close>

definition is_final :: "op_row \<Rightarrow> bool" where
  "is_final r \<longleftrightarrow> final_state (op_status r)"

text \<open>
  One row: where a lease can be, and the bounds of the counters. A row that waits or recovers
  has no lease, and neither has a row that is not in the queue.
\<close>

definition row_ok :: "op_row \<Rightarrow> bool" where
  "row_ok r \<longleftrightarrow>
     (op_executionMode r = MODE_QUEUED \<longrightarrow>
        op_status r \<noteq> PENDING \<and> 0 \<le> op_attempt r \<and> op_attempt r \<le> op_maxAttempts r \<and>
        1 \<le> op_maxAttempts r \<and> op_maxAttempts r \<le> 3 \<and> op_deadlineAt r \<noteq> None) \<and>
     (op_executionMode r = INLINE \<longrightarrow>
        op_status r \<notin> {QUEUED, CLAIMED, RECOVERING} \<and> op_leaseOwner r = None \<and> op_leaseExpiresAt r = None) \<and>
     (op_status r \<in> {PENDING, QUEUED, RECOVERING} \<longrightarrow> op_leaseOwner r = None \<and> op_leaseExpiresAt r = None) \<and>
     0 \<le> op_progress r \<and> op_progress r \<le> 100"

definition rows_ok :: "db \<Rightarrow> bool" where
  "rows_ok d \<longleftrightarrow> (\<forall>r \<in> set (db_ops d). row_ok r)"

definition keys_ok :: "db \<Rightarrow> bool" where
  "keys_ok d \<longleftrightarrow> keyed op_id (db_ops d) \<and> keyed op_idempotencyKey (db_ops d) \<and> keyed lk_resourceKey (db_locks d)"

text \<open>
  A lock belongs to an operation that still holds its locks, or to one that the sweep has
  just failed at its deadline and not unlocked yet.
\<close>

definition may_lock :: "op_row \<Rightarrow> bool" where
  "may_lock r \<longleftrightarrow> \<not> is_final r \<or> (op_status r = FAILED \<and> op_leaseOwner r = None)"

definition locks_owned :: "db \<Rightarrow> bool" where
  "locks_owned d \<longleftrightarrow>
     (\<forall>l \<in> set (db_locks d). \<exists>r \<in> set (db_ops d). op_id r = lk_operationId l \<and> may_lock r)"

definition site_locks_ok :: "db \<Rightarrow> bool" where
  "site_locks_ok d \<longleftrightarrow>
     (\<forall>l \<in> set (db_locks d). lk_kind l = SITE \<longrightarrow> (\<exists>s. s \<noteq> [] \<and> lk_resourceKey l = site_lock_key s))"

text \<open>
  A live operation that locks a Site excludes every other live operation that locks a domain
  or a database of it, but for its own children.
\<close>

definition holds_site :: "db \<Rightarrow> op_row \<Rightarrow> string \<Rightarrow> bool" where
  "holds_site d a s \<longleftrightarrow> a \<in> set (db_ops d) \<and> \<not> is_final a \<and>
     (\<exists>l \<in> set (db_locks d). lk_kind l = SITE \<and> lk_operationId l = op_id a \<and> lk_resourceKey l = site_lock_key s)"

definition holds_nested :: "db \<Rightarrow> op_row \<Rightarrow> string \<Rightarrow> bool" where
  "holds_nested d b s \<longleftrightarrow> b \<in> set (db_ops d) \<and> \<not> is_final b \<and> op_siteId b = Some s \<and>
     (\<exists>l \<in> set (db_locks d). lk_kind l \<in> {DOMAIN, DATABASE} \<and> lk_operationId l = op_id b)"

definition scope_excl :: "db \<Rightarrow> bool" where
  "scope_excl d \<longleftrightarrow>
     (\<forall>a b s. holds_site d a s \<longrightarrow> holds_nested d b s \<longrightarrow> op_id a \<noteq> op_id b \<longrightarrow>
        op_parentOperationId b = Some (op_id a))"

definition slots_ok :: "time \<Rightarrow> db \<Rightarrow> bool" where
  "slots_ok now d \<longleftrightarrow> count_rows (holds_slot now) (db_ops d) \<le> claim_capacity"

definition queue_ok :: "db \<Rightarrow> bool" where
  "queue_ok d \<longleftrightarrow> count_rows in_queue (db_ops d) \<le> MAX_QUEUED_PER_TARGET \<and>
     (\<forall>u. count_rows (\<lambda>r. in_queue r \<and> op_createdByUserId r = u) (db_ops d) \<le> MAX_QUEUED_PER_ACTOR)"

definition sys_inv :: "time \<Rightarrow> db \<Rightarrow> bool" where
  "sys_inv now d \<longleftrightarrow> keys_ok d \<and> rows_ok d \<and> locks_owned d \<and> site_locks_ok d \<and> scope_excl d \<and>
     slots_ok now d \<and> queue_ok d"

lemmas inv_defs = sys_inv_def keys_ok_def rows_ok_def locks_owned_def site_locks_ok_def scope_excl_def
  slots_ok_def queue_ok_def

section \<open>Updates that respect the identity of a row\<close>

definition same_identity :: "op_row \<Rightarrow> op_row \<Rightarrow> bool" where
  "same_identity r r' \<longleftrightarrow> op_id r' = op_id r \<and> op_idempotencyKey r' = op_idempotencyKey r \<and>
     op_createdByUserId r' = op_createdByUserId r \<and> op_siteId r' = op_siteId r \<and>
     op_parentOperationId r' = op_parentOperationId r \<and> op_executionMode r' = op_executionMode r"

definition row_keep :: "op_row \<Rightarrow> op_row \<Rightarrow> bool" where
  "row_keep r r' \<longleftrightarrow> same_identity r r' \<and> (row_ok r \<longrightarrow> row_ok r' \<and> (in_queue r' \<longrightarrow> in_queue r))"

definition no_new_slot :: "time \<Rightarrow> op_row \<Rightarrow> op_row \<Rightarrow> bool" where
  "no_new_slot now r r' \<longleftrightarrow> (row_ok r \<longrightarrow> holds_slot now r' \<longrightarrow> holds_slot now r)"

text \<open>
  What an update may do to the locks: it finishes an operation only together with the
  deletion of its locks (or as the sweep does), and it revives a finished operation only if
  a lease owner is left on it.
\<close>

definition lock_safe :: "db \<Rightarrow> (op_row \<Rightarrow> bool) \<Rightarrow> (op_row \<Rightarrow> op_row) \<Rightarrow> (lock_row \<Rightarrow> bool) \<Rightarrow> bool" where
  "lock_safe d P f Q \<longleftrightarrow>
     (\<forall>r \<in> set (db_ops d). P r \<longrightarrow> row_ok r \<longrightarrow>
        (\<not> is_final r \<longrightarrow> is_final (f r) \<longrightarrow> may_lock (f r) \<or> (\<forall>l. lk_operationId l = op_id r \<longrightarrow> Q l)) \<and>
        (is_final r \<longrightarrow> op_leaseOwner r \<noteq> None \<or> (is_final (f r) \<and> (may_lock r \<longrightarrow> may_lock (f r)))))"

definition changed :: "(op_row \<Rightarrow> bool) \<Rightarrow> (op_row \<Rightarrow> op_row) \<Rightarrow> (lock_row \<Rightarrow> bool) \<Rightarrow> db \<Rightarrow> db" where
  "changed P f Q d = d\<lparr>db_ops := update_rows P f (db_ops d), db_locks := delete_rows Q (db_locks d)\<rparr>"

lemma changed_sel [simp]:
  "db_ops (changed P f Q d) = update_rows P f (db_ops d)"
  "db_locks (changed P f Q d) = delete_rows Q (db_locks d)"
  by (simp_all add: changed_def)

lemma keyed_update_rows_on:
  assumes "\<And>r. r \<in> set rows \<Longrightarrow> P r \<Longrightarrow> key (f r) = key r"
  shows "keyed key (update_rows P f rows) = keyed key rows"
proof -
  have "map key (update_rows P f rows) = map key rows"
    using assms by (simp add: update_rows_def)
  then show ?thesis by (simp add: keyed_def)
qed

lemma count_update_rows_le:
  assumes "\<And>r. r \<in> set rows \<Longrightarrow> P r \<Longrightarrow> C (f r) \<Longrightarrow> C r"
  shows "count_rows C (update_rows P f rows) \<le> count_rows C rows"
  unfolding count_rows_def update_rows_def
  using assms by (intro length_filter_map_le) (auto split: if_splits)

lemma row_keep_same: "row_keep r r' \<Longrightarrow> same_identity r r'"
  by (simp add: row_keep_def)

text \<open>Every row afterwards comes from a row before, unchanged or changed by \<open>f\<close>.\<close>

lemma update_rows_origin:
  "r' \<in> set (update_rows P f rows) \<Longrightarrow>
     \<exists>r \<in> set rows. (P r \<and> r' = f r) \<or> (\<not> P r \<and> r' = r)"
  by (auto simp: row_simps split: if_splits)

lemma same_identity_refl: "same_identity r r"
  by (simp add: same_identity_def)

lemma changed_origin:
  assumes "\<And>r. r \<in> set (db_ops d) \<Longrightarrow> P r \<Longrightarrow> row_keep r (f r)"
    and "r' \<in> set (db_ops (changed P f Q d))"
  shows "\<exists>r \<in> set (db_ops d). same_identity r r' \<and> ((P r \<and> r' = f r) \<or> (\<not> P r \<and> r' = r))"
  using update_rows_origin [of r' P f "db_ops d"] assms
  by (auto intro: same_identity_refl row_keep_same)

lemma changed_keys_ok:
  assumes "keys_ok d" and ch: "\<And>r. r \<in> set (db_ops d) \<Longrightarrow> P r \<Longrightarrow> row_keep r (f r)"
  shows "keys_ok (changed P f Q d)"
proof -
  have "keyed op_id (update_rows P f (db_ops d)) = keyed op_id (db_ops d)"
    "keyed op_idempotencyKey (update_rows P f (db_ops d)) = keyed op_idempotencyKey (db_ops d)"
    by (rule keyed_update_rows_on; use ch in \<open>auto simp: row_keep_def same_identity_def\<close>)+
  with assms(1) show ?thesis by (simp add: keys_ok_def keyed_delete_rows)
qed

lemma changed_rows_ok:
  assumes "rows_ok d" and ch: "\<And>r. r \<in> set (db_ops d) \<Longrightarrow> P r \<Longrightarrow> row_keep r (f r)"
  shows "rows_ok (changed P f Q d)"
  using assms by (auto simp: rows_ok_def row_simps row_keep_def split: if_splits)

lemma changed_slots_ok:
  assumes "slots_ok now d" "rows_ok d"
    and "\<And>r. r \<in> set (db_ops d) \<Longrightarrow> P r \<Longrightarrow> no_new_slot now r (f r)"
  shows "slots_ok now (changed P f Q d)"
proof -
  have "count_rows (holds_slot now) (update_rows P f (db_ops d)) \<le> count_rows (holds_slot now) (db_ops d)"
    by (rule count_update_rows_le) (use assms(2,3) in \<open>auto simp: rows_ok_def no_new_slot_def\<close>)
  with assms(1) show ?thesis by (simp add: slots_ok_def)
qed

lemma changed_queue_ok:
  assumes queue: "queue_ok d" and rows: "rows_ok d"
    and ch: "\<And>r. r \<in> set (db_ops d) \<Longrightarrow> P r \<Longrightarrow> row_keep r (f r)"
  shows "queue_ok (changed P f Q d)"
proof -
  have le: "count_rows (\<lambda>r. in_queue r \<and> C (op_createdByUserId r)) (update_rows P f (db_ops d))
      \<le> count_rows (\<lambda>r. in_queue r \<and> C (op_createdByUserId r)) (db_ops d)" for C
    by (rule count_update_rows_le)
       (use rows ch in \<open>auto simp: rows_ok_def row_keep_def same_identity_def\<close>)
  have "count_rows in_queue (update_rows P f (db_ops d)) \<le> MAX_QUEUED_PER_TARGET"
    using queue le [of "\<lambda>_. True"] by (simp add: queue_ok_def)
  moreover have "count_rows (\<lambda>r. in_queue r \<and> op_createdByUserId r = u) (update_rows P f (db_ops d))
      \<le> MAX_QUEUED_PER_ACTOR" for u
    using queue le [of "\<lambda>v. v = u"] unfolding queue_ok_def by (meson order_trans)
  ultimately show ?thesis by (simp add: queue_ok_def)
qed

lemma changed_locks_owned:
  assumes own: "locks_owned d" and rows: "rows_ok d" and keys: "keys_ok d"
    and ch: "\<And>r. r \<in> set (db_ops d) \<Longrightarrow> P r \<Longrightarrow> row_keep r (f r)"
    and safe: "lock_safe d P f Q"
  shows "locks_owned (changed P f Q d)"
  unfolding locks_owned_def
proof
  fix l assume "l \<in> set (db_locks (changed P f Q d))"
  then have l: "l \<in> set (db_locks d)" "\<not> Q l" by (auto simp: row_simps)
  with own obtain r where r: "r \<in> set (db_ops d)" "op_id r = lk_operationId l" "may_lock r"
    by (auto simp: locks_owned_def)
  have ok: "row_ok r" using r(1) rows by (simp add: rows_ok_def)
  let ?r = "if P r then f r else r"
  have "?r \<in> set (db_ops (changed P f Q d))" using r(1) by (auto simp: row_simps)
  moreover have "op_id ?r = lk_operationId l"
    using r ch [OF r(1)] by (auto simp: row_keep_def same_identity_def)
  moreover have "may_lock ?r"
  proof (cases "P r")
    case True
    with safe ok r(1) have "\<not> is_final r \<longrightarrow> is_final (f r) \<longrightarrow> may_lock (f r) \<or> Q l"
      and "is_final r \<longrightarrow> op_leaseOwner r \<noteq> None \<or> may_lock (f r)"
      using r(2,3) by (auto simp: lock_safe_def)
    with True l(2) r(3) show ?thesis by (auto simp: may_lock_def)
  qed (use r(3) in simp)
  ultimately show "\<exists>r \<in> set (db_ops (changed P f Q d)). op_id r = lk_operationId l \<and> may_lock r" by blast
qed

text \<open>An operation that is live and has a lock afterwards was live before.\<close>

lemma changed_live:
  assumes own: "locks_owned d" and rows: "rows_ok d" and keys: "keys_ok d"
    and ch: "\<And>r. r \<in> set (db_ops d) \<Longrightarrow> P r \<Longrightarrow> row_keep r (f r)"
    and safe: "lock_safe d P f Q"
    and r': "r' \<in> set (db_ops (changed P f Q d))" "\<not> is_final r'"
    and l: "l \<in> set (db_locks d)" "lk_operationId l = op_id r'"
  shows "\<exists>r \<in> set (db_ops d). same_identity r r' \<and> \<not> is_final r"
proof -
  from changed_origin [OF ch r'(1)] obtain r where r: "r \<in> set (db_ops d)" "same_identity r r'"
    "(P r \<and> r' = f r) \<or> (\<not> P r \<and> r' = r)" by blast
  from own l obtain q where q: "q \<in> set (db_ops d)" "op_id q = op_id r'" "may_lock q"
    by (auto simp: locks_owned_def)
  have "q = r"
    using keys q(1,2) r(1,2) distinct_map_inj_onD [of op_id "db_ops d" q r]
    by (simp add: keys_ok_def keyed_def same_identity_def)
  have "\<not> is_final r"
  proof
    assume fin: "is_final r"
    with r(3) r'(2) have "P r" by auto
    with safe fin rows r r'(2) have "op_leaseOwner r \<noteq> None" by (auto simp: lock_safe_def rows_ok_def)
    with q(3) \<open>q = r\<close> fin show False by (simp add: may_lock_def)
  qed
  with r(1,2) show ?thesis by blast
qed

lemma changed_scope_excl:
  assumes excl: "scope_excl d" and own: "locks_owned d" and rows: "rows_ok d" and keys: "keys_ok d"
    and ch: "\<And>r. r \<in> set (db_ops d) \<Longrightarrow> P r \<Longrightarrow> row_keep r (f r)"
    and safe: "lock_safe d P f Q"
  shows "scope_excl (changed P f Q d)"
  unfolding scope_excl_def
proof (intro allI impI)
  fix a b s assume a: "holds_site (changed P f Q d) a s" and b: "holds_nested (changed P f Q d) b s"
    and ne: "op_id a \<noteq> op_id b"
  note live = changed_live [OF own rows keys ch safe]
  from a obtain l where l: "l \<in> set (db_locks d)" "lk_kind l = SITE" "lk_operationId l = op_id a"
      "lk_resourceKey l = site_lock_key s" and a': "a \<in> set (db_ops (changed P f Q d))" "\<not> is_final a"
    unfolding holds_site_def by (auto simp: row_simps)
  from live [OF _ _ a' l(1,3)] obtain a0 where "a0 \<in> set (db_ops d)" "same_identity a0 a" "\<not> is_final a0"
    by blast
  with l have "holds_site d a0 s" "op_id a0 = op_id a" by (auto simp: holds_site_def same_identity_def)
  moreover from b obtain k where k: "k \<in> set (db_locks d)" "lk_kind k \<in> {DOMAIN, DATABASE}"
      "lk_operationId k = op_id b" "op_siteId b = Some s"
      and b': "b \<in> set (db_ops (changed P f Q d))" "\<not> is_final b"
    unfolding holds_nested_def by (auto simp: row_simps)
  from live [OF _ _ b' k(1,3)] obtain b0 where "b0 \<in> set (db_ops d)" "same_identity b0 b" "\<not> is_final b0"
    by blast
  with k have "holds_nested d b0 s" "op_id b0 = op_id b" "op_parentOperationId b = op_parentOperationId b0"
    by (auto simp: holds_nested_def same_identity_def)
  ultimately show "op_parentOperationId b = Some (op_id a)"
    using excl ne unfolding scope_excl_def by metis
qed

text \<open>Everything but the number of leases in use, for the claim as well.\<close>

definition base_inv :: "db \<Rightarrow> bool" where
  "base_inv d \<longleftrightarrow> keys_ok d \<and> rows_ok d \<and> locks_owned d \<and> site_locks_ok d \<and> scope_excl d \<and> queue_ok d"

lemma sys_inv_base: "sys_inv now d \<longleftrightarrow> base_inv d \<and> slots_ok now d"
  by (auto simp: sys_inv_def base_inv_def)

lemma update_keeps_base:
  assumes inv: "base_inv d"
    and ch: "\<And>r. r \<in> set (db_ops d) \<Longrightarrow> P r \<Longrightarrow> row_keep r (f r)"
    and safe: "lock_safe d P f Q"
  shows "base_inv (changed P f Q d)"
proof -
  from inv have parts: "keys_ok d" "rows_ok d" "locks_owned d" "site_locks_ok d" "scope_excl d" "queue_ok d"
    by (auto simp: base_inv_def)
  have "site_locks_ok (changed P f Q d)"
    using parts(4) by (auto simp: site_locks_ok_def row_simps)
  then show ?thesis
    unfolding base_inv_def
    using changed_keys_ok [OF parts(1) ch] changed_rows_ok [OF parts(2) ch]
      changed_locks_owned [OF parts(3,2,1) ch safe] changed_scope_excl [OF parts(5,3,2,1) ch safe]
      changed_queue_ok [OF parts(6,2) ch] by blast
qed

lemma update_keeps_inv:
  assumes inv: "sys_inv now d"
    and ch: "\<And>r. r \<in> set (db_ops d) \<Longrightarrow> row_ok r \<Longrightarrow> P r \<Longrightarrow> row_keep r (f r) \<and> no_new_slot now r (f r)"
    and safe: "lock_safe d P f Q"
  shows "sys_inv now (changed P f Q d)"
proof -
  from inv have base: "base_inv d" and slots: "slots_ok now d" and rows: "rows_ok d"
    by (auto simp: sys_inv_base base_inv_def)
  have ch': "row_keep r (f r)" "no_new_slot now r (f r)" if "r \<in> set (db_ops d)" "P r" for r
    using ch [OF that(1) _ that(2)] rows that(1) by (auto simp: rows_ok_def)
  show ?thesis
    unfolding sys_inv_base
    using update_keeps_base [OF base ch'(1) safe] changed_slots_ok [OF slots rows ch'(2)] by blast
qed

text \<open>The invariant only reads the operations and the locks, and time only frees slots.\<close>

lemma sys_inv_cong:
  "db_ops d = db_ops d' \<Longrightarrow> db_locks d = db_locks d' \<Longrightarrow> sys_inv now d = sys_inv now d'"
  by (simp add: inv_defs holds_site_def holds_nested_def)

lemma sys_inv_later:
  assumes "sys_inv now d" "now \<le> later"
  shows "sys_inv later d"
proof -
  have "count_rows (holds_slot later) (db_ops d) \<le> count_rows (holds_slot now) (db_ops d)"
    unfolding count_rows_def using assms(2)
    by (intro length_filter_mono) (auto simp: holds_slot_def lease_alive_def split: option.splits)
  with assms(1) show ?thesis by (auto simp: sys_inv_def slots_ok_def)
qed

end
