(* ===== verification/Operation_System.thy ===== *)
theory Operation_System
  imports Operation_Invariants
begin

text \<open>
  The operation ledger as a transition system. One rule of \<open>op_step\<close> is one statement or one
  transaction that \<open>OperationsService\<close> sends to the database, so the rules interleave the
  calls of any number of workers and requests, and a crash of the API between two statements
  is a run that stops there. The third argument is the time of the step. Every step keeps
  the invariant of \<open>Operation_Invariants\<close>.
\<close>

section \<open>Guarded updates keep the invariant\<close>

lemma changed_no_locks: "changed P f (\<lambda>_. False) d = d\<lparr>db_ops := update_rows P f (db_ops d)\<rparr>"
  by (simp add: changed_def delete_rows_def)

lemma guarded_update_state: "snd (guarded_update P f e d) = changed P f (\<lambda>_. False) d"
  by (simp add: guarded_update_def changed_no_locks)

lemma finalize_state:
  "snd (finalize_and_release k P f e d) =
     (if count_rows P (db_ops d) = 1 then changed P f (\<lambda>l. lk_operationId l = k) d
      else changed P f (\<lambda>_. False) d)"
  by (simp add: finalize_and_release_def guarded_update_def release_locks_def changed_def delete_rows_def)

lemma finalize_result:
  "fst (finalize_and_release k P f e d) = (if count_rows P (db_ops d) = 1 then Inr () else Inl e)"
  by (simp add: finalize_and_release_def guarded_update_def)

lemma transaction_state:
  "snd (transaction fault body d) = (if fault = None \<and> isl (fst (body d)) = False then snd (body d) else d)"
  by (auto simp: transaction_def split: option.splits prod.splits sum.splits)

lemma transaction_finalize_state:
  "snd (transaction fault (finalize_and_release k P f e) d)
     \<in> {d, changed P f (\<lambda>l. lk_operationId l = k) d}"
  by (auto simp: transaction_state finalize_state finalize_result)

lemma finalization_loop_state:
  "snd (finalization_loop n faults body d) = d \<or>
    (\<exists>v. fst (finalization_loop n faults body d) = Inr v \<and> body d = (Inr v, snd (finalization_loop n faults body d)))"
proof (induction n arbitrary: faults)
  case (Suc n)
  let ?f = "case faults of [] \<Rightarrow> None | f # _ \<Rightarrow> f"
  obtain r d' where t: "transaction ?f body d = (r, d')" by (cases "transaction ?f body d")
  show ?case
  proof (cases r)
    case (Inl e)
    with t have "d' = d" using transaction_error [of ?f body d e] by simp
    with Suc.IH [of "tl faults"] t Inl show ?thesis by simp
  next
    case (Inr v)
    with t have "body d = (Inr v, d')" by (simp add: transaction_ok)
    with t Inr show ?thesis by simp
  qed
qed simp

text \<open>What the body keeps when it succeeds, the transaction and the retry loop keep.\<close>

lemma transaction_keeps:
  assumes "I d" "\<And>v d'. body d = (Inr v, d') \<Longrightarrow> I d'"
  shows "I (snd (transaction fault body d))"
proof -
  obtain r d' where t: "transaction fault body d = (r, d')" by fastforce
  show ?thesis
  proof (cases r)
    case (Inl e)
    with t transaction_error [of fault body d e] assms(1) show ?thesis by simp
  next
    case (Inr v)
    with t have "body d = (Inr v, d')" by (simp add: transaction_ok)
    with t assms(2) show ?thesis by simp
  qed
qed

lemma finalization_keeps:
  assumes "I d" "\<And>v d'. body d = (Inr v, d') \<Longrightarrow> I d'"
  shows "I (snd (withFinalizationTransaction faults body d))"
  using finalization_loop_state [of FINALIZATION_TRANSACTION_MAX_ATTEMPTS faults body d] assms
  unfolding withFinalizationTransaction_def by metis

lemmas change_defs = row_keep_def same_identity_def no_new_slot_def

lemma inv_guarded:
  assumes "sys_inv now d"
    and "\<And>r. r \<in> set (db_ops d) \<Longrightarrow> row_ok r \<Longrightarrow> P r \<Longrightarrow> row_keep r (f r) \<and> no_new_slot now r (f r)"
    and "lock_safe d P f (\<lambda>_. False)"
  shows "sys_inv now (snd (guarded_update P f e d))"
  unfolding guarded_update_state using assms by (rule update_keeps_inv)

lemma inv_finalize:
  assumes "sys_inv now d"
    and "\<And>r. r \<in> set (db_ops d) \<Longrightarrow> row_ok r \<Longrightarrow> P r \<Longrightarrow> row_keep r (f r) \<and> no_new_slot now r (f r)"
    and "lock_safe d P f (\<lambda>l. lk_operationId l = k)"
  shows "sys_inv now (changed P f (\<lambda>l. lk_operationId l = k) d)"
  using assms by (rule update_keeps_inv)

text \<open>An update of one operation that releases its locks and only touches a live row.\<close>

lemma lock_safe_release:
  assumes "\<And>r. P r \<Longrightarrow> op_id r = k \<and> \<not> is_final r"
  shows "lock_safe d P f (\<lambda>l. lk_operationId l = k)"
  using assms by (auto simp: lock_safe_def)

lemma lock_safe_live:
  assumes "\<And>r. row_ok r \<Longrightarrow> P r \<Longrightarrow> \<not> is_final (f r) \<and> (is_final r \<longrightarrow> op_leaseOwner r \<noteq> None)"
  shows "lock_safe d P f Q"
  using assms by (auto simp: lock_safe_def)

section \<open>Each write\<close>

lemma not_finalI: "op_status r \<notin> {CANCELLED, SUCCEEDED, FAILED} \<Longrightarrow> \<not> is_final r"
  by (simp add: is_final_def final_state_def)

lemmas row_defs = row_ok_def holds_slot_def in_queue_def status_defs lease_alive_def lease_expired_def
  drop_lease_def is_final_def final_state_def

lemma start_inv: "sys_inv now d \<Longrightarrow> sys_inv now (snd (start k st t d))"
  unfolding start_def
  by (rule inv_guarded, assumption) (auto simp: change_defs row_defs lock_safe_def)

lemma startClaimed_inv: "sys_inv now d \<Longrightarrow> sys_inv now (snd (startClaimed k w st t d))"
  unfolding startClaimed_def
  by (rule inv_guarded, assumption) (auto simp: change_defs row_defs lock_safe_def)

lemma clamp_progress_bounds [simp]: "0 \<le> clamp_progress p" "clamp_progress p \<le> 100" "clamp_progress p \<le> 99"
  by (simp_all add: clamp_progress_def)

lemma step_inv: "sys_inv now d \<Longrightarrow> sys_inv now (snd (step k st p d))"
  unfolding step_def
  by (rule inv_guarded, assumption)
     (auto simp: change_defs row_defs lock_safe_def)

lemma heartbeat_inv: "sys_inv now d \<Longrightarrow> sys_inv now (snd (heartbeatClaim k w st p now d))"
proof -
  assume inv: "sys_inv now d"
  let ?f = "\<lambda>r. r\<lparr>op_heartbeatAt := Some now, op_leaseExpiresAt := Some (now + lease_ms),
               op_currentStep := (case st of None \<Rightarrow> op_currentStep r | Some st \<Rightarrow> Some st),
               op_progress := (case p of None \<Rightarrow> op_progress r | Some p \<Rightarrow> clamp_progress p)\<rparr>"
  have "sys_inv now (changed (heartbeat_guard k w now) ?f (\<lambda>_. False) d)"
  proof (rule update_keeps_inv [OF inv])
    fix r assume "r \<in> set (db_ops d)" and ok: "row_ok r" and g: "heartbeat_guard k w now r"
    have "0 \<le> op_progress (?f r) \<and> op_progress (?f r) \<le> 100"
      using ok by (cases p) (auto simp: row_ok_def)
    with ok g show "row_keep r (?f r) \<and> no_new_slot now r (?f r)"
      by (auto simp: change_defs row_defs heartbeat_guard_def split: option.splits)
  qed (auto simp: lock_safe_def heartbeat_guard_def row_defs)
  then show ?thesis by (simp add: heartbeatClaim_def changed_no_locks)
qed

lemma attention_inv: "sys_inv now d \<Longrightarrow> sys_inv now (snd (requireAttention k w m t d))"
  unfolding requireAttention_def attention_write_def
  by (rule inv_guarded, assumption) (auto simp: change_defs row_defs lock_safe_def)

lemma retry_inv:
  "sys_inv now d \<Longrightarrow> sys_inv now (snd (retryOrRequireAttention env c w m t d))"
  unfolding retryOrRequireAttention_def attention_write_def requeue_write_def leased_by_def
  by (rule inv_guarded, assumption) (auto simp: change_defs row_defs lock_safe_def)

lemma sweep_lost_inv:
  assumes "sys_inv now d" "lost_lease t x"
  shows "sys_inv now (sweep_lost t x d)"
proof -
  let ?P = "\<lambda>r. op_id r = op_id x \<and> op_status r = op_status x \<and> lease_expired t r"
  let ?f = "if op_status x \<noteq> CANCEL_REQUESTED \<and> recoverable x then recover_write
         else attention_write ''Operation lease expired; reconciliation is required'' t"
  have "sys_inv now (changed ?P ?f (\<lambda>_. False) d)"
    using assms(2)
    by (intro update_keeps_inv [OF assms(1)])
       (auto simp: change_defs row_defs lock_safe_def lost_lease_def recover_write_def attention_write_def
         split: option.splits)
  then show ?thesis by (simp add: sweep_lost_def changed_no_locks)
qed

lemma expire_mark_inv:
  assumes "sys_inv now d" "expired_in_queue t x"
  shows "sys_inv now (expire_mark t x d)"
proof -
  have "sys_inv now (changed (expire_guard t x) (expire_write t) (\<lambda>_. False) d)"
    using assms(2)
    by (intro update_keeps_inv [OF assms(1)])
       (auto simp: change_defs row_defs lock_safe_def expired_in_queue_def expire_guard_def expire_write_def
         may_lock_def)
  then show ?thesis by (simp add: expire_mark_def changed_no_locks)
qed

lemma expire_unlock_inv: "sys_inv now d \<Longrightarrow> sys_inv now (expire_unlock k d)"
proof -
  assume inv: "sys_inv now d"
  let ?Q = "\<lambda>l. lk_operationId l = k \<and> (case lock_operation d l of None \<Rightarrow> False | Some r \<Rightarrow> op_status r = FAILED)"
  have "sys_inv now (changed (\<lambda>_. False) id ?Q d)"
    by (rule update_keeps_inv [OF inv]) (simp_all add: lock_safe_def)
  then show ?thesis by (simp add: expire_unlock_def changed_def update_rows_none)
qed

lemma sweep_exhausted_inv: "sys_inv now d \<Longrightarrow> sys_inv now (sweep_exhausted t x d)"
proof -
  assume inv: "sys_inv now d"
  let ?P = "\<lambda>r. op_id r = op_id x \<and> op_status r = QUEUED \<and> op_attempt r = op_attempt x"
  let ?f = "\<lambda>r. r\<lparr>op_status := NEEDS_ATTENTION, op_errorMessage := Some ''Operation attempt budget exhausted'',
               op_completedAt := Some t\<rparr>"
  have "sys_inv now (changed ?P ?f (\<lambda>_. False) d)"
    by (rule update_keeps_inv [OF inv]) (auto simp: change_defs row_defs lock_safe_def)
  then show ?thesis using inv by (simp add: sweep_exhausted_def changed_no_locks)
qed

section \<open>Writes that release the locks\<close>

lemma finalize_ok_state:
  "finalize_and_release k P f e d = (Inr v, d') \<Longrightarrow> d' = changed P f (\<lambda>l. lk_operationId l = k) d"
  using finalize_state [of k P f e d] finalize_result [of k P f e d] by (auto split: if_splits)

lemma inv_tx_finalize:
  assumes inv: "sys_inv now d"
    and ch: "\<And>r. row_ok r \<Longrightarrow> P r \<Longrightarrow> row_keep r (f r) \<and> no_new_slot now r (f r)"
    and live: "\<And>r. P r \<Longrightarrow> op_id r = k \<and> \<not> is_final r"
  shows "sys_inv now (snd (transaction fault (finalize_and_release k P f e) d))"
    and "sys_inv now (snd (withFinalizationTransaction faults (finalize_and_release k P f e) d))"
    and "\<And>v d'. finalize_and_release k P f e d = (Inr v, d') \<Longrightarrow> sys_inv now d'"
proof -
  have fin: "sys_inv now (changed P f (\<lambda>l. lk_operationId l = k) d)"
    by (rule inv_finalize [OF inv]) (use ch live in \<open>auto intro: lock_safe_release\<close>)
  show ok: "finalize_and_release k P f e d = (Inr v, d') \<Longrightarrow> sys_inv now d'" for v d'
    using fin by (auto dest: finalize_ok_state)
  show "sys_inv now (snd (transaction fault (finalize_and_release k P f e) d))"
    by (rule transaction_keeps) (use inv ok in auto)
  show "sys_inv now (snd (withFinalizationTransaction faults (finalize_and_release k P f e) d))"
    by (rule finalization_keeps) (use inv ok in auto)
qed

lemma succeedClaimed_inv:
  assumes inv: "sys_inv now d"
  shows "sys_inv now (snd (succeedClaimed k w res late t faults d))"
proof -
  have body: "sys_inv now d'" if "succeed_body k w res late t d = (Inr v, d')" for v d'
  proof -
    from that obtain c where f: "find_first (\<lambda>r. op_id r = k \<and> op_status r \<in> set [RUNNING, CANCEL_REQUESTED] \<and>
          op_leaseOwner r = Some w) (db_ops d) = Some c"
      and fin: "finalize_and_release k (\<lambda>r. op_id r = k \<and> op_status r = op_status c \<and> op_leaseOwner r = Some w)
         (succeed_write res (late \<or> op_status c = CANCEL_REQUESTED \<or> op_cancelRequestedAt c \<noteq> None) t)
         (Conflict ''Operation claim is stale'') d = (Inr v, d')"
      unfolding succeed_body_def by (cases "find_first (\<lambda>r. op_id r = k \<and> op_status r \<in> set [RUNNING, CANCEL_REQUESTED] \<and>
          op_leaseOwner r = Some w) (db_ops d)") simp_all
    have c: "op_status c \<in> {RUNNING, CANCEL_REQUESTED}" using find_first_SomeD [OF f] by simp
    show ?thesis
      by (rule inv_tx_finalize(3) [OF inv _ _ fin])
         (use c in \<open>auto simp: change_defs row_defs succeed_write_def\<close>)
  qed
  have "sys_inv now (snd (withFinalizationTransaction faults (succeed_body k w res late t) d))"
    by (rule finalization_keeps) (use inv body in auto)
  with inv show ?thesis by (simp add: succeedClaimed_def split: option.splits)
qed

lemma failClaimed_inv: "sys_inv now d \<Longrightarrow> sys_inv now (snd (failClaimed env k w m t faults d))"
  unfolding failClaimed_def
  by (rule inv_tx_finalize(2)) (auto simp: change_defs row_defs fail_write_def leased_by_def)

lemma cancelClaimed_inv: "sys_inv now d \<Longrightarrow> sys_inv now (snd (cancelClaimed k w t faults d))"
  unfolding cancelClaimed_def
  by (rule inv_tx_finalize(2)) (auto simp: change_defs row_defs cancel_write_def leased_by_def)

lemma cancel_tx_inv: "sys_inv now d \<Longrightarrow> sys_inv now (snd (transaction fault (cancel_tx k st t) d))"
proof (cases "st \<in> {PENDING, QUEUED, RECOVERING}")
  case True
  assume inv: "sys_inv now d"
  have "cancel_tx k st t = finalize_and_release k
      (\<lambda>r. op_id r = k \<and> op_status r = st \<and> op_cancelRequestedAt r = None)
      (cancel_now_write t) (Conflict ''Operation state changed'')"
    using True by (auto simp: cancel_tx_def)
  moreover have "sys_inv now (snd (transaction fault (finalize_and_release k
      (\<lambda>r. op_id r = k \<and> op_status r = st \<and> op_cancelRequestedAt r = None)
      (cancel_now_write t) (Conflict ''Operation state changed'')) d))"
    by (rule inv_tx_finalize(1) [OF inv])
       (use True in \<open>auto simp: change_defs row_defs cancel_now_write_def\<close>)
  ultimately show ?thesis by simp
next
  case False
  assume inv: "sys_inv now d"
  have "sys_inv now (snd (guarded_update
             (\<lambda>r. op_id r = k \<and> op_status r \<in> set [CLAIMED, RUNNING] \<and> op_cancelRequestedAt r = None)
             (cancel_request_write t) (Conflict ''Operation state changed'') d))"
    by (rule inv_guarded [OF inv])
       (auto simp: change_defs row_defs lock_safe_def cancel_request_write_def)
  then have "sys_inv now (snd (cancel_tx k st t d))"
    using False by (simp add: cancel_tx_def)
  with inv show ?thesis by (simp add: transaction_state)
qed

lemma requestCancellation_inv:
  "sys_inv now d \<Longrightarrow> sys_inv now (snd (requestCancellation k u role t fault seen d))"
  using cancel_tx_inv [of now d fault k _ t]
  by (auto simp: requestCancellation_def split: option.splits prod.splits sum.splits) (metis snd_conv)+

lemma succeed_inv: "sys_inv now d \<Longrightarrow> sys_inv now (snd (succeed k res t fault d))"
proof -
  assume inv: "sys_inv now d"
  have body: "sys_inv now d'" if "succeed_tx k res t d = (Inr v, d')" for v d'
  proof -
    from that have fin: "finalize_and_release k (\<lambda>r. op_id r = k \<and> op_status r = RUNNING)
          (inline_succeed_write res t) (Conflict ''Operation is not running'') d = (Inr v, d')"
      by (auto simp: succeed_tx_def split: option.splits)
    show ?thesis
      by (rule inv_tx_finalize(3) [OF inv _ _ fin]) (auto simp: change_defs row_defs inline_succeed_write_def)
  qed
  have "sys_inv now (snd (transaction fault (succeed_tx k res t) d))"
    by (rule transaction_keeps) (use inv body in auto)
  with inv show ?thesis by (simp add: succeed_def split: option.splits)
qed

lemma inline_fail_keeps: "row_keep r (inline_fail_write m u r) \<and> no_new_slot t r (inline_fail_write m u r)"
  by (auto simp: change_defs row_ok_def holds_slot_def in_queue_def status_defs inline_fail_write_def)

lemma lock_safe_holding:
  assumes "\<And>r. P r \<Longrightarrow> op_status r \<in> set LOCK_HOLDING_STATUSES \<and> Q = (\<lambda>l. lk_operationId l \<in> I) \<and> op_id r \<in> I"
  shows "lock_safe d P f Q"
  using assms unfolding lock_safe_def lock_holding_iff is_final_def by metis

lemma restart_attention_keeps:
  "row_keep r (restart_attention_write t r) \<and> no_new_slot now r (restart_attention_write t r)"
  by (auto simp: change_defs row_ok_def holds_slot_def in_queue_def status_defs restart_attention_write_def)

lemma fail_inv: "sys_inv now d \<Longrightarrow> sys_inv now (snd (fail env k m t fault d))"
  unfolding fail_def
proof (rule transaction_keeps)
  fix v d' assume inv: "sys_inv now d" and tx: "fail_tx k (safe_message env m) t d = (Inr v, d')"
  let ?ids = "map op_id (filter (child_holds k) (db_ops d))"
  let ?f = "inline_fail_write (safe_message env m) t"
  let ?P = "\<lambda>r. op_id r \<in> set ?ids \<and> op_status r \<in> set LOCK_HOLDING_STATUSES"
  let ?R = "\<lambda>r. op_id r = k \<and> op_status r \<in> set LOCK_HOLDING_STATUSES"
  let ?d1 = "changed ?P ?f (\<lambda>l. lk_operationId l \<in> set ?ids) d"
  have "sys_inv now ?d1"
    by (rule update_keeps_inv [OF inv]) (use inline_fail_keeps in \<open>auto intro!: lock_safe_holding\<close>)
  then have "sys_inv now (changed ?R ?f (\<lambda>l. lk_operationId l = k) ?d1)"
    by (rule update_keeps_inv)
       (use inline_fail_keeps in \<open>auto intro!: lock_safe_holding [where I = "{k}"]\<close>)
  with tx show "sys_inv now d'"
    by (simp add: fail_tx_def Let_def changed_def)
qed

lemma restart_inv: "sys_inv now d \<Longrightarrow> sys_inv now (onModuleInit t d)"
proof -
  assume inv: "sys_inv now d"
  let ?rows = "filter interrupted (db_ops d)"
  let ?rec = "map op_id (filter recovers ?rows)"
  let ?att = "map op_id (filter (\<lambda>r. op_id r \<notin> set ?rec) ?rows)"
  let ?P = "\<lambda>r. op_id r \<in> set ?rec" and ?R = "\<lambda>r. op_id r \<in> set ?att"
  let ?d1 = "changed ?P restart_recover_write (\<lambda>_. False) d"
  let ?d2 = "changed ?R (restart_attention_write t) (\<lambda>_. False) ?d1"
  from inv have "keyed op_id (db_ops d)" by (simp add: inv_defs)
  then have same: "r = q" if "r \<in> set (db_ops d)" "q \<in> set (db_ops d)" "op_id r = op_id q" for r q
    using that by (auto simp: keyed_def dest: distinct_map_inj_onD)
  have P: "interrupted r \<and> recovers r" if r: "r \<in> set (db_ops d)" "?P r" for r
  proof -
    from r(2) obtain q where "q \<in> set (db_ops d)" "interrupted q" "recovers q" "op_id r = op_id q" by auto
    with same [OF r(1)] show ?thesis by blast
  qed
  have R: "interrupted r" if r: "r \<in> set (db_ops d)" "?R r" for r
  proof -
    from r(2) obtain q where "q \<in> set (db_ops d)" "interrupted q" "op_id r = op_id q" by auto
    with same [OF r(1)] show ?thesis by blast
  qed
  have d1: "sys_inv now ?d1"
  proof (rule update_keeps_inv [OF inv])
    fix r assume r: "r \<in> set (db_ops d)" "row_ok r" "?P r"
    from r(2) P [OF r(1,3)] show "row_keep r (restart_recover_write r) \<and> no_new_slot now r (restart_recover_write r)"
      by (auto simp: change_defs row_defs restart_recover_write_def interrupted_def recovers_def)
  next
    show "lock_safe d ?P restart_recover_write (\<lambda>_. False)"
      unfolding lock_safe_def
    proof (intro ballI impI)
      fix r assume "r \<in> set (db_ops d)" "?P r"
      then have "interrupted r" using P by blast
      then show "(\<not> is_final r \<longrightarrow> is_final (restart_recover_write r) \<longrightarrow>
          may_lock (restart_recover_write r) \<or> (\<forall>l. lk_operationId l = op_id r \<longrightarrow> False)) \<and>
        (is_final r \<longrightarrow> op_leaseOwner r \<noteq> None \<or> (is_final (restart_recover_write r) \<and>
          (may_lock r \<longrightarrow> may_lock (restart_recover_write r))))"
        by (auto simp: restart_recover_write_def is_final_def final_state_def interrupted_def)
    qed
  qed
  have live: "\<not> is_final r" if "r \<in> set (db_ops ?d1)" "?R r" for r
  proof -
    from update_rows_origin [of r ?P restart_recover_write "db_ops d"] that(1)
    obtain q where q: "q \<in> set (db_ops d)" "(?P q \<and> r = restart_recover_write q) \<or> (\<not> ?P q \<and> r = q)"
      unfolding changed_sel by blast
    from q(2) show ?thesis
    proof
      assume "\<not> ?P q \<and> r = q"
      then have "r = q" by (rule conjunct2)
      with R [OF q(1)] that(2) have "interrupted r" by metis
      then show ?thesis by (auto simp: interrupted_def is_final_def final_state_def)
    next
      assume "?P q \<and> r = restart_recover_write q"
      then have "r = restart_recover_write q" by (rule conjunct2)
      then show ?thesis by (simp add: restart_recover_write_def is_final_def final_state_def)
    qed
  qed
  have d2: "sys_inv now ?d2"
  proof (rule update_keeps_inv [OF d1])
    fix r
    show "row_keep r (restart_attention_write t r) \<and> no_new_slot now r (restart_attention_write t r)"
      by (rule restart_attention_keeps)
  next
    show "lock_safe ?d1 ?R (restart_attention_write t) (\<lambda>_. False)"
      unfolding lock_safe_def
    proof (intro ballI impI)
      fix r assume "r \<in> set (db_ops ?d1)" "?R r"
      then have "\<not> is_final r" by (rule live)
      then show "(\<not> is_final r \<longrightarrow> is_final (restart_attention_write t r) \<longrightarrow>
          may_lock (restart_attention_write t r) \<or> (\<forall>l. lk_operationId l = op_id r \<longrightarrow> False)) \<and>
        (is_final r \<longrightarrow> op_leaseOwner r \<noteq> None \<or> (is_final (restart_attention_write t r) \<and>
          (may_lock r \<longrightarrow> may_lock (restart_attention_write t r))))"
        by (simp add: restart_attention_write_def is_final_def final_state_def)
    qed
  qed
  have "db_ops (restart_tx ?rows t d) = db_ops (if ?att = [] then ?d1 else ?d2)"
    "db_locks (restart_tx ?rows t d) = db_locks (if ?att = [] then ?d1 else ?d2)"
    unfolding restart_tx_def Let_def by (auto simp: delete_rows_def)
  then have "sys_inv now (restart_tx ?rows t d)"
    using sys_inv_cong [of "restart_tx ?rows t d" "if ?att = [] then ?d1 else ?d2" now] d1 d2
    by (simp split: if_splits)
  with inv show ?thesis by (simp add: onModuleInit_def Let_def)
qed

section \<open>The claim\<close>

lemma claim_candidate_SomeD: "claim_candidate now rows = Some r \<Longrightarrow> r \<in> set rows \<and> claimable now r"
proof -
  assume "claim_candidate now rows = Some r"
  then obtain rs where "sort_key claim_order (filter (claimable now) rows) = r # rs"
    by (auto simp: claim_candidate_def split: list.splits)
  then have "r \<in> set (sort_key claim_order (filter (claimable now) rows))" by simp
  then show ?thesis by simp
qed

lemma claim_inv: "sys_inv now d \<Longrightarrow> t \<le> now \<Longrightarrow> sys_inv now (snd (claim_sql w t d))"
proof -
  assume inv: "sys_inv now d" and t: "t \<le> now"
  show ?thesis
  proof (cases "claim_candidate t (db_ops d)")
    case (Some r)
    note r = claim_candidate_SomeD [OF Some]
    let ?P = "\<lambda>x. op_id x = op_id r" and ?f = "claim_write w t"
    from inv have keyed: "keyed op_id (db_ops d)" by (simp add: inv_defs)
    then have same: "x = r" if "x \<in> set (db_ops d)" "?P x" for x
      using that r by (auto simp: keyed_def dest: distinct_map_inj_onD)
    have base: "base_inv (changed ?P ?f (\<lambda>_. False) d)"
    proof (rule update_keeps_base)
      show "base_inv d" using inv by (simp add: sys_inv_base)
      fix x assume x: "x \<in> set (db_ops d)" "?P x"
      have "claimable t x" using same [OF x] r by simp
      then show "row_keep x (?f x)"
        by (auto simp: change_defs row_defs claim_write_def claimable_def)
    next
      have "\<not> is_final x" if "x \<in> set (db_ops d)" "?P x" for x
        using r unfolding same [OF that] by (auto simp: is_final_def final_state_def claimable_def)
      then show "lock_safe d ?P ?f (\<lambda>_. False)"
        by (simp add: lock_safe_def claim_write_def is_final_def final_state_def)
    qed
    have one: "count_rows ?P (db_ops d) \<le> 1"
      using length_filter_key_le_1 [of op_id "db_ops d" "op_id r" "\<lambda>_. True"] keyed
      by (simp add: keyed_def count_rows_def)
    have "count_rows (holds_slot now) (update_rows ?P ?f (db_ops d))
        \<le> count_rows (holds_slot now) (db_ops d) + count_rows ?P (db_ops d)"
      unfolding count_rows_def update_rows_def
      by (rule length_filter_map_le_count) (auto split: if_splits)
    moreover have "count_rows (holds_slot now) (db_ops d) \<le> count_rows (holds_slot t) (db_ops d)"
      unfolding count_rows_def using t
      by (intro length_filter_mono) (auto simp: holds_slot_def lease_alive_def split: option.splits)
    ultimately have "slots_ok now (changed ?P ?f (\<lambda>_. False) d)"
      if "count_rows (holds_slot t) (db_ops d) < claim_capacity"
      using that one by (simp add: slots_ok_def)
    with base inv Some show ?thesis
      by (simp add: claim_sql_def sys_inv_base changed_no_locks)
  qed (use inv in \<open>simp add: claim_sql_def\<close>)
qed

section \<open>A new operation\<close>

lemma site_spec:
  "sp \<in> set (operationLockSpecs sc) \<Longrightarrow> lk_kind sp = SITE \<Longrightarrow>
     \<exists>s. truthy (sc_siteId sc) = Some s \<and> lk_resourceKey sp = site_lock_key s \<and>
       sc_lockSite sc \<noteq> Some False \<and> truthy (sc_parentOperationId sc) = None"
  by (auto simp: operationLockSpecs_def site_lock_key_def split: option.splits if_splits)

lemma site_lock_key_inject [simp]: "site_lock_key s = site_lock_key t \<longleftrightarrow> s = t"
  by (simp add: site_lock_key_def)

lemma begin_scope_sel [simp]:
  "sc_siteId (begin_scope inp) = bi_siteId inp" "sc_lockSite (begin_scope inp) = bi_lockSite inp"
  "sc_parentOperationId (begin_scope inp) = bi_parentOperationId inp"
  by (simp_all add: begin_scope_def)

lemma own_site_spec:
  assumes "truthy (sc_siteId sc) = Some s" "sc_lockSite sc \<noteq> Some False" "truthy (sc_parentOperationId sc) = None"
  shows "\<lparr>lk_resourceKey = site_lock_key s, lk_kind = SITE\<rparr> \<in> set (operationLockSpecs sc)"
  using assms by (simp add: operationLockSpecs_def site_lock_key_def)

lemma create_operation_ok:
  assumes "create_operation r specs d = (Inr v, d')"
  shows "op_id r \<notin> op_id ` set (db_ops d)" "op_idempotencyKey r \<notin> op_idempotencyKey ` set (db_ops d)"
    "distinct (map lk_resourceKey specs)" "set (map lk_resourceKey specs) \<inter> lk_resourceKey ` set (db_locks d) = {}"
    "v = r" "d' = d\<lparr>db_ops := db_ops d @ [r], db_locks := db_locks d @ map (own_lock (op_id r)) specs\<rparr>"
  using assms by (auto simp: create_operation_def create_locks_def split: if_splits option.splits)

lemma own_lock_sel [simp]:
  "lk_operationId (own_lock k sp) = k" "lk_kind (own_lock k sp) = lk_kind sp"
  "lk_resourceKey (own_lock k sp) = lk_resourceKey sp"
  by (simp_all add: own_lock_def)

lemma keyed_add_locks:
  assumes "keyed lk_resourceKey ls" "distinct (map lk_resourceKey specs)"
    "set (map lk_resourceKey specs) \<inter> lk_resourceKey ` set ls = {}"
  shows "keyed lk_resourceKey (ls @ map (own_lock k) specs)"
  using assms by (auto simp: keyed_def o_def)

lemma count_rows_append [simp]: "count_rows P (xs @ ys) = count_rows P xs + count_rows P ys"
  by (simp add: count_rows_def)

lemma count_rows_single [simp]: "count_rows P [x] = (if P x then 1 else 0)"
  by (simp add: count_rows_def)

text \<open>The locks of a new id belong to nobody else.\<close>

lemma fresh_id_no_locks:
  "locks_owned d \<Longrightarrow> k \<notin> op_id ` set (db_ops d) \<Longrightarrow> l \<in> set (db_locks d) \<Longrightarrow> lk_operationId l \<noteq> k"
  unfolding locks_owned_def by (metis imageI)

lemma lock_operation_keyed:
  "keyed op_id (db_ops d) \<Longrightarrow> r \<in> set (db_ops d) \<Longrightarrow> op_id r = lk_operationId l \<Longrightarrow> lock_operation d l = Some r"
  by (simp add: lock_operation_def find_key_iff)

text \<open>What a free scope hierarchy says of the operations that hold locks in it.\<close>

lemma scope_available_nested:
  assumes "assertScopeHierarchyAvailable d sc x = None" "truthy (sc_siteId sc) = Some s"
    and "sc_lockSite sc \<noteq> Some False" "truthy (sc_parentOperationId sc) = None"
    and "keyed op_id (db_ops d)" "holds_nested d b s"
  shows "x = Some (op_id b)"
proof (rule ccontr)
  assume other: "x \<noteq> Some (op_id b)"
  from assms(6) obtain l where l: "l \<in> set (db_locks d)" "lk_kind l \<in> {DOMAIN, DATABASE}" "lk_operationId l = op_id b"
    and b: "b \<in> set (db_ops d)" "\<not> is_final b" "op_siteId b = Some s"
    by (auto simp: holds_nested_def)
  have "lock_operation d l = Some b"
    using assms(5) b(1) l(3) by (simp add: lock_operation_keyed)
  then have "nested_lock_of d s l"
    using l b by (auto simp: nested_lock_of_def is_final_def lock_holding_iff)
  moreover have "case truthy x of None \<Rightarrow> True | Some x \<Rightarrow> lk_operationId l \<noteq> x"
    using other l(3) by (auto simp: truthy_eq_Some split: option.splits)
  ultimately show False
    using assms(1-4) l(1)
    by (auto simp: assertScopeHierarchyAvailable_def Let_def row_simps split: option.splits)
qed

lemma scope_available_site:
  assumes "assertScopeHierarchyAvailable d sc None = None" "truthy (sc_siteId sc) = Some s"
    and "keyed lk_resourceKey (db_locks d)"
    and l: "l \<in> set (db_locks d)" "lk_resourceKey l = site_lock_key s"
  shows "truthy (sc_parentOperationId sc) = Some (lk_operationId l) \<or>
     (sc_lockSite sc \<noteq> Some False \<and> truthy (sc_parentOperationId sc) = None)"
proof -
  have "find_key lk_resourceKey (site_lock_key s) (db_locks d) = Some l"
    using assms(3) l by (simp add: find_key_iff)
  with assms(1,2) show ?thesis
    by (auto simp: assertScopeHierarchyAvailable_def Let_def truthy_eq_Some split: if_splits)
qed

lemma begin_scope_excl:
  assumes excl: "scope_excl d" and keys: "keys_ok d" and own: "locks_owned d"
    and avail: "assertScopeHierarchyAvailable d sc None = None"
    and r: "op_siteId r = truthy (sc_siteId sc)" "op_parentOperationId r = truthy (sc_parentOperationId sc)"
    and ok: "create_operation r (operationLockSpecs sc) d = (Inr v, d')"
  shows "scope_excl d'"
  unfolding scope_excl_def
proof (intro allI impI)
  note new = create_operation_ok [OF ok]
  note fresh = fresh_id_no_locks [OF own new(1)]
  from keys have kop: "keyed op_id (db_ops d)" and klk: "keyed lk_resourceKey (db_locks d)"
    by (auto simp: keys_ok_def)
  fix a b s assume a: "holds_site d' a s" and b: "holds_nested d' b s" and ne: "op_id a \<noteq> op_id b"
  have siteA: "holds_site d a s" if "a \<noteq> r"
    using a that new(1) unfolding new(6) holds_site_def by (fastforce simp: own_lock_def)
  have nestB: "holds_nested d b s" if "b \<noteq> r"
    using b that new(1) unfolding new(6) holds_nested_def by (fastforce simp: own_lock_def)
  show "op_parentOperationId b = Some (op_id a)"
  proof (cases "a = r")
    case True
    with ne have "b \<noteq> r" by auto
    from a True obtain l where "l \<in> set (db_locks d')" "lk_kind l = SITE" "lk_operationId l = op_id r"
        "lk_resourceKey l = site_lock_key s" by (auto simp: holds_site_def)
    with fresh obtain sp where sp: "sp \<in> set (operationLockSpecs sc)" "lk_kind sp = SITE" "lk_resourceKey sp = site_lock_key s"
      unfolding new(6) by fastforce
    from site_spec [OF sp(1,2)] sp(3)
    have "truthy (sc_siteId sc) = Some s" "sc_lockSite sc \<noteq> Some False" "truthy (sc_parentOperationId sc) = None"
      by auto
    from scope_available_nested [OF avail this kop nestB [OF \<open>b \<noteq> r\<close>]] show ?thesis by simp
  next
    case False
    note aa = siteA [OF False]
    from aa obtain l where l: "l \<in> set (db_locks d)" "lk_operationId l = op_id a" "lk_resourceKey l = site_lock_key s"
      by (auto simp: holds_site_def)
    show ?thesis
    proof (cases "b = r")
      case True
      from b True r(1) have s: "truthy (sc_siteId sc) = Some s" by (simp add: holds_nested_def)
      from scope_available_site [OF avail s klk l(1,3)] show ?thesis
      proof
        assume "truthy (sc_parentOperationId sc) = Some (lk_operationId l)"
        then show ?thesis using True r(2) l(2) by simp
      next
        assume "sc_lockSite sc \<noteq> Some False \<and> truthy (sc_parentOperationId sc) = None"
        then have "\<lparr>lk_resourceKey = site_lock_key s, lk_kind = SITE\<rparr> \<in> set (operationLockSpecs sc)"
          using own_site_spec [OF s] by blast
        then have "site_lock_key s \<in> set (map lk_resourceKey (operationLockSpecs sc))" by force
        with new(4) l(1,3) show ?thesis by (metis IntI empty_iff image_eqI)
      qed
    next
      case False
      from excl aa nestB [OF False] ne show ?thesis unfolding scope_excl_def by blast
    qed
  qed
qed

lemma create_operation_inv:
  assumes inv: "sys_inv now d"
    and ok: "create_operation r (operationLockSpecs sc) d = (Inr v, d')"
    and avail: "assertScopeHierarchyAvailable d sc None = None"
    and scope: "op_siteId r = truthy (sc_siteId sc)" "op_parentOperationId r = truthy (sc_parentOperationId sc)"
    and row: "row_ok r" "\<not> is_final r" "\<not> holds_slot now r"
    and room: "in_queue r \<Longrightarrow> count_rows in_queue (db_ops d) < MAX_QUEUED_PER_TARGET \<and>
      count_rows (\<lambda>q. in_queue q \<and> op_createdByUserId q = op_createdByUserId r) (db_ops d) < MAX_QUEUED_PER_ACTOR"
  shows "sys_inv now d'"
proof -
  note new = create_operation_ok [OF ok]
  from inv have parts: "keys_ok d" "rows_ok d" "locks_owned d" "site_locks_ok d" "scope_excl d"
    "slots_ok now d" "queue_ok d" by (auto simp: sys_inv_def)
  have "keys_ok d'"
    using parts(1) new(1-4) by (simp add: keys_ok_def new(6) keyed_append_row keyed_add_locks)
  moreover have "rows_ok d'" using parts(2) row(1) by (simp add: rows_ok_def new(6))
  moreover have "locks_owned d'"
    unfolding locks_owned_def
  proof
    fix l assume "l \<in> set (db_locks d')"
    then consider "l \<in> set (db_locks d)" | "lk_operationId l = op_id r" by (auto simp: new(6))
    then show "\<exists>q \<in> set (db_ops d'). op_id q = lk_operationId l \<and> may_lock q"
      using parts(3) row(2) by cases (auto simp: new(6) locks_owned_def may_lock_def)
  qed
  moreover have "site_locks_ok d'"
    using parts(4) site_spec by (fastforce simp: site_locks_ok_def new(6) truthy_eq_Some)
  moreover have "scope_excl d'"
    by (rule begin_scope_excl [OF parts(5,1,3) avail scope ok])
  moreover have "slots_ok now d'" using parts(6) row(3) by (simp add: slots_ok_def new(6))
  moreover have "queue_ok d'"
    using parts(7) room by (auto simp: queue_ok_def new(6))
  ultimately show ?thesis by (simp add: sys_inv_def)
qed

lemma queued_config_ok:
  "assertQueuedConfiguration q key now = None \<Longrightarrow>
     q_deadlineAt q \<noteq> None \<and> 1 \<le> queued_max_attempts q \<and> queued_max_attempts q \<le> 3"
  by (auto simp: assertQueuedConfiguration_def split: if_splits option.splits)

lemma begin_invalid_queued:
  "begin_invalid m inp key now = None \<Longrightarrow> bi_queued inp = Some q \<Longrightarrow> assertQueuedConfiguration q key now = None"
  by (auto simp: begin_invalid_def split: if_splits option.splits)

lemma begin_tx_inv:
  assumes inv: "sys_inv now d" and valid: "begin_invalid m inp key t = None"
    and ok: "begin_tx env inp key u2 t' d = (Inr v, d')"
  shows "sys_inv now d'"
proof -
  let ?r = "new_operation env inp key u2 t'"
  from ok have full: "\<not> queue_full d inp" and avail: "assertScopeHierarchyAvailable d (begin_scope inp) None = None"
    and create: "create_operation ?r (operationLockSpecs (begin_scope inp)) d = (Inr v, d')"
    by (auto simp: begin_tx_def split: if_splits option.splits)
  show ?thesis
  proof (rule create_operation_inv [OF inv create avail])
    show "row_ok ?r"
      using queued_config_ok [OF begin_invalid_queued [OF valid]]
      by (cases "bi_queued inp") (auto simp: new_operation_def row_ok_def)
    show "in_queue ?r \<Longrightarrow> count_rows in_queue (db_ops d) < MAX_QUEUED_PER_TARGET \<and>
      count_rows (\<lambda>q. in_queue q \<and> op_createdByUserId q = op_createdByUserId ?r) (db_ops d) < MAX_QUEUED_PER_ACTOR"
      using full by (cases "bi_queued inp") (auto simp: in_queue_def new_operation_def queue_full_def)
  qed (auto simp: new_operation_def is_final_def final_state_def holds_slot_def status_defs split: option.splits)
qed

lemma begin_inv: "sys_inv now d \<Longrightarrow> sys_inv now (snd (begin_operation env m inp u1 u2 t fault seen d))"
proof -
  assume inv: "sys_inv now d"
  show ?thesis
  proof (cases "begin_invalid m inp (begin_key u1 inp) t")
    case None
    have "sys_inv now (snd (transaction fault (begin_tx env inp (begin_key u1 inp) u2 t) d))"
      by (rule transaction_keeps) (use inv begin_tx_inv [OF inv None] in auto)
    with inv None show ?thesis
      by (auto simp: begin_operation_def Let_def split: option.splits prod.splits sum.splits)
  qed (use inv in \<open>simp add: begin_operation_def Let_def\<close>)
qed

section \<open>The scope of a new Site\<close>

lemma attach_ok:
  assumes "attachScopeWithClient k sc d = (Inr v, d')"
  obtains x missing where "x \<in> set (db_ops d)" "op_id x = k" "op_status x \<in> set EXECUTING_STATUSES"
    "assertScopeHierarchyAvailable d ((attach_lock_scope sc)\<lparr>sc_lockSite := Some True\<rparr>) (Some k) = None"
    "missing = filter (\<lambda>sp. lk_resourceKey sp \<notin> lk_resourceKey ` {l \<in> set (db_locks d). lk_operationId l = k})
       (operationLockSpecs (attach_lock_scope sc))"
    "distinct (map lk_resourceKey missing)" "set (map lk_resourceKey missing) \<inter> lk_resourceKey ` set (db_locks d) = {}"
    "d' = d\<lparr>db_locks := db_locks d @ map (own_lock k) missing,
       db_ops := update_rows (\<lambda>r. op_id r = k \<and> op_status r \<in> set EXECUTING_STATUSES) (attach_write sc) (db_ops d)\<rparr>"
proof -
  let ?specs = "operationLockSpecs (attach_lock_scope sc)"
  from assms obtain x where x: "find_first (\<lambda>r. op_id r = k \<and> op_status r \<in> set EXECUTING_STATUSES) (db_ops d) = Some x"
    by (auto simp: attachScopeWithClient_def Let_def split: option.splits)
  let ?owned = "map lk_resourceKey (filter (\<lambda>l. lk_operationId l = op_id x \<and>
                         lk_resourceKey l \<in> set (map lk_resourceKey ?specs)) (db_locks d))"
  let ?missing = "filter (\<lambda>sp. lk_resourceKey sp \<notin> set ?owned) ?specs"
  from find_first_SomeD [OF x] have x': "x \<in> set (db_ops d)" "op_id x = k" "op_status x \<in> set EXECUTING_STATUSES" by auto
  from assms x obtain ls where ls: "create_locks k ?missing (db_locks d) = Some ls"
    and av: "assertScopeHierarchyAvailable d ((attach_lock_scope sc)\<lparr>sc_lockSite := Some True\<rparr>) (Some k) = None"
    and d': "d' = snd (guarded_update (\<lambda>r. op_id r = k \<and> op_status r \<in> set EXECUTING_STATUSES)
                         (attach_write sc) (Conflict ''Operation is not active'') (d\<lparr>db_locks := ls\<rparr>))"
    by (auto simp: attachScopeWithClient_def Let_def split: option.splits)
  have miss: "?missing = filter (\<lambda>sp. lk_resourceKey sp \<notin> lk_resourceKey ` {l \<in> set (db_locks d). lk_operationId l = k}) ?specs"
  proof (intro filter_cong refl arg_cong [where f = Not])
    fix sp assume "sp \<in> set ?specs"
    then have "lk_resourceKey sp \<in> set (map lk_resourceKey ?specs)" by simp
    moreover have "set ?owned = lk_resourceKey ` {l \<in> set (db_locks d). lk_operationId l = k} \<inter>
        set (map lk_resourceKey ?specs)"
      using x'(2) by (simp only: set_map set_filter) blast
    ultimately show "lk_resourceKey sp \<in> set ?owned \<longleftrightarrow>
        lk_resourceKey sp \<in> lk_resourceKey ` {l \<in> set (db_locks d). lk_operationId l = k}"
      by blast
  qed
  show thesis
    by (rule that [OF x' av miss])
       (use ls d' in \<open>auto simp: create_locks_def guarded_update_def split: if_splits\<close>)
qed

lemma attach_scope_excl:
  assumes excl: "scope_excl d" and keys: "keys_ok d" and sites: "site_locks_ok d"
    and ok: "attachScopeWithClient k sc d = (Inr v, d')"
  shows "scope_excl d'"
  unfolding scope_excl_def
proof (intro allI impI)
  let ?specs = "operationLockSpecs (attach_lock_scope sc)"
  from ok obtain x missing where x: "x \<in> set (db_ops d)" "op_id x = k" "op_status x \<in> set EXECUTING_STATUSES"
    and avail: "assertScopeHierarchyAvailable d ((attach_lock_scope sc)\<lparr>sc_lockSite := Some True\<rparr>) (Some k) = None"
    and miss: "missing = filter (\<lambda>sp. lk_resourceKey sp \<notin> lk_resourceKey ` {l \<in> set (db_locks d). lk_operationId l = k}) ?specs"
    and free: "set (map lk_resourceKey missing) \<inter> lk_resourceKey ` set (db_locks d) = {}"
    and d': "d' = d\<lparr>db_locks := db_locks d @ map (own_lock k) missing,
       db_ops := update_rows (\<lambda>r. op_id r = k \<and> op_status r \<in> set EXECUTING_STATUSES) (attach_write sc) (db_ops d)\<rparr>"
    by (rule attach_ok)
  from keys have kop: "keyed op_id (db_ops d)" and klk: "keyed lk_resourceKey (db_locks d)"
    by (auto simp: keys_ok_def)
  have only: "r = x" if "r \<in> set (db_ops d)" "op_id r = k" for r
    using that x(1,2) kop by (auto simp: keyed_def dest: distinct_map_inj_onD)
  have ops: "r \<in> set (db_ops d')" "op_id r \<noteq> k \<Longrightarrow> r \<in> set (db_ops d)" if "r \<in> set (db_ops d')" for r
    using that by (auto simp: d' row_simps attach_write_def split: if_splits)
  have opk: "r = attach_write sc x" if "r \<in> set (db_ops d')" "op_id r = k" for r
    using that only x(3) by (auto simp: d' row_simps attach_write_def split: if_splits)
  have live_x: "\<not> is_final x"
    using x(3) lock_holding_iff [of "op_status x"] by (simp add: is_final_def LOCK_HOLDING_STATUSES_def)
  have old_lock: "l \<in> set (db_locks d)" if "l \<in> set (db_locks d')" "lk_operationId l \<noteq> k" for l
    using that by (auto simp: d')
  fix a b s assume a: "holds_site d' a s" and b: "holds_nested d' b s" and ne: "op_id a \<noteq> op_id b"
  from a obtain l where l: "l \<in> set (db_locks d')" "lk_kind l = SITE" "lk_operationId l = op_id a" "lk_resourceKey l = site_lock_key s"
    by (auto simp: holds_site_def)
  have nestB: "holds_nested d b s" if "op_id b \<noteq> k"
    using b that ops(2) old_lock unfolding holds_nested_def by metis
  have siteA: "holds_site d a s" if "op_id a \<noteq> k"
    using a that ops(2) old_lock unfolding holds_site_def by metis
  show "op_parentOperationId b = Some (op_id a)"
  proof (cases "op_id b = k")
    case False
    note bb = nestB [OF False]
    show ?thesis
    proof (cases "op_id a = k \<and> l \<notin> set (db_locks d)")
      case True
      with l(1) obtain sp where new: "sp \<in> set ?specs" "l = own_lock k sp"
        by (auto simp: d' miss)
      with l(2,4) have sp: "sp \<in> set ?specs" "lk_kind sp = SITE" "lk_resourceKey sp = site_lock_key s"
        by simp_all
      from site_spec [OF sp(1,2)] sp(3) have "truthy (Some (as_siteId sc)) = Some s"
        by (auto simp: attach_lock_scope_def)
      then have "Some k = Some (op_id b)"
        by (intro scope_available_nested [OF avail _ _ _ kop bb]) (simp_all add: attach_lock_scope_def)
      with False show ?thesis by simp
    next
      case old: False
      have "\<exists>a'. holds_site d a' s \<and> op_id a' = op_id a"
      proof (cases "op_id a = k")
        case True
        with old l x live_x have "holds_site d x s" by (auto simp: holds_site_def)
        with True x(2) show ?thesis by auto
      qed (use siteA in auto)
      with excl bb ne show ?thesis unfolding scope_excl_def by metis
    qed
  next
    case True
    with ne have ak: "op_id a \<noteq> k" by simp
    from l ak have ld: "l \<in> set (db_locks d)" by (intro old_lock) auto
    have "as_siteId sc = s"
      using b opk [OF _ True] by (auto simp: holds_nested_def attach_write_def)
    moreover have "s \<noteq> []" using sites ld l by (auto simp: site_locks_ok_def)
    ultimately have "\<lparr>lk_resourceKey = site_lock_key s, lk_kind = SITE\<rparr> \<in> set ?specs"
      by (intro own_site_spec) (auto simp: attach_lock_scope_def truthy_def split: list.splits)
    moreover have "site_lock_key s \<notin> lk_resourceKey ` {m \<in> set (db_locks d). lk_operationId m = k}"
      using klk ld l(3,4) ak by (auto simp: keyed_def dest: distinct_map_inj_onD)
    ultimately have "site_lock_key s \<in> set (map lk_resourceKey missing)"
      by (force simp: miss)
    with free ld l(4) show ?thesis by (metis IntI empty_iff image_eqI)
  qed
qed

lemma attach_write_keeps [simp]:
  "op_id (attach_write sc r) = op_id r" "op_idempotencyKey (attach_write sc r) = op_idempotencyKey r"
  "row_ok (attach_write sc r) = row_ok r" "holds_slot now (attach_write sc r) = holds_slot now r"
  "in_queue (attach_write sc r) = in_queue r" "op_createdByUserId (attach_write sc r) = op_createdByUserId r"
  "may_lock (attach_write sc r) = may_lock r"
  by (simp_all add: attach_write_def row_ok_def holds_slot_def in_queue_def lease_alive_def may_lock_def is_final_def)

lemma count_update_rows_eq:
  "(\<And>r. C (f r) = C r) \<Longrightarrow> count_rows C (update_rows P f rows) = count_rows C rows"
  by (induction rows) (auto simp: count_rows_def update_rows_def)

lemma attach_tx_inv:
  assumes inv: "sys_inv now d" and ok: "attachScopeWithClient k sc d = (Inr v, d')"
  shows "sys_inv now d'"
proof -
  from inv have parts: "keys_ok d" "rows_ok d" "locks_owned d" "site_locks_ok d" "scope_excl d"
    "slots_ok now d" "queue_ok d" by (auto simp: sys_inv_def)
  let ?specs = "operationLockSpecs (attach_lock_scope sc)"
  let ?P = "\<lambda>r. op_id r = k \<and> op_status r \<in> set EXECUTING_STATUSES"
  from ok obtain x missing where x: "x \<in> set (db_ops d)" "op_id x = k" "op_status x \<in> set EXECUTING_STATUSES"
    and miss: "missing = filter (\<lambda>sp. lk_resourceKey sp \<notin> lk_resourceKey ` {l \<in> set (db_locks d). lk_operationId l = k}) ?specs"
    and new: "distinct (map lk_resourceKey missing)" "set (map lk_resourceKey missing) \<inter> lk_resourceKey ` set (db_locks d) = {}"
    and d': "d' = d\<lparr>db_locks := db_locks d @ map (own_lock k) missing,
       db_ops := update_rows ?P (attach_write sc) (db_ops d)\<rparr>"
    by (rule attach_ok)
  have live_x: "may_lock x"
    using x(3) lock_holding_iff [of "op_status x"] by (simp add: may_lock_def is_final_def LOCK_HOLDING_STATUSES_def)
  have "keys_ok d'"
    using parts(1) new by (simp add: keys_ok_def d' keyed_add_locks keyed_update_rows)
  moreover have "rows_ok d'" using parts(2) by (auto simp: rows_ok_def d' row_simps)
  moreover have "locks_owned d'"
    unfolding locks_owned_def
  proof
    fix l assume "l \<in> set (db_locks d')"
    then consider "l \<in> set (db_locks d)" | "lk_operationId l = k" by (auto simp: d')
    then obtain r where r: "r \<in> set (db_ops d)" "op_id r = lk_operationId l" "may_lock r"
      using parts(3) x live_x by cases (auto simp: locks_owned_def)
    then have "(if ?P r then attach_write sc r else r) \<in> set (db_ops d')" by (auto simp: d' row_simps)
    with r show "\<exists>q \<in> set (db_ops d'). op_id q = lk_operationId l \<and> may_lock q"
      by (metis attach_write_keeps(1,7))
  qed
  moreover have "site_locks_ok d'"
    using parts(4) site_spec by (fastforce simp: site_locks_ok_def d' miss truthy_eq_Some)
  moreover have "scope_excl d'" by (rule attach_scope_excl [OF parts(5,1,4) ok])
  moreover have "slots_ok now d'" using parts(6) by (simp add: slots_ok_def d' count_update_rows_eq)
  moreover have "queue_ok d'" using parts(7) by (simp add: queue_ok_def d' count_update_rows_eq)
  ultimately show ?thesis by (simp add: sys_inv_def)
qed

lemma attach_inv: "sys_inv now d \<Longrightarrow> sys_inv now (snd (attachScope k sc fault d))"
proof -
  assume inv: "sys_inv now d"
  have "sys_inv now (snd (transaction fault (attachScopeWithClient k sc) d))"
    by (rule transaction_keeps) (use inv attach_tx_inv [OF inv] in auto)
  then show ?thesis
    by (auto simp: attachScope_def split: prod.splits sum.splits)
qed

section \<open>The writers outside the service\<close>

lemma row_keep_deploy:
  "op_status r \<in> {PENDING, RUNNING} \<Longrightarrow> row_ok r \<Longrightarrow>
     row_keep r (deploy_op_write env i s c m u r) \<and> no_new_slot now r (deploy_op_write env i s c m u r)"
  by (auto simp: change_defs row_ok_def holds_slot_def in_queue_def status_defs deploy_op_write_def)

lemma deploy_tail_inv: "sys_inv now d \<Longrightarrow> sys_inv now (snd (deploy_tail env l s c m t d))"
  using sys_inv_cong [of "snd (deploy_tail env l s c m t d)" d now] by (simp add: deploy_tail_def)

lemma finalize_inv:
  assumes inv: "sys_inv now d"
    and ch: "\<And>r. row_ok r \<Longrightarrow> P r \<Longrightarrow> row_keep r (f r) \<and> no_new_slot now r (f r)"
    and live: "\<And>r. P r \<Longrightarrow> op_id r = k \<and> \<not> is_final r"
  shows "sys_inv now (snd (finalize_and_release k P f e d))"
proof (cases "count_rows P (db_ops d) = 1")
  case True
  have "sys_inv now (changed P f (\<lambda>l. lk_operationId l = k) d)"
    by (rule inv_finalize [OF inv]) (use ch live in \<open>auto intro: lock_safe_release\<close>)
  with True show ?thesis by (simp add: finalize_state)
next
  case False
  have le: "count_rows P (db_ops d) \<le> 1"
  proof -
    have "count_rows P (db_ops d) \<le> length (filter (\<lambda>x. op_id x = k \<and> True) (db_ops d))"
      unfolding count_rows_def using live by (intro length_filter_mono) auto
    also have "\<dots> \<le> 1" using inv by (intro length_filter_key_le_1) (simp add: inv_defs keyed_def)
    finally show ?thesis .
  qed
  with False have "count_rows P (db_ops d) = 0" by simp
  then have "changed P f (\<lambda>_. False) d = d"
    by (simp add: changed_def count_rows_eq_0 update_rows_none delete_rows_def)
  with False inv show ?thesis by (simp add: finalize_state)
qed

lemma completeDeploy_inv: "sys_inv now d \<Longrightarrow> sys_inv now (snd (completeDeploy env i s c m t fault d))"
  unfolding completeDeploy_def
proof (rule transaction_keeps)
  fix v d' assume inv: "sys_inv now d" and tx: "deploy_tx env i s c m t d = (Inr v, d')"
  have fin: "sys_inv now (snd (finalize_and_release k (\<lambda>r. op_id r = k \<and> op_status r \<in> set [PENDING, RUNNING])
      (deploy_op_write env i s c m t) (Plain []) d))" for k
    by (rule finalize_inv [OF inv]) (use row_keep_deploy in \<open>auto simp: is_final_def final_state_def\<close>)
  have "sys_inv now (snd (deploy_tx env i s c m t d))"
  proof (cases "find_key dl_id i (db_deploys d)")
    case (Some l)
    show ?thesis
    proof (cases "truthy (dl_operationId l)")
      case op: (Some k)
      obtain r d1 where f: "finalize_and_release k (\<lambda>r. op_id r = k \<and> op_status r \<in> set [PENDING, RUNNING])
          (deploy_op_write env i s c m t) (Plain []) d = (r, d1)" by fastforce
      with fin [of k] have "sys_inv now d1" by (metis snd_conv)
      with Some op f deploy_tail_inv show ?thesis by (simp add: deploy_tx_def split: sum.splits)
    qed (use inv Some deploy_tail_inv in \<open>simp add: deploy_tx_def\<close>)
  qed (use inv in \<open>simp add: deploy_tx_def\<close>)
  with tx show "sys_inv now d'" by simp
qed

lemma deletion_inv: "sys_inv now d \<Longrightarrow> sys_inv now (snd (commitDomainDeletionMetadata si di tg del k res t fault d))"
  unfolding commitDomainDeletionMetadata_def
proof (rule transaction_keeps)
  fix v d' assume inv: "sys_inv now d" and tx: "domain_deletion_tx si di tg del k res t d = (Inr v, d')"
  define d0 where "d0 = d\<lparr>
    db_databases := (if del then delete_rows (\<lambda>b. da_siteDomainId b = Some di) (db_databases d)
      else update_rows (\<lambda>b. da_siteDomainId b = Some di)
        (\<lambda>b. b\<lparr>da_siteDomainId := Some tg, da_purpose := ''AUXILIARY''\<rparr>) (db_databases d)),
    db_domains := renumber_domains si (delete_rows (\<lambda>s. sd_id s = di) (db_domains d))\<rparr>"
  from tx have fin: "finalize_and_release k (\<lambda>r. op_id r = k \<and> op_status r = RUNNING)
           (deletion_op_write res t) (Conflict ''Deletion operation is not running'') d0 = (Inr v, d')"
    by (simp add: domain_deletion_tx_def Let_def d0_def split: if_splits)
  have d0: "db_ops d0 = db_ops d" "db_locks d0 = db_locks d" by (simp_all add: d0_def)
  from inv d0 have "sys_inv now d0" using sys_inv_cong by metis
  then show "sys_inv now d'"
    by (rule inv_tx_finalize(3) [OF _ _ _ fin]) (auto simp: change_defs row_defs deletion_op_write_def)
qed

abbreviation consume_update :: "op_row \<Rightarrow> string option \<Rightarrow> db \<Rightarrow> (unit, db) outcome" where
  "consume_update r v \<equiv>
     guarded_update (\<lambda>x. op_id x = op_id r \<and> op_status x = SUCCEEDED \<and> op_result x = op_result r)
       (\<lambda>x. x\<lparr>op_result := v\<rparr>) unavailable"

lemma consume_keeps:
  assumes "I d" "\<And>r v. I (snd (consume_update r v d))"
  shows "I (snd (consume env k u t seen d))"
proof (cases "find_key op_id k (db_ops seen)")
  case (Some r)
  show ?thesis
  proof (cases "parse_sensitive (op_result r)")
    case res: (Inr result)
    show ?thesis
    proof (cases "parseEnvelope env (field result ''sensitiveResult'')")
      case envl: (Inr envelope)
      show ?thesis
      proof (cases "op_createdByUserId r = u \<and> op_status r = SUCCEEDED \<and> open_sealed env r envelope t \<noteq> None")
        case True
        let ?v = "Some (json_stringify (consumed_result (iso_of env t) result))"
        obtain x d' where g: "consume_update r ?v d = (x, d')" by fastforce
        with Some res envl True have "snd (consume env k u t seen d) = d'"
          by (auto simp: consume_def split: sum.splits)
        with g assms(2) [of r ?v] show ?thesis by (simp only: snd_conv)
      qed (use Some res envl assms(1) in \<open>auto simp: consume_def split: option.split\<close>)
    qed (use Some res assms(1) in \<open>simp add: consume_def\<close>)
  qed (use Some assms(1) in \<open>simp add: consume_def\<close>)
qed (use assms(1) in \<open>simp add: consume_def\<close>)

lemma consume_inv: "sys_inv now d \<Longrightarrow> sys_inv now (snd (consume env k u t seen d))"
proof (rule consume_keeps)
  assume inv: "sys_inv now d"
  show "sys_inv now (snd (consume_update r v d))" for r v
    by (rule inv_guarded [OF inv])
       (auto simp: change_defs row_ok_def holds_slot_def in_queue_def lease_alive_def lock_safe_def is_final_def
         final_state_def may_lock_def)
qed

section \<open>The transition system\<close>

text \<open>
  \<open>t\<close> is the reading of the clock that a statement was built with; the clock may have moved
  on to \<open>now\<close> when the database runs it. Only the heartbeat has to run at its own time: its
  guard is what keeps an expired lease from coming back.
\<close>

inductive op_step :: "op_env \<Rightarrow> time \<Rightarrow> db \<Rightarrow> db \<Rightarrow> bool" for env :: op_env and now :: time where
  begin_step: "op_step env now d (snd (begin_operation env m inp u1 u2 t fault seen d))"
| start_step: "op_step env now d (snd (start k st t d))"
| progress_step: "op_step env now d (snd (step k st p d))"
| claim_step: "t \<le> now \<Longrightarrow> op_step env now d (snd (claim_sql w t d))"
| lost_step: "lost_lease t x \<Longrightarrow> op_step env now d (sweep_lost t x d)"
| expire_mark_step: "expired_in_queue t x \<Longrightarrow> op_step env now d (expire_mark t x d)"
| expire_unlock_step: "op_step env now d (expire_unlock k d)"
| exhausted_step: "op_step env now d (sweep_exhausted t x d)"
| startClaimed_step: "op_step env now d (snd (startClaimed k w st t d))"
| heartbeat_step: "op_step env now d (snd (heartbeatClaim k w st' p' now d))"
| succeedClaimed_step: "op_step env now d (snd (succeedClaimed k w res late t faults d))"
| failClaimed_step: "op_step env now d (snd (failClaimed env k w msg t faults d))"
| cancelClaimed_step: "op_step env now d (snd (cancelClaimed k w t faults d))"
| retry_step: "op_step env now d (snd (retryOrRequireAttention env c w msg t d))"
| attention_step: "op_step env now d (snd (requireAttention k w msg t d))"
| cancel_step: "op_step env now d (snd (requestCancellation k u role t fault seen d))"
| attach_step: "op_step env now d (snd (attachScope k sc fault d))"
| succeed_step: "op_step env now d (snd (succeed k res t fault d))"
| fail_step: "op_step env now d (snd (fail env k msg t fault d))"
| deploy_step: "op_step env now d (snd (completeDeploy env i success sha msg' t fault d))"
| deletion_step: "op_step env now d (snd (commitDomainDeletionMetadata si di tg del k res t fault d))"
| consume_step: "op_step env now d (snd (consume env k u t seen d))"
| restart_step: "op_step env now d (onModuleInit t d)"
| other_tables: "db_ops d' = db_ops d \<Longrightarrow> db_locks d' = db_locks d \<Longrightarrow> op_step env now d d'"

lemmas writes_keep_inv = begin_inv start_inv step_inv claim_inv sweep_lost_inv expire_mark_inv
  expire_unlock_inv sweep_exhausted_inv startClaimed_inv heartbeat_inv succeedClaimed_inv
  failClaimed_inv cancelClaimed_inv retry_inv attention_inv requestCancellation_inv attach_inv
  succeed_inv fail_inv completeDeploy_inv deletion_inv consume_inv restart_inv

lemma op_step_inv: "op_step env now d d' \<Longrightarrow> sys_inv now d \<Longrightarrow> sys_inv now d'"
proof (induction rule: op_step.cases)
  case (other_tables d' d)
  then show ?case using sys_inv_cong by metis
qed (simp_all add: writes_keep_inv)

definition empty_db :: db where
  "empty_db = \<lparr>db_ops = [], db_locks = [], db_backups = [], db_sites = [], db_domains = [],
     db_databases = [], db_deploys = []\<rparr>"

text \<open>The states that a panel can be in at a time, from an empty database on.\<close>

inductive reachable :: "op_env \<Rightarrow> time \<Rightarrow> db \<Rightarrow> bool" for env :: op_env where
  initial: "reachable env now empty_db"
| later: "reachable env now d \<Longrightarrow> now \<le> now' \<Longrightarrow> reachable env now' d"
| stepped: "reachable env now d \<Longrightarrow> op_step env now d d' \<Longrightarrow> reachable env now d'"

lemma empty_inv: "sys_inv now empty_db"
  by (simp add: inv_defs empty_db_def holds_site_def holds_nested_def keyed_def count_rows_def)

lemma reachable_inv: "reachable env now d \<Longrightarrow> sys_inv now d"
  by (induction rule: reachable.induct) (auto intro: empty_inv sys_inv_later op_step_inv)

section \<open>The composed calls are runs\<close>

lemma fold_steps:
  assumes "\<And>x d. x \<in> set xs \<Longrightarrow> (op_step env now)\<^sup>*\<^sup>* d (f x d)"
  shows "(op_step env now)\<^sup>*\<^sup>* d (fold f xs d)"
  using assms
proof (induction xs arbitrary: d)
  case (Cons x xs)
  have "(op_step env now)\<^sup>*\<^sup>* d (f x d)" using Cons.prems by simp
  also have "(op_step env now)\<^sup>*\<^sup>* (f x d) (fold f xs (f x d))" using Cons by simp
  finally show ?case by simp
qed simp

lemma find_many_SomeD: "x \<in> set (find_many P n rows) \<Longrightarrow> P x \<and> x \<in> set rows"
  by (auto simp: find_many_def dest: in_set_takeD)

lemma sweep_expired_run:
  assumes "expired_in_queue t x"
  shows "(op_step env now)\<^sup>*\<^sup>* d (sweep_expired t x d)"
proof -
  have "op_step env now d (expire_mark t x d)" by (rule expire_mark_step [OF assms])
  moreover have "op_step env now (expire_mark t x d) (expire_unlock (op_id x) (expire_mark t x d))"
    by (rule expire_unlock_step)
  ultimately show ?thesis unfolding sweep_expired_def by auto
qed

lemma maintainQueue_run: "(op_step env now)\<^sup>*\<^sup>* d (maintainQueue t d)"
proof -
  let ?d1 = "fold (sweep_lost t) (find_many (lost_lease t) sweep_batch (db_ops d)) d"
  let ?d2 = "fold (sweep_expired t) (find_many (expired_in_queue t) sweep_batch (db_ops ?d1)) ?d1"
  have "(op_step env now)\<^sup>*\<^sup>* d ?d1"
    by (rule fold_steps) (auto dest: find_many_SomeD intro: lost_step)
  also have "(op_step env now)\<^sup>*\<^sup>* ?d1 ?d2"
    by (rule fold_steps) (auto dest: find_many_SomeD intro: sweep_expired_run)
  also have "(op_step env now)\<^sup>*\<^sup>* ?d2 (maintainQueue t d)"
    unfolding maintainQueue_def Let_def by (rule fold_steps) (auto intro: exhausted_step)
  finally show ?thesis .
qed

lemma claim_attempts_run:
  assumes "t \<le> now"
  shows "(op_step env now)\<^sup>*\<^sup>* d (snd (claim_attempts w t n faults d))"
  using assms
  by (induction w t n faults d rule: claim_attempts.induct)
     (auto simp: split_beta Let_def intro: claim_step)

lemma claim_pass_run:
  assumes "t \<le> now"
  shows "(op_step env now)\<^sup>*\<^sup>* d (snd (snd (claim_pass w t wall faults (next_at, d))))"
proof -
  let ?d1 = "if wall \<ge> next_at then maintainQueue t d else d"
  have "(op_step env now)\<^sup>*\<^sup>* d ?d1" by (simp add: maintainQueue_run)
  also have "(op_step env now)\<^sup>*\<^sup>* ?d1 (snd (claim_attempts w t 0 faults ?d1))"
    by (rule claim_attempts_run [OF assms])
  finally show ?thesis by (cases "wall \<ge> next_at") (simp_all add: claim_pass_def split_beta Let_def)
qed

lemma read_claim_run: "(op_step env now)\<^sup>*\<^sup>* d (snd (read_claim env w t c d))"
proof -
  have "(op_step env now)\<^sup>*\<^sup>* d (snd (give_up_claim k w m t d))" for k m
    using attention_step [of env now d k w m t] by (auto simp: give_up_claim_def split: prod.splits sum.splits)
  then show ?thesis
    by (auto simp: read_claim_def Let_def split: option.splits prod.splits)
qed

lemma finish_claim_run: "(op_step env now)\<^sup>*\<^sup>* (snd s) (snd (snd (finish_claim env w t c s)))"
proof (cases c)
  case (Some k)
  with read_claim_run [of env now "snd s" w t k] show ?thesis by (simp add: finish_claim_def split_beta Let_def)
qed (simp add: finish_claim_def)

lemma claimNext_run:
  assumes "t \<le> now"
  shows "(op_step env now)\<^sup>*\<^sup>* d (snd (snd (claimNext env w t wall faults faults2 (next_at, d))))"
proof (cases "rx_test IDEMPOTENCY_KEY w")
  case True
  obtain r1 n1 d1 where p1: "claim_pass w t wall faults (next_at, d) = (r1, n1, d1)" by (metis prod.exhaust)
  have run1: "(op_step env now)\<^sup>*\<^sup>* d d1"
    using claim_pass_run [OF assms, of env d w wall faults next_at] p1 by simp
  obtain r2 n2 d2 where p2: "claim_pass w t wall faults2 (n1, maintainQueue t d1) = (r2, n2, d2)" by (metis prod.exhaust)
  have run2: "(op_step env now)\<^sup>*\<^sup>* d1 d2"
    using rtranclp_trans [OF maintainQueue_run claim_pass_run [OF assms, of env _ w wall faults2 n1]] p2
    by (metis snd_conv)
  have end1: "(op_step env now)\<^sup>*\<^sup>* d1 (snd (snd (finish_claim env w t c (n1, d1))))" for c
    using finish_claim_run [of env now "(n1, d1)" w t c] by simp
  have end2: "(op_step env now)\<^sup>*\<^sup>* d2 (snd (snd (finish_claim env w t c (n2, d2))))" for c
    using finish_claim_run [of env now "(n2, d2)" w t c] by simp
  show ?thesis
    using True p1 p2 run1 rtranclp_trans [OF run1 end1] rtranclp_trans [OF run1 run2]
      rtranclp_trans [OF rtranclp_trans [OF run1 run2] end2]
    by (auto simp: claimNext_def split: sum.splits option.splits)
qed (simp add: claimNext_def)

lemma run_reachable:
  assumes "(op_step env now)\<^sup>*\<^sup>* d d'" "reachable env now d"
  shows "reachable env now d'"
  using assms by (induction rule: rtranclp_induct) (auto intro: stepped)

end
