(* ===== verification/Operation_Refinement.thy ===== *)
theory Operation_Refinement
  imports Operation_System
begin

text \<open>
  The life of one operation. \<open>row_step\<close> is the abstract specification: which columns of a row
  never change, which states follow which, and that a finished row is left alone.
  \<open>op_step_refines\<close> shows that every write of the ledger, on the whole database, is such a
  step on every row.
\<close>

section \<open>The specification of one row\<close>

definition SERVICE_EDGES :: "(op_state \<times> op_state) list" where
  "SERVICE_EDGES =
     map (Pair PENDING) [RUNNING, SUCCEEDED, FAILED, CANCELLED, NEEDS_ATTENTION] @
     map (Pair QUEUED) [CLAIMED, FAILED, CANCELLED, NEEDS_ATTENTION] @
     map (Pair CLAIMED) [RUNNING, QUEUED, RECOVERING, CANCEL_REQUESTED, CANCELLED, FAILED, NEEDS_ATTENTION] @
     map (Pair RUNNING) [QUEUED, RECOVERING, CANCEL_REQUESTED, CANCELLED, SUCCEEDED, FAILED, NEEDS_ATTENTION] @
     map (Pair RECOVERING) [CLAIMED, CANCELLED, FAILED, NEEDS_ATTENTION] @
     map (Pair CANCEL_REQUESTED) [QUEUED, RECOVERING, CANCELLED, SUCCEEDED, FAILED, NEEDS_ATTENTION] @
     [(UNKNOWN_RECOVERY_REQUIRED, FAILED), (NEEDS_ATTENTION, FAILED)]"

definition immutable_same :: "op_row \<Rightarrow> op_row \<Rightarrow> bool" where
  "immutable_same r r' \<longleftrightarrow> op_id r' = op_id r \<and> op_idempotencyKey r' = op_idempotencyKey r \<and>
     op_requestHash r' = op_requestHash r \<and> op_type r' = op_type r \<and>
     op_createdByUserId r' = op_createdByUserId r \<and> op_parentOperationId r' = op_parentOperationId r \<and>
     op_executionMode r' = op_executionMode r \<and> op_actionId r' = op_actionId r \<and>
     op_databaseId r' = op_databaseId r \<and> op_globalLockKey r' = op_globalLockKey r \<and>
     op_policySnapshot r' = op_policySnapshot r \<and> op_requestPayloadEnc r' = op_requestPayloadEnc r \<and>
     op_maxAttempts r' = op_maxAttempts r \<and> op_retryable r' = op_retryable r \<and>
     op_recoveryPolicy r' = op_recoveryPolicy r \<and> op_deadlineAt r' = op_deadlineAt r \<and>
     op_createdAt r' = op_createdAt r"

definition settled :: "op_row \<Rightarrow> bool" where
  "settled r \<longleftrightarrow> is_final r \<and> op_leaseOwner r = None"

definition row_step :: "op_row \<Rightarrow> op_row \<Rightarrow> bool" where
  "row_step r r' \<longleftrightarrow> immutable_same r r' \<and>
     (op_status r' = op_status r \<or> (op_status r, op_status r') \<in> set SERVICE_EDGES \<or>
      (op_leaseOwner r \<noteq> None \<and> op_status r' = NEEDS_ATTENTION)) \<and>
     op_attempt r \<le> op_attempt r' \<and> op_attempt r' \<le> op_attempt r + 1 \<and>
     (op_attempt r' \<noteq> op_attempt r \<longrightarrow> op_status r = QUEUED \<and> op_status r' = CLAIMED) \<and>
     (settled r \<longrightarrow> (\<exists>v. r' = r\<lparr>op_result := v\<rparr>))"

definition refines :: "db \<Rightarrow> db \<Rightarrow> bool" where
  "refines d d' \<longleftrightarrow> (\<forall>r \<in> set (db_ops d). \<exists>r' \<in> set (db_ops d'). row_step r r')"

lemma row_step_refl [simp]: "row_step r r"
  by (auto simp: row_step_def immutable_same_def intro: exI [of _ "op_result r"])

lemma refines_refl [simp]: "refines d d"
  by (auto simp: refines_def intro: row_step_refl)

lemma refines_same: "db_ops d' = db_ops d \<Longrightarrow> refines d d'"
  by (auto simp: refines_def intro: row_step_refl)

lemma refines_update:
  assumes "db_ops d' = update_rows P f (db_ops d)"
    and "\<And>r. r \<in> set (db_ops d) \<Longrightarrow> P r \<Longrightarrow> row_step r (f r)"
  shows "refines d d'"
  unfolding refines_def
proof
  fix r assume r: "r \<in> set (db_ops d)"
  then have "(if P r then f r else r) \<in> set (db_ops d')" by (simp add: assms(1) row_simps)
  moreover have "row_step r (if P r then f r else r)" using assms(2) [OF r] by simp
  ultimately show "\<exists>r' \<in> set (db_ops d'). row_step r r'" by blast
qed

lemma refines_guarded:
  assumes "\<And>r. P r \<Longrightarrow> row_step r (f r)"
  shows "refines d (snd (guarded_update P f e d))"
  by (rule refines_update [of _ P f]) (use assms in \<open>auto simp: guarded_update_def\<close>)

lemma finalize_ops:
  "db_ops (snd (finalize_and_release k P f e d)) = update_rows P f (db_ops d)"
  by (simp add: finalize_and_release_def guarded_update_def release_locks_def)

lemma refines_finalize:
  assumes "\<And>r. P r \<Longrightarrow> row_step r (f r)"
  shows "refines d (snd (finalize_and_release k P f e d))"
  by (rule refines_update [of _ P f]) (use assms in \<open>auto simp: finalize_ops\<close>)

lemma refines_finalize_ok:
  "(\<And>r. P r \<Longrightarrow> row_step r (f r)) \<Longrightarrow> finalize_and_release k P f e d = (Inr v, d') \<Longrightarrow> refines d d'"
  using refines_finalize [of P f d k e] by simp

lemma tx_refines:
  "(\<And>v d'. body d = (Inr v, d') \<Longrightarrow> refines d d') \<Longrightarrow> refines d (snd (transaction fault body d))"
  by (rule transaction_keeps [where I = "refines d"]) auto

lemma loop_refines:
  "(\<And>v d'. body d = (Inr v, d') \<Longrightarrow> refines d d') \<Longrightarrow> refines d (snd (withFinalizationTransaction faults body d))"
  by (rule finalization_keeps [where I = "refines d"]) auto

section \<open>Each write on each row\<close>

lemma row_stepI:
  assumes "immutable_same r r'" "op_attempt r' = op_attempt r" "\<not> settled r"
    and "op_status r' = op_status r \<or> (op_status r, op_status r') \<in> set SERVICE_EDGES \<or>
      (op_leaseOwner r \<noteq> None \<and> op_status r' = NEEDS_ATTENTION)"
  shows "row_step r r'"
  using assms by (simp add: row_step_def)

lemmas row_step_simps = immutable_same_def settled_def is_final_def final_state_def SERVICE_EDGES_def
  LEASED_STATUSES_def drop_lease_def

lemma start_row: "op_status r = PENDING \<Longrightarrow> row_step r (r\<lparr>op_status := RUNNING, op_currentStep := c, op_startedAt := t, op_progress := p\<rparr>)"
  by (rule row_stepI) (auto simp: row_step_simps)

lemma attention_row:
  "op_leaseOwner r \<noteq> None \<Longrightarrow> row_step r (attention_write m t r)"
  by (rule row_stepI) (auto simp: row_step_simps attention_write_def)

lemma start_refines: "refines d (snd (start k st t d))"
  unfolding start_def by (rule refines_guarded) (auto intro: start_row)

lemma startClaimed_refines: "refines d (snd (startClaimed k w st t d))"
  unfolding startClaimed_def
  by (rule refines_guarded, rule row_stepI) (auto simp: row_step_simps)

lemma step_refines: "refines d (snd (step k st p d))"
  unfolding step_def by (rule refines_guarded, rule row_stepI) (auto simp: row_step_simps)

lemma heartbeat_refines: "refines d (snd (heartbeatClaim k w st p t d))"
  unfolding heartbeatClaim_def snd_conv
  by (rule refines_update, simp, rule row_stepI) (auto simp: row_step_simps heartbeat_guard_def)

lemma attention_refines: "refines d (snd (requireAttention k w m t d))"
  unfolding requireAttention_def by (rule refines_guarded) (auto intro: attention_row)

lemma retry_refines: "refines d (snd (retryOrRequireAttention env c w m t d))"
  unfolding retryOrRequireAttention_def
  by (rule refines_guarded)
     (auto intro: attention_row row_stepI simp: row_step_simps requeue_write_def leased_by_def)

lemma cancelClaimed_refines: "refines d (snd (cancelClaimed k w t faults d))"
  unfolding cancelClaimed_def
  by (rule loop_refines, erule refines_finalize_ok [rotated], rule row_stepI)
     (auto simp: row_step_simps leased_by_def cancel_write_def)

lemma failClaimed_refines: "refines d (snd (failClaimed env k w m t faults d))"
  unfolding failClaimed_def
  by (rule loop_refines, erule refines_finalize_ok [rotated], rule row_stepI)
     (auto simp: row_step_simps leased_by_def fail_write_def)

lemma succeed_body_ok:
  assumes "succeed_body k w res late t d = (Inr v, d')"
  obtains c where "c \<in> set (db_ops d)" "op_id c = k" "op_leaseOwner c = Some w"
    "op_status c \<in> {RUNNING, CANCEL_REQUESTED}"
    "finalize_and_release k (\<lambda>r. op_id r = k \<and> op_status r = op_status c \<and> op_leaseOwner r = Some w)
         (succeed_write res (late \<or> op_status c = CANCEL_REQUESTED \<or> op_cancelRequestedAt c \<noteq> None) t)
         (Conflict ''Operation claim is stale'') d = (Inr v, d')"
proof (cases "find_first (\<lambda>r. op_id r = k \<and> op_status r \<in> set [RUNNING, CANCEL_REQUESTED] \<and>
          op_leaseOwner r = Some w) (db_ops d)")
  case (Some c)
  with assms find_first_SomeD [OF Some] show thesis
    by (intro that [of c]) (simp_all add: succeed_body_def)
qed (use assms in \<open>simp add: succeed_body_def\<close>)

lemma succeedClaimed_refines: "refines d (snd (succeedClaimed k w res late t faults d))"
proof -
  have "refines d (snd (withFinalizationTransaction faults (succeed_body k w res late t) d))"
  proof (rule loop_refines)
    fix v d' assume ok: "succeed_body k w res late t d = (Inr v, d')"
    show "refines d d'"
    proof (rule succeed_body_ok [OF ok])
      fix c assume c: "op_status c \<in> {RUNNING, CANCEL_REQUESTED}"
        and fin: "finalize_and_release k (\<lambda>r. op_id r = k \<and> op_status r = op_status c \<and> op_leaseOwner r = Some w)
         (succeed_write res (late \<or> op_status c = CANCEL_REQUESTED \<or> op_cancelRequestedAt c \<noteq> None) t)
         (Conflict ''Operation claim is stale'') d = (Inr v, d')"
      show "refines d d'"
        by (rule refines_finalize_ok [OF _ fin], rule row_stepI)
           (use c in \<open>auto simp: row_step_simps succeed_write_def\<close>)
    qed
  qed
  then show ?thesis by (simp add: succeedClaimed_def split: option.splits)
qed

lemma cancel_tx_refines: "refines d (snd (transaction fault (cancel_tx k st t) d))"
proof (rule tx_refines)
  fix v d' assume tx: "cancel_tx k st t d = (Inr v, d')"
  show "refines d d'"
  proof (cases "st \<in> {PENDING, QUEUED, RECOVERING}")
    case True
    with tx have "finalize_and_release k (\<lambda>r. op_id r = k \<and> op_status r = st \<and> op_cancelRequestedAt r = None)
        (cancel_now_write t) (Conflict ''Operation state changed'') d = (Inr v, d')"
      by (auto simp: cancel_tx_def)
    then show ?thesis
      by (rule refines_finalize_ok [rotated], intro row_stepI)
         (use True in \<open>auto simp: row_step_simps cancel_now_write_def\<close>)
  next
    case False
    have "refines d (snd (guarded_update
             (\<lambda>r. op_id r = k \<and> op_status r \<in> set [CLAIMED, RUNNING] \<and> op_cancelRequestedAt r = None)
             (cancel_request_write t) (Conflict ''Operation state changed'') d))"
      by (rule refines_guarded, rule row_stepI) (auto simp: row_step_simps cancel_request_write_def)
    with False tx show ?thesis by (simp add: cancel_tx_def)
  qed
qed

lemma requestCancellation_refines: "refines d (snd (requestCancellation k u role t fault seen d))"
  using cancel_tx_refines [of d fault k _ t]
  by (auto simp: requestCancellation_def split: option.splits prod.splits sum.splits) (metis snd_conv)+

lemma succeed_refines: "refines d (snd (succeed k res t fault d))"
proof -
  have "refines d (snd (transaction fault (succeed_tx k res t) d))"
  proof (rule tx_refines)
    fix v d' assume "succeed_tx k res t d = (Inr v, d')"
    then have "finalize_and_release k (\<lambda>r. op_id r = k \<and> op_status r = RUNNING)
          (inline_succeed_write res t) (Conflict ''Operation is not running'') d = (Inr v, d')"
      by (auto simp: succeed_tx_def split: option.splits)
    then show "refines d d'"
      by (rule refines_finalize_ok [rotated], intro row_stepI)
         (auto simp: row_step_simps inline_succeed_write_def)
  qed
  then show ?thesis by (simp add: succeed_def split: option.splits)
qed

lemma inline_fail_row: "op_status r \<in> set LOCK_HOLDING_STATUSES \<Longrightarrow> row_step r (inline_fail_write m t r)"
  by (rule row_stepI) (auto simp: row_step_simps inline_fail_write_def status_defs)

lemma update_rows_once:
  assumes "\<And>r. P r \<Longrightarrow> \<not> Q (f r)"
  shows "update_rows Q f (update_rows P f rows) = update_rows (\<lambda>r. P r \<or> Q r) f rows"
  using assms by (auto simp: update_rows_def)

lemma fail_refines: "refines d (snd (fail env k m t fault d))"
  unfolding fail_def
proof (rule tx_refines)
  fix v d' assume tx: "fail_tx k (safe_message env m) t d = (Inr v, d')"
  let ?ids = "map op_id (filter (child_holds k) (db_ops d))"
  let ?P = "\<lambda>r. op_id r \<in> set ?ids \<and> op_status r \<in> set LOCK_HOLDING_STATUSES"
  let ?Q = "\<lambda>r. op_id r = k \<and> op_status r \<in> set LOCK_HOLDING_STATUSES"
  have ops: "db_ops d' = update_rows (\<lambda>r. ?P r \<or> ?Q r) (inline_fail_write (safe_message env m) t) (db_ops d)"
    using tx by (subst update_rows_once [symmetric])
      (auto simp: fail_tx_def Let_def inline_fail_write_def lock_holding_iff final_state_def)
  show "refines d d'" by (rule refines_update [OF ops]) (auto intro: inline_fail_row)
qed

lemma sweep_lost_refines:
  assumes "lost_lease t x" shows "refines d (sweep_lost t x d)"
  unfolding sweep_lost_def
  by (rule refines_update, simp, rule row_stepI)
     (use assms in \<open>auto simp: row_step_simps lost_lease_def recover_write_def attention_write_def\<close>)

lemma expire_mark_refines:
  assumes "expired_in_queue t x" shows "refines d (expire_mark t x d)"
  unfolding expire_mark_def
  by (rule refines_update, simp, rule row_stepI)
     (use assms in \<open>auto simp: row_step_simps expired_in_queue_def expire_guard_def expire_write_def\<close>)

lemma sweep_exhausted_refines: "refines d (sweep_exhausted t x d)"
proof (cases "op_attempt x < op_maxAttempts x")
  case False
  show ?thesis
    unfolding sweep_exhausted_def if_not_P [OF False]
    by (rule refines_update, simp, rule row_stepI) (auto simp: row_step_simps)
qed (simp add: sweep_exhausted_def)

lemma completeDeploy_refines: "refines d (snd (completeDeploy env i s c m t fault d))"
  unfolding completeDeploy_def
proof (rule tx_refines)
  fix v d' assume tx: "deploy_tx env i s c m t d = (Inr v, d')"
  have tail: "db_ops (snd (deploy_tail env l s c m t x)) = db_ops x" for l x by (simp add: deploy_tail_def)
  have fin: "refines d (snd (finalize_and_release k (\<lambda>r. op_id r = k \<and> op_status r \<in> set [PENDING, RUNNING])
      (deploy_op_write env i s c m t) (Plain []) d))" for k
    by (rule refines_finalize, rule row_stepI) (auto simp: row_step_simps deploy_op_write_def)
  show "refines d d'"
  proof (cases "find_key dl_id i (db_deploys d)")
    case (Some l)
    show ?thesis
    proof (cases "truthy (dl_operationId l)")
      case None
      with tx Some tail [of l d] show ?thesis by (intro refines_same) (simp add: deploy_tx_def)
    next
      case op: (Some k)
      obtain r d1 where f: "finalize_and_release k (\<lambda>r. op_id r = k \<and> op_status r \<in> set [PENDING, RUNNING])
          (deploy_op_write env i s c m t) (Plain []) d = (r, d1)" by fastforce
      with tx Some op tail [of l d1] have "db_ops d' = db_ops d1"
        by (auto simp: deploy_tx_def split: sum.splits)
      with fin [of k] f show ?thesis by (simp add: refines_def)
    qed
  qed (use tx in \<open>simp add: deploy_tx_def\<close>)
qed

lemma deletion_refines: "refines d (snd (commitDomainDeletionMetadata si di tg del k res t fault d))"
  unfolding commitDomainDeletionMetadata_def
proof (rule tx_refines)
  fix v d' assume tx: "domain_deletion_tx si di tg del k res t d = (Inr v, d')"
  then have ops: "db_ops d' = update_rows (\<lambda>r. op_id r = k \<and> op_status r = RUNNING) (deletion_op_write res t) (db_ops d)"
    using finalize_ops by (auto simp: domain_deletion_tx_def Let_def split: if_splits dest!: arg_cong [where f = snd])
  show "refines d d'"
    by (rule refines_update [OF ops], rule row_stepI) (auto simp: row_step_simps deletion_op_write_def)
qed

lemma consume_refines: "refines d (snd (consume env k u t seen d))"
proof (rule consume_keeps [where I = "refines d"], simp)
  show "refines d (snd (consume_update r v d))" for r v
    by (rule refines_guarded)
       (auto simp: row_step_def immutable_same_def)
qed

lemma attach_refines: "refines d (snd (attachScope k sc fault d))"
proof -
  have "refines d (snd (transaction fault (attachScopeWithClient k sc) d))"
  proof (rule tx_refines)
    fix v d' assume ok: "attachScopeWithClient k sc d = (Inr v, d')"
    obtain ops: "db_ops d' = update_rows (\<lambda>r. op_id r = k \<and> op_status r \<in> set EXECUTING_STATUSES) (attach_write sc) (db_ops d)"
      by (rule attach_ok [OF ok]) simp
    show "refines d d'"
      by (rule refines_update [OF ops], rule row_stepI)
         (auto simp: row_step_simps attach_write_def status_defs)
  qed
  then show ?thesis by (auto simp: attachScope_def split: prod.splits sum.splits)
qed

lemma begin_tx_ok:
  assumes "begin_tx env inp key u2 t d = (Inr v, d')"
  shows "v = new_operation env inp key u2 t" "\<not> queue_full d inp" "\<not> parent_unfit d inp"
    "assertScopeHierarchyAvailable d (begin_scope inp) None = None"
    "create_operation (new_operation env inp key u2 t) (operationLockSpecs (begin_scope inp)) d = (Inr v, d')"
proof -
  from assms show "\<not> queue_full d inp" "\<not> parent_unfit d inp"
    "assertScopeHierarchyAvailable d (begin_scope inp) None = None"
    "create_operation (new_operation env inp key u2 t) (operationLockSpecs (begin_scope inp)) d = (Inr v, d')"
    by (auto simp: begin_tx_def split: if_splits option.splits)
  then show "v = new_operation env inp key u2 t" by (intro create_operation_ok(5))
qed

lemma begin_keeps:
  assumes "I d" "I (snd (transaction fault (begin_tx env inp (begin_key u1 inp) u2 t) d))"
  shows "I (snd (begin_operation env m inp u1 u2 t fault seen d))"
proof (cases "begin_invalid m inp (begin_key u1 inp) t")
  case None
  obtain r d' where tx: "transaction fault (begin_tx env inp (begin_key u1 inp) u2 t) d = (r, d')" by fastforce
  show ?thesis
  proof (cases "find_key op_idempotencyKey (begin_key u1 inp) (db_ops seen)")
    case no: None
    with assms None tx show ?thesis by (cases r) (simp_all add: begin_operation_def Let_def)
  qed (use assms(1) None in \<open>simp add: begin_operation_def Let_def split: option.split\<close>)
qed (use assms(1) in \<open>simp add: begin_operation_def Let_def\<close>)

lemma begin_refines: "refines d (snd (begin_operation env m inp u1 u2 t fault seen d))"
proof -
  have "refines d (snd (transaction fault (begin_tx env inp (begin_key u1 inp) u2 t) d))"
  proof (rule tx_refines)
    fix v d' assume ok: "begin_tx env inp (begin_key u1 inp) u2 t d = (Inr v, d')"
    have "db_ops d' = db_ops d @ [v]"
      using create_operation_ok(6) [OF begin_tx_ok(5) [OF ok]] begin_tx_ok(1) [OF ok] by simp
    then show "refines d d'" by (auto simp: refines_def intro: row_step_refl)
  qed
  then show ?thesis by (intro begin_keeps [where I = "refines d"]) simp_all
qed

text \<open>Recovery at start-up changes each row at most once.\<close>

definition restart_row :: "op_row list \<Rightarrow> time \<Rightarrow> op_row \<Rightarrow> op_row" where
  "restart_row rows now r =
     (if op_id r \<in> op_id ` {x \<in> set rows. recovers x} then restart_recover_write r
      else if op_id r \<in> op_id ` set rows then restart_attention_write now r else r)"

lemma restart_ops:
  "db_ops (restart_tx rows t d) = map (restart_row rows t) (db_ops d)"
proof -
  let ?rec = "map op_id (filter recovers rows)"
  let ?att = "map op_id (filter (\<lambda>r. op_id r \<notin> set ?rec) rows)"
  have rec: "op_id r \<in> op_id ` {x \<in> set rows. recovers x} \<longleftrightarrow> op_id r \<in> set ?rec" for r by simp
  have att: "op_id r \<in> set ?att \<longleftrightarrow> op_id r \<in> op_id ` set rows \<and> op_id r \<notin> set ?rec" for r
    by (auto simp only: set_map set_filter mem_Collect_eq image_iff bex_simps Bex_def)
  have row: "restart_row rows t r = (let x = if op_id r \<in> set ?rec then restart_recover_write r else r in
      if op_id x \<in> set ?att then restart_attention_write t x else x)" for r
    unfolding restart_row_def rec Let_def
    by (cases "op_id r \<in> set ?rec") (simp_all only: att, simp_all add: restart_recover_write_def)
  show ?thesis
  proof (cases "?att = []")
    case True
    then have "restart_row rows t r = (if op_id r \<in> set ?rec then restart_recover_write r else r)" for r
      unfolding row True by simp
    with True show ?thesis by (simp add: restart_tx_def Let_def update_rows_def)
  next
    case False
    have "db_ops (restart_tx rows t d) = update_rows (\<lambda>r. op_id r \<in> set ?att) (restart_attention_write t)
        (update_rows (\<lambda>r. op_id r \<in> set ?rec) restart_recover_write (db_ops d))"
      using False unfolding restart_tx_def Let_def by (simp only: if_False simp_thms) simp
    then show ?thesis
      unfolding update_rows_def map_map o_def
      by (elim ssubst, intro map_cong refl) (simp only: row Let_def)
  qed
qed

lemma restart_refines:
  assumes "keyed op_id (db_ops d)"
  shows "refines d (onModuleInit t d)"
proof (cases "filter interrupted (db_ops d) = []")
  case False
  let ?rows = "filter interrupted (db_ops d)"
  have row: "row_step r (restart_row ?rows t r)" if r: "r \<in> set (db_ops d)" for r
  proof -
    have same: "x = r" if "x \<in> set (db_ops d)" "op_id x = op_id r" for x
      using that r assms by (auto simp: keyed_def dest: distinct_map_inj_onD)
    have rec: "op_id r \<in> op_id ` {x \<in> set ?rows. recovers x} \<longleftrightarrow> interrupted r \<and> recovers r"
      using same r by (force intro: rev_image_eqI)
    have att: "op_id r \<in> op_id ` set ?rows \<longleftrightarrow> interrupted r"
      using same r by (force intro: rev_image_eqI)
    have "row_step r (restart_recover_write r)" if "interrupted r" "recovers r"
      by (rule row_stepI)
         (use that in \<open>auto simp: row_step_simps restart_recover_write_def interrupted_def recovers_def\<close>)
    moreover have "row_step r (restart_attention_write t r)" if "interrupted r"
      by (rule row_stepI)
         (use that in \<open>auto simp: row_step_simps restart_attention_write_def interrupted_def\<close>)
    ultimately show ?thesis unfolding restart_row_def rec att by simp
  qed
  have ops: "db_ops (onModuleInit t d) = map (restart_row ?rows t) (db_ops d)"
    using False by (simp add: onModuleInit_def Let_def restart_ops)
  show ?thesis unfolding refines_def ops using row by auto
qed (simp add: onModuleInit_def)

section \<open>The refinement\<close>

lemmas writes_refine = begin_refines start_refines step_refines sweep_lost_refines
  expire_mark_refines sweep_exhausted_refines startClaimed_refines heartbeat_refines
  succeedClaimed_refines failClaimed_refines cancelClaimed_refines retry_refines attention_refines
  requestCancellation_refines attach_refines succeed_refines fail_refines completeDeploy_refines
  deletion_refines consume_refines restart_refines

lemma claim_refines:
  assumes "keyed op_id (db_ops d)"
  shows "refines d (snd (claim_sql w t d))"
proof (cases "claim_candidate t (db_ops d)")
  case (Some r)
  note r = claim_candidate_SomeD [OF Some]
  have "row_step x (claim_write w t x)" if x: "x \<in> set (db_ops d)" "op_id x = op_id r" for x
  proof -
    have "x = r" using assms x r by (auto simp: keyed_def dest: distinct_map_inj_onD)
    with r have "op_status x \<in> {QUEUED, RECOVERING}" by (simp add: claimable_def)
    then show ?thesis
      by (auto simp: row_step_def immutable_same_def claim_write_def SERVICE_EDGES_def settled_def
        is_final_def final_state_def)
  qed
  then have "refines d (d\<lparr>db_ops := update_rows (\<lambda>x. op_id x = op_id r) (claim_write w t) (db_ops d)\<rparr>)"
    by (intro refines_update [of _ "\<lambda>x. op_id x = op_id r" "claim_write w t"]) auto
  with Some show ?thesis by (simp add: claim_sql_def)
qed (simp add: claim_sql_def)

lemma op_step_refines:
  assumes "op_step env now d d'" "sys_inv now d"
  shows "refines d d'"
proof -
  from assms(2) have keyed: "keyed op_id (db_ops d)" by (simp add: inv_defs)
  from assms(1) show ?thesis
  proof cases
    case (expire_unlock_step k)
    then show ?thesis by (intro refines_same) (simp add: expire_unlock_def)
  next
    case other_tables
    then show ?thesis by (intro refines_same) simp
  qed (use keyed in \<open>simp_all add: writes_refine claim_refines\<close>)
qed

text \<open>Along a run: an operation stays in the table, and a settled one stays as it is.\<close>

inductive run :: "op_env \<Rightarrow> time \<Rightarrow> db \<Rightarrow> time \<Rightarrow> db \<Rightarrow> bool" for env :: op_env and now :: time and d :: db where
  run_here: "run env now d now d"
| run_wait: "run env now d t d' \<Longrightarrow> t \<le> t' \<Longrightarrow> run env now d t' d'"
| run_step: "run env now d t d' \<Longrightarrow> op_step env t d' d'' \<Longrightarrow> run env now d t d''"

lemma run_reachable': "run env now d t d' \<Longrightarrow> reachable env now d \<Longrightarrow> reachable env t d'"
  by (induction rule: run.induct) (auto intro: later stepped)

lemma immutable_trans: "immutable_same a b \<Longrightarrow> immutable_same b c \<Longrightarrow> immutable_same a c"
  by (simp add: immutable_same_def)

lemma run_row:
  assumes "run env now d t d'" "reachable env now d" "r \<in> set (db_ops d)"
  shows "\<exists>r' \<in> set (db_ops d'). immutable_same r r' \<and> op_attempt r \<le> op_attempt r' \<and>
     (settled r \<longrightarrow> (\<exists>v. r' = r\<lparr>op_result := v\<rparr>))"
  using assms
proof (induction rule: run.induct)
  case run_here
  then show ?case by (intro bexI [of _ r]) (auto simp: immutable_same_def intro: exI [of _ "op_result r"])
next
  case (run_step t d' d'')
  then obtain q where q: "q \<in> set (db_ops d')" "immutable_same r q" "op_attempt r \<le> op_attempt q"
    "settled r \<longrightarrow> (\<exists>v. q = r\<lparr>op_result := v\<rparr>)" by blast
  have "sys_inv t d'"
    by (rule reachable_inv, rule run_reachable' [OF run_step.hyps(1)], rule run_step.prems(1))
  with run_step.hyps(2) have "refines d' d''" by (rule op_step_refines)
  with q(1) obtain r' where r': "r' \<in> set (db_ops d'')" "row_step q r'" unfolding refines_def by blast
  from r'(2) have step: "immutable_same q r'" "op_attempt q \<le> op_attempt r'"
    "settled q \<longrightarrow> (\<exists>v. r' = q\<lparr>op_result := v\<rparr>)" by (simp_all add: row_step_def)
  have "\<exists>v. r' = r\<lparr>op_result := v\<rparr>" if r: "settled r"
  proof -
    from q(4) r obtain v where v: "q = r\<lparr>op_result := v\<rparr>" by blast
    with r have "settled q" by (simp add: settled_def is_final_def)
    with step(3) v show ?thesis by auto
  qed
  with immutable_trans [OF q(2) step(1)] order_trans [OF q(3) step(2)] r'(1) show ?case by blast
qed auto

end
