(* ===== verification/Operation_Examples.thy ===== *)
theory Operation_Examples
  imports Operation_Refinement
begin

text \<open>
  A concrete panel for the witnesses of the properties: an environment whose digest is the
  text itself and whose encryption is the JSON text, and a few requests.
\<close>

definition demo_env :: op_env where
  "demo_env = \<lparr>sha256_hex = id, encrypt_operations = json_stringify, decrypt_operations = json_parse,
     safe_message = id, iso_of = show_int, date_parse = (\<lambda>s. map_option fst (read_number s))\<rparr>"

definition demo_policy :: "string \<Rightarrow> policy" where
  "demo_policy key = \<lparr>p_actionId = ''sites.backup'', p_schemaVersion = 1, p_actorKind = ''OPERATOR'',
     p_issuerId = ''local'', p_subject = ''u1'', p_role = ''ADMIN'', p_permissions = [], p_idempotencyId = key,
     p_requestId = ''r1'', p_recoveryPolicy = RETRY_SAFE, p_retryable = True\<rparr>"

definition demo_queued :: "string \<Rightarrow> queued_input" where
  "demo_queued key = \<lparr>q_actionId = ''sites.backup'', q_policySnapshot = demo_policy key,
     q_recoveryPolicy = RETRY_SAFE, q_retryable = True, q_deadlineAt = Some 100000, q_maxAttempts = None\<rparr>"

definition demo_request :: "string \<Rightarrow> string option \<Rightarrow> begin_input" where
  "demo_request key site = \<lparr>bi_idempotencyKey = Some key, bi_type = ''SITE_BACKUP'', bi_siteId = site,
     bi_siteDomainId = None, bi_databaseId = None, bi_globalLockKey = None, bi_lockSite = None,
     bi_parentOperationId = None, bi_userId = ''u1'', bi_request = JObj [(''full'', JBool True)],
     bi_queued = None\<rparr>"

definition queued_request :: begin_input where
  "queued_request = (demo_request ''key-0001'' (Some ''s1''))\<lparr>bi_queued := Some (demo_queued ''key-0001'')\<rparr>"

definition inline_request :: begin_input where
  "inline_request = demo_request ''key-0002'' (Some ''s2'')"

definition child_request :: begin_input where
  "child_request = (demo_request ''key-0003'' (Some ''s2''))
     \<lparr>bi_siteDomainId := Some ''d1'', bi_parentOperationId := Some ''op-2''\<rparr>"

lemmas request_defs = queued_request_def inline_request_def child_request_def demo_request_def demo_queued_def

definition demo_begin :: "begin_input \<Rightarrow> string \<Rightarrow> time \<Rightarrow> db \<Rightarrow> (ticket, db) outcome" where
  "demo_begin inp u t d = begin_operation demo_env False inp ''uuid-unused'' u t None d d"

lemma demo_policy_safe: "assertNoSecretFields ''policySnapshot'' (policy_json (demo_policy key)) = None"
  by (rule policy_is_safe)

lemma demo_key: "rx_test IDEMPOTENCY_KEY ''key-0001''" "rx_test IDEMPOTENCY_KEY ''key-0002''"
  "rx_test IDEMPOTENCY_KEY ''key-0003''"
  by code_simp+

lemma demo_trim: "js_trim ''key-0001'' = ''key-0001''" "js_trim ''key-0002'' = ''key-0002''"
  "js_trim ''key-0003'' = ''key-0003''"
  by code_simp+

lemma demo_action: "rx_test ACTION_ID ''sites.backup''" by code_simp

lemma demo_bytes: "payloadBytes (JObj [(''full'', JBool True)]) = 13" by code_simp

lemma queued_config_demo:
  assumes "t < 100000" "0 \<le> t"
  shows "assertQueuedConfiguration (demo_queued ''key-0001'') ''key-0001'' t = None"
  unfolding assertQueuedConfiguration_def
  using assms demo_policy_safe [of "''key-0001''"] demo_action
  by (simp add: demo_queued_def queued_max_attempts_def thirty_days_def) (simp add: demo_policy_def)

lemma queued_valid:
  assumes "t < 100000" "0 \<le> t"
  shows "begin_invalid False queued_request ''key-0001'' t = None"
  using queued_config_demo [OF assms]
  by (simp add: begin_invalid_def queued_request_def demo_request_def demo_key demo_bytes
    MAX_OPERATION_PAYLOAD_BYTES_def begin_lock_key_def)

lemma inline_valid: "begin_invalid False inline_request ''key-0002'' t = None"
  "begin_invalid False child_request ''key-0003'' t = None"
  by (simp_all add: begin_invalid_def request_defs demo_key begin_lock_key_def)

lemma demo_begin_key:
  "begin_key u queued_request = ''key-0001''" "begin_key u inline_request = ''key-0002''"
  "begin_key u child_request = ''key-0003''"
  by (simp_all add: begin_key_def request_defs demo_trim)

definition demo_queue :: db where
  "demo_queue = empty_db\<lparr>db_ops := [new_operation demo_env queued_request ''key-0001'' ''op-1'' 0],
     db_locks := [\<lparr>lk_resourceKey = ''site:s1'', lk_kind = SITE, lk_operationId = ''op-1''\<rparr>]\<rparr>"

lemma new_operation_sel:
  "op_id (new_operation env inp key u t) = u" "op_idempotencyKey (new_operation env inp key u t) = key"
  "op_siteId (new_operation env inp key u t) = truthy (bi_siteId inp)"
  "op_siteDomainId (new_operation env inp key u t) = truthy (bi_siteDomainId inp)"
  "op_parentOperationId (new_operation env inp key u t) = truthy (bi_parentOperationId inp)"
  "op_createdByUserId (new_operation env inp key u t) = bi_userId inp"
  "op_leaseOwner (new_operation env inp key u t) = None"
  "op_leaseExpiresAt (new_operation env inp key u t) = None"
  "op_cancelRequestedAt (new_operation env inp key u t) = None"
  "op_attempt (new_operation env inp key u t) = 0" "op_createdAt (new_operation env inp key u t) = t"
  "op_result (new_operation env inp key u t) = None"
  by (simp_all add: new_operation_def)

lemma new_operation_cases:
  "op_status (new_operation env inp key u t) = (if bi_queued inp = None then PENDING else QUEUED)"
  "op_executionMode (new_operation env inp key u t) = (if bi_queued inp = None then INLINE else MODE_QUEUED)"
  "op_deadlineAt (new_operation env inp key u t) = Option.bind (bi_queued inp) q_deadlineAt"
  "op_maxAttempts (new_operation env inp key u t) =
     (case bi_queued inp of Some q \<Rightarrow> queued_max_attempts q | None \<Rightarrow> 1)"
  "op_recoveryPolicy (new_operation env inp key u t) =
     (case bi_queued inp of Some q \<Rightarrow> q_recoveryPolicy q | None \<Rightarrow> MANUAL)"
  "op_retryable (new_operation env inp key u t) = (case bi_queued inp of Some q \<Rightarrow> q_retryable q | None \<Rightarrow> False)"
  by (simp_all add: new_operation_def split: option.split)

lemma request_sel [simp]:
  "bi_siteId queued_request = Some ''s1''" "bi_siteId inline_request = Some ''s2''" "bi_siteId child_request = Some ''s2''"
  "bi_siteDomainId queued_request = None" "bi_siteDomainId inline_request = None"
  "bi_siteDomainId child_request = Some ''d1''" "bi_databaseId queued_request = None"
  "bi_databaseId inline_request = None" "bi_databaseId child_request = None"
  "bi_lockSite queued_request = None" "bi_lockSite inline_request = None" "bi_lockSite child_request = None"
  "bi_parentOperationId queued_request = None" "bi_parentOperationId inline_request = None"
  "bi_parentOperationId child_request = Some ''op-2''"
  "bi_globalLockKey queued_request = None" "bi_globalLockKey inline_request = None" "bi_globalLockKey child_request = None"
  "bi_userId queued_request = ''u1''" "bi_userId inline_request = ''u1''" "bi_userId child_request = ''u1''"
  "bi_queued queued_request = Some (demo_queued ''key-0001'')" "bi_queued inline_request = None" "bi_queued child_request = None"
  by (simp_all add: request_defs)

lemma begin_created:
  assumes "begin_invalid False inp key t = None" "begin_key ''uuid-unused'' inp = key"
    and "find_key op_idempotencyKey key (db_ops d) = None" "truthy (bi_siteId inp) \<noteq> None"
    and "begin_tx demo_env inp key u t d = (Inr r, d')"
  shows "demo_begin inp u t d = (Inr \<lparr>tk_id = op_id r, tk_siteId = op_siteId r, tk_siteDomainId = op_siteDomainId r,
     tk_replayed = False, tk_status = op_status r, tk_result = JNull\<rparr>, d')"
  using assms by (simp add: demo_begin_def begin_operation_def Let_def transaction_def)

lemmas begin_simps = begin_tx_def queue_full_def parent_unfit_def
  active_backup_def assertScopeHierarchyAvailable_def begin_scope_def operationLockSpecs_def
  create_operation_def create_locks_def begin_lock_key_def new_operation_sel new_operation_cases

lemmas table_simps = find_key_def find_first_def count_rows_def

lemma queue_tx:
  "begin_tx demo_env queued_request ''key-0001'' ''op-1'' 0 empty_db =
     (Inr (new_operation demo_env queued_request ''key-0001'' ''op-1'' 0), demo_queue)"
  by (simp add: begin_simps table_simps empty_db_def demo_queue_def
    own_lock_def MAX_QUEUED_PER_TARGET_def MAX_QUEUED_PER_ACTOR_def)

lemma queue_begin:
  "demo_begin queued_request ''op-1'' 0 empty_db =
     (Inr \<lparr>tk_id = ''op-1'', tk_siteId = Some ''s1'', tk_siteDomainId = None, tk_replayed = False,
        tk_status = QUEUED, tk_result = JNull\<rparr>, demo_queue)"
  using begin_created [OF queued_valid demo_begin_key(1) _ _ queue_tx]
  by (simp add: new_operation_sel new_operation_cases table_simps empty_db_def)

definition demo_parent :: db where
  "demo_parent = empty_db\<lparr>db_ops := [new_operation demo_env inline_request ''key-0002'' ''op-2'' 1],
     db_locks := [\<lparr>lk_resourceKey = ''site:s2'', lk_kind = SITE, lk_operationId = ''op-2''\<rparr>]\<rparr>"

definition demo_sites :: db where
  "demo_sites = demo_parent\<lparr>
     db_ops := db_ops demo_parent @ [new_operation demo_env child_request ''key-0003'' ''op-3'' 2],
     db_locks := db_locks demo_parent @ [\<lparr>lk_resourceKey = ''domain:d1'', lk_kind = DOMAIN, lk_operationId = ''op-3''\<rparr>]\<rparr>"

lemma parent_tx:
  "begin_tx demo_env inline_request ''key-0002'' ''op-2'' 1 empty_db =
     (Inr (new_operation demo_env inline_request ''key-0002'' ''op-2'' 1), demo_parent)"
  by (simp add: begin_simps table_simps empty_db_def demo_parent_def own_lock_def)

lemma parent_begin:
  "demo_begin inline_request ''op-2'' 1 empty_db =
     (Inr \<lparr>tk_id = ''op-2'', tk_siteId = Some ''s2'', tk_siteDomainId = None, tk_replayed = False,
        tk_status = PENDING, tk_result = JNull\<rparr>, demo_parent)"
  using begin_created [OF inline_valid(1) demo_begin_key(2) _ _ parent_tx]
  by (simp add: new_operation_sel new_operation_cases table_simps empty_db_def)

lemma child_tx:
  "begin_tx demo_env child_request ''key-0003'' ''op-3'' 2 demo_parent =
     (Inr (new_operation demo_env child_request ''key-0003'' ''op-3'' 2), demo_sites)"
  by (simp add: begin_simps table_simps empty_db_def demo_parent_def demo_sites_def own_lock_def
    status_defs site_lock_key_def)

lemma child_begin:
  "demo_begin child_request ''op-3'' 2 demo_parent =
     (Inr \<lparr>tk_id = ''op-3'', tk_siteId = Some ''s2'', tk_siteDomainId = Some ''d1'', tk_replayed = False,
        tk_status = PENDING, tk_result = JNull\<rparr>, demo_sites)"
  using begin_created [OF inline_valid(2) demo_begin_key(3) _ _ child_tx]
  by (simp add: new_operation_sel new_operation_cases table_simps empty_db_def demo_parent_def)

lemma demo_begin_step: "demo_begin inp u t d = (r, d') \<Longrightarrow> op_step demo_env now d d'"
  using begin_step [of demo_env now d False inp "''uuid-unused''" u t None d] by (simp add: demo_begin_def)

lemma demo_queue_reachable: "0 \<le> t \<Longrightarrow> reachable demo_env t demo_queue"
  using stepped [OF initial demo_begin_step [OF queue_begin], of t] .

lemma demo_sites_reachable: "reachable demo_env t demo_sites"
  by (rule stepped [OF stepped [OF initial demo_begin_step [OF parent_begin]] demo_begin_step [OF child_begin]])

definition demo_claimed :: db where
  "demo_claimed = demo_queue\<lparr>db_ops := map (claim_write ''worker-1'' 10) (db_ops demo_queue)\<rparr>"

lemma demo_claim: "claim_sql ''worker-1'' 10 demo_queue = (Some (''op-1'', False), demo_claimed)"
  by (simp add: claim_sql_def claim_candidate_def demo_queue_def demo_claimed_def claimable_def deadline_ahead_def
    new_operation_sel new_operation_cases queued_request_def demo_request_def demo_queued_def queued_max_attempts_def
    holds_slot_def count_rows_def claim_capacity_def update_rows_def status_defs)

lemma demo_claimed_reachable: "10 \<le> t \<Longrightarrow> reachable demo_env t demo_claimed"
  using stepped [OF demo_queue_reachable claim_step [of 10 t demo_env demo_queue "''worker-1''"]] demo_claim by simp

end
