(* ===== verification/Operation_Theorems.thy ===== *)
theory Operation_Theorems
  imports Operation_Examples
begin

text \<open>
  The properties of the operation ledger. The invariant and the refinement of the previous
  theories carry their proofs; the witnesses use the panel of \<open>Operation_Examples\<close>.
\<close>

section \<open>Safety of all reachable states\<close>



text \<open>C2: a live operation that locks a Site excludes every other live operation that locks a domain
  or a database of that Site, unless the other one is its own child.\<close>

theorem site_scope_exclusive:
  assumes "reachable env now d" "holds_site d a s" "holds_nested d b s" "op_id a \<noteq> op_id b"
  shows "op_parentOperationId b = Some (op_id a)"
  using reachable_inv [OF assms(1)] assms(2-4) unfolding sys_inv_def scope_excl_def by blast

theorem site_scope_exclusive_witness:
  "\<exists>a b. holds_site demo_sites a ''s2'' \<and> holds_nested demo_sites b ''s2'' \<and> op_id a \<noteq> op_id b \<and>
     op_parentOperationId b = Some (op_id a)"
proof -
  let ?a = "new_operation demo_env inline_request ''key-0002'' ''op-2'' 1"
  let ?b = "new_operation demo_env child_request ''key-0003'' ''op-3'' 2"
  have "holds_site demo_sites ?a ''s2''" "holds_nested demo_sites ?b ''s2''" "op_id ?a \<noteq> op_id ?b"
    by (simp_all add: holds_site_def holds_nested_def demo_sites_def demo_parent_def new_operation_sel
      new_operation_cases is_final_def final_state_def site_lock_key_def)
  with site_scope_exclusive [OF demo_sites_reachable this] show ?thesis by blast
qed



text \<open>C4: the queue never holds more than 128 operations, nor more than 32 of one user.\<close>

theorem queue_bounded:
  assumes "reachable env now d"
  shows "count_rows in_queue (db_ops d) \<le> 128 \<and>
    (\<forall>u. count_rows (\<lambda>r. in_queue r \<and> op_createdByUserId r = u) (db_ops d) \<le> 32)"
  using reachable_inv [OF assms] by (simp add: inv_defs MAX_QUEUED_PER_TARGET_def MAX_QUEUED_PER_ACTOR_def)

theorem queue_bounded_witness:
  "count_rows in_queue (db_ops demo_queue) = 1 \<and> count_rows in_queue (db_ops demo_queue) \<le> 128"
proof
  show "count_rows in_queue (db_ops demo_queue) \<le> 128"
    using queue_bounded [OF demo_queue_reachable [of 0]] by simp
qed (simp add: demo_queue_def count_rows_def in_queue_def new_operation_cases status_defs)

text \<open>C5: every row of a reachable state is well formed: a queued operation has been attempted at most
  \<open>maxAttempts\<close> times, which is 1 to 3, and has a deadline; an operation that waits or recovers has no
  lease, and neither has one that the API runs itself; progress stays between 0 and 100.\<close>

theorem rows_well_formed:
  assumes "reachable env now d" "r \<in> set (db_ops d)"
  shows "row_ok r"
  using reachable_inv [OF assms(1)] assms(2) by (simp add: inv_defs)

theorem rows_well_formed_witness: "\<exists>r \<in> set (db_ops demo_claimed). op_attempt r = 1 \<and> row_ok r"
proof -
  let ?r = "claim_write ''worker-1'' 10 (new_operation demo_env queued_request ''key-0001'' ''op-1'' 0)"
  have "?r \<in> set (db_ops demo_claimed)" by (simp add: demo_claimed_def demo_queue_def)
  moreover from this have "row_ok ?r" by (intro rows_well_formed [OF demo_claimed_reachable [of 10]]) auto
  moreover have "op_attempt ?r = 1" by (simp add: claim_write_def new_operation_sel new_operation_cases)
  ultimately show ?thesis by blast
qed

section \<open>The life of an operation\<close>




definition demo_cancelled :: db where
  "demo_cancelled = snd (transaction None (cancel_tx ''op-1'' QUEUED 5) demo_queue)"

lemma demo_cancelled_eq:
  "demo_cancelled = demo_queue\<lparr>db_ops := map (cancel_now_write 5) (db_ops demo_queue), db_locks := []\<rparr>"
  by (simp add: demo_cancelled_def transaction_def cancel_tx_def finalize_and_release_def guarded_update_def
    release_locks_def demo_queue_def count_rows_def update_rows_def delete_rows_def new_operation_sel new_operation_cases)

lemma demo_cancelled_reachable: "5 \<le> t \<Longrightarrow> reachable demo_env t demo_cancelled"
proof -
  assume "5 \<le> t"
  have "snd (requestCancellation ''op-1'' ''u1'' ''USER'' 5 None demo_queue demo_queue) = demo_cancelled"
    by (auto simp: requestCancellation_def demo_cancelled_def demo_queue_def table_simps new_operation_sel
        new_operation_cases access_denied_def split: prod.splits sum.splits)
  moreover have "op_step demo_env t demo_queue (snd (requestCancellation ''op-1'' ''u1'' ''USER'' 5 None demo_queue demo_queue))"
    by (rule cancel_step)
  ultimately show ?thesis using stepped [OF demo_queue_reachable, of t] \<open>5 \<le> t\<close> by simp
qed


section \<open>Admission\<close>

text \<open>C8: \<open>begin\<close> is all or nothing: either the database is as before, or the call returns a new ticket and
  the database has exactly one more operation, in its initial state, with exactly the locks of its
  scope, on resources that nobody had locked.\<close>

theorem begin_all_or_nothing:
  "(case begin_operation env m inp u1 u2 now fault seen d of (res, d') \<Rightarrow>
      d' = d \<or>
      ((\<exists>tk. res = Inr tk \<and> tk_id tk = u2 \<and> \<not> tk_replayed tk) \<and>
       (let r = new_operation env inp (begin_key u1 inp) u2 now; specs = operationLockSpecs (begin_scope inp) in
          d' = d\<lparr>db_ops := db_ops d @ [r], db_locks := db_locks d @ map (own_lock u2) specs\<rparr> \<and>
          u2 \<notin> op_id ` set (db_ops d) \<and> distinct (map lk_resourceKey specs) \<and>
          set (map lk_resourceKey specs) \<inter> lk_resourceKey ` set (db_locks d) = {})))"
proof -
  let ?key = "begin_key u1 inp"
  obtain x d1 where tx: "transaction fault (begin_tx env inp ?key u2 now) d = (x, d1)" by fastforce
  have state: "d1 = d \<or> (\<exists>v. x = Inr v \<and> begin_tx env inp ?key u2 now d = (Inr v, d1))"
    using transaction_error [of fault "begin_tx env inp ?key u2 now" d] tx
    by (cases x) (auto simp: transaction_ok)
  have new: "v = new_operation env inp ?key u2 now \<and> op_id v = u2 \<and>
      d1 = d\<lparr>db_ops := db_ops d @ [v], db_locks := db_locks d @ map (own_lock u2) (operationLockSpecs (begin_scope inp))\<rparr> \<and>
      u2 \<notin> op_id ` set (db_ops d) \<and> distinct (map lk_resourceKey (operationLockSpecs (begin_scope inp))) \<and>
      set (map lk_resourceKey (operationLockSpecs (begin_scope inp))) \<inter> lk_resourceKey ` set (db_locks d) = {}"
    if "begin_tx env inp ?key u2 now d = (Inr v, d1)" for v
    using begin_tx_ok(1) [OF that] create_operation_ok [OF begin_tx_ok(5) [OF that]]
    by (simp add: new_operation_sel)
  obtain res d' where b: "begin_operation env m inp u1 u2 now fault seen d = (res, d')" by fastforce
  from b tx have cases: "d' = d \<or> (d' = d1 \<and> (\<forall>v. x = Inr v \<longrightarrow>
      (\<exists>tk. res = Inr tk \<and> tk_id tk = op_id v \<and> \<not> tk_replayed tk)))"
    unfolding begin_operation_def Let_def
    by (cases "begin_invalid m inp ?key now"; cases "find_key op_idempotencyKey ?key (db_ops seen)"; cases x)
       (auto split: option.splits if_splits)
  from cases state new b show ?thesis unfolding Let_def by auto
qed

lemma begin_fresh:
  assumes "begin_operation env m inp u1 u2 t fault seen d = (Inr tk, d')" "\<not> tk_replayed tk"
  shows "\<exists>v. begin_tx env inp (begin_key u1 inp) u2 t d = (Inr v, d') \<and> tk_id tk = op_id v"
proof -
  let ?key = "begin_key u1 inp"
  obtain x d1 where tx: "transaction fault (begin_tx env inp ?key u2 t) d = (x, d1)" by fastforce
  have failed: "begin_failed env inp ?key e d1 = Inr tk \<Longrightarrow> tk_replayed tk" for e
    by (auto simp: begin_failed_def replay_ticket_def split: if_splits option.splits)
  from assms(1) have valid: "begin_invalid m inp ?key t = None"
    by (auto simp: begin_operation_def Let_def split: option.splits)
  have none: "find_key op_idempotencyKey ?key (db_ops seen) = None"
    using assms valid by (auto simp: begin_operation_def Let_def replay_ticket_def split: option.splits)
  from assms valid none tx failed have "x = Inr v \<Longrightarrow> d1 = d' \<and> tk_id tk = op_id v" for v
    by (auto simp: begin_operation_def Let_def split: if_splits)
  moreover from assms valid none tx failed have "\<exists>v. x = Inr v"
    by (cases x) (auto simp: begin_operation_def Let_def split: if_splits)
  ultimately show ?thesis using tx by (auto simp: transaction_ok)
qed

lemma begin_tx_row:
  assumes "begin_tx env inp key u2 t d = (Inr v, d')"
  shows "v \<in> set (db_ops d')" "v = new_operation env inp key u2 t"
  using create_operation_ok(6) [OF begin_tx_ok(5) [OF assms]] begin_tx_ok(1) [OF assms] by simp_all

text \<open>a second \<open>begin\<close> with the same Idempotency-Key and the same request, at any later time and
  whatever happened in between, returns the ticket of the first and changes nothing.\<close>

theorem begin_is_idempotent:
  assumes "reachable env now d"
    and "begin_operation env m inp u1 u2 t fault seen d = (Inr tk, d')" "\<not> tk_replayed tk"
    and "truthy (map_option js_trim (bi_idempotencyKey inp)) \<noteq> None"
    and "run env now d' now' d''"
    and "begin_invalid m' inp (begin_key v1 inp) t' = None"
  shows "\<exists>r \<in> set (db_ops d''). op_id r = tk_id tk \<and>
    begin_operation env m' inp v1 v2 t' fault' d'' d'' = (Inr (replay_ticket r), d'')"
proof -
  let ?key = "begin_key u1 inp"
  have key: "begin_key v1 inp = ?key" using assms(4) by (auto simp: begin_key_def)
  from begin_fresh [OF assms(2,3)] obtain v where v: "begin_tx env inp ?key u2 t d = (Inr v, d')" "tk_id tk = op_id v" by blast
  note row = begin_tx_row [OF v(1)]
  have "op_step env now d (snd (begin_operation env m inp u1 u2 t fault seen d))" by (rule begin_step)
  with assms(1,2) have reach: "reachable env now d'" by (auto intro: stepped)
  from run_row [OF assms(5) reach row(1)] obtain r where r: "r \<in> set (db_ops d'')" "immutable_same v r" by blast
  from reachable_inv [OF run_reachable' [OF assms(5) reach]]
  have "keyed op_idempotencyKey (db_ops d'')" by (simp add: inv_defs)
  moreover have "op_idempotencyKey r = ?key"
    using r(2) row(2) by (simp add: immutable_same_def new_operation_sel)
  ultimately have find: "find_key op_idempotencyKey ?key (db_ops d'') = Some r"
    using r(1) by (simp add: find_key_iff)
  have "assertReplay r inp (request_hash env inp (begin_lock_key inp)) = None"
    using r(2) row(2) by (simp add: assertReplay_def immutable_same_def new_operation_def)
  with find assms(6) key have "begin_operation env m' inp v1 v2 t' fault' d'' d'' = (Inr (replay_ticket r), d'')"
    by (simp add: begin_operation_def Let_def)
  with r v(2) show ?thesis by (auto simp: immutable_same_def)
qed

theorem begin_is_idempotent_witness:
  "\<exists>r \<in> set (db_ops demo_claimed). op_id r = ''op-1'' \<and> op_status r = CLAIMED \<and>
     begin_operation demo_env False queued_request ''v'' ''op-9'' 20 None demo_claimed demo_claimed
       = (Inr (replay_ticket r), demo_claimed)"
proof -
  have claimed: "run demo_env 0 demo_queue 10 demo_claimed"
    using run_step [OF run_wait [OF run_here, of 0 10 demo_env demo_queue] claim_step [of 10 10 demo_env demo_queue "''worker-1''"]]
      demo_claim by simp
  have "\<exists>r \<in> set (db_ops demo_claimed). op_id r = ''op-1'' \<and>
     begin_operation demo_env False queued_request ''v'' ''op-9'' 20 None demo_claimed demo_claimed
       = (Inr (replay_ticket r), demo_claimed)"
    using begin_is_idempotent [OF initial queue_begin [unfolded demo_begin_def] _ _ claimed, of False "''v''" 20 "''op-9''" None]
      queued_valid [of 20] by (simp add: demo_begin_key) (simp add: request_defs demo_trim)
  moreover have "op_status r = CLAIMED" if "r \<in> set (db_ops demo_claimed)" for r
    using that by (auto simp: demo_claimed_def claim_write_def)
  ultimately show ?thesis by blast
qed



section \<open>Claims\<close>

lemma claim_candidate_first:
  assumes "claim_candidate t rows = Some r" "x \<in> set rows" "claimable t x"
  shows "claim_order r \<le> claim_order x"
proof -
  from assms(1) obtain rs where s: "sort_key claim_order (filter (claimable t) rows) = r # rs"
    by (auto simp: claim_candidate_def split: list.splits)
  have "x \<in> set (sort_key claim_order (filter (claimable t) rows))" using assms(2,3) by simp
  then have "x \<in> set (r # rs)" by (simp only: s)
  moreover have "sorted (map claim_order (r # rs))" using s by (metis sorted_sort_key)
  ultimately show ?thesis by auto
qed

lemma claim_candidate_None: "claim_candidate t rows = None \<longleftrightarrow> (\<forall>x \<in> set rows. \<not> claimable t x)"
proof -
  have "claim_candidate t rows = None \<longleftrightarrow> sort_key claim_order (filter (claimable t) rows) = []"
    by (auto simp: claim_candidate_def split: list.splits)
  also have "\<dots> \<longleftrightarrow> filter (claimable t) rows = []"
    by (metis length_0_conv length_sort)
  finally show ?thesis by (auto simp: filter_empty_conv)
qed

text \<open>the claim statement takes the oldest operation that may be claimed (by creation time, then id), only
  while fewer than two leases are live, gives it to the worker for thirty seconds with one more attempt
  if it was queued, and touches no other row and no lock.\<close>

theorem claim_takes_the_oldest:
  assumes "reachable env now d" "claim_sql w t d = (Some (k, recovering), d')"
  shows "\<exists>r \<in> set (db_ops d). op_id r = k \<and> claimable t r \<and> recovering = (op_status r = RECOVERING) \<and>
     (\<forall>x \<in> set (db_ops d). claimable t x \<longrightarrow> claim_order r \<le> claim_order x) \<and>
     count_rows (holds_slot t) (db_ops d) < 2 \<and>
     find_key op_id k (db_ops d') = Some (r\<lparr>op_status := CLAIMED,
        op_currentStep := Some (if recovering then ''reconcile'' else ''start''),
        op_attempt := (if recovering then op_attempt r else op_attempt r + 1),
        op_leaseOwner := Some w, op_leaseExpiresAt := Some (t + 30000), op_heartbeatAt := Some t,
        op_claimedAt := Some t, op_completedAt := None\<rparr>) \<and>
     (\<forall>j. j \<noteq> k \<longrightarrow> find_key op_id j (db_ops d') = find_key op_id j (db_ops d)) \<and> db_locks d' = db_locks d"
proof -
  from assms(2) obtain r where cand: "claim_candidate t (db_ops d) = Some r"
    and k: "k = op_id r" "recovering = (op_status r = RECOVERING)"
    and cap: "count_rows (holds_slot t) (db_ops d) < claim_capacity"
    and d': "d' = d\<lparr>db_ops := update_rows (\<lambda>x. op_id x = op_id r) (claim_write w t) (db_ops d)\<rparr>"
    by (auto simp: claim_sql_def split: option.splits if_splits)
  note r = claim_candidate_SomeD [OF cand]
  have key: "op_id (claim_write w t x) = op_id x" for x by (simp add: claim_write_def)
  have keyed: "keyed op_id (db_ops d)" using reachable_inv [OF assms(1)] by (simp add: inv_defs)
  then have find: "find_key op_id k (db_ops d) = Some r" using r k by (simp add: find_key_iff)
  have "find_key op_id k (db_ops d') = Some (claim_write w t r)"
    using find k by (simp add: d' find_key_update_rows key)
  moreover have "op_status r = RECOVERING \<or> op_status r = QUEUED" using r by (auto simp: claimable_def)
  moreover have "find_key op_id j (db_ops d') = find_key op_id j (db_ops d)" if "j \<noteq> k" for j
    using that k by (auto simp: d' find_key_update_rows key map_option_case split: option.splits dest: find_key_SomeD)
  ultimately show ?thesis
    using r k cap claim_candidate_first [OF cand]
    by (intro bexI [of _ r]) (auto simp: d' claim_write_def claim_capacity_def lease_ms_def)
qed

theorem claim_takes_the_oldest_witness:
  "\<exists>r \<in> set (db_ops demo_queue). op_id r = ''op-1'' \<and> claimable 10 r \<and> op_status r = QUEUED"
  using claim_takes_the_oldest [OF demo_queue_reachable [of 10] demo_claim]
  by (auto simp: demo_queue_def new_operation_cases)

text \<open>the claim statement returns nothing exactly when no operation may be claimed or two leases are
  live, and then it changes nothing: no waiting operation is passed over.\<close>

theorem claim_fails_only_when_idle_or_full:
  "claim_sql w t d = (None, d) \<longleftrightarrow>
     (\<forall>x \<in> set (db_ops d). \<not> claimable t x) \<or> 2 \<le> count_rows (holds_slot t) (db_ops d)"
proof -
  have "claim_sql w t d = (None, d) \<longleftrightarrow>
      claim_candidate t (db_ops d) = None \<or> \<not> count_rows (holds_slot t) (db_ops d) < claim_capacity"
    by (simp add: claim_sql_def split: option.splits)
  then show ?thesis by (auto simp: claim_candidate_None claim_capacity_def)
qed

theorem claim_fails_only_when_idle_or_full_witness:
  "claim_sql ''worker-2'' 11 demo_claimed = (None, demo_claimed)"
  unfolding claim_fails_only_when_idle_or_full
  by (simp add: demo_claimed_def demo_queue_def claim_write_def claimable_def)

section \<open>A worker without the lease\<close>

lemma guarded_update_miss:
  assumes "\<And>r. r \<in> set (db_ops d) \<Longrightarrow> \<not> P r"
  shows "guarded_update P f e d = (Inl e, d)"
proof -
  have "count_rows P (db_ops d) = 0" using assms by (simp add: count_rows_eq_0)
  then show ?thesis using assms by (simp add: guarded_update_def update_rows_none)
qed

lemma finalize_miss:
  assumes "\<And>r. r \<in> set (db_ops d) \<Longrightarrow> \<not> P r"
  shows "finalize_and_release k P f e d = (Inl e, d)"
  using guarded_update_miss [OF assms] by (simp add: finalize_and_release_def)

lemma finalization_miss:
  assumes "body d = (Inl e, d)"
  shows "\<exists>e. withFinalizationTransaction faults body d = (Inl e, d)"
proof -
  have "\<exists>e. finalization_loop n faults body d = (Inl e, d)" for n
  proof (induction n arbitrary: faults)
    case (Suc n)
    obtain x where "transaction (case faults of [] \<Rightarrow> None | f # _ \<Rightarrow> f) body d = (Inl x, d)"
      using assms by (cases "case faults of [] \<Rightarrow> None | f # _ \<Rightarrow> f") (simp_all add: transaction_def)
    with Suc.IH [of "tl faults"] show ?case by simp
  qed simp
  then show ?thesis by (simp add: withFinalizationTransaction_def)
qed

text \<open>C31: a worker that does not own the lease of an operation (it never had it, or the sweep or a restart
  took it away) cannot change it: start, heartbeat, success, failure, cancellation, retry and the
  request for attention all fail and leave the database as it is.\<close>

theorem stale_worker_changes_nothing:
  assumes "reachable env now d" "r \<in> set (db_ops d)" "op_leaseOwner r \<noteq> Some w" "c_id c = op_id r"
  shows "startClaimed (op_id r) w st t d = (Inl (Conflict ''Operation claim is stale''), d) \<and>
    heartbeatClaim (op_id r) w hst p t d = (False, d) \<and>
    (\<exists>e. succeedClaimed (op_id r) w res late t faults d = (Inl e, d)) \<and>
    (\<exists>e. failClaimed env (op_id r) w msg t faults d = (Inl e, d)) \<and>
    (\<exists>e. cancelClaimed (op_id r) w t faults d = (Inl e, d)) \<and>
    retryOrRequireAttention env c w msg t d = (Inl (Conflict ''Operation claim is stale''), d) \<and>
    requireAttention (op_id r) w msg t d = (Inl (Conflict ''Operation claim is stale''), d) \<and>
    \<not> isCancellationRequested (op_id r) w d"
proof -
  from reachable_inv [OF assms(1)] have keyed: "keyed op_id (db_ops d)" by (simp add: inv_defs)
  have no: "\<not> (op_id q = op_id r \<and> op_leaseOwner q = Some w)" if "q \<in> set (db_ops d)" for q
    using that assms(2,3) keyed by (auto simp: keyed_def dest: distinct_map_inj_onD)
  have start: "startClaimed (op_id r) w st t d = (Inl (Conflict ''Operation claim is stale''), d)"
    unfolding startClaimed_def by (rule guarded_update_miss) (use no in blast)
  have beat: "heartbeatClaim (op_id r) w hst p t d = (False, d)"
  proof -
    have miss: "\<not> heartbeat_guard (op_id r) w t q" if "q \<in> set (db_ops d)" for q
      using no [OF that] by (auto simp: heartbeat_guard_def)
    then have "count_rows (heartbeat_guard (op_id r) w t) (db_ops d) = 0" by (simp add: count_rows_eq_0)
    with miss show ?thesis by (simp add: heartbeatClaim_def update_rows_none)
  qed
  have lease: "\<not> leased_by (op_id r) w q" if "q \<in> set (db_ops d)" for q
    using no [OF that] by (auto simp: leased_by_def)
  have "find_first (\<lambda>q. op_id q = op_id r \<and> op_status q \<in> set [RUNNING, CANCEL_REQUESTED] \<and>
      op_leaseOwner q = Some w) (db_ops d) = None"
    unfolding find_first_None using no by blast
  then have "succeed_body (op_id r) w res late t d = (Inl (Conflict ''Operation claim is stale''), d)"
    by (simp add: succeed_body_def)
  then have succ: "\<exists>e. succeedClaimed (op_id r) w res late t faults d = (Inl e, d)"
    using finalization_miss by (auto simp: succeedClaimed_def split: option.split)
  have fail: "\<exists>e. failClaimed env (op_id r) w msg t faults d = (Inl e, d)"
    unfolding failClaimed_def by (rule finalization_miss, rule finalize_miss) (rule lease)
  have cancel: "\<exists>e. cancelClaimed (op_id r) w t faults d = (Inl e, d)"
    unfolding cancelClaimed_def by (rule finalization_miss, rule finalize_miss) (rule lease)
  have retry: "retryOrRequireAttention env c w msg t d = (Inl (Conflict ''Operation claim is stale''), d)"
    unfolding retryOrRequireAttention_def assms(4) by (rule guarded_update_miss) (rule lease)
  have attention: "requireAttention (op_id r) w msg t d = (Inl (Conflict ''Operation claim is stale''), d)"
    unfolding requireAttention_def by (rule guarded_update_miss) (rule no)
  have "find_first (\<lambda>q. op_id q = op_id r \<and> op_leaseOwner q = Some w) (db_ops d) = None"
    unfolding find_first_None using no by blast
  then have "\<not> isCancellationRequested (op_id r) w d" by (simp add: isCancellationRequested_def)
  with start beat succ fail cancel retry attention show ?thesis by blast
qed

theorem stale_worker_changes_nothing_witness:
  "requireAttention ''op-1'' ''worker-2'' [] 11 demo_claimed = (Inl (Conflict ''Operation claim is stale''), demo_claimed)"
proof -
  let ?r = "claim_write ''worker-1'' 10 (new_operation demo_env queued_request ''key-0001'' ''op-1'' 0)"
  let ?c = "claimed_view ?r False [] 0 (JNull, JNull)"
  have "?r \<in> set (db_ops demo_claimed)" "op_leaseOwner ?r \<noteq> Some ''worker-2''" "c_id ?c = op_id ?r" "op_id ?r = ''op-1''"
    by (simp_all add: demo_claimed_def demo_queue_def claim_write_def claimed_view_def new_operation_sel)
  from stale_worker_changes_nothing [OF demo_claimed_reachable [of 11] this(1-3)] this(4)
  show ?thesis by simp
qed

section \<open>Completion\<close>

definition timed_out :: "db_error \<Rightarrow> bool" where
  "timed_out e = isExplicitPrismaTransactionTimeout (DbFault e)"

lemma loop_after_timeouts:
  assumes "list_all timed_out es" "body d = (Inr v, d')"
  shows "finalization_loop (length es + Suc n) (map Some es @ None # rest) body d = (Inr v, d')"
  using assms
proof (induction es)
  case (Cons e es)
  then show ?case by (simp add: transaction_def timed_out_def)
qed (simp add: transaction_def)

lemma loop_gives_up:
  assumes "list_all timed_out es" "es \<noteq> []"
  shows "finalization_loop (length es) (map Some es @ rest) body d = (Inl (DbFault (last es)), d)"
  using assms
proof (induction es)
  case (Cons e es)
  then show ?case by (cases es) (simp_all add: transaction_def timed_out_def)
qed simp

text \<open>the transaction that finishes an operation is retried only while the database client reports that
  it timed out. After at most two time-outs the body is committed exactly once; after three the last
  time-out is reported and nothing has changed.\<close>

theorem finalization_survives_two_timeouts:
  assumes "list_all timed_out es" "body d = (Inr v, d')"
  shows "(length es \<le> 2 \<longrightarrow> withFinalizationTransaction (map Some es @ None # rest) body d = (Inr v, d')) \<and>
    (length es = 3 \<longrightarrow> withFinalizationTransaction (map Some es @ rest) body d = (Inl (DbFault (last es)), d))"
proof (intro conjI impI)
  assume "length es \<le> 2"
  then have three: "length es + Suc (2 - length es) = 3" by simp
  have "finalization_loop (length es + Suc (2 - length es)) (map Some es @ None # rest) body d = (Inr v, d')"
    by (rule loop_after_timeouts) (rule assms)+
  then show "withFinalizationTransaction (map Some es @ None # rest) body d = (Inr v, d')"
    unfolding three by (simp only: withFinalizationTransaction_def FINALIZATION_TRANSACTION_MAX_ATTEMPTS_def)
next
  assume three: "length es = 3"
  then have "es \<noteq> []" by auto
  have "finalization_loop (length es) (map Some es @ rest) body d = (Inl (DbFault (last es)), d)"
    by (rule loop_gives_up) (rule assms(1), fact)
  then show "withFinalizationTransaction (map Some es @ rest) body d = (Inl (DbFault (last es)), d)"
    unfolding three by (simp only: withFinalizationTransaction_def FINALIZATION_TRANSACTION_MAX_ATTEMPTS_def)
qed

definition demo_timeout :: db_error where
  "demo_timeout = \<lparr>err_code = ''P2028'', err_meta_code = None, err_meta_error = None,
     err_message = ''Transaction API error: the transaction timed out''\<rparr>"

theorem finalization_survives_two_timeouts_witness:
  "withFinalizationTransaction [Some demo_timeout, Some demo_timeout, None] (\<lambda>d. (Inr (), release_locks ''op-1'' d)) demo_claimed
     = (Inr (), release_locks ''op-1'' demo_claimed)"
proof -
  have "list_all timed_out [demo_timeout, demo_timeout]"
    using timeout_examples(1) by (simp add: timed_out_def demo_timeout_def)
  from finalization_survives_two_timeouts [where rest = "[]" and body = "\<lambda>d. (Inr (), release_locks ''op-1'' d)"
      and d = demo_claimed, OF this refl]
  show ?thesis by simp
qed

lemma finalization_cases:
  "(\<exists>v. fst (finalization_loop n faults body d) = Inr v \<and> body d = (Inr v, snd (finalization_loop n faults body d))) \<or>
   (\<exists>e. fst (finalization_loop n faults body d) = Inl e \<and> snd (finalization_loop n faults body d) = d)"
proof (induction n arbitrary: faults)
  case (Suc n)
  let ?f = "case faults of [] \<Rightarrow> None | f # _ \<Rightarrow> f"
  obtain r d1 where t: "transaction ?f body d = (r, d1)" by fastforce
  show ?case
  proof (cases r)
    case (Inl e)
    with t have "d1 = d" using transaction_error [of ?f body d e] by simp
    with Suc.IH [of "tl faults"] t Inl show ?thesis by simp
  next
    case (Inr v)
    with t have "body d = (Inr v, d1)" by (simp add: transaction_ok)
    with t Inr show ?thesis by simp
  qed
qed simp

text \<open>whatever the database client does, a call that finishes an operation either returns with the body
  committed once, or throws and leaves the database as it was.\<close>

theorem finalization_is_atomic:
  "(\<exists>v. fst (withFinalizationTransaction faults body d) = Inr v \<and>
        body d = (Inr v, snd (withFinalizationTransaction faults body d))) \<or>
   (\<exists>e. fst (withFinalizationTransaction faults body d) = Inl e \<and>
        snd (withFinalizationTransaction faults body d) = d)"
  unfolding withFinalizationTransaction_def by (rule finalization_cases)

lemma finalize_exact:
  assumes "finalize_and_release k P f e d = (Inr v, d')" "keyed op_id (db_ops d)"
    and "\<And>r. P r \<Longrightarrow> op_id r = k" "\<And>r. op_id (f r) = op_id r"
  obtains r where "r \<in> set (db_ops d)" "op_id r = k" "P r" "find_key op_id k (db_ops d') = Some (f r)"
    "\<And>j. j \<noteq> k \<Longrightarrow> find_key op_id j (db_ops d') = find_key op_id j (db_ops d)"
    "db_locks d' = filter (\<lambda>l. lk_operationId l \<noteq> k) (db_locks d)"
proof -
  have one: "count_rows P (db_ops d) = 1" and d': "d' = changed P f (\<lambda>l. lk_operationId l = k) d"
    using assms(1) finalize_ok_state [OF assms(1)] finalize_result [of k P f e d] by (auto split: if_splits)
  from one obtain r where r: "r \<in> set (db_ops d)" "P r"
    by (metis count_rows_eq_0 zero_neq_one)
  with assms(3) have rk: "op_id r = k" by blast
  have find: "find_key op_id k (db_ops d) = Some r" using r(1) rk assms(2) by (simp add: find_key_iff)
  have hit: "find_key op_id k (db_ops d') = Some (f r)"
    using find r(2) by (simp add: d' find_key_update_rows assms(4))
  have other: "find_key op_id j (db_ops d') = find_key op_id j (db_ops d)" if "j \<noteq> k" for j
    using that assms(3)
    by (auto simp: d' find_key_update_rows assms(4) map_option_case split: option.splits dest: find_key_SomeD)
  show thesis by (rule that [OF r(1) rk r(2) hit other]) (simp_all add: d' delete_rows_def)
qed

text \<open>when a worker reports success and the call returns, the operation it had leased has succeeded with
  that result and without a lease, its locks are gone and no others, and no other operation changed;
  and the stored result has, at any depth, no member whose name looks like a credential.\<close>

theorem success_is_recorded:
  assumes "reachable env now d" "succeedClaimed k w res late t faults d = (Inr v, d')"
  shows "\<exists>r \<in> set (db_ops d). op_id r = k \<and> op_leaseOwner r = Some w \<and> op_status r \<in> {RUNNING, CANCEL_REQUESTED} \<and>
    find_key op_id k (db_ops d') = Some (r\<lparr>op_status := SUCCEEDED, op_currentStep := None, op_progress := 100,
       op_result := result_column res, op_errorMessage := None, op_completedAt := Some t,
       op_cancelOutcome := Some (if late \<or> op_status r = CANCEL_REQUESTED \<or> op_cancelRequestedAt r \<noteq> None
         then TOO_LATE else NOT_REQUESTED),
       op_leaseOwner := None, op_leaseExpiresAt := None, op_heartbeatAt := None\<rparr>) \<and>
    (\<forall>j. j \<noteq> k \<longrightarrow> find_key op_id j (db_ops d') = find_key op_id j (db_ops d)) \<and>
    db_locks d' = filter (\<lambda>l. lk_operationId l \<noteq> k) (db_locks d) \<and>
    (\<forall>p key. member_at ''result'' res p key \<longrightarrow> allowed_member p key)"
proof -
  have keyed: "keyed op_id (db_ops d)" using reachable_inv [OF assms(1)] by (simp add: inv_defs)
  from assms(2) have safe: "assertNoSecretFields ''result'' res = None"
    and "withFinalizationTransaction faults (succeed_body k w res late t) d = (Inr v, d')"
    by (auto simp: succeedClaimed_def split: option.splits)
  then have "succeed_body k w res late t d = (Inr v, d')"
    using finalization_cases [of FINALIZATION_TRANSACTION_MAX_ATTEMPTS faults "succeed_body k w res late t" d]
    by (auto simp: withFinalizationTransaction_def)
  then obtain c where c: "c \<in> set (db_ops d)" "op_id c = k" "op_leaseOwner c = Some w"
    "op_status c \<in> {RUNNING, CANCEL_REQUESTED}"
    and fin: "finalize_and_release k (\<lambda>r. op_id r = k \<and> op_status r = op_status c \<and> op_leaseOwner r = Some w)
         (succeed_write res (late \<or> op_status c = CANCEL_REQUESTED \<or> op_cancelRequestedAt c \<noteq> None) t)
         (Conflict ''Operation claim is stale'') d = (Inr v, d')" by (rule succeed_body_ok)
  show ?thesis
  proof (rule finalize_exact [OF fin keyed])
    fix r assume r: "r \<in> set (db_ops d)" "op_id r = k"
      and after: "find_key op_id k (db_ops d') = Some (succeed_write res
         (late \<or> op_status c = CANCEL_REQUESTED \<or> op_cancelRequestedAt c \<noteq> None) t r)"
        "\<And>j. j \<noteq> k \<Longrightarrow> find_key op_id j (db_ops d') = find_key op_id j (db_ops d)"
        "db_locks d' = filter (\<lambda>l. lk_operationId l \<noteq> k) (db_locks d)"
    have "r = c" using r c(1,2) keyed by (auto simp: keyed_def dest: distinct_map_inj_onD)
    with after c safe show ?thesis
      by (intro bexI [OF _ c(1)]) (simp add: succeed_write_def drop_lease_def no_secret_iff)
  qed (simp_all add: succeed_write_def drop_lease_def)
qed

definition demo_running :: db where
  "demo_running = demo_claimed\<lparr>db_ops := map (\<lambda>r. r\<lparr>op_status := RUNNING, op_currentStep := Some ''dump'',
     op_startedAt := Some 11, op_heartbeatAt := Some 11\<rparr>) (db_ops demo_claimed)\<rparr>"

lemma demo_start: "startClaimed ''op-1'' ''worker-1'' ''dump'' 11 demo_claimed = (Inr (), demo_running)"
  by (simp add: startClaimed_def guarded_update_def demo_running_def demo_claimed_def demo_queue_def claim_write_def
    count_rows_def update_rows_def lease_alive_def lease_ms_def new_operation_sel)

lemma demo_running_reachable: "11 \<le> t \<Longrightarrow> reachable demo_env t demo_running"
  using stepped [OF demo_claimed_reachable, of t] startClaimed_step [of demo_env t demo_claimed "''op-1''" "''worker-1''" "''dump''" 11]
    demo_start by simp

lemma demo_result_safe: "assertNoSecretFields ''result'' (JObj [(''bytes'', JNum 4)]) = None"
proof -
  have "\<not> secret_name ''bytes''" by (rule not_secret_name) code_simp
  then show ?thesis by simp
qed

definition demo_succeeded :: "json \<Rightarrow> db" where
  "demo_succeeded res = demo_running\<lparr>db_ops := map (succeed_write res False 12) (db_ops demo_running), db_locks := []\<rparr>"

lemma demo_succeed:
  assumes "assertNoSecretFields ''result'' res = None"
  shows "succeedClaimed ''op-1'' ''worker-1'' res False 12 [] demo_running = (Inr (), demo_succeeded res)"
  unfolding succeedClaimed_def assms
  by (simp add: withFinalizationTransaction_def transaction_def
    FINALIZATION_TRANSACTION_MAX_ATTEMPTS_def eval_nat_numeral succeed_body_def finalize_and_release_def guarded_update_def release_locks_def
    demo_running_def demo_claimed_def demo_queue_def demo_succeeded_def claim_write_def table_simps update_rows_def
    delete_rows_def new_operation_sel)

lemma demo_succeeded_reachable:
  "assertNoSecretFields ''result'' res = None \<Longrightarrow> 12 \<le> t \<Longrightarrow> reachable demo_env t (demo_succeeded res)"
  using stepped [OF demo_running_reachable, of t] demo_succeed [of res]
    succeedClaimed_step [of demo_env t demo_running "''op-1''" "''worker-1''" res False 12 "[]"] by simp

theorem success_is_recorded_witness:
  "\<exists>r. find_key op_id ''op-1'' (db_ops (demo_succeeded (JObj [(''bytes'', JNum 4)]))) = Some r \<and> op_status r = SUCCEEDED \<and>
     op_cancelOutcome r = Some NOT_REQUESTED \<and> db_locks (demo_succeeded (JObj [(''bytes'', JNum 4)])) = []"
  using success_is_recorded [OF demo_running_reachable [of 12] demo_succeed [OF demo_result_safe]]
  by (auto simp: demo_running_def demo_claimed_def demo_queue_def claim_write_def new_operation_sel demo_succeeded_def)

section \<open>Views\<close>

text \<open>an operation is shown exactly to an administrator, to the user who created it and to the owner of
  its Site; everybody else gets \<open>Access denied\<close>, and an unknown id \<open>Operation not found\<close>.\<close>

theorem access_is_checked:
  "getById k u role d =
     (case find_key op_id k (db_ops d) of
        None \<Rightarrow> Inl (NotFound ''Operation not found'')
      | Some r \<Rightarrow>
          if role = ''ADMIN'' \<or> op_createdByUserId r = u \<or>
             (\<exists>s site. op_siteId r = Some s \<and> find_key st_id s (db_sites d) = Some site \<and> st_userId site = u)
          then Inr (view_of d r, map (view_of d) (sort_key op_createdAt
                 (filter (\<lambda>c. op_parentOperationId c = Some k) (db_ops d))))
          else Inl (Forbidden ''Access denied''))"
  by (auto simp: getById_def access_denied_def site_owner_def split: option.split)

lemma list_order_inj: "list_order r = list_order q \<Longrightarrow> op_id r = op_id q"
  by (simp add: list_order_def)

lemma sorted_desc_drop:
  assumes "sorted (map f (rev xs))" "distinct (map f xs)" "n < length xs"
  shows "dropWhile (\<lambda>x. f x > f (xs ! n)) xs = drop n xs"
proof -
  have gt: "f (xs ! i) > f (xs ! n)" if "i < n" for i
  proof -
    have "sorted_wrt (\<lambda>x y. f x \<ge> f y) xs"
      using assms(1) by (simp add: sorted_wrt_rev sorted_wrt_map rev_map)
    then have "f (xs ! n) \<le> f (xs ! i)" using that assms(3) by (simp add: sorted_wrt_iff_nth_less)
    moreover have "f (xs ! i) \<noteq> f (xs ! n)"
      using that assms(2,3) by (auto simp: distinct_conv_nth)
    ultimately show ?thesis by simp
  qed
  have "dropWhile (\<lambda>x. f x > f (xs ! n)) (take n xs @ drop n xs)
      = dropWhile (\<lambda>x. f x > f (xs ! n)) (drop n xs)"
    by (rule dropWhile_append2) (use gt assms(3) in \<open>auto simp: in_set_conv_nth\<close>)
  also have "\<dots> = drop n xs"
    by (subst (1 2) Cons_nth_drop_Suc [symmetric, OF assms(3)]) simp
  finally show ?thesis by simp
qed

text \<open>following \<open>nextCursor\<close> reads on exactly after the last row of the page, so the pages are
  disjoint and nothing visible is skipped, as long as the table does not change in between.\<close>

theorem pages_continue:
  assumes "reachable env now d"
    and "list_page u role status None limit d = (page, Some c)" "c \<noteq> []"
  shows "length page = page_limit limit \<and>
    list_rows u role status None d = page @ list_rows u role status (Some c) d"
proof -
  let ?n = "page_limit limit"
  let ?rows = "list_rows u role status None d"
  have n: "0 < ?n" by (simp add: page_limit_def)
  from assms(2) have page: "page = take ?n ?rows" and more: "?n < length ?rows" and c: "c = op_id (last page)"
    by (auto simp: list_page_def Let_def split: if_splits)
  let ?r = "?rows ! (?n - 1)"
  have last: "last page = ?r" using page more n by (subst last_conv_nth) (auto simp: min_def)
  have keyed: "keyed op_id (db_ops d)" using reachable_inv [OF assms(1)] by (simp add: inv_defs)
  have rows: "?rows = rev (sort_key list_order (filter (visible d u role status) (db_ops d)))"
    by (simp add: list_rows_def Let_def)
  have "?r \<in> set ?rows" using more n by (simp add: nth_mem less_imp_diff_less)
  then have "?r \<in> set (db_ops d)" unfolding rows by simp
  with keyed c last have find: "find_key op_id c (db_ops d) = Some ?r" by (simp add: find_key_iff)
  have "distinct (map op_id (filter (visible d u role status) (db_ops d)))"
    using keyed by (simp add: keyed_def distinct_map_filter)
  then have "distinct (map op_id ?rows)"
    unfolding rows by (simp add: distinct_map inj_on_def)
  then have dist: "distinct (map list_order ?rows)"
    by (auto simp: distinct_map inj_on_def dest: list_order_inj)
  have "sorted (map list_order (rev ?rows))" unfolding rows by simp
  from sorted_desc_drop [OF this dist, of "?n - 1"]
  have drop: "dropWhile (\<lambda>x. list_order x > list_order ?r) ?rows = drop (?n - 1) ?rows" using more by simp
  have "list_rows u role status (Some c) d = drop 1 (drop (?n - 1) ?rows)"
    using assms(3) find drop by (cases c) (simp_all add: list_rows_def Let_def)
  also have "\<dots> = drop ?n ?rows" using n by simp
  finally show ?thesis using page more by simp
qed

theorem pages_continue_witness:
  "length (list_rows ''u1'' ''ADMIN'' None None demo_sites) = 2 \<and>
   length (list_rows ''u1'' ''ADMIN'' None (Some ''op-3'') demo_sites) = 1"
proof -
  let ?a = "new_operation demo_env inline_request ''key-0002'' ''op-2'' 1"
  let ?b = "new_operation demo_env child_request ''key-0003'' ''op-3'' 2"
  have rows: "list_rows ''u1'' ''ADMIN'' None None demo_sites = [?b, ?a]"
    by (simp add: list_rows_def visible_def demo_sites_def demo_parent_def list_order_def new_operation_sel)
  then have page: "list_page ''u1'' ''ADMIN'' None None (Some 1) demo_sites = ([?b], Some ''op-3'')"
    by (simp add: list_page_def Let_def page_limit_def new_operation_sel)
  from pages_continue [OF demo_sites_reachable [of 2] page] rows
  have "list_rows ''u1'' ''ADMIN'' None (Some ''op-3'') demo_sites = [?a]" by auto
  with rows show ?thesis by simp
qed

section \<open>Cancellation\<close>

text \<open>a cancellation by somebody with access, on an operation that has not been cancelled before: one
  that waits (pending, queued, recovering) is cancelled at once and its locks are released; one that a
  worker or the API executes is marked, keeps its locks and waits for its executor; a finished one is
  returned as it is; and one that needs reconciliation is refused.\<close>

theorem cancellation_by_state:
  assumes "reachable env now d" "r \<in> set (db_ops d)" "\<not> access_denied d r u role" "op_cancelRequestedAt r = None"
  shows "case requestCancellation (op_id r) u role t None d d of (res, d') \<Rightarrow>
    (if op_status r \<in> {PENDING, QUEUED, RECOVERING} then
       \<not> isl res \<and> find_key op_id (op_id r) (db_ops d') = Some (r\<lparr>op_status := CANCELLED, op_cancelRequestedAt := Some t,
         op_cancelOutcome := Some CO_CANCELLED, op_completedAt := Some t, op_currentStep := None\<rparr>) \<and>
       db_locks d' = filter (\<lambda>l. lk_operationId l \<noteq> op_id r) (db_locks d)
     else if op_status r \<in> {CLAIMED, RUNNING} then
       \<not> isl res \<and> find_key op_id (op_id r) (db_ops d') = Some (r\<lparr>op_status := CANCEL_REQUESTED,
         op_cancelRequestedAt := Some t, op_cancelOutcome := Some CO_PENDING\<rparr>) \<and> db_locks d' = db_locks d
     else if op_status r \<in> {CANCELLED, SUCCEEDED, FAILED} then \<not> isl res \<and> d' = d
     else isl res \<and> d' = d)"
proof -
  have keyed: "keyed op_id (db_ops d)" using reachable_inv [OF assms(1)] by (simp add: inv_defs)
  with assms(2) have find: "find_key op_id (op_id r) (db_ops d) = Some r" by (simp add: find_key_iff)
  have count: "count_rows (\<lambda>x. op_id x = op_id r \<and> Q x) (db_ops d) = (if Q r then 1 else 0)" for Q
    using count_rows_key [OF keyed, of "op_id r" Q] find by simp
  have view: "\<not> isl (getById (op_id r) u role d')"
    if "find_key op_id (op_id r) (db_ops d') = Some q" "op_createdByUserId q = op_createdByUserId r"
      "op_siteId q = op_siteId r" "db_sites d' = db_sites d" for d' q
  proof -
    have "site_owner d' q = site_owner d r"
      using that(3,4) by (simp add: site_owner_def cong: option.case_cong)
    with that assms(3) show ?thesis by (simp add: getById_def access_denied_def)
  qed
  show ?thesis
  proof -
    let ?tx = "transaction None (cancel_tx (op_id r) (op_status r) t) d"
    consider (wait) "op_status r \<in> {PENDING, QUEUED, RECOVERING}" | (exec) "op_status r \<in> {CLAIMED, RUNNING}"
      | (marked) "op_status r = CANCEL_REQUESTED"
      | (other) "op_status r \<in> {CANCELLED, SUCCEEDED, FAILED, UNKNOWN_RECOVERY_REQUIRED, NEEDS_ATTENTION}"
      by (cases "op_status r") auto
    then show ?thesis
    proof cases
      case wait
      let ?P = "\<lambda>x. op_id x = op_id r \<and> op_status x = op_status r \<and> op_cancelRequestedAt x = None"
      let ?d = "changed ?P (cancel_now_write t) (\<lambda>l. lk_operationId l = op_id r) d"
      have tx: "?tx = (Inr (), ?d)"
        using wait count [of "\<lambda>x. op_status x = op_status r \<and> op_cancelRequestedAt x = None"] assms(4)
        by (auto simp: transaction_def cancel_tx_def finalize_and_release_def guarded_update_def release_locks_def
          changed_def)
      have row: "find_key op_id (op_id r) (db_ops ?d) = Some (cancel_now_write t r)"
        using find assms(4) by (simp add: find_key_update_rows cancel_now_write_def)
      have "\<not> isl (getById (op_id r) u role ?d)"
        by (rule view [OF row]) (simp_all add: cancel_now_write_def changed_def)
      moreover have "requestCancellation (op_id r) u role t None d d = (getById (op_id r) u role ?d, ?d)"
        unfolding requestCancellation_def find option.case using wait assms(3) tx by auto
      ultimately show ?thesis
        using wait row by (simp only: case_prod_conv if_True simp_thms) (simp add: cancel_now_write_def delete_rows_def)
    next
      case exec
      let ?P = "\<lambda>x. op_id x = op_id r \<and> op_status x \<in> set [CLAIMED, RUNNING] \<and> op_cancelRequestedAt x = None"
      let ?d = "changed ?P (cancel_request_write t) (\<lambda>_. False) d"
      have tx: "?tx = (Inr (), ?d)"
        using exec count [of "\<lambda>x. op_status x \<in> set [CLAIMED, RUNNING] \<and> op_cancelRequestedAt x = None"] assms(4)
        by (auto simp: transaction_def cancel_tx_def guarded_update_def changed_no_locks)
      have row: "find_key op_id (op_id r) (db_ops ?d) = Some (cancel_request_write t r)"
        using find assms(4) exec by (auto simp: find_key_update_rows cancel_request_write_def)
      have "\<not> isl (getById (op_id r) u role ?d)"
        by (rule view [OF row]) (simp_all add: cancel_request_write_def changed_def)
      moreover have "requestCancellation (op_id r) u role t None d d = (getById (op_id r) u role ?d, ?d)"
        unfolding requestCancellation_def find option.case using exec assms(3) tx by auto
      moreover have "op_status r \<notin> {PENDING, QUEUED, RECOVERING}" using exec by auto
      ultimately show ?thesis
        using exec row by (simp only: case_prod_conv if_True if_False simp_thms) (simp add: cancel_request_write_def delete_rows_def)
    next
      case marked
      have "?tx = (Inl (Conflict ''Operation state changed''), d)"
        using marked count [of "\<lambda>x. op_status x \<in> set [CLAIMED, RUNNING] \<and> op_cancelRequestedAt x = None"]
        by (simp add: transaction_def cancel_tx_def guarded_update_def)
      with marked find assms(3) show ?thesis by (simp add: requestCancellation_def)
    next
      case other
      with find assms(3) view [OF find] show ?thesis by (auto simp: requestCancellation_def)
    qed
  qed
qed

theorem cancellation_by_state_witness:
  "db_locks (snd (requestCancellation ''op-1'' ''u1'' ''USER'' 12 None demo_queue demo_queue)) = [] \<and>
   db_locks (snd (requestCancellation ''op-1'' ''u1'' ''USER'' 12 None demo_running demo_running)) = db_locks demo_queue"
proof
  let ?r = "new_operation demo_env queued_request ''key-0001'' ''op-1'' 0"
  have r: "?r \<in> set (db_ops demo_queue)" "\<not> access_denied demo_queue ?r ''u1'' ''USER''"
    "op_cancelRequestedAt ?r = None" "op_status ?r = QUEUED" "op_id ?r = ''op-1''"
    by (simp_all add: demo_queue_def access_denied_def new_operation_sel new_operation_cases)
  from cancellation_by_state [OF demo_queue_reachable [of 12] r(1-3), of 12] r(4,5)
  show "db_locks (snd (requestCancellation ''op-1'' ''u1'' ''USER'' 12 None demo_queue demo_queue)) = []"
    by (simp add: split_beta demo_queue_def)
  obtain q where q: "q \<in> set (db_ops demo_running)" "\<not> access_denied demo_running q ''u1'' ''USER''"
    "op_cancelRequestedAt q = None" "op_status q = RUNNING" "op_id q = ''op-1''"
    by (auto simp: demo_running_def demo_claimed_def demo_queue_def access_denied_def claim_write_def new_operation_sel)
  from cancellation_by_state [OF demo_running_reachable [of 12] q(1-3), of 12] q(4,5)
  show "db_locks (snd (requestCancellation ''op-1'' ''u1'' ''USER'' 12 None demo_running demo_running)) = db_locks demo_queue"
    by (simp add: split_beta demo_running_def demo_claimed_def)
qed

section \<open>Where the ledger departs from its contract\<close>

text \<open>the transitions that the ledger makes and the table of \<open>operation-contract.ts\<close> forbids. They are
  exactly these thirteen: an operation may finish or be cancelled without the intermediate states, an
  executed one may go back to the queue, and a recovering one is claimed again.\<close>

theorem edges_outside_the_contract:
  "filter (\<lambda>(s, t). assertOperationTransition s t \<noteq> None) SERVICE_EDGES =
     [(PENDING, RUNNING), (PENDING, SUCCEEDED), (PENDING, NEEDS_ATTENTION), (QUEUED, NEEDS_ATTENTION),
      (CLAIMED, CANCEL_REQUESTED), (CLAIMED, CANCELLED), (RUNNING, QUEUED), (RUNNING, CANCELLED),
      (RECOVERING, CLAIMED), (RECOVERING, CANCELLED), (CANCEL_REQUESTED, QUEUED),
      (CANCEL_REQUESTED, RECOVERING), (CANCEL_REQUESTED, SUCCEEDED)]"
  by code_simp

section \<open>Operations that get stuck\<close>

definition demo_cancel_claimed :: db where
  "demo_cancel_claimed = demo_claimed\<lparr>db_ops := map (cancel_request_write 12) (db_ops demo_claimed)\<rparr>"

definition demo_stranded :: db where
  "demo_stranded = demo_claimed\<lparr>db_ops := map (\<lambda>r. restart_recover_write (cancel_request_write 12 r)) (db_ops demo_claimed)\<rparr>"

lemma demo_claimed_ops:
  "db_ops demo_claimed = [claim_write ''worker-1'' 10 (new_operation demo_env queued_request ''key-0001'' ''op-1'' 0)]"
  by (simp add: demo_claimed_def demo_queue_def)

lemma demo_cancel_claimed_step:
  "snd (requestCancellation ''op-1'' ''u1'' ''USER'' 12 None demo_claimed demo_claimed) = demo_cancel_claimed"
proof -
  have "transaction None (cancel_tx ''op-1'' CLAIMED 12) demo_claimed = (Inr (), demo_cancel_claimed)"
    by (simp add: transaction_def cancel_tx_def guarded_update_def demo_claimed_ops demo_cancel_claimed_def
      claim_write_def count_rows_def update_rows_def new_operation_sel)
  then show ?thesis
    by (simp add: requestCancellation_def demo_claimed_ops table_simps claim_write_def access_denied_def new_operation_sel)
qed

lemma demo_restart: "onModuleInit 20 demo_cancel_claimed = demo_stranded"
  by (simp add: onModuleInit_def restart_tx_def Let_def interrupted_def recovers_def recoverable_def
    demo_cancel_claimed_def demo_claimed_ops demo_stranded_def claim_write_def cancel_request_write_def
    update_rows_def new_operation_cases new_operation_sel demo_queued_def)

lemma demo_stranded_reachable: "20 \<le> t \<Longrightarrow> reachable demo_env t demo_stranded"
proof -
  assume t: "20 \<le> t"
  have "reachable demo_env t demo_cancel_claimed"
    using stepped [OF demo_claimed_reachable, of t] t
      cancel_step [of demo_env t demo_claimed "''op-1''" "''u1''" "''USER''" 12 None demo_claimed]
    by (simp add: demo_cancel_claimed_step)
  then show ?thesis using stepped [OF _ restart_step [of demo_env t demo_cancel_claimed 20]] demo_restart by simp
qed

text \<open>C32: a queued operation whose cancellation was requested when the API restarted is stranded. The restart
  makes it \<open>RECOVERING\<close> and keeps \<open>cancel_requested_at\<close>; from then on no worker can claim it, no user can
  cancel it, and no sweep before its deadline touches it, while it keeps its locks.\<close>

theorem restart_strands_a_cancelled_operation:
  "reachable demo_env 20 demo_stranded \<and>
   (\<exists>r \<in> set (db_ops demo_stranded). op_status r = RECOVERING \<and> op_cancelRequestedAt r \<noteq> None) \<and>
   (\<forall>w t. claim_sql w t demo_stranded = (None, demo_stranded)) \<and>
   (\<forall>u role t fault. isl (fst (requestCancellation ''op-1'' u role t fault demo_stranded demo_stranded))) \<and>
   (\<forall>t < 100000. maintainQueue t demo_stranded = demo_stranded) \<and> db_locks demo_stranded \<noteq> []"
proof (intro conjI allI impI)
  let ?r = "restart_recover_write (cancel_request_write 12 (claim_write ''worker-1'' 10
      (new_operation demo_env queued_request ''key-0001'' ''op-1'' 0)))"
  have ops: "db_ops demo_stranded = [?r]" by (simp add: demo_stranded_def demo_claimed_ops)
  have r: "op_status ?r = RECOVERING" "op_cancelRequestedAt ?r = Some 12" "op_id ?r = ''op-1''"
    "op_deadlineAt ?r = Some 100000" "op_executionMode ?r = MODE_QUEUED"
    by (simp_all add: restart_recover_write_def cancel_request_write_def claim_write_def new_operation_sel
      new_operation_cases demo_queued_def)
  show "reachable demo_env 20 demo_stranded" by (rule demo_stranded_reachable) simp
  show "\<exists>r \<in> set (db_ops demo_stranded). op_status r = RECOVERING \<and> op_cancelRequestedAt r \<noteq> None"
    using ops r by simp
  show "claim_sql w t demo_stranded = (None, demo_stranded)" for w t
    by (simp add: claim_sql_def claim_candidate_def claimable_def ops r)
  show "isl (fst (requestCancellation ''op-1'' u role t fault demo_stranded demo_stranded))" for u role t fault
  proof -
    have "isl (fst (transaction fault (cancel_tx ''op-1'' RECOVERING t) demo_stranded))"
      by (cases fault) (simp_all add: transaction_def cancel_tx_def finalize_and_release_def guarded_update_def
        ops r count_rows_def)
    moreover obtain x d' where "transaction fault (cancel_tx ''op-1'' RECOVERING t) demo_stranded = (x, d')" by fastforce
    ultimately show ?thesis
      by (cases x) (simp_all add: requestCancellation_def ops r table_simps)
  qed
  show "maintainQueue t demo_stranded = demo_stranded" if "t < 100000" for t
    using that by (simp add: maintainQueue_def find_many_def lost_lease_def expired_in_queue_def deadline_passed_def
      ops r status_defs)
  show "db_locks demo_stranded \<noteq> []"
    by (simp add: demo_stranded_def demo_claimed_def demo_queue_def)
qed

theorem restart_strands_a_cancelled_operation_witness: "maintainQueue 500 demo_stranded = demo_stranded"
  using restart_strands_a_cancelled_operation by simp

definition demo_inline_running :: db where
  "demo_inline_running = demo_parent\<lparr>db_ops := map (\<lambda>r. r\<lparr>op_status := RUNNING,
     op_currentStep := Some ''copy'', op_startedAt := Some 2, op_progress := 0\<rparr>) (db_ops demo_parent)\<rparr>"

definition demo_inline_cancelled :: db where
  "demo_inline_cancelled = demo_inline_running\<lparr>db_ops := map (cancel_request_write 3) (db_ops demo_inline_running)\<rparr>"

lemma demo_inline_running_ops:
  "db_ops demo_inline_running = [(new_operation demo_env inline_request ''key-0002'' ''op-2'' 1)\<lparr>op_status := RUNNING,
     op_currentStep := Some ''copy'', op_startedAt := Some 2, op_progress := 0\<rparr>]"
  by (simp add: demo_inline_running_def demo_parent_def)

lemma demo_inline_start: "snd (start ''op-2'' ''copy'' 2 demo_parent) = demo_inline_running"
  by (simp add: start_def guarded_update_def demo_parent_def demo_inline_running_def update_rows_def new_operation_sel
    new_operation_cases)

lemma demo_inline_cancel:
  "snd (requestCancellation ''op-2'' ''u1'' ''USER'' 3 None demo_inline_running demo_inline_running) = demo_inline_cancelled"
proof -
  have "transaction None (cancel_tx ''op-2'' RUNNING 3) demo_inline_running = (Inr (), demo_inline_cancelled)"
    by (simp add: transaction_def cancel_tx_def guarded_update_def demo_inline_running_ops demo_inline_cancelled_def
      count_rows_def update_rows_def new_operation_sel)
  then show ?thesis
    by (simp add: requestCancellation_def demo_inline_running_ops table_simps access_denied_def new_operation_sel)
qed

lemma demo_inline_cancelled_reachable: "reachable demo_env 3 demo_inline_cancelled"
proof -
  have "reachable demo_env 3 demo_inline_running"
    using stepped [OF stepped [OF initial demo_begin_step [OF parent_begin]] start_step] demo_inline_start by metis
  then show ?thesis
    using stepped [OF _ cancel_step, of demo_env 3 demo_inline_running "''op-2''" "''u1''" "''USER''" 3 None demo_inline_running]
    by (simp add: demo_inline_cancel)
qed

text \<open>a running operation of the API itself, once its cancellation was requested, cannot be completed any
  more: its own \<open>succeed\<close> is refused, a restart does not recover it, no sweep and no second cancellation
  finishes it, and its Site stays locked. Only an explicit \<open>fail\<close> ends it.\<close>

theorem cancelled_inline_operation_never_ends:
  "reachable demo_env 3 demo_inline_cancelled \<and>
   (\<forall>res t fault. isl (fst (succeed ''op-2'' res t fault demo_inline_cancelled))) \<and>
   (\<forall>u role t fault. isl (fst (requestCancellation ''op-2'' u role t fault demo_inline_cancelled demo_inline_cancelled))) \<and>
   (\<forall>t. onModuleInit t demo_inline_cancelled = demo_inline_cancelled) \<and>
   (\<forall>t. maintainQueue t demo_inline_cancelled = demo_inline_cancelled) \<and>
   map lk_resourceKey (db_locks demo_inline_cancelled) = [''site:s2'']"
proof (intro conjI allI)
  let ?r = "cancel_request_write 3 ((new_operation demo_env inline_request ''key-0002'' ''op-2'' 1)\<lparr>op_status := RUNNING,
     op_currentStep := Some ''copy'', op_startedAt := Some 2, op_progress := 0\<rparr>)"
  have ops: "db_ops demo_inline_cancelled = [?r]" by (simp add: demo_inline_cancelled_def demo_inline_running_ops)
  have r: "op_status ?r = CANCEL_REQUESTED" "op_id ?r = ''op-2''" "op_executionMode ?r = INLINE"
    "op_parentOperationId ?r = None" "op_cancelRequestedAt ?r = Some 3"
    by (simp_all add: cancel_request_write_def new_operation_sel new_operation_cases)
  show "reachable demo_env 3 demo_inline_cancelled" by (rule demo_inline_cancelled_reachable)
  show "isl (fst (succeed ''op-2'' res t fault demo_inline_cancelled))" for res t fault
    by (cases fault) (simp_all add: succeed_def transaction_def succeed_tx_def finalize_and_release_def guarded_update_def
      ops r table_simps child_holds_def split: option.split)
  show "isl (fst (requestCancellation ''op-2'' u role t fault demo_inline_cancelled demo_inline_cancelled))" for u role t fault
  proof -
    have "isl (fst (transaction fault (cancel_tx ''op-2'' CANCEL_REQUESTED t) demo_inline_cancelled))"
      by (cases fault) (simp_all add: transaction_def cancel_tx_def guarded_update_def ops r count_rows_def)
    moreover obtain x d' where "transaction fault (cancel_tx ''op-2'' CANCEL_REQUESTED t) demo_inline_cancelled = (x, d')"
      by fastforce
    ultimately show ?thesis
      by (cases x) (simp_all add: requestCancellation_def ops r table_simps)
  qed
  show "onModuleInit t demo_inline_cancelled = demo_inline_cancelled" for t
    by (simp add: onModuleInit_def interrupted_def ops r)
  show "maintainQueue t demo_inline_cancelled = demo_inline_cancelled" for t
    by (simp add: maintainQueue_def find_many_def lost_lease_def expired_in_queue_def ops r)
  show "map lk_resourceKey (db_locks demo_inline_cancelled) = [''site:s2'']"
    by (simp add: demo_inline_cancelled_def demo_inline_running_def demo_parent_def)
qed

definition demo_expired :: db where
  "demo_expired = demo_queue\<lparr>db_ops := map (expire_write 100001) (db_ops demo_queue)\<rparr>"

text \<open>the sweep fails an expired operation and deletes its locks in two statements. If the API stops
  between them, the locks stay: no restart and no later sweep deletes them, and every \<open>begin\<close> on the
  Site fails.\<close>

theorem crash_between_expiry_and_unlock_leaks_the_lock:
  "reachable demo_env 100001 demo_expired \<and> map op_status (db_ops demo_expired) = [FAILED] \<and>
   map lk_resourceKey (db_locks demo_expired) = [''site:s1''] \<and>
   (\<forall>t. onModuleInit t demo_expired = demo_expired) \<and> (\<forall>t. maintainQueue t demo_expired = demo_expired) \<and>
   (\<forall>env m inp u1 u2 t fault. bi_siteId inp = Some ''s1'' \<longrightarrow> truthy (bi_parentOperationId inp) = None \<longrightarrow>
      begin_key u1 inp \<noteq> ''key-0001'' \<longrightarrow>
      isl (fst (begin_operation env m inp u1 u2 t fault demo_expired demo_expired)))"
proof (intro conjI allI impI)
  let ?o = "new_operation demo_env queued_request ''key-0001'' ''op-1'' 0"
  let ?r = "expire_write 100001 ?o"
  have ops: "db_ops demo_expired = [?r]" by (simp add: demo_expired_def demo_queue_def)
  have locks: "db_locks demo_expired = [\<lparr>lk_resourceKey = ''site:s1'', lk_kind = SITE, lk_operationId = ''op-1''\<rparr>]"
    by (simp add: demo_expired_def demo_queue_def)
  have r: "op_status ?r = FAILED" "op_id ?r = ''op-1''" "op_idempotencyKey ?r = ''key-0001''"
    by (simp_all add: expire_write_def new_operation_sel)
  have exp: "expired_in_queue 100001 ?o"
    by (simp add: expired_in_queue_def deadline_passed_def new_operation_cases demo_queued_def)
  have "expire_mark 100001 ?o demo_queue = demo_expired"
    by (simp add: expire_mark_def expire_guard_def demo_queue_def demo_expired_def update_rows_def deadline_passed_def
      new_operation_cases demo_queued_def)
  then show "reachable demo_env 100001 demo_expired"
    using stepped [OF demo_queue_reachable [of 100001] expire_mark_step [OF exp]] by simp
  show "map op_status (db_ops demo_expired) = [FAILED]" by (simp add: ops r)
  show "map lk_resourceKey (db_locks demo_expired) = [''site:s1'']" by (simp add: locks)
  show "onModuleInit t demo_expired = demo_expired" for t
    by (simp add: onModuleInit_def interrupted_def ops r)
  show "maintainQueue t demo_expired = demo_expired" for t
    by (simp add: maintainQueue_def find_many_def lost_lease_def expired_in_queue_def ops r status_defs)
  fix env m inp u1 u2 t fault
  assume site: "bi_siteId inp = Some ''s1''" and parent: "truthy (bi_parentOperationId inp) = None"
    and key: "begin_key u1 inp \<noteq> ''key-0001''"
  let ?key = "begin_key u1 inp"
  have none: "find_key op_idempotencyKey ?key (db_ops demo_expired) = None"
    using key by (simp add: ops r table_simps)
  have "isl (fst (begin_tx env inp ?key u2 t demo_expired))"
  proof (cases "bi_lockSite inp = Some False")
    case True
    have "assertScopeHierarchyAvailable demo_expired (begin_scope inp) None \<noteq> None"
      using True site parent by (simp add: assertScopeHierarchyAvailable_def locks table_simps site_lock_key_def)
    then show ?thesis by (auto simp: begin_tx_def split: option.split)
  next
    case False
    have "\<lparr>lk_resourceKey = site_lock_key ''s1'', lk_kind = SITE\<rparr> \<in> set (operationLockSpecs (begin_scope inp))"
      by (rule own_site_spec) (use False site parent in simp_all)
    then have "''site:s1'' \<in> set (map lk_resourceKey (operationLockSpecs (begin_scope inp)))"
      by (force simp: site_lock_key_def)
    then have "create_locks k (operationLockSpecs (begin_scope inp)) (db_locks demo_expired) = None" for k
      by (auto simp: create_locks_def locks)
    then show ?thesis by (auto simp: begin_tx_def create_operation_def split: option.split)
  qed
  then have "isl (fst (transaction fault (begin_tx env inp ?key u2 t) demo_expired))"
    by (cases fault) (auto simp: transaction_def split: prod.splits sum.splits)
  then obtain e d' where tx: "transaction fault (begin_tx env inp ?key u2 t) demo_expired = (Inl e, d')"
    by (metis fst_conv isl_def prod.exhaust)
  with transaction_error [of fault _ demo_expired e] have "d' = demo_expired" by (metis fst_conv snd_conv)
  with none have "isl (begin_failed env inp ?key e d')" by (simp add: begin_failed_def)
  with none tx show "isl (fst (begin_operation env m inp u1 u2 t fault demo_expired demo_expired))"
    by (simp add: begin_operation_def Let_def split: option.split)
qed

theorem crash_between_expiry_and_unlock_leaks_the_lock_witness:
  "isl (fst (demo_begin (demo_request ''key-0002'' (Some ''s1'')) ''op-4'' 100002 demo_expired))"
proof -
  have "begin_key ''uuid-unused'' (demo_request ''key-0002'' (Some ''s1'')) = ''key-0002''"
    by (simp add: begin_key_def demo_request_def demo_trim)
  then show ?thesis
    unfolding demo_begin_def
    using crash_between_expiry_and_unlock_leaks_the_lock by (simp add: demo_request_def)
qed

section \<open>Sealed results\<close>

text \<open>The decryption, \<open>Date.parse\<close> and \<open>toISOString\<close> of the environment on the values at hand.\<close>

definition seal_laws :: "op_env \<Rightarrow> json \<Rightarrow> time \<Rightarrow> bool" where
  "seal_laws env payload t \<longleftrightarrow> decrypt_operations env (encrypt_operations env payload) = Some payload \<and>
     32 \<le> length (encrypt_operations env payload) \<and> length (encrypt_operations env payload) \<le> 32768 \<and>
     date_parse env (iso_of env t) = Some t"

lemma sorted_names:
  "sort [''operationId'', ''kind'', ''value'', ''expiresAt''] = [''expiresAt'', ''kind'', ''operationId'', ''value'']"
  "sort [''schema'', ''sealed'', ''expiresAt''] = [''expiresAt'', ''schema'', ''sealed'']"
  by code_simp+

lemma seal_value:
  assumes "seal env k kind v ttl t0 = Inr sealed"
  shows "sealed = JObj [(''schema'', JStr SENSITIVE_SCHEMA),
      (''sealed'', JStr (encrypt_operations env (sealed_payload k kind v (iso_of env (t0 + ttl))))),
      (''expiresAt'', JStr (iso_of env (t0 + ttl)))]" "rx_test KIND kind"
  using assms by (auto simp: seal_def split: if_splits)

text \<open>a secret sealed for an operation is delivered to the user who started it, once. If the operation's
  stored result is the object whose only member is the sealed value, the first \<open>consume\<close> of its creator before the expiry
  returns exactly the kind and the value that were sealed and takes them out of the stored result; after
  that every \<open>consume\<close> fails, also one that had read the row before.\<close>

theorem sealed_result_is_delivered_once:
  assumes "reachable env now d" "r \<in> set (db_ops d)" "op_status r = SUCCEEDED" "op_createdByUserId r = u"
    and "seal env (op_id r) kind v ttl t0 = Inr sealed"
    and "op_result r = Some (json_stringify (JObj [(''sensitiveResult'', sealed)]))"
    and "seal_laws env (sealed_payload (op_id r) kind v (iso_of env (t0 + ttl))) (t0 + ttl)" "t < t0 + ttl"
  shows "\<exists>d'. consume env (op_id r) u t d d = (Inr (kind, v), d') \<and>
     (\<forall>t'. \<exists>e. consume env (op_id r) u t' d' d' = (Inl e, d')) \<and>
     (\<forall>t'. \<exists>e. consume env (op_id r) u t' d d' = (Inl e, d'))"
proof -
  let ?payload = "sealed_payload (op_id r) kind v (iso_of env (t0 + ttl))"
  let ?result = "JObj [(''sensitiveResult'', sealed)]"
  let ?envelope = "(encrypt_operations env ?payload, iso_of env (t0 + ttl))"
  note sealed = seal_value [OF assms(5)]
  from assms(7) have laws: "decrypt_operations env (fst ?envelope) = Some ?payload"
    "32 \<le> length (fst ?envelope)" "length (fst ?envelope) \<le> 32768" "date_parse env (snd ?envelope) = Some (t0 + ttl)"
    by (simp_all add: seal_laws_def)
  have keyed: "keyed op_id (db_ops d)" using reachable_inv [OF assms(1)] by (simp add: inv_defs)
  with assms(2) have find: "find_key op_id (op_id r) (db_ops d) = Some r" by (simp add: find_key_iff)
  have "plain ?result" by (simp add: sealed(1))
  then have parse: "parse_sensitive (op_result r) = Inr ?result"
    using parse_stringify [of ?result] by (simp add: parse_sensitive_def assms(6))
  have envelope: "parseEnvelope env (field ?result ''sensitiveResult'') = Inr ?envelope"
    using laws by (simp add: parseEnvelope_def sealed(1) keys_are_def sorted_names)
  have opened: "open_sealed env r ?envelope t' = (if t' < t0 + ttl then Some (kind, v) else None)" for t'
    using laws sealed(2) by (simp add: open_sealed_def sealed_payload_def keys_are_def sorted_names)
  let ?new = "Some (json_stringify (consumed_result (iso_of env t) ?result))"
  let ?P = "\<lambda>x. op_id x = op_id r \<and> op_status x = SUCCEEDED \<and> op_result x = op_result r"
  let ?d = "changed ?P (\<lambda>x. x\<lparr>op_result := ?new\<rparr>) (\<lambda>_. False) d"
  have "count_rows ?P (db_ops d) = 1"
    using count_rows_key [OF keyed, of "op_id r" "\<lambda>x. op_status x = SUCCEEDED \<and> op_result x = op_result r"] find assms(3)
    by simp
  then have "guarded_update ?P (\<lambda>x. x\<lparr>op_result := ?new\<rparr>) unavailable d = (Inr (), ?d)"
    by (simp add: guarded_update_def changed_no_locks)
  then have first: "consume env (op_id r) u t d d = (Inr (kind, v), ?d)"
    using find parse envelope opened assms(3,4,8) by (simp add: consume_def)
  have row: "find_key op_id (op_id r) (db_ops ?d) = Some (r\<lparr>op_result := ?new\<rparr>)"
    using find assms(3) by (simp add: find_key_update_rows)
  let ?left = "JObj [(''sensitiveResultConsumedAt'', JStr (iso_of env t))]"
  have left: "?new = Some (json_stringify ?left)" by simp
  have "parse_sensitive ?new = Inr ?left"
    using parse_stringify [of ?left] unfolding left by (simp add: parse_sensitive_def)
  moreover have "parseEnvelope env (field ?left ''sensitiveResult'') = Inl unavailable"
    by (simp add: parseEnvelope_def)
  ultimately have again: "consume env (op_id r) u t' ?d ?d = (Inl unavailable, ?d)" for t'
    using row assms(3,4) by (simp add: consume_def del: consumed_result.simps json_stringify.simps changed_sel)
  have differ: "?new \<noteq> op_result r"
  proof
    assume "?new = op_result r"
    then have "json_parse (json_stringify ?left) = json_parse (json_stringify ?result)"
      unfolding left assms(6) by simp
    then show False using parse_stringify [of ?left] parse_stringify [OF \<open>plain ?result\<close>] by simp
  qed
  have "\<not> ?P x" if "x \<in> set (db_ops ?d)" for x
    using that differ by (auto simp: row_simps)
  then have "guarded_update ?P f unavailable ?d = (Inl unavailable, ?d)" for f
    by (rule guarded_update_miss)
  then have late: "\<exists>e. consume env (op_id r) u t' d ?d = (Inl e, ?d)" for t'
    using find parse envelope opened [of t'] assms(3,4) by (simp add: consume_def)
  from first again late show ?thesis by blast
qed

definition demo_sealed :: json where
  "demo_sealed = JObj [(''schema'', JStr SENSITIVE_SCHEMA),
      (''sealed'', JStr (json_stringify (sealed_payload ''op-1'' ''ADMIN_PASSWORD'' (JStr ''pw'') (show_int 900012)))),
      (''expiresAt'', JStr (show_int 900012))]"

lemma demo_seal: "seal demo_env ''op-1'' ''ADMIN_PASSWORD'' (JStr ''pw'') 900000 12 = Inr demo_sealed"
proof -
  have "rx_test KIND ''ADMIN_PASSWORD''" by code_simp
  moreover have "utf8_length (json_stringify (JStr ''pw'')) \<le> 16 * 1024" by code_simp
  ultimately show ?thesis by (simp add: seal_def demo_sealed_def demo_env_def)
qed

lemma demo_sealed_safe: "assertNoSecretFields ''result'' (JObj [(''sensitiveResult'', demo_sealed)]) = None"
proof -
  have "\<not> secret_name ''sensitiveResult''" "\<not> secret_name ''schema''" "\<not> secret_name ''sealed''" "\<not> secret_name ''expiresAt''"
    by (rule not_secret_name, code_simp)+
  then show ?thesis by (simp add: demo_sealed_def)
qed

lemma demo_payload_length:
  "json_stringify (sealed_payload ''op-1'' ''ADMIN_PASSWORD'' (JStr ''pw'') x) = t \<Longrightarrow> length x \<le> 10 \<Longrightarrow>
     32 \<le> length t \<and> length t \<le> 32768"
  using length_quote [of "''operationId''"] length_quote [of "''op-1''"] length_quote [of "''kind''"]
    length_quote [of "''ADMIN_PASSWORD''"] length_quote [of "''value''"] length_quote [of "''pw''"]
    length_quote [of "''expiresAt''"] length_quote [of x]
  by (auto simp: sealed_payload_def)

lemma demo_seal_laws:
  "seal_laws demo_env (sealed_payload ''op-1'' ''ADMIN_PASSWORD'' (JStr ''pw'') (show_int 900012)) 900012"
proof -
  let ?p = "sealed_payload ''op-1'' ''ADMIN_PASSWORD'' (JStr ''pw'') (show_int 900012)"
  have "plain ?p" by (simp add: sealed_payload_def)
  moreover have "length (show_int 900012) = 6" by (simp add: show_int_def show_nat.simps)
  then have "32 \<le> length (json_stringify ?p) \<and> length (json_stringify ?p) \<le> 32768"
    by (intro demo_payload_length [OF refl]) simp
  moreover have "read_number (show_int 900012) = Some (900012, [])"
    using read_number_show [of "[]" 900012] by simp
  ultimately show ?thesis by (simp add: seal_laws_def demo_env_def parse_stringify)
qed

theorem sealed_result_is_delivered_once_witness:
  "fst (consume demo_env ''op-1'' ''u1'' 500 (demo_succeeded (JObj [(''sensitiveResult'', demo_sealed)]))
      (demo_succeeded (JObj [(''sensitiveResult'', demo_sealed)]))) = Inr (''ADMIN_PASSWORD'', JStr ''pw'')"
proof -
  let ?d = "demo_succeeded (JObj [(''sensitiveResult'', demo_sealed)])"
  obtain r where r: "r \<in> set (db_ops ?d)" "op_status r = SUCCEEDED" "op_createdByUserId r = ''u1''" "op_id r = ''op-1''"
    "op_result r = Some (json_stringify (JObj [(''sensitiveResult'', demo_sealed)]))"
    by (auto simp: demo_succeeded_def demo_running_def demo_claimed_def demo_queue_def succeed_write_def drop_lease_def
      claim_write_def result_column_def new_operation_sel simp del: json_stringify.simps)
  from sealed_result_is_delivered_once [OF demo_succeeded_reachable [OF demo_sealed_safe, of 12] r(1-3), of "''ADMIN_PASSWORD''" "JStr ''pw''" 900000 12 demo_sealed 500]
    r(4,5) demo_seal demo_seal_laws
  show ?thesis by (auto simp: demo_env_def simp del: json_stringify.simps)
qed

end
