(* ===== verification/Data_Theorems.thy ===== *)
theory Data_Theorems
  imports Operation_Contract Json_Parse
begin

text \<open>
  The properties of the data formats: the canonical text, the JSON text, the fields that may
  be persisted in clear, and the operation contract of \<open>shared/src/operation-contract.ts\<close>.
\<close>

section \<open>Text\<close>

text \<open>the canonical text that is hashed decides the value: two values have the same \<open>stableJson\<close> exactly
  when they are equal up to the order of members and \<open>undefined\<close> read as \<open>null\<close>.\<close>

theorem canonical_text_decides: "stable_json v = stable_json w \<longleftrightarrow> canonical v = canonical w"
  by (rule stable_json_iff_canonical)



text \<open>a value passes \<open>assertNoSecretFields\<close> exactly when no object in it, at any depth, has a member
  whose name matches the pattern of credentials, but for the action catalogue of a manifest.\<close>

theorem secret_fields_are_found:
  "assertNoSecretFields path v = None \<longleftrightarrow>
     (\<forall>p key. member_at path v p key \<longrightarrow> \<not> secret_name key \<or> action_catalogue_key p key)"
  by (simp add: no_secret_iff allowed_member_def)

theorem secret_fields_are_found_witness:
  "\<not> member_at ''result'' (JObj [(''bytes'', JNum 4)]) ''result'' ''apiToken''"
proof -
  have "\<not> secret_name ''bytes''" by (rule not_secret_name) code_simp
  then have "assertNoSecretFields ''result'' (JObj [(''bytes'', JNum 4)]) = None" by simp
  with secret_fields_are_found [of "''result''" "JObj [(''bytes'', JNum 4)]"]
  have "member_at ''result'' (JObj [(''bytes'', JNum 4)]) ''result'' ''apiToken'' \<longrightarrow>
      \<not> secret_name ''apiToken'' \<or> action_catalogue_key ''result'' ''apiToken''" by blast
  moreover have "secret_name ''apiToken''" by (rule secret_name_examples)
  moreover have "\<not> action_catalogue_key ''result'' ''apiToken''"
    by (simp add: action_catalogue_key_def ends_with_def)
  ultimately show ?thesis by blast
qed

section \<open>The operation contract\<close>

text \<open>the transition table is a life cycle: a final state has no way out, from every other state the
  operation can be failed in one step, and so every run can be finished.\<close>

theorem contract_can_always_finish:
  "(final_state s \<longleftrightarrow> (\<forall>t. assertOperationTransition s t \<noteq> None)) \<and>
   (final_state s \<or> assertOperationTransition s FAILED = None) \<and>
   (\<exists>t. contract_run s t \<and> final_state t)"
proof (intro conjI)
  show "final_state s \<longleftrightarrow> (\<forall>t. assertOperationTransition s t \<noteq> None)"
  proof
    assume "final_state s"
    then have "TRANSITIONS s = []" by (auto simp: final_state_def)
    then show "\<forall>t. assertOperationTransition s t \<noteq> None" unfolding transition_iff by simp
  next
    assume "\<forall>t. assertOperationTransition s t \<noteq> None"
    then have "assertOperationTransition s FAILED \<noteq> None" ..
    then show "final_state s" by (rule contrapos_np) (rule to_failed)
  qed
  show "final_state s \<or> assertOperationTransition s FAILED = None"
    by (cases "final_state s") (rule disjI1, assumption, rule disjI2, rule to_failed)
  show "\<exists>t. contract_run s t \<and> final_state t" by (rule rank_exists)
qed

text \<open>an operation that passes the contract is consistent: its state is one of the eleven, it carries a
  completion time exactly when that state is terminal, it has an inline result or an artifact but not
  both, and it may be retried only under the policy \<open>RETRY_SAFE\<close>.\<close>

theorem validated_operation_is_consistent:
  assumes "validateFederatedOperation json_ok v = None"
  shows "\<exists>s. field v ''state'' = JStr (state_name s) \<and>
    (isTerminalOperationState s \<longleftrightarrow> field v ''completedAt'' \<noteq> JNull) \<and>
    (field (field v ''result'') ''inlineJson'' = JNull \<or> field (field v ''result'') ''artifactId'' = JNull) \<and>
    (field (field v ''policy'') ''retryable'' = JBool True \<longrightarrow>
       field (field v ''policy'') ''recoveryPolicy'' = JStr ''RETRY_SAFE'') \<and>
    (\<exists>p. field v ''progress'' = JNum p \<and> 0 \<le> p \<and> p \<le> 100)"
proof -
  from assms have checks:
    "requireEnum (field v ''state'') (map state_name OPERATION_STATES) ''operation.state'' = None"
    "requireInteger (field v ''progress'') ''operation.progress'' 0 100 = None"
    "validatePolicy (field v ''policy'') = None" "validateResult json_ok (field v ''result'') = None"
    "throw_if (terminal_json (field v ''state'') \<noteq> (field v ''completedAt'' \<noteq> JNull))
           ''operation terminal state/completedAt mismatch'' = None"
    unfolding validateFederatedOperation_def by (simp_all split: if_splits)
  from checks(1) obtain s where s: "field v ''state'' = JStr (state_name s)"
    by (auto simp: requireEnum_None)
  have "terminal_json (JStr (state_name s)) = isTerminalOperationState s"
    by (cases s) (simp_all add: terminal_json_def state_of_name_def OPERATION_STATES_def)
  with checks(5) s have "isTerminalOperationState s \<longleftrightarrow> field v ''completedAt'' \<noteq> JNull" by simp
  moreover have "field (field v ''result'') ''inlineJson'' = JNull \<or> field (field v ''result'') ''artifactId'' = JNull"
    using checks(4) by (auto simp: validateResult_def split: if_splits)
  moreover have "field (field v ''policy'') ''retryable'' = JBool True \<longrightarrow>
       field (field v ''policy'') ''recoveryPolicy'' = JStr ''RETRY_SAFE''"
    using checks(3) by (auto simp: validatePolicy_def split: if_splits)
  ultimately show ?thesis using s checks(2) by (auto simp: requireInteger_None)
qed

definition demo_operation :: json where
  "demo_operation = JObj [(''operationId'', JStr ''0b9f2c1e-7d3a-4c55-9a10-0123456789ab''),
     (''targetInstallationId'', JStr ''0b9f2c1e-7d3a-4c55-9a10-0123456789ac''),
     (''state'', JStr ''SUCCEEDED''), (''progress'', JNum 100), (''attempt'', JNum 1),
     (''policy'', JObj [(''actionId'', JStr ''sites.backup''), (''schemaVersion'', JNum 1),
        (''actorKind'', JStr ''OPERATOR''), (''issuerId'', JStr ''0b9f2c1e-7d3a-4c55-9a10-0123456789ab''),
        (''subject'', JStr ''u1''), (''role'', JStr ''ADMIN''), (''permissions'', JArr []),
        (''idempotencyId'', JStr ''key-0001''), (''requestId'', JStr ''0b9f2c1e-7d3a-4c55-9a10-0123456789ab''),
        (''recoveryPolicy'', JStr ''RETRY_SAFE''), (''retryable'', JBool True)]),
     (''leaseOwner'', JNull), (''leaseExpiresAt'', JNull), (''heartbeatAt'', JNull),
     (''deadlineAt'', JStr ''2024-02-29T23:59:59.999Z''), (''cancelRequestedAt'', JNull),
     (''cancelOutcome'', JStr ''NOT_REQUESTED''),
     (''result'', JObj [(''inlineJson'', JNull), (''artifactId'', JNull)]), (''error'', JNull),
     (''createdAt'', JStr ''2024-02-29T23:59:59.999Z''), (''updatedAt'', JStr ''2024-02-29T23:59:59.999Z''),
     (''completedAt'', JStr ''2024-02-29T23:59:59.999Z'')]"

lemma demo_patterns:
  "rx_test UUID ''0b9f2c1e-7d3a-4c55-9a10-0123456789ab''" "rx_test UUID ''0b9f2c1e-7d3a-4c55-9a10-0123456789ac''"
  "rx_test ACTION_ID ''sites.backup''" "rx_test (plus (Cls printable)) ''u1''" "rx_test (plus (Cls printable)) ''key-0001''"
  by code_simp+

lemma demo_operation_valid: "validateFederatedOperation json_ok demo_operation = None"
  unfolding validateFederatedOperation_def validatePolicy_def validateResult_def validateError_def demo_operation_def
  using demo_patterns iso_date_examples(1)
  by (auto simp: require_simps requireUniqueStrings_None requireIsoDate_None max_safe_integer_def
    OPERATION_STATES_def OPERATION_CANCEL_OUTCOMES_def OPERATION_RECOVERY_POLICIES_def unless_null_def
    terminal_json_def state_of_name_def isTerminalOperationState_def)

theorem validated_operation_is_consistent_witness:
  "\<exists>s. field demo_operation ''state'' = JStr (state_name s) \<and> isTerminalOperationState s"
proof -
  from validated_operation_is_consistent [OF demo_operation_valid [of "\<lambda>_. False"]]
  obtain s where "field demo_operation ''state'' = JStr (state_name s)"
    "isTerminalOperationState s \<longleftrightarrow> field demo_operation ''completedAt'' \<noteq> JNull" by blast
  then show ?thesis by (intro exI [of _ s]) (simp add: demo_operation_def)
qed

end
