(* ===== verification/Agent_Job_Contract.thy ===== *)
theory Agent_Job_Contract
  imports Operation_Contract
begin

text \<open>
  The protocol between the API and the agent for long jobs, \<open>shared/src/agent-job.ts\<close>: the
  states of a job and the validators of the messages. Each validator is the sequence of its
  checks, in the order of the source.
\<close>

section \<open>States\<close>

datatype job_state =
    JOB_STARTING | JOB_RUNNING | JOB_CANCEL_REQUESTED
  | JOB_SUCCEEDED | JOB_FAILED | JOB_CANCELLED | JOB_NEEDS_ATTENTION

definition AGENT_JOB_STATES :: "job_state list" where
  "AGENT_JOB_STATES = [JOB_STARTING, JOB_RUNNING, JOB_CANCEL_REQUESTED, JOB_SUCCEEDED, JOB_FAILED,
     JOB_CANCELLED, JOB_NEEDS_ATTENTION]"

fun job_state_name :: "job_state \<Rightarrow> string" where
  "job_state_name JOB_STARTING = ''STARTING''"
| "job_state_name JOB_RUNNING = ''RUNNING''"
| "job_state_name JOB_CANCEL_REQUESTED = ''CANCEL_REQUESTED''"
| "job_state_name JOB_SUCCEEDED = ''SUCCEEDED''"
| "job_state_name JOB_FAILED = ''FAILED''"
| "job_state_name JOB_CANCELLED = ''CANCELLED''"
| "job_state_name JOB_NEEDS_ATTENTION = ''NEEDS_ATTENTION''"

lemma job_states_complete: "s \<in> set AGENT_JOB_STATES"
  by (cases s) (simp_all add: AGENT_JOB_STATES_def)

lemma job_state_name_inj: "job_state_name s = job_state_name t \<longleftrightarrow> s = t"
  by (cases s; cases t) simp_all

section \<open>Checks\<close>

text \<open>\<open>/^[a-z][a-z0-9._:-]{0,127}$/\<close>\<close>

definition STEP :: rx where
  "STEP = Cat (Cls lower) (Rep 0 127 (Cls (\<lambda>c. lower c \<or> digit_char c \<or> c \<in> set ''._:-'')))"

definition SHA256 :: rx where
  "SHA256 = Rep 64 64 (Cls hex_lower)"

definition MAX_PAYLOAD_BYTES :: nat where
  "MAX_PAYLOAD_BYTES = 1024 * 1024"

text \<open>\<open>JSON.stringify\<close> gives no text for \<open>undefined\<close>, and throws on no value of \<open>json\<close>.\<close>

definition requireJsonSize :: "json \<Rightarrow> string \<Rightarrow> nat \<Rightarrow> check" where
  "requireJsonSize value label maxBytes =
     throw_if (value = JUndefined \<or> utf8_length (json_stringify value) > maxBytes)
       (label @ '' exceeds '' @ show_nat maxBytes @ '' bytes'')"

definition validateIdentity :: "json \<Rightarrow> string \<Rightarrow> check" where
  "validateIdentity value label = first_error
     [requireString (field value ''jobId'') (label @ ''.jobId'') 1 1024 (Some UUID),
      requireString (field value ''operationId'') (label @ ''.operationId'') 1 1024 (Some UUID)]"

lemma requireJsonSize_None:
  "requireJsonSize v l m = None \<longleftrightarrow> v \<noteq> JUndefined \<and> utf8_length (json_stringify v) \<le> m"
  by (auto simp: requireJsonSize_def)

lemma validateIdentity_None:
  "validateIdentity v l = None \<longleftrightarrow>
     (\<exists>j w. field v ''jobId'' = JStr j \<and> field v ''operationId'' = JStr w \<and> rx_test UUID j \<and> rx_test UUID w \<and>
       1 \<le> length j \<and> length j \<le> 1024 \<and> 1 \<le> length w \<and> length w \<le> 1024)"
  unfolding validateIdentity_def by (auto simp: requireString_None)

section \<open>Messages\<close>

definition validateAgentJobStart :: "json \<Rightarrow> check" where
  "validateAgentJobStart value =
     (if \<not> isContractRecord value then Some ''agentJobStart is invalid''
      else first_error
        [requireExactKeys value [''protocolVersion'', ''jobId'', ''operationId'', ''actionId'', ''step'',
           ''requestHash'', ''deadlineAt'', ''cancelSafe'', ''payload''] [] ''agentJobStart'',
         requireInteger (field value ''protocolVersion'') ''agentJobStart.protocolVersion'' 1 1,
         validateIdentity value ''agentJobStart'',
         requireString (field value ''actionId'') ''agentJobStart.actionId'' 1 192 (Some ACTION_ID),
         requireString (field value ''step'') ''agentJobStart.step'' 1 128 (Some STEP),
         requireString (field value ''requestHash'') ''agentJobStart.requestHash'' 1 1024 (Some SHA256),
         requireIsoDate (field value ''deadlineAt'') ''agentJobStart.deadlineAt'',
         requireBoolean (field value ''cancelSafe'') ''agentJobStart.cancelSafe'',
         requireJsonSize (field value ''payload'') ''agentJobStart.payload'' MAX_PAYLOAD_BYTES])"

definition validateAgentJobHeartbeat :: "json \<Rightarrow> check" where
  "validateAgentJobHeartbeat value =
     (if \<not> isContractRecord value then Some ''agentJobHeartbeat is invalid''
      else first_error
        [requireExactKeys value [''jobId'', ''operationId'', ''bootId'', ''sequence'', ''progress'', ''step'',
           ''timestamp''] [] ''agentJobHeartbeat'',
         validateIdentity value ''agentJobHeartbeat'',
         requireString (field value ''bootId'') ''agentJobHeartbeat.bootId'' 1 1024 (Some UUID),
         requireInteger (field value ''sequence'') ''agentJobHeartbeat.sequence'' 1 max_safe_integer,
         requireInteger (field value ''progress'') ''agentJobHeartbeat.progress'' 0 100,
         requireString (field value ''step'') ''agentJobHeartbeat.step'' 1 128 (Some STEP),
         requireIsoDate (field value ''timestamp'') ''agentJobHeartbeat.timestamp''])"

definition validateAgentJobStarted :: "json \<Rightarrow> check" where
  "validateAgentJobStarted value =
     (if \<not> isContractRecord value then Some ''agentJobStarted is invalid''
      else first_error
        [requireExactKeys value [''success'', ''jobId'', ''operationId'', ''bootId'', ''state'', ''replayed'',
           ''error''] [] ''agentJobStarted'',
         requireBoolean (field value ''success'') ''agentJobStarted.success'',
         validateIdentity value ''agentJobStarted'',
         requireString (field value ''bootId'') ''agentJobStarted.bootId'' 1 1024 (Some UUID),
         requireEnum (field value ''state'') (map job_state_name AGENT_JOB_STATES) ''agentJobStarted.state'',
         requireBoolean (field value ''replayed'') ''agentJobStarted.replayed'',
         unless_null (field value ''error'')
           (requireString (field value ''error'') ''agentJobStarted.error'' 1 4096 None),
         throw_if (field value ''success'' = JBool (field value ''error'' \<noteq> JNull))
           ''agentJobStarted outcome is inconsistent''])"

definition validateAgentJobResult :: "json \<Rightarrow> check" where
  "validateAgentJobResult value =
     (if \<not> isContractRecord value then Some ''agentJobResult is invalid''
      else first_error
        [requireExactKeys value [''jobId'', ''operationId'', ''bootId'', ''sequence'', ''success'', ''cancelled'',
           ''result'', ''error'', ''timestamp''] [] ''agentJobResult'',
         validateIdentity value ''agentJobResult'',
         requireString (field value ''bootId'') ''agentJobResult.bootId'' 1 1024 (Some UUID),
         requireInteger (field value ''sequence'') ''agentJobResult.sequence'' 1 max_safe_integer,
         requireBoolean (field value ''success'') ''agentJobResult.success'',
         requireBoolean (field value ''cancelled'') ''agentJobResult.cancelled'',
         unless_null (field value ''error'')
           (requireString (field value ''error'') ''agentJobResult.error'' 1 4096 None),
         throw_if (field value ''success'' = JBool True \<and>
             (field value ''cancelled'' = JBool True \<or> field value ''error'' \<noteq> JNull))
           ''agentJobResult success flags are inconsistent'',
         throw_if (field value ''cancelled'' = JBool True \<and> field value ''success'' = JBool True)
           ''agentJobResult cancellation is invalid'',
         requireIsoDate (field value ''timestamp'') ''agentJobResult.timestamp'',
         requireJsonSize (field value ''result'') ''agentJobResult.result'' MAX_PAYLOAD_BYTES])"

definition validateAgentJobStatusRequest :: "json \<Rightarrow> check" where
  "validateAgentJobStatusRequest value =
     (if \<not> isContractRecord value then Some ''agentJobStatusRequest is invalid''
      else first_error
        [requireExactKeys value [''jobId'', ''operationId''] [] ''agentJobStatusRequest'',
         validateIdentity value ''agentJobStatusRequest''])"

definition validateAgentJobStatus :: "json \<Rightarrow> check" where
  "validateAgentJobStatus value =
     (if \<not> isContractRecord value then Some ''agentJobStatus is invalid''
      else first_error
        [requireExactKeys value [''success'', ''jobId'', ''operationId'', ''bootId'', ''state'', ''sequence'',
           ''progress'', ''step'', ''result'', ''error''] [] ''agentJobStatus'',
         requireBoolean (field value ''success'') ''agentJobStatus.success'',
         validateIdentity value ''agentJobStatus'',
         requireString (field value ''bootId'') ''agentJobStatus.bootId'' 1 1024 (Some UUID),
         requireEnum (field value ''state'') (map job_state_name AGENT_JOB_STATES) ''agentJobStatus.state'',
         requireInteger (field value ''sequence'') ''agentJobStatus.sequence'' 0 max_safe_integer,
         requireInteger (field value ''progress'') ''agentJobStatus.progress'' 0 100,
         requireString (field value ''step'') ''agentJobStatus.step'' 1 128 (Some STEP),
         unless_null (field value ''error'')
           (requireString (field value ''error'') ''agentJobStatus.error'' 1 4096 None),
         requireJsonSize (field value ''result'') ''agentJobStatus.result'' MAX_PAYLOAD_BYTES])"

definition validateAgentJobCancelResult :: "json \<Rightarrow> check" where
  "validateAgentJobCancelResult value =
     (if \<not> isContractRecord value then Some ''agentJobCancelResult is invalid''
      else first_error
        [requireExactKeys value [''success'', ''jobId'', ''operationId'', ''state'', ''outcome'', ''error''] []
           ''agentJobCancelResult'',
         requireBoolean (field value ''success'') ''agentJobCancelResult.success'',
         validateIdentity value ''agentJobCancelResult'',
         requireEnum (field value ''state'') (map job_state_name AGENT_JOB_STATES) ''agentJobCancelResult.state'',
         requireEnum (field value ''outcome'') [''REQUESTED'', ''ALREADY_TERMINAL'', ''NOT_CANCELLABLE'', ''NOT_FOUND'']
           ''agentJobCancelResult.outcome'',
         unless_null (field value ''error'')
           (requireString (field value ''error'') ''agentJobCancelResult.error'' 1 4096 None)])"

end
