(* ===== verification/Identifiers.thy ===== *)
theory Identifiers
  imports Patterns Json "HOL-Library.Word"
begin

text \<open>
  Identifiers that the panel derives from a digest, so that a repeated request finds the row
  of the first one: \<open>deterministicJobId\<close>, \<open>deterministicRequestId\<close> and \<open>uuidFromDigest\<close> of the
  agent jobs, of the admission and of the transfers are the same code. A digest is a list of
  bytes; the hash function is a parameter of the services.
\<close>

unbundle bit_operations_syntax

type_synonym bytes = "8 word list"

section \<open>Hexadecimal text\<close>

definition hex_byte :: "8 word \<Rightarrow> string" where
  "hex_byte b = [hex_digit (unat b div 16), hex_digit (unat b mod 16)]"

definition hex_of :: "bytes \<Rightarrow> string" where
  "hex_of bs = concat (map hex_byte bs)"

lemma length_hex_of [simp]: "length (hex_of bs) = 2 * length bs"
  by (induction bs) (simp_all add: hex_of_def hex_byte_def)

lemma hex_of_simps [simp]: "hex_of [] = []" "hex_of (b # bs) = hex_byte b @ hex_of bs"
  by (simp_all add: hex_of_def)

lemma hex_digit_range: "n < 16 \<Longrightarrow> (of_char (hex_digit n) :: nat) = (if n < 10 then n + 48 else n + 87)"
  by (simp add: hex_digit_def)

lemma char_le_code: "c \<le> d \<longleftrightarrow> (of_char c :: nat) \<le> of_char d"
  by (simp add: less_eq_char_def)

lemma hex_lower_hex_digit [simp]: "n < 16 \<Longrightarrow> hex_lower (hex_digit n)"
  by (simp add: hex_lower_def digit_char_def char_le_code hex_digit_range)

lemma unat_byte: "unat (b :: 8 word) < 256"
  using unsigned_less [of b, where ?'a = nat] by simp

lemma hex_byte_lower [simp]: "list_all hex_lower (hex_byte b)"
  using unat_byte [of b] by (simp add: hex_byte_def less_mult_imp_div_less)

lemma high_nibble [simp]: "unat (b :: 8 word) div 16 < 16"
  using unat_byte [of b] by (simp add: less_mult_imp_div_less)

lemma hex_of_lower [simp]: "list_all hex_lower (hex_of bs)"
  by (induction bs) simp_all

text \<open>\<open>/^[0-9a-f]{64}$/\<close>\<close>

definition SHA256_HEX :: rx where
  "SHA256_HEX = Rep 64 64 (Cls hex_lower)"

lemma sha256_hex_shape: "length bs = 32 \<Longrightarrow> rx_test SHA256_HEX (hex_of bs)"
  by (simp add: SHA256_HEX_def rx_test_Rep_Cls)

lemma hex_of_inj: "hex_of a = hex_of b \<longleftrightarrow> a = b"
proof
  have digit: "hex_digit m = hex_digit n \<Longrightarrow> m < 16 \<Longrightarrow> n < 16 \<Longrightarrow> m = n" for m n
    by (metis hex_value_hex_digit)
  have byte: "hex_byte x = hex_byte y \<Longrightarrow> x = y" for x y
  proof -
    assume "hex_byte x = hex_byte y"
    then have "unat x div 16 = unat y div 16" "unat x mod 16 = unat y mod 16"
      using digit [of "unat x div 16" "unat y div 16"] digit [of "unat x mod 16" "unat y mod 16"]
        unat_byte [of x] unat_byte [of y] by (simp_all add: hex_byte_def)
    then have "unat x = unat y" by (metis div_mult_mod_eq)
    then show "x = y" by (simp add: word_unat_eq_iff)
  qed
  show "a = b" if "hex_of a = hex_of b"
    using that
  proof (induction a arbitrary: b)
    case Nil
    then show ?case by (cases b) (simp_all add: hex_byte_def)
  next
    case (Cons x a)
    then obtain y b' where b: "b = y # b'" by (cases b) (auto simp: hex_byte_def)
    with Cons.prems have "hex_byte x = hex_byte y" "hex_of a = hex_of b'"
      by (auto simp: hex_byte_def)
    with Cons.IH byte b show ?case by blast
  qed
qed simp

section \<open>Identifiers\<close>

text \<open>The first 16 bytes, with the version nibble set to 8 and the variant bits to 10.\<close>

definition stamp_version :: "bytes \<Rightarrow> bytes" where
  "stamp_version bytes = bytes[6 := (bytes ! 6 AND 0x0F) OR 0x80, 8 := (bytes ! 8 AND 0x3F) OR 0x80]"

definition dashed :: "string \<Rightarrow> string" where
  "dashed hex = js_slice 0 8 hex @ ''-'' @ js_slice 8 12 hex @ ''-'' @ js_slice 12 16 hex @ ''-'' @
     js_slice 16 20 hex @ ''-'' @ drop 20 hex"

definition uuidFromDigest :: "bytes \<Rightarrow> string" where
  "uuidFromDigest digest = dashed (hex_of (stamp_version (take 16 digest)))"

text \<open>The version byte starts with the digit 8, the variant byte with one of 8, 9, a, b.\<close>

lemma low_bits: "(m :: nat) AND 0x0F = m mod 16" "m AND 0x3F = m mod 64"
  using take_bit_eq_mod [of 4 m] take_bit_eq_mod [of 6 m]
  by (simp_all add: take_bit_eq_mask mask_eq_exp_minus_1)

lemma or_128: "(m :: nat) < 128 \<Longrightarrow> m OR 0x80 = m + 128"
proof -
  assume "m < 128"
  then have m: "take_bit 7 m = m" by (simp add: take_bit_nat_eq_self_iff)
  have "bit m n \<Longrightarrow> n < 7" for n using bit_take_bit_iff [of 7 m n] m by simp
  moreover have "bit (128 :: nat) n \<Longrightarrow> n = 7" for n
    using bit_exp_iff [of 7 n, where ?'a = nat] by simp
  ultimately show ?thesis by (subst disjunctive_add [symmetric]) auto
qed

lemma version_byte: "unat (((b :: 8 word) AND 0x0F) OR 0x80) = unat b mod 16 + 128"
  using or_128 [of "unat b mod 16"] by (simp add: unsigned_or_eq unsigned_and_eq low_bits)

lemma variant_byte: "unat (((b :: 8 word) AND 0x3F) OR 0x80) = unat b mod 64 + 128"
  using or_128 [of "unat b mod 64"] by (simp add: unsigned_or_eq unsigned_and_eq low_bits)

lemma digit_values:
  "hex_digit 8 = CHR ''8''" "hex_digit 9 = CHR ''9''" "hex_digit 10 = CHR ''a''" "hex_digit 11 = CHR ''b''"
  by code_simp+

lemma version_digit: "hex_byte ((b AND 0x0F) OR 0x80) = [CHR ''8'', hex_digit (unat b mod 16)]"
proof -
  define n where "n = unat b mod 16"
  then have "n < 16" by simp
  then have "(n + 128) div 16 = 8" "(n + 8 * 16) mod 16 = n" by (simp, subst mod_mult_self1, simp)
  then show ?thesis by (simp add: hex_byte_def version_byte flip: n_def) (simp add: digit_values)
qed

lemma variant_digit:
  "\<exists>c d. hex_byte ((b AND 0x3F) OR 0x80) = [c, d] \<and> c \<in> set ''89ab'' \<and> hex_lower d"
proof -
  have "(n + 128) div 16 \<in> {8, 9, 10, 11}" if "n < 64" for n :: nat
  proof -
    have "n div 16 < 4" using that by (simp add: less_mult_imp_div_less)
    moreover have "(n + 8 * 16) div 16 = n div 16 + 8" by (subst div_mult_self1) simp_all
    ultimately show ?thesis by auto
  qed
  from this [of "unat b mod 64"] have "(unat b mod 64 + 128) div 16 \<in> {8, 9, 10, 11}" by simp
  then have "hex_digit ((unat b mod 64 + 128) div 16) \<in> set ''89ab''"
    by (auto simp: digit_values)
  then show ?thesis by (simp add: hex_byte_def variant_byte)
qed

text \<open>Hence what is derived from any digest passes the pattern of the contracts.\<close>

lemma cats_test: "rx_test (Cat r q) (u @ v)" if "rx_test r u" "rx_test q v"
  using that by (auto simp: rx_test_iff in_conc)

lemma uuid_shape:
  assumes "length a = 8" "length b = 4" "length c = 3" "length e = 3" "length f = 12"
    and "list_all hex_lower (a @ b @ c @ e @ f)" "d \<in> set ''89ab''" "CHR ''1'' \<le> v" "v \<le> CHR ''8''"
  shows "rx_test UUID (a @ ''-'' @ b @ ''-'' @ (v # c) @ ''-'' @ (d # e) @ ''-'' @ f)"
proof -
  have lits: "rx_test (lit ''-'') ''-''" by (simp add: rx_test_iff lang_lit)
  have one: "rx_test (Cls P) [x] = P x" for P x by (simp add: rx_test_iff)
  have "rx_test (cats [Rep 8 8 (Cls hex_lower), lit ''-'', Rep 4 4 (Cls hex_lower), lit ''-'',
     Cls (\<lambda>c. CHR ''1'' \<le> c \<and> c \<le> CHR ''8''), Rep 3 3 (Cls hex_lower), lit ''-'',
     Cls (\<lambda>c. c \<in> set ''89ab''), Rep 3 3 (Cls hex_lower), lit ''-'', Rep 12 12 (Cls hex_lower)])
     (a @ ''-'' @ b @ ''-'' @ [v] @ c @ ''-'' @ [d] @ e @ ''-'' @ f)"
    unfolding cats.simps
    by (intro cats_test) (use assms in \<open>simp_all add: lits one rx_test_Rep_Cls del: append.simps\<close>)
  then show ?thesis by (simp add: UUID_def)
qed

lemma uuid_of_digest: "16 \<le> length digest \<Longrightarrow> rx_test UUID (uuidFromDigest digest)"
proof -
  assume len: "16 \<le> length digest"
  define bs where "bs = take 16 digest"
  have "length bs = 16" using len by (simp add: bs_def)
  then obtain b0 b1 b2 b3 b4 b5 b6 b7 b8 b9 b10 b11 b12 b13 b14 b15 where
    bs: "bs = [b0, b1, b2, b3, b4, b5, b6, b7, b8, b9, b10, b11, b12, b13, b14, b15]"
    by (auto simp: numeral_eq_Suc length_Suc_conv)
  let ?h = "\<lambda>l. hex_of l"
  obtain c d where v: "hex_byte ((b8 AND 0x3F) OR 0x80) = [c, d]" "c \<in> set ''89ab''" "hex_lower d"
    using variant_digit by blast
  have "hex_of (stamp_version bs) = ?h [b0, b1, b2, b3] @ ?h [b4, b5] @
      (CHR ''8'' # hex_digit (unat b6 mod 16) # ?h [b7]) @ (c # d # ?h [b9]) @ ?h [b10, b11, b12, b13, b14, b15]"
    by (simp add: bs stamp_version_def v(1) version_digit)
  then have "uuidFromDigest digest = ?h [b0, b1, b2, b3] @ ''-'' @ ?h [b4, b5] @ ''-'' @
      (CHR ''8'' # (hex_digit (unat b6 mod 16) # ?h [b7])) @ ''-'' @ (c # (d # ?h [b9])) @ ''-'' @ ?h [b10, b11, b12, b13, b14, b15]"
    by (simp add: uuidFromDigest_def dashed_def js_slice_def flip: bs_def)
       (simp add: hex_byte_def)
  moreover have "rx_test UUID (?h [b0, b1, b2, b3] @ ''-'' @ ?h [b4, b5] @ ''-'' @
      (CHR ''8'' # (hex_digit (unat b6 mod 16) # ?h [b7])) @ ''-'' @ (c # (d # ?h [b9])) @ ''-'' @ ?h [b10, b11, b12, b13, b14, b15])"
    by (rule uuid_shape) (use v in \<open>simp_all add: hex_byte_def char_le_code\<close>)
  ultimately show ?thesis by simp
qed

end
