(* ===== verification/Idempotent_Insert.thy ===== *)
theory Idempotent_Insert
  imports Persisted_Json
begin

text \<open>
  The contract of a service that stores a row once: called again with the same input it returns
  the row it stored, called with another input for the same key it refuses. Three services of
  the panel share it: the jobs of an operation, the links to operations of other panels and
  the staged uploads. \<open>look\<close> finds the row of the key of an input, \<open>same\<close> is the comparison of
  the service, and \<open>admits\<close> is what else it asks for before it looks.
\<close>

locale idempotent_insert =
  fixes look :: "'i \<Rightarrow> 't \<Rightarrow> 'r option"
    and put :: "'i \<Rightarrow> 't \<Rightarrow> ('r, 't) outcome"
    and same :: "'r \<Rightarrow> 'i \<Rightarrow> bool"
    and admits :: "'i \<Rightarrow> 't \<Rightarrow> bool"
  assumes put_error: "put i t = (Inl e, t') \<Longrightarrow> t' = t"
    and put_stored: "put i t = (Inr r, t') \<Longrightarrow> look i t' = Some r \<and> same r i"
    and put_found: "put i t = (Inr r, t') \<Longrightarrow> look i t = Some q \<Longrightarrow> t' = t"
    and put_admitted: "look i t = Some r \<Longrightarrow> same r i \<Longrightarrow> admits i t \<Longrightarrow> put i t = (Inr r, t)"
begin

lemma replayed: "put i t = (Inr r, t') \<Longrightarrow> admits i t' \<Longrightarrow> put i t' = (Inr r, t')"
  using put_stored put_admitted by blast

lemma refused: "look i t = Some r \<Longrightarrow> \<not> same r i \<Longrightarrow> \<exists>e. put i t = (Inl e, t)"
proof -
  assume found: "look i t = Some r" and other: "\<not> same r i"
  obtain res t' where put: "put i t = (res, t')" by fastforce
  show "\<exists>e. put i t = (Inl e, t)"
  proof (cases res)
    case (Inr q)
    with put found have "t' = t" "look i t' = Some q" "same q i" using put_found put_stored by blast+
    with found other show ?thesis by simp
  qed (use put put_error in blast)
qed

lemma one_row: "put i t = (Inr r, t') \<Longrightarrow> look j t' = look i t' \<Longrightarrow> put j t' = (Inr q, t'') \<Longrightarrow> q = r \<and> t'' = t'"
  by (metis option.inject put_found put_stored)

lemma nothing_lost: "look i t = Some r \<Longrightarrow> look i (snd (put i t)) = Some r"
  by (metis put_error put_found snd_conv sum.exhaust surj_pair)

end

end
