(* ===== verification/Agent_Job.thy ===== *)
theory Agent_Job
  imports Operation_Begin Agent_Job_Contract Identifiers Idempotent_Insert
begin

text \<open>
  The API side of the agent jobs, \<open>api/src/operations/agent-job.service.ts\<close>: the table
  \<open>agent_jobs\<close> and the service that writes it. A job is one step of an operation, run by the
  agent under the boot that it was bound to; \<open>sequence\<close> orders what the agent reports of it.

  \<open>job_env\<close> holds what comes from outside: SHA-256 of a text, the redaction
  \<open>safeErrorMessage\<close> (\<open>job_message\<close>) and the reading of a validated ISO date. An operation that
  reads the table and then writes it in a second statement takes both states (\<open>seen\<close> first).
\<close>

section \<open>Rows and messages\<close>

record job_env =
  job_sha256 :: "string \<Rightarrow> bytes"
  job_message :: "string \<Rightarrow> string"
  job_date :: "string \<Rightarrow> time"

record job_row =
  aj_id :: string
  aj_operationId :: string
  aj_step :: string
  aj_actionId :: string
  aj_requestHash :: string
  aj_state :: job_state
  aj_cancelSafe :: bool
  aj_agentBootId :: "string option"
  aj_sequence :: int
  aj_progress :: int
  aj_currentStep :: "string option"
  aj_cancelRequestedAt :: "time option"
  aj_cancelOutcome :: "string option"
  aj_result :: "string option"
  aj_errorMessage :: "string option"
  aj_deadlineAt :: time
  aj_startedAt :: "time option"
  aj_heartbeatAt :: "time option"
  aj_completedAt :: "time option"

record job_started =
  sm_success :: bool
  sm_jobId :: string
  sm_operationId :: string
  sm_bootId :: string
  sm_state :: job_state
  sm_replayed :: bool
  sm_error :: "string option"

record job_heartbeat =
  hm_jobId :: string
  hm_operationId :: string
  hm_bootId :: string
  hm_sequence :: int
  hm_progress :: int
  hm_step :: string
  hm_timestamp :: string

record job_result =
  rm_jobId :: string
  rm_operationId :: string
  rm_bootId :: string
  rm_sequence :: int
  rm_success :: bool
  rm_cancelled :: bool
  rm_result :: json
  rm_error :: "string option"
  rm_timestamp :: string

record job_status =
  tm_success :: bool
  tm_jobId :: string
  tm_operationId :: string
  tm_bootId :: string
  tm_state :: job_state
  tm_sequence :: int
  tm_progress :: int
  tm_step :: string
  tm_result :: json
  tm_error :: "string option"

text \<open>The table satisfies the contract of a table with a unique key.\<close>

interpretation job_table: row_store aj_id "keyed aj_id" "find_key aj_id" update_rows count_rows
  by (rule list_row_store)

section \<open>Groups of states\<close>

definition EXECUTING_OPERATION_STATES :: "op_state list" where
  "EXECUTING_OPERATION_STATES = [CLAIMED, RUNNING, RECOVERING, CANCEL_REQUESTED]"

definition TERMINAL_JOB_STATES :: "job_state list" where
  "TERMINAL_JOB_STATES = [JOB_SUCCEEDED, JOB_FAILED, JOB_CANCELLED, JOB_NEEDS_ATTENTION]"

definition LIVE_JOB_STATES :: "job_state list" where
  "LIVE_JOB_STATES = [JOB_STARTING, JOB_RUNNING, JOB_CANCEL_REQUESTED]"

lemma live_job_iff: "s \<in> set LIVE_JOB_STATES \<longleftrightarrow> s \<notin> set TERMINAL_JOB_STATES"
  by (cases s) (simp_all add: LIVE_JOB_STATES_def TERMINAL_JOB_STATES_def)

definition MAX_JOB_PAYLOAD_BYTES :: nat where "MAX_JOB_PAYLOAD_BYTES = 1024 * 1024"
definition MAX_JOB_RESULT_BYTES :: nat where "MAX_JOB_RESULT_BYTES = 1024 * 1024"

section \<open>Preparation\<close>

record job_input =
  ji_operationId :: string
  ji_actionId :: string
  ji_step :: string
  ji_payload :: json
  ji_deadlineAt :: "time option"
  ji_cancelSafe :: bool

record prepared_job =
  pj_id :: string
  pj_operationId :: string
  pj_actionId :: string
  pj_step :: string
  pj_requestHash :: string
  pj_state :: job_state
  pj_deadlineAt :: time
  pj_cancelSafe :: bool
  pj_payload :: json

definition NUL :: string where "NUL = [CHR 0x00]"

definition deterministicJobId :: "job_env \<Rightarrow> string \<Rightarrow> string \<Rightarrow> string" where
  "deterministicJobId env operationId step =
     uuidFromDigest (job_sha256 env (''MEOWBOX-AGENT-JOB-V1'' @ NUL @ operationId @ NUL @ step))"

definition job_hash :: "job_env \<Rightarrow> string \<Rightarrow> string \<Rightarrow> json \<Rightarrow> string" where
  "job_hash env actionId step payload =
     hex_of (job_sha256 env (actionId @ NUL @ step @ NUL @ stable_json payload))"

definition prepare_invalid :: "job_input \<Rightarrow> time \<Rightarrow> exn option" where
  "prepare_invalid inp now =
     (if \<not> rx_test ACTION_ID (ji_actionId inp) then Some (BadRequest ''Agent job action is invalid'')
      else if \<not> rx_test STEP (ji_step inp) then Some (BadRequest ''Agent job step is invalid'')
      else if (case ji_deadlineAt inp of None \<Rightarrow> True | Some t \<Rightarrow> t \<le> now)
        then Some (BadRequest ''Agent job deadline is invalid'')
      else if utf8_length (stable_json (ji_payload inp)) > MAX_JOB_PAYLOAD_BYTES
        then Some (BadRequest ''Agent job payload exceeds 1 MiB'')
      else None)"

text \<open>The new row; the columns not in \<open>data\<close> have the defaults of the schema.\<close>

definition new_job :: "job_env \<Rightarrow> job_input \<Rightarrow> time \<Rightarrow> job_row" where
  "new_job env inp deadline = \<lparr>
     aj_id = deterministicJobId env (ji_operationId inp) (ji_step inp),
     aj_operationId = ji_operationId inp, aj_step = ji_step inp, aj_actionId = ji_actionId inp,
     aj_requestHash = job_hash env (ji_actionId inp) (ji_step inp) (ji_payload inp),
     aj_state = JOB_STARTING, aj_cancelSafe = ji_cancelSafe inp, aj_agentBootId = None,
     aj_sequence = 0, aj_progress = 0, aj_currentStep = None, aj_cancelRequestedAt = None,
     aj_cancelOutcome = None, aj_result = None, aj_errorMessage = None, aj_deadlineAt = deadline,
     aj_startedAt = None, aj_heartbeatAt = None, aj_completedAt = None\<rparr>"

definition job_of_step :: "string \<Rightarrow> string \<Rightarrow> job_row list \<Rightarrow> job_row option" where
  "job_of_step operationId step jobs =
     find_first (\<lambda>r. aj_operationId r = operationId \<and> aj_step r = step) jobs"

definition create_job :: "job_row \<Rightarrow> job_row list \<Rightarrow> (job_row, job_row list) outcome" where
  "create_job r jobs =
     (if aj_id r \<in> aj_id ` set jobs then (Inl (DbFault unique_violation), jobs)
      else (Inr r, jobs @ [r]))"

definition same_job :: "job_row \<Rightarrow> job_row \<Rightarrow> bool" where
  "same_job existing r =
     (aj_id existing = aj_id r \<and> aj_actionId existing = aj_actionId r \<and>
      aj_requestHash existing = aj_requestHash r \<and> aj_cancelSafe existing = aj_cancelSafe r)"

definition prepare_tx ::
  "job_env \<Rightarrow> job_input \<Rightarrow> time \<Rightarrow> op_row list \<Rightarrow> job_row list \<Rightarrow> (job_row, job_row list) outcome"
where
  "prepare_tx env inp deadline ops jobs =
     (case find_key op_id (ji_operationId inp) ops of
        None \<Rightarrow> (Inl (NotFound ''Operation not found''), jobs)
      | Some operation \<Rightarrow>
          if op_status operation \<notin> set EXECUTING_OPERATION_STATES
            then (Inl (Conflict ''Operation is not executing''), jobs)
          else if (case op_deadlineAt operation of None \<Rightarrow> False | Some t \<Rightarrow> deadline > t)
            then (Inl (Conflict ''Agent job exceeds operation deadline''), jobs)
          else case job_of_step (ji_operationId inp) (ji_step inp) jobs of
            Some existing \<Rightarrow>
              if same_job existing (new_job env inp deadline) then (Inr existing, jobs)
              else (Inl (Conflict ''Agent job idempotency conflict''), jobs)
          | None \<Rightarrow> create_job (new_job env inp deadline) jobs)"

text \<open>A job of a step is stored once, as long as the operation executes.\<close>

definition step_admitted :: "time \<Rightarrow> op_row list \<Rightarrow> job_input \<Rightarrow> bool" where
  "step_admitted deadline ops inp =
     (case find_key op_id (ji_operationId inp) ops of
        None \<Rightarrow> False
      | Some operation \<Rightarrow> op_status operation \<in> set EXECUTING_OPERATION_STATES \<and>
          (case op_deadlineAt operation of None \<Rightarrow> True | Some t \<Rightarrow> deadline \<le> t))"

lemma prepare_tx_admitted:
  "prepare_tx env inp deadline ops jobs = (Inr r, jobs') \<longleftrightarrow> step_admitted deadline ops inp \<and>
     (case job_of_step (ji_operationId inp) (ji_step inp) jobs of
        Some existing \<Rightarrow> same_job existing (new_job env inp deadline) \<and> r = existing \<and> jobs' = jobs
      | None \<Rightarrow> create_job (new_job env inp deadline) jobs = (Inr r, jobs'))"
  by (auto simp: prepare_tx_def step_admitted_def split: option.splits if_splits)

lemma job_of_step_append:
  "job_of_step k st jobs = None \<Longrightarrow> job_of_step k st (jobs @ [r]) = (if aj_operationId r = k \<and> aj_step r = st then Some r else None)"
  by (induction jobs) (auto simp: job_of_step_def find_first_def split: if_splits)

interpretation step_jobs: idempotent_insert "\<lambda>inp. job_of_step (ji_operationId inp) (ji_step inp)"
    "\<lambda>inp. prepare_tx env inp deadline ops" "\<lambda>r inp. same_job r (new_job env inp deadline)"
    "\<lambda>inp _. step_admitted deadline ops inp" for env deadline ops
proof unfold_locales
  fix i t e t' assume "prepare_tx env i deadline ops t = (Inl e, t')"
  then show "t' = t" by (auto simp: prepare_tx_def create_job_def split: option.splits if_splits)
next
  fix i t r t' assume "prepare_tx env i deadline ops t = (Inr r, t')"
  then show "job_of_step (ji_operationId i) (ji_step i) t' = Some r \<and> same_job r (new_job env i deadline)"
    by (auto simp: prepare_tx_admitted create_job_def job_of_step_append same_job_def split: option.splits if_splits)
      (auto simp: new_job_def)
qed (auto simp: prepare_tx_admitted)

definition prepared_of :: "job_row \<Rightarrow> json \<Rightarrow> prepared_job" where
  "prepared_of r payload = \<lparr>pj_id = aj_id r, pj_operationId = aj_operationId r, pj_actionId = aj_actionId r,
     pj_step = aj_step r, pj_requestHash = aj_requestHash r, pj_state = aj_state r,
     pj_deadlineAt = aj_deadlineAt r, pj_cancelSafe = aj_cancelSafe r, pj_payload = payload\<rparr>"

definition prepare_job ::
  "job_env \<Rightarrow> job_input \<Rightarrow> time \<Rightarrow> db_error option \<Rightarrow> op_row list \<Rightarrow> job_row list
     \<Rightarrow> (prepared_job, job_row list) outcome"
where
  "prepare_job env inp now fault ops jobs =
     (case prepare_invalid inp now of
        Some e \<Rightarrow> (Inl e, jobs)
      | None \<Rightarrow>
         (case transaction fault (prepare_tx env inp (the (ji_deadlineAt inp)) ops) jobs of
            (Inl e, jobs') \<Rightarrow> (Inl e, jobs')
          | (Inr r, jobs') \<Rightarrow> (Inr (prepared_of r (ji_payload inp)), jobs')))"

section \<open>What the agent reports\<close>

text \<open>\<open>safeErrorMessage(e).slice(0, 4096)\<close>, and the truthiness of an error text.\<close>

definition job_error :: "job_env \<Rightarrow> string \<Rightarrow> string" where
  "job_error env e = take 4096 (job_message env e)"

definition rejected_write :: "job_env \<Rightarrow> job_started \<Rightarrow> time \<Rightarrow> job_row \<Rightarrow> job_row" where
  "rejected_write env started now r = r\<lparr>aj_state := JOB_FAILED, aj_agentBootId := Some (sm_bootId started),
     aj_errorMessage := Some (job_error env (case truthy (sm_error started) of Some e \<Rightarrow> e | None \<Rightarrow> ''Agent rejected job'')),
     aj_completedAt := Some now\<rparr>"

definition started_guard :: "string \<Rightarrow> string \<Rightarrow> job_row \<Rightarrow> bool" where
  "started_guard jobId bootId r =
     (aj_id r = jobId \<and> aj_agentBootId r = Some bootId \<and> aj_state r \<in> set [JOB_STARTING, JOB_RUNNING])"

definition started_write :: "time option \<Rightarrow> time \<Rightarrow> job_row \<Rightarrow> job_row" where
  "started_write startedAt now r = r\<lparr>aj_state := JOB_RUNNING,
     aj_startedAt := Some (case startedAt of Some t \<Rightarrow> t | None \<Rightarrow> now), aj_heartbeatAt := Some now\<rparr>"

definition not_found_row :: db_error where
  "not_found_row = \<lparr>err_code = ''P2025'', err_meta_code = None, err_meta_error = None,
     err_message = ''Record to update not found''\<rparr>"

text \<open>\<open>update\<close> of one row by its key: an error when there is no such row.\<close>

definition update_job :: "string \<Rightarrow> (job_row \<Rightarrow> job_row) \<Rightarrow> job_row list \<Rightarrow> (unit, job_row list) outcome" where
  "update_job jobId f jobs =
     (if find_key aj_id jobId jobs = None then (Inl (DbFault not_found_row), jobs)
      else (Inr (), update_rows (\<lambda>r. aj_id r = jobId) f jobs))"

definition recordStarted ::
  "job_env \<Rightarrow> job_started \<Rightarrow> time \<Rightarrow> job_row list \<Rightarrow> job_row list \<Rightarrow> (unit, job_row list) outcome"
where
  "recordStarted env started now seen jobs =
     (case find_key aj_id (sm_jobId started) seen of
        None \<Rightarrow> (Inl (NotFound ''Agent job not found''), jobs)
      | Some job \<Rightarrow>
          if aj_operationId job \<noteq> sm_operationId started then (Inl (NotFound ''Agent job not found''), jobs)
          else if \<not> sm_success started then update_job (aj_id job) (rejected_write env started now) jobs
          else if aj_state job \<in> set TERMINAL_JOB_STATES then (Inr (), jobs)
          else if truthy (aj_agentBootId job) \<noteq> None \<and> aj_agentBootId job \<noteq> Some (sm_bootId started)
            then (Inl (Conflict ''Agent job boot identity changed''), jobs)
          else (Inr (), update_rows (started_guard (aj_id job) (sm_bootId started))
                          (started_write (aj_startedAt job) now) jobs))"

definition bind_guard :: "string \<Rightarrow> string \<Rightarrow> job_row \<Rightarrow> bool" where
  "bind_guard jobId bootId r =
     (aj_id r = jobId \<and> aj_state r = JOB_STARTING \<and> (aj_agentBootId r = None \<or> aj_agentBootId r = Some bootId))"

definition bindToBoot :: "string \<Rightarrow> string \<Rightarrow> job_row list \<Rightarrow> (unit, job_row list) outcome" where
  "bindToBoot jobId bootId jobs =
     (if count_rows (bind_guard jobId bootId) jobs = 1
      then (Inr (), update_rows (bind_guard jobId bootId) (\<lambda>r. r\<lparr>aj_agentBootId := Some bootId\<rparr>) jobs)
      else case find_key aj_id jobId jobs of
        None \<Rightarrow> (Inl (NotFound ''Agent job not found''), jobs)
      | Some job \<Rightarrow>
          if aj_agentBootId job \<noteq> Some bootId \<and> aj_state job \<notin> set TERMINAL_JOB_STATES
            then (Inl (Conflict ''Agent job is bound to another agent boot''), jobs)
          else (Inr (), jobs))"

definition report_guard :: "string \<Rightarrow> string \<Rightarrow> string \<Rightarrow> job_row \<Rightarrow> bool" where
  "report_guard jobId operationId bootId r =
     (aj_id r = jobId \<and> aj_operationId r = operationId \<and> aj_agentBootId r = Some bootId \<and>
      aj_state r \<in> set LIVE_JOB_STATES)"

definition heartbeat_write :: "job_env \<Rightarrow> job_heartbeat \<Rightarrow> job_row \<Rightarrow> job_row" where
  "heartbeat_write env m r = r\<lparr>aj_sequence := hm_sequence m, aj_progress := hm_progress m,
     aj_currentStep := Some (hm_step m), aj_heartbeatAt := Some (job_date env (hm_timestamp m))\<rparr>"

definition recordHeartbeat :: "job_env \<Rightarrow> job_heartbeat \<Rightarrow> job_row list \<Rightarrow> bool \<times> job_row list" where
  "recordHeartbeat env m jobs =
     (let guard = (\<lambda>r. report_guard (hm_jobId m) (hm_operationId m) (hm_bootId m) r \<and> aj_sequence r < hm_sequence m)
      in (count_rows guard jobs = 1, update_rows guard (heartbeat_write env m) jobs))"

definition result_state :: "job_result \<Rightarrow> job_state" where
  "result_state m = (if rm_cancelled m then JOB_CANCELLED else if rm_success m then JOB_SUCCEEDED else JOB_FAILED)"

definition result_write :: "job_env \<Rightarrow> job_result \<Rightarrow> job_row \<Rightarrow> job_row" where
  "result_write env m r = r\<lparr>aj_state := result_state m, aj_sequence := rm_sequence m,
     aj_progress := (if rm_success m then 100 else aj_progress r),
     aj_result := (if rm_success m then Some (stable_json (rm_result m)) else None),
     aj_errorMessage := map_option (job_error env) (truthy (rm_error m)),
     aj_cancelOutcome := (if rm_cancelled m then Some ''CANCELLED'' else None),
     aj_heartbeatAt := Some (job_date env (rm_timestamp m)), aj_completedAt := Some (job_date env (rm_timestamp m))\<rparr>"

definition recordResult :: "job_env \<Rightarrow> job_result \<Rightarrow> job_row list \<Rightarrow> (bool, job_row list) outcome" where
  "recordResult env m jobs =
     (case assertNoSecretFields ''agentJob.result'' (rm_result m) of
        Some e \<Rightarrow> (Inl (Plain e), jobs)
      | None \<Rightarrow>
          if utf8_length (stable_json (rm_result m)) > MAX_JOB_RESULT_BYTES
            then (Inl (BadRequest ''Agent job result exceeds 1 MiB''), jobs)
          else
            (let guard = (\<lambda>r. report_guard (rm_jobId m) (rm_operationId m) (rm_bootId m) r \<and> aj_sequence r < rm_sequence m)
             in (Inr (count_rows guard jobs = 1), update_rows guard (result_write env m) jobs)))"

definition status_result :: "job_status \<Rightarrow> string \<Rightarrow> job_result" where
  "status_result m timestamp = \<lparr>rm_jobId = tm_jobId m, rm_operationId = tm_operationId m, rm_bootId = tm_bootId m,
     rm_sequence = tm_sequence m, rm_success = (tm_state m = JOB_SUCCEEDED),
     rm_cancelled = (tm_state m = JOB_CANCELLED),
     rm_result = (if tm_state m = JOB_SUCCEEDED then tm_result m else JNull), rm_error = tm_error m,
     rm_timestamp = timestamp\<rparr>"

definition unknown_write :: "string \<Rightarrow> time \<Rightarrow> job_row \<Rightarrow> job_row" where
  "unknown_write message now r = r\<lparr>aj_state := JOB_NEEDS_ATTENTION, aj_errorMessage := Some message,
     aj_completedAt := Some now\<rparr>"

definition status_write :: "job_status \<Rightarrow> time \<Rightarrow> job_row \<Rightarrow> job_row" where
  "status_write m now r = r\<lparr>
     aj_state := (if tm_state m = JOB_CANCEL_REQUESTED then JOB_CANCEL_REQUESTED else JOB_RUNNING),
     aj_sequence := tm_sequence m, aj_progress := tm_progress m, aj_currentStep := Some (tm_step m),
     aj_heartbeatAt := Some now\<rparr>"

text \<open>\<open>isoNow\<close> is \<open>new Date().toISOString()\<close> for the time \<open>now\<close>.\<close>

definition recordStatus ::
  "job_env \<Rightarrow> job_status \<Rightarrow> time \<Rightarrow> string \<Rightarrow> job_row list \<Rightarrow> (unit, job_row list) outcome"
where
  "recordStatus env m now isoNow jobs =
     (if \<not> tm_success m then (Inr (), jobs)
      else if tm_state m \<in> set [JOB_SUCCEEDED, JOB_FAILED, JOB_CANCELLED] then
        (case recordResult env (status_result m isoNow) jobs of
           (Inl e, jobs') \<Rightarrow> (Inl e, jobs')
         | (Inr _, jobs') \<Rightarrow> (Inr (), jobs'))
      else if tm_state m = JOB_NEEDS_ATTENTION then
        (Inr (), update_rows (report_guard (tm_jobId m) (tm_operationId m) (tm_bootId m))
          (unknown_write (job_error env (case truthy (tm_error m) of Some e \<Rightarrow> e | None \<Rightarrow> ''Agent reported unknown outcome''))
             now) jobs)
      else
        (Inr (), update_rows
          (\<lambda>r. report_guard (tm_jobId m) (tm_operationId m) (tm_bootId m) r \<and> aj_sequence r \<le> tm_sequence m)
          (status_write m now) jobs))"

section \<open>Cancellation and loss\<close>

datatype cancel_answer = REQUESTED | NOT_CANCELLABLE | ALREADY_TERMINAL

definition request_cancel_write :: "time \<Rightarrow> job_row \<Rightarrow> job_row" where
  "request_cancel_write now r = r\<lparr>aj_state := JOB_CANCEL_REQUESTED,
     aj_cancelRequestedAt := Some (case aj_cancelRequestedAt r of Some t \<Rightarrow> t | None \<Rightarrow> now),
     aj_cancelOutcome := Some ''REQUESTED''\<rparr>"

definition requestCancel :: "string \<Rightarrow> time \<Rightarrow> job_row list \<Rightarrow> (cancel_answer, job_row list) outcome" where
  "requestCancel jobId now jobs =
     (case find_key aj_id jobId jobs of
        None \<Rightarrow> (Inl (NotFound ''Agent job not found''), jobs)
      | Some job \<Rightarrow>
          if aj_state job \<in> set TERMINAL_JOB_STATES then (Inr ALREADY_TERMINAL, jobs)
          else if \<not> aj_cancelSafe job
            then (Inr NOT_CANCELLABLE, update_rows (\<lambda>r. aj_id r = jobId)
                    (\<lambda>r. r\<lparr>aj_cancelOutcome := Some ''NOT_CANCELLABLE''\<rparr>) jobs)
          else (Inr REQUESTED, update_rows (\<lambda>r. aj_id r = jobId) (request_cancel_write now) jobs))"

definition recordCancelOutcome :: "string \<Rightarrow> string \<Rightarrow> job_row list \<Rightarrow> (unit, job_row list) outcome" where
  "recordCancelOutcome jobId outcome =
     update_job jobId (\<lambda>r. r\<lparr>aj_cancelOutcome := Some (take 128 outcome)\<rparr>)"

definition interrupted_job :: "string \<Rightarrow> job_row \<Rightarrow> bool" where
  "interrupted_job bootId r =
     (aj_agentBootId r \<noteq> None \<and> aj_agentBootId r \<noteq> Some bootId \<and>
      aj_state r \<in> set [JOB_RUNNING, JOB_CANCEL_REQUESTED])"

definition markInterruptedByNewBoot :: "string \<Rightarrow> time \<Rightarrow> job_row list \<Rightarrow> nat \<times> job_row list" where
  "markInterruptedByNewBoot bootId now jobs =
     (count_rows (interrupted_job bootId) jobs,
      update_rows (interrupted_job bootId)
        (unknown_write ''Agent restarted while job outcome was unknown'' now) jobs)"

definition markDeadlineUnknown :: "string \<Rightarrow> time \<Rightarrow> job_row list \<Rightarrow> job_row list" where
  "markDeadlineUnknown jobId now jobs =
     update_rows (\<lambda>r. aj_id r = jobId \<and> aj_state r \<in> set LIVE_JOB_STATES)
       (unknown_write ''Agent job deadline elapsed with unknown outcome'' now) jobs"

section \<open>Reading\<close>

definition parseStoredResult :: "string option \<Rightarrow> json" where
  "parseStoredResult raw =
     (case truthy raw of
        None \<Rightarrow> JNull
      | Some s \<Rightarrow> (case json_parse s of Some v \<Rightarrow> v | None \<Rightarrow> JNull))"

text \<open>\<open>get\<close>: the row, with the stored result parsed.\<close>

definition get_job :: "string \<Rightarrow> job_row list \<Rightarrow> exn + (job_row \<times> json)" where
  "get_job jobId jobs =
     (case find_key aj_id jobId jobs of
        None \<Rightarrow> Inl (NotFound ''Agent job not found'')
      | Some r \<Rightarrow> Inr (r, parseStoredResult (aj_result r)))"

end
