(* ===== verification/Agent_Runtime.thy ===== *)
theory Agent_Runtime
  imports Agent_Job
begin

text \<open>
  The agent side of the jobs, \<open>agent/src/agent-job.runtime.ts\<close>. A runtime is one boot of the
  agent: its identity, the actions that have a handler, and the jobs it has accepted, in the
  order of the \<open>Map\<close> of the source. A handler is arbitrary code; the model has what the
  runtime does when it is started, when it reports progress and when it ends.

  Every operation is one turn of the event loop: it returns the answer to the caller, if any,
  and the events it emits. \<open>isoNow\<close> is the ISO form of the time at which it runs.
\<close>

section \<open>Messages of errors\<close>

text \<open>
  \<open>safeMessage\<close> replaces \<open>/(password|secret|token|authorization|cookie)\s*[=:]\s*[^\s,;]+/gi\<close> by
  \<open>$1=[REDACTED]\<close>. The parts of the pattern start with disjoint classes of characters, so a
  match is found without backtracking; \<open>redacted_at\<close> gives the replacement and the rest of
  the text when there is a match at its start.
\<close>

definition REDACTED_WORDS :: "string list" where
  "REDACTED_WORDS = [''password'', ''secret'', ''token'', ''authorization'', ''cookie'']"

definition value_char :: "char \<Rightarrow> bool" where
  "value_char c = (\<not> js_space c \<and> c \<notin> set '',;'')"

definition redacted_at :: "string \<Rightarrow> (string \<times> string) option" where
  "redacted_at s =
     (case find (\<lambda>w. map to_lower (take (length w) s) = w) REDACTED_WORDS of
        None \<Rightarrow> None
      | Some w \<Rightarrow>
         (case dropWhile js_space (drop (length w) s) of
            [] \<Rightarrow> None
          | c # r \<Rightarrow>
              let v = dropWhile js_space r in
              if c \<in> set ''=:'' \<and> takeWhile value_char v \<noteq> []
              then Some (take (length w) s @ ''=[REDACTED]'', dropWhile value_char v) else None))"

lemma redacted_at_shorter:
  assumes "redacted_at s = Some (out, rest)"
  shows "length rest < length s"
proof -
  obtain w where "find (\<lambda>w. map to_lower (take (length w) s) = w) REDACTED_WORDS = Some w"
    using assms by (auto simp: redacted_at_def split: option.splits)
  moreover from this assms obtain c r where w: "dropWhile js_space (drop (length w) s) = c # r"
    by (auto simp: redacted_at_def split: list.splits)
  ultimately have rest: "rest = dropWhile value_char (dropWhile js_space r)"
    using assms by (auto simp: redacted_at_def Let_def split: if_splits)
  have "length rest \<le> length r" unfolding rest
    by (rule order_trans [OF length_dropWhile_le length_dropWhile_le])
  also have "\<dots> < length (dropWhile js_space (drop (length w) s))" by (simp add: w)
  also have "\<dots> \<le> length s"
    by (rule order_trans [OF length_dropWhile_le]) simp
  finally show ?thesis .
qed

function redact_assignments :: "string \<Rightarrow> string" where
  "redact_assignments [] = []"
| "redact_assignments (c # s) =
     (case redacted_at (c # s) of
        Some (out, rest) \<Rightarrow> out @ redact_assignments rest
      | None \<Rightarrow> c # redact_assignments s)"
  by pat_completeness auto
termination
  by (relation "measure length") (auto dest: redacted_at_shorter)

definition safeMessage :: "string \<Rightarrow> string" where
  "safeMessage message = take 4096 (redact_assignments message)"

section \<open>Jobs\<close>

record job_start =
  js_jobId :: string
  js_operationId :: string
  js_actionId :: string
  js_step :: string
  js_requestHash :: string
  js_deadlineAt :: string
  js_cancelSafe :: bool
  js_payload :: json

record runtime_job =
  rj_request :: job_start
  rj_state :: job_state
  rj_sequence :: int
  rj_progress :: int
  rj_step :: string
  rj_result :: json
  rj_error :: "string option"
  rj_cancellationRequested :: bool
  rj_createdAt :: time

record runtime =
  rt_bootId :: string
  rt_handlers :: "string list"
  rt_jobs :: "(string \<times> runtime_job) list"

datatype agent_event = Started job_started | Heartbeat job_heartbeat | Result job_result

definition MAX_ACTIVE_JOBS :: nat where "MAX_ACTIVE_JOBS = 2"
definition MAX_HISTORY :: nat where "MAX_HISTORY = 1000"

definition new_boot :: "string \<Rightarrow> runtime" where
  "new_boot bootId = \<lparr>rt_bootId = bootId, rt_handlers = [], rt_jobs = []\<rparr>"

definition registerHandler :: "string \<Rightarrow> runtime \<Rightarrow> exn + runtime" where
  "registerHandler actionId rt =
     (if \<not> rx_test ACTION_ID actionId then Inl (Plain ''Agent job action ID is invalid'')
      else if actionId \<in> set (rt_handlers rt)
        then Inl (Plain (''Agent job handler already registered: '' @ actionId))
      else Inr (rt\<lparr>rt_handlers := actionId # rt_handlers rt\<rparr>))"

definition set_job :: "string \<Rightarrow> (runtime_job \<Rightarrow> runtime_job) \<Rightarrow> runtime \<Rightarrow> runtime" where
  "set_job jobId f rt =
     rt\<lparr>rt_jobs := map (\<lambda>(k, j). (k, if k = jobId then f j else j)) (rt_jobs rt)\<rparr>"

definition terminal_job :: "runtime_job \<Rightarrow> bool" where
  "terminal_job j = (rj_state j \<in> set TERMINAL_JOB_STATES)"

section \<open>Answers and events\<close>

definition startedResponse :: "runtime \<Rightarrow> runtime_job \<Rightarrow> bool \<Rightarrow> job_started" where
  "startedResponse rt j replayed = \<lparr>sm_success = True, sm_jobId = js_jobId (rj_request j),
     sm_operationId = js_operationId (rj_request j), sm_bootId = rt_bootId rt, sm_state = rj_state j,
     sm_replayed = replayed, sm_error = None\<rparr>"

definition text_or :: "string \<Rightarrow> json \<Rightarrow> string" where
  "text_or u v = (case v of JStr s \<Rightarrow> s | _ \<Rightarrow> u)"

definition rejectedStart :: "runtime \<Rightarrow> json \<Rightarrow> string \<Rightarrow> string \<Rightarrow> string \<Rightarrow> job_started" where
  "rejectedStart rt raw e u1 u2 = \<lparr>sm_success = False, sm_jobId = text_or u1 (field raw ''jobId''),
     sm_operationId = text_or u2 (field raw ''operationId''), sm_bootId = rt_bootId rt, sm_state = JOB_FAILED,
     sm_replayed = False, sm_error = Some e\<rparr>"

definition statusResponse :: "runtime \<Rightarrow> runtime_job \<Rightarrow> job_status" where
  "statusResponse rt j = \<lparr>tm_success = True, tm_jobId = js_jobId (rj_request j),
     tm_operationId = js_operationId (rj_request j), tm_bootId = rt_bootId rt, tm_state = rj_state j,
     tm_sequence = rj_sequence j, tm_progress = rj_progress j, tm_step = rj_step j,
     tm_result = (if rj_state j = JOB_SUCCEEDED then rj_result j else JNull), tm_error = rj_error j\<rparr>"

definition missingStatus :: "runtime \<Rightarrow> string \<Rightarrow> string \<Rightarrow> job_status" where
  "missingStatus rt jobId operationId = \<lparr>tm_success = False, tm_jobId = jobId, tm_operationId = operationId,
     tm_bootId = rt_bootId rt, tm_state = JOB_FAILED, tm_sequence = 0, tm_progress = 0, tm_step = ''unknown'',
     tm_result = JNull, tm_error = Some ''Agent job not found''\<rparr>"

definition heartbeat_of :: "runtime \<Rightarrow> runtime_job \<Rightarrow> string \<Rightarrow> job_heartbeat" where
  "heartbeat_of rt j isoNow = \<lparr>hm_jobId = js_jobId (rj_request j), hm_operationId = js_operationId (rj_request j),
     hm_bootId = rt_bootId rt, hm_sequence = rj_sequence j + 1, hm_progress = rj_progress j,
     hm_step = rj_step j, hm_timestamp = isoNow\<rparr>"

definition result_of :: "runtime \<Rightarrow> runtime_job \<Rightarrow> string \<Rightarrow> job_result" where
  "result_of rt j isoNow = \<lparr>rm_jobId = js_jobId (rj_request j), rm_operationId = js_operationId (rj_request j),
     rm_bootId = rt_bootId rt, rm_sequence = rj_sequence j + 1, rm_success = (rj_state j = JOB_SUCCEEDED),
     rm_cancelled = (rj_state j = JOB_CANCELLED),
     rm_result = (if rj_state j = JOB_SUCCEEDED then rj_result j else JNull), rm_error = rj_error j,
     rm_timestamp = isoNow\<rparr>"

definition next_sequence :: "runtime_job \<Rightarrow> runtime_job" where
  "next_sequence j = j\<lparr>rj_sequence := rj_sequence j + 1\<rparr>"

text \<open>The event and the state after it; a job that has ended sends no heartbeat.\<close>

definition emitHeartbeat :: "string \<Rightarrow> string \<Rightarrow> runtime \<Rightarrow> agent_event list \<times> runtime" where
  "emitHeartbeat jobId isoNow rt =
     (case map_of (rt_jobs rt) jobId of
        None \<Rightarrow> ([], rt)
      | Some j \<Rightarrow> if terminal_job j then ([], rt)
          else ([Heartbeat (heartbeat_of rt j isoNow)], set_job jobId next_sequence rt))"

definition emitResult :: "string \<Rightarrow> string \<Rightarrow> runtime \<Rightarrow> agent_event list \<times> runtime" where
  "emitResult jobId isoNow rt =
     (case map_of (rt_jobs rt) jobId of
        None \<Rightarrow> ([], rt)
      | Some j \<Rightarrow> ([Result (result_of rt j isoNow)], set_job jobId next_sequence rt))"

section \<open>Starting a job\<close>

fun prune_loop :: "time \<Rightarrow> nat \<Rightarrow> (string \<times> runtime_job) list \<Rightarrow> (string \<times> runtime_job) list" where
  "prune_loop cutoff n [] = []"
| "prune_loop cutoff n (e # es) =
     (let old = terminal_job (snd e) \<and> rj_createdAt (snd e) < cutoff;
          n' = (if old then n - 1 else n);
          kept = (if old then [] else [e])
      in if n' < MAX_HISTORY then kept @ es else kept @ prune_loop cutoff n' es)"

text \<open>The second component is whether it returns; otherwise it throws.\<close>

definition pruneJobs :: "time \<Rightarrow> runtime \<Rightarrow> runtime \<times> bool" where
  "pruneJobs now rt =
     (if length (rt_jobs rt) < MAX_HISTORY then (rt, True)
      else let kept = prune_loop (now - 60 * 60 * 1000) (length (rt_jobs rt)) (rt_jobs rt)
           in (rt\<lparr>rt_jobs := kept\<rparr>, length kept < MAX_HISTORY))"

definition json_text :: "json \<Rightarrow> string \<Rightarrow> string" where
  "json_text v k = text_or [] (field v k)"

definition json_flag :: "json \<Rightarrow> string \<Rightarrow> bool" where
  "json_flag v k = (field v k = JBool True)"

definition start_of :: "json \<Rightarrow> job_start" where
  "start_of v = \<lparr>js_jobId = json_text v ''jobId'', js_operationId = json_text v ''operationId'',
     js_actionId = json_text v ''actionId'', js_step = json_text v ''step'',
     js_requestHash = json_text v ''requestHash'', js_deadlineAt = json_text v ''deadlineAt'',
     js_cancelSafe = json_flag v ''cancelSafe'', js_payload = field v ''payload''\<rparr>"

definition same_start :: "job_start \<Rightarrow> job_start \<Rightarrow> bool" where
  "same_start a b = (js_operationId a = js_operationId b \<and> js_requestHash a = js_requestHash b \<and>
     js_actionId a = js_actionId b \<and> js_step a = js_step b)"

definition new_runtime_job :: "job_start \<Rightarrow> time \<Rightarrow> runtime_job" where
  "new_runtime_job request now = \<lparr>rj_request = request, rj_state = JOB_RUNNING, rj_sequence = 0, rj_progress = 0,
     rj_step = js_step request, rj_result = JNull, rj_error = None, rj_cancellationRequested = False,
     rj_createdAt = now\<rparr>"

definition active_jobs :: "runtime \<Rightarrow> nat" where
  "active_jobs rt = length (filter (\<lambda>e. \<not> terminal_job (snd e)) (rt_jobs rt))"

text \<open>
  \<open>handleStart\<close>: the answer (none when \<open>pruneJobs\<close> throws), the events and the runtime.
  \<open>u1\<close> and \<open>u2\<close> are the values of \<open>randomUUID()\<close> in \<open>rejectedStart\<close>, and \<open>read_date\<close> is
  \<open>Date.parse\<close> of a validated date.
\<close>

definition handleStart ::
  "(string \<Rightarrow> time) \<Rightarrow> json \<Rightarrow> time \<Rightarrow> string \<Rightarrow> string \<Rightarrow> string \<Rightarrow> runtime
     \<Rightarrow> job_started option \<times> agent_event list \<times> runtime"
where
  "handleStart read_date raw now isoNow u1 u2 rt =
     (let reject = (\<lambda>m. (Some (rejectedStart rt raw m u1 u2), [], rt)) in
      case validateAgentJobStart raw of
        Some m \<Rightarrow> reject (safeMessage m)
      | None \<Rightarrow>
         (let request = start_of raw in
          case map_of (rt_jobs rt) (js_jobId request) of
            Some existing \<Rightarrow>
              if \<not> same_start (rj_request existing) request then reject ''Agent job idempotency conflict''
              else if terminal_job existing then
                (case emitResult (js_jobId request) isoNow rt of
                   (events, rt') \<Rightarrow> (Some (startedResponse rt existing True), events, rt'))
              else (Some (startedResponse rt existing True), [], rt)
          | None \<Rightarrow>
              if read_date (js_deadlineAt request) \<le> now then reject ''Agent job deadline elapsed''
              else if active_jobs rt \<ge> MAX_ACTIVE_JOBS then reject ''Agent job concurrency limit reached''
              else if js_actionId request \<notin> set (rt_handlers rt) then reject ''Agent job action is not registered''
              else
               (case pruneJobs now rt of
                  (rt1, False) \<Rightarrow> (None, [], rt1)
                | (rt1, True) \<Rightarrow>
                   (let j = new_runtime_job request now;
                        rt2 = rt1\<lparr>rt_jobs := rt_jobs rt1 @ [(js_jobId request, j)]\<rparr>;
                        started = startedResponse rt2 j False
                    in (Some started, [Started started], rt2)))))"

section \<open>Status and cancellation\<close>

text \<open>Two fresh identifiers when the request is malformed.\<close>

definition handleStatus :: "json \<Rightarrow> string \<Rightarrow> string \<Rightarrow> runtime \<Rightarrow> job_status" where
  "handleStatus raw u1 u2 rt =
     (case validateAgentJobStatusRequest raw of
        Some _ \<Rightarrow> missingStatus rt u1 u2
      | None \<Rightarrow>
         (let jobId = json_text raw ''jobId''; operationId = json_text raw ''operationId'' in
          case map_of (rt_jobs rt) jobId of
            None \<Rightarrow> missingStatus rt jobId operationId
          | Some j \<Rightarrow> if js_operationId (rj_request j) \<noteq> operationId then missingStatus rt jobId operationId
              else statusResponse rt j))"

record job_cancel =
  cm_success :: bool
  cm_jobId :: string
  cm_operationId :: string
  cm_state :: job_state
  cm_outcome :: string
  cm_error :: "string option"

definition cancel_mark :: "runtime_job \<Rightarrow> runtime_job" where
  "cancel_mark j = j\<lparr>rj_cancellationRequested := True, rj_state := JOB_CANCEL_REQUESTED\<rparr>"

definition cancel_not_found :: "string \<Rightarrow> string \<Rightarrow> string \<Rightarrow> job_cancel" where
  "cancel_not_found jobId operationId e = \<lparr>cm_success = False, cm_jobId = jobId, cm_operationId = operationId,
     cm_state = JOB_FAILED, cm_outcome = ''NOT_FOUND'', cm_error = Some e\<rparr>"

text \<open>The child processes of a cancelled job are then terminated, which is outside the model.\<close>

definition handleCancel :: "json \<Rightarrow> string \<Rightarrow> string \<Rightarrow> runtime \<Rightarrow> job_cancel \<times> runtime" where
  "handleCancel raw u1 u2 rt =
     (case validateAgentJobStatusRequest raw of
        Some _ \<Rightarrow> (cancel_not_found u1 u2 ''Agent job identity is invalid'', rt)
      | None \<Rightarrow>
         (let jobId = json_text raw ''jobId''; operationId = json_text raw ''operationId'';
              answer = (\<lambda>ok s outcome e. \<lparr>cm_success = ok, cm_jobId = jobId, cm_operationId = operationId,
                 cm_state = s, cm_outcome = outcome, cm_error = e\<rparr>) in
          case map_of (rt_jobs rt) jobId of
            None \<Rightarrow> (cancel_not_found jobId operationId ''Agent job not found'', rt)
          | Some j \<Rightarrow>
              if js_operationId (rj_request j) \<noteq> operationId
                then (cancel_not_found jobId operationId ''Agent job not found'', rt)
              else if terminal_job j then (answer True (rj_state j) ''ALREADY_TERMINAL'' None, rt)
              else if \<not> js_cancelSafe (rj_request j)
                then (answer False (rj_state j) ''NOT_CANCELLABLE'' (Some ''Agent job action is not cancellation-safe''), rt)
              else (answer True JOB_CANCEL_REQUESTED ''REQUESTED'' None, set_job jobId cancel_mark rt)))"

section \<open>A running job\<close>

text \<open>The timer set at the deadline of the job.\<close>

definition deadline_fires :: "string \<Rightarrow> runtime \<Rightarrow> runtime" where
  "deadline_fires jobId rt =
     set_job jobId (\<lambda>j. if \<not> js_cancelSafe (rj_request j) \<or> terminal_job j then j else cancel_mark j) rt"

text \<open>\<open>context.heartbeat(step, progress)\<close> of the handler.\<close>

definition handler_heartbeat ::
  "string \<Rightarrow> string \<Rightarrow> int \<Rightarrow> string \<Rightarrow> runtime \<Rightarrow> (exn + agent_event list) \<times> runtime"
where
  "handler_heartbeat jobId step progress isoNow rt =
     (if \<not> rx_test STEP step then (Inl (Plain ''Agent job heartbeat step is invalid''), rt)
      else if progress < 0 \<or> progress > 100 then (Inl (Plain ''Agent job heartbeat progress is invalid''), rt)
      else case emitHeartbeat jobId isoNow (set_job jobId (\<lambda>j. j\<lparr>rj_step := step, rj_progress := progress\<rparr>) rt) of
        (events, rt') \<Rightarrow> (Inr events, rt'))"

fun assertSafeResult :: "string \<Rightarrow> json \<Rightarrow> string option"
  and safe_items :: "string \<Rightarrow> nat \<Rightarrow> json list \<Rightarrow> string option"
  and safe_entries :: "string \<Rightarrow> (string \<times> json) list \<Rightarrow> string option"
where
  "assertSafeResult path (JArr vs) = safe_items path 0 vs"
| "assertSafeResult path (JObj kvs) = safe_entries path kvs"
| "assertSafeResult path _ = None"
| "safe_items path i [] = None"
| "safe_items path i (v # vs) =
     (case assertSafeResult (path @ ''['' @ show_nat i @ '']'') v of
        Some m \<Rightarrow> Some m
      | None \<Rightarrow> safe_items path (Suc i) vs)"
| "safe_entries path [] = None"
| "safe_entries path ((key, v) # kvs) =
     (if secret_name key then Some (''Agent job result contains forbidden field: '' @ path @ ''.'' @ key)
      else case assertSafeResult (path @ ''.'' @ key) v of
        Some m \<Rightarrow> Some m
      | None \<Rightarrow> safe_entries path kvs)"

definition MAX_RESULT_BYTES :: nat where "MAX_RESULT_BYTES = 1024 * 1024"

definition cancelled_job :: "runtime_job \<Rightarrow> runtime_job" where
  "cancelled_job j = j\<lparr>rj_state := JOB_CANCELLED, rj_error := Some ''Agent job cancelled''\<rparr>"

definition failed_job :: "string \<Rightarrow> runtime_job \<Rightarrow> runtime_job" where
  "failed_job m j = (if rj_cancellationRequested j then cancelled_job j
     else j\<lparr>rj_state := JOB_FAILED, rj_error := Some (safeMessage m)\<rparr>)"

text \<open>
  How the handler ended: \<open>Inl m\<close> when it threw an error with the message \<open>m\<close> (\<open>''Agent job
  failed''\<close> when what it threw is not an \<open>Error\<close>), \<open>Inr v\<close> when it returned \<open>v\<close>.
\<close>

definition finished_job :: "string + json \<Rightarrow> runtime_job \<Rightarrow> runtime_job" where
  "finished_job outcome j =
     (case outcome of
        Inl m \<Rightarrow> failed_job m j
      | Inr v \<Rightarrow>
          if rj_cancellationRequested j then cancelled_job j
          else case assertSafeResult ''result'' v of
            Some m \<Rightarrow> failed_job m j
          | None \<Rightarrow>
              if v = JUndefined then failed_job ''Agent job result is not JSON-serializable'' j
              else if utf8_length (json_stringify v) > MAX_RESULT_BYTES
                then failed_job ''Agent job result exceeds 1 MiB'' j
              else j\<lparr>rj_state := JOB_SUCCEEDED, rj_progress := 100, rj_result := v\<rparr>)"

definition execute_ends :: "string \<Rightarrow> string + json \<Rightarrow> string \<Rightarrow> runtime \<Rightarrow> agent_event list \<times> runtime" where
  "execute_ends jobId outcome isoNow rt = emitResult jobId isoNow (set_job jobId (finished_job outcome) rt)"

end
