(* ===== verification/Agent_Relay.thy ===== *)
theory Agent_Relay
  imports Agent_Runtime
begin

text \<open>
  The relay between the API and the agent, \<open>api/src/gateway/agent-relay.service.ts\<close>: the
  connection to the current boot of the agent, the handlers of its events, and
  \<open>runAgentJob\<close>, which carries one job from its preparation to its end.

  \<open>runAgentJob\<close> waits many times. It is modelled as a state \<open>run_state\<close> per place where it
  waits, and one function per stretch of code between two waits; what it awaits (the time, the
  rows, the connection, the answer of the agent) is an argument of that function. Answers
  travel as JSON; \<open>started_json\<close> and its siblings are the object literals the agent sends.
\<close>

section \<open>Messages on the wire\<close>

definition text_json :: "string option \<Rightarrow> json" where
  "text_json s = (case s of None \<Rightarrow> JNull | Some t \<Rightarrow> JStr t)"

definition json_opt_text :: "json \<Rightarrow> string \<Rightarrow> string option" where
  "json_opt_text v k = (case field v k of JStr s \<Rightarrow> Some s | _ \<Rightarrow> None)"

definition json_int :: "json \<Rightarrow> string \<Rightarrow> int" where
  "json_int v k = (case field v k of JNum i \<Rightarrow> i | _ \<Rightarrow> 0)"

definition json_job_state :: "json \<Rightarrow> string \<Rightarrow> job_state" where
  "json_job_state v k =
     (case find (\<lambda>s. job_state_name s = json_text v k) AGENT_JOB_STATES of Some s \<Rightarrow> s | None \<Rightarrow> JOB_FAILED)"

definition started_json :: "job_started \<Rightarrow> json" where
  "started_json m = JObj [(''success'', JBool (sm_success m)), (''jobId'', JStr (sm_jobId m)),
     (''operationId'', JStr (sm_operationId m)), (''bootId'', JStr (sm_bootId m)),
     (''state'', JStr (job_state_name (sm_state m))), (''replayed'', JBool (sm_replayed m)),
     (''error'', text_json (sm_error m))]"

definition started_of :: "json \<Rightarrow> job_started" where
  "started_of v = \<lparr>sm_success = json_flag v ''success'', sm_jobId = json_text v ''jobId'',
     sm_operationId = json_text v ''operationId'', sm_bootId = json_text v ''bootId'',
     sm_state = json_job_state v ''state'', sm_replayed = json_flag v ''replayed'',
     sm_error = json_opt_text v ''error''\<rparr>"

definition heartbeat_json :: "job_heartbeat \<Rightarrow> json" where
  "heartbeat_json m = JObj [(''jobId'', JStr (hm_jobId m)), (''operationId'', JStr (hm_operationId m)),
     (''bootId'', JStr (hm_bootId m)), (''sequence'', JNum (hm_sequence m)), (''progress'', JNum (hm_progress m)),
     (''step'', JStr (hm_step m)), (''timestamp'', JStr (hm_timestamp m))]"

definition heartbeat_of_json :: "json \<Rightarrow> job_heartbeat" where
  "heartbeat_of_json v = \<lparr>hm_jobId = json_text v ''jobId'', hm_operationId = json_text v ''operationId'',
     hm_bootId = json_text v ''bootId'', hm_sequence = json_int v ''sequence'', hm_progress = json_int v ''progress'',
     hm_step = json_text v ''step'', hm_timestamp = json_text v ''timestamp''\<rparr>"

definition result_json :: "job_result \<Rightarrow> json" where
  "result_json m = JObj [(''jobId'', JStr (rm_jobId m)), (''operationId'', JStr (rm_operationId m)),
     (''bootId'', JStr (rm_bootId m)), (''sequence'', JNum (rm_sequence m)), (''success'', JBool (rm_success m)),
     (''cancelled'', JBool (rm_cancelled m)), (''result'', rm_result m), (''error'', text_json (rm_error m)),
     (''timestamp'', JStr (rm_timestamp m))]"

definition result_of_json :: "json \<Rightarrow> job_result" where
  "result_of_json v = \<lparr>rm_jobId = json_text v ''jobId'', rm_operationId = json_text v ''operationId'',
     rm_bootId = json_text v ''bootId'', rm_sequence = json_int v ''sequence'', rm_success = json_flag v ''success'',
     rm_cancelled = json_flag v ''cancelled'', rm_result = field v ''result'', rm_error = json_opt_text v ''error'',
     rm_timestamp = json_text v ''timestamp''\<rparr>"

definition status_json :: "job_status \<Rightarrow> json" where
  "status_json m = JObj [(''success'', JBool (tm_success m)), (''jobId'', JStr (tm_jobId m)),
     (''operationId'', JStr (tm_operationId m)), (''bootId'', JStr (tm_bootId m)),
     (''state'', JStr (job_state_name (tm_state m))), (''sequence'', JNum (tm_sequence m)),
     (''progress'', JNum (tm_progress m)), (''step'', JStr (tm_step m)), (''result'', tm_result m),
     (''error'', text_json (tm_error m))]"

definition status_of_json :: "json \<Rightarrow> job_status" where
  "status_of_json v = \<lparr>tm_success = json_flag v ''success'', tm_jobId = json_text v ''jobId'',
     tm_operationId = json_text v ''operationId'', tm_bootId = json_text v ''bootId'',
     tm_state = json_job_state v ''state'', tm_sequence = json_int v ''sequence'', tm_progress = json_int v ''progress'',
     tm_step = json_text v ''step'', tm_result = field v ''result'', tm_error = json_opt_text v ''error''\<rparr>"

definition cancel_json :: "job_cancel \<Rightarrow> json" where
  "cancel_json m = JObj [(''success'', JBool (cm_success m)), (''jobId'', JStr (cm_jobId m)),
     (''operationId'', JStr (cm_operationId m)), (''state'', JStr (job_state_name (cm_state m))),
     (''outcome'', JStr (cm_outcome m)), (''error'', text_json (cm_error m))]"

definition start_json :: "(time \<Rightarrow> string) \<Rightarrow> prepared_job \<Rightarrow> json" where
  "start_json iso_of_time pj = JObj [(''protocolVersion'', JNum 1), (''jobId'', JStr (pj_id pj)),
     (''operationId'', JStr (pj_operationId pj)), (''actionId'', JStr (pj_actionId pj)), (''step'', JStr (pj_step pj)),
     (''requestHash'', JStr (pj_requestHash pj)), (''deadlineAt'', JStr (iso_of_time (pj_deadlineAt pj))),
     (''cancelSafe'', JBool (pj_cancelSafe pj)), (''payload'', pj_payload pj)]"

definition identity_json :: "string \<Rightarrow> string \<Rightarrow> json" where
  "identity_json jobId operationId = JObj [(''jobId'', JStr jobId), (''operationId'', JStr operationId)]"

section \<open>The connection\<close>

text \<open>\<open>ry_pending\<close> is the boot whose \<open>markInterruptedByNewBoot\<close> is still to be written (\<open>bootReady\<close>).\<close>

record relay =
  ry_socket :: "string option"
  ry_connected :: bool
  ry_bootId :: "string option"
  ry_pending :: "string option"

definition isAgentConnected :: "relay \<Rightarrow> bool" where
  "isAgentConnected ry = (ry_socket ry \<noteq> None \<and> ry_connected ry)"

definition setAgentSocket :: "string option \<Rightarrow> bool \<Rightarrow> string option \<Rightarrow> relay \<Rightarrow> relay" where
  "setAgentSocket socket connected bootId ry =
     ry\<lparr>ry_socket := socket, ry_connected := connected, ry_bootId := (if socket = None then None else bootId),
        ry_pending := (if socket = None then None else truthy bootId)\<rparr>"

definition clearAgentSocket :: "string \<Rightarrow> relay \<Rightarrow> relay" where
  "clearAgentSocket socket ry =
     (if ry_socket ry = Some socket then setAgentSocket None False None ry else ry)"

text \<open>The write of \<open>bootReady\<close>.\<close>

definition boot_ready :: "time \<Rightarrow> relay \<Rightarrow> job_row list \<Rightarrow> relay \<times> job_row list" where
  "boot_ready now ry jobs =
     (case ry_pending ry of
        None \<Rightarrow> (ry, jobs)
      | Some bootId \<Rightarrow> (ry\<lparr>ry_pending := None\<rparr>, snd (markInterruptedByNewBoot bootId now jobs)))"

section \<open>Events of the agent\<close>

text \<open>An event that is malformed, of another boot, or refused by the service is logged and dropped.\<close>

definition handleAgentJobStarted ::
  "job_env \<Rightarrow> json \<Rightarrow> time \<Rightarrow> job_row list \<Rightarrow> relay \<Rightarrow> job_row list \<Rightarrow> job_row list"
where
  "handleAgentJobStarted env raw now seen ry jobs =
     (if validateAgentJobStarted raw \<noteq> None \<or> Some (sm_bootId (started_of raw)) \<noteq> ry_bootId ry then jobs
      else snd (recordStarted env (started_of raw) now seen jobs))"

definition handleAgentJobHeartbeat :: "job_env \<Rightarrow> json \<Rightarrow> relay \<Rightarrow> job_row list \<Rightarrow> job_row list" where
  "handleAgentJobHeartbeat env raw ry jobs =
     (if validateAgentJobHeartbeat raw \<noteq> None \<or> Some (hm_bootId (heartbeat_of_json raw)) \<noteq> ry_bootId ry then jobs
      else snd (recordHeartbeat env (heartbeat_of_json raw) jobs))"

definition handleAgentJobResult :: "job_env \<Rightarrow> json \<Rightarrow> relay \<Rightarrow> job_row list \<Rightarrow> job_row list" where
  "handleAgentJobResult env raw ry jobs =
     (if validateAgentJobResult raw \<noteq> None \<or> Some (rm_bootId (result_of_json raw)) \<noteq> ry_bootId ry then jobs
      else snd (recordResult env (result_of_json raw) jobs))"

section \<open>runAgentJob\<close>

text \<open>
  \<open>run_prepare\<close> begins after \<open>await this.bootReady\<close>; the connection may have been replaced while
  it waited, so it makes no assumption on \<open>ry_pending\<close>.
\<close>

text \<open>Where \<open>runAgentJob\<close> waits; the boot is the one it started with.\<close>

datatype run_state =
    Run_Binding prepared_job string
  | Run_Asking prepared_job string
  | Run_Polling prepared_job string bool time
  | Run_Cancelling prepared_job string time
  | Run_Querying prepared_job string bool time
  | Run_Ended "exn + json"

datatype agent_request = Ask_Start json | Ask_Cancel json | Ask_Status json

definition agent_unavailable :: exn where
  "agent_unavailable = Plain ''Agent is not connected. Server operations are unavailable.''"

definition agent_timeout :: "string \<Rightarrow> nat \<Rightarrow> exn" where
  "agent_timeout event seconds = Plain (''Agent did not respond to '' @ [CHR 0x22] @ event @ [CHR 0x22] @
     '' within '' @ show_nat seconds @ ''s'')"

definition resolveTerminalJob :: "job_row \<times> json \<Rightarrow> exn + json" where
  "resolveTerminalJob job =
     (case job of (r, v) \<Rightarrow>
        if aj_state r = JOB_SUCCEEDED then Inr v
        else if aj_state r = JOB_CANCELLED then Inl (Plain ''Agent job cancelled'')
        else Inl (Plain (case truthy (aj_errorMessage r) of Some e \<Rightarrow> e | None \<Rightarrow> ''Agent job failed'')))"

definition run_prepare ::
  "job_env \<Rightarrow> relay \<Rightarrow> job_input \<Rightarrow> time \<Rightarrow> db_error option \<Rightarrow> op_row list \<Rightarrow> job_row list
     \<Rightarrow> run_state \<times> job_row list"
where
  "run_prepare env ry inp now fault ops jobs =
     (case truthy (ry_bootId ry) of
        Some bootId \<Rightarrow>
          if \<not> isAgentConnected ry
            then (Run_Ended (Inl (Plain ''Connected agent does not support durable job protocol 1'')), jobs)
          else (case prepare_job env inp now fault ops jobs of
              (Inl e, jobs') \<Rightarrow> (Run_Ended (Inl e), jobs')
            | (Inr pj, jobs') \<Rightarrow>
                if pj_state pj = JOB_NEEDS_ATTENTION
                  then (Run_Ended (Inl (NeedsAttention ''Agent job outcome requires reconciliation'')), jobs')
                else if pj_state pj \<in> set [JOB_SUCCEEDED, JOB_FAILED, JOB_CANCELLED] then
                  (Run_Ended (case get_job (pj_id pj) jobs' of Inl e \<Rightarrow> Inl e | Inr job \<Rightarrow> resolveTerminalJob job), jobs')
                else (Run_Binding pj bootId, jobs'))
      | None \<Rightarrow> (Run_Ended (Inl (Plain ''Connected agent does not support durable job protocol 1'')), jobs))"

definition run_bind ::
  "(time \<Rightarrow> string) \<Rightarrow> relay \<Rightarrow> prepared_job \<Rightarrow> string \<Rightarrow> job_row list
     \<Rightarrow> run_state \<times> agent_request list \<times> job_row list"
where
  "run_bind iso_of_time ry pj bootId jobs =
     (case bindToBoot (pj_id pj) bootId jobs of
        (Inl e, jobs') \<Rightarrow> (Run_Ended (Inl e), [], jobs')
      | (Inr _, jobs') \<Rightarrow>
          if isAgentConnected ry then (Run_Asking pj bootId, [Ask_Start (start_json iso_of_time pj)], jobs')
          else (Run_Ended (Inl agent_unavailable), [], jobs'))"

text \<open>The answer is \<open>None\<close> when the agent did not answer in time.\<close>

definition run_started ::
  "job_env \<Rightarrow> prepared_job \<Rightarrow> string \<Rightarrow> json option \<Rightarrow> time \<Rightarrow> job_row list \<Rightarrow> job_row list
     \<Rightarrow> run_state \<times> job_row list"
where
  "run_started env pj bootId answer now seen jobs =
     (case answer of
        None \<Rightarrow> (Run_Ended (Inl (agent_timeout ''job:start'' 10)), jobs)
      | Some raw \<Rightarrow>
         (case validateAgentJobStarted raw of
            Some m \<Rightarrow> (Run_Ended (Inl (Plain m)), jobs)
          | None \<Rightarrow>
             (let started = started_of raw in
              if sm_jobId started \<noteq> pj_id pj \<or> sm_operationId started \<noteq> pj_operationId pj \<or> sm_bootId started \<noteq> bootId
                then (Run_Ended (Inl (NeedsAttention ''Agent job start acknowledgement identity mismatch'')), jobs)
              else (case recordStarted env started now seen jobs of
                  (Inl e, jobs') \<Rightarrow> (Run_Ended (Inl e), jobs')
                | (Inr _, jobs') \<Rightarrow>
                    if \<not> sm_success started
                      then (Run_Ended (Inl (Plain (case truthy (sm_error started) of Some e \<Rightarrow> e | None \<Rightarrow> ''Agent rejected job''))), jobs')
                    else (Run_Polling pj bootId False now, jobs')))))"

text \<open>The end of an iteration: a status query every ten seconds, then a pause.\<close>

definition poll_tail ::
  "relay \<Rightarrow> prepared_job \<Rightarrow> string \<Rightarrow> bool \<Rightarrow> time \<Rightarrow> time \<Rightarrow> job_row list \<Rightarrow> run_state \<times> agent_request list"
where
  "poll_tail ry pj bootId cancelSent lastQuery now jobs =
     (if now - lastQuery \<ge> 10000 \<and> isAgentConnected ry \<and> ry_bootId ry = Some bootId then
        (case get_job (pj_id pj) jobs of
           Inl e \<Rightarrow> (Run_Ended (Inl e), [])
         | Inr (r, _) \<Rightarrow> (Run_Querying pj bootId cancelSent now, [Ask_Status (identity_json (aj_id r) (aj_operationId r))]))
      else (Run_Polling pj bootId cancelSent lastQuery, []))"

text \<open>One iteration; \<open>wanted\<close> is whether the caller asks for cancellation.\<close>

definition run_poll ::
  "relay \<Rightarrow> prepared_job \<Rightarrow> string \<Rightarrow> bool \<Rightarrow> time \<Rightarrow> bool \<Rightarrow> time \<Rightarrow> job_row list
     \<Rightarrow> run_state \<times> agent_request list \<times> job_row list"
where
  "run_poll ry pj bootId cancelSent lastQuery wanted now jobs =
     (if now > pj_deadlineAt pj
        then (Run_Ended (Inl (NeedsAttention ''Agent job deadline elapsed with unknown outcome'')), [],
              markDeadlineUnknown (pj_id pj) now jobs)
      else case get_job (pj_id pj) jobs of
        Inl e \<Rightarrow> (Run_Ended (Inl e), [], jobs)
      | Inr job \<Rightarrow>
          if aj_state (fst job) \<in> set [JOB_SUCCEEDED, JOB_FAILED, JOB_CANCELLED]
            then (Run_Ended (resolveTerminalJob job), [], jobs)
          else if aj_state (fst job) = JOB_NEEDS_ATTENTION
            then (Run_Ended (Inl (NeedsAttention (case truthy (aj_errorMessage (fst job)) of
                    Some e \<Rightarrow> e | None \<Rightarrow> ''Agent job outcome requires reconciliation''))), [], jobs)
          else if \<not> cancelSent \<and> wanted then
            (case requestCancel (pj_id pj) now jobs of
               (Inl e, jobs') \<Rightarrow> (Run_Ended (Inl e), [], jobs')
             | (Inr REQUESTED, jobs') \<Rightarrow>
                 if \<not> isAgentConnected ry \<or> ry_bootId ry \<noteq> Some bootId
                   then (Run_Ended (Inl (NeedsAttention ''Agent disconnected before cancellation could be confirmed'')), [], jobs')
                 else (Run_Cancelling pj bootId lastQuery,
                       [Ask_Cancel (identity_json (pj_id pj) (pj_operationId pj))], jobs')
             | (Inr _, jobs') \<Rightarrow>
                 (case poll_tail ry pj bootId True lastQuery now jobs' of (s, asks) \<Rightarrow> (s, asks, jobs')))
          else (case poll_tail ry pj bootId cancelSent lastQuery now jobs of (s, asks) \<Rightarrow> (s, asks, jobs)))"

definition run_cancelled ::
  "relay \<Rightarrow> prepared_job \<Rightarrow> string \<Rightarrow> time \<Rightarrow> json option \<Rightarrow> time \<Rightarrow> job_row list
     \<Rightarrow> run_state \<times> agent_request list \<times> job_row list"
where
  "run_cancelled ry pj bootId lastQuery answer now jobs =
     (case answer of
        None \<Rightarrow> (Run_Ended (Inl (agent_timeout ''job:cancel'' 10)), [], jobs)
      | Some raw \<Rightarrow>
         (case validateAgentJobCancelResult raw of
            Some m \<Rightarrow> (Run_Ended (Inl (Plain m)), [], jobs)
          | None \<Rightarrow>
              if json_text raw ''jobId'' \<noteq> pj_id pj \<or> json_text raw ''operationId'' \<noteq> pj_operationId pj
                then (Run_Ended (Inl (NeedsAttention ''Agent job cancellation identity mismatch'')), [], jobs)
              else (case recordCancelOutcome (pj_id pj) (json_text raw ''outcome'') jobs of
                  (Inl e, jobs') \<Rightarrow> (Run_Ended (Inl e), [], jobs')
                | (Inr _, jobs') \<Rightarrow>
                    (case poll_tail ry pj bootId True lastQuery now jobs' of (s, asks) \<Rightarrow> (s, asks, jobs')))))"

definition run_status ::
  "job_env \<Rightarrow> relay \<Rightarrow> prepared_job \<Rightarrow> string \<Rightarrow> bool \<Rightarrow> time \<Rightarrow> json option \<Rightarrow> time \<Rightarrow> string \<Rightarrow> job_row list
     \<Rightarrow> run_state \<times> job_row list"
where
  "run_status env ry pj bootId cancelSent lastQuery answer now isoNow jobs =
     (case answer of
        None \<Rightarrow> (Run_Ended (Inl (agent_timeout ''job:status'' 10)), jobs)
      | Some raw \<Rightarrow>
         (case validateAgentJobStatus raw of
            Some m \<Rightarrow> (Run_Ended (Inl (Plain m)), jobs)
          | None \<Rightarrow>
             (let status = status_of_json raw in
              if tm_jobId status \<noteq> pj_id pj \<or> tm_operationId status \<noteq> pj_operationId pj \<or>
                 Some (tm_bootId status) \<noteq> ry_bootId ry
                then (Run_Ended (Inl (NeedsAttention ''Agent job status identity mismatch'')), jobs)
              else (case recordStatus env status now isoNow jobs of
                  (Inl e, jobs') \<Rightarrow> (Run_Ended (Inl e), jobs')
                | (Inr _, jobs') \<Rightarrow> (Run_Polling pj bootId cancelSent lastQuery, jobs')))))"

end
