(* ===== verification/Job_System.thy ===== *)
theory Job_System
  imports Agent_Relay
begin

text \<open>
  The whole of the job protocol: the table of the API, its relay, the tasks that run
  \<open>runAgentJob\<close>, the current boot of the agent, and everything that was ever sent. A message
  may be lost, delayed, repeated and overtaken: a step may deliver any message that was sent,
  at any time. The agent may restart at any moment with a new boot identity.

  \<open>jy_starts\<close> and \<open>jy_ends\<close> are ghosts: the executions that a boot began, and those that ended
  with the final state of their job. \<open>jy_runs\<close> are the calls of \<open>runAgentJob\<close> with their input.
\<close>

record job_sys =
  jy_jobs :: "job_row list"
  jy_relay :: relay
  jy_runs :: "(job_input \<times> run_state) list"
  jy_agent :: runtime
  jy_boots :: "string list"
  jy_prepared :: "prepared_job list"
  jy_asks :: "json list"
  jy_events :: "agent_event list"
  jy_acks :: "job_started list"
  jy_statuses :: "job_status list"
  jy_starts :: "(string \<times> string) list"
  jy_ends :: "(string \<times> runtime_job) list"

definition no_relay :: relay where
  "no_relay = \<lparr>ry_socket = None, ry_connected = False, ry_bootId = None, ry_pending = None\<rparr>"

definition first_state :: "string \<Rightarrow> job_sys" where
  "first_state boot = \<lparr>jy_jobs = [], jy_relay = no_relay, jy_runs = [], jy_agent = new_boot boot, jy_boots = [boot],
     jy_prepared = [], jy_asks = [], jy_events = [], jy_acks = [], jy_statuses = [], jy_starts = [], jy_ends = []\<rparr>"

text \<open>The START requests among what a task sends.\<close>

definition start_asks :: "agent_request list \<Rightarrow> json list" where
  "start_asks asks = concat (map (\<lambda>a. case a of Ask_Start v \<Rightarrow> [v] | _ \<Rightarrow> []) asks)"

definition prepared_in :: "run_state \<Rightarrow> prepared_job list" where
  "prepared_in s = (case s of Run_Binding pj _ \<Rightarrow> [pj] | _ \<Rightarrow> [])"

definition started_in :: "runtime \<Rightarrow> agent_event list \<Rightarrow> (string \<times> string) list" where
  "started_in rt events = concat (map (\<lambda>e. case e of Started m \<Rightarrow> [(rt_bootId rt, sm_jobId m)] | _ \<Rightarrow> []) events)"

text \<open>
  \<open>env\<close> is the environment of the API, \<open>isot\<close> its \<open>toISOString\<close> and \<open>pdate\<close> the \<open>Date.parse\<close> of
  the agent. The operations and the time of a step are any.
\<close>

inductive job_step :: "job_env \<Rightarrow> (time \<Rightarrow> string) \<Rightarrow> (string \<Rightarrow> time) \<Rightarrow> job_sys \<Rightarrow> job_sys \<Rightarrow> bool"
  for env isot pdate
where
  run_new: "run_prepare env (jy_relay y) inp now fault ops (jy_jobs y) = (s, jobs) \<Longrightarrow>
    job_step env isot pdate y (y\<lparr>jy_jobs := jobs, jy_runs := jy_runs y @ [(inp, s)],
      jy_prepared := jy_prepared y @ prepared_in s\<rparr>)"
| run_binds: "i < length (jy_runs y) \<Longrightarrow> jy_runs y ! i = (inp, Run_Binding pj boot) \<Longrightarrow>
    run_bind isot (jy_relay y) pj boot (jy_jobs y) = (s, asks, jobs) \<Longrightarrow>
    job_step env isot pdate y (y\<lparr>jy_jobs := jobs, jy_runs := (jy_runs y)[i := (inp, s)], jy_asks := jy_asks y @ start_asks asks\<rparr>)"
| run_answered: "i < length (jy_runs y) \<Longrightarrow> jy_runs y ! i = (inp, Run_Asking pj boot) \<Longrightarrow>
    answer = None \<or> (\<exists>m \<in> set (jy_acks y). answer = Some (started_json m)) \<Longrightarrow>
    run_started env pj boot answer now seen (jy_jobs y) = (s, jobs) \<Longrightarrow>
    job_step env isot pdate y (y\<lparr>jy_jobs := jobs, jy_runs := (jy_runs y)[i := (inp, s)]\<rparr>)"
| run_polls: "i < length (jy_runs y) \<Longrightarrow> jy_runs y ! i = (inp, Run_Polling pj boot sent asked) \<Longrightarrow>
    run_poll (jy_relay y) pj boot sent asked wanted now (jy_jobs y) = (s, asks, jobs) \<Longrightarrow>
    job_step env isot pdate y (y\<lparr>jy_jobs := jobs, jy_runs := (jy_runs y)[i := (inp, s)]\<rparr>)"
| run_cancel_answered: "i < length (jy_runs y) \<Longrightarrow> jy_runs y ! i = (inp, Run_Cancelling pj boot asked) \<Longrightarrow>
    run_cancelled (jy_relay y) pj boot asked answer now (jy_jobs y) = (s, asks, jobs) \<Longrightarrow>
    job_step env isot pdate y (y\<lparr>jy_jobs := jobs, jy_runs := (jy_runs y)[i := (inp, s)]\<rparr>)"
| run_status_answered: "i < length (jy_runs y) \<Longrightarrow> jy_runs y ! i = (inp, Run_Querying pj boot sent asked) \<Longrightarrow>
    answer = None \<or> (\<exists>m \<in> set (jy_statuses y). answer = Some (status_json m)) \<Longrightarrow>
    run_status env (jy_relay y) pj boot sent asked answer now isoNow (jy_jobs y) = (s, jobs) \<Longrightarrow>
    job_step env isot pdate y (y\<lparr>jy_jobs := jobs, jy_runs := (jy_runs y)[i := (inp, s)]\<rparr>)"
| event_started: "Started m \<in> set (jy_events y) \<Longrightarrow>
    job_step env isot pdate y (y\<lparr>jy_jobs := handleAgentJobStarted env (started_json m) now seen (jy_relay y) (jy_jobs y)\<rparr>)"
| event_heartbeat: "Heartbeat m \<in> set (jy_events y) \<Longrightarrow>
    job_step env isot pdate y (y\<lparr>jy_jobs := handleAgentJobHeartbeat env (heartbeat_json m) (jy_relay y) (jy_jobs y)\<rparr>)"
| event_result: "Result m \<in> set (jy_events y) \<Longrightarrow>
    job_step env isot pdate y (y\<lparr>jy_jobs := handleAgentJobResult env (result_json m) (jy_relay y) (jy_jobs y)\<rparr>)"
| agent_connects: "ry = setAgentSocket (Some socket) True (Some (rt_bootId (jy_agent y))) (jy_relay y) \<Longrightarrow>
    job_step env isot pdate y (y\<lparr>jy_relay := ry\<rparr>)"
| agent_disconnects: "job_step env isot pdate y (y\<lparr>jy_relay := clearAgentSocket socket (jy_relay y)\<rparr>)"
| connection_breaks: "job_step env isot pdate y (y\<lparr>jy_relay := (jy_relay y)\<lparr>ry_connected := False\<rparr>\<rparr>)"
| boot_marked: "boot_ready now (jy_relay y) (jy_jobs y) = (ry, jobs) \<Longrightarrow>
    job_step env isot pdate y (y\<lparr>jy_relay := ry, jy_jobs := jobs\<rparr>)"
| agent_restarts: "boot \<notin> set (jy_boots y) \<Longrightarrow>
    job_step env isot pdate y (y\<lparr>jy_agent := new_boot boot, jy_boots := boot # jy_boots y\<rparr>)"
| agent_registers: "registerHandler actionId (jy_agent y) = Inr rt \<Longrightarrow>
    job_step env isot pdate y (y\<lparr>jy_agent := rt\<rparr>)"
| agent_starts: "raw \<in> set (jy_asks y) \<Longrightarrow>
    handleStart pdate raw now isoNow u1 u2 (jy_agent y) = (ack, events, rt) \<Longrightarrow>
    job_step env isot pdate y (y\<lparr>jy_agent := rt, jy_events := jy_events y @ events,
      jy_acks := jy_acks y @ (case ack of None \<Rightarrow> [] | Some m \<Rightarrow> [m]),
      jy_starts := jy_starts y @ started_in (jy_agent y) events\<rparr>)"
| agent_tells: "job_step env isot pdate y (y\<lparr>jy_statuses := jy_statuses y @ [handleStatus raw u1 u2 (jy_agent y)]\<rparr>)"
| agent_cancels: "job_step env isot pdate y (y\<lparr>jy_agent := snd (handleCancel raw u1 u2 (jy_agent y))\<rparr>)"
| agent_beats: "emitHeartbeat jobId isoNow (jy_agent y) = (events, rt) \<Longrightarrow>
    job_step env isot pdate y (y\<lparr>jy_agent := rt, jy_events := jy_events y @ events\<rparr>)"
| handler_beats: "handler_heartbeat jobId label progress isoNow (jy_agent y) = (Inr events, rt) \<Longrightarrow>
    (case map_of (rt_jobs (jy_agent y)) jobId of None \<Rightarrow> False | Some j \<Rightarrow> \<not> terminal_job j) \<Longrightarrow>
    job_step env isot pdate y (y\<lparr>jy_agent := rt, jy_events := jy_events y @ events\<rparr>)"
| deadline_passes: "job_step env isot pdate y (y\<lparr>jy_agent := deadline_fires jobId (jy_agent y)\<rparr>)"
| execution_ends: "map_of (rt_jobs (jy_agent y)) jobId = Some j \<Longrightarrow> \<not> terminal_job j \<Longrightarrow>
    execute_ends jobId outcome isoNow (jy_agent y) = (events, rt) \<Longrightarrow>
    job_step env isot pdate y (y\<lparr>jy_agent := rt, jy_events := jy_events y @ events,
      jy_ends := jy_ends y @ [(rt_bootId (jy_agent y), finished_job outcome j)]\<rparr>)"

inductive job_reachable :: "job_env \<Rightarrow> (time \<Rightarrow> string) \<Rightarrow> (string \<Rightarrow> time) \<Rightarrow> job_sys \<Rightarrow> bool"
  for env isot pdate
where
  job_first: "job_reachable env isot pdate (first_state boot)"
| job_next: "job_reachable env isot pdate y \<Longrightarrow> job_step env isot pdate y y' \<Longrightarrow> job_reachable env isot pdate y'"

section \<open>Messages survive the wire\<close>

lemma field_members [simp]: "field (JObj ((k, v) # kvs)) k' = (if k = k' then v else field (JObj kvs) k')"
  by simp

lemma json_text_simps [simp]:
  "json_text (JObj ((k, JStr s) # kvs)) k' = (if k = k' then s else json_text (JObj kvs) k')"
  "k \<noteq> k' \<Longrightarrow> json_text (JObj ((k, v) # kvs)) k' = json_text (JObj kvs) k'"
  by (simp_all add: json_text_def text_or_def)

lemma text_json_back: "(case text_json e of JStr s \<Rightarrow> Some s | _ \<Rightarrow> None) = e"
  by (simp add: text_json_def split: option.splits)

lemma job_state_back: "find (\<lambda>s. job_state_name s = job_state_name t) AGENT_JOB_STATES = Some t"
  by (cases t) (simp_all add: AGENT_JOB_STATES_def)

lemmas reader_defs = json_flag_def json_int_def json_opt_text_def json_job_state_def

lemma started_back [simp]: "started_of (started_json m) = m"
  by (cases m) (simp add: started_of_def started_json_def reader_defs text_json_back job_state_back)

lemma heartbeat_back [simp]: "heartbeat_of_json (heartbeat_json m) = m"
  by (cases m) (simp add: heartbeat_of_json_def heartbeat_json_def reader_defs)

lemma result_back [simp]: "result_of_json (result_json m) = m"
  by (cases m) (simp add: result_of_json_def result_json_def reader_defs text_json_back)

lemma status_back [simp]: "status_of_json (status_json m) = m"
  by (cases m) (simp add: status_of_json_def status_json_def reader_defs text_json_back job_state_back)

lemma start_back:
  "start_of (start_json isot pj) = \<lparr>js_jobId = pj_id pj, js_operationId = pj_operationId pj, js_actionId = pj_actionId pj,
     js_step = pj_step pj, js_requestHash = pj_requestHash pj, js_deadlineAt = isot (pj_deadlineAt pj),
     js_cancelSafe = pj_cancelSafe pj, js_payload = pj_payload pj\<rparr>"
  by (simp add: start_of_def start_json_def json_flag_def)

end
