(* ===== verification/Job_Invariants.thy ===== *)
theory Job_Invariants
  imports Job_System
begin

text \<open>
  The invariants of the job protocol. \<open>jobs_ok\<close> is what the table of the API keeps under every
  write of the service, \<open>agent_ok\<close> what the agent keeps, and \<open>protocol_ok\<close> ties both to the
  messages and to the executions that have ended.
\<close>

section \<open>The table of the API\<close>

text \<open>What no write changes in a row.\<close>

definition job_ident :: "job_row \<Rightarrow> string \<times> string \<times> string \<times> string \<times> string" where
  "job_ident r = (aj_id r, aj_operationId r, aj_step r, aj_actionId r, aj_requestHash r)"

definition ended :: "(string \<times> runtime_job) list \<Rightarrow> string \<Rightarrow> string \<Rightarrow> string \<Rightarrow> runtime_job \<Rightarrow> bool" where
  "ended ends boot jobId operationId j \<longleftrightarrow> (boot, j) \<in> set ends \<and>
     js_jobId (rj_request j) = jobId \<and> js_operationId (rj_request j) = operationId"

text \<open>A row that says succeeded or cancelled says what its boot of the agent did.\<close>

definition job_named :: "job_env \<Rightarrow> job_row \<Rightarrow> bool" where
  "job_named env r \<longleftrightarrow> aj_id r = deterministicJobId env (aj_operationId r) (aj_step r)"

definition job_told :: "(string \<times> runtime_job) list \<Rightarrow> job_row \<Rightarrow> bool" where
  "job_told ends r \<longleftrightarrow> (aj_state r \<in> {JOB_SUCCEEDED, JOB_CANCELLED} \<longrightarrow>
     (\<exists>boot j. aj_agentBootId r = Some boot \<and> ended ends boot (aj_id r) (aj_operationId r) j \<and>
        rj_state j = aj_state r \<and>
        (aj_state r = JOB_SUCCEEDED \<longrightarrow> aj_result r = Some (stable_json (rj_result j)))))"

definition job_ok :: "job_env \<Rightarrow> (string \<times> runtime_job) list \<Rightarrow> job_row \<Rightarrow> bool" where
  "job_ok env ends r \<longleftrightarrow> job_named env r \<and> job_told ends r"

lemma job_named_ident: "job_ident r' = job_ident r \<Longrightarrow> job_named env r \<Longrightarrow> job_named env r'"
  by (simp add: job_named_def job_ident_def)

lemma job_told_neutral: "aj_state r \<notin> {JOB_SUCCEEDED, JOB_CANCELLED} \<Longrightarrow> job_told ends r"
  by (simp add: job_told_def)

definition jobs_ok :: "job_env \<Rightarrow> (string \<times> runtime_job) list \<Rightarrow> job_row list \<Rightarrow> bool" where
  "jobs_ok env ends jobs \<longleftrightarrow> keyed aj_id jobs \<and> (\<forall>r \<in> set jobs. job_ok env ends r)"

definition job_keeps ::
  "job_env \<Rightarrow> (string \<times> runtime_job) list \<Rightarrow> job_row list \<Rightarrow> job_row list \<Rightarrow> bool"
where
  "job_keeps env ends jobs jobs' \<longleftrightarrow>
     (jobs_ok env ends jobs \<longrightarrow> jobs_ok env ends jobs' \<and> job_ident ` set jobs \<subseteq> job_ident ` set jobs')"

lemma job_keeps_refl [simp]: "job_keeps env ends jobs jobs"
  by (simp add: job_keeps_def)

lemma job_keeps_trans: "job_keeps env ends a b \<Longrightarrow> job_keeps env ends b c \<Longrightarrow> job_keeps env ends a c"
  unfolding job_keeps_def by blast

lemma job_keeps_update:
  assumes id: "\<And>r. job_ident (f r) = job_ident r"
    and ok: "\<And>r. P r \<Longrightarrow> job_ok env ends r \<Longrightarrow> job_ok env ends (f r)"
  shows "job_keeps env ends jobs (update_rows P f jobs)"
proof -
  have "job_ident (if P r then f r else r) = job_ident r" for r by (simp add: id)
  then have "map job_ident (update_rows P f jobs) = map job_ident jobs"
    by (simp add: update_rows_def)
  then have "job_ident ` set (update_rows P f jobs) = job_ident ` set jobs"
    by (metis list.set_map)
  moreover have "aj_id (f r) = aj_id r" for r using id [of r] by (simp add: job_ident_def)
  then have "keyed aj_id jobs \<Longrightarrow> keyed aj_id (update_rows P f jobs)"
    by (simp add: keyed_update_rows)
  ultimately show ?thesis
    unfolding job_keeps_def jobs_ok_def using ok by (auto simp: update_rows_def)
qed

lemma job_ok_later: "job_ok env ends r \<Longrightarrow> set ends \<subseteq> set ends' \<Longrightarrow> job_ok env ends' r"
  unfolding job_ok_def job_told_def ended_def by blast

lemma jobs_ok_later: "jobs_ok env ends jobs \<Longrightarrow> set ends \<subseteq> set ends' \<Longrightarrow> jobs_ok env ends' jobs"
  unfolding jobs_ok_def using job_ok_later by blast

text \<open>A write that leaves a row in a state other than succeeded and cancelled.\<close>

lemma job_keeps_neutral:
  assumes "\<And>r. job_ident (f r) = job_ident r"
    and "\<And>r. P r \<Longrightarrow> aj_state (f r) \<notin> {JOB_SUCCEEDED, JOB_CANCELLED}"
  shows "job_keeps env ends jobs (update_rows P f jobs)"
proof (rule job_keeps_update [OF assms(1)])
  fix r assume "P r" "job_ok env ends r"
  then show "job_ok env ends (f r)"
    using assms(2) job_named_ident [OF assms(1)] job_told_neutral by (simp add: job_ok_def)
qed

lemma job_ok_same:
  "job_ident r' = job_ident r \<Longrightarrow> aj_state r' = aj_state r \<Longrightarrow> aj_agentBootId r' = aj_agentBootId r \<Longrightarrow>
     aj_result r' = aj_result r \<Longrightarrow> job_ok env ends r \<Longrightarrow> job_ok env ends r'"
  using job_named_ident [of r' r env] unfolding job_ok_def job_told_def job_ident_def by simp

lemma update_job_keeps:
  assumes "\<And>r. job_ident (f r) = job_ident r" "\<And>r. job_ok env ends r \<Longrightarrow> job_ok env ends (f r)"
  shows "job_keeps env ends jobs (snd (update_job jobId f jobs))"
  using job_keeps_update [of f, OF assms(1)] assms(2) by (simp add: update_job_def)

lemma prepare_tx_keeps: "job_keeps env ends jobs (snd (prepare_tx env inp deadline ops jobs))"
proof -
  let ?r = "new_job env inp deadline"
  have "job_ok env ends ?r" by (simp add: job_ok_def job_named_def job_told_def new_job_def)
  then have "job_keeps env ends jobs (snd (create_job ?r jobs))"
    by (auto simp: job_keeps_def jobs_ok_def create_job_def keyed_def)
  then show ?thesis by (auto simp: prepare_tx_def split: option.splits)
qed

lemma prepare_keeps: "job_keeps env ends jobs (snd (prepare_job env inp now fault ops jobs))"
proof -
  have "job_keeps env ends jobs (snd (transaction fault (prepare_tx env inp d ops) jobs))" for d
    using prepare_tx_keeps [of env ends jobs inp d ops]
    by (auto simp: transaction_def split: option.splits prod.splits sum.splits)
  then show ?thesis
    unfolding prepare_job_def by (auto split: option.splits prod.splits sum.splits) (metis snd_conv)+
qed

lemma recordStarted_keeps: "job_keeps env ends jobs (snd (recordStarted env m now seen jobs))"
proof -
  have "job_keeps env ends jobs (snd (update_job k (rejected_write env m now) jobs))" for k
    by (rule update_job_keeps) (simp_all add: rejected_write_def job_ident_def job_ok_def job_named_def job_told_def)
  moreover have "job_keeps env ends jobs (update_rows (started_guard k b) (started_write s now) jobs)" for k b s
    by (rule job_keeps_neutral) (simp_all add: started_write_def job_ident_def)
  ultimately show ?thesis by (auto simp: recordStarted_def split: option.splits)
qed

lemma bindToBoot_keeps: "job_keeps env ends jobs (snd (bindToBoot jobId bootId jobs))"
proof -
  have "job_keeps env ends jobs (update_rows (bind_guard jobId bootId) (\<lambda>r. r\<lparr>aj_agentBootId := Some bootId\<rparr>) jobs)"
    by (rule job_keeps_neutral) (auto simp: job_ident_def bind_guard_def)
  then show ?thesis by (auto simp: bindToBoot_def split: option.splits)
qed

lemma recordHeartbeat_keeps: "job_keeps env ends jobs (snd (recordHeartbeat env m jobs))"
  unfolding recordHeartbeat_def Let_def snd_conv
  by (rule job_keeps_update)
     (auto simp: heartbeat_write_def job_ident_def intro: job_ok_same [rotated -1])

text \<open>A result is recorded truthfully when it tells how an execution ended.\<close>

definition ended_as :: "(string \<times> runtime_job) list \<Rightarrow> job_result \<Rightarrow> bool" where
  "ended_as ends m \<longleftrightarrow> (\<exists>j. ended ends (rm_bootId m) (rm_jobId m) (rm_operationId m) j \<and>
     rm_success m = (rj_state j = JOB_SUCCEEDED) \<and> rm_cancelled m = (rj_state j = JOB_CANCELLED) \<and>
     (rm_success m \<longrightarrow> rm_result m = rj_result j))"

lemma ended_as_later: "ended_as ends m \<Longrightarrow> set ends \<subseteq> set ends' \<Longrightarrow> ended_as ends' m"
  unfolding ended_as_def ended_def by blast

lemma recordResult_keeps:
  assumes "ended_as ends m"
  shows "job_keeps env ends jobs (snd (recordResult env m jobs))"
proof -
  from assms obtain j where j: "ended ends (rm_bootId m) (rm_jobId m) (rm_operationId m) j"
    "rm_success m = (rj_state j = JOB_SUCCEEDED)" "rm_cancelled m = (rj_state j = JOB_CANCELLED)"
    "rm_success m \<longrightarrow> rm_result m = rj_result j" unfolding ended_as_def by blast
  have "job_keeps env ends jobs
      (update_rows (\<lambda>r. report_guard (rm_jobId m) (rm_operationId m) (rm_bootId m) r \<and> aj_sequence r < rm_sequence m)
         (result_write env m) jobs)"
  proof (rule job_keeps_update)
    fix r
    assume "report_guard (rm_jobId m) (rm_operationId m) (rm_bootId m) r \<and> aj_sequence r < rm_sequence m"
      and "job_ok env ends r"
    with j show "job_ok env ends (result_write env m r)"
      by (auto simp: job_ok_def job_named_def job_told_def result_write_def result_state_def report_guard_def)
  qed (simp add: result_write_def job_ident_def)
  then show ?thesis by (simp add: recordResult_def Let_def split: option.splits)
qed

definition status_told :: "(string \<times> runtime_job) list \<Rightarrow> job_status \<Rightarrow> bool" where
  "status_told ends m \<longleftrightarrow> (tm_success m \<and> tm_state m \<in> set [JOB_SUCCEEDED, JOB_FAILED, JOB_CANCELLED] \<longrightarrow>
     (\<forall>t. ended_as ends (status_result m t)))"

lemma recordStatus_keeps:
  assumes "status_told ends m"
  shows "job_keeps env ends jobs (snd (recordStatus env m now isoNow jobs))"
proof -
  have unknown: "job_keeps env ends jobs (update_rows P (unknown_write e now) jobs)" for P e
    by (rule job_keeps_neutral) (simp_all add: unknown_write_def job_ident_def)
  have running: "job_keeps env ends jobs (update_rows P (status_write m now) jobs)" for P
    by (rule job_keeps_neutral) (simp_all add: status_write_def job_ident_def)
  have ended: "job_keeps env ends jobs (snd (recordResult env (status_result m isoNow) jobs))"
    if "tm_success m" "tm_state m \<in> set [JOB_SUCCEEDED, JOB_FAILED, JOB_CANCELLED]"
    using assms that unfolding status_told_def by (intro recordResult_keeps) blast
  show ?thesis
    unfolding recordStatus_def using unknown running ended
    by (auto split: prod.splits sum.splits)
qed

lemma requestCancel_keeps: "job_keeps env ends jobs (snd (requestCancel jobId now jobs))"
proof -
  have "job_keeps env ends jobs (update_rows P (request_cancel_write now) jobs)" for P
    by (rule job_keeps_neutral) (simp_all add: request_cancel_write_def job_ident_def)
  moreover have "job_keeps env ends jobs (update_rows P (\<lambda>r. r\<lparr>aj_cancelOutcome := c\<rparr>) jobs)" for P c
    by (rule job_keeps_update) (auto simp: job_ident_def intro: job_ok_same [rotated -1])
  ultimately show ?thesis by (auto simp: requestCancel_def split: option.splits)
qed

lemma recordCancelOutcome_keeps: "job_keeps env ends jobs (snd (recordCancelOutcome jobId outcome jobs))"
  unfolding recordCancelOutcome_def by (rule update_job_keeps) (auto simp: job_ident_def intro: job_ok_same [rotated -1])

lemma marks_keep:
  "job_keeps env ends jobs (snd (markInterruptedByNewBoot bootId now jobs))"
  "job_keeps env ends jobs (markDeadlineUnknown jobId now jobs)"
  unfolding markInterruptedByNewBoot_def markDeadlineUnknown_def snd_conv
  by (rule job_keeps_neutral; simp add: unknown_write_def job_ident_def)+

lemmas service_keeps = prepare_keeps recordStarted_keeps bindToBoot_keeps recordHeartbeat_keeps
  requestCancel_keeps recordCancelOutcome_keeps marks_keep

end
