(* ===== verification/Job_Protocol.thy ===== *)
theory Job_Protocol
  imports Job_Invariants
begin

text \<open>
  The invariant of the whole job protocol and its preservation, one lemma per party: the
  agent, the tasks that run \<open>runAgentJob\<close>, and the steps of the system.
\<close>

section \<open>The agent\<close>

definition same_end :: "runtime_job \<Rightarrow> runtime_job \<Rightarrow> bool" where
  "same_end a b \<longleftrightarrow> rj_request a = rj_request b \<and> rj_state a = rj_state b \<and> rj_result a = rj_result b"

text \<open>A job of the agent was asked for, and when it is over its end is in the history.\<close>

definition agent_job_ok :: "(string \<times> runtime_job) list \<Rightarrow> json list \<Rightarrow> string \<Rightarrow> string \<times> runtime_job \<Rightarrow> bool" where
  "agent_job_ok ends asks boot e \<longleftrightarrow> js_jobId (rj_request (snd e)) = fst e \<and>
     (\<exists>raw \<in> set asks. rj_request (snd e) = start_of raw) \<and>
     (terminal_job (snd e) \<longrightarrow> (\<exists>j. (boot, j) \<in> set ends \<and> same_end j (snd e)))"

definition agent_ok :: "(string \<times> runtime_job) list \<Rightarrow> json list \<Rightarrow> runtime \<Rightarrow> bool" where
  "agent_ok ends asks rt \<longleftrightarrow> keyed fst (rt_jobs rt) \<and> (\<forall>e \<in> set (rt_jobs rt). agent_job_ok ends asks (rt_bootId rt) e)"

lemma agent_job_ok_later:
  "agent_job_ok ends asks boot e \<Longrightarrow> set ends \<subseteq> set ends' \<Longrightarrow> set asks \<subseteq> set asks' \<Longrightarrow> agent_job_ok ends' asks' boot e"
  unfolding agent_job_ok_def by blast

lemma agent_ok_later:
  "agent_ok ends asks rt \<Longrightarrow> set ends \<subseteq> set ends' \<Longrightarrow> set asks \<subseteq> set asks' \<Longrightarrow> agent_ok ends' asks' rt"
  unfolding agent_ok_def using agent_job_ok_later by blast

lemma set_job_sel [simp]: "rt_bootId (set_job k f rt) = rt_bootId rt" "map fst (rt_jobs (set_job k f rt)) = map fst (rt_jobs rt)"
  by (simp_all add: set_job_def case_prod_beta comp_def)

lemma agent_job_of: "agent_ok ends asks rt \<Longrightarrow> map_of (rt_jobs rt) k = Some j \<Longrightarrow> agent_job_ok ends asks (rt_bootId rt) (k, j)"
  unfolding agent_ok_def by (blast dest: map_of_SomeD)

lemma agent_set_job:
  assumes ok: "agent_ok ends asks rt" and req: "\<And>j. rj_request (f j) = rj_request j"
    and ending: "\<And>j. map_of (rt_jobs rt) k = Some j \<Longrightarrow> terminal_job (f j) \<Longrightarrow>
          \<exists>i. (rt_bootId rt, i) \<in> set ends \<and> same_end i (f j)"
  shows "agent_ok ends asks (set_job k f rt)"
proof -
  have "keyed fst (rt_jobs (set_job k f rt))" using ok unfolding agent_ok_def keyed_def set_job_sel by simp
  moreover have "agent_job_ok ends asks (rt_bootId rt) e" if e: "e \<in> set (rt_jobs (set_job k f rt))" for e
  proof -
    from e obtain k' j where j: "(k', j) \<in> set (rt_jobs rt)" "e = (k', if k' = k then f j else j)"
      by (auto simp: set_job_def)
    with ok have old: "agent_job_ok ends asks (rt_bootId rt) (k', j)" unfolding agent_ok_def by blast
    show ?thesis
    proof (cases "k' = k")
      case True
      with j ok have "map_of (rt_jobs rt) k = Some j"
        by (simp add: agent_ok_def keyed_def map_of_eq_Some_iff)
      with True old j req ending show ?thesis by (simp add: agent_job_ok_def)
    qed (use old j in simp)
  qed
  ultimately show ?thesis by (simp add: agent_ok_def)
qed

text \<open>A change that neither ends a job nor touches one that is over.\<close>

lemma agent_set_quiet:
  assumes "agent_ok ends asks rt"
    and "\<And>j. rj_request (f j) = rj_request j \<and> (f j = j \<or> \<not> terminal_job (f j) \<or> same_end j (f j) \<and> rj_state (f j) = rj_state j)"
  shows "agent_ok ends asks (set_job k f rt)"
proof (rule agent_set_job [OF assms(1)])
  fix j assume j: "map_of (rt_jobs rt) k = Some j" "terminal_job (f j)"
  have "terminal_job j \<and> same_end j (f j)"
  proof (cases "f j = j")
    case False
    with assms(2) [of j] j(2) have "same_end j (f j)" "rj_state (f j) = rj_state j" by blast+
    with j(2) show ?thesis by (simp add: terminal_job_def)
  qed (use j(2) in \<open>simp add: same_end_def\<close>)
  moreover from this agent_job_of [OF assms(1) j(1)]
  obtain i where "(rt_bootId rt, i) \<in> set ends" "same_end i j" by (auto simp: agent_job_ok_def)
  ultimately show "\<exists>i. (rt_bootId rt, i) \<in> set ends \<and> same_end i (f j)"
    by (intro exI [of _ i]) (simp add: same_end_def)
qed (rule conjunct1 [OF assms(2)])

lemma next_sequence_quiet:
  "rj_request (next_sequence j) = rj_request j \<and> (next_sequence j = j \<or> \<not> terminal_job (next_sequence j) \<or>
     same_end j (next_sequence j) \<and> rj_state (next_sequence j) = rj_state j)"
  by (simp add: next_sequence_def same_end_def)

definition events_ok :: "(string \<times> runtime_job) list \<Rightarrow> agent_event list \<Rightarrow> bool" where
  "events_ok ends events \<longleftrightarrow> (\<forall>m. Result m \<in> set events \<longrightarrow> ended_as ends m)"

lemma events_ok_later: "events_ok ends events \<Longrightarrow> set ends \<subseteq> set ends' \<Longrightarrow> events_ok ends' events"
  unfolding events_ok_def using ended_as_later by blast

lemma result_told:
  assumes "agent_ok ends asks rt" "map_of (rt_jobs rt) k = Some j" "terminal_job j"
  shows "ended_as ends (result_of rt j isoNow)" "status_told ends (statusResponse rt j)"
proof -
  from agent_job_of [OF assms(1,2)] assms(3) obtain i where i: "(rt_bootId rt, i) \<in> set ends" "same_end i j"
    by (auto simp: agent_job_ok_def)
  then show "ended_as ends (result_of rt j isoNow)"
    unfolding ended_as_def by (intro exI [of _ i]) (simp add: result_of_def ended_def same_end_def)
  have "ended_as ends (status_result (statusResponse rt j) t)" for t
    using i unfolding ended_as_def
    by (intro exI [of _ i]) (simp add: status_result_def statusResponse_def ended_def same_end_def)
  then show "status_told ends (statusResponse rt j)" by (simp add: status_told_def)
qed

lemma emitResult_ok:
  assumes "agent_ok ends asks rt" "emitResult k isoNow rt = (events, rt')"
    and "\<And>j. map_of (rt_jobs rt) k = Some j \<Longrightarrow> terminal_job j"
  shows "agent_ok ends asks rt'" "events_ok ends events" "rt_bootId rt' = rt_bootId rt"
    "map fst (rt_jobs rt') = map fst (rt_jobs rt)" "started_in rt events = []"
  using assms agent_set_quiet [where f = next_sequence, OF assms(1) next_sequence_quiet] result_told [OF assms(1)]
  by (auto simp: emitResult_def events_ok_def started_in_def split: option.splits)

lemma emitHeartbeat_ok:
  assumes "agent_ok ends asks rt" "emitHeartbeat k isoNow rt = (events, rt')"
  shows "agent_ok ends asks rt'" "events_ok ends events" "rt_bootId rt' = rt_bootId rt"
    "map fst (rt_jobs rt') = map fst (rt_jobs rt)"
  using assms agent_set_quiet [where f = next_sequence, OF assms(1) next_sequence_quiet]
  by (auto simp: emitHeartbeat_def events_ok_def split: option.splits if_splits)

lemma prune_loop_set: "set (prune_loop c n es) \<subseteq> set es"
proof (induction es arbitrary: n)
  case (Cons e es)
  then show ?case by (simp add: Let_def subset_insertI2)
qed simp

lemma prune_loop_distinct: "distinct (map fst es) \<Longrightarrow> distinct (map fst (prune_loop c n es))"
proof (induction es arbitrary: n)
  case (Cons e es)
  have "fst ` set (prune_loop c m es) \<subseteq> fst ` set es" for m by (rule image_mono [OF prune_loop_set])
  with Cons show ?case by (auto simp: Let_def)
qed simp

lemma pruneJobs_ok:
  assumes "agent_ok ends asks rt" "pruneJobs now rt = (rt', b)"
  shows "agent_ok ends asks rt'" "rt_bootId rt' = rt_bootId rt" "set (rt_jobs rt') \<subseteq> set (rt_jobs rt)"
    "length (rt_jobs rt) < MAX_HISTORY \<Longrightarrow> rt' = rt"
proof -
  let ?kept = "prune_loop (now - 60 * 60 * 1000) (length (rt_jobs rt)) (rt_jobs rt)"
  have "agent_ok ends asks (rt\<lparr>rt_jobs := ?kept\<rparr>)"
    using assms(1) prune_loop_set [of "now - 60 * 60 * 1000" "length (rt_jobs rt)" "rt_jobs rt"]
    unfolding agent_ok_def keyed_def by (auto intro: prune_loop_distinct)
  with assms show "agent_ok ends asks rt'" by (auto simp: pruneJobs_def Let_def split: if_splits)
  show "rt_bootId rt' = rt_bootId rt" "length (rt_jobs rt) < MAX_HISTORY \<Longrightarrow> rt' = rt"
    "set (rt_jobs rt') \<subseteq> set (rt_jobs rt)"
    using assms(2) prune_loop_set [of "now - 60 * 60 * 1000" "length (rt_jobs rt)" "rt_jobs rt"]
    by (auto simp: pruneJobs_def Let_def split: if_splits)
qed

lemma handleStart_ok:
  assumes ok: "agent_ok ends asks rt" and start: "handleStart pdate raw now isoNow u1 u2 rt = (ack, events, rt')"
    and asked: "raw \<in> set asks"
  shows "agent_ok ends asks rt'" "events_ok ends events" "rt_bootId rt' = rt_bootId rt"
proof -
  let ?key = "js_jobId (start_of raw)"
  have "agent_ok ends asks rt' \<and> events_ok ends events \<and> rt_bootId rt' = rt_bootId rt"
  proof (cases "validateAgentJobStart raw")
    case None
    show ?thesis
    proof (cases "map_of (rt_jobs rt) ?key")
      case (Some existing)
      show ?thesis
      proof (cases "same_start (rj_request existing) (start_of raw) \<and> terminal_job existing")
        case True
        obtain events' rt1 where "emitResult ?key isoNow rt = (events', rt1)" by fastforce
        with emitResult_ok [OF ok this] True Some None start show ?thesis
          by (simp add: handleStart_def Let_def)
      qed (use ok start None Some in \<open>simp add: handleStart_def Let_def events_ok_def split: if_splits\<close>)
    next
      case fresh: None
      obtain rt1 kept where prune: "pruneJobs now rt = (rt1, kept)" by fastforce
      note kept_ok = pruneJobs_ok [OF ok prune]
      let ?j = "new_runtime_job (start_of raw) now"
      have "?key \<notin> fst ` set (rt_jobs rt1)"
        using fresh kept_ok(3) by (auto simp: map_of_eq_None_iff)
      moreover have "agent_job_ok ends asks (rt_bootId rt1) (?key, ?j)"
        using asked by (auto simp: agent_job_ok_def new_runtime_job_def terminal_job_def TERMINAL_JOB_STATES_def)
      ultimately have "agent_ok ends asks (rt1\<lparr>rt_jobs := rt_jobs rt1 @ [(?key, ?j)]\<rparr>)"
        using kept_ok(1) by (simp add: agent_ok_def keyed_def)
      then show ?thesis
        using start None fresh prune kept_ok(1,2) ok
        by (simp add: handleStart_def Let_def events_ok_def split: if_splits bool.splits) auto
    qed
  qed (use ok start in \<open>simp add: handleStart_def events_ok_def\<close>)
  then show "agent_ok ends asks rt'" "events_ok ends events" "rt_bootId rt' = rt_bootId rt" by blast+
qed

lemma handleStatus_told: "agent_ok ends asks rt \<Longrightarrow> status_told ends (handleStatus raw u1 u2 rt)"
proof -
  assume ok: "agent_ok ends asks rt"
  have missing: "status_told ends (missingStatus rt k i)" for k i
    by (simp add: status_told_def missingStatus_def)
  have "status_told ends (statusResponse rt j)" if "map_of (rt_jobs rt) k = Some j" for k j
  proof (cases "terminal_job j")
    case False
    then show ?thesis
      by (auto simp: status_told_def statusResponse_def terminal_job_def TERMINAL_JOB_STATES_def)
  qed (use result_told(2) [OF ok that] in simp)
  with missing show ?thesis by (simp add: handleStatus_def Let_def split: option.splits)
qed

lemma quiet_marks:
  "rj_request (cancel_mark j) = rj_request j" "\<not> terminal_job (cancel_mark j)"
  by (simp_all add: cancel_mark_def terminal_job_def TERMINAL_JOB_STATES_def)

lemma handleCancel_ok:
  assumes "agent_ok ends asks rt"
  shows "agent_ok ends asks (snd (handleCancel raw u1 u2 rt))"
  using assms agent_set_quiet [where f = cancel_mark, OF assms] quiet_marks
  by (simp add: handleCancel_def Let_def split: option.splits)

lemma deadline_ok: "agent_ok ends asks rt \<Longrightarrow> agent_ok ends asks (deadline_fires jobId rt)"
  unfolding deadline_fires_def by (rule agent_set_quiet) (simp_all add: quiet_marks)

lemma handler_heartbeat_ok:
  assumes "agent_ok ends asks rt" "handler_heartbeat jobId label progress isoNow rt = (Inr events, rt')"
  shows "agent_ok ends asks rt'" "events_ok ends events" "rt_bootId rt' = rt_bootId rt"
proof -
  let ?rt = "set_job jobId (\<lambda>j. j\<lparr>rj_step := label, rj_progress := progress\<rparr>) rt"
  have "agent_ok ends asks ?rt"
    by (rule agent_set_quiet [OF assms(1)]) (simp add: same_end_def)
  moreover have "emitHeartbeat jobId isoNow ?rt = (events, rt')"
    using assms(2) by (auto simp: handler_heartbeat_def split: if_splits prod.splits)
  ultimately show "agent_ok ends asks rt'" "events_ok ends events" "rt_bootId rt' = rt_bootId rt"
    using emitHeartbeat_ok by simp_all
qed

lemma finished_job_simps [simp]:
  "rj_request (finished_job outcome j) = rj_request j" "terminal_job (finished_job outcome j)"
  by (auto simp: finished_job_def failed_job_def cancelled_job_def terminal_job_def TERMINAL_JOB_STATES_def
        split: sum.splits option.splits)

lemma execute_ends_ok:
  assumes ok: "agent_ok ends asks rt" and run: "execute_ends jobId outcome isoNow rt = (events, rt')"
    and job: "map_of (rt_jobs rt) jobId = Some j"
  defines "ends' \<equiv> ends @ [(rt_bootId rt, finished_job outcome j)]"
  shows "agent_ok ends' asks rt'" "events_ok ends' events" "rt_bootId rt' = rt_bootId rt"
proof -
  let ?rt = "set_job jobId (finished_job outcome) rt"
  have later: "agent_ok ends' asks rt" using ok by (rule agent_ok_later) (auto simp: ends'_def)
  have "agent_ok ends' asks ?rt"
  proof (rule agent_set_job [OF later])
    fix i assume "map_of (rt_jobs rt) jobId = Some i"
    with job show "\<exists>k. (rt_bootId rt, k) \<in> set ends' \<and> same_end k (finished_job outcome i)"
      by (intro exI [of _ "finished_job outcome j"]) (simp add: ends'_def same_end_def)
  qed simp
  moreover have "terminal_job i" if "map_of (rt_jobs ?rt) jobId = Some i" for i
    using map_of_SomeD [OF that] by (auto simp: set_job_def)
  ultimately show "agent_ok ends' asks rt'" "events_ok ends' events" "rt_bootId rt' = rt_bootId rt"
    using emitResult_ok [of ends' asks ?rt jobId isoNow events rt'] run unfolding execute_ends_def by simp_all
qed

end
