(* ===== verification/Job_Safety.thy ===== *)
theory Job_Safety
  imports Job_Protocol
begin

text \<open>
  The invariant that ties the table of the API, the agent, the messages on the wire and the
  calls of \<open>runAgentJob\<close> together, and that every step of the system keeps it.
\<close>

section \<open>Calls of runAgentJob\<close>

definition pj_ident :: "prepared_job \<Rightarrow> string \<times> string \<times> string \<times> string \<times> string" where
  "pj_ident pj = (pj_id pj, pj_operationId pj, pj_step pj, pj_actionId pj, pj_requestHash pj)"

definition inp_ident :: "job_env \<Rightarrow> job_input \<Rightarrow> string \<times> string \<times> string \<times> string \<times> string" where
  "inp_ident env inp = job_ident (new_job env inp 0)"

definition idents :: "job_row list \<Rightarrow> (string \<times> string \<times> string \<times> string \<times> string) set" where
  "idents jobs = job_ident ` set jobs"

definition job_done :: "job_env \<Rightarrow> (string \<times> runtime_job) list \<Rightarrow> job_input \<Rightarrow> json \<Rightarrow> bool" where
  "job_done env ends inp v \<longleftrightarrow>
     (\<exists>boot j. ended ends boot (deterministicJobId env (ji_operationId inp) (ji_step inp)) (ji_operationId inp) j \<and>
        rj_state j = JOB_SUCCEEDED \<and> v = parseStoredResult (Some (stable_json (rj_result j))))"

fun run_ok ::
  "job_env \<Rightarrow> (string \<times> runtime_job) list \<Rightarrow> job_row list \<Rightarrow> job_input \<Rightarrow> run_state \<Rightarrow> bool"
where
  "run_ok env ends jobs inp (Run_Ended (Inl _)) = True"
| "run_ok env ends jobs inp (Run_Ended (Inr v)) = (job_done env ends inp v \<and> inp_ident env inp \<in> idents jobs)"
| "run_ok env ends jobs inp (Run_Binding pj _) = (pj_ident pj = inp_ident env inp \<and> pj_ident pj \<in> idents jobs)"
| "run_ok env ends jobs inp (Run_Asking pj _) = (pj_ident pj = inp_ident env inp \<and> pj_ident pj \<in> idents jobs)"
| "run_ok env ends jobs inp (Run_Polling pj _ _ _) = (pj_ident pj = inp_ident env inp \<and> pj_ident pj \<in> idents jobs)"
| "run_ok env ends jobs inp (Run_Cancelling pj _ _) = (pj_ident pj = inp_ident env inp \<and> pj_ident pj \<in> idents jobs)"
| "run_ok env ends jobs inp (Run_Querying pj _ _ _) = (pj_ident pj = inp_ident env inp \<and> pj_ident pj \<in> idents jobs)"

lemma job_done_later: "job_done env ends inp v \<Longrightarrow> set ends \<subseteq> set ends' \<Longrightarrow> job_done env ends' inp v"
  unfolding job_done_def ended_def by blast

lemma run_ok_later:
  "run_ok env ends jobs inp s \<Longrightarrow> set ends \<subseteq> set ends' \<Longrightarrow> idents jobs \<subseteq> idents jobs' \<Longrightarrow> run_ok env ends' jobs' inp s"
  by (induction env ends jobs inp s rule: run_ok.induct) (auto intro: job_done_later)

lemma keeps_idents: "job_keeps env ends jobs jobs' \<Longrightarrow> jobs_ok env ends jobs \<Longrightarrow> idents jobs \<subseteq> idents jobs'"
  by (simp add: job_keeps_def idents_def)

lemma keeps_jobs: "job_keeps env ends jobs jobs' \<Longrightarrow> jobs_ok env ends jobs \<Longrightarrow> jobs_ok env ends jobs'"
  by (simp add: job_keeps_def)

lemma new_job_ident [simp]: "job_ident (new_job env inp deadline) = inp_ident env inp"
  by (simp add: inp_ident_def job_ident_def new_job_def)

lemma prepare_tx_ident:
  assumes "prepare_tx env inp deadline ops jobs = (Inr r, jobs')"
  shows "job_ident r = inp_ident env inp" "r \<in> set jobs'"
proof -
  have "job_ident r = inp_ident env inp \<and> r \<in> set jobs'"
  proof (cases "job_of_step (ji_operationId inp) (ji_step inp) jobs")
    case None
    with assms show ?thesis by (auto simp: prepare_tx_def create_job_def split: option.splits if_splits)
  next
    case (Some e)
    then have "e \<in> set jobs" "aj_operationId e = ji_operationId inp" "aj_step e = ji_step inp"
      by (auto simp: job_of_step_def dest: find_first_SomeD)
    with Some assms show ?thesis
      by (auto simp: prepare_tx_def same_job_def inp_ident_def job_ident_def new_job_def split: option.splits if_splits)
  qed
  then show "job_ident r = inp_ident env inp" "r \<in> set jobs'" by blast+
qed

lemma prepare_ident:
  assumes "prepare_job env inp now fault ops jobs = (Inr pj, jobs')"
  shows "pj_ident pj = inp_ident env inp" "pj_ident pj \<in> idents jobs'"
proof -
  obtain r where r: "prepare_tx env inp (the (ji_deadlineAt inp)) ops jobs = (Inr r, jobs')"
    and pj: "pj = prepared_of r (ji_payload inp)"
    using assms by (auto simp: prepare_job_def transaction_def split: option.splits prod.splits sum.splits)
  have "pj_ident pj = job_ident r" by (simp add: pj pj_ident_def job_ident_def prepared_of_def)
  with prepare_tx_ident [OF r] show "pj_ident pj = inp_ident env inp" "pj_ident pj \<in> idents jobs'"
    unfolding idents_def by (simp, metis imageI)
qed

text \<open>What a task reads is the row of its own job.\<close>

lemma job_read:
  assumes "jobs_ok env ends jobs" "get_job (pj_id pj) jobs = Inr (r, w)" "pj_ident pj \<in> idents jobs"
  shows "job_ident r = pj_ident pj" "job_ok env ends r" "w = parseStoredResult (aj_result r)"
proof -
  from assms(2) have r: "r \<in> set jobs" "aj_id r = pj_id pj" "w = parseStoredResult (aj_result r)"
    by (auto simp: get_job_def split: option.splits dest: find_key_SomeD)
  from assms(3) obtain q where q: "q \<in> set jobs" "job_ident q = pj_ident pj"
    unfolding idents_def by fastforce
  have "q = r"
    using assms(1) q r by (auto simp: jobs_ok_def keyed_def job_ident_def pj_ident_def dest: inj_onD simp flip: distinct_map)
      (metis distinct_map inj_onD)
  with q r assms(1) show "job_ident r = pj_ident pj" "job_ok env ends r" "w = parseStoredResult (aj_result r)"
    by (simp_all add: jobs_ok_def)
qed

lemma resolve_ok:
  assumes "jobs_ok env ends jobs" "get_job (pj_id pj) jobs = Inr job"
    and "pj_ident pj = inp_ident env inp" "pj_ident pj \<in> idents jobs"
  shows "run_ok env ends jobs inp (Run_Ended (resolveTerminalJob job))"
proof -
  obtain r w where job: "job = (r, w)" by fastforce
  note row = job_read [OF assms(1) assms(2) [unfolded job] assms(4)]
  show ?thesis
  proof (cases "aj_state r = JOB_SUCCEEDED")
    case True
    with row(2) obtain boot j where j: "ended ends boot (aj_id r) (aj_operationId r) j"
      "rj_state j = JOB_SUCCEEDED" "aj_result r = Some (stable_json (rj_result j))"
      by (auto simp: job_ok_def job_told_def)
    moreover have "aj_id r = deterministicJobId env (ji_operationId inp) (ji_step inp)" "aj_operationId r = ji_operationId inp"
      using row(1) assms(3) by (simp_all add: inp_ident_def job_ident_def new_job_def)
    ultimately have "job_done env ends inp w"
      using row(3) unfolding job_done_def by (metis (no_types))
    with True job assms(3,4) show ?thesis by (simp add: resolveTerminalJob_def)
  qed (simp add: job resolveTerminalJob_def)
qed

lemma pj_ident_stays:
  "job_keeps env ends jobs jobs' \<Longrightarrow> jobs_ok env ends jobs \<Longrightarrow> pj_ident pj \<in> idents jobs \<Longrightarrow> pj_ident pj \<in> idents jobs'"
  using keeps_idents by blast

lemma run_prepare_ok:
  assumes ok: "jobs_ok env ends jobs" and run: "run_prepare env ry inp now fault ops jobs = (s, jobs')"
  shows "job_keeps env ends jobs jobs'" "run_ok env ends jobs' inp s"
    "pj \<in> set (prepared_in s) \<Longrightarrow> pj_ident pj \<in> idents jobs'"
proof -
  have "job_keeps env ends jobs jobs' \<and> run_ok env ends jobs' inp s \<and> (\<forall>pj \<in> set (prepared_in s). pj_ident pj \<in> idents jobs')"
  proof (cases "truthy (ry_bootId ry) = None \<or> \<not> isAgentConnected ry")
    case False
    then obtain boot where boot: "truthy (ry_bootId ry) = Some boot" "isAgentConnected ry" by auto
    obtain res jobs1 where prep: "prepare_job env inp now fault ops jobs = (res, jobs1)" by fastforce
    have keeps: "job_keeps env ends jobs jobs1"
      using prepare_keeps [of env ends jobs inp now fault ops] by (simp add: prep)
    have ok1: "jobs_ok env ends jobs1" using keeps ok by (rule keeps_jobs)
    show ?thesis
    proof (cases res)
      case (Inr pj)
      note pj = prepare_ident [OF prep [unfolded Inr]]
      from run boot prep Inr have "jobs' = jobs1" by (simp add: run_prepare_def split: if_splits)
      with run boot prep Inr keeps pj resolve_ok [OF ok1 _ pj] show ?thesis
        by (auto simp: run_prepare_def prepared_in_def split: if_splits sum.splits)
    qed (use run boot prep keeps in \<open>auto simp: run_prepare_def prepared_in_def\<close>)
  qed (use run in \<open>auto simp: run_prepare_def prepared_in_def split: option.splits\<close>)
  then show "job_keeps env ends jobs jobs'" "run_ok env ends jobs' inp s"
    "pj \<in> set (prepared_in s) \<Longrightarrow> pj_ident pj \<in> idents jobs'" by blast+
qed

text \<open>The stretches of code between two waits, for a task whose job is in the table.\<close>

lemma run_bind_ok:
  assumes "jobs_ok env ends jobs" "pj_ident pj = inp_ident env inp" "pj_ident pj \<in> idents jobs"
    and run: "run_bind isot ry pj boot jobs = (s, asks, jobs')"
  shows "job_keeps env ends jobs jobs'" "run_ok env ends jobs' inp s" "set (start_asks asks) \<subseteq> {start_json isot pj}"
proof -
  obtain res jobs1 where bind: "bindToBoot (pj_id pj) boot jobs = (res, jobs1)" by fastforce
  have keeps: "job_keeps env ends jobs jobs1"
    using bindToBoot_keeps [of env ends jobs "pj_id pj" boot] by (simp add: bind)
  with assms bind pj_ident_stays [OF keeps assms(1,3)]
  show "job_keeps env ends jobs jobs'" "run_ok env ends jobs' inp s" "set (start_asks asks) \<subseteq> {start_json isot pj}"
    by (auto simp: run_bind_def start_asks_def split: sum.splits if_splits)
qed

lemma run_started_ok:
  assumes "jobs_ok env ends jobs" "pj_ident pj = inp_ident env inp" "pj_ident pj \<in> idents jobs"
    and run: "run_started env pj boot answer now seen jobs = (s, jobs')"
  shows "job_keeps env ends jobs jobs'" "run_ok env ends jobs' inp s"
proof -
  have "job_keeps env ends jobs jobs' \<and> run_ok env ends jobs' inp s"
  proof (cases "\<exists>raw. answer = Some raw \<and> validateAgentJobStarted raw = None")
    case True
    then obtain raw where raw: "answer = Some raw" "validateAgentJobStarted raw = None" by blast
    obtain res jobs1 where rec: "recordStarted env (started_of raw) now seen jobs = (res, jobs1)" by fastforce
    have keeps: "job_keeps env ends jobs jobs1"
      using recordStarted_keeps [of env ends jobs "started_of raw" now seen] by (simp add: rec)
    show ?thesis
      using run raw rec keeps pj_ident_stays [OF keeps assms(1,3)] assms(2)
      by (auto simp: run_started_def Let_def split: sum.splits if_splits)
  qed (use run in \<open>auto simp: run_started_def split: option.splits\<close>)
  then show "job_keeps env ends jobs jobs'" "run_ok env ends jobs' inp s" by blast+
qed

lemma poll_tail_ok:
  "pj_ident pj = inp_ident env inp \<Longrightarrow> inp_ident env inp \<in> idents jobs \<Longrightarrow>
     poll_tail ry pj boot sent asked now jobs = (s, asks) \<Longrightarrow> run_ok env ends jobs inp s"
  by (auto simp: poll_tail_def split: sum.splits if_splits)

lemma run_poll_ok:
  assumes ok: "jobs_ok env ends jobs" and pj: "pj_ident pj = inp_ident env inp" "pj_ident pj \<in> idents jobs"
    and run: "run_poll ry pj boot sent asked wanted now jobs = (s, asks, jobs')"
  shows "job_keeps env ends jobs jobs'" "run_ok env ends jobs' inp s"
proof -
  obtain res jobs1 where req: "requestCancel (pj_id pj) now jobs = (res, jobs1)" by fastforce
  have keeps: "job_keeps env ends jobs jobs1"
    using requestCancel_keeps [of env ends jobs "pj_id pj" now] by (simp add: req)
  note pj1 = pj_ident_stays [OF keeps ok pj(2)]
  have "job_keeps env ends jobs jobs' \<and> run_ok env ends jobs' inp s"
  proof (cases "get_job (pj_id pj) jobs")
    case (Inr job)
    then show ?thesis
      using run req keeps resolve_ok [OF ok Inr pj] pj pj1 marks_keep(2) [of env ends jobs "pj_id pj" now]
      by (auto simp: run_poll_def split: if_splits sum.splits cancel_answer.splits prod.splits dest: poll_tail_ok [OF pj(1), rotated])
  qed (use run marks_keep(2) [of env ends jobs "pj_id pj" now] in \<open>auto simp: run_poll_def split: if_splits\<close>)
  then show "job_keeps env ends jobs jobs'" "run_ok env ends jobs' inp s" by blast+
qed

lemma run_cancelled_ok:
  assumes ok: "jobs_ok env ends jobs" and pj: "pj_ident pj = inp_ident env inp" "pj_ident pj \<in> idents jobs"
    and run: "run_cancelled ry pj boot asked answer now jobs = (s, asks, jobs')"
  shows "job_keeps env ends jobs jobs'" "run_ok env ends jobs' inp s"
proof -
  have "job_keeps env ends jobs jobs' \<and> run_ok env ends jobs' inp s"
  proof (cases "\<exists>raw. answer = Some raw \<and> validateAgentJobCancelResult raw = None")
    case True
    then obtain raw where raw: "answer = Some raw" "validateAgentJobCancelResult raw = None" by blast
    obtain res jobs1 where rec: "recordCancelOutcome (pj_id pj) (json_text raw ''outcome'') jobs = (res, jobs1)"
      by fastforce
    have keeps: "job_keeps env ends jobs jobs1"
      using recordCancelOutcome_keeps [of env ends jobs "pj_id pj" "json_text raw ''outcome''"] by (simp add: rec)
    show ?thesis
      using run raw rec keeps pj(1) pj_ident_stays [OF keeps ok pj(2)]
      by (auto simp: run_cancelled_def split: sum.splits if_splits prod.splits
          dest: poll_tail_ok [OF pj(1), rotated])
  qed (use run in \<open>auto simp: run_cancelled_def split: option.splits\<close>)
  then show "job_keeps env ends jobs jobs'" "run_ok env ends jobs' inp s" by blast+
qed

lemma run_status_ok:
  assumes ok: "jobs_ok env ends jobs" and pj: "pj_ident pj = inp_ident env inp" "pj_ident pj \<in> idents jobs"
    and told: "\<And>raw. answer = Some raw \<Longrightarrow> status_told ends (status_of_json raw)"
    and run: "run_status env ry pj boot sent asked answer now isoNow jobs = (s, jobs')"
  shows "job_keeps env ends jobs jobs'" "run_ok env ends jobs' inp s"
proof -
  have "job_keeps env ends jobs jobs' \<and> run_ok env ends jobs' inp s"
  proof (cases "\<exists>raw. answer = Some raw \<and> validateAgentJobStatus raw = None")
    case True
    then obtain raw where raw: "answer = Some raw" "validateAgentJobStatus raw = None" by blast
    obtain res jobs1 where rec: "recordStatus env (status_of_json raw) now isoNow jobs = (res, jobs1)" by fastforce
    have keeps: "job_keeps env ends jobs jobs1"
      using recordStatus_keeps [OF told [OF raw(1)], of env jobs now isoNow] by (simp add: rec)
    show ?thesis
      using run raw rec keeps pj_ident_stays [OF keeps ok pj(2)] pj(1)
      by (auto simp: run_status_def Let_def split: sum.splits if_splits)
  qed (use run in \<open>auto simp: run_status_def split: option.splits\<close>)
  then show "job_keeps env ends jobs jobs'" "run_ok env ends jobs' inp s" by blast+
qed

section \<open>The invariant\<close>

text \<open>What the agent was asked is what the API prepared, and what ended was asked.\<close>

definition asks_ok :: "(time \<Rightarrow> string) \<Rightarrow> job_row list \<Rightarrow> json list \<Rightarrow> bool" where
  "asks_ok isot jobs asks \<longleftrightarrow> (\<forall>raw \<in> set asks. \<exists>pj. raw = start_json isot pj \<and> pj_ident pj \<in> idents jobs)"

definition ends_ok :: "json list \<Rightarrow> (string \<times> runtime_job) list \<Rightarrow> bool" where
  "ends_ok asks ends \<longleftrightarrow> (\<forall>(boot, j) \<in> set ends. \<exists>raw \<in> set asks. rj_request j = start_of raw)"

definition runs_ok ::
  "job_env \<Rightarrow> (string \<times> runtime_job) list \<Rightarrow> job_row list \<Rightarrow> (job_input \<times> run_state) list \<Rightarrow> bool"
where
  "runs_ok env ends jobs runs \<longleftrightarrow> (\<forall>(inp, s) \<in> set runs. run_ok env ends jobs inp s)"

definition protocol_ok :: "job_env \<Rightarrow> (time \<Rightarrow> string) \<Rightarrow> job_sys \<Rightarrow> bool" where
  "protocol_ok env isot y \<longleftrightarrow>
     jobs_ok env (jy_ends y) (jy_jobs y) \<and> agent_ok (jy_ends y) (jy_asks y) (jy_agent y) \<and>
     events_ok (jy_ends y) (jy_events y) \<and> (\<forall>m \<in> set (jy_statuses y). status_told (jy_ends y) m) \<and>
     asks_ok isot (jy_jobs y) (jy_asks y) \<and> ends_ok (jy_asks y) (jy_ends y) \<and>
     runs_ok env (jy_ends y) (jy_jobs y) (jy_runs y)"

lemma asks_ok_later: "asks_ok isot jobs asks \<Longrightarrow> idents jobs \<subseteq> idents jobs' \<Longrightarrow> asks_ok isot jobs' asks"
  unfolding asks_ok_def by blast

lemma ends_ok_later: "ends_ok asks ends \<Longrightarrow> set asks \<subseteq> set asks' \<Longrightarrow> ends_ok asks' ends"
  unfolding ends_ok_def by blast

lemma runs_ok_later:
  "runs_ok env ends jobs runs \<Longrightarrow> set ends \<subseteq> set ends' \<Longrightarrow> idents jobs \<subseteq> idents jobs' \<Longrightarrow> runs_ok env ends' jobs' runs"
  unfolding runs_ok_def using run_ok_later by (metis (no_types, lifting) case_prodD case_prodI2)

lemma runs_ok_update:
  assumes "runs_ok env ends jobs runs" "run_ok env ends jobs inp s"
  shows "runs_ok env ends jobs (runs[i := (inp, s)])"
  unfolding runs_ok_def
proof
  fix p assume "p \<in> set (runs[i := (inp, s)])"
  then have "p = (inp, s) \<or> p \<in> set runs" using set_update_subset_insert by fastforce
  with assms show "case p of (inp, s) \<Rightarrow> run_ok env ends jobs inp s" by (auto simp: runs_ok_def)
qed

lemma status_told_later: "status_told ends m \<Longrightarrow> set ends \<subseteq> set ends' \<Longrightarrow> status_told ends' m"
  unfolding status_told_def using ended_as_later by blast

text \<open>A write of the table by the service keeps the invariant.\<close>

lemma protocol_jobs:
  assumes "protocol_ok env isot y" "job_keeps env (jy_ends y) (jy_jobs y) jobs"
  shows "protocol_ok env isot (y\<lparr>jy_jobs := jobs\<rparr>)"
proof -
  have jobs: "jobs_ok env (jy_ends y) (jy_jobs y)" using assms(1) by (simp add: protocol_ok_def)
  note grows = keeps_idents [OF assms(2) jobs]
  show ?thesis
    using assms(1) keeps_jobs [OF assms(2) jobs] asks_ok_later [OF _ grows] runs_ok_later [OF _ subset_refl grows]
    by (simp add: protocol_ok_def)
qed

text \<open>A stretch of a task: a write of the table and the next state of the task.\<close>

lemma protocol_run:
  assumes "protocol_ok env isot y" "job_keeps env (jy_ends y) (jy_jobs y) jobs" "run_ok env (jy_ends y) jobs inp s"
  shows "protocol_ok env isot (y\<lparr>jy_jobs := jobs, jy_runs := (jy_runs y)[i := (inp, s)]\<rparr>)"
  using protocol_jobs [OF assms(1,2)] runs_ok_update [OF _ assms(3)] by (simp add: protocol_ok_def)

lemma protocol_run_new:
  assumes "protocol_ok env isot y" "job_keeps env (jy_ends y) (jy_jobs y) jobs" "run_ok env (jy_ends y) jobs inp s"
  shows "protocol_ok env isot (y\<lparr>jy_jobs := jobs, jy_runs := jy_runs y @ [(inp, s)], jy_prepared := ps\<rparr>)"
  using protocol_jobs [OF assms(1,2)] assms(3) by (simp add: protocol_ok_def runs_ok_def)

text \<open>A turn of the agent that ends no job.\<close>

lemma protocol_agent:
  assumes "protocol_ok env isot y" "agent_ok (jy_ends y) (jy_asks y) rt" "events_ok (jy_ends y) events"
  shows "protocol_ok env isot (y\<lparr>jy_agent := rt, jy_events := jy_events y @ events, jy_acks := acks, jy_starts := starts\<rparr>)"
  using assms by (auto simp: protocol_ok_def events_ok_def)

lemma protocol_agent_only:
  assumes "protocol_ok env isot y" "agent_ok (jy_ends y) (jy_asks y) rt"
  shows "protocol_ok env isot (y\<lparr>jy_agent := rt\<rparr>)"
  using assms by (simp add: protocol_ok_def)

lemma protocol_agent_events:
  assumes "protocol_ok env isot y" "agent_ok (jy_ends y) (jy_asks y) rt" "events_ok (jy_ends y) events"
  shows "protocol_ok env isot (y\<lparr>jy_agent := rt, jy_events := jy_events y @ events\<rparr>)"
  using assms by (auto simp: protocol_ok_def events_ok_def)

lemma protocol_ends:
  assumes ok: "protocol_ok env isot y" and job: "map_of (rt_jobs (jy_agent y)) jobId = Some j"
    and run: "execute_ends jobId outcome isoNow (jy_agent y) = (events, rt)"
  shows "protocol_ok env isot (y\<lparr>jy_agent := rt, jy_events := jy_events y @ events,
      jy_ends := jy_ends y @ [(rt_bootId (jy_agent y), finished_job outcome j)]\<rparr>)"
proof -
  have agent: "agent_ok (jy_ends y) (jy_asks y) (jy_agent y)" using ok by (simp add: protocol_ok_def)
  note ended = execute_ends_ok [OF agent run job]
  have grows: "set (jy_ends y) \<subseteq> set (jy_ends y @ [(rt_bootId (jy_agent y), finished_job outcome j)])" by auto
  have "\<exists>raw \<in> set (jy_asks y). rj_request (finished_job outcome j) = start_of raw"
    using agent_job_of [OF agent job] by (simp add: agent_job_ok_def)
  then show ?thesis
    using ok ended(1) events_ok_later [OF _ grows] status_told_later [OF _ grows] jobs_ok_later [OF _ grows]
      runs_ok_later [OF _ grows subset_refl] ended(2)
    unfolding protocol_ok_def by (auto simp: ends_ok_def events_ok_def)
qed

section \<open>Every step keeps it\<close>

lemma run_named:
  assumes "protocol_ok env isot y" "i < length (jy_runs y)" "jy_runs y ! i = (inp, s)"
  shows "jobs_ok env (jy_ends y) (jy_jobs y)" "run_ok env (jy_ends y) (jy_jobs y) inp s"
  using assms nth_mem [OF assms(2)] by (auto simp: protocol_ok_def runs_ok_def)

lemma status_answer:
  assumes "protocol_ok env isot y" "answer = None \<or> (\<exists>m \<in> set (jy_statuses y). answer = Some (status_json m))"
  shows "answer = Some raw \<Longrightarrow> status_told (jy_ends y) (status_of_json raw)"
  using assms by (auto simp: protocol_ok_def)

lemma events_keep:
  "job_keeps env ends jobs (handleAgentJobStarted env (started_json m) now seen ry jobs)"
  "job_keeps env ends jobs (handleAgentJobHeartbeat env (heartbeat_json h) ry jobs)"
  "ended_as ends q \<Longrightarrow> job_keeps env ends jobs (handleAgentJobResult env (result_json q) ry jobs)"
  by (simp_all add: handleAgentJobStarted_def handleAgentJobHeartbeat_def handleAgentJobResult_def
      service_keeps recordResult_keeps)

lemma protocol_step: "job_step env isot pdate y y' \<Longrightarrow> protocol_ok env isot y \<Longrightarrow> protocol_ok env isot y'"
proof (induction rule: job_step.induct)
  case (run_new y inp now fault ops s jobs)
  then have ok: "jobs_ok env (jy_ends y) (jy_jobs y)" by (simp add: protocol_ok_def)
  show ?case by (rule protocol_run_new [OF run_new.prems run_prepare_ok(1,2) [OF ok run_new.hyps]])
next
  case (run_binds i y inp pj boot s asks jobs)
  note row = run_named [OF run_binds.prems run_binds.hyps(1,2), simplified]
  note done_ok = run_bind_ok [OF row(1) conjunct1 [OF row(2)] conjunct2 [OF row(2)] run_binds.hyps(3)]
  let ?y = "y\<lparr>jy_jobs := jobs, jy_runs := (jy_runs y)[i := (inp, s)]\<rparr>"
  have ok: "protocol_ok env isot ?y" by (rule protocol_run [OF run_binds.prems done_ok(1,2)])
  have "pj_ident pj \<in> idents jobs" using pj_ident_stays [OF done_ok(1) row(1)] row(2) by blast
  with ok done_ok(3) have "asks_ok isot jobs (jy_asks y @ start_asks asks)"
    by (auto simp: protocol_ok_def asks_ok_def)
  with ok show ?case
    by (auto simp: protocol_ok_def intro: agent_ok_later ends_ok_later)
next
  case (run_answered i y inp pj boot answer now seen s jobs)
  note row = run_named [OF run_answered.prems run_answered.hyps(1,2), simplified]
  show ?case
    by (rule protocol_run [OF run_answered.prems
          run_started_ok [OF row(1) conjunct1 [OF row(2)] conjunct2 [OF row(2)] run_answered.hyps(4)]])
next
  case (run_polls i y inp pj boot sent asked wanted now s asks jobs)
  note row = run_named [OF run_polls.prems run_polls.hyps(1,2), simplified]
  show ?case
    by (rule protocol_run [OF run_polls.prems
          run_poll_ok [OF row(1) conjunct1 [OF row(2)] conjunct2 [OF row(2)] run_polls.hyps(3)]])
next
  case (run_cancel_answered i y inp pj boot asked answer now s asks jobs)
  note row = run_named [OF run_cancel_answered.prems run_cancel_answered.hyps(1,2), simplified]
  show ?case
    by (rule protocol_run [OF run_cancel_answered.prems
          run_cancelled_ok [OF row(1) conjunct1 [OF row(2)] conjunct2 [OF row(2)] run_cancel_answered.hyps(3)]])
next
  case (run_status_answered i y inp pj boot sent asked answer now isoNow s jobs)
  note row = run_named [OF run_status_answered.prems run_status_answered.hyps(1,2), simplified]
  show ?case
    by (rule protocol_run [OF run_status_answered.prems run_status_ok [OF row(1) conjunct1 [OF row(2)] conjunct2 [OF row(2)]
          status_answer [OF run_status_answered.prems run_status_answered.hyps(3)] run_status_answered.hyps(4)]])
next
  case (event_started m y now seen)
  show ?case by (rule protocol_jobs [OF event_started.prems events_keep(1)])
next
  case (event_heartbeat m y)
  show ?case by (rule protocol_jobs [OF event_heartbeat.prems events_keep(2)])
next
  case (event_result m y)
  then have "ended_as (jy_ends y) m" by (auto simp: protocol_ok_def events_ok_def)
  from protocol_jobs [OF event_result.prems events_keep(3) [OF this]] show ?case .
next
  case (boot_marked now y ry jobs)
  then have "jobs = jy_jobs y \<or> (\<exists>boot. jobs = snd (markInterruptedByNewBoot boot now (jy_jobs y)))"
    by (auto simp: boot_ready_def split: option.splits)
  then have "job_keeps env (jy_ends y) (jy_jobs y) jobs" using marks_keep(1) by auto
  from protocol_jobs [OF boot_marked.prems this] show ?case by (simp add: protocol_ok_def)
next
  case (agent_restarts boot y)
  then show ?case by (auto simp: protocol_ok_def agent_ok_def new_boot_def keyed_def)
next
  case (agent_registers actionId y rt)
  then have "rt_jobs rt = rt_jobs (jy_agent y)" "rt_bootId rt = rt_bootId (jy_agent y)"
    by (auto simp: registerHandler_def split: if_splits)
  with agent_registers.prems show ?case by (simp add: protocol_ok_def agent_ok_def)
next
  case (agent_starts raw y now isoNow u1 u2 ack events rt)
  then have "agent_ok (jy_ends y) (jy_asks y) (jy_agent y)" by (simp add: protocol_ok_def)
  note turn = handleStart_ok [OF this agent_starts.hyps(2,1)]
  show ?case by (rule protocol_agent [OF agent_starts.prems turn(1,2)])
next
  case (agent_tells y raw u1 u2)
  then show ?case using handleStatus_told by (auto simp: protocol_ok_def)
next
  case (agent_cancels y raw u1 u2)
  then show ?case using handleCancel_ok by (simp add: protocol_ok_def)
next
  case (agent_beats jobId isoNow y events rt)
  then have "agent_ok (jy_ends y) (jy_asks y) (jy_agent y)" by (simp add: protocol_ok_def)
  note turn = emitHeartbeat_ok [OF this agent_beats.hyps]
  show ?case by (rule protocol_agent_events [OF agent_beats.prems turn(1,2)])
next
  case (handler_beats jobId label progress isoNow y events rt)
  then have "agent_ok (jy_ends y) (jy_asks y) (jy_agent y)" by (simp add: protocol_ok_def)
  note turn = handler_heartbeat_ok [OF this handler_beats.hyps(1)]
  show ?case by (rule protocol_agent_events [OF handler_beats.prems turn(1,2)])
next
  case (deadline_passes y jobId)
  then show ?case using deadline_ok by (simp add: protocol_ok_def)
next
  case (execution_ends y jobId j outcome isoNow events rt)
  show ?case by (rule protocol_ends [OF execution_ends.prems execution_ends.hyps(1,3)])
qed (simp_all add: protocol_ok_def)

lemma protocol_reachable: "job_reachable env isot pdate y \<Longrightarrow> protocol_ok env isot y"
proof (induction rule: job_reachable.induct)
  case (job_first boot)
  then show ?case
    by (simp add: protocol_ok_def first_state_def jobs_ok_def agent_ok_def new_boot_def events_ok_def
        asks_ok_def ends_ok_def runs_ok_def keyed_def)
qed (rule protocol_step)

end
