(* ===== verification/Job_Examples.thy ===== *)
theory Job_Examples
  imports Job_Safety
begin

text \<open>
  A concrete run of the job protocol for the witnesses: one job, prepared by the API, bound to
  the first boot of the agent, executed there and recorded. Every digest of the environment is
  32 zero bytes and every date is the same.
\<close>

definition zero_env :: job_env where
  "zero_env = \<lparr>job_sha256 = (\<lambda>_. replicate 32 0), job_message = id, job_date = (\<lambda>_. 5)\<rparr>"

definition one_iso :: "time \<Rightarrow> string" where "one_iso t = ''2024-02-29T23:59:59.999Z''"
definition one_date :: "string \<Rightarrow> time" where "one_date s = 1000"

definition BOOT1 :: string where "BOOT1 = ''11111111-1111-4111-8111-111111111111''"
definition OP1 :: string where "OP1 = ''22222222-2222-4222-8222-222222222222''"
definition JOB1 :: string where "JOB1 = ''00000000-0000-8000-8000-000000000000''"
definition HASH1 :: string where "HASH1 = replicate 64 CHR ''0''"

lemma zero_job: "deterministicJobId zero_env k s = JOB1" "job_hash zero_env a s p = HASH1"
proof -
  have "uuidFromDigest (replicate 32 0) = JOB1" "hex_of (replicate 32 0) = HASH1" by code_simp+
  then show "deterministicJobId zero_env k s = JOB1" "job_hash zero_env a s p = HASH1"
    by (simp_all add: deterministicJobId_def job_hash_def zero_env_def)
qed

lemma demo_texts [simp]:
  "rx_test UUID BOOT1" "rx_test UUID OP1" "rx_test UUID JOB1" "rx_test SHA256 HASH1" "rx_test ACTION_ID ''sites.backup''"
  "rx_test STEP ''backup''" "is_iso_date (one_iso t)" "length BOOT1 = 36" "length OP1 = 36" "length JOB1 = 36"
  "length HASH1 = 64" "length (one_iso t) = 24" "BOOT1 \<noteq> []"
  unfolding one_iso_def by code_simp+

definition demo_op :: op_row where
  "demo_op = \<lparr>op_id = OP1, op_idempotencyKey = ''key-0001'', op_requestHash = [], op_type = ''SITE_BACKUP'',
     op_status = RUNNING, op_siteId = None, op_siteDomainId = None, op_databaseId = None, op_globalLockKey = None,
     op_parentOperationId = None, op_createdByUserId = ''u1'', op_currentStep = None, op_progress = 0,
     op_actionId = None, op_executionMode = MODE_QUEUED, op_policySnapshot = None, op_requestPayloadEnc = None,
     op_attempt = 1, op_maxAttempts = 3, op_retryable = True, op_recoveryPolicy = RETRY_SAFE, op_leaseOwner = None,
     op_leaseExpiresAt = None, op_heartbeatAt = None, op_claimedAt = None, op_deadlineAt = None,
     op_cancelRequestedAt = None, op_cancelOutcome = None, op_result = None, op_errorMessage = None,
     op_startedAt = None, op_completedAt = None, op_createdAt = 0\<rparr>"

definition demo_input :: job_input where
  "demo_input = \<lparr>ji_operationId = OP1, ji_actionId = ''sites.backup'', ji_step = ''backup'', ji_payload = JNull,
     ji_deadlineAt = Some 1000, ji_cancelSafe = True\<rparr>"

definition row_new :: job_row where "row_new = new_job zero_env demo_input 1000"
definition row_bound :: job_row where "row_bound = row_new\<lparr>aj_agentBootId := Some BOOT1\<rparr>"
definition demo_pj :: prepared_job where "demo_pj = prepared_of row_new JNull"

definition demo_relay :: relay where
  "demo_relay = \<lparr>ry_socket = Some ''s'', ry_connected = True, ry_bootId = Some BOOT1, ry_pending = Some BOOT1\<rparr>"

lemmas demo_defs = demo_input_def row_new_def row_bound_def demo_pj_def demo_relay_def demo_op_def new_job_def prepared_of_def
  zero_job

lemma some_bool [simp]: "\<exists>b. b" "\<exists>b. \<not> b" by blast+

lemmas demo_checks = validateIdentity_None requireString_None requireInteger_None requireIsoDate_None requireJsonSize_None
  requireBoolean_None requireEnum_None requireExactKeys_None unless_null_def max_safe_integer_def

lemma demo_sizes [simp]: "utf8_length ''null'' = 4" "utf8_length ''true'' = 4" by code_simp+


lemma boot_truthy [simp]: "truthy (Some BOOT1) = Some BOOT1" by (simp add: truthy_eq_Some)

lemma demo_prepare: "run_prepare zero_env demo_relay demo_input 1 None [demo_op] [] = (Run_Binding demo_pj BOOT1, [row_new])"
  by (simp add: run_prepare_def demo_defs isAgentConnected_def prepare_job_def prepare_invalid_def
      MAX_JOB_PAYLOAD_BYTES_def transaction_def prepare_tx_def find_key_def find_first_def job_of_step_def
      create_job_def EXECUTING_OPERATION_STATES_def)

lemmas row_defs = update_rows_def count_rows_def find_key_def find_first_def

definition demo_start :: json where "demo_start = start_json one_iso demo_pj"

lemma demo_bind:
  "run_bind one_iso demo_relay demo_pj BOOT1 [row_new] = (Run_Asking demo_pj BOOT1, [Ask_Start demo_start], [row_bound])"
  by (simp add: run_bind_def bindToBoot_def bind_guard_def row_defs isAgentConnected_def demo_start_def demo_defs)

definition demo_agent :: "runtime_job list \<Rightarrow> runtime" where
  "demo_agent js = \<lparr>rt_bootId = BOOT1, rt_handlers = [''sites.backup''], rt_jobs = map (Pair JOB1) js\<rparr>"

definition agent_job :: runtime_job where "agent_job = new_runtime_job (start_of demo_start) 2"

definition demo_ack :: job_started where "demo_ack = startedResponse (demo_agent []) agent_job False"

lemma demo_start_valid: "validateAgentJobStart demo_start = None"
  unfolding validateAgentJobStart_def demo_defs demo_start_def start_json_def
  by (simp add: demo_checks MAX_PAYLOAD_BYTES_def)

lemma demo_start_of: "js_jobId (start_of demo_start) = JOB1" "js_actionId (start_of demo_start) = ''sites.backup''"
  "js_operationId (start_of demo_start) = OP1"
  by (simp_all add: demo_start_def start_back demo_defs)

lemma demo_ack_sel: "demo_ack = \<lparr>sm_success = True, sm_jobId = JOB1, sm_operationId = OP1, sm_bootId = BOOT1,
    sm_state = JOB_RUNNING, sm_replayed = False, sm_error = None\<rparr>"
  by (simp add: demo_ack_def startedResponse_def demo_agent_def agent_job_def new_runtime_job_def demo_start_of)

lemma demo_agent_starts:
  "handleStart one_date demo_start 2 t u1 u2 (demo_agent []) = (Some demo_ack, [Started demo_ack], demo_agent [agent_job])"
  by (simp add: handleStart_def demo_start_valid demo_start_of demo_agent_def one_date_def active_jobs_def
      MAX_ACTIVE_JOBS_def pruneJobs_def MAX_HISTORY_def demo_ack_sel agent_job_def startedResponse_def
      new_runtime_job_def Let_def)

lemma demo_boot [simp]: "rt_bootId (demo_agent js) = BOOT1" "sm_jobId demo_ack = JOB1"
  by (simp_all add: demo_agent_def demo_ack_sel)

lemma demo_ack_valid: "validateAgentJobStarted (started_json demo_ack) = None"
  unfolding validateAgentJobStarted_def demo_ack_sel
  by (simp add: started_json_def text_json_def demo_checks AGENT_JOB_STATES_def)

definition row_running :: job_row where
  "row_running = row_bound\<lparr>aj_state := JOB_RUNNING, aj_startedAt := Some 3, aj_heartbeatAt := Some 3\<rparr>"

lemma demo_started:
  "run_started zero_env demo_pj BOOT1 (Some (started_json demo_ack)) 3 [row_bound] [row_bound] =
     (Run_Polling demo_pj BOOT1 False 3, [row_running])"
  by (simp add: run_started_def demo_ack_valid) (simp add: demo_ack_sel demo_defs recordStarted_def row_defs
      TERMINAL_JOB_STATES_def started_guard_def started_write_def row_running_def)

definition ended_job :: runtime_job where "ended_job = finished_job (Inr (JBool True)) agent_job"

definition demo_result :: job_result where "demo_result = result_of (demo_agent []) ended_job (one_iso 4)"

lemma demo_ends:
  "execute_ends JOB1 (Inr (JBool True)) (one_iso 4) (demo_agent [agent_job]) =
     ([Result demo_result], demo_agent [next_sequence ended_job])"
  by (simp add: execute_ends_def emitResult_def set_job_def demo_agent_def demo_result_def ended_job_def result_of_def)

lemma demo_true: "parseStoredResult (Some ''true'') = JBool True"
    "assertNoSecretFields p (JBool True) = None"
  by code_simp+

lemma demo_result_sel: "demo_result = \<lparr>rm_jobId = JOB1, rm_operationId = OP1, rm_bootId = BOOT1, rm_sequence = 1,
    rm_success = True, rm_cancelled = False, rm_result = JBool True, rm_error = None, rm_timestamp = one_iso 4\<rparr>"
  by (simp add: demo_result_def result_of_def ended_job_def finished_job_def demo_agent_def agent_job_def
      new_runtime_job_def demo_start_def start_back demo_defs demo_true MAX_RESULT_BYTES_def)

lemma demo_result_valid: "validateAgentJobResult (result_json demo_result) = None"
  unfolding validateAgentJobResult_def demo_result_sel
  by (simp add: result_json_def text_json_def demo_checks demo_true MAX_PAYLOAD_BYTES_def)

definition row_succeeded :: job_row where "row_succeeded = result_write zero_env demo_result row_running"

lemma demo_recorded:
  "handleAgentJobResult zero_env (result_json demo_result) demo_relay [row_running] = [row_succeeded]"
  by (simp add: handleAgentJobResult_def demo_result_valid)
    (simp add: recordResult_def demo_result_sel demo_true MAX_JOB_RESULT_BYTES_def row_succeeded_def row_running_def
      report_guard_def LIVE_JOB_STATES_def row_defs demo_defs)

lemma demo_polled:
  "run_poll demo_relay demo_pj BOOT1 False 3 False 6 [row_succeeded] = (Run_Ended (Inr (JBool True)), [], [row_succeeded])"
  by (simp add: run_poll_def get_job_def row_defs row_succeeded_def demo_result_sel row_running_def demo_defs
      result_write_def result_state_def resolveTerminalJob_def demo_true)

section \<open>The run\<close>

lemma step_to:
  "job_reachable env isot pdate y \<Longrightarrow> job_step env isot pdate y y' \<Longrightarrow> y' = z \<Longrightarrow> job_reachable env isot pdate z"
  using job_next by blast

definition demo_ready :: job_sys where
  "demo_ready = (first_state BOOT1)\<lparr>jy_relay := demo_relay, jy_agent := demo_agent []\<rparr>"

lemma demo_ready_reachable: "job_reachable zero_env one_iso one_date demo_ready"
proof -
  let ?y = "(first_state BOOT1)\<lparr>jy_relay := demo_relay\<rparr>"
  have "job_reachable zero_env one_iso one_date ?y"
    by (rule step_to [OF job_first [where boot = BOOT1] agent_connects [where socket = "''s''", OF refl]])
      (simp add: first_state_def new_boot_def setAgentSocket_def demo_relay_def no_relay_def)
  then show ?thesis
    by (rule step_to [OF _ agent_registers [where actionId = "''sites.backup''" and rt = "demo_agent []"]])
      (simp_all add: registerHandler_def first_state_def new_boot_def demo_agent_def demo_ready_def)
qed

definition demo_sent :: job_sys where
  "demo_sent = demo_ready\<lparr>jy_jobs := [row_bound], jy_runs := [(demo_input, Run_Asking demo_pj BOOT1)],
     jy_prepared := [demo_pj], jy_asks := [demo_start]\<rparr>"

lemma demo_sent_reachable: "job_reachable zero_env one_iso one_date demo_sent"
proof -
  let ?y = "demo_ready\<lparr>jy_jobs := [row_new], jy_runs := [(demo_input, Run_Binding demo_pj BOOT1)], jy_prepared := [demo_pj]\<rparr>"
  have "job_reachable zero_env one_iso one_date ?y"
    by (rule step_to [OF demo_ready_reachable run_new [where inp = demo_input and now = 1 and fault = None and ops = "[demo_op]"
          and s = "Run_Binding demo_pj BOOT1" and jobs = "[row_new]"]])
      (simp_all add: demo_ready_def first_state_def demo_prepare prepared_in_def)
  then show ?thesis
    by (rule step_to [OF _ run_binds [where i = 0 and inp = demo_input and pj = demo_pj and boot = BOOT1
          and s = "Run_Asking demo_pj BOOT1" and asks = "[Ask_Start demo_start]" and jobs = "[row_bound]"]])
      (simp_all add: demo_ready_def first_state_def demo_bind start_asks_def demo_sent_def)
qed

definition job_running :: job_sys where
  "job_running = demo_sent\<lparr>jy_jobs := [row_running], jy_runs := [(demo_input, Run_Polling demo_pj BOOT1 False 3)],
     jy_agent := demo_agent [agent_job], jy_events := [Started demo_ack], jy_acks := [demo_ack],
     jy_starts := [(BOOT1, JOB1)]\<rparr>"

lemma job_running_reachable: "job_reachable zero_env one_iso one_date job_running"
proof -
  let ?y = "demo_sent\<lparr>jy_agent := demo_agent [agent_job], jy_events := [Started demo_ack], jy_acks := [demo_ack],
     jy_starts := [(BOOT1, JOB1)]\<rparr>"
  have "job_reachable zero_env one_iso one_date ?y"
    by (rule step_to [OF demo_sent_reachable agent_starts [where raw = demo_start and now = 2 and isoNow = "[]" and ack = "Some demo_ack"
          and events = "[Started demo_ack]" and rt = "demo_agent [agent_job]"]])
      (simp_all add: demo_sent_def demo_ready_def first_state_def demo_agent_starts started_in_def)
  then show ?thesis
    by (rule step_to [OF _ run_answered [where i = 0 and inp = demo_input and pj = demo_pj and boot = BOOT1 and now = 3
          and answer = "Some (started_json demo_ack)" and seen = "[row_bound]" and jobs = "[row_running]"
          and s = "Run_Polling demo_pj BOOT1 False 3"]])
      (simp_all add: demo_sent_def demo_ready_def first_state_def demo_started job_running_def)
qed

definition demo_over :: job_sys where
  "demo_over = job_running\<lparr>jy_jobs := [row_succeeded], jy_agent := demo_agent [next_sequence ended_job],
     jy_events := [Started demo_ack, Result demo_result], jy_ends := [(BOOT1, ended_job)],
     jy_runs := [(demo_input, Run_Ended (Inr (JBool True)))]\<rparr>"

lemma demo_over_reachable: "job_reachable zero_env one_iso one_date demo_over"
proof -
  let ?x = "job_running\<lparr>jy_agent := demo_agent [next_sequence ended_job],
     jy_events := [Started demo_ack, Result demo_result], jy_ends := [(BOOT1, ended_job)]\<rparr>"
  have "job_reachable zero_env one_iso one_date ?x"
    by (rule step_to [OF job_running_reachable execution_ends [where jobId = JOB1 and outcome = "Inr (JBool True)" and j = agent_job
          and isoNow = "one_iso 4" and events = "[Result demo_result]" and rt = "demo_agent [next_sequence ended_job]"]])
      (simp_all add: job_running_def demo_sent_def demo_ready_def first_state_def demo_ends ended_job_def [symmetric],
       simp_all add: demo_agent_def agent_job_def new_runtime_job_def terminal_job_def TERMINAL_JOB_STATES_def)
  then have "job_reachable zero_env one_iso one_date (?x\<lparr>jy_jobs := [row_succeeded]\<rparr>)"
    by (rule step_to [OF _ event_result [where m = demo_result]])
      (simp_all add: job_running_def demo_sent_def demo_ready_def demo_recorded)
  then show ?thesis
    by (rule step_to [OF _ run_polls [where i = 0 and inp = demo_input and pj = demo_pj and boot = BOOT1 and sent = False
          and asked = 3 and wanted = False and now = 6 and asks = "[]" and s = "Run_Ended (Inr (JBool True))" and jobs = "[row_succeeded]"]])
      (simp_all add: job_running_def demo_sent_def demo_ready_def demo_polled demo_over_def)
qed

end
