(* ===== verification/Job_Theorems.thy ===== *)
theory Job_Theorems
  imports Job_Examples
begin

text \<open>
  The properties of the jobs of the agent: what the caller of \<open>runAgentJob\<close> is told, how often
  a job runs, and two ways in which a job is never settled.
\<close>

section \<open>Executions of one boot\<close>

definition starts_of :: "string \<Rightarrow> (string \<times> string) list \<Rightarrow> string list" where
  "starts_of boot starts = map snd (filter (\<lambda>e. fst e = boot) starts)"

lemma starts_of_simps [simp]:
  "starts_of b [] = []" "starts_of b (xs @ ys) = starts_of b xs @ starts_of b ys"
  "starts_of b [(c, k)] = (if c = b then [k] else [])"
  by (simp_all add: starts_of_def)

definition starts_ok :: "job_sys \<Rightarrow> bool" where
  "starts_ok y \<longleftrightarrow> (\<forall>b. length (starts_of b (jy_starts y)) \<le> MAX_HISTORY \<longrightarrow> distinct (starts_of b (jy_starts y))) \<and>
     (length (starts_of (rt_bootId (jy_agent y)) (jy_starts y)) < MAX_HISTORY \<longrightarrow>
        map fst (rt_jobs (jy_agent y)) = starts_of (rt_bootId (jy_agent y)) (jy_starts y)) \<and>
     fst ` set (jy_starts y) \<subseteq> set (jy_boots y) \<and> rt_bootId (jy_agent y) \<in> set (jy_boots y)"

lemma starts_ok_keys:
  assumes "starts_ok y" "jy_starts y' = jy_starts y" "jy_boots y' = jy_boots y"
    and "rt_bootId (jy_agent y') = rt_bootId (jy_agent y)" "map fst (rt_jobs (jy_agent y')) = map fst (rt_jobs (jy_agent y))"
  shows "starts_ok y'"
  using assms by (simp add: starts_ok_def)

lemma emit_keys:
  "emitResult k t rt = (es, rt') \<Longrightarrow>
     rt_bootId rt' = rt_bootId rt \<and> map fst (rt_jobs rt') = map fst (rt_jobs rt) \<and> started_in rt es = []"
  "emitHeartbeat k t rt = (es, rt') \<Longrightarrow> rt_bootId rt' = rt_bootId rt \<and> map fst (rt_jobs rt') = map fst (rt_jobs rt)"
  by (auto simp: emitResult_def emitHeartbeat_def started_in_def split: option.splits if_splits)

text \<open>A turn of the agent either starts no job or the one that was asked for.\<close>

lemma handleStart_starts:
  assumes "handleStart pdate raw now isoNow u1 u2 rt = (ack, events, rt')" "length (rt_jobs rt) < MAX_HISTORY"
  shows "started_in rt events = [] \<and> map fst (rt_jobs rt') = map fst (rt_jobs rt) \<or>
    (\<exists>k. started_in rt events = [(rt_bootId rt, k)] \<and> k \<notin> fst ` set (rt_jobs rt) \<and>
       map fst (rt_jobs rt') = map fst (rt_jobs rt) @ [k])"
proof (cases "validateAgentJobStart raw")
  case None
  let ?key = "js_jobId (start_of raw)"
  show ?thesis
  proof (cases "map_of (rt_jobs rt) ?key")
    case (Some j)
    obtain es rt1 where e: "emitResult ?key isoNow rt = (es, rt1)" by fastforce
    with emit_keys(1) [OF this] assms(1) None Some show ?thesis
      by (auto simp: handleStart_def Let_def started_in_def split: if_splits)
  next
    case fresh: None
    then have "?key \<notin> fst ` set (rt_jobs rt)" by (simp add: map_of_eq_None_iff)
    moreover have "pruneJobs now rt = (rt, True)" using assms(2) by (simp add: pruneJobs_def)
    ultimately show ?thesis
      using assms(1) None fresh
      by (auto simp: handleStart_def Let_def started_in_def startedResponse_def new_runtime_job_def split: if_splits)
  qed
qed (use assms(1) in \<open>simp add: handleStart_def started_in_def\<close>)

lemma starts_boot: "handleStart pdate raw now isoNow u1 u2 rt = (ack, events, rt') \<Longrightarrow>
    rt_bootId rt' = rt_bootId rt \<and> (started_in rt events = [] \<or> (\<exists>k. started_in rt events = [(rt_bootId rt, k)]))"
proof -
  assume start: "handleStart pdate raw now isoNow u1 u2 rt = (ack, events, rt')"
  obtain es rt1 where e: "emitResult (js_jobId (start_of raw)) isoNow rt = (es, rt1)" by fastforce
  obtain rt2 b where p: "pruneJobs now rt = (rt2, b)" by fastforce
  note emit_keys(1) [OF e]
  moreover have "rt_bootId rt2 = rt_bootId rt"
    using p by (auto simp: pruneJobs_def Let_def split: if_splits)
  ultimately show ?thesis
    using start e p
    by (auto simp: handleStart_def Let_def started_in_def startedResponse_def new_runtime_job_def
        split: option.splits if_splits bool.splits)
qed

lemma starts_step_start:
  assumes ok: "starts_ok y" and start: "handleStart pdate raw now isoNow u1 u2 (jy_agent y) = (ack, events, rt)"
  shows "starts_ok (y\<lparr>jy_agent := rt, jy_events := es, jy_acks := acks,
    jy_starts := jy_starts y @ started_in (jy_agent y) events\<rparr>)"
proof -
  let ?b = "rt_bootId (jy_agent y)"
  note boot = starts_boot [OF start]
  show ?thesis
  proof (cases "length (starts_of ?b (jy_starts y)) < MAX_HISTORY")
    case True
    with ok have jobs: "map fst (rt_jobs (jy_agent y)) = starts_of ?b (jy_starts y)"
      and dist: "distinct (starts_of ?b (jy_starts y))" by (simp_all add: starts_ok_def)
    then have "length (rt_jobs (jy_agent y)) < MAX_HISTORY" by (metis True length_map)
    from handleStart_starts [OF start this] show ?thesis
    proof (elim disjE exE conjE)
      fix k assume k: "started_in (jy_agent y) events = [(?b, k)]" "k \<notin> fst ` set (rt_jobs (jy_agent y))"
        "map fst (rt_jobs rt) = map fst (rt_jobs (jy_agent y)) @ [k]"
      have "k \<notin> set (starts_of ?b (jy_starts y))" using k(2) by (simp flip: jobs)
      with ok k jobs dist boot show ?thesis by (auto simp: starts_ok_def)
    qed (use ok jobs boot in \<open>simp add: starts_ok_def\<close>)
  next
    case False
    from boot have "started_in (jy_agent y) events = [] \<or> (\<exists>k. started_in (jy_agent y) events = [(?b, k)])" by blast
    with ok boot False show ?thesis by (auto simp: starts_ok_def)
  qed
qed

lemma starts_step: "job_step env isot pdate y y' \<Longrightarrow> starts_ok y \<Longrightarrow> starts_ok y'"
proof (induction rule: job_step.induct)
  case (agent_restarts boot y)
  then have "starts_of boot (jy_starts y) = []" by (force simp: starts_ok_def starts_of_def filter_empty_conv)
  with agent_restarts show ?case by (auto simp: starts_ok_def new_boot_def)
next
  case (agent_registers actionId y rt)
  then show ?case by (auto simp: registerHandler_def starts_ok_def split: if_splits)
next
  case (agent_starts raw y now isoNow u1 u2 ack events rt)
  show ?case by (rule starts_step_start [OF agent_starts.prems agent_starts.hyps(2)])
next
  case (agent_cancels y raw u1 u2)
  then show ?case
    by (elim starts_ok_keys) (simp_all add: handleCancel_def Let_def split: option.split)
next
  case (agent_beats jobId isoNow y events rt)
  show ?case using agent_beats.prems emit_keys(2) [OF agent_beats.hyps] by (elim starts_ok_keys) simp_all
next
  case (handler_beats jobId label progress isoNow y events rt)
  then have "emitHeartbeat jobId isoNow
      (set_job jobId (\<lambda>j. j\<lparr>rj_step := label, rj_progress := progress\<rparr>) (jy_agent y)) = (events, rt)"
    by (auto simp: handler_heartbeat_def split: if_splits prod.splits)
  from emit_keys(2) [OF this] handler_beats.prems show ?case by (elim starts_ok_keys) simp_all
next
  case (execution_ends y jobId j outcome isoNow events rt)
  then have "emitResult jobId isoNow (set_job jobId (finished_job outcome) (jy_agent y)) = (events, rt)"
    by (simp add: execute_ends_def)
  from emit_keys(1) [OF this] execution_ends.prems show ?case by (elim starts_ok_keys) simp_all
qed (simp_all add: starts_ok_def deadline_fires_def)

lemma starts_reachable: "job_reachable env isot pdate y \<Longrightarrow> starts_ok y"
proof (induction rule: job_reachable.induct)
  case (job_first boot)
  then show ?case by (simp add: starts_ok_def first_state_def new_boot_def)
qed (rule starts_step)

lemma same_key_same_ident:
  "keyed aj_id jobs \<Longrightarrow> a \<in> idents jobs \<Longrightarrow> b \<in> idents jobs \<Longrightarrow> fst a = fst b \<Longrightarrow> a = b"
  unfolding idents_def keyed_def distinct_map by (auto simp: job_ident_def dest: inj_onD)

section \<open>Properties\<close>

text \<open>C33: When \<open>runAgentJob\<close> returns a value to its caller, the agent has really executed this job
  to a success: some boot ended an execution of the job with this deterministic identifier,
  for this operation and with the hash of exactly this action, step and payload, and the value
  is the result of that execution, whatever messages were lost, repeated or overtaken and
  however often the agent restarted.
\<close>

theorem job_result_is_the_agents:
  assumes "job_reachable env isot pdate y" "(inp, Run_Ended (Inr v)) \<in> set (jy_runs y)"
  shows "\<exists>boot j. (boot, j) \<in> set (jy_ends y) \<and> rj_state j = JOB_SUCCEEDED \<and>
    js_jobId (rj_request j) = deterministicJobId env (ji_operationId inp) (ji_step inp) \<and>
    js_operationId (rj_request j) = ji_operationId inp \<and>
    js_requestHash (rj_request j) = job_hash env (ji_actionId inp) (ji_step inp) (ji_payload inp) \<and>
    v = parseStoredResult (Some (stable_json (rj_result j)))"
proof -
  note ok = protocol_reachable [OF assms(1)]
  let ?id = "deterministicJobId env (ji_operationId inp) (ji_step inp)"
  from ok assms(2) have run: "job_done env (jy_ends y) inp v" "inp_ident env inp \<in> idents (jy_jobs y)"
    by (auto simp: protocol_ok_def runs_ok_def)
  then obtain boot j where j: "(boot, j) \<in> set (jy_ends y)" "js_jobId (rj_request j) = ?id"
    "js_operationId (rj_request j) = ji_operationId inp" "rj_state j = JOB_SUCCEEDED"
    "v = parseStoredResult (Some (stable_json (rj_result j)))"
    by (auto simp: job_done_def ended_def)
  from ok j(1) obtain raw where raw: "raw \<in> set (jy_asks y)" "rj_request j = start_of raw"
    by (auto simp: protocol_ok_def ends_ok_def)
  with ok obtain pj where pj: "raw = start_json isot pj" "pj_ident pj \<in> idents (jy_jobs y)"
    by (auto simp: protocol_ok_def asks_ok_def)
  have "pj_ident pj = inp_ident env inp"
  proof (rule same_key_same_ident [OF _ pj(2) run(2)])
    show "keyed aj_id (jy_jobs y)" using ok by (simp add: protocol_ok_def jobs_ok_def)
    show "fst (pj_ident pj) = fst (inp_ident env inp)"
      using j(2) raw(2) pj(1) by (simp add: start_back pj_ident_def inp_ident_def job_ident_def new_job_def)
  qed
  with raw(2) pj(1) have "js_requestHash (rj_request j) = job_hash env (ji_actionId inp) (ji_step inp) (ji_payload inp)"
    by (simp add: start_back pj_ident_def inp_ident_def job_ident_def new_job_def)
  with j show ?thesis by blast
qed

lemma job_result_is_the_agents_witness:
  "\<exists>boot j. (boot, j) \<in> set (jy_ends demo_over) \<and> rj_state j = JOB_SUCCEEDED \<and>
    js_jobId (rj_request j) = JOB1 \<and> js_operationId (rj_request j) = OP1 \<and> js_requestHash (rj_request j) = HASH1 \<and>
    JBool True = parseStoredResult (Some (stable_json (rj_result j)))"
  using job_result_is_the_agents [OF demo_over_reachable, of demo_input "JBool True"]
  by (simp add: zero_job) (simp add: demo_over_def demo_input_def)





lemma set_job_look: "map_of (rt_jobs (set_job k f rt)) k = map_option f (map_of (rt_jobs rt) k)"
proof -
  have "map_of (map (\<lambda>(k', j). (k', if k' = k then f j else j)) es) k = map_option f (map_of es k)" for es
    by (induction es) auto
  then show ?thesis by (simp add: set_job_def)
qed

lemma empty_error_refused:
  "rm_error m = Some [] \<Longrightarrow> validateAgentJobResult (result_json m) \<noteq> None"
  "tm_error s = Some [] \<Longrightarrow> validateAgentJobStatus (status_json s) \<noteq> None"
  unfolding validateAgentJobResult_def validateAgentJobStatus_def
  by (simp_all add: result_json_def status_json_def text_json_def unless_null_def requireString_None
      del: not_None_eq)

text \<open>A job whose handler throws an error with an empty message is never settled by the
  agent's word: the API drops the result that the agent emits for it, and refuses every status
  that the agent gives of it later, since its validators want an error of at least one
  character.
\<close>

theorem empty_error_is_never_recorded:
  assumes "execute_ends k (Inl []) isoNow rt = (events, rt')"
    and "map_of (rt_jobs rt) k = Some j" "\<not> rj_cancellationRequested j"
  shows "(\<forall>m. Result m \<in> set events \<longrightarrow> handleAgentJobResult env (result_json m) ry jobs = jobs) \<and>
    (\<exists>j'. map_of (rt_jobs rt') k = Some j' \<and> rj_state j' = JOB_FAILED \<and>
       validateAgentJobStatus (status_json (statusResponse rt' j')) \<noteq> None)"
proof -
  have "safeMessage [] = []" by (simp add: safeMessage_def)
  with assms(3) have j: "finished_job (Inl []) j = j\<lparr>rj_state := JOB_FAILED, rj_error := Some []\<rparr>"
    by (simp add: finished_job_def failed_job_def)
  let ?j = "next_sequence (finished_job (Inl []) j)"
  note set = set_job_look
  have rt': "map_of (rt_jobs rt') k = Some ?j"
    and events: "events = [Result (result_of (set_job k (finished_job (Inl [])) rt) (finished_job (Inl []) j) isoNow)]"
    using assms(1,2) by (auto simp: execute_ends_def emitResult_def set)
  have "handleAgentJobResult env (result_json m) ry jobs = jobs" if "Result m \<in> set events" for m
  proof -
    have "rm_error m = Some []" using that events j by (simp add: result_of_def)
    then show ?thesis using empty_error_refused(1) by (simp add: handleAgentJobResult_def)
  qed
  moreover have "validateAgentJobStatus (status_json (statusResponse rt' ?j)) \<noteq> None" "rj_state ?j = JOB_FAILED"
    using j by (simp_all add: empty_error_refused(2) statusResponse_def next_sequence_def del: not_None_eq)
  ultimately show ?thesis using rt' by blast
qed

lemma empty_error_is_never_recorded_witness:
  "\<exists>m. Result m \<in> set (fst (execute_ends JOB1 (Inl []) (one_iso 4) (demo_agent [agent_job]))) \<and>
     handleAgentJobResult zero_env (result_json m) demo_relay [row_running] = [row_running]"
proof -
  obtain events rt where run: "execute_ends JOB1 (Inl []) (one_iso 4) (demo_agent [agent_job]) = (events, rt)" by fastforce
  have job: "map_of (rt_jobs (demo_agent [agent_job])) JOB1 = Some agent_job" "\<not> rj_cancellationRequested agent_job"
    by (simp_all add: demo_agent_def agent_job_def new_runtime_job_def)
  with run obtain m where "Result m \<in> set events" by (auto simp: execute_ends_def emitResult_def set_job_look)
  with empty_error_is_never_recorded [OF run job] run show ?thesis by auto
qed

end
