(* ===== verification/Operation_Worker.thy ===== *)
theory Operation_Worker
  imports Operation_System
begin

text \<open>
  The worker of the queue, \<open>api/src/operations/operations-worker.service.ts\<close>, and the two systems
  around the ledger: the worker that claims and runs operations, and everybody else, who may
  write the ledger in any way that the ledger allows.

  \<open>execute\<close> waits several times. An execution is a row of \<open>wk_execs\<close> with its phase, and each
  stretch of \<open>execute\<close> between two waits is a definition; a read and a later write take the two
  states of the ledger they see (\<open>seen\<close> first). The handler of an action is any code: the model
  has its heartbeats and its end. Timers are steps that may happen at any time.
\<close>

section \<open>State\<close>

text \<open>
  \<open>Ex_Failing\<close> is the \<open>catch\<close> of \<open>execute\<close>, \<open>Ex_Over\<close> its end: \<open>None\<close> when it returned and the
  error when it threw, which \<open>pollOnce\<close> only logs.
\<close>

datatype exec_phase = Ex_Running | Ex_Failing exn | Ex_Over "exn option"

record execution =
  ex_op :: claimed_operation
  ex_lost :: bool
  ex_phase :: exec_phase

record worker =
  wk_id :: string
  wk_handlers :: "string list"
  wk_active :: "string list"
  wk_polling :: bool
  wk_stopped :: bool
  wk_execs :: "execution list"

definition new_worker :: "string \<Rightarrow> worker" where
  "new_worker workerId = \<lparr>wk_id = workerId, wk_handlers = [], wk_active = [], wk_polling = False,
     wk_stopped = False, wk_execs = []\<rparr>"

definition register_handler :: "string \<Rightarrow> worker \<Rightarrow> exn + worker" where
  "register_handler actionId w =
     (if actionId \<in> set (wk_handlers w) then Inl (Plain (''Operation handler already registered: '' @ actionId))
      else Inr (w\<lparr>wk_handlers := actionId # wk_handlers w\<rparr>))"

definition worker_destroy :: "worker \<Rightarrow> worker" where
  "worker_destroy w = w\<lparr>wk_stopped := True\<rparr>"

section \<open>execute\<close>

text \<open>What an error says, \<open>error.message\<close>.\<close>

fun exn_message :: "exn \<Rightarrow> string" where
  "exn_message (Conflict m) = m"
| "exn_message (ConflictWith m _) = m"
| "exn_message (Forbidden m) = m"
| "exn_message (NotFound m) = m"
| "exn_message (BadRequest m) = m"
| "exn_message (Gone m) = m"
| "exn_message (Unauthorized m) = m"
| "exn_message (TooMany m) = m"
| "exn_message (Unavailable m) = m"
| "exn_message (Plain m) = m"
| "exn_message (NeedsAttention m) = m"
| "exn_message (OperationFailed m) = m"
| "exn_message OperationCancelled = ''Operation cancellation requested''"
| "exn_message (HttpError _ m) = m"
| "exn_message (DbFault e) = err_message e"

definition lease_lost :: exn where "lease_lost = Plain ''Operation lease was lost''"

definition phase_over :: "exn + unit \<Rightarrow> exec_phase" where
  "phase_over res = Ex_Over (case res of Inl e \<Rightarrow> Some e | Inr _ \<Rightarrow> None)"

text \<open>From the call of \<open>execute\<close> to the start of the handler.\<close>

definition execute_start :: "worker \<Rightarrow> claimed_operation \<Rightarrow> time \<Rightarrow> db \<Rightarrow> execution \<times> db" where
  "execute_start w operation now d =
     (let ex = (\<lambda>phase. \<lparr>ex_op = operation, ex_lost = False, ex_phase = phase\<rparr>) in
      if c_actionId operation \<notin> set (wk_handlers w) then
        (case requireAttention (c_id operation) (wk_id w) ''No registered handler for queued action'' now d of
           (res, d') \<Rightarrow> (ex (phase_over res), d'))
      else
        (case startClaimed (c_id operation) (wk_id w) (if c_recovering operation then ''reconcile'' else ''start'') now d of
           (Inl e, d') \<Rightarrow> (ex (Ex_Over (Some e)), d')
         | (Inr _, d') \<Rightarrow> (ex Ex_Running, d')))"

text \<open>The timer of \<open>execute\<close>, which stops once the lease is lost.\<close>

definition heartbeat_timer :: "worker \<Rightarrow> execution \<Rightarrow> time \<Rightarrow> db \<Rightarrow> execution \<times> db" where
  "heartbeat_timer w ex now d =
     (if ex_lost ex then (ex, d)
      else case heartbeatClaim (c_id (ex_op ex)) (wk_id w) None None now d of
        (renewed, d') \<Rightarrow> (ex\<lparr>ex_lost := \<not> renewed\<rparr>, d'))"

text \<open>\<open>context.heartbeat(step, progress)\<close> of the handler.\<close>

definition context_heartbeat ::
  "worker \<Rightarrow> execution \<Rightarrow> string option \<Rightarrow> int option \<Rightarrow> time \<Rightarrow> db \<Rightarrow> (exn + unit) \<times> execution \<times> db"
where
  "context_heartbeat w ex label progress now d =
     (if ex_lost ex then (Inl lease_lost, ex, d)
      else case heartbeatClaim (c_id (ex_op ex)) (wk_id w) label progress now d of
        (renewed, d') \<Rightarrow> if renewed then (Inr (), ex, d') else (Inl lease_lost, ex\<lparr>ex_lost := True\<rparr>, d'))"

text \<open>The handler returns \<open>result\<close>.\<close>

definition execute_returns ::
  "worker \<Rightarrow> execution \<Rightarrow> json \<Rightarrow> db \<Rightarrow> time \<Rightarrow> db_error option list \<Rightarrow> db \<Rightarrow> execution \<times> db"
where
  "execute_returns w ex result seen now faults d =
     (if ex_lost ex then (ex\<lparr>ex_phase := Ex_Failing lease_lost\<rparr>, d)
      else case succeedClaimed (c_id (ex_op ex)) (wk_id w) result
             (isCancellationRequested (c_id (ex_op ex)) (wk_id w) seen) now faults d of
        (Inl e, d') \<Rightarrow> (ex\<lparr>ex_phase := Ex_Failing e\<rparr>, d')
      | (Inr _, d') \<Rightarrow> (ex\<lparr>ex_phase := Ex_Over None\<rparr>, d'))"

text \<open>The \<open>catch\<close>: what becomes of an operation whose execution raised \<open>error\<close>.\<close>

definition settle ::
  "op_env \<Rightarrow> string \<Rightarrow> claimed_operation \<Rightarrow> exn \<Rightarrow> db \<Rightarrow> time \<Rightarrow> db_error option list \<Rightarrow> db \<Rightarrow> (unit, db) outcome"
where
  "settle env workerId operation error seen now faults d =
     (case error of
        OperationFailed m \<Rightarrow> failClaimed env (c_id operation) workerId m now faults d
      | NeedsAttention m \<Rightarrow> requireAttention (c_id operation) workerId m now d
      | _ \<Rightarrow>
          if error = OperationCancelled \<or> isCancellationRequested (c_id operation) workerId seen
            then cancelClaimed (c_id operation) workerId now faults d
          else retryOrRequireAttention env operation workerId (exn_message error) now d)"

definition execute_settles ::
  "op_env \<Rightarrow> worker \<Rightarrow> execution \<Rightarrow> exn \<Rightarrow> db \<Rightarrow> time \<Rightarrow> db_error option list \<Rightarrow> db \<Rightarrow> execution \<times> db"
where
  "execute_settles env w ex error seen now faults d =
     (case settle env (wk_id w) (ex_op ex) error seen now faults d of
        (res, d') \<Rightarrow> (ex\<lparr>ex_phase := phase_over res\<rparr>, d'))"

section \<open>pollOnce\<close>

text \<open>\<open>Map.set\<close> keeps the place of a key that is already there.\<close>

definition activate :: "string \<Rightarrow> string list \<Rightarrow> string list" where
  "activate k ks = (if k \<in> set ks then ks else ks @ [k])"

definition poll_begin :: "worker \<Rightarrow> worker" where
  "poll_begin w = (if wk_stopped w \<or> wk_polling w then w else w\<lparr>wk_polling := True\<rparr>)"

text \<open>One round of the loop of \<open>pollOnce\<close>, with the maintenance clock and the ledger.\<close>

definition poll_round ::
  "op_env \<Rightarrow> time \<Rightarrow> time \<Rightarrow> db_error option list \<Rightarrow> db_error option list \<Rightarrow> worker \<Rightarrow> time \<times> db \<Rightarrow> worker \<times> time \<times> db"
where
  "poll_round env now wall faults faults2 w s =
     (if wk_stopped w \<or> length (wk_active w) \<ge> 2 then (w\<lparr>wk_polling := False\<rparr>, s)
      else case claimNext env (wk_id w) now wall faults faults2 s of
        (Inr (Some operation), next_at, d) \<Rightarrow>
          (case execute_start w operation now d of
             (ex, d') \<Rightarrow>
               (w\<lparr>wk_active := activate (c_id operation) (wk_active w), wk_execs := wk_execs w @ [ex]\<rparr>, next_at, d'))
      | (_, s') \<Rightarrow> (w\<lparr>wk_polling := False\<rparr>, s'))"

text \<open>The \<open>finally\<close> of \<open>pollOnce\<close> for an execution that is over.\<close>

definition exec_done :: "nat \<Rightarrow> worker \<Rightarrow> worker" where
  "exec_done i w = w\<lparr>wk_active := filter (\<lambda>k. k \<noteq> c_id (ex_op (wk_execs w ! i))) (wk_active w),
     wk_execs := take i (wk_execs w) @ drop (Suc i) (wk_execs w)\<rparr>"

section \<open>The worker in the ledger\<close>

text \<open>
  The states of a worker and of its panel at a time. \<open>wk_other\<close> is a write of anybody else, the
  rest are the stretches of the worker.
\<close>

definition set_exec :: "nat \<Rightarrow> execution \<Rightarrow> worker \<Rightarrow> worker" where
  "set_exec i ex w = w\<lparr>wk_execs := (wk_execs w)[i := ex]\<rparr>"

inductive worker_reachable :: "op_env \<Rightarrow> time \<Rightarrow> worker \<Rightarrow> time \<times> db \<Rightarrow> bool" for env :: op_env where
  wk_first: "worker_reachable env now (new_worker workerId) (0, empty_db)"
| wk_later: "worker_reachable env now w s \<Longrightarrow> now \<le> now' \<Longrightarrow> worker_reachable env now' w s"
| wk_other: "worker_reachable env now w (n, d) \<Longrightarrow> op_step env now d d' \<Longrightarrow> worker_reachable env now w (n, d')"
| wk_register: "worker_reachable env now w s \<Longrightarrow> register_handler a w = Inr w' \<Longrightarrow> worker_reachable env now w' s"
| wk_stop: "worker_reachable env now w s \<Longrightarrow> worker_reachable env now (worker_destroy w) s"
| wk_poll: "worker_reachable env now w s \<Longrightarrow> worker_reachable env now (poll_begin w) s"
| wk_round: "worker_reachable env now w s \<Longrightarrow> wk_polling w \<Longrightarrow>
    poll_round env now wall faults faults2 w s = (w', s') \<Longrightarrow> worker_reachable env now w' s'"
| wk_timer: "worker_reachable env now w (n, d) \<Longrightarrow> i < length (wk_execs w) \<Longrightarrow> \<forall>e. ex_phase (wk_execs w ! i) \<noteq> Ex_Over e \<Longrightarrow>
    heartbeat_timer w (wk_execs w ! i) now d = (ex, d') \<Longrightarrow> worker_reachable env now (set_exec i ex w) (n, d')"
| wk_beat: "worker_reachable env now w (n, d) \<Longrightarrow> i < length (wk_execs w) \<Longrightarrow> ex_phase (wk_execs w ! i) = Ex_Running \<Longrightarrow>
    context_heartbeat w (wk_execs w ! i) st p now d = (res, ex, d') \<Longrightarrow> worker_reachable env now (set_exec i ex w) (n, d')"
| wk_return: "worker_reachable env now w (n, d) \<Longrightarrow> i < length (wk_execs w) \<Longrightarrow> ex_phase (wk_execs w ! i) = Ex_Running \<Longrightarrow>
    execute_returns w (wk_execs w ! i) v seen now faults d = (ex, d') \<Longrightarrow> worker_reachable env now (set_exec i ex w) (n, d')"
| wk_throw: "worker_reachable env now w s \<Longrightarrow> i < length (wk_execs w) \<Longrightarrow> ex_phase (wk_execs w ! i) = Ex_Running \<Longrightarrow>
    worker_reachable env now (set_exec i ((wk_execs w ! i)\<lparr>ex_phase := Ex_Failing e\<rparr>) w) s"
| wk_settle: "worker_reachable env now w (n, d) \<Longrightarrow> i < length (wk_execs w) \<Longrightarrow> ex_phase (wk_execs w ! i) = Ex_Failing e \<Longrightarrow>
    execute_settles env w (wk_execs w ! i) e seen now faults d = (ex, d') \<Longrightarrow> worker_reachable env now (set_exec i ex w) (n, d')"
| wk_done: "worker_reachable env now w s \<Longrightarrow> i < length (wk_execs w) \<Longrightarrow> ex_phase (wk_execs w ! i) = Ex_Over e \<Longrightarrow>
    worker_reachable env now (exec_done i w) s"

text \<open>Every write of the worker is a run of the ledger.\<close>

lemma settle_run: "(op_step env now)\<^sup>*\<^sup>* d (snd (settle env w operation e seen now faults d))"
  using failClaimed_step [of env now d] attention_step [of env now d] cancelClaimed_step [of env now d]
    retry_step [of env now d]
  unfolding settle_def by (cases e) (auto intro: r_into_rtranclp)

lemma execute_start_run: "(op_step env now)\<^sup>*\<^sup>* d (snd (execute_start w operation now d))"
proof -
  have "snd (execute_start w operation now d) =
      (if c_actionId operation \<notin> set (wk_handlers w)
       then snd (requireAttention (c_id operation) (wk_id w) ''No registered handler for queued action'' now d)
       else snd (startClaimed (c_id operation) (wk_id w) (if c_recovering operation then ''reconcile'' else ''start'') now d))"
    by (auto simp: execute_start_def Let_def split: prod.splits sum.splits)
  then show ?thesis
    using attention_step [of env now d] startClaimed_step [of env now d] by (auto intro: r_into_rtranclp)
qed

lemma poll_round_run: "(op_step env now)\<^sup>*\<^sup>* (snd s) (snd (snd (poll_round env now wall faults faults2 w s)))"
proof -
  obtain res n d where c: "claimNext env (wk_id w) now wall faults faults2 s = (res, n, d)" by (metis prod.exhaust)
  have run: "(op_step env now)\<^sup>*\<^sup>* (snd s) d"
    using claimNext_run [of now now env "snd s" "wk_id w" wall faults faults2 "fst s"] c by simp
  show ?thesis
  proof (cases "\<exists>operation. res = Inr (Some operation)")
    case True
    then obtain operation where "res = Inr (Some operation)" by blast
    with c rtranclp_trans [OF run execute_start_run [of env now d w operation]] show ?thesis
      by (auto simp: poll_round_def split: prod.splits)
  next
    case False
    with c run show ?thesis by (cases res; cases "projr res") (auto simp: poll_round_def)
  qed
qed

lemma worker_in_ledger: "worker_reachable env now w s \<Longrightarrow> reachable env now (snd s)"
proof (induction rule: worker_reachable.induct)
  case (wk_later now w s now')
  then show ?case using later by blast
next
  case (wk_other now w n d d')
  then show ?case using stepped by simp
next
  case (wk_round now w s wall faults faults2 w' s')
  then show ?case using run_reachable [OF poll_round_run] by (metis snd_conv)
next
  case (wk_timer now w n d i ex d')
  then have "d' = d \<or> d' = snd (heartbeatClaim (c_id (ex_op (wk_execs w ! i))) (wk_id w) None None now d)"
    by (auto simp: heartbeat_timer_def split: if_splits prod.splits)
  with wk_timer.IH show ?case using stepped heartbeat_step by auto
next
  case (wk_beat now w n d i st p res ex d')
  then have "d' = d \<or> d' = snd (heartbeatClaim (c_id (ex_op (wk_execs w ! i))) (wk_id w) st p now d)"
    by (auto simp: context_heartbeat_def split: if_splits prod.splits)
  with wk_beat.IH show ?case using stepped heartbeat_step by auto
next
  case (wk_return now w n d i v seen faults ex d')
  then have "d' = d \<or> d' = snd (succeedClaimed (c_id (ex_op (wk_execs w ! i))) (wk_id w) v
      (isCancellationRequested (c_id (ex_op (wk_execs w ! i))) (wk_id w) seen) now faults d)"
    by (auto simp: execute_returns_def split: if_splits prod.splits sum.splits)
  with wk_return.IH show ?case using stepped succeedClaimed_step by auto
next
  case (wk_settle now w n d i e seen faults ex d')
  then have "d' = snd (settle env (wk_id w) (ex_op (wk_execs w ! i)) e seen now faults d)"
    by (simp add: execute_settles_def split: prod.splits)
  with wk_settle.IH show ?case using run_reachable [OF settle_run] by simp
qed (simp_all add: initial)

text \<open>The worker never has more than two operations in its table of active ones.\<close>

lemma active_bounded: "worker_reachable env now w s \<Longrightarrow> distinct (wk_active w) \<and> length (wk_active w) \<le> 2"
proof (induction rule: worker_reachable.induct)
  case (wk_round now w s wall faults faults2 w' s')
  then show ?case
    by (auto simp: poll_round_def activate_def split: if_splits prod.splits sum.splits option.splits)
next
  case (wk_done now w s i e)
  then show ?case by (auto simp: exec_done_def intro: order_trans [OF length_filter_le])
qed (auto simp: new_worker_def register_handler_def worker_destroy_def poll_begin_def set_exec_def split: if_splits)

end
