(* ===== verification/Worker_Theorems.thy ===== *)
theory Worker_Theorems
  imports Operation_Worker Operation_Examples
begin

text \<open>
  The properties of the worker: what becomes of an operation whose execution failed, and two
  ways in which the record and the work differ.
\<close>

section \<open>The end of a failed execution\<close>

text \<open>The state an operation must be in after its execution raised an error.\<close>

definition settled_state :: "exn \<Rightarrow> claimed_operation \<Rightarrow> time \<Rightarrow> op_row \<Rightarrow> op_state" where
  "settled_state error operation now r =
     (case error of
        OperationFailed _ \<Rightarrow> FAILED
      | NeedsAttention _ \<Rightarrow> NEEDS_ATTENTION
      | _ \<Rightarrow>
          if error = OperationCancelled \<or> op_status r = CANCEL_REQUESTED \<or> op_cancelRequestedAt r \<noteq> None then CANCELLED
          else if can_retry operation now then QUEUED
          else NEEDS_ATTENTION)"

definition free_of_lease :: "op_row \<Rightarrow> bool" where
  "free_of_lease r \<longleftrightarrow> op_leaseOwner r = None \<and> op_leaseExpiresAt r = None \<and> op_heartbeatAt r = None"

lemma free_of_lease_writes:
  "free_of_lease (fail_write m t r)" "free_of_lease (cancel_write t r)" "free_of_lease (requeue_write m r)"
  "free_of_lease (attention_write m t r)"
  by (simp_all add: free_of_lease_def fail_write_def cancel_write_def requeue_write_def attention_write_def drop_lease_def)

lemma settling_writes:
  "op_id (fail_write m t r) = op_id r" "op_id (cancel_write t r) = op_id r" "op_id (requeue_write m r) = op_id r"
  "op_id (attention_write m t r) = op_id r"
  "op_status (fail_write m t r) = FAILED" "op_status (cancel_write t r) = CANCELLED"
  "op_status (requeue_write m r) = QUEUED" "op_status (attention_write m t r) = NEEDS_ATTENTION"
  by (simp_all add: fail_write_def cancel_write_def requeue_write_def attention_write_def drop_lease_def)

lemma guarded_update_hit:
  assumes "keyed op_id (db_ops d)" "find_key op_id k (db_ops d) = Some r" "P r" "\<And>q. op_id (f q) = op_id q"
    and "\<And>q. P q \<longleftrightarrow> op_id q = k \<and> Q q"
  shows "guarded_update P f e d = (Inr (), d\<lparr>db_ops := update_rows P f (db_ops d)\<rparr>)"
    "find_key op_id k (update_rows P f (db_ops d)) = Some (f r)"
    "j \<noteq> k \<Longrightarrow> find_key op_id j (update_rows P f (db_ops d)) = find_key op_id j (db_ops d)"
proof -
  have P: "P = (\<lambda>q. op_id q = k \<and> Q q)" using assms(5) by blast
  from assms(2,3) have "Q r" using assms(5) by blast
  with assms(2) op_table.guard_hit [OF assms(1), of k Q] have "count_rows P (db_ops d) = 1" by (auto simp: P)
  then show "guarded_update P f e d = (Inr (), d\<lparr>db_ops := update_rows P f (db_ops d)\<rparr>)"
    by (simp add: guarded_update_def)
  show "find_key op_id k (update_rows P f (db_ops d)) = Some (f r)"
    using assms(2,3) by (simp add: op_table.look_update assms(4))
  show "find_key op_id j (update_rows P f (db_ops d)) = find_key op_id j (db_ops d)" if "j \<noteq> k"
    unfolding P by (rule op_table.guarded_look_other [OF that assms(4)])
qed

lemma cancel_seen:
  assumes "keyed op_id (db_ops d)" "find_key op_id k (db_ops d) = Some r" "op_leaseOwner r = Some w"
  shows "Operation_Queue.isCancellationRequested k w d \<longleftrightarrow> op_status r = CANCEL_REQUESTED \<or> op_cancelRequestedAt r \<noteq> None"
proof -
  from assms have "find_first (\<lambda>q. op_id q = k \<and> op_leaseOwner q = Some w) (db_ops d) = Some r"
  proof (cases "find_first (\<lambda>q. op_id q = k \<and> op_leaseOwner q = Some w) (db_ops d)")
    case None
    with assms find_key_SomeD [OF assms(2)] show ?thesis by (auto simp: find_first_None)
  next
    case (Some q)
    then have "q \<in> set (db_ops d)" "op_id q = k" by (auto dest: find_first_SomeD)
    with Some assms(1,2) show ?thesis by (metis find_key_iff option.inject)
  qed
  then show ?thesis by (simp add: isCancellationRequested_def)
qed

lemma leased_hit:
  assumes "keyed op_id (db_ops d)" "find_key op_id k (db_ops d) = Some r" "leased_by k w r" "\<And>q. op_id (f q) = op_id q"
  shows "guarded_update (leased_by k w) f e d = (Inr (), d\<lparr>db_ops := update_rows (leased_by k w) f (db_ops d)\<rparr>)"
    "find_key op_id k (update_rows (leased_by k w) f (db_ops d)) = Some (f r)"
    "j \<noteq> k \<Longrightarrow> find_key op_id j (update_rows (leased_by k w) f (db_ops d)) = find_key op_id j (db_ops d)"
proof -
  note hit = guarded_update_hit [where P = "leased_by k w" and f = f and r = r and k = k and d = d
      and Q = "\<lambda>q. op_status q \<in> set LEASED_STATUSES \<and> op_leaseOwner q = Some w"]
  show "guarded_update (leased_by k w) f e d = (Inr (), d\<lparr>db_ops := update_rows (leased_by k w) f (db_ops d)\<rparr>)"
    by (rule hit(1)) (use assms in \<open>auto simp: leased_by_def\<close>)
  show "find_key op_id k (update_rows (leased_by k w) f (db_ops d)) = Some (f r)"
    by (rule hit(2)) (use assms in \<open>auto simp: leased_by_def\<close>)
  show "find_key op_id j (update_rows (leased_by k w) f (db_ops d)) = find_key op_id j (db_ops d)" if "j \<noteq> k"
    by (rule hit(3)) (use assms that in \<open>auto simp: leased_by_def\<close>)
qed

definition settled :: "db \<Rightarrow> string \<Rightarrow> op_row \<Rightarrow> db \<Rightarrow> bool" where
  "settled d k r' d' \<longleftrightarrow> find_key op_id k (db_ops d') = Some r' \<and>
     (\<forall>j. j \<noteq> k \<longrightarrow> find_key op_id j (db_ops d') = find_key op_id j (db_ops d))"

lemma settle_finalized:
  assumes "keyed op_id (db_ops d)" "find_key op_id k (db_ops d) = Some r" "leased_by k w r" "\<And>q. op_id (f q) = op_id q"
  obtains d' where "withFinalizationTransaction [] (finalize_and_release k (leased_by k w) f e) d = (Inr (), d')"
    "settled d k (f r) d'" "db_locks d' = filter (\<lambda>l. lk_operationId l \<noteq> k) (db_locks d)"
proof -
  note hit = leased_hit [where f = f, OF assms]
  let ?d = "release_locks k (d\<lparr>db_ops := update_rows (leased_by k w) f (db_ops d)\<rparr>)"
  have "withFinalizationTransaction [] (finalize_and_release k (leased_by k w) f e) d = (Inr (), ?d)"
    by (simp add: withFinalizationTransaction_def FINALIZATION_TRANSACTION_MAX_ATTEMPTS_def numeral_3_eq_3
        transaction_def finalize_and_release_def hit(1))
  then show thesis
    by (rule that) (simp_all add: settled_def release_locks_def delete_rows_def hit)
qed

lemma settle_guarded:
  assumes "keyed op_id (db_ops d)" "find_key op_id k (db_ops d) = Some r" "leased_by k w r" "\<And>q. op_id (f q) = op_id q"
  obtains d' where "guarded_update (leased_by k w) f e d = (Inr (), d')" "settled d k (f r) d'" "db_locks d' = db_locks d"
  by (rule that [OF leased_hit(1) [where f = f, OF assms]]) (simp_all add: settled_def leased_hit [where f = f, OF assms])

lemma settle_attention:
  assumes "keyed op_id (db_ops d)" "find_key op_id k (db_ops d) = Some r" "op_leaseOwner r = Some w"
  obtains d' where "requireAttention k w m t d = (Inr (), d')" "settled d k (attention_write m t r) d'" "db_locks d' = db_locks d"
proof -
  note hit = guarded_update_hit [where P = "\<lambda>q. op_id q = k \<and> op_leaseOwner q = Some w" and f = "attention_write m t"
      and r = r and k = k and d = d and Q = "\<lambda>q. op_leaseOwner q = Some w"]
  have id: "op_id r = k" using assms(2) by (auto dest: find_key_SomeD)
  show thesis
    by (rule that [where d' = "d\<lparr>db_ops := update_rows (\<lambda>q. op_id q = k \<and> op_leaseOwner q = Some w) (attention_write m t) (db_ops d)\<rparr>"])
      (simp_all add: requireAttention_def settled_def hit assms id settling_writes)
qed

lemma settle_outcome:
  assumes "worker_reachable env now w (n, d)" "find_key op_id (c_id operation) (db_ops d) = Some r"
    and "leased_by (c_id operation) (wk_id w) r"
  shows "case settle env (wk_id w) operation error d now [] d of (res, d') \<Rightarrow>
    res = Inr () \<and>
    (\<exists>r'. find_key op_id (c_id operation) (db_ops d') = Some r' \<and> op_status r' = settled_state error operation now r \<and>
       free_of_lease r') \<and>
    (\<forall>k. k \<noteq> c_id operation \<longrightarrow> find_key op_id k (db_ops d') = find_key op_id k (db_ops d)) \<and>
    db_locks d' = (if settled_state error operation now r \<in> {FAILED, CANCELLED}
      then filter (\<lambda>l. lk_operationId l \<noteq> c_id operation) (db_locks d) else db_locks d)"
proof -
  let ?k = "c_id operation" and ?w = "wk_id w"
  have keyed: "keyed op_id (db_ops d)"
    using reachable_inv [OF worker_in_ledger [OF assms(1)]] by (simp add: inv_defs)
  from assms(3) have owner: "op_leaseOwner r = Some ?w" by (simp add: leased_by_def)
  note writes = settling_writes free_of_lease_writes settled_def
  note finalized = settle_finalized [OF keyed assms(2,3) settling_writes(1)] settle_finalized [OF keyed assms(2,3) settling_writes(2)]
  note guarded = settle_guarded [OF keyed assms(2,3) settling_writes(3)] settle_guarded [OF keyed assms(2,3) settling_writes(4)]
  consider (failed) m where "error = OperationFailed m" | (attention) m where "error = NeedsAttention m"
    | (other) "settle env ?w operation error d now [] d =
          (if error = OperationCancelled \<or> Operation_Queue.isCancellationRequested ?k ?w d
           then cancelClaimed ?k ?w now [] d else retryOrRequireAttention env operation ?w (exn_message error) now d)"
        "settled_state error operation now r =
          (if error = OperationCancelled \<or> op_status r = CANCEL_REQUESTED \<or> op_cancelRequestedAt r \<noteq> None then CANCELLED
           else if can_retry operation now then QUEUED else NEEDS_ATTENTION)"
    by (cases error) (simp_all add: settle_def settled_state_def)
  then show ?thesis
  proof cases
    case failed
    obtain d' where "failClaimed env ?k ?w m now [] d = (Inr (), d')" "settled d ?k (fail_write (safe_message env m) now r) d'"
      "db_locks d' = filter (\<lambda>l. lk_operationId l \<noteq> ?k) (db_locks d)"
      unfolding failClaimed_def by (rule finalized(1))
    with failed show ?thesis by (simp add: settle_def settled_state_def writes)
  next
    case attention
    obtain d' where "requireAttention ?k ?w m now d = (Inr (), d')" "settled d ?k (attention_write m now r) d'" "db_locks d' = db_locks d"
      by (rule settle_attention [OF keyed assms(2) owner])
    with attention show ?thesis by (simp add: settle_def settled_state_def writes)
  next
    case other
    show ?thesis
    proof (cases "error = OperationCancelled \<or> op_status r = CANCEL_REQUESTED \<or> op_cancelRequestedAt r \<noteq> None")
      case True
      obtain d' where "cancelClaimed ?k ?w now [] d = (Inr (), d')" "settled d ?k (cancel_write now r) d'"
        "db_locks d' = filter (\<lambda>l. lk_operationId l \<noteq> ?k) (db_locks d)"
        unfolding cancelClaimed_def by (rule finalized(2))
      with True other cancel_seen [OF keyed assms(2) owner] show ?thesis by (simp add: writes)
    next
      case False
      let ?m = "safe_message env (exn_message error)"
      let ?f = "if can_retry operation now then requeue_write ?m else attention_write ?m now"
      obtain d' where "retryOrRequireAttention env operation ?w (exn_message error) now d = (Inr (), d')"
        "settled d ?k (?f r) d'" "db_locks d' = db_locks d"
        unfolding retryOrRequireAttention_def
        by (cases "can_retry operation now") (simp_all, (rule guarded; assumption)+)
      with False other cancel_seen [OF keyed assms(2) owner] show ?thesis
        by (cases "can_retry operation now") (simp_all add: writes)
    qed
  qed
qed

section \<open>A worker that claims its own operation again\<close>

text \<open>A run for the properties below: one operation, one worker, and a break of forty seconds.\<close>

lemma demo_worker_id: "rx_test IDEMPOTENCY_KEY ''worker-1''" by code_simp

lemma demo_payload: "decrypt_operations demo_env (encrypt_operations demo_env (JObj [(''operationId'', JStr ''op-1''),
    (''request'', JObj [(''full'', JBool True)])])) =
  Some (JObj [(''operationId'', JStr ''op-1''), (''request'', JObj [(''full'', JBool True)])])"
  by code_simp

definition demo_snapshot :: json where
  "demo_snapshot = the (parsePolicySnapshot (Some (stable_json (policy_json (demo_policy ''key-0001'')))))"

lemma demo_snapshot: "parsePolicySnapshot (Some (stable_json (policy_json (demo_policy ''key-0001'')))) = Some demo_snapshot"
  "\<not> json_falsy demo_snapshot"
proof -
  have "case parsePolicySnapshot (Some (stable_json (policy_json (demo_policy ''key-0001'')))) of None \<Rightarrow> False | Some p \<Rightarrow> \<not> json_falsy p"
    by code_simp
  then show "parsePolicySnapshot (Some (stable_json (policy_json (demo_policy ''key-0001'')))) = Some demo_snapshot"
    "\<not> json_falsy demo_snapshot" by (auto simp: demo_snapshot_def split: option.splits)
qed

lemma demo_truthy: "truthy (Some (encrypt_operations demo_env (JObj m))) = Some (encrypt_operations demo_env (JObj m))"
  "truthy (Some (stable_json (policy_json p))) = Some (stable_json (policy_json p))"
  by (simp_all add: truthy_eq_Some demo_env_def policy_json_def)

definition queued_row :: op_row where "queued_row = new_operation demo_env queued_request ''key-0001'' ''op-1'' 0"

lemma queued_row_payload:
  "op_requestPayloadEnc queued_row = Some (encrypt_operations demo_env (JObj [(''operationId'', JStr ''op-1''), (''request'', JObj [(''full'', JBool True)])]))"
  "op_policySnapshot queued_row = Some (stable_json (policy_json (demo_policy ''key-0001'')))"
  "op_actionId queued_row = Some ''sites.backup''" "op_deadlineAt queued_row = Some 100000"
  by (simp_all add: queued_row_def new_operation_def request_defs)

lemma demo_view:
  assumes "op_requestPayloadEnc r = op_requestPayloadEnc queued_row" "op_policySnapshot r = op_policySnapshot queued_row"
    "op_actionId r = Some ''sites.backup''" "op_deadlineAt r = Some 100000" "op_id r = ''op-1''"
    "db_ops d = [r]"
  shows "read_claim demo_env w t (''op-1'', b) d = (Inr (Some (claimed_view r b ''sites.backup'' 100000 (JObj [(''full'', JBool True)], demo_snapshot))), d)"
  using assms
  by (simp add: read_claim_def table_simps queued_row_payload demo_truthy claimed_payload_def demo_payload demo_snapshot Let_def)


definition claimed_row :: "time \<Rightarrow> op_row" where
  "claimed_row t = queued_row\<lparr>op_status := CLAIMED, op_currentStep := Some (if t = 10 then ''start'' else ''reconcile''), op_attempt := 1,
     op_leaseOwner := Some ''worker-1'', op_leaseExpiresAt := Some (t + lease_ms), op_heartbeatAt := Some t, op_claimedAt := Some t\<rparr>"

lemma queued_row_sel:
  "op_status queued_row = QUEUED" "op_executionMode queued_row = MODE_QUEUED" "op_attempt queued_row = 0" "op_maxAttempts queued_row = 3"
  "op_cancelRequestedAt queued_row = None" "op_id queued_row = ''op-1''" "op_leaseOwner queued_row = None" "op_recoveryPolicy queued_row = RETRY_SAFE"
  "op_retryable queued_row = True" "op_leaseExpiresAt queued_row = None" "op_completedAt queued_row = None" "op_heartbeatAt queued_row = None"
  by (simp_all add: queued_row_def new_operation_sel new_operation_cases demo_queued_def queued_max_attempts_def) (simp_all add: new_operation_def)

definition one_row :: "op_row \<Rightarrow> db" where
  "one_row r = empty_db\<lparr>db_ops := [r], db_locks := [\<lparr>lk_resourceKey = ''site:s1'', lk_kind = SITE, lk_operationId = ''op-1''\<rparr>]\<rparr>"

lemma one_row_ops [simp]: "db_ops (one_row r) = [r]" "filter (\<lambda>l. lk_operationId l \<noteq> ''op-1'') (db_locks (one_row r)) = []"
  by (simp_all add: one_row_def)

lemma demo_queue_one: "demo_queue = one_row queued_row" by (simp add: demo_queue_def one_row_def queued_row_def)

lemmas sweep_simps = maintainQueue_def find_many_def lost_lease_def expired_in_queue_def deadline_passed_def status_defs Let_def sweep_batch_def
  queued_row_sel queued_row_payload
lemmas claim_simps = claim_pass_def claim_sql_def claim_candidate_def claimable_def holds_slot_def count_rows_def claim_capacity_def update_rows_def deadline_ahead_def status_defs
  queued_row_sel queued_row_payload

lemma first_sweep: "maintainQueue 10 (one_row queued_row) = one_row queued_row"
  by (simp add: one_row_def sweep_simps)
lemma first_claim: "claim_sql ''worker-1'' 10 (one_row queued_row) = (Some (''op-1'', False), one_row (claimed_row 10))"
  by (simp add: one_row_def claim_simps claim_write_def claimed_row_def)

definition running_row :: "time \<Rightarrow> op_row" where
  "running_row t = (claimed_row t)\<lparr>op_status := RUNNING, op_startedAt := Some t\<rparr>"

lemma first_start: "startClaimed ''op-1'' ''worker-1'' ''start'' 10 (one_row (claimed_row 10)) = (Inr (), one_row (running_row 10))"
  by (simp add: startClaimed_def guarded_update_def one_row_def claimed_row_def queued_row_sel count_rows_def update_rows_def lease_alive_def lease_ms_def running_row_def)

definition recovering_row :: op_row where "recovering_row = recover_write (running_row 10)"
lemma second_sweep: "maintainQueue 40010 (one_row (running_row 10)) = one_row recovering_row"
  by (simp add: one_row_def sweep_simps sweep_lost_def update_rows_def lease_expired_def running_row_def claimed_row_def lease_ms_def recoverable_def recovering_row_def recover_write_def drop_lease_def)
lemma second_claim: "claim_sql ''worker-1'' 40010 (one_row recovering_row) = (Some (''op-1'', True), one_row ((claimed_row 40010)\<lparr>op_startedAt := Some 10\<rparr>))"
  by (simp add: one_row_def claim_simps claim_write_def claimed_row_def recovering_row_def recover_write_def drop_lease_def running_row_def lease_ms_def)

definition demo_exec :: "op_row \<Rightarrow> bool \<Rightarrow> execution" where
  "demo_exec r b = \<lparr>ex_op = claimed_view r b ''sites.backup'' 100000 (JObj [(''full'', JBool True)], demo_snapshot),
     ex_lost = False, ex_phase = Ex_Running\<rparr>"

definition demo_worker :: worker where
  "demo_worker = (new_worker ''worker-1'')\<lparr>wk_handlers := [''sites.backup'']\<rparr>"

definition overtaken_row :: op_row where "overtaken_row = (claimed_row 40010)\<lparr>op_startedAt := Some 10\<rparr>"

lemma claimed_row_sel:
  "op_requestPayloadEnc (claimed_row t) = op_requestPayloadEnc queued_row" "op_policySnapshot (claimed_row t) = op_policySnapshot queued_row"
  "op_actionId (claimed_row t) = Some ''sites.backup''" "op_deadlineAt (claimed_row t) = Some 100000" "op_id (claimed_row t) = ''op-1''"
  by (simp_all add: claimed_row_def queued_row_payload queued_row_sel)

lemma first_claimNext:
  "claimNext demo_env ''worker-1'' 10 10 [] [] (0, one_row queued_row) =
     (Inr (Some (ex_op (demo_exec (claimed_row 10) False))), 30010, one_row (claimed_row 10))"
  using demo_view [of "claimed_row 10" "one_row (claimed_row 10)" "''worker-1''" 10 False]
  by (simp add: claimNext_def demo_worker_id claim_pass_def first_sweep first_claim finish_claim_def claimed_row_sel
      demo_exec_def)

lemma idle_claimNext:
  "claimNext demo_env ''worker-1'' 10 10 [] [] (30010, one_row (running_row 10)) = (Inr None, 30010, one_row (running_row 10))"
proof -
  have "claim_sql ''worker-1'' 10 (one_row (running_row 10)) = (None, one_row (running_row 10))"
    by (simp add: one_row_def claim_simps running_row_def claimed_row_def)
  moreover have "find_first (lost_lease 10) (db_ops (one_row (running_row 10))) = None"
    by (simp add: one_row_def find_first_def lost_lease_def running_row_def claimed_row_def lease_expired_def lease_ms_def)
  ultimately show ?thesis by (simp add: claimNext_def demo_worker_id claim_pass_def)
qed

lemma second_claimNext:
  "claimNext demo_env ''worker-1'' 40010 40010 [] [] (30010, one_row (running_row 10)) =
     (Inr (Some (ex_op (demo_exec overtaken_row True))), 70010, one_row overtaken_row)"
  using demo_view [of overtaken_row "one_row overtaken_row" "''worker-1''" 40010 True]
  by (simp add: claimNext_def demo_worker_id claim_pass_def second_sweep second_claim finish_claim_def
      demo_exec_def overtaken_row_def claimed_row_sel)

lemma second_start:
  "startClaimed ''op-1'' ''worker-1'' ''reconcile'' 40010 (one_row overtaken_row) = (Inr (), one_row (running_row 40010))"
  by (simp add: startClaimed_def guarded_update_def one_row_def overtaken_row_def claimed_row_def queued_row_sel count_rows_def
      update_rows_def lease_alive_def lease_ms_def running_row_def)

lemma exec_sel: "c_id (ex_op (demo_exec r b)) = op_id r" "c_recovering (ex_op (demo_exec r b)) = b"
  "c_actionId (ex_op (demo_exec r b)) = ''sites.backup''" "ex_lost (demo_exec r b) = False" "ex_phase (demo_exec r b) = Ex_Running"
  by (simp_all add: demo_exec_def claimed_view_def)

lemma execute_started:
  assumes "startClaimed (op_id r) (wk_id w) (if b then ''reconcile'' else ''start'') t d = (Inr (), d')"
    and "''sites.backup'' \<in> set (wk_handlers w)"
  shows "execute_start w (ex_op (demo_exec r b)) t d = (demo_exec r b, d')"
  using assms by (simp add: execute_start_def exec_sel)

lemma op1: "op_id (claimed_row t) = ''op-1''" "op_id overtaken_row = ''op-1''"
  by (simp_all add: claimed_row_sel overtaken_row_def)

definition busy_worker :: worker where
  "busy_worker = demo_worker\<lparr>wk_active := [''op-1''], wk_execs := [demo_exec (claimed_row 10) False]\<rparr>"

lemma one_running: "worker_reachable demo_env 10 busy_worker (30010, one_row (running_row 10))"
proof -
  have "worker_reachable demo_env 10 (new_worker ''worker-1'') (0, one_row queued_row)"
    using wk_other [OF wk_first demo_begin_step [OF queue_begin]] by (simp add: demo_queue_one)
  then have "worker_reachable demo_env 10 demo_worker (0, one_row queued_row)"
    by (rule wk_register) (simp add: register_handler_def new_worker_def demo_worker_def)
  then have "worker_reachable demo_env 10 (poll_begin demo_worker) (0, one_row queued_row)" by (rule wk_poll)
  then have "worker_reachable demo_env 10 (busy_worker\<lparr>wk_polling := True\<rparr>) (30010, one_row (running_row 10))"
    by (rule wk_round [where wall = 10 and faults = "[]" and ?faults2.0 = "[]"])
      (simp_all add: busy_worker_def poll_begin_def demo_worker_def new_worker_def poll_round_def first_claimNext activate_def
        execute_started op1 first_start exec_sel)
  then show "worker_reachable demo_env 10 busy_worker (30010, one_row (running_row 10))"
    by (rule wk_round [where wall = 10 and faults = "[]" and ?faults2.0 = "[]"])
      (simp_all add: busy_worker_def demo_worker_def new_worker_def poll_round_def idle_claimNext)
qed

lemma busy_facts:
  "find_key op_id ''op-1'' [running_row 10] = Some (running_row 10)" "wk_id busy_worker = ''worker-1''"
  "leased_by ''op-1'' ''worker-1'' (running_row 10)" "c_id (ex_op (demo_exec (claimed_row 10) False)) = ''op-1''"
  "op_cancelRequestedAt (running_row 10) = None" "op_status (running_row 10) = RUNNING"
  by (simp_all add: table_simps running_row_def claimed_row_def queued_row_sel busy_worker_def demo_worker_def new_worker_def
      leased_by_def status_defs exec_sel op1)

section \<open>Properties\<close>

text \<open>C36: the execution of an operation raises an error while the worker has the lease. The worker then puts
  the operation into the state that the error asks for: FAILED or NEEDS_ATTENTION when the handler said so,
  CANCELLED when it was cancelled, otherwise back into the queue while it may be tried again and
  NEEDS_ATTENTION when not. In every case the lease is gone, no other operation changes, and the locks are
  released exactly when the operation is finished.\<close>

theorem failed_execution_is_settled:
  assumes "worker_reachable env now w (n, d)" "find_key op_id (c_id operation) (db_ops d) = Some r"
    and "leased_by (c_id operation) (wk_id w) r"
  shows "case settle env (wk_id w) operation error d now [] d of (res, d') \<Rightarrow>
    res = Inr () \<and>
    (\<exists>r'. find_key op_id (c_id operation) (db_ops d') = Some r' \<and> op_status r' = settled_state error operation now r \<and>
       free_of_lease r') \<and>
    (\<forall>k. k \<noteq> c_id operation \<longrightarrow> find_key op_id k (db_ops d') = find_key op_id k (db_ops d)) \<and>
    db_locks d' = (if settled_state error operation now r \<in> {FAILED, CANCELLED}
      then filter (\<lambda>l. lk_operationId l \<noteq> c_id operation) (db_locks d) else db_locks d)"
  by (rule settle_outcome [OF assms])

lemma failed_execution_is_settled_witness:
  "case settle demo_env ''worker-1'' (ex_op (demo_exec (claimed_row 10) False)) (OperationFailed ''x'') (one_row (running_row 10)) 10 []
      (one_row (running_row 10)) of (res, d') \<Rightarrow>
    res = Inr () \<and> (\<exists>r'. find_key op_id ''op-1'' (db_ops d') = Some r' \<and> op_status r' = FAILED) \<and> db_locks d' = []"
  using failed_execution_is_settled [OF one_running, of "ex_op (demo_exec (claimed_row 10) False)" "running_row 10" "OperationFailed ''x''"]
  by (auto simp add: busy_facts settled_state_def split_beta)

text \<open>C38: a handler did its work and returned, but its result has a member whose name looks like a credential.
  The worker then treats the execution as failed: the work is done again while the operation may be tried
  again, an operation whose cancellation was asked for meanwhile is recorded as CANCELLED although it
  was completed, and any other needs attention. The result is lost in every case.\<close>

theorem finished_work_with_unsafe_result_is_discarded:
  assumes "worker_reachable env now w (n, d)" "find_key op_id (c_id (ex_op ex)) (db_ops d) = Some r"
    and "leased_by (c_id (ex_op ex)) (wk_id w) r" "\<not> ex_lost ex" "assertNoSecretFields ''result'' v = Some m"
  shows "execute_returns w ex v d now faults d = (ex\<lparr>ex_phase := Ex_Failing (Plain m)\<rparr>, d) \<and>
    (case execute_settles env w ex (Plain m) d now [] d of (ex', d') \<Rightarrow>
       ex_phase ex' = Ex_Over None \<and>
       (\<exists>r'. find_key op_id (c_id (ex_op ex)) (db_ops d') = Some r' \<and> free_of_lease r' \<and>
          op_status r' = (if op_status r = CANCEL_REQUESTED \<or> op_cancelRequestedAt r \<noteq> None then CANCELLED
            else if can_retry (ex_op ex) now then QUEUED else NEEDS_ATTENTION)))"
proof -
  from settle_outcome [OF assms(1-3), of "Plain m"] show ?thesis
    using assms(4,5)
    by (auto simp: execute_returns_def succeedClaimed_def execute_settles_def phase_over_def settled_state_def
        split: prod.splits)
qed

lemma finished_work_with_unsafe_result_is_discarded_witness:
  "\<exists>m r'. execute_returns busy_worker (demo_exec (claimed_row 10) False) (JObj [(''password'', JStr ''x'')])
      (one_row (running_row 10)) 10 [] (one_row (running_row 10)) =
        ((demo_exec (claimed_row 10) False)\<lparr>ex_phase := Ex_Failing (Plain m)\<rparr>, one_row (running_row 10)) \<and>
     find_key op_id ''op-1'' (db_ops (snd (execute_settles demo_env busy_worker (demo_exec (claimed_row 10) False) (Plain m)
       (one_row (running_row 10)) 10 [] (one_row (running_row 10))))) = Some r' \<and> op_status r' = QUEUED"
proof -
  let ?v = "JObj [(''password'', JStr ''x'')]"
  have "assertNoSecretFields ''result'' ?v \<noteq> None" by code_simp
  then obtain m where m: "assertNoSecretFields ''result'' ?v = Some m" by blast
  have retry: "can_retry (ex_op (demo_exec (claimed_row 10) False)) 10"
    by (simp add: can_retry_def demo_exec_def claimed_view_def claimed_row_def queued_row_sel)
  from finished_work_with_unsafe_result_is_discarded [OF one_running _ _ _ m, of "demo_exec (claimed_row 10) False" "running_row 10" "[]"]
  show ?thesis by (intro exI [of _ m]) (auto simp: busy_facts exec_sel op1 retry split_beta)
qed

text \<open>C37: a worker can run one operation twice at the same time. When the process is held up for longer than the
  lease, its own poll may claim the operation again before the timer of the first execution notices. Both
  executions then hold the lease, since the lease names the process and not the attempt: neither is marked as
  lost, the heartbeat of the first one is renewed, and the table of active operations, which bounds their
  number, has one entry for both.\<close>

theorem worker_overtakes_itself:
  "\<exists>w n d a b. worker_reachable demo_env 40010 w (n, d) \<and> wk_execs w = [a, b] \<and> c_id (ex_op a) = c_id (ex_op b) \<and>
     ex_phase a = Ex_Running \<and> ex_phase b = Ex_Running \<and> \<not> ex_lost a \<and> \<not> ex_lost b \<and> wk_active w = [c_id (ex_op a)] \<and>
     fst (heartbeatClaim (c_id (ex_op a)) (wk_id w) None None 40010 d)"
proof -
  let ?a = "demo_exec (claimed_row 10) False" and ?b = "demo_exec overtaken_row True"
  define W where "W = demo_worker\<lparr>wk_active := [''op-1''], wk_execs := [?a, ?b], wk_polling := True\<rparr>"
  let ?w1 = "busy_worker"
  have "worker_reachable demo_env 10 ?w1 (30010, one_row (running_row 10))" by (rule one_running)
  then have "worker_reachable demo_env 40010 ?w1 (30010, one_row (running_row 10))"
    by (rule wk_later) simp
  then have "worker_reachable demo_env 40010 (poll_begin ?w1) (30010, one_row (running_row 10))" by (rule wk_poll)
  then have "worker_reachable demo_env 40010 W (70010, one_row (running_row 40010))"
    by (rule wk_round [where wall = 40010 and faults = "[]" and ?faults2.0 = "[]"])
      (simp_all add: W_def busy_worker_def poll_begin_def demo_worker_def new_worker_def poll_round_def second_claimNext activate_def
        execute_started op1 second_start exec_sel)
  moreover have "fst (heartbeatClaim ''op-1'' ''worker-1'' None None 40010 (one_row (running_row 40010)))"
    by (simp add: heartbeatClaim_def heartbeat_guard_def one_row_def running_row_def claimed_row_def queued_row_sel
        queued_row_payload count_rows_def status_defs lease_alive_def lease_ms_def deadline_ahead_def)
  moreover have "wk_id W = ''worker-1''" "wk_execs W = [?a, ?b]" "wk_active W = [''op-1'']"
    by (simp_all add: W_def demo_worker_def new_worker_def)
  ultimately have "worker_reachable demo_env 40010 W (70010, one_row (running_row 40010)) \<and> wk_execs W = [?a, ?b] \<and>
      c_id (ex_op ?a) = c_id (ex_op ?b) \<and> ex_phase ?a = Ex_Running \<and> ex_phase ?b = Ex_Running \<and> \<not> ex_lost ?a \<and>
      \<not> ex_lost ?b \<and> wk_active W = [c_id (ex_op ?a)] \<and>
      fst (heartbeatClaim (c_id (ex_op ?a)) (wk_id W) None None 40010 (one_row (running_row 40010)))"
    by (simp add: exec_sel op1)
  then show ?thesis by (intro exI)
qed

end
