(* ===== verification/Operation_Admission.thy ===== *)
theory Operation_Admission
  imports Operation_Begin Identifiers
begin

text \<open>
  The admission of queued operations, \<open>api/src/operations/operation-admission.service.ts\<close>: it checks a
  request of the HTTP side, derives its identifier and hands it to the ledger. The identity of
  the panel and SHA-256 are parameters.
\<close>

record admit_input =
  ai_actionId :: string
  ai_type :: string
  ai_idempotencyKey :: "string option"
  ai_userId :: string
  ai_role :: string
  ai_request :: json
  ai_deadlineMs :: int
  ai_recoveryPolicy :: recovery_policy
  ai_retryable :: bool
  ai_maxAttempts :: "int option"
  ai_globalLockKey :: "string option"
  ai_siteId :: "string option"
  ai_siteDomainId :: "string option"
  ai_databaseId :: "string option"
  ai_lockSite :: "bool option"

record accepted_operation =
  ac_operationId :: string
  ac_requestId :: string
  ac_state :: op_state
  ac_replayed :: bool
  ac_statusPath :: string
  ac_retryAfterSeconds :: nat

definition ADMIT_ROLES :: "string list" where "ADMIT_ROLES = [''ADMIN'', ''MANAGER'', ''VIEWER'']"

definition deterministicRequestId :: "(string \<Rightarrow> bytes) \<Rightarrow> string \<Rightarrow> string \<Rightarrow> string \<Rightarrow> string" where
  "deterministicRequestId sha installationId userId idempotencyKey =
     uuidFromDigest (sha (''MEOWBOX-OPERATION-REQUEST-V1'' @ [CHR 0x00] @ installationId @ [CHR 0x00] @ userId @
       [CHR 0x00] @ idempotencyKey))"

definition admit_key :: "admit_input \<Rightarrow> string option" where
  "admit_key inp = truthy (map_option js_trim (ai_idempotencyKey inp))"

definition admit_invalid :: "admit_input \<Rightarrow> exn option" where
  "admit_invalid inp =
     (if (case admit_key inp of None \<Rightarrow> True | Some k \<Rightarrow> \<not> rx_test ADMISSION_KEY k)
        then Some (BadRequest ''Idempotency-Key must be 8-128 printable ASCII characters'')
      else if \<not> rx_test ACTION_ID (ai_actionId inp) then Some (BadRequest ''Operation action is invalid'')
      else if ai_role inp \<notin> set ADMIT_ROLES then Some (BadRequest ''Operation actor role is invalid'')
      else if ai_deadlineMs inp < 30000 \<or> ai_deadlineMs inp > thirty_days
        then Some (BadRequest ''Operation deadline budget is invalid'')
      else if ai_retryable inp \<noteq> (ai_recoveryPolicy inp = RETRY_SAFE)
        then Some (BadRequest ''Only RETRY_SAFE operations may be retried'')
      else None)"

definition admit_policy :: "string \<Rightarrow> string \<Rightarrow> string \<Rightarrow> admit_input \<Rightarrow> policy" where
  "admit_policy installationId key requestId inp = \<lparr>p_actionId = ai_actionId inp, p_schemaVersion = 1,
     p_actorKind = ''OPERATOR'', p_issuerId = installationId, p_subject = ai_userId inp, p_role = ai_role inp,
     p_permissions = [ai_actionId inp], p_idempotencyId = key, p_requestId = requestId,
     p_recoveryPolicy = ai_recoveryPolicy inp, p_retryable = ai_retryable inp\<rparr>"

definition admit_request :: "string \<Rightarrow> string \<Rightarrow> string \<Rightarrow> time \<Rightarrow> admit_input \<Rightarrow> begin_input" where
  "admit_request installationId key requestId now inp = \<lparr>bi_idempotencyKey = Some key, bi_type = ai_type inp,
     bi_siteId = ai_siteId inp, bi_siteDomainId = ai_siteDomainId inp, bi_databaseId = ai_databaseId inp,
     bi_globalLockKey = ai_globalLockKey inp, bi_lockSite = ai_lockSite inp, bi_parentOperationId = None,
     bi_userId = ai_userId inp, bi_request = ai_request inp,
     bi_queued = Some \<lparr>q_actionId = ai_actionId inp, q_policySnapshot = admit_policy installationId key requestId inp,
       q_recoveryPolicy = ai_recoveryPolicy inp, q_retryable = ai_retryable inp,
       q_deadlineAt = Some (now + ai_deadlineMs inp), q_maxAttempts = ai_maxAttempts inp\<rparr>\<rparr>"

text \<open>\<open>now\<close> is the time of the admission, \<open>later\<close> that of the ledger.\<close>

definition admit ::
  "op_env \<Rightarrow> (string \<Rightarrow> bytes) \<Rightarrow> string \<Rightarrow> bool \<Rightarrow> admit_input \<Rightarrow> string \<Rightarrow> string \<Rightarrow> time \<Rightarrow> time \<Rightarrow> db_error option
     \<Rightarrow> db \<Rightarrow> db \<Rightarrow> (accepted_operation, db) outcome"
where
  "admit env sha installationId maintenance inp u1 u2 now later fault seen d =
     (case admit_invalid inp of
        Some e \<Rightarrow> (Inl e, d)
      | None \<Rightarrow>
         (let key = the (admit_key inp);
              requestId = deterministicRequestId sha installationId (ai_userId inp) key
          in case begin_operation env maintenance (admit_request installationId key requestId now inp) u1 u2 later fault seen d of
               (Inl e, d') \<Rightarrow> (Inl e, d')
             | (Inr ticket, d') \<Rightarrow>
                 (Inr \<lparr>ac_operationId = tk_id ticket, ac_requestId = requestId, ac_state = tk_status ticket,
                    ac_replayed = tk_replayed ticket, ac_statusPath = ''/api/operations/'' @ tk_id ticket,
                    ac_retryAfterSeconds = 1\<rparr>, d')))"

section \<open>Agreement with the ledger\<close>

lemma printable_trim: "list_all printable s \<Longrightarrow> js_trim s = s"
proof -
  have space: "\<not> js_space c" if "printable c" for c
    using that by (auto simp: js_space_def printable_def less_eq_char_def)
  assume s: "list_all printable s"
  then have "list_all printable (rev s)" by (simp add: list_all_iff)
  with s space have "dropWhile js_space s = s" "dropWhile js_space (rev s) = rev s"
    by (cases s; cases "rev s"; simp)+
  then show ?thesis by (simp add: js_trim_def)
qed

lemma admitted:
  "admit_invalid inp = None \<longleftrightarrow> (\<exists>key. admit_key inp = Some key \<and> 8 \<le> length key \<and> length key \<le> 128 \<and> list_all printable key) \<and>
     rx_test ACTION_ID (ai_actionId inp) \<and> ai_role inp \<in> set ADMIT_ROLES \<and> 30000 \<le> ai_deadlineMs inp \<and>
     ai_deadlineMs inp \<le> thirty_days \<and> ai_retryable inp = (ai_recoveryPolicy inp = RETRY_SAFE)"
  by (auto simp: admit_invalid_def ADMISSION_KEY_def rx_test_Rep_Cls split: option.splits)


definition demo_admission :: admit_input where
  "demo_admission = \<lparr>ai_actionId = ''sites.backup'', ai_type = ''SITE_BACKUP'', ai_idempotencyKey = Some ''order/0001'',
     ai_userId = ''u1'', ai_role = ''ADMIN'', ai_request = JNull, ai_deadlineMs = 60000, ai_recoveryPolicy = MANUAL,
     ai_retryable = False, ai_maxAttempts = None, ai_globalLockKey = None, ai_siteId = None, ai_siteDomainId = None,
     ai_databaseId = None, ai_lockSite = None\<rparr>"


end
