(* ===== verification/Remote_Link.thy ===== *)
theory Remote_Link
  imports Idempotent_Insert Operation_Begin Agent_Job_Contract
begin

text \<open>
  The links from this panel to operations that run on other panels,
  \<open>api/src/operations/remote-operation-link.service.ts\<close>, and the table \<open>remote_operation_links\<close> with
  its two unique keys.
\<close>

record link_input =
  li_remoteServerId :: string
  li_targetOperationId :: string
  li_masterUserId :: string
  li_actionId :: string
  li_requestId :: string
  li_correlationId :: string

record link_row =
  rl_id :: string
  rl_binding :: link_input
  rl_lastPolledAt :: "time option"

definition link_invalid :: "link_input \<Rightarrow> bool" where
  "link_invalid inp =
     (\<not> rx_test UUID (li_targetOperationId inp) \<or> \<not> rx_test UUID (li_requestId inp) \<or>
      \<not> rx_test UUID (li_correlationId inp) \<or> \<not> rx_test ACTION_ID (li_actionId inp))"

definition link_of :: "link_input \<Rightarrow> link_row list \<Rightarrow> link_row option" where
  "link_of inp links =
     find_first (\<lambda>r. li_remoteServerId (rl_binding r) = li_remoteServerId inp \<and>
       li_targetOperationId (rl_binding r) = li_targetOperationId inp) links"

definition create_link :: "string \<Rightarrow> link_input \<Rightarrow> link_row list \<Rightarrow> (link_row, link_row list) outcome" where
  "create_link u inp links =
     (if u \<in> rl_id ` set links \<or> link_of inp links \<noteq> None \<or>
         find_first (\<lambda>r. li_remoteServerId (rl_binding r) = li_remoteServerId inp \<and>
           li_requestId (rl_binding r) = li_requestId inp) links \<noteq> None
      then (Inl (DbFault unique_violation), links)
      else (let r = \<lparr>rl_id = u, rl_binding = inp, rl_lastPolledAt = None\<rparr> in (Inr r, links @ [r])))"

text \<open>The six fields in their order; the first that differs is the conflict.\<close>

definition assertExact :: "link_row \<Rightarrow> link_input \<Rightarrow> exn + link_row" where
  "assertExact existing inp =
     (if list_ex (\<lambda>key. key (rl_binding existing) \<noteq> key inp)
          [li_remoteServerId, li_targetOperationId, li_masterUserId, li_actionId, li_requestId, li_correlationId]
      then Inl (Conflict ''Remote operation link identity conflict'') else Inr existing)"

text \<open>
  \<open>seen\<close> is the table at the first read, \<open>later\<close> at the read after a failed insertion, and
  \<open>u\<close> the new identifier.
\<close>

definition record_link ::
  "string \<Rightarrow> link_input \<Rightarrow> link_row list \<Rightarrow> link_row list \<Rightarrow> link_row list \<Rightarrow> (link_row, link_row list) outcome"
where
  "record_link u inp seen links later =
     (if link_invalid inp then (Inl (Conflict ''Remote operation link binding is invalid''), links)
      else case link_of inp seen of
        Some existing \<Rightarrow> (assertExact existing inp, links)
      | None \<Rightarrow>
         (case create_link u inp links of
            (Inr r, links') \<Rightarrow> (Inr r, links')
          | (Inl e, links') \<Rightarrow>
             (case (if error_code e = ''P2002'' then link_of inp later else None) of
                Some raced \<Rightarrow> (assertExact raced inp, links')
              | None \<Rightarrow> (Inl e, links'))))"

definition touch_link :: "string \<Rightarrow> string \<Rightarrow> time \<Rightarrow> link_row list \<Rightarrow> (unit, link_row list) outcome" where
  "touch_link remoteServerId targetOperationId now links =
     (let P = (\<lambda>r. li_remoteServerId (rl_binding r) = remoteServerId \<and>
         li_targetOperationId (rl_binding r) = targetOperationId)
      in (if count_rows P links = 1 then Inr () else Inl (NotFound ''Remote operation link not found''),
          update_rows P (\<lambda>r. r\<lparr>rl_lastPolledAt := Some now\<rparr>) links))"

section \<open>Laws\<close>

lemma assertExact_iff: "assertExact r inp = Inr q \<longleftrightarrow> q = r \<and> rl_binding r = inp"
  by (cases inp; cases "rl_binding r") (auto simp: assertExact_def)

lemma link_of_append: "link_of inp links = None \<Longrightarrow> link_of inp (links @ [r]) = link_of inp [r]"
  by (induction links) (auto simp: link_of_def find_first_def split: if_splits)

lemma link_error_code: "create_link u inp links = (Inl e, links') \<Longrightarrow> links' = links"
  by (auto simp: create_link_def Let_def split: if_splits)

text \<open>A call that nobody interrupts stores the link once, whatever the identifier.\<close>

interpretation link_table: idempotent_insert link_of "\<lambda>inp links. record_link u inp links links links"
    "\<lambda>r inp. rl_binding r = inp" "\<lambda>inp _. \<not> link_invalid inp" for u
proof unfold_locales
  fix i t e t' assume "record_link u i t t t = (Inl e, t')"
  then show "t' = t"
    by (auto simp: record_link_def create_link_def Let_def split: if_splits option.splits)
next
  fix i t r t' assume put: "record_link u i t t t = (Inr r, t')"
  show "link_of i t' = Some r \<and> rl_binding r = i"
  proof (cases "link_of i t")
    case None
    with put show ?thesis
      by (auto simp: record_link_def create_link_def Let_def link_of_append split: if_splits)
        (simp_all add: link_of_def find_first_def)
  next
    case (Some q)
    with put show ?thesis
      by (auto simp: record_link_def assertExact_iff split: if_splits sum.splits)
  qed
next
  fix i t r t' q assume "record_link u i t t t = (Inr r, t')" "link_of i t = Some q"
  then show "t' = t" by (auto simp: record_link_def split: if_splits)
next
  fix i t r assume "link_of i t = Some r" "rl_binding r = i" "\<not> link_invalid i"
  then show "record_link u i t t t = (Inr r, t)" by (simp add: record_link_def assertExact_iff)
qed

end
