(* ===== verification/Transfer_Validation.thy ===== *)
theory Transfer_Validation
  imports Persisted_Json Identifiers
begin

text \<open>
  The input side of the transfers: the patterns and assertions of
  \<open>api/src/transfers/transfer-validation.ts\<close>, the parser of a \<open>Range\<close> header of
  \<open>transfer-artifact.service.ts\<close>, the headers of \<open>transfer-http.ts\<close> and the disposition header of
  \<open>api/src/common/http/content-disposition.ts\<close>.
\<close>

section \<open>Patterns\<close>

record transfer_actor =
  act_userId :: string
  act_role :: string

definition TRANSFER_SOURCE_KIND :: rx where
  "TRANSFER_SOURCE_KIND = Cat (Cls upper) (Rep 1 63 (Cls (\<lambda>c. upper c \<or> digit_char c \<or> c \<in> set ''_'')))"

definition TRANSFER_RESOURCE_ID :: rx where
  "TRANSFER_RESOURCE_ID = Rep 1 256 (Cls safe_id_char)"

text \<open>\<open>/^[a-z0-9!#$&^_.+-]+\/[a-z0-9!#$&^_.+-]+$/i\<close>\<close>

definition mime_char :: "char \<Rightarrow> bool" where
  "mime_char c = (lower (to_lower c) \<or> digit_char c \<or> c \<in> set ''!#$&^_.+-'')"

definition TRANSFER_CONTENT_TYPE :: rx where
  "TRANSFER_CONTENT_TYPE = cats [plus (Cls mime_char), lit ''/'', plus (Cls mime_char)]"

text \<open>\<open>/^[^\x00-\x1f\x7f/\\]{1,255}$/\<close>\<close>

definition control_char :: "char \<Rightarrow> bool" where
  "control_char c = (c \<le> CHR 0x1F \<or> c = CHR 0x7F)"

definition TRANSFER_FILENAME :: rx where
  "TRANSFER_FILENAME = Rep 1 255 (Cls (\<lambda>c. \<not> control_char c \<and> c \<noteq> CHR ''/'' \<and> c \<noteq> CHR 0x5C))"

text \<open>The pattern of identifiers without regard to case.\<close>

definition hex_any :: "char \<Rightarrow> bool" where "hex_any c = hex_lower (to_lower c)"

definition TRANSFER_UUID :: rx where
  "TRANSFER_UUID = cats [Rep 8 8 (Cls hex_any), lit ''-'', Rep 4 4 (Cls hex_any), lit ''-'',
     Cls (\<lambda>c. CHR ''1'' \<le> c \<and> c \<le> CHR ''8''), Rep 3 3 (Cls hex_any), lit ''-'',
     Cls (\<lambda>c. to_lower c \<in> set ''89ab''), Rep 3 3 (Cls hex_any), lit ''-'', Rep 12 12 (Cls hex_any)]"

definition assertTransferActor :: "transfer_actor \<Rightarrow> exn option" where
  "assertTransferActor actor =
     (if \<not> rx_test TRANSFER_UUID (act_userId actor) \<or> act_role actor \<notin> set [''ADMIN'', ''MANAGER'']
      then Some (Plain ''Transfer actor is invalid'') else None)"

definition assertTransferResource :: "string \<Rightarrow> string \<Rightarrow> exn option" where
  "assertTransferResource sourceKind resourceId =
     (if \<not> rx_test TRANSFER_SOURCE_KIND sourceKind \<or> \<not> rx_test TRANSFER_RESOURCE_ID resourceId
      then Some (Plain ''Transfer resource is invalid'') else None)"

definition assertTransferPresentation :: "string \<Rightarrow> string \<Rightarrow> exn option" where
  "assertTransferPresentation filename contentType =
     (if \<not> rx_test TRANSFER_FILENAME filename \<or> utf8_length filename > 255 \<or>
         \<not> rx_test TRANSFER_CONTENT_TYPE contentType
      then Some (Plain ''Transfer presentation is invalid'') else None)"

text \<open>A sequence of assertions stops at the first that throws.\<close>

fun first_exn :: "exn option list \<Rightarrow> exn option" where
  "first_exn [] = None"
| "first_exn (None # cs) = first_exn cs"
| "first_exn (Some e # cs) = Some e"

lemma first_exn_None [simp]: "first_exn cs = None \<longleftrightarrow> (\<forall>c \<in> set cs. c = None)"
  by (induction cs rule: first_exn.induct) auto

section \<open>Ranges\<close>

definition safe_integer :: "int \<Rightarrow> bool" where
  "safe_integer i = (\<bar>i\<bar> \<le> 9007199254740991)"

definition range_error :: exn where "range_error = HttpError 416 ''Range is not satisfiable''"

text \<open>\<open>/^bytes=(\d*)-(\d*)$/\<close> and its two groups.\<close>

definition range_groups :: "string \<Rightarrow> (string \<times> string) option" where
  "range_groups header =
     (if take 6 header \<noteq> ''bytes='' then None
      else let rest = drop 6 header; a = takeWhile digit_char rest in
        case dropWhile digit_char rest of
          [] \<Rightarrow> None
        | c # b \<Rightarrow> if c = CHR ''-'' \<and> list_all digit_char b then Some (a, b) else None)"

text \<open>
  \<open>Number\<close> of a text of digits is the number itself where it is a safe integer, and no safe
  integer otherwise.
\<close>

definition parseSingleRange :: "string \<Rightarrow> int \<Rightarrow> exn + int \<times> int" where
  "parseSingleRange header len =
     (if \<not> safe_integer len \<or> len < 0 \<or>
         \<not> (take 6 header = ''bytes='' \<and> drop 6 header \<noteq> [] \<and> CHR '','' \<notin> set (drop 6 header))
      then Inl (HttpError 416 ''Invalid or multiple Range header'')
      else case range_groups header of
        None \<Rightarrow> Inl range_error
      | Some (a, b) \<Rightarrow>
          if (a = [] \<and> b = []) \<or> len = 0 then Inl range_error
          else if a = [] then
            (let suffix = int (read_nat b) in
             if \<not> safe_integer suffix \<or> suffix \<le> 0 then Inl range_error
             else Inr (max 0 (len - suffix), len - 1))
          else
            (let first = int (read_nat a); last = (if b = [] then len - 1 else int (read_nat b)) in
             if \<not> safe_integer first \<or> \<not> safe_integer last \<or> first > last \<or> first \<ge> len then Inl range_error
             else Inr (first, min last (len - 1))))"

lemma parseSingleRange_bounds:
  "parseSingleRange header len = Inr (a, b) \<Longrightarrow> 0 \<le> a \<and> a \<le> b \<and> b < len"
  by (auto simp: parseSingleRange_def Let_def split: if_splits option.splits prod.splits)

lemma range_examples:
  "parseSingleRange ''bytes=0-99'' 1000 = Inr (0, 99)"
  "parseSingleRange ''bytes=-5'' 3 = Inr (0, 2)"
  "parseSingleRange ''bytes=2-'' 3 = Inr (2, 2)"
  "parseSingleRange ''bytes=0-1,2-3'' 9 = Inl (HttpError 416 ''Invalid or multiple Range header'')"
  by code_simp+

section \<open>Headers\<close>

type_synonym headers = "(string \<times> string) list"

text \<open>\<open>response.setHeader\<close>: one value per name, the last one set; the names of the code are distinct.\<close>

definition transfer_cors :: headers where
  "transfer_cors =
     [(''Access-Control-Allow-Origin'', ''*''),
      (''Access-Control-Allow-Methods'', ''HEAD, GET, PUT, OPTIONS''),
      (''Access-Control-Allow-Headers'', ''Content-Type, Range, If-Range''),
      (''Access-Control-Expose-Headers'', ''Accept-Ranges, Content-Disposition, Content-Length, Content-Range, ETag''),
      (''Vary'', ''Origin, Access-Control-Request-Method, Access-Control-Request-Headers'')]"

definition js_lower :: "string \<Rightarrow> string" where "js_lower s = map to_lower s"

text \<open>The raw headers of a request are a flat list of names and values.\<close>

fun raw_values :: "string \<Rightarrow> string list \<Rightarrow> string list" where
  "raw_values name [] = []"
| "raw_values name [k] = (if js_lower k = name then [[]] else [])"
| "raw_values name (k # v # rest) = (if js_lower k = name then [v] else []) @ raw_values name rest"

definition requireSingleRawHeader :: "string list \<Rightarrow> string \<Rightarrow> exn + string option" where
  "requireSingleRawHeader rawHeaders name =
     (let values = raw_values (js_lower name) rawHeaders in
      if length values > 1 then Inl (BadRequest (''Duplicate '' @ name @ '' header''))
      else Inr (case values of [] \<Rightarrow> None | v # _ \<Rightarrow> Some v))"

section \<open>The disposition header\<close>

definition path_separator :: "char \<Rightarrow> bool" where
  "path_separator c = (c = CHR ''/'' \<or> c = CHR 0x5C)"

definition line_end :: "char \<Rightarrow> bool" where
  "line_end c = (c = CHR 0x0A \<or> c = CHR 0x0D)"

text \<open>
  \<open>replace(/.*[\\/]/, '')\<close>: the dot stops at the end of a line, so the first line with a
  separator loses its text up to its last separator.
\<close>

function strip_directories :: "string \<Rightarrow> string" where
  "strip_directories s =
     (let line = takeWhile (\<lambda>c. \<not> line_end c) s; rest = dropWhile (\<lambda>c. \<not> line_end c) s in
      if list_ex path_separator line then rev (takeWhile (\<lambda>c. \<not> path_separator c) (rev line)) @ rest
      else case rest of [] \<Rightarrow> line | c # rest' \<Rightarrow> line @ c # strip_directories rest')"
  by pat_completeness auto

termination strip_directories
proof (relation "measure length")
  fix s line rest c and rest' :: string
  assume "rest = dropWhile (\<lambda>c. \<not> line_end c) s" "rest = c # rest'"
  then have "length (c # rest') \<le> length s" by (metis length_dropWhile_le)
  then show "(rest', s) \<in> measure length" by simp
qed simp

declare strip_directories.simps [simp del]

definition or_download :: "string \<Rightarrow> string" where
  "or_download s = (if s = [] then ''download'' else s)"

definition sanitizeFilename :: "string \<Rightarrow> string" where
  "sanitizeFilename s =
     or_download (take 255 (map (\<lambda>c. if c = CHR 0x22 \<or> c = CHR 0x5C then CHR ''_'' else c)
       (filter (\<lambda>c. \<not> control_char c) (or_download (strip_directories s)))))"

definition asciiFallback :: "string \<Rightarrow> string" where
  "asciiFallback filename =
     or_download (filter (\<lambda>c. CHR 0x20 \<le> c \<and> c \<le> CHR 0x7E \<and> c \<noteq> CHR 0x22 \<and> c \<noteq> CHR 0x5C) filename)"

text \<open>\<open>encodeURIComponent\<close> on code units below 256: UTF-8, percent signs and upper case digits.\<close>

definition uri_unreserved :: "char \<Rightarrow> bool" where
  "uri_unreserved c = (upper c \<or> lower c \<or> digit_char c \<or> c \<in> set ''-_.!~*()'' \<or> c = CHR 0x27)"

definition upper_digit :: "nat \<Rightarrow> char" where
  "upper_digit n = (if n < 10 then char_of (n + 48) else char_of (n + 55))"

definition percent :: "nat \<Rightarrow> string" where
  "percent b = [CHR 0x25, upper_digit (b div 16), upper_digit (b mod 16)]"

definition encode_char :: "char \<Rightarrow> string" where
  "encode_char c =
     (let n = (of_char c :: nat) in
      if uri_unreserved c then [c]
      else if n < 128 then percent n
      else percent (192 + n div 64) @ percent (128 + n mod 64))"

definition encodeURIComponent :: "string \<Rightarrow> string" where
  "encodeURIComponent s = concat (map encode_char s)"

definition attachmentDisposition :: "string \<Rightarrow> string" where
  "attachmentDisposition filename =
     (let clean = sanitizeFilename filename in
      ''attachment; filename='' @ [CHR 0x22] @ asciiFallback clean @ [CHR 0x22] @ ''; filename*=UTF-8'' @
      [CHR 0x27, CHR 0x27] @ encodeURIComponent clean)"

end
