(* ===== verification/Encodings.thy ===== *)
theory Encodings
  imports Identifiers Patterns
begin

text \<open>
  Bytes and texts: UTF-8, and the text of bytes in base 64 with the alphabet for URLs, as \<open>toString('base64url')\<close> writes it
  and \<open>Buffer.from(text, 'base64url')\<close> reads it, for the secrets of the transfers and the bodies
  of the webhooks.
\<close>

section \<open>UTF-8\<close>

text \<open>UTF-8 of code units below 256.\<close>

definition utf8_bytes :: "string \<Rightarrow> bytes" where
  "utf8_bytes s = concat (map (\<lambda>c. let n = (of_char c :: nat) in
     if n < 128 then [of_nat n] else [of_nat (192 + n div 64), of_nat (128 + n mod 64)]) s)"

section \<open>Writing\<close>

text \<open>Three bytes give four digits, a rest of one or two bytes two or three.\<close>

definition base64_digit :: "nat \<Rightarrow> char" where
  "base64_digit n =
     (if n < 26 then char_of (n + 65) else if n < 52 then char_of (n + 71)
      else if n < 62 then char_of (n - 4) else if n = 62 then CHR ''-'' else CHR ''_'')"

fun base64url :: "bytes \<Rightarrow> string" where
  "base64url [] = []"
| "base64url [a] = [base64_digit (unat a div 4), base64_digit (unat a mod 4 * 16)]"
| "base64url [a, b] = [base64_digit (unat a div 4), base64_digit (unat a mod 4 * 16 + unat b div 16),
     base64_digit (unat b mod 16 * 4)]"
| "base64url (a # b # c # rest) = [base64_digit (unat a div 4), base64_digit (unat a mod 4 * 16 + unat b div 16),
     base64_digit (unat b mod 16 * 4 + unat c div 64), base64_digit (unat c mod 64)] @ base64url rest"

section \<open>Reading\<close>

text \<open>The texts that are read consist of digits; the bits that make no byte are dropped.\<close>

definition base64_value :: "char \<Rightarrow> nat" where
  "base64_value c =
     (let n = (of_char c :: nat) in
      if 65 \<le> n \<and> n \<le> 90 then n - 65 else if 97 \<le> n \<and> n \<le> 122 then n - 71
      else if 48 \<le> n \<and> n \<le> 57 then n + 4 else if c = CHR ''-'' then 62 else 63)"

fun base64_bytes :: "nat list \<Rightarrow> bytes" where
  "base64_bytes (p # q # r # s # rest) =
     [of_nat (p * 4 + q div 16), of_nat (q mod 16 * 16 + r div 4), of_nat (r mod 4 * 64 + s)] @ base64_bytes rest"
| "base64_bytes [p, q, r] = [of_nat (p * 4 + q div 16), of_nat (q mod 16 * 16 + r div 4)]"
| "base64_bytes [p, q] = [of_nat (p * 4 + q div 16)]"
| "base64_bytes _ = []"

definition base64url_decode :: "string \<Rightarrow> bytes" where
  "base64url_decode s = base64_bytes (map base64_value s)"

section \<open>Round trip\<close>

lemma base64_value_digit: "n < 64 \<Longrightarrow> base64_value (base64_digit n) = n"
  by (auto simp: base64_value_def base64_digit_def Let_def)

lemma base64_parts:
  fixes m n :: nat
  shows "m < 256 \<Longrightarrow> m div 4 < 64" "n < 256 \<Longrightarrow> m mod 4 * 16 + n div 16 < 64"
    "n < 256 \<Longrightarrow> m mod 16 * 4 + n div 64 < 64" "m mod 4 * 16 < 64" "m mod 16 * 4 < 64" "m mod 64 < 64"
proof -
  have "m mod 4 < 4" "m mod 16 < 16" by simp_all
  then show "m mod 4 * 16 < 64" "m mod 16 * 4 < 64" "m mod 64 < 64" by simp_all
  show "n < 256 \<Longrightarrow> m mod 4 * 16 + n div 16 < 64"
  proof -
    assume "n < 256"
    then have "n div 16 < 16" by (simp add: less_mult_imp_div_less)
    with \<open>m mod 4 < 4\<close> show ?thesis by linarith
  qed
  show "n < 256 \<Longrightarrow> m mod 16 * 4 + n div 64 < 64"
  proof -
    assume "n < 256"
    then have "n div 64 < 4" by (simp add: less_mult_imp_div_less)
    with \<open>m mod 16 < 16\<close> show ?thesis by linarith
  qed
qed (simp add: less_mult_imp_div_less)

lemmas base64_byte_parts = base64_parts(1-3) [OF unat_byte] base64_parts(4-6)

lemma byte_split: "unat (w :: 8 word) = n \<Longrightarrow> (of_nat n :: 8 word) = w"
  by auto

text \<open>The digits of one, two and three bytes, read again.\<close>

lemma base64_groups:
  fixes a b c :: "8 word"
  shows "base64_bytes [unat a div 4, unat a mod 4 * 16] = [a]"
    "base64_bytes [unat a div 4, unat a mod 4 * 16 + unat b div 16, unat b mod 16 * 4] = [a, b]"
    "base64_bytes (unat a div 4 # (unat a mod 4 * 16 + unat b div 16) # (unat b mod 16 * 4 + unat c div 64) # unat c mod 64 # ds)
       = a # b # c # base64_bytes ds"
proof -
  have lt: "unat b div 16 < 16" "unat c div 64 < 4"
    using unat_byte [of b] unat_byte [of c] by (simp_all add: less_mult_imp_div_less)
  have first: "unat a = unat a div 4 * 4 + unat a mod 4 * 16 div 16" by simp
  have first2: "unat a = unat a div 4 * 4 + (unat a mod 4 * 16 + unat b div 16) div 16" using lt by simp
  have second: "unat b = (unat a mod 4 * 16 + unat b div 16) mod 16 * 16 + unat b mod 16 * 4 div 4" using lt by simp
  have second2: "unat b = (unat a mod 4 * 16 + unat b div 16) mod 16 * 16 + (unat b mod 16 * 4 + unat c div 64) div 4"
    using lt by simp
  have third: "unat c = (unat b mod 16 * 4 + unat c div 64) mod 4 * 64 + unat c mod 64" using lt by simp
  show "base64_bytes [unat a div 4, unat a mod 4 * 16] = [a]"
    unfolding base64_bytes.simps using byte_split [OF first] by simp
  show "base64_bytes [unat a div 4, unat a mod 4 * 16 + unat b div 16, unat b mod 16 * 4] = [a, b]"
    unfolding base64_bytes.simps byte_split [OF first2] byte_split [OF second] by simp
  show "base64_bytes (unat a div 4 # (unat a mod 4 * 16 + unat b div 16) # (unat b mod 16 * 4 + unat c div 64) # unat c mod 64 # ds)
       = a # b # c # base64_bytes ds"
    unfolding base64_bytes.simps byte_split [OF first2] byte_split [OF second2] byte_split [OF third] by simp
qed

lemma base64_round_trip: "base64url_decode (base64url bs) = bs"
  by (induction bs rule: base64url.induct)
     (simp_all add: base64url_decode_def base64_value_digit base64_byte_parts base64_groups del: base64_bytes.simps(1-3))

section \<open>Length\<close>

text \<open>The number of bytes of a text, as the contract of the webhooks computes it.\<close>

definition raw_bytes :: "nat \<Rightarrow> nat" where
  "raw_bytes n = n div 4 * 3 + (if n mod 4 = 0 then 0 else n mod 4 - 1)"

lemma raw_bytes_base64url: "raw_bytes (length (base64url bs)) = length bs"
proof (induction bs rule: base64url.induct)
  case (4 a b c rest)
  have "raw_bytes (Suc (Suc (Suc (Suc n)))) = Suc (Suc (Suc (raw_bytes n)))" for n
  proof -
    have "Suc (Suc (Suc (Suc n))) div 4 = 1 + n div 4" "Suc (Suc (Suc (Suc n))) mod 4 = n mod 4"
      using div_add_self1 [of 4 n] mod_add_self1 [of 4 n] by simp_all
    then show ?thesis unfolding raw_bytes_def by (simp only:) simp
  qed
  with 4 show ?case by simp
qed (simp_all add: raw_bytes_def)

lemma length_base64url_le: "3 * length (base64url bs) \<le> 4 * length bs + 2"
  by (induction bs rule: base64url.induct) simp_all

lemma length_base64url_32: "length bs = 32 \<Longrightarrow> length (base64url bs) = 43"
proof -
  have drop3: "length bs = Suc (Suc (Suc n)) \<Longrightarrow> length (base64url bs) = 4 + length (base64url (drop 3 bs))" for bs :: bytes and n
    by (cases bs; cases "tl bs"; cases "tl (tl bs)") auto
  have chain: "length bs = 3 * k + 2 \<Longrightarrow> length (base64url bs) = 4 * k + 3" for bs :: bytes and k
  proof (induction k arbitrary: bs)
    case 0
    then show ?case by (cases bs; cases "tl bs") auto
  next
    case (Suc k)
    then have "length (base64url bs) = 4 + length (base64url (drop 3 bs))" by (intro drop3 [of _ "3 * k + 2"]) simp
    moreover have "length (drop 3 bs) = 3 * k + 2" using Suc.prems by simp
    ultimately show ?case using Suc.IH by simp
  qed
  assume "length bs = 32"
  with chain [of bs 10] show ?thesis by simp
qed

section \<open>Digits\<close>

definition base64url_char :: "char \<Rightarrow> bool" where
  "base64url_char c = (upper c \<or> lower c \<or> digit_char c \<or> c \<in> set ''_-'')"

lemma base64_digit_char: "n < 64 \<Longrightarrow> base64url_char (base64_digit n)"
  by (auto simp: base64_digit_def base64url_char_def upper_def lower_def digit_char_def less_eq_char_def)

lemma base64url_chars: "list_all base64url_char (base64url bs)"
  by (induction bs rule: base64url.induct) (auto intro!: base64_digit_char base64_byte_parts)

lemma base64url_char_printable: "base64url_char c \<Longrightarrow> printable c"
  by (auto simp: base64url_char_def upper_def lower_def digit_char_def printable_def less_eq_char_def)

lemma base64url_printable: "list_all printable (base64url bs)"
  using base64url_chars base64url_char_printable by (auto simp: list_all_iff)

end
