(* ===== verification/Transfer_Store.thy ===== *)
theory Transfer_Store
  imports Operation_Begin Transfer_Validation Encodings
begin

text \<open>
  The state of the transfers: the tables \<open>transfer_artifacts\<close> and \<open>transfer_sessions\<close> of
  \<open>api/prisma/schema.prisma\<close>, the two directories of the spool (\<open>tmp\<close> and \<open>artifacts\<close> of
  \<open>transfer-artifact.service.ts\<close>), and what the services take from their surroundings: the
  identity and the origin of the panel, the hash and cipher functions and the limits.
\<close>

section \<open>Rows\<close>

datatype art_state = ART_STAGING | ART_READY | ART_FAILED | ART_DELETED

record artifact_row =
  ta_id :: string
  ta_target :: string
  ta_sourceKind :: string
  ta_resourceId :: string
  ta_state :: art_state
  ta_relativePath :: string
  ta_contentType :: string
  ta_filename :: string
  ta_sizeBytes :: "int option"
  ta_sha256 :: "string option"
  ta_createdByUserId :: string
  ta_expiresAt :: time
  ta_readyAt :: "time option"
  ta_deletedAt :: "time option"
  ta_createdAt :: time

record session_row =
  ts_id :: string
  ts_target :: string
  ts_purpose :: string
  ts_sourceKind :: string
  ts_resourceId :: string
  ts_payloadEnc :: "string option"
  ts_mode :: string
  ts_secretHash :: string
  ts_actorUserId :: string
  ts_actorRole :: string
  ts_contentType :: string
  ts_filename :: string
  ts_artifactId :: "string option"
  ts_contentLength :: "int option"
  ts_sha256 :: "string option"
  ts_expiresAt :: time
  ts_startedAt :: "time option"
  ts_completedAt :: "time option"
  ts_consumedAt :: "time option"
  ts_failureCode :: "string option"
  ts_createdAt :: time

text \<open>
  A name in one of the two directories. The services create regular files only; the other
  kinds are what \<open>lstat\<close> is asked about.
\<close>

datatype fs_entry = Regular bytes | Symlink | Directory

record tdb =
  td_sessions :: "session_row list"
  td_artifacts :: "artifact_row list"
  td_partials :: "string \<Rightarrow> fs_entry option"
  td_files :: "string \<Rightarrow> fs_entry option"

section \<open>Surroundings\<close>

text \<open>
  \<open>positiveInt\<close> and \<open>boundedPercent\<close> read a number of the configuration: \<open>None\<close> where \<open>Number\<close> of
  it is no integer.
\<close>

definition positiveInt :: "int option \<Rightarrow> int \<Rightarrow> int" where
  "positiveInt value fallback =
     (case value of Some v \<Rightarrow> if safe_integer v \<and> v > 0 then v else fallback | None \<Rightarrow> fallback)"

definition boundedPercent :: "int option \<Rightarrow> int \<Rightarrow> int" where
  "boundedPercent value fallback =
     (case value of Some v \<Rightarrow> if v \<ge> 0 \<and> v \<le> 90 then v else fallback | None \<Rightarrow> fallback)"

record transfer_env =
  te_installationId :: string
  te_origin :: "exn + string"
  te_hash :: "bytes \<Rightarrow> bytes"
  te_hmac :: "bytes \<Rightarrow> bytes"
  te_encrypt :: "json \<Rightarrow> string"
  te_decrypt :: "string \<Rightarrow> json option"
  te_iso :: "time \<Rightarrow> string"
  te_parse_url :: "string \<Rightarrow> (string \<times> string \<times> string) option"
  te_config :: "string \<Rightarrow> int option"

definition firstByteTtlMs :: "transfer_env \<Rightarrow> int" where
  "firstByteTtlMs env = positiveInt (te_config env ''TRANSFER_FIRST_BYTE_TTL_MS'') 900000"

definition maxNewPerMinute :: "transfer_env \<Rightarrow> int" where
  "maxNewPerMinute env = positiveInt (te_config env ''TRANSFER_NEW_PER_MINUTE_PER_ACTOR'') 5"

definition maxActivePerActor :: "transfer_env \<Rightarrow> int" where
  "maxActivePerActor env = positiveInt (te_config env ''TRANSFER_ACTIVE_PER_ACTOR'') 2"

definition maxActivePerTarget :: "transfer_env \<Rightarrow> int" where
  "maxActivePerTarget env = positiveInt (te_config env ''TRANSFER_ACTIVE_PER_TARGET'') 4"

definition stagedLeaseTtlMs :: "transfer_env \<Rightarrow> int" where
  "stagedLeaseTtlMs env = positiveInt (te_config env ''TRANSFER_STAGED_LEASE_TTL_MS'') 14400000"

definition maxArtifactBytes :: "transfer_env \<Rightarrow> int" where
  "maxArtifactBytes env = positiveInt (te_config env ''TRANSFER_MAX_ARTIFACT_BYTES'') (50 * 1024 ^ 3)"

definition diskReserveBytes :: "transfer_env \<Rightarrow> int" where
  "diskReserveBytes env = positiveInt (te_config env ''TRANSFER_DISK_RESERVE_BYTES'') (10 * 1024 ^ 3)"

definition diskReservePercent :: "transfer_env \<Rightarrow> int" where
  "diskReservePercent env = boundedPercent (te_config env ''TRANSFER_DISK_RESERVE_PERCENT'') 10"

lemma positiveInt_bounds: "0 < fallback \<Longrightarrow> safe_integer fallback \<Longrightarrow> 0 < positiveInt v fallback \<and> safe_integer (positiveInt v fallback)"
  by (auto simp: positiveInt_def split: option.splits)

section \<open>Digests\<close>

definition sha256_text :: "transfer_env \<Rightarrow> string \<Rightarrow> string" where
  "sha256_text env s = hex_of (te_hash env (utf8_bytes s))"

definition sha256_bytes :: "transfer_env \<Rightarrow> bytes \<Rightarrow> string" where
  "sha256_bytes env bs = hex_of (te_hash env bs)"

definition secureHashMatch :: "string \<Rightarrow> string \<Rightarrow> bool" where
  "secureHashMatch stored candidate =
     (rx_test SHA256_HEX stored \<and> rx_test SHA256_HEX candidate \<and> stored = candidate)"

section \<open>Files\<close>

text \<open>An error of the file system is an \<open>Error\<close>, here with its code as its message.\<close>

definition unlinkIfExists :: "string \<Rightarrow> (string \<Rightarrow> fs_entry option) \<Rightarrow> exn option \<times> (string \<Rightarrow> fs_entry option)" where
  "unlinkIfExists name dir =
     (if dir name = Some Directory then (Some (Plain ''EISDIR''), dir) else (None, dir(name := None)))"

text \<open>\<open>Promise.all\<close> of the two removals of an artifact: both run, the first rejection is thrown.\<close>

definition unlink_both :: "string \<Rightarrow> string \<Rightarrow> tdb \<Rightarrow> exn option \<times> tdb" where
  "unlink_both partial file d =
     (let (e1, ps) = unlinkIfExists partial (td_partials d); (e2, fs) = unlinkIfExists file (td_files d) in
      (first_exn [e1, e2], d\<lparr>td_partials := ps, td_files := fs\<rparr>))"

definition partial_name :: "string \<Rightarrow> string" where "partial_name u = u @ ''.partial''"
definition artifact_name :: "string \<Rightarrow> string" where "artifact_name u = u @ ''.artifact''"

text \<open>\<open>/^[0-9a-f-]{36}\.artifact$/i\<close>; a name without a separator resolves to an entry of the directory.\<close>

definition ARTIFACT_FILE :: rx where
  "ARTIFACT_FILE = Cat (Rep 36 36 (Cls (\<lambda>c. hex_any c \<or> c = CHR ''-'')))
     (Cat (lit ''.'') (cats (map (\<lambda>x. Cls (\<lambda>c. to_lower c = x)) ''artifact'')))"

definition artifactPath :: "string \<Rightarrow> exn + string" where
  "artifactPath relativePath =
     (if \<not> rx_test ARTIFACT_FILE relativePath then Inl (Plain ''Unsafe transfer artifact path'') else Inr relativePath)"

section \<open>Tables\<close>

definition find_session :: "string \<Rightarrow> tdb \<Rightarrow> session_row option" where
  "find_session u d = find_key ts_id u (td_sessions d)"

definition find_artifact :: "string \<Rightarrow> tdb \<Rightarrow> artifact_row option" where
  "find_artifact u d = find_key ta_id u (td_artifacts d)"

definition update_sessions :: "(session_row \<Rightarrow> bool) \<Rightarrow> (session_row \<Rightarrow> session_row) \<Rightarrow> tdb \<Rightarrow> tdb" where
  "update_sessions P f d = d\<lparr>td_sessions := update_rows P f (td_sessions d)\<rparr>"

definition update_artifacts :: "(artifact_row \<Rightarrow> bool) \<Rightarrow> (artifact_row \<Rightarrow> artifact_row) \<Rightarrow> tdb \<Rightarrow> tdb" where
  "update_artifacts P f d = d\<lparr>td_artifacts := update_rows P f (td_artifacts d)\<rparr>"

text \<open>\<open>create\<close>: the primary keys and the hash of the secret are unique, an artifact of a session exists.\<close>

definition create_artifact :: "artifact_row \<Rightarrow> tdb \<Rightarrow> (unit, tdb) outcome" where
  "create_artifact a d =
     (if ta_id a \<in> ta_id ` set (td_artifacts d) then (Inl (DbFault unique_violation), d)
      else (Inr (), d\<lparr>td_artifacts := td_artifacts d @ [a]\<rparr>))"

definition foreign_key_fault :: db_error where
  "foreign_key_fault = \<lparr>err_code = ''P2003'', err_meta_code = None, err_meta_error = None,
     err_message = ''Foreign key constraint violated''\<rparr>"

definition create_session :: "session_row \<Rightarrow> tdb \<Rightarrow> (unit, tdb) outcome" where
  "create_session s d =
     (if ts_id s \<in> ts_id ` set (td_sessions d) \<or> ts_secretHash s \<in> ts_secretHash ` set (td_sessions d)
      then (Inl (DbFault unique_violation), d)
      else if (case ts_artifactId s of None \<Rightarrow> False | Some a \<Rightarrow> find_artifact a d = None)
      then (Inl (DbFault foreign_key_fault), d)
      else (Inr (), d\<lparr>td_sessions := td_sessions d @ [s]\<rparr>))"

interpretation sessions: row_store ts_id "\<lambda>d. keyed ts_id (td_sessions d)" find_session update_sessions
    "\<lambda>P d. count_rows P (td_sessions d)"
  by unfold_locales
     (auto simp: find_session_def update_sessions_def keyed_update_rows find_key_update_rows count_rows_key
       dest: find_key_SomeD)

interpretation artifacts: row_store ta_id "\<lambda>d. keyed ta_id (td_artifacts d)" find_artifact update_artifacts
    "\<lambda>P d. count_rows P (td_artifacts d)"
  by unfold_locales
     (auto simp: find_artifact_def update_artifacts_def keyed_update_rows find_key_update_rows count_rows_key
       dest: find_key_SomeD)

end
