(* ===== verification/Transfer_Artifact.thy ===== *)
theory Transfer_Artifact
  imports Transfer_Store
begin

text \<open>
  The artifacts of the transfers, \<open>api/src/transfers/transfer-artifact.service.ts\<close>. An operation
  that waits between two of its effects is split there: \<open>stage\<close> and \<open>upload\<close> are a beginning, the
  reception of the bytes, the renaming, the record that the artifact is ready, and the
  clean-up after an error. Each part is one definition; \<open>stage\<close> and \<open>upload\<close> compose them
  without interruption, and the transfer system interleaves them.
\<close>

section \<open>Inputs\<close>

text \<open>What the handler gets of an upload session, and of a download session in addition its checksum.\<close>

record staged_session =
  ss_id :: string
  ss_target :: string
  ss_artifactId :: string
  ss_sourceKind :: string
  ss_resourceId :: string
  ss_actorUserId :: string
  ss_actorRole :: string
  ss_contentType :: string
  ss_filename :: string
  ss_contentLength :: int
  ss_expiresAt :: time

record staged_transfer = staged_session +
  st_sha256 :: string

record completed_upload =
  cu_artifactId :: string
  cu_sizeBytes :: int
  cu_sha256 :: string

record stage_input =
  si_sourceKind :: string
  si_resourceId :: string
  si_actor :: transfer_actor
  si_filename :: string
  si_contentType :: string
  si_expiresAt :: time
  si_expectedMaxBytes :: int

text \<open>
  A source of bytes: its chunks, and the error it ends with. An error of \<open>onProgress\<close> or of the
  file ends the pipeline in the same way.
\<close>

record byte_source =
  src_chunks :: "bytes list"
  src_error :: "exn option"

text \<open>\<open>statfs\<close>\<close>

record disk_state =
  bsize :: int
  bavail :: int
  blocks :: int

section \<open>Admission\<close>

definition assertDiskAdmission :: "transfer_env \<Rightarrow> disk_state \<Rightarrow> int \<Rightarrow> exn option" where
  "assertDiskAdmission env disk expectedBytes =
     (let free = bavail disk * bsize disk; total = blocks disk * bsize disk;
          percentageReserve = total * diskReservePercent env div 100;
          reserve = (if percentageReserve > diskReserveBytes env then percentageReserve else diskReserveBytes env) in
      if free \<le> reserve + expectedBytes
      then Some (HttpError 507 ''Transfer staging disk reserve would be violated'') else None)"

definition validateStage :: "transfer_env \<Rightarrow> stage_input \<Rightarrow> time \<Rightarrow> exn option" where
  "validateStage env inp now = first_exn
     [assertTransferResource (si_sourceKind inp) (si_resourceId inp),
      assertTransferPresentation (si_filename inp) (si_contentType inp),
      assertTransferActor (si_actor inp),
      (if si_expiresAt inp \<le> now + 1000 \<or> \<not> safe_integer (si_expectedMaxBytes inp) \<or>
          si_expectedMaxBytes inp < 0 \<or> si_expectedMaxBytes inp > maxArtifactBytes env
       then Some (Plain ''Transfer artifact request is invalid'') else None)]"

definition prepareUploadAdmission :: "transfer_env \<Rightarrow> disk_state \<Rightarrow> int \<Rightarrow> exn option" where
  "prepareUploadAdmission env disk expectedBytes =
     (if \<not> safe_integer expectedBytes \<or> expectedBytes < 0 \<or> expectedBytes > maxArtifactBytes env
      then Some (HttpError 413 ''Upload exceeds the artifact size limit'')
      else assertDiskAdmission env disk expectedBytes)"

section \<open>Reception of a file\<close>

text \<open>
  The meter of a pipeline: it passes the chunks as long as their total is within both limits.
  The result is what reached the file, and the error that ended it.
\<close>

fun meter :: "int \<Rightarrow> exn \<Rightarrow> exn option \<Rightarrow> bytes list \<Rightarrow> bytes \<Rightarrow> bytes \<times> exn option" where
  "meter limit overflow ending [] got = (got, ending)"
| "meter limit overflow ending (chunk # chunks) got =
     (if int (length (got @ chunk)) > limit then (got, Some overflow)
      else meter limit overflow ending chunks (got @ chunk))"

text \<open>The temporary file is created with the flag \<open>wx\<close>, which refuses an existing name.\<close>

definition receive :: "transfer_env \<Rightarrow> int \<Rightarrow> exn \<Rightarrow> string \<Rightarrow> byte_source \<Rightarrow> tdb \<Rightarrow> (bytes, tdb) outcome" where
  "receive env expected overflow u source d =
     (if td_partials d (partial_name u) \<noteq> None then (Inl (Plain ''EEXIST''), d)
      else let (got, err) = meter (min expected (maxArtifactBytes env)) overflow (src_error source) (src_chunks source) [];
               d' = d\<lparr>td_partials := (td_partials d)(partial_name u \<mapsto> Regular got)\<rparr> in
           case err of Some e \<Rightarrow> (Inl e, d') | None \<Rightarrow> (Inr got, d'))"

text \<open>Opening the temporary file to flush it, and renaming it.\<close>

definition move_file :: "string \<Rightarrow> string \<Rightarrow> tdb \<Rightarrow> (unit, tdb) outcome" where
  "move_file u file d =
     (case td_partials d (partial_name u) of
        None \<Rightarrow> (Inl (Plain ''ENOENT''), d)
      | Some entry \<Rightarrow>
          if entry = Directory \<or> td_files d file = Some Directory then (Inl (Plain ''EISDIR''), d)
          else (Inr (), d\<lparr>td_partials := (td_partials d)(partial_name u := None),
                         td_files := (td_files d)(file \<mapsto> entry)\<rparr>))"

definition ready_write :: "transfer_env \<Rightarrow> bytes \<Rightarrow> time \<Rightarrow> artifact_row \<Rightarrow> artifact_row" where
  "ready_write env got now a =
     a\<lparr>ta_state := ART_READY, ta_sizeBytes := Some (int (length got)), ta_sha256 := Some (sha256_bytes env got),
       ta_readyAt := Some now\<rparr>"

definition failed_write :: "time \<Rightarrow> artifact_row \<Rightarrow> artifact_row" where
  "failed_write now a = a\<lparr>ta_state := ART_FAILED, ta_deletedAt := Some now\<rparr>"

text \<open>The \<open>catch\<close> of both operations: it throws the error, or one of the removals.\<close>

definition abandon :: "string \<Rightarrow> string \<Rightarrow> exn \<Rightarrow> time \<Rightarrow> tdb \<Rightarrow> ('a, tdb) outcome" where
  "abandon u file e now d =
     (case unlink_both (partial_name u) file d of
        (Some e', d') \<Rightarrow> (Inl e', d')
      | (None, d') \<Rightarrow> (Inl e, update_artifacts (\<lambda>a. ta_id a = u \<and> ta_state a = ART_STAGING) (failed_write now) d'))"

text \<open>A part of the operation inside its \<open>try\<close>.\<close>

definition or_abandon :: "string \<Rightarrow> string \<Rightarrow> time \<Rightarrow> ('a, tdb) outcome \<Rightarrow> ('a \<Rightarrow> tdb \<Rightarrow> ('b, tdb) outcome) \<Rightarrow> ('b, tdb) outcome" where
  "or_abandon u file now r k = (case r of (Inl e, d) \<Rightarrow> abandon u file e now d | (Inr v, d) \<Rightarrow> k v d)"

section \<open>Staging by the panel\<close>

definition stage_row :: "transfer_env \<Rightarrow> string \<Rightarrow> stage_input \<Rightarrow> time \<Rightarrow> artifact_row" where
  "stage_row env u inp now =
     \<lparr>ta_id = u, ta_target = te_installationId env, ta_sourceKind = si_sourceKind inp, ta_resourceId = si_resourceId inp,
      ta_state = ART_STAGING, ta_relativePath = artifact_name u, ta_contentType = si_contentType inp,
      ta_filename = si_filename inp, ta_sizeBytes = None, ta_sha256 = None,
      ta_createdByUserId = act_userId (si_actor inp), ta_expiresAt = si_expiresAt inp, ta_readyAt = None,
      ta_deletedAt = None, ta_createdAt = now\<rparr>"

definition stage_begin :: "transfer_env \<Rightarrow> disk_state \<Rightarrow> string \<Rightarrow> stage_input \<Rightarrow> time \<Rightarrow> tdb \<Rightarrow> (string, tdb) outcome" where
  "stage_begin env disk u inp now d =
     (case first_exn [validateStage env inp now, assertDiskAdmission env disk (si_expectedMaxBytes inp)] of
        Some e \<Rightarrow> (Inl e, d)
      | None \<Rightarrow>
         (case artifactPath (artifact_name u) of
            Inl e \<Rightarrow> (Inl e, d)
          | Inr file \<Rightarrow>
             (case create_artifact (stage_row env u inp now) d of
                (Inl e, d') \<Rightarrow> (Inl e, d') | (Inr _, d') \<Rightarrow> (Inr file, d'))))"

definition stage_overflow :: exn where
  "stage_overflow = Plain ''Transfer artifact exceeded declared size budget''"

definition not_found_error :: db_error where
  "not_found_error = \<lparr>err_code = ''P2025'', err_meta_code = None, err_meta_error = None,
     err_message = ''Record to update not found.''\<rparr>"

text \<open>The record of \<open>stage\<close> is an \<open>update\<close> by the identifier alone.\<close>

definition stage_ready :: "transfer_env \<Rightarrow> string \<Rightarrow> bytes \<Rightarrow> time \<Rightarrow> tdb \<Rightarrow> (completed_upload, tdb) outcome" where
  "stage_ready env u got now d =
     (if find_artifact u d = None then (Inl (DbFault not_found_error), d)
      else (Inr \<lparr>cu_artifactId = u, cu_sizeBytes = int (length got), cu_sha256 = sha256_bytes env got\<rparr>,
            update_artifacts (\<lambda>a. ta_id a = u) (ready_write env got now) d))"

text \<open>\<open>created\<close> is the error of \<open>onArtifactCreated\<close>.\<close>

definition stage ::
  "transfer_env \<Rightarrow> disk_state \<Rightarrow> string \<Rightarrow> stage_input \<Rightarrow> exn option \<Rightarrow> byte_source \<Rightarrow> time \<Rightarrow> tdb
     \<Rightarrow> (completed_upload, tdb) outcome"
where
  "stage env disk u inp created source now d =
     (case stage_begin env disk u inp now d of
        (Inl e, d') \<Rightarrow> (Inl e, d')
      | (Inr file, d') \<Rightarrow>
          or_abandon u file now (case created of Some e \<Rightarrow> (Inl e, d') | None \<Rightarrow> (Inr (), d')) (\<lambda>_ d1.
          or_abandon u file now (receive env (si_expectedMaxBytes inp) stage_overflow u source d1) (\<lambda>got d2.
          or_abandon u file now (move_file u file d2) (\<lambda>_ d3.
          or_abandon u file now (stage_ready env u got now d3) (\<lambda>r d4. (Inr r, d4))))))"

section \<open>Upload by a browser\<close>

definition validateUploadSession :: "transfer_env \<Rightarrow> 'a staged_session_scheme \<Rightarrow> time \<Rightarrow> exn option" where
  "validateUploadSession env s now = first_exn
     [assertTransferResource (ss_sourceKind s) (ss_resourceId s),
      assertTransferPresentation (ss_filename s) (ss_contentType s),
      assertTransferActor \<lparr>act_userId = ss_actorUserId s, act_role = ss_actorRole s\<rparr>,
      (if \<not> rx_test TRANSFER_UUID (ss_id s) \<or> \<not> rx_test TRANSFER_UUID (ss_target s) \<or>
          \<not> rx_test TRANSFER_UUID (ss_artifactId s) \<or> ss_contentLength s < 0 \<or>
          ss_contentLength s > maxArtifactBytes env \<or> ss_contentLength s > max_safe_integer \<or> ss_expiresAt s \<le> now
       then Some (Gone ''Staged upload session is invalid or expired'') else None)]"

definition assertUploadArtifactMatchesSession :: "artifact_row \<Rightarrow> 'a staged_session_scheme \<Rightarrow> art_state \<Rightarrow> exn option" where
  "assertUploadArtifactMatchesSession a s expected =
     (if ta_state a \<noteq> expected \<or> ta_deletedAt a \<noteq> None \<or> ta_target a \<noteq> ss_target s \<or>
         ta_sourceKind a \<noteq> ss_sourceKind s \<or> ta_resourceId a \<noteq> ss_resourceId s \<or>
         ta_contentType a \<noteq> ss_contentType s \<or> ta_filename a \<noteq> ss_filename s \<or>
         ta_createdByUserId a \<noteq> ss_actorUserId s \<or>
         (expected = ART_READY \<and> ta_sizeBytes a \<noteq> Some (ss_contentLength s))
      then Some (Conflict ''Upload artifact metadata mismatch'') else None)"

definition upload_begin :: "transfer_env \<Rightarrow> 'a staged_session_scheme \<Rightarrow> time \<Rightarrow> tdb \<Rightarrow> exn + string" where
  "upload_begin env s now d =
     (case validateUploadSession env s now of
        Some e \<Rightarrow> Inl e
      | None \<Rightarrow>
         (case find_artifact (ss_artifactId s) d of
            None \<Rightarrow> Inl (NotFound ''Transfer artifact not found'')
          | Some a \<Rightarrow>
             (case assertUploadArtifactMatchesSession a s ART_STAGING of
                Some e \<Rightarrow> Inl e | None \<Rightarrow> artifactPath (ta_relativePath a))))"

definition upload_overflow :: exn where
  "upload_overflow = HttpError 413 ''Upload exceeded the declared length''"

definition upload_receive ::
  "transfer_env \<Rightarrow> 'a staged_session_scheme \<Rightarrow> byte_source \<Rightarrow> tdb \<Rightarrow> (bytes, tdb) outcome"
where
  "upload_receive env s source d =
     (case receive env (ss_contentLength s) upload_overflow (ss_artifactId s) source d of
        (Inl e, d') \<Rightarrow> (Inl e, d')
      | (Inr got, d') \<Rightarrow>
          if int (length got) \<noteq> ss_contentLength s
          then (Inl (HttpError 400 ''Upload ended before the declared length''), d') else (Inr got, d'))"

text \<open>The record of \<open>upload\<close> is an \<open>updateMany\<close> that asks for a staging artifact.\<close>

definition staging_guard :: "artifact_row \<Rightarrow> bool" where
  "staging_guard a = (ta_state a = ART_STAGING \<and> ta_deletedAt a = None)"

definition upload_ready :: "transfer_env \<Rightarrow> string \<Rightarrow> bytes \<Rightarrow> time \<Rightarrow> tdb \<Rightarrow> (completed_upload, tdb) outcome" where
  "upload_ready env u got now d =
     (if count_rows (\<lambda>a. ta_id a = u \<and> staging_guard a) (td_artifacts d) \<noteq> 1
      then (Inl (Conflict ''Transfer artifact state changed during upload''), d)
      else (Inr \<lparr>cu_artifactId = u, cu_sizeBytes = int (length got), cu_sha256 = sha256_bytes env got\<rparr>,
            update_artifacts (\<lambda>a. ta_id a = u \<and> staging_guard a) (ready_write env got now) d))"

definition upload_artifact ::
  "transfer_env \<Rightarrow> 'a staged_session_scheme \<Rightarrow> byte_source \<Rightarrow> time \<Rightarrow> tdb \<Rightarrow> (completed_upload, tdb) outcome"
where
  "upload_artifact env s source now d =
     (case upload_begin env s now d of
        Inl e \<Rightarrow> (Inl e, d)
      | Inr file \<Rightarrow>
          or_abandon (ss_artifactId s) file now (upload_receive env s source d) (\<lambda>got d1.
          or_abandon (ss_artifactId s) file now (move_file (ss_artifactId s) file d1) (\<lambda>_ d2.
          or_abandon (ss_artifactId s) file now (upload_ready env (ss_artifactId s) got now d2) (\<lambda>r d3. (Inr r, d3)))))"

section \<open>Reconciliation\<close>

text \<open>\<open>lstat\<close> shows a regular file of the expected size.\<close>

definition regular_of_size :: "string \<Rightarrow> int option \<Rightarrow> tdb \<Rightarrow> bool" where
  "regular_of_size file len d =
     (case td_files d file of Some (Regular b) \<Rightarrow> len = Some (int (length b)) | _ \<Rightarrow> False)"

definition sha_shaped :: "string option \<Rightarrow> bool" where
  "sha_shaped s = (case s of Some h \<Rightarrow> rx_test SHA256_HEX h | None \<Rightarrow> False)"

definition completed_of :: "artifact_row \<Rightarrow> completed_upload" where
  "completed_of a = \<lparr>cu_artifactId = ta_id a, cu_sizeBytes = (case ta_sizeBytes a of Some n \<Rightarrow> n | None \<Rightarrow> 0),
     cu_sha256 = (case ta_sha256 a of Some h \<Rightarrow> h | None \<Rightarrow> [])\<rparr>"

definition reconcileUpload ::
  "transfer_env \<Rightarrow> 'a staged_session_scheme \<Rightarrow> time \<Rightarrow> tdb \<Rightarrow> exn + completed_upload option"
where
  "reconcileUpload env s now d =
     (case validateUploadSession env s now of
        Some e \<Rightarrow> Inl e
      | None \<Rightarrow>
         (case find_artifact (ss_artifactId s) d of
            None \<Rightarrow> Inl (NotFound ''Transfer artifact not found'')
          | Some a \<Rightarrow>
              if staging_guard a then Inr None
              else (case assertUploadArtifactMatchesSession a s ART_READY of
                 Some e \<Rightarrow> Inl e
               | None \<Rightarrow>
                  (case artifactPath (ta_relativePath a) of
                     Inl e \<Rightarrow> Inl e
                   | Inr file \<Rightarrow>
                      if \<not> regular_of_size file (ta_sizeBytes a) d \<or> \<not> sha_shaped (ta_sha256 a)
                      then Inl (Gone ''Uploaded artifact file is unavailable'')
                      else Inr (Some (completed_of a))))))"

section \<open>Use by the panel\<close>

record uploaded_input =
  ui_sessionId :: string
  ui_sourceKind :: string
  ui_resourceId :: string
  ui_actorUserId :: string

record uploaded_result = completed_upload +
  ur_path :: string
  ur_filename :: string
  ur_contentType :: string
  ur_expiresAt :: time

definition staged_session_of :: "session_row \<Rightarrow> string \<Rightarrow> int \<Rightarrow> staged_session" where
  "staged_session_of s a n =
     \<lparr>ss_id = ts_id s, ss_target = ts_target s, ss_artifactId = a, ss_sourceKind = ts_sourceKind s,
      ss_resourceId = ts_resourceId s, ss_actorUserId = ts_actorUserId s, ss_actorRole = ts_actorRole s,
      ss_contentType = ts_contentType s, ss_filename = ts_filename s, ss_contentLength = n,
      ss_expiresAt = ts_expiresAt s\<rparr>"

definition uploaded_ready :: "uploaded_input \<Rightarrow> session_row \<Rightarrow> bool" where
  "uploaded_ready inp s =
     (ts_purpose s = ''UPLOAD'' \<and> ts_mode s = ''STAGED_ARTIFACT'' \<and> ts_sourceKind s = ui_sourceKind inp \<and>
      ts_resourceId s = ui_resourceId inp \<and> ts_actorUserId s = ui_actorUserId inp \<and>
      truthy (ts_artifactId s) \<noteq> None \<and> ts_completedAt s \<noteq> None \<and> ts_consumedAt s \<noteq> None \<and>
      truthy (ts_failureCode s) = None \<and> ts_contentLength s \<noteq> None \<and> truthy (ts_sha256 s) \<noteq> None)"

definition requireUploadedArtifact :: "uploaded_input \<Rightarrow> time \<Rightarrow> tdb \<Rightarrow> exn + uploaded_result" where
  "requireUploadedArtifact inp now d =
     (case assertTransferResource (ui_sourceKind inp) (ui_resourceId inp) of
        Some e \<Rightarrow> Inl e
      | None \<Rightarrow>
     if \<not> rx_test TRANSFER_UUID (ui_sessionId inp) \<or> \<not> rx_test TRANSFER_UUID (ui_actorUserId inp)
     then Inl (Plain ''Uploaded artifact request is invalid'')
     else case find_session (ui_sessionId inp) d of
        None \<Rightarrow> Inl (Conflict ''Uploaded artifact session is not ready'')
      | Some s \<Rightarrow>
     if \<not> uploaded_ready inp s then Inl (Conflict ''Uploaded artifact session is not ready'')
     else case (ts_artifactId s, ts_contentLength s) of
        (Some u, Some n) \<Rightarrow>
          (case find_artifact u d of
             None \<Rightarrow> Inl (NotFound ''Uploaded artifact not found'')
           | Some a \<Rightarrow>
              (case assertUploadArtifactMatchesSession a (staged_session_of s u n) ART_READY of
                 Some e \<Rightarrow> Inl e
               | None \<Rightarrow>
                   if ta_expiresAt a \<le> now \<or> ta_sizeBytes a \<noteq> Some n \<or> ta_sha256 a \<noteq> ts_sha256 s \<or>
                      \<not> sha_shaped (ta_sha256 a)
                   then Inl (Gone ''Uploaded artifact is expired or incomplete'')
                   else (case artifactPath (ta_relativePath a) of
                      Inl e \<Rightarrow> Inl e
                    | Inr file \<Rightarrow>
                        if \<not> regular_of_size file (ta_sizeBytes a) d
                        then Inl (Gone ''Uploaded artifact file is unavailable'')
                        else Inr (completed_upload.extend (completed_of a)
                          \<lparr>ur_path = file, ur_filename = ta_filename a, ur_contentType = ta_contentType a,
                           ur_expiresAt = ta_expiresAt a\<rparr>))))
      | _ \<Rightarrow> Inl (Conflict ''Uploaded artifact session metadata is incomplete''))"

section \<open>Revocation\<close>

record revoke_input =
  ri_artifactId :: string
  ri_sourceKind :: string
  ri_resourceId :: string
  ri_createdByUserId :: string

text \<open>The checks: nothing to do for a missing or deleted artifact.\<close>

definition revoke_begin :: "revoke_input \<Rightarrow> tdb \<Rightarrow> exn + artifact_row option" where
  "revoke_begin inp d =
     (case assertTransferResource (ri_sourceKind inp) (ri_resourceId inp) of
        Some e \<Rightarrow> Inl e
      | None \<Rightarrow>
     if \<not> rx_test TRANSFER_UUID (ri_artifactId inp) \<or> \<not> rx_test TRANSFER_UUID (ri_createdByUserId inp)
     then Inl (Plain ''Transfer artifact revocation request is invalid'')
     else case find_artifact (ri_artifactId inp) d of
        None \<Rightarrow> Inr None
      | Some a \<Rightarrow>
          if ta_deletedAt a \<noteq> None then Inr None
          else if ta_sourceKind a \<noteq> ri_sourceKind inp \<or> ta_resourceId a \<noteq> ri_resourceId inp \<or>
                  ta_createdByUserId a \<noteq> ri_createdByUserId inp
          then Inl (Conflict ''Transfer artifact revocation binding mismatch'') else Inr (Some a))"

definition revoked_write :: "time \<Rightarrow> session_row \<Rightarrow> session_row" where
  "revoked_write now s = s\<lparr>ts_expiresAt := now, ts_failureCode := Some ''ARTIFACT_REVOKED''\<rparr>"

definition revoke_sessions :: "string \<Rightarrow> time \<Rightarrow> tdb \<Rightarrow> tdb" where
  "revoke_sessions u now d =
     update_sessions (\<lambda>s. ts_artifactId s = Some u \<and> ts_expiresAt s > now) (revoked_write now) d"

text \<open>
  The removal of both files of an artifact; the path of the second is computed after the
  removal of the first has begun.
\<close>

definition unlink_artifact :: "artifact_row \<Rightarrow> tdb \<Rightarrow> exn option \<times> tdb" where
  "unlink_artifact a d =
     (case artifactPath (ta_relativePath a) of
        Inl e \<Rightarrow> (Some e, d\<lparr>td_partials := snd (unlinkIfExists (partial_name (ta_id a)) (td_partials d))\<rparr>)
      | Inr file \<Rightarrow> unlink_both (partial_name (ta_id a)) file d)"

definition deleted_write :: "time \<Rightarrow> artifact_row \<Rightarrow> artifact_row" where
  "deleted_write now a = a\<lparr>ta_state := ART_DELETED, ta_deletedAt := Some now\<rparr>"

definition revoke_mark :: "string \<Rightarrow> time \<Rightarrow> tdb \<Rightarrow> tdb" where
  "revoke_mark u now d = update_artifacts (\<lambda>a. ta_id a = u \<and> ta_deletedAt a = None) (deleted_write now) d"

definition revoke :: "revoke_input \<Rightarrow> time \<Rightarrow> tdb \<Rightarrow> (unit, tdb) outcome" where
  "revoke inp now d =
     (case revoke_begin inp d of
        Inl e \<Rightarrow> (Inl e, d)
      | Inr None \<Rightarrow> (Inr (), d)
      | Inr (Some a) \<Rightarrow>
          (case unlink_artifact a (revoke_sessions (ta_id a) now d) of
             (Some e, d') \<Rightarrow> (Inl e, d')
           | (None, d') \<Rightarrow> (Inr (), revoke_mark (ta_id a) now d')))"

section \<open>Delivery\<close>

record response =
  re_status :: nat
  re_headers :: headers
  re_body :: bytes

definition empty_response :: response where
  "empty_response = \<lparr>re_status = 200, re_headers = [], re_body = []\<rparr>"

definition add_headers :: "headers \<Rightarrow> response \<Rightarrow> response" where
  "add_headers hs r = r\<lparr>re_headers := re_headers r @ hs\<rparr>"

definition etag :: "string \<Rightarrow> string" where
  "etag checksum = [CHR 0x22] @ ''sha256-'' @ checksum @ [CHR 0x22]"

definition delivery_headers :: "string \<Rightarrow> string \<Rightarrow> headers" where
  "delivery_headers contentType filename = transfer_cors @
     [(''Content-Type'', contentType), (''Content-Disposition'', attachmentDisposition filename),
      (''Cache-Control'', ''no-store''), (''Referrer-Policy'', ''no-referrer''),
      (''X-Content-Type-Options'', ''nosniff''), (''Cross-Origin-Resource-Policy'', ''cross-origin'')]"

definition setHeaders :: "staged_transfer \<Rightarrow> response \<Rightarrow> response" where
  "setHeaders s = add_headers (delivery_headers (ss_contentType s) (ss_filename s) @
     [(''Accept-Ranges'', ''bytes''), (''ETag'', etag (st_sha256 s))])"

definition assertArtifactMatchesSession :: "artifact_row \<Rightarrow> staged_transfer \<Rightarrow> exn option" where
  "assertArtifactMatchesSession a s =
     (if ta_state a \<noteq> ART_READY \<or> ta_deletedAt a \<noteq> None \<or> ta_target a \<noteq> ss_target s \<or>
         ta_sourceKind a \<noteq> ss_sourceKind s \<or> ta_resourceId a \<noteq> ss_resourceId s \<or>
         ta_contentType a \<noteq> ss_contentType s \<or> ta_filename a \<noteq> ss_filename s \<or>
         ta_sizeBytes a \<noteq> Some (ss_contentLength s) \<or> ta_sha256 a \<noteq> Some (st_sha256 s)
      then Some (Conflict ''Transfer artifact metadata mismatch'') else None)"

definition unavailable_write :: "artifact_row \<Rightarrow> artifact_row" where
  "unavailable_write a = a\<lparr>ta_state := ART_FAILED\<rparr>"

definition requireArtifact :: "staged_transfer \<Rightarrow> time \<Rightarrow> tdb \<Rightarrow> (string, tdb) outcome" where
  "requireArtifact s now d =
     (if ss_expiresAt s \<le> now then (Inl (Gone ''Transfer lease expired''), d)
      else case find_artifact (ss_artifactId s) d of
        None \<Rightarrow> (Inl (NotFound ''Transfer artifact not found''), d)
      | Some a \<Rightarrow>
         (case assertArtifactMatchesSession a s of
            Some e \<Rightarrow> (Inl e, d)
          | None \<Rightarrow>
             (case artifactPath (ta_relativePath a) of
                Inl e \<Rightarrow> (Inl e, d)
              | Inr file \<Rightarrow>
                  if \<not> regular_of_size file (Some (ss_contentLength s)) d
                  then (Inl (Gone ''Transfer artifact file is unavailable''),
                        update_artifacts (\<lambda>x. ta_id x = ta_id a \<and> ta_state x = ART_READY) unavailable_write d)
                  else (Inr file, d))))"

definition head_artifact :: "staged_transfer \<Rightarrow> time \<Rightarrow> tdb \<Rightarrow> response \<Rightarrow> (unit, tdb \<times> response) outcome" where
  "head_artifact s now d r =
     (case requireArtifact s now d of
        (Inl e, d') \<Rightarrow> (Inl e, (d', r))
      | (Inr _, d') \<Rightarrow> (Inr (), (d', add_headers [(''Content-Length'', show_int (ss_contentLength s))] (setHeaders s r))))"

text \<open>
  The bytes of the file from \<open>lo\<close> to \<open>hi\<close>, both included, as far as the client reads:
  \<open>sent\<close> is the number of bytes after which it closes the connection.
\<close>

definition slice_of :: "int \<Rightarrow> int \<Rightarrow> bytes \<Rightarrow> bytes" where
  "slice_of lo hi b = take (nat (hi - lo + 1)) (drop (nat lo) b)"

definition send_file :: "nat option \<Rightarrow> bytes \<Rightarrow> response \<Rightarrow> exn option \<times> response" where
  "send_file sent b r =
     (case sent of
        None \<Rightarrow> (None, r\<lparr>re_body := re_body r @ b\<rparr>)
      | Some n \<Rightarrow> (Some (Plain ''Premature close''), r\<lparr>re_body := re_body r @ take n b\<rparr>))"

definition file_bytes :: "string \<Rightarrow> tdb \<Rightarrow> bytes" where
  "file_bytes file d = (case td_files d file of Some (Regular b) \<Rightarrow> b | _ \<Rightarrow> [])"

definition wants_range :: "staged_transfer \<Rightarrow> string option \<Rightarrow> string option \<Rightarrow> string option" where
  "wants_range s rangeHeader ifRangeHeader =
     (case truthy rangeHeader of
        None \<Rightarrow> None
      | Some r \<Rightarrow>
         (case truthy ifRangeHeader of
            None \<Rightarrow> Some (js_trim r)
          | Some i \<Rightarrow> if js_trim i = etag (st_sha256 s) then Some (js_trim r) else None))"

definition download_artifact ::
  "staged_transfer \<Rightarrow> string option \<Rightarrow> string option \<Rightarrow> nat option \<Rightarrow> time \<Rightarrow> tdb \<Rightarrow> response
     \<Rightarrow> (unit, tdb \<times> response) outcome"
where
  "download_artifact s rangeHeader ifRangeHeader sent now d r =
     (case requireArtifact s now d of
        (Inl e, d') \<Rightarrow> (Inl e, (d', r))
      | (Inr file, d') \<Rightarrow>
         (let len = ss_contentLength s in
          case wants_range s rangeHeader ifRangeHeader of
            None \<Rightarrow>
              (case send_file sent (file_bytes file d')
                  (add_headers [(''Content-Length'', show_int len)] (setHeaders s r)) of
                 (Some e, r') \<Rightarrow> (Inl e, (d', r')) | (None, r') \<Rightarrow> (Inr (), (d', r')))
          | Some h \<Rightarrow>
             (case parseSingleRange h len of
                Inl e \<Rightarrow> (Inl e, (d', add_headers [(''Content-Range'', ''bytes */'' @ show_int len)] r))
              | Inr (lo, hi) \<Rightarrow>
                 (case send_file sent (slice_of lo hi (file_bytes file d'))
                    (add_headers [(''Content-Range'', ''bytes '' @ show_int lo @ ''-'' @ show_int hi @ ''/'' @ show_int len),
                       (''Content-Length'', show_int (hi - lo + 1))] ((setHeaders s r)\<lparr>re_status := 206\<rparr>)) of
                    (Some e, r') \<Rightarrow> (Inl e, (d', r')) | (None, r') \<Rightarrow> (Inr (), (d', r'))))))"

section \<open>Clean-up\<close>

text \<open>One artifact of the sweep: it is kept while a session of it is alive.\<close>

definition cleanup_one :: "time \<Rightarrow> artifact_row \<Rightarrow> tdb \<Rightarrow> (unit, tdb) outcome" where
  "cleanup_one now a d =
     (if count_rows (\<lambda>s. ts_artifactId s = Some (ta_id a) \<and> ts_expiresAt s > now) (td_sessions d) > 0 then (Inr (), d)
      else case artifactPath (ta_relativePath a) of
        Inl e \<Rightarrow> (Inl e, d)
      | Inr file \<Rightarrow>
         (case unlinkIfExists file (td_files d) of
            (Some e, fs) \<Rightarrow> (Inl e, d\<lparr>td_files := fs\<rparr>)
          | (None, fs) \<Rightarrow> (Inr (), revoke_mark (ta_id a) now (d\<lparr>td_files := fs\<rparr>))))"

text \<open>A loop over rows: the first error ends it.\<close>

fun each_row :: "('r \<Rightarrow> 't \<Rightarrow> (unit, 't) outcome) \<Rightarrow> 'r list \<Rightarrow> 't \<Rightarrow> (unit, 't) outcome" where
  "each_row f [] d = (Inr (), d)"
| "each_row f (r # rs) d = (case f r d of (Inl e, d') \<Rightarrow> (Inl e, d') | (Inr _, d') \<Rightarrow> each_row f rs d')"

definition expired_artifact :: "time \<Rightarrow> artifact_row \<Rightarrow> bool" where
  "expired_artifact now a = (ta_state a \<in> {ART_READY, ART_FAILED} \<and> ta_expiresAt a \<le> now \<and> ta_deletedAt a = None)"

definition cleanupExpired :: "time \<Rightarrow> tdb \<Rightarrow> (unit, tdb) outcome" where
  "cleanupExpired now d =
     each_row (cleanup_one now) (take 100 (sort_key ta_expiresAt (filter (expired_artifact now) (td_artifacts d)))) d"

definition stale_artifact :: "time \<Rightarrow> artifact_row \<Rightarrow> bool" where
  "stale_artifact now a = (ta_state a = ART_STAGING \<and> ta_createdAt a < now - 1800000)"

definition stale_session_write :: "time \<Rightarrow> session_row \<Rightarrow> session_row" where
  "stale_session_write now s =
     s\<lparr>ts_completedAt := Some now, ts_consumedAt := Some now, ts_failureCode := Some ''UPLOAD_STALE''\<rparr>"

definition reconcile_one :: "time \<Rightarrow> artifact_row \<Rightarrow> tdb \<Rightarrow> (unit, tdb) outcome" where
  "reconcile_one now a d =
     (case unlink_artifact a d of
        (Some e, d') \<Rightarrow> (Inl e, d')
      | (None, d') \<Rightarrow> (Inr (),
          update_sessions (\<lambda>s. ts_artifactId s = Some (ta_id a) \<and> ts_purpose s = ''UPLOAD'' \<and> ts_completedAt s = None)
            (stale_session_write now)
            (update_artifacts (\<lambda>x. ta_id x = ta_id a \<and> ta_state x = ART_STAGING) (failed_write now) d')))"

definition reconcileAndCleanup :: "time \<Rightarrow> tdb \<Rightarrow> (unit, tdb) outcome" where
  "reconcileAndCleanup now d =
     (case each_row (reconcile_one now) (find_many (stale_artifact now) 100 (td_artifacts d)) d of
        (Inl e, d') \<Rightarrow> (Inl e, d')
      | (Inr _, d') \<Rightarrow> cleanupExpired now d')"

end
