(* ===== verification/Public_Delivery.thy ===== *)
theory Public_Delivery
  imports Operation_Contract Identifiers
begin

text \<open>
  What a panel may hand to a browser for a direct delivery, \<open>shared/src/public-delivery.ts\<close>:
  the validator \<open>validatePublicDelivery\<close> of the five kinds of a delivery. The parser of URLs is
  the argument \<open>parse_url\<close>: it gives the protocol, the user name and the password of a text, or
  \<open>None\<close> where \<open>new URL\<close> throws.
\<close>

type_synonym url_parser = "string \<Rightarrow> (string \<times> string \<times> string) option"

definition PUBLIC_DELIVERY_KINDS :: "string list" where
  "PUBLIC_DELIVERY_KINDS =
     [''PublicEndpoint'', ''AppHandoff'', ''TransferSession'', ''ExternalProvider'', ''AuthenticatedProxyResult'']"

definition PUBLIC_DELIVERY_PURPOSES :: "string list" where
  "PUBLIC_DELIVERY_PURPOSES =
     [''VPN_SUBSCRIPTION'', ''DEPLOY_WEBHOOK'', ''ADMINER'', ''MANTICORE'', ''MODX_LOGIN'', ''DOWNLOAD'', ''UPLOAD'',
      ''AUTHENTICATED_ACTION'']"

definition FEDERATION_REASON_CODES :: "string list" where
  "FEDERATION_REASON_CODES =
     [''READY'', ''DISABLED'', ''OFFLINE'', ''AUTH_FAILED'', ''IP_BLOCKED'', ''TRUST_REQUIRED'', ''TRUST_REVOKED'',
      ''MANIFEST_STALE'', ''MANIFEST_INVALID'', ''PROTOCOL_INCOMPATIBLE'', ''CAPABILITY_UNAVAILABLE'',
      ''PARTIAL_CAPABILITY'', ''TARGET_BROWSER_UNREACHABLE'', ''POLICY_BLOCKED'', ''ENDPOINT_CUTOVER'',
      ''REGISTRY_FROZEN'', ''LEGACY_UPGRADE_REQUIRED'', ''UNKNOWN'']"

section \<open>Patterns\<close>

text \<open>\<open>/^[a-z0-9-]+$/\<close>, \<open>/^[A-Z][A-Z0-9_]{1,63}$/\<close>, \<open>/^[A-Za-z0-9._:-]{1,256}$/\<close> and \<open>/^[\x21-\x7e]+$/\<close>\<close>

definition HEADER :: rx where
  "HEADER = plus (Cls (\<lambda>c. lower c \<or> digit_char c \<or> c \<in> set ''-''))"

definition RESOURCE_KIND :: rx where
  "RESOURCE_KIND = Cat (Cls upper) (Rep 1 63 (Cls (\<lambda>c. upper c \<or> digit_char c \<or> c \<in> set ''_'')))"

definition RESOURCE_ID :: rx where
  "RESOURCE_ID = Rep 1 256 (Cls safe_id_char)"

definition VISIBLE :: rx where "VISIBLE = plus (Cls printable)"

section \<open>The parts of every delivery\<close>

definition requireDeliveryUrl :: "url_parser \<Rightarrow> json \<Rightarrow> string \<Rightarrow> check" where
  "requireDeliveryUrl parse_url value label = first_error
     [requireString value label 1 4096 (Some VISIBLE),
      (case value of
         JStr raw \<Rightarrow>
           (case parse_url raw of
              None \<Rightarrow> Some (label @ '' is invalid'')
            | Some (protocol, username, password) \<Rightarrow>
                throw_if (protocol \<noteq> ''https:'' \<or> username \<noteq> [] \<or> password \<noteq> [])
                  (label @ '' must use HTTPS without credentials''))
       | _ \<Rightarrow> None)]"

text \<open>After \<open>requireBoolean\<close> a flag is a boolean, and it is truthy when it is \<open>true\<close>.\<close>

definition flag :: "json \<Rightarrow> string \<Rightarrow> bool" where
  "flag value k = (field value k = JBool True)"

definition validateBase :: "json \<Rightarrow> check" where
  "validateBase value = first_error
     [requireEnum (field value ''kind'') PUBLIC_DELIVERY_KINDS ''delivery.kind'',
      requireEnum (field value ''purpose'') PUBLIC_DELIVERY_PURPOSES ''delivery.purpose'',
      requireString (field value ''targetInstallationId'') ''delivery.targetInstallationId'' 1 1024 (Some UUID),
      throw_if (\<not> isContractRecord (field value ''resource'')) ''delivery.resource is invalid'',
      requireExactKeys (field value ''resource'') [''kind'', ''id''] [] ''delivery.resource'',
      requireString (field (field value ''resource'') ''kind'') ''delivery.resource.kind'' 1 1024 (Some RESOURCE_KIND),
      requireString (field (field value ''resource'') ''id'') ''delivery.resource.id'' 1 1024 (Some RESOURCE_ID),
      requireEnum (field value ''method'') [''GET'', ''HEAD'', ''POST'', ''PUT''] ''delivery.method'',
      requireUniqueStrings (field value ''allowedHeaders'') ''delivery.allowedHeaders'' 16 128 (Some HEADER),
      throw_if (field value ''cachePolicy'' \<noteq> JStr ''NO_STORE'' \<or> field value ''referrerPolicy'' \<noteq> JStr ''NO_REFERRER'')
        ''delivery cache/referrer policy is invalid'',
      (if field value ''expiresAt'' \<noteq> JNull then requireIsoDate (field value ''expiresAt'') ''delivery.expiresAt'' else None),
      requireBoolean (field value ''browserReachabilityRequired'') ''delivery.browserReachabilityRequired'',
      requireBoolean (field value ''rangeSupported'') ''delivery.rangeSupported'',
      requireBoolean (field value ''resumeSupported'') ''delivery.resumeSupported'',
      (if field value ''fallbackReason'' \<noteq> JNull
       then requireEnum (field value ''fallbackReason'') FEDERATION_REASON_CODES ''delivery.fallbackReason'' else None)]"

definition BASE_KEYS :: "string list" where
  "BASE_KEYS =
     [''kind'', ''purpose'', ''targetInstallationId'', ''resource'', ''method'', ''allowedHeaders'',
      ''cachePolicy'', ''referrerPolicy'', ''expiresAt'', ''browserReachabilityRequired'',
      ''rangeSupported'', ''resumeSupported'', ''fallbackReason'']"

section \<open>The validator\<close>

definition validate_transfer :: "json \<Rightarrow> check" where
  "validate_transfer value =
     (if field value ''purpose'' = JStr ''UPLOAD''
      then throw_if (field value ''method'' \<noteq> JStr ''PUT'' \<or> field value ''transferMode'' \<noteq> JStr ''STAGED_ARTIFACT'' \<or>
               field value ''reusable'' \<noteq> JBool False \<or> field value ''contentLength'' = JNull \<or>
               field value ''sha256'' \<noteq> JNull \<or> flag value ''rangeSupported'' \<or> flag value ''resumeSupported'')
             ''Upload session requires one-shot staged PUT with declared length''
      else if field value ''purpose'' \<noteq> JStr ''DOWNLOAD'' then Some ''TransferSession purpose is invalid''
      else if field value ''transferMode'' = JStr ''GENERATED_STREAM''
      then throw_if (flag value ''reusable'' \<or> field value ''contentLength'' \<noteq> JNull \<or> field value ''sha256'' \<noteq> JNull \<or>
               flag value ''rangeSupported'' \<or> flag value ''resumeSupported'')
             ''Generated stream cannot advertise length, checksum, range, or resume''
      else throw_if (\<not> flag value ''reusable'' \<or> field value ''contentLength'' = JNull \<or> field value ''sha256'' = JNull \<or>
               \<not> flag value ''rangeSupported'' \<or> \<not> flag value ''resumeSupported'')
             ''Staged artifact requires length, checksum, range, and resume'')"

definition validatePublicDelivery :: "url_parser \<Rightarrow> json \<Rightarrow> check" where
  "validatePublicDelivery parse_url value =
     (if \<not> isContractRecord value then Some ''PublicDelivery is invalid''
      else first_error (validateBase value #
       (if field value ''kind'' = JStr ''PublicEndpoint'' then
          [requireExactKeys value (BASE_KEYS @ [''url'', ''reusable'']) [] ''delivery'',
           requireDeliveryUrl parse_url (field value ''url'') ''delivery.url'',
           throw_if (field value ''reusable'' \<noteq> JBool True) ''delivery.reusable must be true'']
        else if field value ''kind'' = JStr ''AppHandoff'' then
          [requireExactKeys value (BASE_KEYS @ [''url'', ''oneTime'']) [] ''delivery'',
           requireDeliveryUrl parse_url (field value ''url'') ''delivery.url'',
           throw_if (field value ''oneTime'' \<noteq> JBool True \<or> field value ''expiresAt'' = JNull)
             ''AppHandoff must be one-time and expiring'',
           throw_if (flag value ''rangeSupported'' \<or> flag value ''resumeSupported'')
             ''AppHandoff cannot advertise range or resume'']
        else if field value ''kind'' = JStr ''TransferSession'' then
          [requireExactKeys value
             (BASE_KEYS @ [''url'', ''reusable'', ''transferMode'', ''contentLength'', ''sha256'', ''leaseId'']) [] ''delivery'',
           requireDeliveryUrl parse_url (field value ''url'') ''delivery.url'',
           requireBoolean (field value ''reusable'') ''delivery.reusable'',
           requireEnum (field value ''transferMode'') [''GENERATED_STREAM'', ''STAGED_ARTIFACT''] ''delivery.transferMode'',
           requireString (field value ''leaseId'') ''delivery.leaseId'' 1 1024 (Some UUID),
           (if field value ''contentLength'' \<noteq> JNull
            then requireInteger (field value ''contentLength'') ''delivery.contentLength'' 0 max_safe_integer else None),
           (if field value ''sha256'' \<noteq> JNull
            then requireString (field value ''sha256'') ''delivery.sha256'' 1 1024 (Some SHA256_HEX) else None),
           validate_transfer value]
        else if field value ''kind'' = JStr ''ExternalProvider'' then
          [requireExactKeys value (BASE_KEYS @ [''url'', ''reusable'', ''provider'']) [] ''delivery'',
           requireDeliveryUrl parse_url (field value ''url'') ''delivery.url'',
           throw_if (field value ''provider'' \<noteq> JStr ''S3'' \<or> field value ''reusable'' \<noteq> JBool True)
             ''delivery external provider contract is invalid'']
        else if field value ''kind'' = JStr ''AuthenticatedProxyResult'' then
          [requireExactKeys value (BASE_KEYS @ [''actionId'', ''requestId'']) [] ''delivery'',
           requireString (field value ''actionId'') ''delivery.actionId'' 1 1024 (Some ACTION_ID),
           requireString (field value ''requestId'') ''delivery.requestId'' 1 1024 (Some UUID),
           throw_if (flag value ''browserReachabilityRequired'' \<or> flag value ''rangeSupported'' \<or>
               flag value ''resumeSupported'')
             ''Authenticated proxy result has no direct browser transport'']
        else [Some ''delivery.kind is invalid''])))"

end
