(* ===== verification/Transfer_Session.thy ===== *)
theory Transfer_Session
  imports Transfer_Artifact Public_Delivery
begin

text \<open>
  The sessions of the transfers, \<open>api/src/transfers/transfer-session.service.ts\<close>: issuing a session
  for a generated stream, for a staged artifact and for an upload, and the use of a session by
  whoever holds its secret. An operation that waits between two effects is split there, as in
  the theory of the artifacts.
\<close>

section \<open>Sources and handler\<close>

text \<open>The registered sources and the handler, by the identity of the object.\<close>

record transfer_svc =
  sv_sources :: "string \<Rightarrow> nat option"
  sv_handler :: "nat option"

definition registerGeneratedSource :: "string \<Rightarrow> nat \<Rightarrow> transfer_svc \<Rightarrow> (unit, transfer_svc) outcome" where
  "registerGeneratedSource sourceKind source svc =
     (if \<not> rx_test TRANSFER_SOURCE_KIND sourceKind \<or> sv_sources svc sourceKind \<noteq> None
      then (Inl (Plain (''Transfer source registration is invalid: '' @ sourceKind)), svc)
      else (Inr (), svc\<lparr>sv_sources := (sv_sources svc)(sourceKind \<mapsto> source)\<rparr>))"

definition unregisterGeneratedSource :: "string \<Rightarrow> nat \<Rightarrow> transfer_svc \<Rightarrow> transfer_svc" where
  "unregisterGeneratedSource sourceKind source svc =
     (if sv_sources svc sourceKind = Some source then svc\<lparr>sv_sources := (sv_sources svc)(sourceKind := None)\<rparr> else svc)"

definition registerStagedDeliveryHandler :: "nat \<Rightarrow> transfer_svc \<Rightarrow> (unit, transfer_svc) outcome" where
  "registerStagedDeliveryHandler h svc =
     (if sv_handler svc \<noteq> None then (Inl (Plain ''Staged transfer handler is already registered''), svc)
      else (Inr (), svc\<lparr>sv_handler := Some h\<rparr>))"

definition unregisterStagedDeliveryHandler :: "nat \<Rightarrow> transfer_svc \<Rightarrow> transfer_svc" where
  "unregisterStagedDeliveryHandler h svc = (if sv_handler svc = Some h then svc\<lparr>sv_handler := None\<rparr> else svc)"

definition no_handler :: exn where "no_handler = NotFound ''Staged transfer handler is unavailable''"

section \<open>Admission\<close>

record issue_input =
  ig_sourceKind :: string
  ig_resourceId :: string
  ig_actor :: transfer_actor
  ig_filename :: string
  ig_contentType :: string
  ig_resourceExpiresAt :: time

record generated_input = issue_input +
  ig_resourcePayload :: "json option"

record upload_input = issue_input +
  iu_contentLength :: int
  iu_idempotencyKey :: string

definition validateIssue :: "transfer_svc \<Rightarrow> generated_input \<Rightarrow> exn option" where
  "validateIssue svc inp = first_exn
     [assertTransferResource (ig_sourceKind inp) (ig_resourceId inp),
      assertTransferPresentation (ig_filename inp) (ig_contentType inp),
      assertTransferActor (ig_actor inp),
      (if (case ig_resourcePayload inp of None \<Rightarrow> False | Some p \<Rightarrow> utf8_length (json_stringify p) > 16384) \<or>
          sv_sources svc (ig_sourceKind inp) = None
       then Some (Plain ''Transfer session request is invalid'') else None)]"

definition active_session :: "time \<Rightarrow> session_row \<Rightarrow> bool" where
  "active_session now s = (ts_expiresAt s > now \<and> ts_completedAt s = None)"

definition assertAdmission :: "transfer_env \<Rightarrow> string \<Rightarrow> time \<Rightarrow> tdb \<Rightarrow> exn option" where
  "assertAdmission env actorUserId now d =
     (let recent = count_rows (\<lambda>s. ts_actorUserId s = actorUserId \<and> ts_createdAt s \<ge> now - 60000) (td_sessions d);
          actorActive = count_rows (\<lambda>s. ts_actorUserId s = actorUserId \<and> active_session now s) (td_sessions d);
          targetActive = count_rows (\<lambda>s. ts_target s = te_installationId env \<and> active_session now s) (td_sessions d) in
      if int recent \<ge> maxNewPerMinute env then Some (Conflict ''Transfer creation rate exceeded'')
      else if int actorActive \<ge> maxActivePerActor env then Some (Conflict ''Actor transfer limit exceeded'')
      else if int targetActive \<ge> maxActivePerTarget env then Some (Conflict ''Target transfer limit exceeded'')
      else None)"

section \<open>Deliveries\<close>

record delivery_parts =
  dp_purpose :: string
  dp_method :: string
  dp_headers :: "string list"
  dp_ranges :: bool
  dp_reusable :: bool
  dp_mode :: string
  dp_length :: "int option"
  dp_sha256 :: "string option"
  dp_path :: string

text \<open>The object of a delivery, with its members in the order of the code.\<close>

definition transfer_delivery ::
  "transfer_env \<Rightarrow> string \<Rightarrow> string \<Rightarrow> string \<Rightarrow> string \<Rightarrow> string \<Rightarrow> string \<Rightarrow> time \<Rightarrow> delivery_parts \<Rightarrow> json"
where
  "transfer_delivery env origin target u secret sourceKind resourceId expiresAt p = JObj
     [(''kind'', JStr ''TransferSession''), (''purpose'', JStr (dp_purpose p)),
      (''targetInstallationId'', JStr target),
      (''resource'', JObj [(''kind'', JStr sourceKind), (''id'', JStr resourceId)]),
      (''method'', JStr (dp_method p)), (''allowedHeaders'', JArr (map JStr (dp_headers p))),
      (''cachePolicy'', JStr ''NO_STORE''), (''referrerPolicy'', JStr ''NO_REFERRER''),
      (''expiresAt'', JStr (te_iso env expiresAt)), (''browserReachabilityRequired'', JBool True),
      (''rangeSupported'', JBool (dp_ranges p)), (''resumeSupported'', JBool (dp_ranges p)),
      (''fallbackReason'', JNull),
      (''url'', JStr (origin @ ''/api/public/v1/transfers/'' @ u @ dp_path p @ ''?secret='' @ secret)),
      (''reusable'', JBool (dp_reusable p)), (''transferMode'', JStr (dp_mode p)),
      (''contentLength'', (case dp_length p of None \<Rightarrow> JNull | Some n \<Rightarrow> JNum n)),
      (''sha256'', json_opt (dp_sha256 p)), (''leaseId'', JStr u)]"

definition checked_delivery :: "transfer_env \<Rightarrow> json \<Rightarrow> exn + json" where
  "checked_delivery env delivery =
     (case validatePublicDelivery (te_parse_url env) delivery of Some m \<Rightarrow> Inl (Plain m) | None \<Rightarrow> Inr delivery)"

definition new_session ::
  "transfer_env \<Rightarrow> string \<Rightarrow> string \<Rightarrow> string \<Rightarrow> string \<Rightarrow> string \<Rightarrow> string \<Rightarrow> transfer_actor \<Rightarrow> string \<Rightarrow> string
     \<Rightarrow> time \<Rightarrow> time \<Rightarrow> session_row"
where
  "new_session env u secret purpose mode sourceKind resourceId actor contentType filename expiresAt now =
     \<lparr>ts_id = u, ts_target = te_installationId env, ts_purpose = purpose, ts_sourceKind = sourceKind,
      ts_resourceId = resourceId, ts_payloadEnc = None, ts_mode = mode, ts_secretHash = sha256_text env secret,
      ts_actorUserId = act_userId actor, ts_actorRole = act_role actor, ts_contentType = contentType,
      ts_filename = filename, ts_artifactId = None, ts_contentLength = None, ts_sha256 = None,
      ts_expiresAt = expiresAt, ts_startedAt = None, ts_completedAt = None, ts_consumedAt = None,
      ts_failureCode = None, ts_createdAt = now\<rparr>"

section \<open>A generated stream\<close>

definition generated_parts :: delivery_parts where
  "generated_parts = \<lparr>dp_purpose = ''DOWNLOAD'', dp_method = ''GET'', dp_headers = [], dp_ranges = False,
     dp_reusable = False, dp_mode = ''GENERATED_STREAM'', dp_length = None, dp_sha256 = None, dp_path = ''/download''\<rparr>"

text \<open>\<open>u\<close> is the new identifier and \<open>rnd\<close> the 32 random bytes of the secret.\<close>

definition generated_row :: "transfer_env \<Rightarrow> string \<Rightarrow> bytes \<Rightarrow> generated_input \<Rightarrow> time \<Rightarrow> time \<Rightarrow> session_row" where
  "generated_row env u rnd inp expiresAt now =
     (new_session env u (base64url rnd) ''DOWNLOAD'' ''GENERATED_STREAM'' (ig_sourceKind inp) (ig_resourceId inp)
        (ig_actor inp) (ig_contentType inp) (ig_filename inp) expiresAt now)
     \<lparr>ts_payloadEnc := map_option (\<lambda>p. te_encrypt env (JObj [(''sessionId'', JStr u),
        (''sourceKind'', JStr (ig_sourceKind inp)), (''resourceId'', JStr (ig_resourceId inp)), (''payload'', p)]))
        (ig_resourcePayload inp)\<rparr>"

definition issueGeneratedStream ::
  "transfer_env \<Rightarrow> transfer_svc \<Rightarrow> string \<Rightarrow> bytes \<Rightarrow> generated_input \<Rightarrow> time \<Rightarrow> tdb \<Rightarrow> (json, tdb) outcome"
where
  "issueGeneratedStream env svc u rnd inp now d =
     (case validateIssue svc inp of
        Some e \<Rightarrow> (Inl e, d)
      | None \<Rightarrow>
     (case te_origin env of
        Inl e \<Rightarrow> (Inl e, d)
      | Inr origin \<Rightarrow>
     (let expiresAt = min (ig_resourceExpiresAt inp) (now + firstByteTtlMs env) in
      if expiresAt \<le> now + 1000 then (Inl (Gone ''Transfer resource is expired''), d)
      else case assertAdmission env (act_userId (ig_actor inp)) now d of
        Some e \<Rightarrow> (Inl e, d)
      | None \<Rightarrow>
     (case create_session (generated_row env u rnd inp expiresAt now) d of
        (Inl e, d') \<Rightarrow> (Inl e, d')
      | (Inr _, d') \<Rightarrow>
          (checked_delivery env (transfer_delivery env origin (te_installationId env) u (base64url rnd)
             (ig_sourceKind inp) (ig_resourceId inp) expiresAt generated_parts), d')))))"

section \<open>A staged artifact\<close>

definition artifact_parts :: "int \<Rightarrow> string \<Rightarrow> delivery_parts" where
  "artifact_parts n checksum = \<lparr>dp_purpose = ''DOWNLOAD'', dp_method = ''GET'', dp_headers = [''range'', ''if-range''],
     dp_ranges = True, dp_reusable = True, dp_mode = ''STAGED_ARTIFACT'', dp_length = Some n,
     dp_sha256 = Some checksum, dp_path = ''/download''\<rparr>"

definition artifact_row_session ::
  "transfer_env \<Rightarrow> string \<Rightarrow> bytes \<Rightarrow> transfer_actor \<Rightarrow> artifact_row \<Rightarrow> int \<Rightarrow> string \<Rightarrow> time \<Rightarrow> time \<Rightarrow> session_row"
where
  "artifact_row_session env u rnd actor a n checksum expiresAt now =
     (new_session env u (base64url rnd) ''DOWNLOAD'' ''STAGED_ARTIFACT'' (ta_sourceKind a) (ta_resourceId a)
        actor (ta_contentType a) (ta_filename a) expiresAt now)
     \<lparr>ts_artifactId := Some (ta_id a), ts_contentLength := Some n, ts_sha256 := Some checksum\<rparr>"

definition issueStagedArtifact ::
  "transfer_env \<Rightarrow> transfer_svc \<Rightarrow> string \<Rightarrow> bytes \<Rightarrow> string \<Rightarrow> transfer_actor \<Rightarrow> time \<Rightarrow> tdb \<Rightarrow> (json, tdb) outcome"
where
  "issueStagedArtifact env svc u rnd artifactId actor now d =
     (case assertTransferActor actor of
        Some e \<Rightarrow> (Inl e, d)
      | None \<Rightarrow>
     if \<not> rx_test TRANSFER_UUID artifactId \<or> sv_handler svc = None
     then (Inl (Plain ''Staged transfer session request is invalid''), d)
     else case te_origin env of
        Inl e \<Rightarrow> (Inl e, d)
      | Inr origin \<Rightarrow>
     (case find_artifact artifactId d of
        None \<Rightarrow> (Inl (NotFound ''Transfer artifact not found''), d)
      | Some a \<Rightarrow>
     if ta_state a \<noteq> ART_READY \<or> ta_readyAt a = None \<or> ta_deletedAt a \<noteq> None
     then (Inl (Conflict ''Transfer artifact is not ready''), d)
     else if act_role actor \<noteq> ''ADMIN'' \<and> ta_createdByUserId a \<noteq> act_userId actor
     then (Inl (Unauthorized ''Transfer artifact does not belong to actor''), d)
     else case (ta_sizeBytes a, ta_sha256 a) of
        (Some n, Some checksum) \<Rightarrow>
          if ta_expiresAt a \<le> now \<or> n < 0 \<or> n > max_safe_integer \<or> \<not> rx_test SHA256_HEX checksum
          then (Inl (Gone ''Transfer artifact is expired or incomplete''), d)
          else if ta_target a \<noteq> te_installationId env then (Inl (Unauthorized ''Transfer artifact target mismatch''), d)
          else (let expiresAt = min (ta_expiresAt a) (now + stagedLeaseTtlMs env) in
            case assertAdmission env (act_userId actor) now d of
              Some e \<Rightarrow> (Inl e, d)
            | None \<Rightarrow>
               (case create_session (artifact_row_session env u rnd actor a n checksum expiresAt now) d of
                  (Inl e, d') \<Rightarrow> (Inl e, d')
                | (Inr _, d') \<Rightarrow>
                    (checked_delivery env (transfer_delivery env origin (te_installationId env) u (base64url rnd)
                       (ta_sourceKind a) (ta_resourceId a) expiresAt (artifact_parts n checksum)), d')))
      | _ \<Rightarrow> (Inl (Gone ''Transfer artifact is expired or incomplete''), d)))"

section \<open>An upload\<close>

text \<open>\<open>/^[\x20-\x7e]{8,128}$/\<close>\<close>

definition UPLOAD_KEY :: rx where "UPLOAD_KEY = Rep 8 128 (Cls (\<lambda>c. CHR 0x20 \<le> c \<and> c \<le> CHR 0x7E))"

text \<open>The identifiers and the secret of an upload are digests of its key, so a retry finds the first.\<close>

record upload_material =
  um_sessionId :: string
  um_artifactId :: string
  um_secret :: string

definition upload_digest :: "transfer_env \<Rightarrow> string \<Rightarrow> string \<Rightarrow> string \<Rightarrow> bytes" where
  "upload_digest env label actorUserId idempotencyKey =
     te_hmac env (utf8_bytes (''meowbox:transfer-upload:'' @ label @ '':v1'' @ [CHR 0x00] @
       te_installationId env @ [CHR 0x00] @ actorUserId @ [CHR 0x00] @ idempotencyKey))"

definition deriveUploadMaterial :: "transfer_env \<Rightarrow> string \<Rightarrow> string \<Rightarrow> upload_material" where
  "deriveUploadMaterial env actorUserId idempotencyKey =
     \<lparr>um_sessionId = uuidFromDigest (upload_digest env ''session'' actorUserId idempotencyKey),
      um_artifactId = uuidFromDigest (upload_digest env ''artifact'' actorUserId idempotencyKey),
      um_secret = base64url (upload_digest env ''secret'' actorUserId idempotencyKey)\<rparr>"

definition upload_parts :: "int \<Rightarrow> delivery_parts" where
  "upload_parts n = \<lparr>dp_purpose = ''UPLOAD'', dp_method = ''PUT'', dp_headers = [''content-type''], dp_ranges = False,
     dp_reusable = False, dp_mode = ''STAGED_ARTIFACT'', dp_length = Some n, dp_sha256 = None, dp_path = ''/upload''\<rparr>"

definition buildUploadDelivery :: "transfer_env \<Rightarrow> session_row \<Rightarrow> string \<Rightarrow> string \<Rightarrow> exn + json" where
  "buildUploadDelivery env s secret origin =
     (case ts_contentLength s of
        None \<Rightarrow> Inl (Conflict ''Upload session length is invalid'')
      | Some n \<Rightarrow>
          if n > max_safe_integer then Inl (Conflict ''Upload session length is invalid'')
          else checked_delivery env (transfer_delivery env origin (ts_target s) (ts_id s) secret (ts_sourceKind s)
                 (ts_resourceId s) (ts_expiresAt s) (upload_parts n)))"

definition same_upload :: "transfer_env \<Rightarrow> session_row \<Rightarrow> upload_material \<Rightarrow> upload_input \<Rightarrow> bool" where
  "same_upload env s m inp =
     (ts_purpose s = ''UPLOAD'' \<and> ts_mode s = ''STAGED_ARTIFACT'' \<and> ts_artifactId s = Some (um_artifactId m) \<and>
      ts_sourceKind s = ig_sourceKind inp \<and> ts_resourceId s = ig_resourceId inp \<and>
      ts_actorUserId s = act_userId (ig_actor inp) \<and> ts_actorRole s = act_role (ig_actor inp) \<and>
      ts_contentType s = ig_contentType inp \<and> ts_filename s = ig_filename inp \<and>
      ts_contentLength s = Some (iu_contentLength inp) \<and>
      secureHashMatch (ts_secretHash s) (sha256_text env (um_secret m)))"

definition replayStagedUpload ::
  "transfer_env \<Rightarrow> session_row \<Rightarrow> upload_material \<Rightarrow> upload_input \<Rightarrow> string \<Rightarrow> time \<Rightarrow> exn + json"
where
  "replayStagedUpload env s m inp origin now =
     (if \<not> same_upload env s m inp then Inl (Conflict ''Idempotency key is bound to a different upload'')
      else if ts_expiresAt s \<le> now \<or> truthy (ts_failureCode s) \<noteq> None \<or> ts_completedAt s \<noteq> None \<or>
              ts_consumedAt s \<noteq> None
      then Inl (Gone ''Idempotent upload session is no longer writable'')
      else buildUploadDelivery env s (um_secret m) origin)"

definition upload_invalid :: "upload_input \<Rightarrow> exn option" where
  "upload_invalid inp = first_exn
     [assertTransferResource (ig_sourceKind inp) (ig_resourceId inp),
      assertTransferPresentation (ig_filename inp) (ig_contentType inp),
      assertTransferActor (ig_actor inp),
      (if \<not> rx_test UPLOAD_KEY (iu_idempotencyKey inp) \<or> \<not> safe_integer (iu_contentLength inp) \<or>
          iu_contentLength inp < 0
       then Some (Plain ''Staged upload session request is invalid'') else None)]"

definition upload_artifact_row :: "transfer_env \<Rightarrow> upload_material \<Rightarrow> upload_input \<Rightarrow> time \<Rightarrow> time \<Rightarrow> artifact_row" where
  "upload_artifact_row env m inp expiresAt now =
     \<lparr>ta_id = um_artifactId m, ta_target = te_installationId env, ta_sourceKind = ig_sourceKind inp,
      ta_resourceId = ig_resourceId inp, ta_state = ART_STAGING, ta_relativePath = artifact_name (um_artifactId m),
      ta_contentType = ig_contentType inp, ta_filename = ig_filename inp, ta_sizeBytes = None, ta_sha256 = None,
      ta_createdByUserId = act_userId (ig_actor inp), ta_expiresAt = expiresAt, ta_readyAt = None,
      ta_deletedAt = None, ta_createdAt = now\<rparr>"

definition upload_session_row :: "transfer_env \<Rightarrow> upload_material \<Rightarrow> upload_input \<Rightarrow> time \<Rightarrow> time \<Rightarrow> session_row" where
  "upload_session_row env m inp expiresAt now =
     (new_session env (um_sessionId m) (um_secret m) ''UPLOAD'' ''STAGED_ARTIFACT'' (ig_sourceKind inp)
        (ig_resourceId inp) (ig_actor inp) (ig_contentType inp) (ig_filename inp) expiresAt now)
     \<lparr>ts_artifactId := Some (um_artifactId m), ts_contentLength := Some (iu_contentLength inp)\<rparr>"

text \<open>The transaction that creates both rows.\<close>

definition create_upload :: "artifact_row \<Rightarrow> session_row \<Rightarrow> tdb \<Rightarrow> (unit, tdb) outcome" where
  "create_upload a s = transaction None (\<lambda>d.
     (case create_artifact a d of (Inl e, d') \<Rightarrow> (Inl e, d') | (Inr _, d') \<Rightarrow> create_session s d'))"

text \<open>
  \<open>seen\<close> is the state at the first search, \<open>later\<close> the one at the search after a lost race for
  the key.
\<close>

definition issueStagedUpload ::
  "transfer_env \<Rightarrow> transfer_svc \<Rightarrow> disk_state \<Rightarrow> upload_input \<Rightarrow> time \<Rightarrow> tdb \<Rightarrow> tdb \<Rightarrow> tdb \<Rightarrow> (json, tdb) outcome"
where
  "issueStagedUpload env svc disk inp now seen d later =
     (case upload_invalid inp of
        Some e \<Rightarrow> (Inl e, d)
      | None \<Rightarrow>
     if sv_handler svc = None then (Inl no_handler, d)
     else case te_origin env of
        Inl e \<Rightarrow> (Inl e, d)
      | Inr origin \<Rightarrow>
     (let artifactExpiresAt = min (ig_resourceExpiresAt inp) (now + stagedLeaseTtlMs env);
          expiresAt = min artifactExpiresAt (now + firstByteTtlMs env);
          m = deriveUploadMaterial env (act_userId (ig_actor inp)) (iu_idempotencyKey inp) in
      if expiresAt \<le> now + 1000 then (Inl (Gone ''Transfer resource is expired''), d)
      else case find_session (um_sessionId m) seen of
        Some s \<Rightarrow> (replayStagedUpload env s m inp origin now, d)
      | None \<Rightarrow>
     (case first_exn [prepareUploadAdmission env disk (iu_contentLength inp),
             assertAdmission env (act_userId (ig_actor inp)) now d] of
        Some e \<Rightarrow> (Inl e, d)
      | None \<Rightarrow>
     (case create_upload (upload_artifact_row env m inp artifactExpiresAt now)
             (upload_session_row env m inp expiresAt now) d of
        (Inr _, d') \<Rightarrow> (buildUploadDelivery env (upload_session_row env m inp expiresAt now) (um_secret m) origin, d')
      | (Inl e, d') \<Rightarrow>
          if e = DbFault unique_violation
          then (case find_session (um_sessionId m) later of
                  Some s \<Rightarrow> (replayStagedUpload env s m inp origin now, d')
                | None \<Rightarrow> (Inl e, d'))
          else (Inl e, d')))))"

end
