(* ===== verification/Transfer_Use.thy ===== *)
theory Transfer_Use
  imports Transfer_Session
begin

text \<open>
  The use of a session by whoever holds its secret: the second half of
  \<open>api/src/transfers/transfer-session.service.ts\<close> and the checks of \<open>transfer.controller.ts\<close>. A
  session is found by its identifier and the hash of its secret; a generated stream is claimed
  before it is read, an upload before its bytes are received.
\<close>

section \<open>Finding a session\<close>

text \<open>\<open>/^[A-Za-z0-9_-]{43}$/\<close>\<close>

definition SECRET :: rx where
  "SECRET = Rep 43 43 (Cls (\<lambda>c. upper c \<or> lower c \<or> digit_char c \<or> c \<in> set ''_-''))"

definition requireSession :: "transfer_env \<Rightarrow> string \<Rightarrow> string \<Rightarrow> time \<Rightarrow> tdb \<Rightarrow> exn + session_row" where
  "requireSession env u secret now d =
     (if \<not> rx_test SECRET secret then Inl (Unauthorized ''Transfer session is invalid'')
      else case find_session u d of
        None \<Rightarrow> Inl (Unauthorized ''Transfer session is invalid'')
      | Some s \<Rightarrow>
          if \<not> secureHashMatch (ts_secretHash s) (sha256_text env secret)
          then Inl (Unauthorized ''Transfer session is invalid'')
          else if ts_target s \<noteq> te_installationId env then Inl (Unauthorized ''Transfer target mismatch'')
          else if ts_expiresAt s \<le> now \<or> ts_consumedAt s \<noteq> None \<or>
                  (ts_mode s = ''GENERATED_STREAM'' \<and> ts_completedAt s \<noteq> None)
          then Inl (Gone ''Transfer session expired or was consumed'')
          else Inr s)"

definition requireDownload :: "transfer_env \<Rightarrow> string \<Rightarrow> string \<Rightarrow> time \<Rightarrow> tdb \<Rightarrow> exn + session_row" where
  "requireDownload env u secret now d =
     (case requireSession env u secret now d of
        Inl e \<Rightarrow> Inl e
      | Inr s \<Rightarrow> if ts_purpose s \<noteq> ''DOWNLOAD'' then Inl (Conflict ''Transfer session is not a download'') else Inr s)"

text \<open>An empty identifier, checksum or failure code counts as missing.\<close>

definition toStagedSession :: "session_row \<Rightarrow> exn + staged_transfer" where
  "toStagedSession s =
     (if ts_mode s \<noteq> ''STAGED_ARTIFACT'' then Inl (Conflict ''Staged transfer metadata is incomplete'')
      else case (truthy (ts_artifactId s), ts_contentLength s, ts_sha256 s) of
        (Some a, Some n, Some checksum) \<Rightarrow>
          if rx_test SHA256_HEX checksum
          then Inr (staged_session.extend (staged_session_of s a n) \<lparr>st_sha256 = checksum\<rparr>)
          else Inl (Conflict ''Staged transfer metadata is incomplete'')
      | _ \<Rightarrow> Inl (Conflict ''Staged transfer metadata is incomplete''))"

definition toStagedUploadSession :: "session_row \<Rightarrow> exn + staged_session" where
  "toStagedUploadSession s =
     (if ts_purpose s \<noteq> ''UPLOAD'' \<or> ts_mode s \<noteq> ''STAGED_ARTIFACT''
      then Inl (Conflict ''Staged upload metadata is incomplete'')
      else case (truthy (ts_artifactId s), ts_contentLength s) of
        (Some a, Some n) \<Rightarrow>
          if n < 0 then Inl (Conflict ''Staged upload metadata is incomplete'') else Inr (staged_session_of s a n)
      | _ \<Rightarrow> Inl (Conflict ''Staged upload metadata is incomplete''))"

section \<open>How a response ends\<close>

text \<open>
  The events that end a session: the response was written completely with its status, the
  connection was closed with or without the response being complete, the handler threw. The
  first event that finalizes decides.
\<close>

datatype response_event = Finish nat | Close bool | Threw

definition staged_code :: "response_event \<Rightarrow> string option option" where
  "staged_code ev =
     (case ev of
        Finish status \<Rightarrow> Some (if status \<ge> 400 then Some ''ARTIFACT_FAILED'' else None)
      | Close complete \<Rightarrow> if complete then None else Some (Some ''CLIENT_ABORTED'')
      | Threw \<Rightarrow> Some (Some ''ARTIFACT_FAILED''))"

text \<open>\<open>transferFailureCode\<close> of the response, where it has the shape of a code.\<close>

definition responseFailure :: "string option \<Rightarrow> string option" where
  "responseFailure code = (case code of Some c \<Rightarrow> if rx_test RESOURCE_KIND c then Some c else None | None \<Rightarrow> None)"

definition or_code :: "string option \<Rightarrow> string option \<Rightarrow> string option" where
  "or_code c c' = (case c of Some _ \<Rightarrow> c | None \<Rightarrow> c')"

definition generated_code :: "string option \<Rightarrow> response_event \<Rightarrow> string option" where
  "generated_code code ev =
     (case ev of
        Finish status \<Rightarrow> or_code (responseFailure code) (if status \<ge> 400 then Some ''SOURCE_FAILED'' else None)
      | Close complete \<Rightarrow> or_code (responseFailure code) (if complete then None else Some ''CLIENT_ABORTED'')
      | Threw \<Rightarrow> Some ''SOURCE_FAILED'')"

fun first_code :: "(response_event \<Rightarrow> string option option) \<Rightarrow> response_event list \<Rightarrow> string option option" where
  "first_code f [] = None"
| "first_code f (ev # evs) = (case f ev of Some c \<Rightarrow> Some c | None \<Rightarrow> first_code f evs)"

definition staged_end_write :: "string option \<Rightarrow> time \<Rightarrow> session_row \<Rightarrow> session_row" where
  "staged_end_write code now s = s\<lparr>ts_completedAt := Some now, ts_failureCode := code\<rparr>"

definition generated_end_write :: "string option \<Rightarrow> time \<Rightarrow> session_row \<Rightarrow> session_row" where
  "generated_end_write code now s =
     s\<lparr>ts_completedAt := Some now, ts_consumedAt := Some now, ts_failureCode := code\<rparr>"

definition end_staged :: "string \<Rightarrow> response_event list \<Rightarrow> time \<Rightarrow> tdb \<Rightarrow> tdb" where
  "end_staged u evs now d =
     (case first_code staged_code evs of
        None \<Rightarrow> d
      | Some code \<Rightarrow> update_sessions (\<lambda>s. ts_id s = u) (staged_end_write code now) d)"

definition end_generated :: "string \<Rightarrow> string option \<Rightarrow> response_event list \<Rightarrow> time \<Rightarrow> tdb \<Rightarrow> tdb" where
  "end_generated u code evs now d =
     (case evs of
        [] \<Rightarrow> d
      | ev # _ \<Rightarrow>
          update_sessions (\<lambda>s. ts_id s = u \<and> ts_completedAt s = None) (generated_end_write (generated_code code ev) now) d)"

section \<open>A generated stream\<close>

definition stream_guard :: "time \<Rightarrow> session_row \<Rightarrow> bool" where
  "stream_guard now s = (ts_startedAt s = None \<and> ts_completedAt s = None \<and> ts_expiresAt s > now)"

definition stream_started_write :: "time \<Rightarrow> session_row \<Rightarrow> session_row" where
  "stream_started_write now s = s\<lparr>ts_startedAt := Some now\<rparr>"

text \<open>Up to the claim; the result is the source.\<close>

definition claim_stream ::
  "transfer_svc \<Rightarrow> session_row \<Rightarrow> string option \<Rightarrow> time \<Rightarrow> tdb \<Rightarrow> (nat, tdb) outcome"
where
  "claim_stream svc s rangeHeader now d =
     (if truthy rangeHeader \<noteq> None then (Inl (HttpError 416 ''Range is not supported for generated streams''), d)
      else case sv_sources svc (ts_sourceKind s) of
        None \<Rightarrow> (Inl (NotFound ''Transfer source is unavailable''), d)
      | Some source \<Rightarrow>
          if count_rows (\<lambda>x. ts_id x = ts_id s \<and> stream_guard now x) (td_sessions d) \<noteq> 1
          then (Inl (Gone ''Transfer session was already started''), d)
          else (Inr source, update_sessions (\<lambda>x. ts_id x = ts_id s \<and> stream_guard now x) (stream_started_write now) d))"

definition generated_headers :: "session_row \<Rightarrow> response \<Rightarrow> response" where
  "generated_headers s =
     add_headers (delivery_headers (ts_contentType s) (ts_filename s) @ [(''Accept-Ranges'', ''none'')])"

text \<open>The payload that was bound to the session: it must be of this session, source and resource.\<close>

definition open_payload :: "transfer_env \<Rightarrow> session_row \<Rightarrow> exn + json" where
  "open_payload env s =
     (case truthy (ts_payloadEnc s) of
        None \<Rightarrow> Inr JNull
      | Some c \<Rightarrow>
         (case te_decrypt env c of
            None \<Rightarrow> Inl (Gone ''Generated transfer payload is unavailable'')
          | Some envelope \<Rightarrow>
              if field envelope ''sessionId'' \<noteq> JStr (ts_id s) \<or> field envelope ''sourceKind'' \<noteq> JStr (ts_sourceKind s) \<or>
                 field envelope ''resourceId'' \<noteq> JStr (ts_resourceId s)
              then Inl (Gone ''Generated transfer payload is unavailable'')
              else Inr (field envelope ''payload'')))"

text \<open>The call of the source, as its arguments.\<close>

record stream_call =
  sc_source :: nat
  sc_resourceId :: string
  sc_actor :: transfer_actor
  sc_payload :: json

definition stream_begin ::
  "transfer_env \<Rightarrow> transfer_svc \<Rightarrow> session_row \<Rightarrow> string option \<Rightarrow> time \<Rightarrow> tdb
     \<Rightarrow> (exn + exn + stream_call) \<times> tdb"
where
  "stream_begin env svc s rangeHeader now d =
     (case claim_stream svc s rangeHeader now d of
        (Inl e, d') \<Rightarrow> (Inl e, d')
      | (Inr source, d') \<Rightarrow>
         (Inr (case open_payload env s of
            Inl e \<Rightarrow> Inl e
          | Inr p \<Rightarrow> Inr \<lparr>sc_source = source, sc_resourceId = ts_resourceId s,
               sc_actor = \<lparr>act_userId = ts_actorUserId s, act_role = ts_actorRole s\<rparr>, sc_payload = p\<rparr>), d'))"

text \<open>
  \<open>streamGenerated\<close>: \<open>call\<close> is what the source does with the response, and \<open>evs\<close> the events that
  follow; a failure of the payload or of the source is an event \<open>Threw\<close>.
\<close>

definition stream_session ::
  "transfer_env \<Rightarrow> transfer_svc \<Rightarrow> session_row \<Rightarrow> string option \<Rightarrow> (stream_call \<Rightarrow> exn option) \<Rightarrow> string option
     \<Rightarrow> response_event list \<Rightarrow> time \<Rightarrow> tdb \<Rightarrow> (unit, tdb) outcome"
where
  "stream_session env svc s rangeHeader call code evs now d =
     (case stream_begin env svc s rangeHeader now d of
        (Inl e, d') \<Rightarrow> (Inl e, d')
      | (Inr (Inl e), d') \<Rightarrow> (Inl e, end_generated (ts_id s) code [Threw] now d')
      | (Inr (Inr c), d') \<Rightarrow>
         (case call c of
            Some e \<Rightarrow> (Inl e, end_generated (ts_id s) code (evs @ [Threw]) now d')
          | None \<Rightarrow> (Inr (), end_generated (ts_id s) code evs now d')))"

definition streamGenerated ::
  "transfer_env \<Rightarrow> transfer_svc \<Rightarrow> string \<Rightarrow> string \<Rightarrow> string option \<Rightarrow> (stream_call \<Rightarrow> exn option) \<Rightarrow> string option
     \<Rightarrow> response_event list \<Rightarrow> time \<Rightarrow> tdb \<Rightarrow> (unit, tdb) outcome"
where
  "streamGenerated env svc u secret rangeHeader call code evs now d =
     (case requireDownload env u secret now d of
        Inl e \<Rightarrow> (Inl e, d)
      | Inr s \<Rightarrow>
          if ts_mode s \<noteq> ''GENERATED_STREAM'' then (Inl (Conflict ''Transfer mode is not available''), d)
          else stream_session env svc s rangeHeader call code evs now d)"

section \<open>Head and download\<close>

definition head_session ::
  "transfer_env \<Rightarrow> transfer_svc \<Rightarrow> string \<Rightarrow> string \<Rightarrow> time \<Rightarrow> tdb \<Rightarrow> response \<Rightarrow> (unit, tdb \<times> response) outcome"
where
  "head_session env svc u secret now d r =
     (case requireDownload env u secret now d of
        Inl e \<Rightarrow> (Inl e, (d, r))
      | Inr s \<Rightarrow>
          if ts_mode s = ''STAGED_ARTIFACT''
          then if sv_handler svc = None then (Inl no_handler, (d, r))
               else (case toStagedSession s of Inl e \<Rightarrow> (Inl e, (d, r)) | Inr t \<Rightarrow> head_artifact t now d r)
          else if ts_mode s \<noteq> ''GENERATED_STREAM'' then (Inl (Conflict ''Transfer mode is not available''), (d, r))
          else (Inr (), (d, generated_headers s r)))"

definition begin_download_write :: "time \<Rightarrow> session_row \<Rightarrow> session_row" where
  "begin_download_write now s = s\<lparr>ts_startedAt := Some now, ts_failureCode := None\<rparr>"

text \<open>The part of \<open>download\<close> for a staged artifact; \<open>evs\<close> are the events before an error is caught.\<close>

definition download_staged ::
  "session_row \<Rightarrow> string option \<Rightarrow> string option \<Rightarrow> nat option \<Rightarrow> response_event list \<Rightarrow> time \<Rightarrow> tdb \<Rightarrow> response
     \<Rightarrow> (unit, tdb \<times> response) outcome"
where
  "download_staged s rangeHeader ifRangeHeader sent evs now d r =
     (let d1 = update_sessions (\<lambda>x. ts_id x = ts_id s \<and> ts_startedAt x = None \<and> ts_expiresAt x > now)
            (begin_download_write now) d in
      case (case toStagedSession s of
              Inl e \<Rightarrow> (Inl e, (d1, r)) | Inr t \<Rightarrow> download_artifact t rangeHeader ifRangeHeader sent now d1 r) of
        (Inl e, (d2, r')) \<Rightarrow> (Inl e, (end_staged (ts_id s) (evs @ [Threw]) now d2, r'))
      | (Inr _, (d2, r')) \<Rightarrow> (Inr (), (end_staged (ts_id s) evs now d2, r')))"

text \<open>A download; \<open>Inr None\<close> where it is a generated stream, which \<open>stream_session\<close> serves.\<close>

definition download ::
  "transfer_env \<Rightarrow> transfer_svc \<Rightarrow> string \<Rightarrow> string \<Rightarrow> string option \<Rightarrow> string option \<Rightarrow> nat option
     \<Rightarrow> (stream_call \<Rightarrow> exn option) \<Rightarrow> string option \<Rightarrow> response_event list \<Rightarrow> time \<Rightarrow> tdb \<Rightarrow> response
     \<Rightarrow> (unit, tdb \<times> response) outcome"
where
  "download env svc u secret rangeHeader ifRangeHeader sent call code evs now d r =
     (case requireDownload env u secret now d of
        Inl e \<Rightarrow> (Inl e, (d, r))
      | Inr s \<Rightarrow>
          if ts_mode s = ''GENERATED_STREAM''
          then (let (res, d') = stream_session env svc s rangeHeader call code evs now d in
                (res, (d', if isl res then r else generated_headers s r)))
          else if ts_mode s \<noteq> ''STAGED_ARTIFACT'' \<or> sv_handler svc = None
          then (Inl (Conflict ''Transfer mode is not available''), (d, r))
          else download_staged s rangeHeader ifRangeHeader sent evs now d r)"

section \<open>Upload\<close>

text \<open>\<open>/^(0|[1-9]\d*)$/\<close>\<close>

definition CONTENT_LENGTH :: rx where
  "CONTENT_LENGTH = Alt (lit ''0'') (Cat (Cls (\<lambda>c. digit_char c \<and> c \<noteq> CHR ''0'')) (Star (Cls digit_char)))"

definition or_empty :: "string option \<Rightarrow> string" where
  "or_empty h = (case h of Some s \<Rightarrow> s | None \<Rightarrow> [])"

definition upload_check ::
  "transfer_env \<Rightarrow> transfer_svc \<Rightarrow> string \<Rightarrow> string \<Rightarrow> string option \<Rightarrow> string option \<Rightarrow> time \<Rightarrow> tdb
     \<Rightarrow> exn + staged_session"
where
  "upload_check env svc u secret contentLengthHeader contentTypeHeader now d =
     (case requireSession env u secret now d of
        Inl e \<Rightarrow> Inl e
      | Inr s \<Rightarrow>
          if ts_purpose s \<noteq> ''UPLOAD'' \<or> ts_mode s \<noteq> ''STAGED_ARTIFACT''
          then Inl (Conflict ''Transfer session is not an upload'')
          else if sv_handler svc = None then Inl no_handler
          else if \<not> rx_test CONTENT_LENGTH (or_empty contentLengthHeader)
          then Inl (HttpError 411 ''Content-Length is required'')
          else if ts_contentLength s \<noteq> Some (int (read_nat (or_empty contentLengthHeader)))
          then Inl (HttpError 413 ''Upload length does not match the session'')
          else if js_lower (js_trim (or_empty contentTypeHeader)) \<noteq> js_lower (ts_contentType s)
          then Inl (HttpError 415 ''Upload content type does not match the session'')
          else toStagedUploadSession s)"

definition upload_guard :: "time \<Rightarrow> session_row \<Rightarrow> bool" where
  "upload_guard now s =
     (ts_purpose s = ''UPLOAD'' \<and> ts_startedAt s = None \<and> ts_completedAt s = None \<and> ts_consumedAt s = None \<and>
      ts_expiresAt s > now)"

definition upload_claimed :: "string \<Rightarrow> time \<Rightarrow> tdb \<Rightarrow> bool" where
  "upload_claimed u now d = (count_rows (\<lambda>s. ts_id s = u \<and> upload_guard now s) (td_sessions d) = 1)"

definition claim_upload :: "string \<Rightarrow> time \<Rightarrow> tdb \<Rightarrow> tdb" where
  "claim_upload u now d = update_sessions (\<lambda>s. ts_id s = u \<and> upload_guard now s) (begin_download_write now) d"

definition completed_write :: "completed_upload \<Rightarrow> time \<Rightarrow> session_row \<Rightarrow> session_row" where
  "completed_write c now s =
     s\<lparr>ts_sha256 := Some (cu_sha256 c), ts_completedAt := Some now, ts_consumedAt := Some now, ts_failureCode := None\<rparr>"

definition open_guard :: "session_row \<Rightarrow> bool" where
  "open_guard s = (ts_completedAt s = None \<and> ts_consumedAt s = None)"

definition same_completion :: "completed_upload \<Rightarrow> session_row \<Rightarrow> bool" where
  "same_completion c s =
     (ts_completedAt s \<noteq> None \<and> ts_consumedAt s \<noteq> None \<and> truthy (ts_failureCode s) = None \<and>
      ts_artifactId s = Some (cu_artifactId c) \<and> ts_contentLength s = Some (cu_sizeBytes c) \<and>
      ts_sha256 s = Some (cu_sha256 c))"

definition finalizeUpload :: "string \<Rightarrow> completed_upload \<Rightarrow> time \<Rightarrow> tdb \<Rightarrow> (unit, tdb) outcome" where
  "finalizeUpload u c now d =
     (if \<not> rx_test TRANSFER_UUID (cu_artifactId c) \<or> \<not> safe_integer (cu_sizeBytes c) \<or> cu_sizeBytes c < 0 \<or>
         \<not> rx_test SHA256_HEX (cu_sha256 c)
      then (Inl (Conflict ''Completed upload metadata is invalid''), d)
      else case find_session u d of
        None \<Rightarrow> (Inl (Conflict ''Completed upload binding mismatch''), d)
      | Some s \<Rightarrow>
          if ts_purpose s \<noteq> ''UPLOAD'' \<or> ts_artifactId s \<noteq> Some (cu_artifactId c) \<or>
             ts_contentLength s \<noteq> Some (cu_sizeBytes c)
          then (Inl (Conflict ''Completed upload binding mismatch''), d)
          else if count_rows (\<lambda>x. ts_id x = u \<and> open_guard x) (td_sessions d) = 1
          then (Inr (), update_sessions (\<lambda>x. ts_id x = u \<and> open_guard x) (completed_write c now) d)
          else if same_completion c s then (Inr (), d)
          else (Inl (Conflict ''Upload session completion is inconsistent''), d))"

definition upload_failed_write :: "time \<Rightarrow> session_row \<Rightarrow> session_row" where
  "upload_failed_write now s =
     s\<lparr>ts_completedAt := Some now, ts_consumedAt := Some now, ts_failureCode := Some ''UPLOAD_FAILED''\<rparr>"

definition fail_upload :: "string \<Rightarrow> time \<Rightarrow> tdb \<Rightarrow> tdb" where
  "fail_upload u now d = update_sessions (\<lambda>s. ts_id s = u \<and> ts_completedAt s = None) (upload_failed_write now) d"

text \<open>An upload that found its session claimed: the result of the one that claimed it.\<close>

definition upload_again ::
  "transfer_env \<Rightarrow> staged_session \<Rightarrow> time \<Rightarrow> tdb \<Rightarrow> (completed_upload, tdb) outcome"
where
  "upload_again env s now d =
     (case reconcileUpload env s now d of
        Inl e \<Rightarrow> (Inl e, d)
      | Inr None \<Rightarrow> (Inl (Conflict ''Transfer upload is already in progress''), d)
      | Inr (Some c) \<Rightarrow>
         (case finalizeUpload (ss_id s) c now d of (Inl e, d') \<Rightarrow> (Inl e, d') | (Inr _, d') \<Rightarrow> (Inr c, d')))"

definition upload ::
  "transfer_env \<Rightarrow> transfer_svc \<Rightarrow> string \<Rightarrow> string \<Rightarrow> string option \<Rightarrow> string option \<Rightarrow> byte_source \<Rightarrow> time \<Rightarrow> tdb
     \<Rightarrow> (completed_upload, tdb) outcome"
where
  "upload env svc u secret contentLengthHeader contentTypeHeader source now d =
     (case upload_check env svc u secret contentLengthHeader contentTypeHeader now d of
        Inl e \<Rightarrow> (Inl e, d)
      | Inr s \<Rightarrow>
          if \<not> upload_claimed (ss_id s) now d then upload_again env s now (claim_upload (ss_id s) now d)
          else (case upload_artifact env s source now (claim_upload (ss_id s) now d) of
             (Inl e, d') \<Rightarrow> (Inl e, fail_upload (ss_id s) now d')
           | (Inr c, d') \<Rightarrow>
              (case finalizeUpload (ss_id s) c now d' of
                 (Inl e, d'') \<Rightarrow> (Inl e, fail_upload (ss_id s) now d'')
               | (Inr _, d'') \<Rightarrow> (Inr c, d''))))"

text \<open>The controller refuses chunked and compressed bodies and repeated headers.\<close>

definition controller_upload_headers :: "string list \<Rightarrow> exn + string option \<times> string option" where
  "controller_upload_headers rawHeaders =
     (case requireSingleRawHeader rawHeaders ''transfer-encoding'' of
        Inl e \<Rightarrow> Inl e
      | Inr te \<Rightarrow>
     (case requireSingleRawHeader rawHeaders ''content-encoding'' of
        Inl e \<Rightarrow> Inl e
      | Inr ce \<Rightarrow>
     if truthy te \<noteq> None then Inl (BadRequest ''Chunked transfer encoding is not allowed'')
     else if (case truthy ce of None \<Rightarrow> False | Some c \<Rightarrow> js_lower (js_trim c) \<noteq> ''identity'')
     then Inl (BadRequest ''Compressed uploads are not allowed'')
     else case requireSingleRawHeader rawHeaders ''content-length'' of
        Inl e \<Rightarrow> Inl e
      | Inr cl \<Rightarrow>
     (case requireSingleRawHeader rawHeaders ''content-type'' of
        Inl e \<Rightarrow> Inl e
      | Inr ct \<Rightarrow> Inr (cl, ct))))"

section \<open>Clean-up of sessions\<close>

definition cleanup_sessions :: "time \<Rightarrow> tdb \<Rightarrow> tdb" where
  "cleanup_sessions now d = d\<lparr>td_sessions := delete_rows (\<lambda>s. ts_expiresAt s < now - 86400000) (td_sessions d)\<rparr>"

end
