(* ===== verification/Transfer_System.thy ===== *)
theory Transfer_System
  imports Transfer_Use
begin

text \<open>
  The transfers as one system: the tables and the spool, the registered sources, the operations
  \<open>stage\<close> and \<open>upload\<close> that are under way, and the record of the sources that were read. A step
  is one effect of one operation, so every interleaving of the operations is a run. The effects
  of a revocation and of the two sweeps are steps of their own, which may happen at any time to
  any artifact.
\<close>

section \<open>Operations under way\<close>

text \<open>
  How far an operation is: the session is claimed, the artifact is open, its bytes are in the
  temporary file, the file has its final name, the operation raised an error inside its \<open>try\<close>,
  or it is over with its result and the session is still to be closed.
\<close>

datatype flight_phase =
    Claimed | Opened | Received bytes | Moved bytes | Failing exn | Over "exn + completed_upload"

record flight =
  fl_artifact :: string
  fl_upload :: "staged_session option"
  fl_limit :: int
  fl_phase :: flight_phase

record tsys =
  ty_db :: tdb
  ty_svc :: transfer_svc
  ty_flights :: "flight list"
  ty_streams :: "string list"

definition fl_file :: "flight \<Rightarrow> string" where "fl_file f = artifact_name (fl_artifact f)"

text \<open>\<open>receive\<close> of the operation: the upload also compares the length.\<close>

definition flight_receive :: "transfer_env \<Rightarrow> flight \<Rightarrow> byte_source \<Rightarrow> tdb \<Rightarrow> (bytes, tdb) outcome" where
  "flight_receive env f source d =
     (case fl_upload f of
        None \<Rightarrow> receive env (fl_limit f) stage_overflow (fl_artifact f) source d
      | Some s \<Rightarrow> upload_receive env s source d)"

definition flight_ready :: "transfer_env \<Rightarrow> flight \<Rightarrow> bytes \<Rightarrow> time \<Rightarrow> tdb \<Rightarrow> (completed_upload, tdb) outcome" where
  "flight_ready env f got now d =
     (case fl_upload f of
        None \<Rightarrow> stage_ready env (fl_artifact f) got now d
      | Some _ \<Rightarrow> upload_ready env (fl_artifact f) got now d)"

definition phase_of :: "('a \<Rightarrow> flight_phase) \<Rightarrow> exn + 'a \<Rightarrow> flight_phase" where
  "phase_of ok r = (case r of Inl e \<Rightarrow> Failing e | Inr v \<Rightarrow> ok v)"

text \<open>The step of one operation, with the effect on the tables and the spool.\<close>

inductive flight_step :: "transfer_env \<Rightarrow> flight \<times> tdb \<Rightarrow> flight \<times> tdb \<Rightarrow> bool" for env where
  fs_open: "fl_phase f = Claimed \<Longrightarrow> fl_upload f = Some s \<Longrightarrow>
     flight_step env (f, d) (f\<lparr>fl_phase := (case upload_begin env s now d of Inl e \<Rightarrow> Over (Inl e) | Inr _ \<Rightarrow> Opened)\<rparr>, d)"
| fs_receive: "fl_phase f = Opened \<Longrightarrow> flight_receive env f source d = (r, d') \<Longrightarrow>
     flight_step env (f, d) (f\<lparr>fl_phase := phase_of Received r\<rparr>, d')"
| fs_move: "fl_phase f = Received got \<Longrightarrow> move_file (fl_artifact f) (fl_file f) d = (r, d') \<Longrightarrow>
     flight_step env (f, d) (f\<lparr>fl_phase := phase_of (\<lambda>_. Moved got) r\<rparr>, d')"
| fs_ready: "fl_phase f = Moved got \<Longrightarrow> flight_ready env f got now d = (r, d') \<Longrightarrow>
     flight_step env (f, d) (f\<lparr>fl_phase := phase_of (\<lambda>c. Over (Inr c)) r\<rparr>, d')"
| fs_fault: "fl_phase f = Opened \<or> fl_phase f = Received got \<or> fl_phase f = Moved got \<Longrightarrow>
     flight_step env (f, d) (f\<lparr>fl_phase := Failing e\<rparr>, d)"
| fs_abandon: "fl_phase f = Failing e \<Longrightarrow> abandon (fl_artifact f) (fl_file f) e now d = (r, d') \<Longrightarrow>
     flight_step env (f, d) (f\<lparr>fl_phase := Over r\<rparr>, d')"
| fs_finalize: "fl_phase f = Over (Inr c) \<Longrightarrow> fl_upload f = Some s \<Longrightarrow> finalizeUpload (ss_id s) c now d = (Inl e, d') \<Longrightarrow>
     flight_step env (f, d) (f\<lparr>fl_phase := Over (Inl e)\<rparr>, d')"

text \<open>The end of an operation: nothing for \<open>stage\<close>, the record of the session for \<open>upload\<close>.\<close>

inductive flight_end :: "flight \<Rightarrow> tdb \<Rightarrow> tdb \<Rightarrow> bool" where
  fe_stage: "fl_phase f = Over r \<Longrightarrow> fl_upload f = None \<Longrightarrow> flight_end f d d"
| fe_done: "fl_phase f = Over (Inr c) \<Longrightarrow> fl_upload f = Some s \<Longrightarrow> finalizeUpload (ss_id s) c now d = (Inr (), d') \<Longrightarrow>
     flight_end f d d'"
| fe_failed: "fl_phase f = Over (Inl e) \<Longrightarrow> fl_upload f = Some s \<Longrightarrow> flight_end f d (fail_upload (ss_id s) now d)"

inductive_simps flight_step_simps: "flight_step env (f, d) x"
inductive_cases flight_endE: "flight_end f d d'"

section \<open>The other effects\<close>

text \<open>The effects on the tables and the spool that no operation under way is needed for.\<close>

inductive tdb_step :: "transfer_env \<Rightarrow> tdb \<Rightarrow> tdb \<Rightarrow> bool" for env where
  td_upload_again: "upload_again env s now d = (r, d') \<Longrightarrow> tdb_step env d d'"
| td_head: "head_session env svc u secret now d r = (x, (d', r')) \<Longrightarrow> tdb_step env d d'"
| td_download: "requireDownload env u secret now d = Inr s \<Longrightarrow> ts_mode s = ''STAGED_ARTIFACT'' \<Longrightarrow>
     download_staged s rangeHeader ifRangeHeader sent evs now d r = (x, (d', r')) \<Longrightarrow> tdb_step env d d'"
| td_end_staged: "tdb_step env d (end_staged u evs now d)"
| td_end_generated: "tdb_step env d (end_generated u code evs now d)"
| td_revoke_sessions: "tdb_step env d (revoke_sessions u now d)"
| td_unlink: "a \<in> set (td_artifacts d) \<Longrightarrow> tdb_step env d (snd (unlink_artifact a d))"
| td_mark: "tdb_step env d (revoke_mark u now d)"
| td_cleanup: "a \<in> set (td_artifacts d) \<Longrightarrow> tdb_step env d (snd (cleanup_one now a d))"
| td_stale_artifact: "tdb_step env d (update_artifacts (\<lambda>x. ta_id x = u \<and> ta_state x = ART_STAGING) (failed_write now) d)"
| td_stale_session: "tdb_step env d (update_sessions
     (\<lambda>s. ts_artifactId s = Some u \<and> ts_purpose s = ''UPLOAD'' \<and> ts_completedAt s = None) (stale_session_write now) d)"
| td_cleanup_sessions: "tdb_step env d (cleanup_sessions now d)"

section \<open>The system\<close>

text \<open>
  A new random identifier is not one of a stream that was read before. A restart of the panel
  loses the operations under way.
\<close>

inductive transfer_step :: "transfer_env \<Rightarrow> tsys \<Rightarrow> tsys \<Rightarrow> bool" for env where
  tr_db: "tdb_step env (ty_db y) d' \<Longrightarrow> transfer_step env y (y\<lparr>ty_db := d'\<rparr>)"
| tr_svc: "transfer_step env y (y\<lparr>ty_svc := svc'\<rparr>)"
| tr_restart: "transfer_step env y (y\<lparr>ty_svc := svc', ty_flights := []\<rparr>)"
| tr_issue_stream: "u \<notin> set (ty_streams y) \<Longrightarrow>
     issueGeneratedStream env (ty_svc y) u rnd inp now (ty_db y) = (r, d') \<Longrightarrow> transfer_step env y (y\<lparr>ty_db := d'\<rparr>)"
| tr_issue_artifact:
    "issueStagedArtifact env (ty_svc y) u rnd artifactId actor now (ty_db y) = (r, d') \<Longrightarrow>
     transfer_step env y (y\<lparr>ty_db := d'\<rparr>)"
| tr_issue_upload:
    "issueStagedUpload env (ty_svc y) disk up now seen (ty_db y) later = (r, d') \<Longrightarrow>
     transfer_step env y (y\<lparr>ty_db := d'\<rparr>)"
| tr_stage: "stage_begin env disk u si now (ty_db y) = (Inr file, d') \<Longrightarrow>
     transfer_step env y (y\<lparr>ty_db := d', ty_flights := ty_flights y @
       [\<lparr>fl_artifact = u, fl_upload = None, fl_limit = si_expectedMaxBytes si, fl_phase = Opened\<rparr>]\<rparr>)"
| tr_upload: "upload_check env (ty_svc y) u secret clh cth now0 (ty_db y) = Inr s \<Longrightarrow>
     upload_claimed (ss_id s) now (ty_db y) \<Longrightarrow>
     transfer_step env y (y\<lparr>ty_db := claim_upload (ss_id s) now (ty_db y), ty_flights := ty_flights y @
       [\<lparr>fl_artifact = ss_artifactId s, fl_upload = Some s, fl_limit = ss_contentLength s, fl_phase = Claimed\<rparr>]\<rparr>)"
| tr_flight: "ty_flights y = fs @ f # gs \<Longrightarrow> flight_step env (f, ty_db y) (f', d') \<Longrightarrow>
     transfer_step env y (y\<lparr>ty_db := d', ty_flights := fs @ f' # gs\<rparr>)"
| tr_end: "ty_flights y = fs @ f # gs \<Longrightarrow> flight_end f (ty_db y) d' \<Longrightarrow>
     transfer_step env y (y\<lparr>ty_db := d', ty_flights := fs @ gs\<rparr>)"
| tr_stream: "requireDownload env u secret now0 (ty_db y) = Inr s \<Longrightarrow> ts_mode s = ''GENERATED_STREAM'' \<Longrightarrow>
     stream_begin env (ty_svc y) s rangeHeader now (ty_db y) = (Inr (Inr c), d') \<Longrightarrow>
     transfer_step env y (y\<lparr>ty_db := d', ty_streams := ty_streams y @ [ts_id s]\<rparr>)"
| tr_stream_refused: "requireDownload env u secret now0 (ty_db y) = Inr s \<Longrightarrow> ts_mode s = ''GENERATED_STREAM'' \<Longrightarrow>
     stream_begin env (ty_svc y) s rangeHeader now (ty_db y) = (Inr (Inl e), d') \<Longrightarrow>
     transfer_step env y (y\<lparr>ty_db := d'\<rparr>)"

definition empty_tdb :: tdb where
  "empty_tdb = \<lparr>td_sessions = [], td_artifacts = [], td_partials = Map.empty, td_files = Map.empty\<rparr>"

definition initial_tsys :: tsys where
  "initial_tsys = \<lparr>ty_db = empty_tdb, ty_svc = \<lparr>sv_sources = Map.empty, sv_handler = None\<rparr>, ty_flights = [], ty_streams = []\<rparr>"

inductive transfer_reachable :: "transfer_env \<Rightarrow> tsys \<Rightarrow> bool" for env where
  tr_initial: "transfer_reachable env initial_tsys"
| tr_step: "transfer_reachable env y \<Longrightarrow> transfer_step env y y' \<Longrightarrow> transfer_reachable env y'"

end
