(* ===== verification/Transfer_Invariants.thy ===== *)
theory Transfer_Invariants
  imports Transfer_System
begin

text \<open>
  The invariant of the transfer system. The effects are of three kinds: a calm one neither makes
  an artifact ready nor adds a file, the creation of an artifact adds fresh rows, and the step
  of an operation touches the files and the row of its own artifact. The invariant is proved
  once for each kind.
\<close>

named_theorems calm_intro \<open>operations with a calm effect\<close>

section \<open>Calm effects\<close>

definition arel :: "artifact_row \<Rightarrow> artifact_row \<Rightarrow> bool" where
  "arel a a' \<longleftrightarrow> ta_id a' = ta_id a \<and> ta_relativePath a' = ta_relativePath a \<and>
     (ta_state a' = ART_READY \<longrightarrow> ta_state a = ART_READY \<and> ta_sizeBytes a' = ta_sizeBytes a \<and> ta_sha256 a' = ta_sha256 a) \<and>
     (ta_deletedAt a \<noteq> None \<longrightarrow> ta_deletedAt a' \<noteq> None)"

definition srel :: "session_row \<Rightarrow> session_row \<Rightarrow> bool" where
  "srel s s' \<longleftrightarrow> ts_id s' = ts_id s \<and> ts_purpose s' = ts_purpose s \<and> ts_mode s' = ts_mode s \<and>
     ts_artifactId s' = ts_artifactId s \<and> (ts_startedAt s \<noteq> None \<longrightarrow> ts_startedAt s' \<noteq> None)"

definition calm :: "string set \<Rightarrow> tdb \<Rightarrow> tdb \<Rightarrow> bool" where
  "calm N d d' \<longleftrightarrow> list_all2 arel (td_artifacts d) (td_artifacts d') \<and>
     (keyed ts_id (td_sessions d) \<longrightarrow> keyed ts_id (td_sessions d')) \<and>
     (\<forall>s' \<in> set (td_sessions d'). (\<exists>s \<in> set (td_sessions d). srel s s') \<or>
        (ts_purpose s' \<noteq> ''UPLOAD'' \<and> (ts_mode s' = ''GENERATED_STREAM'' \<longrightarrow> ts_id s' \<in> N))) \<and>
     td_files d' \<subseteq>\<^sub>m td_files d \<and> td_partials d' \<subseteq>\<^sub>m td_partials d"

lemma arel_refl [simp]: "arel a a" by (simp add: arel_def)
lemma srel_refl [simp]: "srel s s" by (simp add: srel_def)

lemma arel_trans: "arel a b \<Longrightarrow> arel b c \<Longrightarrow> arel a c" by (simp add: arel_def)
lemma srel_trans: "srel a b \<Longrightarrow> srel b c \<Longrightarrow> srel a c" by (simp add: srel_def)

lemma srel_member [simp]: "s \<in> set ss \<Longrightarrow> \<exists>x \<in> set ss. srel x s"
  using srel_refl by blast

lemma calmI:
  assumes "list_all2 arel (td_artifacts d) (td_artifacts d')"
    and "keyed ts_id (td_sessions d) \<Longrightarrow> keyed ts_id (td_sessions d')"
    and "\<And>s'. s' \<in> set (td_sessions d') \<Longrightarrow> \<exists>s \<in> set (td_sessions d). srel s s'"
    and "td_files d' \<subseteq>\<^sub>m td_files d" "td_partials d' \<subseteq>\<^sub>m td_partials d"
  shows "calm N d d'"
  using assms by (simp add: calm_def)

lemma calm_refl [simp, intro!]: "calm N d d"
  by (rule calmI) (simp_all add: list_all2_same)

lemma calm_trans: "calm N a b \<Longrightarrow> calm N b c \<Longrightarrow> calm N a c"
proof -
  assume ab: "calm N a b" and bc: "calm N b c"
  then have "list_all2 arel (td_artifacts a) (td_artifacts c)"
    unfolding calm_def by (blast intro: list_all2_trans [of arel arel arel] arel_trans)
  moreover have "(\<exists>s \<in> set (td_sessions a). srel s s') \<or>
      (ts_purpose s' \<noteq> ''UPLOAD'' \<and> (ts_mode s' = ''GENERATED_STREAM'' \<longrightarrow> ts_id s' \<in> N))"
    if "s' \<in> set (td_sessions c)" for s'
  proof (cases "\<exists>s \<in> set (td_sessions b). srel s s'")
    case True
    then obtain s where s: "s \<in> set (td_sessions b)" "srel s s'" by blast
    with ab consider s0 where "s0 \<in> set (td_sessions a)" "srel s0 s"
      | "ts_purpose s \<noteq> ''UPLOAD''" "ts_mode s = ''GENERATED_STREAM'' \<longrightarrow> ts_id s \<in> N"
      unfolding calm_def by blast
    then show ?thesis by cases (use s in \<open>auto intro: srel_trans simp: srel_def\<close>)
  qed (use bc that in \<open>unfold calm_def, blast\<close>)
  ultimately show ?thesis
    using ab bc unfolding calm_def by (blast intro: map_le_trans)
qed

lemma list_all2_update_rows:
  "(\<And>a. R a a) \<Longrightarrow> (\<And>a. P a \<Longrightarrow> R a (f a)) \<Longrightarrow> list_all2 R rows (update_rows P f rows)"
  by (simp add: update_rows_def list_all2_map2 list_all2_same)

lemma calm_update_artifacts: "(\<And>a. P a \<Longrightarrow> arel a (f a)) \<Longrightarrow> calm N d (update_artifacts P f d)"
  by (rule calmI) (simp_all add: update_artifacts_def list_all2_update_rows)

lemma calm_update_sessions: "(\<And>s. srel s (f s)) \<Longrightarrow> calm N d (update_sessions P f d)"
  by (rule calmI) (auto simp: update_sessions_def list_all2_same keyed_update_rows row_simps srel_def)

lemma calm_cleanup_sessions [calm_intro]: "calm N d (cleanup_sessions now d)"
  by (rule calmI) (simp_all add: cleanup_sessions_def list_all2_same keyed_delete_rows row_simps)

lemma unlink_le: "snd (unlinkIfExists n dir) \<subseteq>\<^sub>m dir"
  by (auto simp: unlinkIfExists_def map_le_def)

lemma calm_files:
  "fs \<subseteq>\<^sub>m td_files d \<Longrightarrow> calm N d (d\<lparr>td_files := fs\<rparr>)"
  "ps \<subseteq>\<^sub>m td_partials d \<Longrightarrow> calm N d (d\<lparr>td_partials := ps\<rparr>)"
  "ps \<subseteq>\<^sub>m td_partials d \<Longrightarrow> fs \<subseteq>\<^sub>m td_files d \<Longrightarrow> calm N d (d\<lparr>td_partials := ps, td_files := fs\<rparr>)"
  by (rule calmI; simp add: list_all2_same)+

lemma calm_unlink_both: "calm N d (snd (unlink_both p f d))"
  unfolding unlink_both_def by (auto simp: split_beta intro!: calm_files unlink_le)

lemma calm_unlink_artifact [calm_intro]: "calm N d (snd (unlink_artifact a d))"
  unfolding unlink_artifact_def
  by (auto simp: calm_unlink_both calm_files unlink_le split: sum.splits)

lemma arel_writes:
  "arel a (failed_write now a)" "arel a (deleted_write now a)" "arel a (unavailable_write a)"
  by (simp_all add: arel_def failed_write_def deleted_write_def unavailable_write_def)

lemma srel_writes:
  "srel s (revoked_write now s)" "srel s (stale_session_write now s)" "srel s (staged_end_write code now s)"
  "srel s (generated_end_write code now s)" "srel s (stream_started_write now s)" "srel s (begin_download_write now s)"
  "srel s (completed_write c now s)" "srel s (upload_failed_write now s)"
  by (simp_all add: srel_def revoked_write_def stale_session_write_def staged_end_write_def generated_end_write_def
      stream_started_write_def begin_download_write_def completed_write_def upload_failed_write_def)

lemma calm_writes [calm_intro]:
  "calm N d (update_artifacts P (failed_write now) d)"
  "calm N d (update_artifacts P unavailable_write d)"
  "calm N d (revoke_mark u now d)"
  "calm N d (revoke_sessions u now d)"
  "calm N d (update_sessions Q (stale_session_write now) d)"
  "calm N d (update_sessions Q (stream_started_write now) d)"
  "calm N d (update_sessions Q (begin_download_write now) d)"
  "calm N d (claim_upload u now d)"
  "calm N d (fail_upload u now d)"
  "calm N d (end_staged u evs now d)"
  "calm N d (end_generated u code evs now d)"
  by (auto simp: revoke_mark_def revoke_sessions_def claim_upload_def fail_upload_def end_staged_def end_generated_def
      arel_writes srel_writes intro!: calm_update_artifacts calm_update_sessions split: option.splits list.splits)

lemma calm_finalize [calm_intro]: "finalizeUpload u c now d = (r, d') \<Longrightarrow> calm N d d'"
  by (auto simp: finalizeUpload_def srel_writes intro!: calm_update_sessions split: option.splits if_splits)

lemma calm_upload_again [calm_intro]: "upload_again env s now d = (r, d') \<Longrightarrow> calm N d d'"
  by (auto simp: upload_again_def intro: calm_finalize split: sum.splits option.splits prod.splits)

lemma calm_require [calm_intro]: "requireArtifact s now d = (r, d') \<Longrightarrow> calm N d d'"
  by (auto simp: requireArtifact_def intro!: calm_writes split: if_splits option.splits sum.splits)

lemma calm_head_artifact: "head_artifact s now d r = (x, (d', r')) \<Longrightarrow> calm N d d'"
  by (auto simp: head_artifact_def intro: calm_require split: sum.splits prod.splits)

lemma download_state: "download_artifact s rh ir sent now d r = (x, (d', r')) \<Longrightarrow> snd (requireArtifact s now d) = d'"
  by (cases "requireArtifact s now d")
     (auto simp: download_artifact_def Let_def split: sum.splits option.splits prod.splits)

lemma calm_download [calm_intro]:
  assumes "download_staged s rh ir sent evs now d r = (x, (d', r'))"
  shows "calm N d d'"
proof -
  define d1 where "d1 = update_sessions (\<lambda>x. ts_id x = ts_id s \<and> ts_startedAt x = None \<and> ts_expiresAt x > now)
            (begin_download_write now) d"
  have 1: "calm N d d1" unfolding d1_def by (rule calm_writes)
  have "calm N d1 d'"
  proof (cases "toStagedSession s")
    case (Inl e)
    with assms show ?thesis by (auto simp: download_staged_def d1_def Let_def intro: calm_writes)
  next
    case (Inr t)
    obtain y d2 r2 where dl: "download_artifact t rh ir sent now d1 r = (y, (d2, r2))"
      by (metis surj_pair)
    have "calm N d1 d2" using download_state [OF dl] by (metis calm_require surjective_pairing)
    moreover have "calm N d2 d'"
      using assms Inr dl by (auto simp: download_staged_def d1_def Let_def intro: calm_writes split: sum.splits)
    ultimately show ?thesis by (rule calm_trans)
  qed
  with 1 show ?thesis by (rule calm_trans)
qed

lemma calm_head [calm_intro]: "head_session env svc u secret now d r = (x, (d', r')) \<Longrightarrow> calm N d d'"
  by (auto simp: head_session_def intro: calm_head_artifact split: sum.splits if_splits)

lemma calm_cleanup_one [calm_intro]: "calm N d (snd (cleanup_one now a d))"
proof -
  have "calm N d (revoke_mark u now (d\<lparr>td_files := snd (unlinkIfExists f (td_files d))\<rparr>))" for u f
    by (rule calm_trans [OF calm_files(1) [OF unlink_le]]) (rule calm_writes)
  then show ?thesis
    unfolding cleanup_one_def by (auto simp: calm_files unlink_le split_beta split: sum.splits option.splits)
qed

lemma calm_tdb_step: "tdb_step env d d' \<Longrightarrow> calm N d d'"
  by (cases rule: tdb_step.cases) (auto intro: calm_intro)

lemma create_session_calm:
  "create_session s d = (Inr x, d') \<Longrightarrow> ts_purpose s \<noteq> ''UPLOAD'' \<Longrightarrow>
     (ts_mode s = ''GENERATED_STREAM'' \<longrightarrow> ts_id s \<in> N) \<Longrightarrow> calm N d d'"
  by (auto simp: create_session_def calm_def list_all2_same keyed_append_row image_iff intro: srel_refl split: if_splits)

lemma create_session_error: "create_session s d = (Inl e, d') \<Longrightarrow> d' = d"
  by (auto simp: create_session_def split: if_splits)

lemma calm_issue_stream: "issueGeneratedStream env svc u rnd inp now d = (r, d') \<Longrightarrow> calm {u} d d'"
  by (auto simp: issueGeneratedStream_def Let_def generated_row_def new_session_def dest: create_session_error
      dest!: create_session_calm [where N = "{u}"] split: option.splits sum.splits if_splits prod.splits)

lemma calm_issue_artifact: "issueStagedArtifact env svc u rnd aid actor now d = (r, d') \<Longrightarrow> calm {} d d'"
  by (auto simp: issueStagedArtifact_def Let_def artifact_row_session_def new_session_def dest: create_session_error
      dest!: create_session_calm [where N = "{}"] split: option.splits sum.splits if_splits prod.splits)

lemma claim_stream_calm: "claim_stream svc s rh now d = (r, d') \<Longrightarrow> calm N d d'"
  by (auto simp: claim_stream_def intro: calm_writes split: if_splits option.splits)

lemma calm_stream_begin: "stream_begin env svc s rh now d = (r, d') \<Longrightarrow> calm N d d'"
  by (auto simp: stream_begin_def intro: claim_stream_calm split: sum.splits prod.splits)

section \<open>The invariant\<close>

text \<open>What the file of a ready artifact holds, where there is one, is what its row says.\<close>

definition content_ok :: "transfer_env \<Rightarrow> tdb \<Rightarrow> bool" where
  "content_ok env d \<longleftrightarrow> (\<forall>a \<in> set (td_artifacts d). ta_relativePath a = artifact_name (ta_id a) \<and>
     (ta_state a = ART_READY \<longrightarrow> (\<forall>e. td_files d (artifact_name (ta_id a)) = Some e \<longrightarrow>
        (\<exists>b. e = Regular b \<and> ta_sizeBytes a = Some (int (length b)) \<and> ta_sha256 a = Some (sha256_bytes env b)))))"

text \<open>Every upload session has an artifact, and no two have the same.\<close>

definition is_upload_of :: "string \<Rightarrow> session_row \<Rightarrow> bool" where
  "is_upload_of u s \<longleftrightarrow> ts_purpose s = ''UPLOAD'' \<and> ts_artifactId s = Some u"

definition tables_ok :: "tdb \<Rightarrow> bool" where
  "tables_ok d \<longleftrightarrow> keyed ta_id (td_artifacts d) \<and> keyed ts_id (td_sessions d) \<and>
     (\<forall>s \<in> set (td_sessions d). ts_purpose s = ''UPLOAD'' \<longrightarrow>
        (\<exists>u \<in> ta_id ` set (td_artifacts d). ts_artifactId s = Some u)) \<and>
     (\<forall>s \<in> set (td_sessions d). \<forall>t \<in> set (td_sessions d). \<forall>u. is_upload_of u s \<longrightarrow> is_upload_of u t \<longrightarrow> ts_id s = ts_id t)"

text \<open>
  An operation under way has an artifact whose upload session, if there is one, was started; until
  it records its result the artifact is not ready; and what it wrote is what it received.
\<close>

definition writing :: "flight \<Rightarrow> bool" where
  "writing f = (case fl_phase f of Opened \<Rightarrow> True | Received _ \<Rightarrow> True | Moved _ \<Rightarrow> True | _ \<Rightarrow> False)"

definition flight_ok :: "tdb \<Rightarrow> flight \<Rightarrow> bool" where
  "flight_ok d f \<longleftrightarrow> fl_artifact f \<in> ta_id ` set (td_artifacts d) \<and>
     (\<forall>s. fl_upload f = Some s \<longrightarrow> ss_artifactId s = fl_artifact f) \<and>
     (\<forall>s \<in> set (td_sessions d). is_upload_of (fl_artifact f) s \<longrightarrow> ts_startedAt s \<noteq> None) \<and>
     (writing f \<longrightarrow> (\<forall>a \<in> set (td_artifacts d). ta_id a = fl_artifact f \<longrightarrow> ta_state a \<noteq> ART_READY)) \<and>
     (\<forall>b e. fl_phase f = Received b \<longrightarrow> td_partials d (partial_name (fl_artifact f)) = Some e \<longrightarrow> e = Regular b) \<and>
     (\<forall>b e. fl_phase f = Moved b \<longrightarrow> td_files d (fl_file f) = Some e \<longrightarrow> e = Regular b)"

definition flights_ok :: "tdb \<Rightarrow> flight list \<Rightarrow> bool" where
  "flights_ok d fs \<longleftrightarrow> distinct (map fl_artifact fs) \<and> (\<forall>f \<in> set fs. flight_ok d f)"

definition streams_ok :: "tdb \<Rightarrow> string list \<Rightarrow> bool" where
  "streams_ok d us \<longleftrightarrow> distinct us \<and>
     (\<forall>s \<in> set (td_sessions d). ts_mode s = ''GENERATED_STREAM'' \<longrightarrow> ts_id s \<in> set us \<longrightarrow> ts_startedAt s \<noteq> None)"

definition tsys_ok :: "transfer_env \<Rightarrow> tsys \<Rightarrow> bool" where
  "tsys_ok env y \<longleftrightarrow> content_ok env (ty_db y) \<and> tables_ok (ty_db y) \<and> flights_ok (ty_db y) (ty_flights y) \<and>
     streams_ok (ty_db y) (ty_streams y)"

subsection \<open>Calm effects\<close>

lemma calm_artifact:
  "calm N d d' \<Longrightarrow> a' \<in> set (td_artifacts d') \<Longrightarrow> \<exists>a \<in> set (td_artifacts d). arel a a'"
  unfolding calm_def by (metis list_all2_conv_all_nth in_set_conv_nth)

lemma list_all2_ids: "list_all2 R xs ys \<Longrightarrow> (\<And>a b. R a b \<Longrightarrow> k b = k a) \<Longrightarrow> map k ys = map k xs"
  by (induction rule: list_all2_induct) simp_all

lemma calm_ids: "calm N d d' \<Longrightarrow> map ta_id (td_artifacts d') = map ta_id (td_artifacts d)"
  unfolding calm_def by (blast intro: list_all2_ids arel_def [THEN iffD1, THEN conjunct1])

lemma calm_id_set: "calm N d d' \<Longrightarrow> ta_id ` set (td_artifacts d') = ta_id ` set (td_artifacts d)"
  using calm_ids by (metis list.set_map)

lemma calm_upload: "calm N d d' \<Longrightarrow> s' \<in> set (td_sessions d') \<Longrightarrow> ts_purpose s' = ''UPLOAD'' \<Longrightarrow>
     \<exists>s \<in> set (td_sessions d). srel s s'"
  unfolding calm_def by blast

lemma calm_files_le: "calm N d d' \<Longrightarrow> td_files d' n = Some e \<Longrightarrow> td_files d n = Some e"
  unfolding calm_def map_le_def by (metis domI)

lemma calm_partials_le: "calm N d d' \<Longrightarrow> td_partials d' n = Some e \<Longrightarrow> td_partials d n = Some e"
  unfolding calm_def map_le_def by (metis domI)

lemma calm_content: "calm N d d' \<Longrightarrow> content_ok env d \<Longrightarrow> content_ok env d'"
  unfolding content_ok_def
proof (intro ballI conjI impI allI)
  fix a' e
  assume calm: "calm N d d'" and ok: "\<forall>a \<in> set (td_artifacts d). ta_relativePath a = artifact_name (ta_id a) \<and>
     (ta_state a = ART_READY \<longrightarrow> (\<forall>e. td_files d (artifact_name (ta_id a)) = Some e \<longrightarrow>
        (\<exists>b. e = Regular b \<and> ta_sizeBytes a = Some (int (length b)) \<and> ta_sha256 a = Some (sha256_bytes env b))))"
    and a': "a' \<in> set (td_artifacts d')"
  from calm a' obtain a where a: "a \<in> set (td_artifacts d)" "arel a a'" by (blast dest: calm_artifact)
  with ok show "ta_relativePath a' = artifact_name (ta_id a')" by (simp add: arel_def)
  assume ready: "ta_state a' = ART_READY" and present: "td_files d' (artifact_name (ta_id a')) = Some e"
  from a(2) ready have same: "ta_id a' = ta_id a" "ta_state a = ART_READY" "ta_sizeBytes a' = ta_sizeBytes a"
      "ta_sha256 a' = ta_sha256 a"
    by (simp_all add: arel_def)
  from present have "td_files d (artifact_name (ta_id a)) = Some e" using calm_files_le [OF calm] same(1) by simp
  with ok a(1) same show "\<exists>b. e = Regular b \<and> ta_sizeBytes a' = Some (int (length b)) \<and> ta_sha256 a' = Some (sha256_bytes env b)"
    by simp
qed

lemma calm_tables: "calm N d d' \<Longrightarrow> tables_ok d \<Longrightarrow> tables_ok d'"
proof -
  assume calm: "calm N d d'" and ok: "tables_ok d"
  have prev: "\<exists>s \<in> set (td_sessions d). ts_id s = ts_id s' \<and> ts_artifactId s = ts_artifactId s' \<and> ts_purpose s = ''UPLOAD''"
    if "s' \<in> set (td_sessions d')" "ts_purpose s' = ''UPLOAD''" for s'
    using calm_upload [OF calm that] that(2) by (auto simp: srel_def)
  have "keyed ta_id (td_artifacts d')" "keyed ts_id (td_sessions d')"
    using ok calm calm_ids [OF calm] by (simp_all add: tables_ok_def keyed_def calm_def)
  moreover have "\<exists>u \<in> ta_id ` set (td_artifacts d'). ts_artifactId s' = Some u"
    if "s' \<in> set (td_sessions d')" "ts_purpose s' = ''UPLOAD''" for s'
    using prev [OF that] ok unfolding calm_id_set [OF calm] tables_ok_def by metis
  moreover have "ts_id s' = ts_id t'"
    if two: "s' \<in> set (td_sessions d')" "t' \<in> set (td_sessions d')" "is_upload_of u s'" "is_upload_of u t'" for s' t' u
  proof -
    from two prev [of s'] obtain s where s: "s \<in> set (td_sessions d)" "ts_id s = ts_id s'" "is_upload_of u s"
      by (auto simp: is_upload_of_def)
    from two prev [of t'] obtain t where t: "t \<in> set (td_sessions d)" "ts_id t = ts_id t'" "is_upload_of u t"
      by (auto simp: is_upload_of_def)
    from ok s t have "ts_id s = ts_id t" unfolding tables_ok_def by blast
    with s t show ?thesis by simp
  qed
  ultimately show "tables_ok d'" unfolding tables_ok_def by blast
qed

lemma calm_flight: "calm N d d' \<Longrightarrow> flight_ok d f \<Longrightarrow> flight_ok d' f"
proof -
  assume calm: "calm N d d'" and ok: "flight_ok d f"
  have "ts_startedAt s' \<noteq> None" if s': "s' \<in> set (td_sessions d')" "is_upload_of (fl_artifact f) s'" for s'
  proof -
    obtain s where "s \<in> set (td_sessions d)" "srel s s'"
      using calm_upload [OF calm s'(1)] s'(2) by (auto simp: is_upload_of_def)
    with ok s'(2) show ?thesis by (auto simp: flight_ok_def srel_def is_upload_of_def)
  qed
  moreover have "ta_state a' \<noteq> ART_READY"
    if "a' \<in> set (td_artifacts d')" "ta_id a' = fl_artifact f" "writing f" for a'
    using calm_artifact [OF calm that(1)] that ok unfolding flight_ok_def arel_def by metis
  moreover have "e = Regular b"
    if "fl_phase f = Received b" "td_partials d' (partial_name (fl_artifact f)) = Some e" for b e
    using ok that calm_partials_le [OF calm] by (simp add: flight_ok_def)
  moreover have "e = Regular b" if "fl_phase f = Moved b" "td_files d' (fl_file f) = Some e" for b e
    using ok that calm_files_le [OF calm] by (simp add: flight_ok_def)
  moreover have "fl_artifact f \<in> ta_id ` set (td_artifacts d')" "\<forall>s. fl_upload f = Some s \<longrightarrow> ss_artifactId s = fl_artifact f"
    using ok by (simp_all add: flight_ok_def calm_id_set [OF calm])
  ultimately show "flight_ok d' f" unfolding flight_ok_def by blast
qed

lemma calm_flights: "calm N d d' \<Longrightarrow> flights_ok d fs \<Longrightarrow> flights_ok d' fs"
  by (simp add: flights_ok_def calm_flight)

lemma calm_streams: "calm N d d' \<Longrightarrow> N \<inter> set us = {} \<Longrightarrow> streams_ok d us \<Longrightarrow> streams_ok d' us"
  unfolding streams_ok_def
proof (intro conjI ballI impI)
  fix s'
  assume calm: "calm N d d'" and new: "N \<inter> set us = {}"
    and ok: "distinct us \<and> (\<forall>s \<in> set (td_sessions d). ts_mode s = ''GENERATED_STREAM'' \<longrightarrow> ts_id s \<in> set us \<longrightarrow> ts_startedAt s \<noteq> None)"
    and s': "s' \<in> set (td_sessions d')" "ts_mode s' = ''GENERATED_STREAM''" "ts_id s' \<in> set us"
  from calm s'(1) have "(\<exists>s \<in> set (td_sessions d). srel s s') \<or> (ts_mode s' = ''GENERATED_STREAM'' \<longrightarrow> ts_id s' \<in> N)"
    unfolding calm_def by blast
  with new s'(2,3) obtain s where "s \<in> set (td_sessions d)" "srel s s'" by blast
  with ok s'(2,3) show "ts_startedAt s' \<noteq> None" by (auto simp: srel_def)
qed simp

lemma calm_ok:
  "calm N (ty_db y) d' \<Longrightarrow> N \<inter> set (ty_streams y) = {} \<Longrightarrow> tsys_ok env y \<Longrightarrow> tsys_ok env (y\<lparr>ty_db := d'\<rparr>)"
  unfolding tsys_ok_def by (auto intro: calm_content calm_tables calm_flights calm_streams)

end
