(* ===== verification/Transfer_Safety.thy ===== *)
theory Transfer_Safety
  imports Transfer_Invariants
begin

text \<open>
  The invariant of the transfer system holds in every reachable state: the effects that are not
  calm (the creation of an artifact and the steps of an operation under way), and the induction
  over the steps.
\<close>

section \<open>Creation\<close>

lemma list_all2_memberE: "list_all2 R xs ys \<Longrightarrow> y \<in> set ys \<Longrightarrow> \<exists>x \<in> set xs. R x y"
  by (metis list_all2_conv_all_nth in_set_conv_nth)

lemma tables_uploadD: "tables_ok d \<Longrightarrow> s \<in> set (td_sessions d) \<Longrightarrow> is_upload_of u s \<Longrightarrow> u \<in> ta_id ` set (td_artifacts d)"
  unfolding tables_ok_def is_upload_of_def by fastforce

lemma grow_ok:
  assumes ok: "tsys_ok env y" and d: "ty_db y = d"
    and a: "ta_id a \<notin> ta_id ` set (td_artifacts d)" "ta_state a = ART_STAGING" "ta_relativePath a = artifact_name (ta_id a)"
    and ss: "length ss \<le> 1"
      "\<And>s. s \<in> set ss \<Longrightarrow> ts_id s \<notin> ts_id ` set (td_sessions d) \<and> is_upload_of (ta_id a) s \<and> ts_mode s \<noteq> ''GENERATED_STREAM''"
  shows "tsys_ok env (y\<lparr>ty_db := d\<lparr>td_artifacts := td_artifacts d @ [a], td_sessions := td_sessions d @ ss\<rparr>\<rparr>)"
proof -
  let ?d = "d\<lparr>td_artifacts := td_artifacts d @ [a], td_sessions := td_sessions d @ ss\<rparr>"
  have old: "content_ok env d" "tables_ok d" "flights_ok d (ty_flights y)" "streams_ok d (ty_streams y)"
    using ok d by (simp_all add: tsys_ok_def)
  have none: "\<not> is_upload_of (ta_id a) s" if "s \<in> set (td_sessions d)" for s
    using tables_uploadD [OF old(2) that] a(1) by blast
  have one: "s = t" if "s \<in> set ss" "t \<in> set ss" for s t
    using ss(1) that by (cases ss) auto
  have content: "content_ok env ?d" using old(1) a by (auto simp: content_ok_def)
  have sessions: "keyed ts_id (td_sessions d @ ss)"
    using old(2) ss by (cases ss) (auto simp: tables_ok_def keyed_def)
  have unique: "ts_id s = ts_id t"
    if st: "s \<in> set (td_sessions d @ ss)" "t \<in> set (td_sessions d @ ss)" "is_upload_of u s" "is_upload_of u t" for s t u
  proof (cases "u = ta_id a")
    case True
    with none st have "s \<in> set ss" "t \<in> set ss" by auto
    with one show ?thesis by blast
  next
    case False
    with ss(2) st have "s \<in> set (td_sessions d)" "t \<in> set (td_sessions d)" by (auto simp: is_upload_of_def)
    with old(2) st(3,4) show ?thesis unfolding tables_ok_def by blast
  qed
  have bound: "\<exists>u \<in> ta_id ` set (td_artifacts d @ [a]). ts_artifactId s = Some u"
    if "s \<in> set (td_sessions d @ ss)" "ts_purpose s = ''UPLOAD''" for s
    using that old(2) ss(2) by (auto simp: tables_ok_def is_upload_of_def)
  have artifacts: "keyed ta_id (td_artifacts d @ [a])"
    using old(2) a(1) by (simp add: tables_ok_def keyed_append_row)
  have rows: "td_artifacts ?d = td_artifacts d @ [a]" "td_sessions ?d = td_sessions d @ ss" by simp_all
  have "tables_ok ?d"
    unfolding tables_ok_def rows using artifacts sessions bound unique by blast
  moreover have "flight_ok ?d f" if "f \<in> set (ty_flights y)" for f
  proof -
    have "flight_ok d f" using old(3) that by (simp add: flights_ok_def)
    moreover from this a(1) have "fl_artifact f \<noteq> ta_id a" by (auto simp: flight_ok_def)
    moreover have "is_upload_of (ta_id a) s" if "s \<in> set ss" for s using ss(2) that by blast
    ultimately show ?thesis using a(2) by (auto simp: flight_ok_def is_upload_of_def)
  qed
  then have "flights_ok ?d (ty_flights y)" using old(3) by (simp add: flights_ok_def)
  moreover have "streams_ok ?d (ty_streams y)" using old(4) ss(2) by (auto simp: streams_ok_def)
  ultimately show ?thesis using content by (simp add: tsys_ok_def)
qed

lemma create_upload_cases:
  "create_upload a s d = (r, d') \<Longrightarrow>
     d' = d \<or> (ta_id a \<notin> ta_id ` set (td_artifacts d) \<and> ts_id s \<notin> ts_id ` set (td_sessions d) \<and>
       d' = d\<lparr>td_artifacts := td_artifacts d @ [a], td_sessions := td_sessions d @ [s]\<rparr>)"
  by (auto simp: create_upload_def transaction_def create_artifact_def create_session_def split: if_splits sum.splits)

lemma issue_upload_ok:
  assumes "issueStagedUpload env svc disk inp now seen (ty_db y) later = (r, d')" "tsys_ok env y"
  shows "tsys_ok env (y\<lparr>ty_db := d'\<rparr>)"
proof -
  define m where "m = deriveUploadMaterial env (act_userId (ig_actor inp)) (iu_idempotencyKey inp)"
  from assms(1) have "d' = ty_db y \<or> (\<exists>e1 e2 q. create_upload (upload_artifact_row env m inp e1 now)
      (upload_session_row env m inp e2 now) (ty_db y) = (q, d'))"
    by (auto simp: issueStagedUpload_def Let_def m_def split: option.splits sum.splits if_splits prod.splits)
  then show ?thesis
  proof
    assume "\<exists>e1 e2 q. create_upload (upload_artifact_row env m inp e1 now)
      (upload_session_row env m inp e2 now) (ty_db y) = (q, d')"
    then obtain e1 e2 q where "create_upload (upload_artifact_row env m inp e1 now)
      (upload_session_row env m inp e2 now) (ty_db y) = (q, d')" by blast
    from create_upload_cases [OF this] show ?thesis
      using assms(2)
      by (auto intro!: grow_ok simp: upload_artifact_row_def upload_session_row_def new_session_def is_upload_of_def)
  qed (use assms(2) in simp)
qed

lemma stage_begin_cases:
  "stage_begin env disk u inp now d = (Inr file, d') \<Longrightarrow>
     u \<notin> ta_id ` set (td_artifacts d) \<and> file = artifact_name u \<and>
     d' = d\<lparr>td_artifacts := td_artifacts d @ [stage_row env u inp now]\<rparr>"
  by (auto simp: stage_begin_def create_artifact_def artifactPath_def stage_row_def
      split: option.splits sum.splits if_splits prod.splits)

lemma stage_begin_ok:
  assumes run: "stage_begin env disk u inp now (ty_db y) = (Inr file, d')" and ok: "tsys_ok env y"
  shows "tsys_ok env (y\<lparr>ty_db := d', ty_flights := ty_flights y @
    [\<lparr>fl_artifact = u, fl_upload = None, fl_limit = n, fl_phase = Opened\<rparr>]\<rparr>)"
proof -
  let ?f = "\<lparr>fl_artifact = u, fl_upload = None, fl_limit = n, fl_phase = Opened\<rparr>"
  from stage_begin_cases [OF run] have new: "u \<notin> ta_id ` set (td_artifacts (ty_db y))"
    and d': "d' = (ty_db y)\<lparr>td_artifacts := td_artifacts (ty_db y) @ [stage_row env u inp now]\<rparr>" by auto
  have "tsys_ok env (y\<lparr>ty_db := (ty_db y)\<lparr>td_artifacts := td_artifacts (ty_db y) @ [stage_row env u inp now],
      td_sessions := td_sessions (ty_db y) @ []\<rparr>\<rparr>)"
    by (rule grow_ok [OF ok refl]) (use new in \<open>simp_all add: stage_row_def\<close>)
  with d' have y': "tsys_ok env (y\<lparr>ty_db := d'\<rparr>)" by simp
  have none: "\<not> is_upload_of u s" if "s \<in> set (td_sessions d')" for s
    using tables_uploadD [of "ty_db y" s u] ok new that d' by (auto simp: tsys_ok_def)
  have "flight_ok d' ?f"
    using d' new none by (auto simp: flight_ok_def stage_row_def)
  moreover have "u \<notin> fl_artifact ` set (ty_flights y)"
    using ok new by (auto simp: tsys_ok_def flights_ok_def flight_ok_def)
  ultimately show ?thesis
    using y' by (auto simp: tsys_ok_def flights_ok_def)
qed

section \<open>The step of an operation\<close>

text \<open>An effect on the files and the row of one artifact.\<close>

definition own :: "string \<Rightarrow> tdb \<Rightarrow> tdb \<Rightarrow> bool" where
  "own u d d' \<longleftrightarrow> td_sessions d' = td_sessions d \<and>
     list_all2 (\<lambda>a a'. ta_id a' = ta_id a \<and> ta_relativePath a' = ta_relativePath a \<and> (ta_id a \<noteq> u \<longrightarrow> a' = a))
       (td_artifacts d) (td_artifacts d') \<and>
     (\<forall>n. n \<noteq> partial_name u \<longrightarrow> td_partials d' n = td_partials d n) \<and>
     (\<forall>n. n \<noteq> artifact_name u \<longrightarrow> td_files d' n = td_files d n)"

lemma names_inj [simp]:
  "partial_name u = partial_name v \<longleftrightarrow> u = v" "artifact_name u = artifact_name v \<longleftrightarrow> u = v"
  by (simp_all add: partial_name_def artifact_name_def)

lemma own_refl [simp]: "own u d d" by (simp add: own_def list_all2_same)

lemma own_update_artifacts:
  "(\<And>a. P a \<Longrightarrow> ta_id (f a) = ta_id a \<and> ta_relativePath (f a) = ta_relativePath a \<and> ta_id a = u) \<Longrightarrow>
   own u d (update_artifacts P f d)"
  by (simp add: own_def update_artifacts_def update_rows_def list_all2_map2 list_all2_same)

lemma own_ids: "own u d d' \<Longrightarrow> map ta_id (td_artifacts d') = map ta_id (td_artifacts d)"
  unfolding own_def by (blast intro: list_all2_ids)

lemma own_row: "own u d d' \<Longrightarrow> a' \<in> set (td_artifacts d') \<Longrightarrow>
     \<exists>a \<in> set (td_artifacts d). ta_id a = ta_id a' \<and> ta_relativePath a = ta_relativePath a' \<and> (ta_id a \<noteq> u \<longrightarrow> a' = a)"
proof -
  assume own: "own u d d'" and a': "a' \<in> set (td_artifacts d')"
  from own have "list_all2 (\<lambda>a a'. ta_id a' = ta_id a \<and> ta_relativePath a' = ta_relativePath a \<and> (ta_id a \<noteq> u \<longrightarrow> a' = a))
       (td_artifacts d) (td_artifacts d')" by (simp add: own_def)
  from list_all2_memberE [OF this a'] show ?thesis by auto
qed

lemma own_artifact: "own u d d' \<Longrightarrow> a' \<in> set (td_artifacts d') \<Longrightarrow> ta_id a' \<noteq> u \<Longrightarrow> a' \<in> set (td_artifacts d)"
  using own_row by fastforce

lemma own_tables: "own u d d' \<Longrightarrow> tables_ok d \<Longrightarrow> tables_ok d'"
proof -
  assume own: "own u d d'" and ok: "tables_ok d"
  have ids: "ta_id ` set (td_artifacts d') = ta_id ` set (td_artifacts d)"
    using own_ids [OF own] by (metis list.set_map)
  have keyed: "keyed ta_id (td_artifacts d') = keyed ta_id (td_artifacts d)"
    using own_ids [OF own] by (simp add: keyed_def)
  have same: "td_sessions d' = td_sessions d" using own by (simp add: own_def)
  show ?thesis using ok unfolding tables_ok_def ids keyed same by assumption
qed

lemma own_streams: "own u d d' \<Longrightarrow> streams_ok d us \<Longrightarrow> streams_ok d' us"
  by (simp add: streams_ok_def own_def)

lemma own_flight: "own u d d' \<Longrightarrow> flight_ok d f \<Longrightarrow> fl_artifact f \<noteq> u \<Longrightarrow> flight_ok d' f"
proof -
  assume own: "own u d d'" and ok: "flight_ok d f" and other: "fl_artifact f \<noteq> u"
  have ids: "ta_id ` set (td_artifacts d') = ta_id ` set (td_artifacts d)"
    using own_ids [OF own] by (metis list.set_map)
  have same: "td_partials d' (partial_name (fl_artifact f)) = td_partials d (partial_name (fl_artifact f))"
    "td_files d' (fl_file f) = td_files d (fl_file f)" "td_sessions d' = td_sessions d"
    using own other by (simp_all add: own_def fl_file_def)
  have rows: "a \<in> set (td_artifacts d)" if "a \<in> set (td_artifacts d')" "ta_id a = fl_artifact f" for a
    using own_artifact [OF own that(1)] that(2) other by simp
  have "writing f \<longrightarrow> (\<forall>a \<in> set (td_artifacts d'). ta_id a = fl_artifact f \<longrightarrow> ta_state a \<noteq> ART_READY)"
    using ok rows by (simp add: flight_ok_def)
  then show ?thesis using ok unfolding flight_ok_def ids same by (elim conjE) (intro conjI)
qed

text \<open>The content of the other artifacts is untouched, so only the own one has to be looked at.\<close>

lemma own_content:
  assumes "own u d d'" "content_ok env d"
    and "\<And>a e. a \<in> set (td_artifacts d') \<Longrightarrow> ta_id a = u \<Longrightarrow> ta_state a = ART_READY \<Longrightarrow>
       td_files d' (artifact_name u) = Some e \<Longrightarrow>
       \<exists>b. e = Regular b \<and> ta_sizeBytes a = Some (int (length b)) \<and> ta_sha256 a = Some (sha256_bytes env b)"
  shows "content_ok env d'"
  unfolding content_ok_def
proof (intro ballI conjI impI allI)
  fix a e assume a: "a \<in> set (td_artifacts d')"
  show "ta_relativePath a = artifact_name (ta_id a)"
    using own_row [OF assms(1) a] assms(2) by (auto simp: content_ok_def)
  assume "ta_state a = ART_READY" "td_files d' (artifact_name (ta_id a)) = Some e"
  then show "\<exists>b. e = Regular b \<and> ta_sizeBytes a = Some (int (length b)) \<and> ta_sha256 a = Some (sha256_bytes env b)"
    using assms own_artifact [OF assms(1) a] a by (cases "ta_id a = u") (auto simp: content_ok_def own_def)
qed

lemma receive_effect:
  "receive env n e u source d = (r, d') \<Longrightarrow>
     \<exists>ps. d' = d\<lparr>td_partials := ps\<rparr> \<and> (\<forall>n. n \<noteq> partial_name u \<longrightarrow> ps n = td_partials d n) \<and>
       (\<forall>got. r = Inr got \<longrightarrow> ps (partial_name u) = Some (Regular got))"
  by (auto simp: receive_def Let_def split: if_splits prod.splits option.splits
      intro: exI [of _ "td_partials d"])

lemma flight_receive_effect:
  assumes "flight_receive env f source d = (r, d')" "flight_ok d f"
  shows "\<exists>ps. d' = d\<lparr>td_partials := ps\<rparr> \<and> (\<forall>n. n \<noteq> partial_name (fl_artifact f) \<longrightarrow> ps n = td_partials d n) \<and>
       (\<forall>got. r = Inr got \<longrightarrow> ps (partial_name (fl_artifact f)) = Some (Regular got))"
proof (cases "fl_upload f")
  case None
  with assms(1) show ?thesis by (auto simp: flight_receive_def dest: receive_effect)
next
  case (Some s)
  with assms(2) have u: "ss_artifactId s = fl_artifact f" by (simp add: flight_ok_def)
  obtain r1 d1 where r1: "receive env (ss_contentLength s) upload_overflow (fl_artifact f) source d = (r1, d1)"
    by fastforce
  with assms(1) Some u have "d' = d1" "\<forall>got. r = Inr got \<longrightarrow> r1 = Inr got"
    by (auto simp: flight_receive_def upload_receive_def split: sum.splits if_splits)
  with receive_effect [OF r1] show ?thesis by auto
qed

lemma flight_ready_effect:
  assumes "flight_ready env f got now d = (r, d')"
  shows "d' = d \<or> (\<exists>P. d' = update_artifacts (\<lambda>a. ta_id a = fl_artifact f \<and> P a) (ready_write env got now) d)"
  using assms
  by (auto simp: flight_ready_def stage_ready_def upload_ready_def split: option.splits if_splits
      intro: exI [of _ "\<lambda>_. True"] exI [of _ staging_guard])

lemma calm_abandon: "abandon u fl e now d = (r, d') \<Longrightarrow> calm N d d'"
proof -
  assume run: "abandon u fl e now d = (r, d')"
  have "calm N (snd (unlink_both (partial_name u) fl d)) d'"
    using run by (auto simp: abandon_def intro: calm_writes split: option.splits prod.splits)
  with calm_unlink_both show ?thesis by (rule calm_trans)
qed

text \<open>Replacing one operation by its next phase, when its effect is its own.\<close>

lemma own_step_ok:
  assumes ok: "tsys_ok env y" and fs: "ty_flights y = fs @ f # gs"
    and own: "own (fl_artifact f) (ty_db y) d'" and content: "content_ok env d'"
    and f': "fl_artifact f' = fl_artifact f" "flight_ok d' f'"
  shows "tsys_ok env (y\<lparr>ty_db := d', ty_flights := fs @ f' # gs\<rparr>)"
proof -
  have unique: "distinct (map fl_artifact (fs @ f # gs))" and flights: "\<And>g. g \<in> set (fs @ f # gs) \<Longrightarrow> flight_ok (ty_db y) g"
    using ok fs by (auto simp: tsys_ok_def flights_ok_def)
  from unique have "fl_artifact f \<notin> fl_artifact ` (set fs \<union> set gs)" by auto
  then have others: "fl_artifact g \<noteq> fl_artifact f" if "g \<in> set fs \<or> g \<in> set gs" for g
    using that by (metis UnCI imageI)
  have "flight_ok d' g" if "g \<in> set fs \<or> g \<in> set gs" for g
    using own_flight [OF own flights others] that by auto
  then have "flights_ok d' (fs @ f' # gs)"
    using f' unique by (auto simp: flights_ok_def)
  with ok own content show ?thesis
    by (simp add: tsys_ok_def own_tables own_streams)
qed

text \<open>The next phase of an operation whose effect is calm.\<close>

lemma calm_step_ok:
  assumes ok: "tsys_ok env y" and fs: "ty_flights y = fs @ f # gs" and calm: "calm {} (ty_db y) d'"
    and f': "fl_artifact f' = fl_artifact f" "flight_ok d' f \<Longrightarrow> flight_ok d' f'"
  shows "tsys_ok env (y\<lparr>ty_db := d', ty_flights := fs @ f' # gs\<rparr>)"
  using calm_ok [OF calm _ ok] fs f' by (auto simp: tsys_ok_def flights_ok_def)

lemma flight_ok_phase:
  "flight_ok d f \<Longrightarrow> p \<notin> {Opened} \<union> range Received \<union> range Moved \<Longrightarrow> flight_ok d (f\<lparr>fl_phase := p\<rparr>)"
  by (cases p) (auto simp: flight_ok_def writing_def)

lemma flight_open_ok:
  assumes ok: "tsys_ok env y" and f: "flight_ok (ty_db y) f" "fl_upload f = Some s"
  shows "flight_ok (ty_db y) (f\<lparr>fl_phase := (case upload_begin env s now (ty_db y) of Inl e \<Rightarrow> Over (Inl e) | Inr _ \<Rightarrow> Opened)\<rparr>)"
proof (cases "upload_begin env s now (ty_db y)")
  case (Inr path)
  then obtain a where a: "find_artifact (fl_artifact f) (ty_db y) = Some a" "ta_state a = ART_STAGING"
    using f by (auto simp: upload_begin_def assertUploadArtifactMatchesSession_def flight_ok_def
        split: option.splits if_splits)
  have "ta_state a' \<noteq> ART_READY" if "a' \<in> set (td_artifacts (ty_db y))" "ta_id a' = fl_artifact f" for a'
  proof -
    have "keyed ta_id (td_artifacts (ty_db y))" using ok by (simp add: tsys_ok_def tables_ok_def)
    with a(1) that have "a' = a" unfolding find_artifact_def by (simp add: find_key_iff keyed_def distinct_map_inj_onD)
    with a(2) show ?thesis by simp
  qed
  with Inr f show ?thesis by (auto simp: flight_ok_def writing_def)
qed (use f in \<open>auto intro: flight_ok_phase\<close>)

lemma receive_ok:
  assumes ok: "tsys_ok env y" and fs: "ty_flights y = fs @ f # gs" and phase: "fl_phase f = Opened"
    and run: "flight_receive env f source (ty_db y) = (r, d')"
  shows "tsys_ok env (y\<lparr>ty_db := d', ty_flights := fs @ f\<lparr>fl_phase := phase_of Received r\<rparr> # gs\<rparr>)"
proof (rule own_step_ok [OF ok fs])
  have f: "flight_ok (ty_db y) f" using ok fs by (simp add: tsys_ok_def flights_ok_def)
  from flight_receive_effect [OF run f] obtain ps where d': "d' = (ty_db y)\<lparr>td_partials := ps\<rparr>"
    and ps: "\<And>n. n \<noteq> partial_name (fl_artifact f) \<Longrightarrow> ps n = td_partials (ty_db y) n"
      "\<And>got. r = Inr got \<Longrightarrow> ps (partial_name (fl_artifact f)) = Some (Regular got)" by auto
  show "own (fl_artifact f) (ty_db y) d'" using d' ps(1) by (simp add: own_def list_all2_same)
  show "content_ok env d'" using ok d' by (simp add: tsys_ok_def content_ok_def)
  show "flight_ok d' (f\<lparr>fl_phase := phase_of Received r\<rparr>)"
    using f phase d' ps(2) by (cases r) (auto simp: flight_ok_def writing_def phase_of_def)
qed simp

lemma move_ok:
  assumes ok: "tsys_ok env y" and fs: "ty_flights y = fs @ f # gs" and phase: "fl_phase f = Received got"
    and run: "move_file (fl_artifact f) (fl_file f) (ty_db y) = (r, d')"
  shows "tsys_ok env (y\<lparr>ty_db := d', ty_flights := fs @ f\<lparr>fl_phase := phase_of (\<lambda>_. Moved got) r\<rparr> # gs\<rparr>)"
proof (rule own_step_ok [OF ok fs])
  let ?d = "ty_db y"
  have f: "flight_ok ?d f" using ok fs by (simp add: tsys_ok_def flights_ok_def)
  then have written: "td_partials ?d (partial_name (fl_artifact f)) = Some e \<Longrightarrow> e = Regular got" for e
    using phase by (simp add: flight_ok_def)
  have d': "(\<exists>e. r = Inl e \<and> d' = ?d) \<or> (r = Inr () \<and> d' = ?d\<lparr>td_partials := (td_partials ?d)(partial_name (fl_artifact f) := None),
      td_files := (td_files ?d)(fl_file f \<mapsto> Regular got)\<rparr>)"
    using run written by (auto simp: move_file_def split: option.splits if_splits)
  then show own: "own (fl_artifact f) ?d d'" by (auto simp: own_def list_all2_same fl_file_def)
  have staging: "ta_state a \<noteq> ART_READY" if "a \<in> set (td_artifacts ?d)" "ta_id a = fl_artifact f" for a
    using f phase that by (simp add: flight_ok_def writing_def)
  have same: "td_artifacts d' = td_artifacts ?d" using d' by auto
  show "content_ok env d'"
    using ok staging same by (intro own_content [OF own]) (auto simp: tsys_ok_def)
  show "flight_ok d' (f\<lparr>fl_phase := phase_of (\<lambda>_. Moved got) r\<rparr>)"
    using f phase d' by (auto simp: flight_ok_def writing_def phase_of_def fl_file_def)
qed simp

lemma ready_ok:
  assumes ok: "tsys_ok env y" and fs: "ty_flights y = fs @ f # gs" and phase: "fl_phase f = Moved got"
    and run: "flight_ready env f got now (ty_db y) = (r, d')"
  shows "tsys_ok env (y\<lparr>ty_db := d', ty_flights := fs @ f\<lparr>fl_phase := phase_of (\<lambda>c. Over (Inr c)) r\<rparr> # gs\<rparr>)"
proof (rule own_step_ok [OF ok fs])
  let ?d = "ty_db y"
  have f: "flight_ok ?d f" using ok fs by (simp add: tsys_ok_def flights_ok_def)
  then have stored: "td_files ?d (artifact_name (fl_artifact f)) = Some e \<Longrightarrow> e = Regular got" for e
    using phase by (simp add: flight_ok_def fl_file_def)
  have staging: "ta_state a \<noteq> ART_READY" if "a \<in> set (td_artifacts ?d)" "ta_id a = fl_artifact f" for a
    using f phase that by (simp add: flight_ok_def writing_def)
  from flight_ready_effect [OF run] obtain P where d': "d' = ?d \<or>
      d' = update_artifacts (\<lambda>a. ta_id a = fl_artifact f \<and> P a) (ready_write env got now) ?d" by blast
  then show own: "own (fl_artifact f) ?d d'"
    by (auto simp: ready_write_def intro!: own_update_artifacts)
  have "td_files d' = td_files ?d" "td_sessions d' = td_sessions ?d"
    using d' by (auto simp: update_artifacts_def)
  then show "content_ok env d'"
    using ok staging stored d'
    by (intro own_content [OF own]) (auto simp: tsys_ok_def update_artifacts_def row_simps ready_write_def split: if_splits)
  have "ta_id ` set (td_artifacts d') = ta_id ` set (td_artifacts ?d)"
    using own_ids [OF own] by (metis list.set_map)
  then show "flight_ok d' (f\<lparr>fl_phase := phase_of (\<lambda>c. Over (Inr c)) r\<rparr>)"
    using f \<open>td_sessions d' = td_sessions ?d\<close> by (auto simp: flight_ok_def writing_def phase_of_def split: sum.splits)
qed simp

lemma flight_step_ok:
  assumes step: "flight_step env (f, ty_db y) (f', d')" and ok: "tsys_ok env y" and fs: "ty_flights y = fs @ f # gs"
  shows "tsys_ok env (y\<lparr>ty_db := d', ty_flights := fs @ f' # gs\<rparr>)"
proof -
  have f: "flight_ok (ty_db y) f" using ok fs by (simp add: tsys_ok_def flights_ok_def)
  from step show ?thesis
  proof cases
    case (fs_open s now)
    then show ?thesis
      using calm_step_ok [OF ok fs calm_refl, where f' = f'] flight_open_ok [OF ok f] by auto
  next
    case (fs_receive source r)
    then show ?thesis using receive_ok [OF ok fs] by simp
  next
    case (fs_move got r)
    then show ?thesis using move_ok [OF ok fs] by simp
  next
    case (fs_ready got now r)
    then show ?thesis using ready_ok [OF ok fs] by simp
  next
    case (fs_fault got e)
    then show ?thesis using calm_step_ok [OF ok fs calm_refl, where f' = f'] by (auto intro: flight_ok_phase)
  next
    case (fs_abandon e now r)
    from fs_abandon(3) have "calm {} (ty_db y) d'" by (rule calm_abandon)
    then show ?thesis
      by (rule calm_step_ok [OF ok fs]) (use fs_abandon(1) in \<open>auto intro: flight_ok_phase\<close>)
  next
    case (fs_finalize c s now e)
    from fs_finalize(4) have "calm {} (ty_db y) d'" by (rule calm_finalize)
    then show ?thesis
      by (rule calm_step_ok [OF ok fs]) (use fs_finalize(1) in \<open>auto intro: flight_ok_phase\<close>)
  qed
qed

section \<open>Claims\<close>

lemma claimed_session:
  assumes "tables_ok d" "count_rows (\<lambda>s. ts_id s = u \<and> P s) (td_sessions d) = 1"
  obtains q where "find_session u d = Some q" "q \<in> set (td_sessions d)" "ts_id q = u" "P q"
proof -
  have "keyed ts_id (td_sessions d)" using assms(1) by (simp add: tables_ok_def)
  from sessions.guard_hit [THEN iffD1, OF this assms(2)] obtain q where q: "find_session u d = Some q" "P q"
    by blast
  then have "q \<in> set (td_sessions d) \<and> ts_id q = u"
    by (auto simp: find_session_def dest: find_key_SomeD)
  with q that show thesis by blast
qed

lemma session_unique:
  "tables_ok d \<Longrightarrow> s \<in> set (td_sessions d) \<Longrightarrow> t \<in> set (td_sessions d) \<Longrightarrow> ts_id s = ts_id t \<Longrightarrow> s = t"
  by (auto simp: tables_ok_def keyed_def dest: distinct_map_inj_onD)

lemma requireSession_row: "requireSession env u secret now d = Inr s \<Longrightarrow> find_session u d = Some s"
  by (auto simp: requireSession_def split: if_splits option.splits)

lemma requireDownload_row: "requireDownload env u secret now d = Inr s \<Longrightarrow> find_session u d = Some s"
  by (auto simp: requireDownload_def intro: requireSession_row split: sum.splits if_splits)

lemma upload_check_row:
  assumes "upload_check env svc u secret clh cth now d = Inr s"
  obtains q where "find_session u d = Some q" "ts_id q = u" "is_upload_of (ss_artifactId s) q" "ss_id s = u"
proof -
  from assms obtain q where q: "requireSession env u secret now d = Inr q" "toStagedUploadSession q = Inr s"
    by (auto simp: upload_check_def split: sum.splits if_splits)
  from q(2) have "is_upload_of (ss_artifactId s) q \<and> ss_id s = ts_id q"
    by (auto simp: toStagedUploadSession_def staged_session_of_def is_upload_of_def truthy_eq_Some
        split: if_splits option.splits)
  moreover have "find_session u d = Some q" using requireSession_row [OF q(1)] .
  moreover from this have "ts_id q = u" by (auto simp: find_session_def dest: find_key_SomeD)
  ultimately show thesis using that by blast
qed

lemma upload_claim_ok:
  assumes check: "upload_check env svc u secret clh cth now0 (ty_db y) = Inr s"
    and claimed: "upload_claimed (ss_id s) now (ty_db y)" and ok: "tsys_ok env y"
  shows "tsys_ok env (y\<lparr>ty_db := claim_upload (ss_id s) now (ty_db y), ty_flights := ty_flights y @
    [\<lparr>fl_artifact = ss_artifactId s, fl_upload = Some s, fl_limit = ss_contentLength s, fl_phase = Claimed\<rparr>]\<rparr>)"
proof -
  let ?d = "ty_db y" and ?d' = "claim_upload (ss_id s) now (ty_db y)"
  let ?f = "\<lparr>fl_artifact = ss_artifactId s, fl_upload = Some s, fl_limit = ss_contentLength s, fl_phase = Claimed\<rparr>"
  have calm: "calm {} ?d ?d'" by (rule calm_writes)
  have tables: "tables_ok ?d" using ok by (simp add: tsys_ok_def)
  from check obtain q0 where q0: "find_session u ?d = Some q0" "is_upload_of (ss_artifactId s) q0" "ss_id s = u"
    by (rule upload_check_row)
  from claimed obtain q where "find_session (ss_id s) ?d = Some q" "q \<in> set (td_sessions ?d)" "ts_id q = ss_id s"
      "upload_guard now q"
    unfolding upload_claimed_def by (rule claimed_session [OF tables])
  with q0 have q: "q \<in> set (td_sessions ?d)" "ts_id q = u" "upload_guard now q" "is_upload_of (ss_artifactId s) q" by auto
  have new: "ss_artifactId s \<notin> fl_artifact ` set (ty_flights y)"
  proof
    assume "ss_artifactId s \<in> fl_artifact ` set (ty_flights y)"
    then obtain f where "f \<in> set (ty_flights y)" "fl_artifact f = ss_artifactId s" by auto
    with ok q have "ts_startedAt q \<noteq> None" by (auto simp: tsys_ok_def flights_ok_def flight_ok_def)
    with q(3) show False by (simp add: upload_guard_def)
  qed
  have started: "ts_startedAt t \<noteq> None" if t: "t \<in> set (td_sessions ?d')" "is_upload_of (ss_artifactId s) t" for t
  proof -
    from t(1) obtain t0 where t0: "t0 \<in> set (td_sessions ?d)"
        "t = (if ts_id t0 = u \<and> upload_guard now t0 then begin_download_write now t0 else t0)"
      using q0(3) by (auto simp: claim_upload_def update_sessions_def row_simps)
    then have "is_upload_of (ss_artifactId s) t0"
      using t(2) by (auto simp: begin_download_write_def is_upload_of_def split: if_splits)
    with tables t0(1) q have "ts_id t0 = ts_id q" unfolding tables_ok_def by blast
    with tables t0(1) q(1) have "t0 = q" by (rule session_unique)
    with q t0(2) show ?thesis by (simp add: begin_download_write_def)
  qed
  have "ss_artifactId s \<in> ta_id ` set (td_artifacts ?d)" using tables_uploadD [OF tables q(1) q(4)] .
  then have "flight_ok ?d' ?f"
    using started by (simp add: flight_ok_def writing_def calm_id_set [OF calm])
  with calm_ok [OF calm _ ok] new show ?thesis by (auto simp: tsys_ok_def flights_ok_def)
qed

lemma stream_claim_ok:
  assumes req: "requireDownload env u secret now0 (ty_db y) = Inr s" and mode: "ts_mode s = ''GENERATED_STREAM''"
    and run: "stream_begin env (ty_svc y) s rangeHeader now (ty_db y) = (Inr (Inr c), d')" and ok: "tsys_ok env y"
  shows "tsys_ok env (y\<lparr>ty_db := d', ty_streams := ty_streams y @ [ts_id s]\<rparr>)"
proof -
  let ?d = "ty_db y"
  have tables: "tables_ok ?d" and streams: "streams_ok ?d (ty_streams y)" using ok by (simp_all add: tsys_ok_def)
  have s: "find_session u ?d = Some s" using req by (rule requireDownload_row)
  then have su: "ts_id s = u" by (auto simp: find_session_def dest: find_key_SomeD)
  from run have claim: "count_rows (\<lambda>x. ts_id x = u \<and> stream_guard now x) (td_sessions ?d) = 1"
    and d': "d' = update_sessions (\<lambda>x. ts_id x = u \<and> stream_guard now x) (stream_started_write now) ?d"
    using su by (auto simp: stream_begin_def claim_stream_def split: if_splits option.splits sum.splits)
  from claim obtain q where "find_session u ?d = Some q" "q \<in> set (td_sessions ?d)" "ts_id q = u" "stream_guard now q"
    by (rule claimed_session [OF tables])
  with s have q: "s \<in> set (td_sessions ?d)" "stream_guard now s" by auto
  have calm: "calm {} ?d d'" unfolding d' by (rule calm_writes)
  have new: "u \<notin> set (ty_streams y)"
    using streams q mode su by (auto simp: streams_ok_def stream_guard_def)
  have started: "ts_startedAt t \<noteq> None" if "t \<in> set (td_sessions d')" "ts_id t = u" for t
  proof -
    from that(1) obtain t0 where t0: "t0 \<in> set (td_sessions ?d)"
        "t = (if ts_id t0 = u \<and> stream_guard now t0 then stream_started_write now t0 else t0)"
      unfolding d' update_sessions_def by (auto simp: row_simps)
    with that(2) have "ts_id t0 = u" by (auto simp: stream_started_write_def split: if_splits)
    then have "t0 = s" using session_unique [OF tables t0(1) q(1)] su by simp
    with t0(2) q(2) su show ?thesis by (simp add: stream_started_write_def)
  qed
  have "tsys_ok env (y\<lparr>ty_db := d'\<rparr>)" using calm_ok [OF calm _ ok] by simp
  with new started su show ?thesis by (auto simp: tsys_ok_def streams_ok_def)
qed

section \<open>Reachable states\<close>

lemma tsys_ok_flights: "tsys_ok env y \<Longrightarrow> set fs \<subseteq> set (ty_flights y) \<Longrightarrow> distinct (map fl_artifact fs) \<Longrightarrow>
    tsys_ok env (y\<lparr>ty_flights := fs\<rparr>)"
  by (auto simp: tsys_ok_def flights_ok_def)

lemma flight_end_calm: "flight_end f d d' \<Longrightarrow> calm N d d'"
  by (erule flight_endE) (auto intro: calm_intro)

theorem transfer_step_ok: "transfer_step env y y' \<Longrightarrow> tsys_ok env y \<Longrightarrow> tsys_ok env y'"
proof (induction rule: transfer_step.induct)
  case (tr_db y d')
  then show ?case using calm_ok [OF calm_tdb_step] by blast
next
  case (tr_svc y svc')
  then show ?case by (simp add: tsys_ok_def)
next
  case (tr_restart y svc')
  then show ?case by (simp add: tsys_ok_def flights_ok_def)
next
  case (tr_issue_stream u y rnd inp now r d')
  then show ?case using calm_ok [OF calm_issue_stream] by auto
next
  case (tr_issue_artifact y u rnd artifactId actor now r d')
  then show ?case using calm_ok [OF calm_issue_artifact] by auto
next
  case (tr_issue_upload y disk up now seen later r d')
  then show ?case by (rule issue_upload_ok)
next
  case (tr_stage disk u si now y path d')
  then show ?case by (rule stage_begin_ok)
next
  case (tr_upload y u secret clh cth now0 s now)
  then show ?case by (rule upload_claim_ok)
next
  case (tr_flight y fs f gs f' d')
  then show ?case using flight_step_ok by blast
next
  case (tr_end y fs f gs d')
  have "tsys_ok env (y\<lparr>ty_db := d'\<rparr>)" using calm_ok [OF flight_end_calm [OF tr_end(2)] _ tr_end(3)] by auto
  moreover have "distinct (map fl_artifact (fs @ gs))"
    using tr_end(1,3) by (auto simp: tsys_ok_def flights_ok_def)
  ultimately show ?case using tsys_ok_flights [of env "y\<lparr>ty_db := d'\<rparr>" "fs @ gs"] tr_end(1) by auto
next
  case (tr_stream u secret now0 y s rangeHeader now c d')
  then show ?case by (rule stream_claim_ok)
next
  case (tr_stream_refused u secret now0 y s rangeHeader now e d')
  then show ?case using calm_ok [OF calm_stream_begin] by blast
qed

lemma initial_ok: "tsys_ok env initial_tsys"
  by (simp add: tsys_ok_def initial_tsys_def empty_tdb_def content_ok_def tables_ok_def flights_ok_def streams_ok_def keyed_def)

theorem transfer_reachable_ok: "transfer_reachable env y \<Longrightarrow> tsys_ok env y"
  by (induction rule: transfer_reachable.induct) (auto intro: initial_ok transfer_step_ok)

end
