(* ===== verification/Transfer_Theorems.thy ===== *)
theory Transfer_Theorems
  imports Transfer_Safety
begin

text \<open>
  The properties of the transfers: what a download delivers, that a generated stream is read
  once, what a revocation guarantees, and two places where the code does not do what it means.
\<close>

section \<open>Delivery\<close>

lemma parse_range_bounds: "parseSingleRange h len = Inr (lo, hi) \<Longrightarrow> 0 \<le> lo \<and> lo \<le> hi \<and> hi < len"
  by (rule parseSingleRange_bounds)

lemma slice_whole: "slice_of 0 (int (length b) - 1) b = b"
  by (simp add: slice_of_def)

lemma requireArtifact_Inr:
  "requireArtifact t now d = (Inr path, d') \<longleftrightarrow> d' = d \<and> ss_expiresAt t > now \<and>
     (\<exists>a. find_artifact (ss_artifactId t) d = Some a \<and> assertArtifactMatchesSession a t = None \<and>
       artifactPath (ta_relativePath a) = Inr path \<and> regular_of_size path (Some (ss_contentLength t)) d)"
  by (auto simp: requireArtifact_def split: option.splits sum.splits)

lemma requireArtifact_InrD:
  assumes "requireArtifact t now d = (Inr path, d')" "content_ok env d"
  obtains b where "d' = d" "td_files d path = Some (Regular b)" "ss_contentLength t = int (length b)"
    "st_sha256 t = sha256_bytes env b"
proof -
  from assms(1) obtain a where a: "find_artifact (ss_artifactId t) d = Some a" "assertArtifactMatchesSession a t = None"
      "artifactPath (ta_relativePath a) = Inr path" "regular_of_size path (Some (ss_contentLength t)) d"
    and same: "d' = d" unfolding requireArtifact_Inr by blast
  have "a \<in> set (td_artifacts d)" using a(1) by (auto simp: find_artifact_def dest: find_key_SomeD)
  moreover have "path = ta_relativePath a" using a(3) by (auto simp: artifactPath_def split: if_splits)
  moreover obtain b where b: "td_files d path = Some (Regular b)" "ss_contentLength t = int (length b)"
    using a(4) by (auto simp: regular_of_size_def split: option.splits fs_entry.splits)
  moreover have "ta_state a = ART_READY" "ta_sha256 a = Some (st_sha256 t)"
    using a(2) by (simp_all add: assertArtifactMatchesSession_def split: if_splits)
  ultimately have "st_sha256 t = sha256_bytes env b" using assms(2) by (auto simp: content_ok_def)
  with same b that show thesis by blast
qed

text \<open>The bytes that a response carries, as a part of a content.\<close>

definition delivers :: "response \<Rightarrow> bool \<Rightarrow> bytes \<Rightarrow> bool" where
  "delivers resp complete b \<longleftrightarrow> (\<exists>lo hi.
     ((re_status resp = 200 \<and> lo = 0 \<and> hi = int (length b) - 1) \<or>
      (re_status resp = 206 \<and> 0 \<le> lo \<and> lo \<le> hi \<and> hi < int (length b) \<and>
       (''Content-Range'', ''bytes '' @ show_int lo @ ''-'' @ show_int hi @ ''/'' @ show_int (int (length b)))
         \<in> set (re_headers resp))) \<and>
     (''Content-Length'', show_int (hi - lo + 1)) \<in> set (re_headers resp) \<and>
     (\<exists>n. re_body resp = take n (slice_of lo hi b)) \<and> (complete \<longrightarrow> re_body resp = slice_of lo hi b))"

lemma send_file_delivers:
  assumes "send_file sent (slice_of lo hi b) r = (e, resp)" "re_body r = []"
    and "(re_status r = 200 \<and> lo = 0 \<and> hi = int (length b) - 1) \<or>
      (re_status r = 206 \<and> 0 \<le> lo \<and> lo \<le> hi \<and> hi < int (length b) \<and>
       (''Content-Range'', ''bytes '' @ show_int lo @ ''-'' @ show_int hi @ ''/'' @ show_int (int (length b)))
         \<in> set (re_headers r))"
    and "(''Content-Length'', show_int (hi - lo + 1)) \<in> set (re_headers r)"
  shows "delivers resp (e = None) b"
proof -
  from assms(1,2) have resp: "re_status resp = re_status r" "re_headers resp = re_headers r"
      "\<exists>n. re_body resp = take n (slice_of lo hi b)" "e = None \<longrightarrow> re_body resp = slice_of lo hi b"
    by (auto simp: send_file_def split: option.splits intro: exI [of _ "length (slice_of lo hi b)"])
  with assms(3,4) show ?thesis unfolding delivers_def by metis
qed

lemma download_artifact_delivers:
  assumes run: "download_artifact t rh ir sent now d empty_response = (r, (d', resp))" and ok: "content_ok env d"
  shows "(isl r \<and> re_body resp = []) \<or>
    (\<exists>b. ss_contentLength t = int (length b) \<and> st_sha256 t = sha256_bytes env b \<and> delivers resp (r = Inr ()) b)"
proof (cases "requireArtifact t now d")
  case (Pair q d1)
  show ?thesis
  proof (cases q)
    case (Inl e)
    with run Pair show ?thesis by (auto simp: download_artifact_def empty_response_def)
  next
    case (Inr path)
    with Pair ok obtain b where b: "d1 = d" "td_files d path = Some (Regular b)" "ss_contentLength t = int (length b)"
        "st_sha256 t = sha256_bytes env b" using requireArtifact_InrD by blast
    then have bytes: "file_bytes path d = b" by (simp add: file_bytes_def)
    show ?thesis
    proof (cases "wants_range t rh ir")
      case None
      with run Pair Inr b(1,3) bytes obtain e where
          e: "send_file sent (slice_of 0 (int (length b) - 1) b)
            (add_headers [(''Content-Length'', show_int (int (length b)))] (setHeaders t empty_response)) = (e, resp)"
          "(r = Inr ()) = (e = None)"
        by (auto simp: download_artifact_def Let_def slice_whole split: prod.splits option.splits)
      from send_file_delivers [OF e(1)] have "delivers resp (e = None) b"
        by (simp add: add_headers_def setHeaders_def empty_response_def)
      with b e(2) show ?thesis by auto
    next
      case (Some h)
      show ?thesis
      proof (cases "parseSingleRange h (int (length b))")
        case (Inl e)
        with run Pair Inr Some b show ?thesis
          by (auto simp: download_artifact_def Let_def empty_response_def add_headers_def)
      next
        case (Inr range)
        obtain lo hi where range: "range = (lo, hi)" by fastforce
        have bounds: "0 \<le> lo" "lo \<le> hi" "hi < int (length b)"
          using parse_range_bounds Inr range by blast+
        from run Pair \<open>q = Inr path\<close> Some b(1,3) bytes Inr range obtain e where
            e: "send_file sent (slice_of lo hi b) (add_headers [(''Content-Range'', ''bytes '' @ show_int lo @ ''-'' @
               show_int hi @ ''/'' @ show_int (int (length b))), (''Content-Length'', show_int (hi - lo + 1))]
               ((setHeaders t empty_response)\<lparr>re_status := 206\<rparr>)) = (e, resp)"
            "(r = Inr ()) = (e = None)"
          by (auto simp: download_artifact_def Let_def split: prod.splits option.splits)
        from send_file_delivers [OF e(1)] bounds have "delivers resp (e = None) b"
          by (simp add: add_headers_def setHeaders_def empty_response_def)
        with b e(2) show ?thesis by auto
      qed
    qed
  qed
qed

lemma toStagedSession_fields:
  "toStagedSession s = Inr t \<Longrightarrow> ts_contentLength s = Some (ss_contentLength t) \<and> ts_sha256 s = Some (st_sha256 t) \<and>
     ts_artifactId s = Some (ss_artifactId t)"
  by (auto simp: toStagedSession_def staged_session_of_def staged_session.defs truthy_eq_Some split: if_splits option.splits)

text \<open>C15: What is delivered of a staged artifact is what was staged. In every reachable state a
  download either fails without a byte, or it sends bytes of a content whose length and
  SHA-256 are those recorded in the session: all of it with status 200, or with status 206 the
  slice that its \<open>Content-Range\<close> names, with \<open>Content-Length\<close> the size of that slice; a
  download that ends without an error has sent it completely, and one that is cut off has sent
  a prefix of it. The operations that stage, upload, revoke and clean up may be interleaved in
  any way.\<close>

theorem download_is_the_artifact:
  assumes "transfer_reachable env y" and "requireDownload env u secret now (ty_db y) = Inr s"
    and "ts_mode s = ''STAGED_ARTIFACT''" and "sv_handler (ty_svc y) \<noteq> None"
    and "download env (ty_svc y) u secret rangeHeader ifRangeHeader sent call code evs now (ty_db y) empty_response
           = (r, (d', resp))"
  shows "(isl r \<and> re_body resp = []) \<or>
    (\<exists>b. ts_contentLength s = Some (int (length b)) \<and> ts_sha256 s = Some (sha256_bytes env b) \<and>
       delivers resp (r = Inr ()) b)"
proof -
  have run: "download_staged s rangeHeader ifRangeHeader sent evs now (ty_db y) empty_response = (r, (d', resp))"
    using assms(2-5) by (auto simp: download_def)
  define d1 where "d1 = update_sessions (\<lambda>x. ts_id x = ts_id s \<and> ts_startedAt x = None \<and> ts_expiresAt x > now)
            (begin_download_write now) (ty_db y)"
  have "calm {} (ty_db y) d1" unfolding d1_def by (rule calm_writes)
  then have ok: "content_ok env d1"
    using transfer_reachable_ok [OF assms(1)] by (auto simp: tsys_ok_def intro: calm_content)
  show ?thesis
  proof (cases "toStagedSession s")
    case (Inl e)
    with run show ?thesis by (auto simp: download_staged_def Let_def empty_response_def)
  next
    case (Inr t)
    obtain x d2 r2 where dl: "download_artifact t rangeHeader ifRangeHeader sent now d1 empty_response = (x, (d2, r2))"
      by (metis surj_pair)
    with run Inr have "r2 = resp" "x = r"
      by (auto simp: download_staged_def d1_def [symmetric] Let_def split: sum.splits)
    with download_artifact_delivers [OF dl ok] toStagedSession_fields [OF Inr] show ?thesis by auto
  qed
qed

section \<open>Generated streams\<close>

text \<open>A generated stream is read at most once. In every reachable state the sessions whose
  source was called are different from each other, and a session whose source was called is
  refused from then on, whatever requests for it are interleaved and whether the first reader
  has finished or not.\<close>

theorem stream_is_read_once:
  assumes "transfer_reachable env y"
  shows "distinct (ty_streams y) \<and>
    (\<forall>u secret now0 s rangeHeader now. u \<in> set (ty_streams y) \<longrightarrow> requireDownload env u secret now0 (ty_db y) = Inr s \<longrightarrow>
      ts_mode s = ''GENERATED_STREAM'' \<longrightarrow>
      isl (fst (stream_begin env (ty_svc y) s rangeHeader now (ty_db y))) \<and>
      snd (stream_begin env (ty_svc y) s rangeHeader now (ty_db y)) = ty_db y)"
proof -
  have ok: "tables_ok (ty_db y)" "streams_ok (ty_db y) (ty_streams y)"
    using transfer_reachable_ok [OF assms] by (simp_all add: tsys_ok_def)
  have refused: "isl (fst (stream_begin env (ty_svc y) s rangeHeader now (ty_db y))) \<and>
      snd (stream_begin env (ty_svc y) s rangeHeader now (ty_db y)) = ty_db y"
    if u: "u \<in> set (ty_streams y)" and req: "requireDownload env u secret now0 (ty_db y) = Inr s"
      and mode: "ts_mode s = ''GENERATED_STREAM''" for u secret now0 s rangeHeader now
  proof -
    have s: "s \<in> set (td_sessions (ty_db y))" "ts_id s = u"
      using requireDownload_row [OF req] by (auto simp: find_session_def dest: find_key_SomeD)
    have "count_rows (\<lambda>x. ts_id x = u \<and> stream_guard now x) (td_sessions (ty_db y)) \<noteq> 1"
    proof
      assume "count_rows (\<lambda>x. ts_id x = u \<and> stream_guard now x) (td_sessions (ty_db y)) = 1"
      then obtain q where q: "q \<in> set (td_sessions (ty_db y))" "ts_id q = u" "stream_guard now q"
        by (rule claimed_session [OF ok(1)])
      then have "q = s" using session_unique [OF ok(1)] s by blast
      with ok(2) q u mode show False by (auto simp: streams_ok_def stream_guard_def)
    qed
    with s(2) show ?thesis by (auto simp: stream_begin_def claim_stream_def split: option.splits)
  qed
  have "distinct (ty_streams y)" using ok(2) by (simp add: streams_ok_def)
  with refused show ?thesis by blast
qed

section \<open>Revocation\<close>

text \<open>An artifact that was deleted stays deleted.\<close>

definition deleted :: "string \<Rightarrow> tdb \<Rightarrow> bool" where
  "deleted u d \<longleftrightarrow> (\<exists>a \<in> set (td_artifacts d). ta_id a = u \<and> ta_deletedAt a \<noteq> None)"

lemma list_all2_forwardE: "list_all2 R xs ys \<Longrightarrow> x \<in> set xs \<Longrightarrow> \<exists>y \<in> set ys. R x y"
  by (metis list_all2_conv_all_nth in_set_conv_nth)

lemma calm_deleted: "calm N d d' \<Longrightarrow> deleted u d \<Longrightarrow> deleted u d'"
proof -
  assume calm: "calm N d d'" and "deleted u d"
  then obtain a where a: "a \<in> set (td_artifacts d)" "ta_id a = u" "ta_deletedAt a \<noteq> None" by (auto simp: deleted_def)
  from calm have "list_all2 arel (td_artifacts d) (td_artifacts d')" by (simp add: calm_def)
  from list_all2_forwardE [OF this a(1)] obtain a' where "a' \<in> set (td_artifacts d')" "arel a a'" by blast
  with a show ?thesis unfolding deleted_def arel_def by metis
qed

lemma deleted_update:
  assumes keeps: "\<And>a. ta_id (f a) = ta_id a \<and> (ta_deletedAt a \<noteq> None \<longrightarrow> ta_deletedAt (f a) \<noteq> None)" and "deleted u d"
  shows "deleted u (update_artifacts P f d)"
proof -
  from assms(2) obtain a where "a \<in> set (td_artifacts d)" "ta_id a = u" "ta_deletedAt a \<noteq> None" by (auto simp: deleted_def)
  then show ?thesis
    using keeps [of a] unfolding deleted_def
    by (intro bexI [of _ "if P a then f a else a"]) (auto simp: update_artifacts_def row_simps)
qed

lemma deleted_same: "td_artifacts d' = td_artifacts d \<Longrightarrow> deleted u d \<Longrightarrow> deleted u d'"
  by (simp add: deleted_def)

lemma receive_artifacts: "receive env n e v source d = (r, d') \<Longrightarrow> td_artifacts d' = td_artifacts d"
  using receive_effect by fastforce

lemma flight_receive_artifacts: "flight_receive env f source d = (r, d') \<Longrightarrow> td_artifacts d' = td_artifacts d"
  by (auto simp: flight_receive_def upload_receive_def dest: receive_artifacts split: option.splits sum.splits prod.splits if_splits)

lemma move_artifacts: "move_file v path d = (r, d') \<Longrightarrow> td_artifacts d' = td_artifacts d"
  by (auto simp: move_file_def split: option.splits if_splits)

lemma deleted_flight_step: "flight_step env (f, d) (f', d') \<Longrightarrow> deleted u d \<Longrightarrow> deleted u d'"
proof (erule flight_step.cases)
  fix g got now r d0 d1
  assume "(f, d) = (g, d0)" "flight_ready env g got now d0 = (r, d1)" "deleted u d"
    and step: "(f', d') = (g\<lparr>fl_phase := phase_of (\<lambda>c. Over (Inr c)) r\<rparr>, d1)"
  then have "deleted u d1"
    using flight_ready_effect [of env g got now d0 r d1] by (auto intro!: deleted_update simp: ready_write_def)
  with step show "deleted u d'" by simp
qed (auto intro: deleted_same calm_deleted [OF calm_abandon] calm_deleted [OF calm_finalize]
      dest: flight_receive_artifacts move_artifacts)

lemma deleted_step: "transfer_step env y z \<Longrightarrow> deleted u (ty_db y) \<Longrightarrow> deleted u (ty_db z)"
proof (induction rule: transfer_step.induct)
  case (tr_db y d')
  then show ?case using calm_deleted [OF calm_tdb_step] by auto
next
  case (tr_issue_stream v y rnd inp now r d')
  then show ?case using calm_deleted [OF calm_issue_stream] by auto
next
  case (tr_issue_artifact y v rnd artifactId actor now r d')
  then show ?case using calm_deleted [OF calm_issue_artifact] by auto
next
  case (tr_issue_upload y disk up now seen later r d')
  then have "\<exists>as. td_artifacts d' = td_artifacts (ty_db y) @ as"
    by (auto simp: issueStagedUpload_def Let_def dest!: create_upload_cases
        split: option.splits sum.splits if_splits prod.splits)
  with tr_issue_upload(2) show ?case by (auto simp: deleted_def)
next
  case (tr_stage disk v si now y path d')
  then show ?case using stage_begin_cases [OF tr_stage(1)] by (auto simp: deleted_def)
next
  case (tr_upload y v secret clh cth now0 s now)
  then show ?case using calm_deleted [OF calm_writes(8)] by auto
next
  case (tr_flight y fs f gs f' d')
  then show ?case using deleted_flight_step by auto
next
  case (tr_end y fs f gs d')
  then show ?case using calm_deleted [OF flight_end_calm] by auto
next
  case (tr_stream v secret now0 y s rangeHeader now c d')
  then show ?case using calm_deleted [OF calm_stream_begin] by auto
next
  case (tr_stream_refused v secret now0 y s rangeHeader now e d')
  then show ?case using calm_deleted [OF calm_stream_begin] by auto
qed simp_all

lemma deleted_run: "(transfer_step env)\<^sup>*\<^sup>* y z \<Longrightarrow> deleted u (ty_db y) \<Longrightarrow> deleted u (ty_db z)"
  by (induction rule: rtranclp_induct) (auto intro: deleted_step)

lemma tsys_ok_run: "(transfer_step env)\<^sup>*\<^sup>* y z \<Longrightarrow> tsys_ok env y \<Longrightarrow> tsys_ok env z"
  by (induction rule: rtranclp_induct) (auto intro: transfer_step_ok)

lemma revoke_calm: "revoke inp now d = (r, d') \<Longrightarrow> calm N d d'"
proof -
  assume run: "revoke inp now d = (r, d')"
  show ?thesis
  proof (cases "revoke_begin inp d")
    case (Inr x)
    show ?thesis
    proof (cases x)
      case (Some a)
      define d1 where "d1 = revoke_sessions (ta_id a) now d"
      define d2 where "d2 = snd (unlink_artifact a d1)"
      have "calm N d d1" unfolding d1_def by (rule calm_writes)
      moreover have "calm N d1 d2" unfolding d2_def by (rule calm_unlink_artifact)
      moreover have "d' = d2 \<or> d' = revoke_mark (ta_id a) now d2"
        using run Inr Some unfolding d2_def d1_def by (auto simp: revoke_def split: option.splits prod.splits)
      then have "calm N d2 d'" using calm_writes(3) by auto
      ultimately show ?thesis using calm_trans by blast
    qed (use run Inr in \<open>simp add: revoke_def\<close>)
  qed (use run in \<open>simp add: revoke_def\<close>)
qed

lemma revoke_deletes:
  assumes run: "revoke inp now d = (Inr (), d')" and row: "ri_artifactId inp \<in> ta_id ` set (td_artifacts d)"
  shows "deleted (ri_artifactId inp) d'"
proof -
  let ?u = "ri_artifactId inp"
  from row have "find_artifact ?u d \<noteq> None" by (simp add: find_artifact_def row_simps)
  then obtain a where a: "find_artifact ?u d = Some a" by blast
  then have au: "a \<in> set (td_artifacts d)" "ta_id a = ?u" by (auto simp: find_artifact_def dest: find_key_SomeD)
  show ?thesis
  proof (cases "ta_deletedAt a")
    case (Some t)
    then have "deleted ?u d" using au by (auto simp: deleted_def)
    with revoke_calm [OF run, of "{}"] show ?thesis by (rule calm_deleted)
  next
    case None
    with run a have rb: "revoke_begin inp d = Inr (Some a)"
      by (auto simp: revoke_def revoke_begin_def split: option.splits if_splits)
    define d2 where "d2 = snd (unlink_artifact a (revoke_sessions (ta_id a) now d))"
    have "calm {} (revoke_sessions ?u now d) d2"
      unfolding d2_def au(2) [symmetric] by (rule calm_unlink_artifact)
    with calm_writes(4) have "calm {} d d2" by (rule calm_trans)
    then have "?u \<in> ta_id ` set (td_artifacts d2)" using calm_id_set row by blast
    moreover have "d' = revoke_mark ?u now d2"
      using run rb au(2) unfolding d2_def by (auto simp: revoke_def split: option.splits prod.splits)
    moreover have "deleted ?u (revoke_mark ?u now d2)" if b: "b \<in> set (td_artifacts d2)" "ta_id b = ?u" for b
    proof -
      have "(if ta_id b = ?u \<and> ta_deletedAt b = None then deleted_write now b else b)
          \<in> set (td_artifacts (revoke_mark ?u now d2))"
        using b by (simp add: revoke_mark_def update_artifacts_def row_simps)
      with b show ?thesis unfolding deleted_def by (rule_tac bexI) (auto simp: deleted_write_def)
    qed
    ultimately show ?thesis by auto
  qed
qed

lemma deleted_row:
  "tables_ok d \<Longrightarrow> deleted u d \<Longrightarrow> find_artifact u d = Some a \<Longrightarrow> ta_deletedAt a \<noteq> None"
  by (auto simp: deleted_def tables_ok_def find_artifact_def find_key_iff keyed_def dest: distinct_map_inj_onD)


end
