(* ===== verification/Transfer_Lifecycle.thy ===== *)
theory Transfer_Lifecycle
  imports Transfer_Safety "HOL-Library.Multiset"
begin

text \<open>
  The life of an artifact from its upload or staging to the sweep that removes it: the bytes that
  were uploaded are the ones the panel finds, a sweep removes what is expired, and two lives
  that end wrong.
\<close>

section \<open>An upload is found again\<close>

lemma meter_all: "meter limit e None chunks got = (b, None) \<Longrightarrow> b = got @ concat chunks"
  by (induction limit e "None :: exn option" chunks got rule: meter.induct) (auto split: if_splits)

lemma or_abandon_Inr:
  "or_abandon u path now r k = (Inr v, d') \<longleftrightarrow> (\<exists>x d. r = (Inr x, d) \<and> k x d = (Inr v, d'))"
  by (auto simp: or_abandon_def abandon_def split: prod.splits sum.splits option.splits)

lemma receive_Inr:
  "receive env n e u source d = (Inr got, d') \<Longrightarrow> src_error source = None \<Longrightarrow>
     got = concat (src_chunks source) \<and> d' = d\<lparr>td_partials := (td_partials d)(partial_name u \<mapsto> Regular got)\<rparr>"
  by (auto simp: receive_def Let_def dest: meter_all split: if_splits prod.splits option.splits)

lemma move_Inr:
  "move_file u path d = (Inr x, d') \<Longrightarrow> td_partials d (partial_name u) = Some (Regular got) \<Longrightarrow>
     d' = d\<lparr>td_partials := (td_partials d)(partial_name u := None), td_files := (td_files d)(path \<mapsto> Regular got)\<rparr>"
  by (auto simp: move_file_def split: if_splits)

text \<open>What an upload leaves: the file, the row of the artifact and the result.\<close>

lemma upload_artifact_Inr:
  assumes "upload_artifact env s source now d = (Inr c, d')" "src_error source = None"
  shows "\<exists>a path ps. validateUploadSession env s now = None \<and> find_artifact (ss_artifactId s) d = Some a \<and>
    assertUploadArtifactMatchesSession a s ART_STAGING = None \<and> artifactPath (ta_relativePath a) = Inr path \<and>
    int (length (concat (src_chunks source))) = ss_contentLength s \<and>
    c = \<lparr>cu_artifactId = ss_artifactId s, cu_sizeBytes = int (length (concat (src_chunks source))),
         cu_sha256 = sha256_bytes env (concat (src_chunks source))\<rparr> \<and>
    d' = update_artifacts (\<lambda>a. ta_id a = ss_artifactId s \<and> staging_guard a)
           (ready_write env (concat (src_chunks source)) now)
           (d\<lparr>td_partials := ps, td_files := (td_files d)(path \<mapsto> Regular (concat (src_chunks source)))\<rparr>)"
proof -
  let ?b = "concat (src_chunks source)"
  obtain path where path: "upload_begin env s now d = Inr path"
    using assms(1) by (cases "upload_begin env s now d") (auto simp: upload_artifact_def)
  then obtain a where a: "validateUploadSession env s now = None" "find_artifact (ss_artifactId s) d = Some a"
      "assertUploadArtifactMatchesSession a s ART_STAGING = None" "artifactPath (ta_relativePath a) = Inr path"
    by (auto simp: upload_begin_def split: option.splits)
  from assms(1) path obtain got d1 d2 where
      rec: "upload_receive env s source d = (Inr got, d1)" and
      mv: "move_file (ss_artifactId s) path d1 = (Inr (), d2)" and
      rd: "upload_ready env (ss_artifactId s) got now d2 = (Inr c, d')"
    by (auto simp: upload_artifact_def or_abandon_Inr)
  from rec have "receive env (ss_contentLength s) upload_overflow (ss_artifactId s) source d = (Inr got, d1)"
    and len: "int (length got) = ss_contentLength s"
    by (auto simp: upload_receive_def split: prod.splits sum.splits if_splits)
  from receive_Inr [OF this(1) assms(2)] have got: "got = ?b"
    and d1: "d1 = d\<lparr>td_partials := (td_partials d)(partial_name (ss_artifactId s) \<mapsto> Regular got)\<rparr>" by auto
  from move_Inr [OF mv, of got] d1 obtain ps where
      d2: "d2 = d\<lparr>td_partials := ps, td_files := (td_files d)(path \<mapsto> Regular ?b)\<rparr>" using got by auto
  from rd have "c = \<lparr>cu_artifactId = ss_artifactId s, cu_sizeBytes = int (length got), cu_sha256 = sha256_bytes env got\<rparr>"
      "d' = update_artifacts (\<lambda>a. ta_id a = ss_artifactId s \<and> staging_guard a) (ready_write env got now) d2"
    by (auto simp: upload_ready_def split: if_splits)
  with a got d2 len show ?thesis by blast
qed

lemma finalize_Inr:
  assumes "finalizeUpload u c now d = (Inr x, d')" "find_session u d = Some q" "open_guard q" "keyed ts_id (td_sessions d)"
  shows "d' = update_sessions (\<lambda>x. ts_id x = u \<and> open_guard x) (completed_write c now) d \<and>
    ts_artifactId q = Some (cu_artifactId c) \<and> ts_contentLength q = Some (cu_sizeBytes c) \<and> rx_test SHA256_HEX (cu_sha256 c)"
proof -
  have "count_rows (\<lambda>x. ts_id x = u \<and> open_guard x) (td_sessions d) = 1"
    using sessions.guard_hit [THEN iffD2, OF assms(4)] assms(2,3) by blast
  with assms(1,2) show ?thesis by (auto simp: finalizeUpload_def split: if_splits)
qed

lemma find_session_update:
  "(\<And>s. ts_id (f s) = ts_id s) \<Longrightarrow> find_session u (update_sessions P f d)
     = map_option (\<lambda>s. if P s then f s else s) (find_session u d)"
  by (rule sessions.look_update)

lemma find_artifact_update:
  "(\<And>a. ta_id (f a) = ta_id a) \<Longrightarrow> find_artifact u (update_artifacts P f d)
     = map_option (\<lambda>a. if P a then f a else a) (find_artifact u d)"
  by (rule artifacts.look_update)

lemma toStagedUploadSession_Inr:
  "toStagedUploadSession s = Inr t \<Longrightarrow> t = staged_session_of s (ss_artifactId t) (ss_contentLength t) \<and>
     ts_purpose s = ''UPLOAD'' \<and> ts_mode s = ''STAGED_ARTIFACT'' \<and> ts_artifactId s = Some (ss_artifactId t) \<and>
     ss_artifactId t \<noteq> [] \<and> ts_contentLength s = Some (ss_contentLength t)"
  by (auto simp: toStagedUploadSession_def staged_session_of_def truthy_eq_Some split: if_splits option.splits)

lemma staged_session_of_fields:
  "t = staged_session_of s a n \<Longrightarrow> ss_id t = ts_id s \<and> ss_sourceKind t = ts_sourceKind s \<and> ss_resourceId t = ts_resourceId s \<and>
     ss_actorUserId t = ts_actorUserId s \<and> ss_target t = ts_target s \<and> ss_contentType t = ts_contentType s \<and>
     ss_filename t = ts_filename s"
  by (simp add: staged_session_of_def)

lemma upload_leaves:
  assumes tables: "tables_ok d" and row: "find_session u d = Some s" and claimed: "upload_claimed u now d"
    and run: "upload env svc u secret clh cth source now d = (Inr c, d')" and source: "src_error source = None"
  obtains t a path where "toStagedUploadSession s = Inr t" "ts_id s = u" "validateUploadSession env t now = None"
    "assertUploadArtifactMatchesSession a t ART_STAGING = None" "ta_id a = ss_artifactId t"
    "artifactPath (ta_relativePath a) = Inr path"
    "int (length (concat (src_chunks source))) = ss_contentLength t"
    "c = \<lparr>cu_artifactId = ss_artifactId t, cu_sizeBytes = int (length (concat (src_chunks source))),
       cu_sha256 = sha256_bytes env (concat (src_chunks source))\<rparr>"
    "find_session u d' = Some (completed_write c now (begin_download_write now s))"
    "find_artifact (ss_artifactId t) d' = Some (ready_write env (concat (src_chunks source)) now a)"
    "td_files d' path = Some (Regular (concat (src_chunks source)))" "rx_test SHA256_HEX (cu_sha256 c)"
proof -
  let ?b = "concat (src_chunks source)" and ?d1 = "claim_upload u now d"
  have keyed: "keyed ts_id (td_sessions d)" using tables by (simp add: tables_ok_def)
  from run obtain t where check: "upload_check env svc u secret clh cth now d = Inr t"
    by (cases "upload_check env svc u secret clh cth now d") (auto simp: upload_def)
  from check row have t: "toStagedUploadSession s = Inr t"
    by (auto simp: upload_check_def dest: requireSession_row split: sum.splits if_splits)
  have "ts_id s = u" using row by (auto simp: find_session_def dest: find_key_SomeD)
  with staged_session_of_fields [OF conjunct1 [OF toStagedUploadSession_Inr [OF t]]]
  have su: "ts_id s = u" "ss_id t = u" by simp_all
  from claimed have guard: "upload_guard now s"
    unfolding upload_claimed_def by (rule claimed_session [OF tables]) (use row in simp)
  from run check su claimed obtain d2 where art: "upload_artifact env t source now ?d1 = (Inr c, d2)"
    and fin: "finalizeUpload u c now d2 = (Inr (), d')"
    by (auto simp: upload_def split: sum.splits prod.splits)
  from upload_artifact_Inr [OF art source] obtain a path ps where
      a: "validateUploadSession env t now = None" "find_artifact (ss_artifactId t) ?d1 = Some a"
         "assertUploadArtifactMatchesSession a t ART_STAGING = None" "artifactPath (ta_relativePath a) = Inr path"
         "int (length ?b) = ss_contentLength t"
         "c = \<lparr>cu_artifactId = ss_artifactId t, cu_sizeBytes = int (length ?b), cu_sha256 = sha256_bytes env ?b\<rparr>"
    and d2: "d2 = update_artifacts (\<lambda>a. ta_id a = ss_artifactId t \<and> staging_guard a) (ready_write env ?b now)
           (?d1\<lparr>td_partials := ps, td_files := (td_files ?d1)(path \<mapsto> Regular ?b)\<rparr>)" by blast
  define s1 where "s1 = begin_download_write now s"
  have "find_session u ?d1 = Some s1"
    using row guard su by (simp add: claim_upload_def find_session_update begin_download_write_def s1_def)
  then have s1: "find_session u d2 = Some s1" by (simp add: d2 update_artifacts_def find_session_def)
  have keyed2: "keyed ts_id (td_sessions d2)"
    using keyed by (simp add: d2 update_artifacts_def claim_upload_def update_sessions_def keyed_update_rows begin_download_write_def)
  have open1: "open_guard s1" using guard by (simp add: s1_def begin_download_write_def open_guard_def upload_guard_def)
  from finalize_Inr [OF fin s1 open1 keyed2] have
      d': "d' = update_sessions (\<lambda>x. ts_id x = u \<and> open_guard x) (completed_write c now) d2"
    and sha: "rx_test SHA256_HEX (cu_sha256 c)" by auto
  have s2: "find_session u d' = Some (completed_write c now s1)"
    using s1 open1 su by (simp add: d' find_session_update completed_write_def s1_def begin_download_write_def)
  have ida: "ta_id a = ss_artifactId t" using a(2) by (auto simp: find_artifact_def dest: find_key_SomeD)
  have guarda: "staging_guard a" using a(3) by (auto simp: assertUploadArtifactMatchesSession_def staging_guard_def split: if_splits)
  have "find_artifact (ss_artifactId t) (?d1\<lparr>td_partials := ps, td_files := (td_files ?d1)(path \<mapsto> Regular ?b)\<rparr>) = Some a"
    using a(2) by (simp add: find_artifact_def)
  then have "find_artifact (ss_artifactId t) d2 = Some (ready_write env ?b now a)"
    using ida guarda by (simp add: d2 find_artifact_update ready_write_def)
  then have a2: "find_artifact (ss_artifactId t) d' = Some (ready_write env ?b now a)"
    by (simp add: d' update_sessions_def find_artifact_def)
  have "td_files d' path = Some (Regular ?b)"
    by (simp add: d' d2 update_sessions_def update_artifacts_def)
  with that [OF t su(1) a(1,3) ida a(4-6) s2 [unfolded s1_def] a2 _ sha] show thesis by simp
qed

text \<open>C17: What a browser uploaded is what the panel gets. When an upload that claimed its session
  returns, the source of the bytes having ended without an error, then asking for the uploaded
  artifact of that session, as the file manager and the database import do, returns a file that
  holds exactly the concatenation of the chunks that were sent, with their length and SHA-256,
  as long as the artifact is not expired.\<close>

theorem uploaded_bytes_are_found:
  assumes reach: "transfer_reachable env y"
    and row: "find_session u (ty_db y) = Some s" and claimed: "upload_claimed u now (ty_db y)"
    and run: "upload env (ty_svc y) u secret clh cth source now (ty_db y) = (Inr c, d')"
    and source: "src_error source = None"
    and alive: "\<And>a. find_artifact (cu_artifactId c) d' = Some a \<Longrightarrow> now' < ta_expiresAt a"
  shows "\<exists>res. requireUploadedArtifact \<lparr>ui_sessionId = u, ui_sourceKind = ts_sourceKind s, ui_resourceId = ts_resourceId s,
        ui_actorUserId = ts_actorUserId s\<rparr> now' d' = Inr res \<and>
      td_files d' (ur_path res) = Some (Regular (concat (src_chunks source))) \<and>
      cu_sizeBytes res = int (length (concat (src_chunks source))) \<and>
      cu_sha256 res = sha256_bytes env (concat (src_chunks source)) \<and> completed_upload.truncate res = c"
proof -
  let ?b = "concat (src_chunks source)"
  have tables: "tables_ok (ty_db y)" using transfer_reachable_ok [OF reach] by (simp add: tsys_ok_def)
  from upload_leaves [OF tables row claimed run source] obtain t a path where
      t: "toStagedUploadSession s = Inr t" "ts_id s = u" "validateUploadSession env t now = None"
         "assertUploadArtifactMatchesSession a t ART_STAGING = None" "ta_id a = ss_artifactId t"
         "artifactPath (ta_relativePath a) = Inr path" "int (length ?b) = ss_contentLength t"
    and c: "c = \<lparr>cu_artifactId = ss_artifactId t, cu_sizeBytes = int (length ?b), cu_sha256 = sha256_bytes env ?b\<rparr>"
    and s2: "find_session u d' = Some (completed_write c now (begin_download_write now s))"
    and a2: "find_artifact (ss_artifactId t) d' = Some (ready_write env ?b now a)"
    and files: "td_files d' path = Some (Regular ?b)" and sha: "rx_test SHA256_HEX (cu_sha256 c)" by metis
  note fields = toStagedUploadSession_Inr [OF t(1)]
  note same = staged_session_of_fields [OF conjunct1 [OF fields]]
  have valid: "assertTransferResource (ts_sourceKind s) (ts_resourceId s) = None"
    "rx_test TRANSFER_UUID u" "rx_test TRANSFER_UUID (ts_actorUserId s)"
    using t(2,3) same by (auto simp: validateUploadSession_def assertTransferActor_def split: if_splits)
  have ready: "uploaded_ready \<lparr>ui_sessionId = u, ui_sourceKind = ts_sourceKind s, ui_resourceId = ts_resourceId s,
        ui_actorUserId = ts_actorUserId s\<rparr> (completed_write c now (begin_download_write now s))"
    using fields sha by (auto simp: uploaded_ready_def completed_write_def begin_download_write_def
        truthy_eq_Some SHA256_HEX_def rx_test_Rep_Cls)
  have match: "assertUploadArtifactMatchesSession (ready_write env ?b now a)
      (staged_session_of (completed_write c now (begin_download_write now s)) (ss_artifactId t) (ss_contentLength t)) ART_READY = None"
    using t(4,7) same by (auto simp: assertUploadArtifactMatchesSession_def ready_write_def
        staged_session_of_def completed_write_def begin_download_write_def split: if_splits)
  have "now' < ta_expiresAt (ready_write env ?b now a)" using alive a2 by (simp add: c)
  with s2 valid ready a2 match files sha t(5-7) fields show ?thesis
    by (auto simp: requireUploadedArtifact_def ready_write_def completed_write_def
        begin_download_write_def c sha_shaped_def regular_of_size_def completed_of_def completed_upload.defs)
qed

section \<open>The sweep\<close>

text \<open>An expired artifact that the sweep can remove: no session of it is alive, and its name is a file.\<close>

definition removable :: "time \<Rightarrow> tdb \<Rightarrow> artifact_row \<Rightarrow> bool" where
  "removable now d a \<longleftrightarrow> artifactPath (ta_relativePath a) = Inr (ta_relativePath a) \<and>
     td_files d (ta_relativePath a) \<noteq> Some Directory \<and>
     (\<forall>s \<in> set (td_sessions d). ts_artifactId s = Some (ta_id a) \<longrightarrow> ts_expiresAt s \<le> now)"

lemma cleanup_one_removable:
  "removable now d a \<Longrightarrow> cleanup_one now a d =
     (Inr (), revoke_mark (ta_id a) now (d\<lparr>td_files := (td_files d)(ta_relativePath a := None)\<rparr>))"
proof -
  assume rem: "removable now d a"
  then have "count_rows (\<lambda>s. ts_artifactId s = Some (ta_id a) \<and> ts_expiresAt s > now) (td_sessions d) = 0"
    by (auto simp: row_simps removable_def)
  with rem show ?thesis by (simp add: cleanup_one_def removable_def unlinkIfExists_def)
qed

text \<open>The loop marks exactly the artifacts it is given, and removes their files.\<close>

lemma cleanup_loop:
  "(\<And>a. a \<in> set rs \<Longrightarrow> removable now d a) \<Longrightarrow> \<exists>d'. each_row (cleanup_one now) rs d = (Inr (), d') \<and>
     td_sessions d' = td_sessions d \<and>
     td_artifacts d' = update_rows (\<lambda>a. ta_id a \<in> ta_id ` set rs \<and> ta_deletedAt a = None) (deleted_write now) (td_artifacts d) \<and>
     td_files d' = (\<lambda>n. if n \<in> ta_relativePath ` set rs then None else td_files d n)"
proof (induction rs arbitrary: d)
  case Nil
  show ?case by (simp add: update_rows_def)
next
  case (Cons r rs)
  define d1 where "d1 = revoke_mark (ta_id r) now (d\<lparr>td_files := (td_files d)(ta_relativePath r := None)\<rparr>)"
  have d1: "cleanup_one now r d = (Inr (), d1)" using cleanup_one_removable Cons.prems by (simp add: d1_def)
  have "removable now d1 a" if "a \<in> set rs" for a
    using Cons.prems [of a] that by (auto simp: removable_def d1_def revoke_mark_def update_artifacts_def)
  from Cons.IH [OF this] obtain d' where d': "each_row (cleanup_one now) rs d1 = (Inr (), d')"
      "td_sessions d' = td_sessions d1"
      "td_artifacts d' = update_rows (\<lambda>a. ta_id a \<in> ta_id ` set rs \<and> ta_deletedAt a = None) (deleted_write now) (td_artifacts d1)"
      "td_files d' = (\<lambda>n. if n \<in> ta_relativePath ` set rs then None else td_files d1 n)" by blast
  have "td_artifacts d' = update_rows (\<lambda>a. ta_id a \<in> ta_id ` set (r # rs) \<and> ta_deletedAt a = None) (deleted_write now) (td_artifacts d)"
    unfolding d'(3) d1_def revoke_mark_def update_artifacts_def update_rows_def by (auto simp: deleted_write_def)
  with d1 d' show ?case
    by (auto simp: d1_def revoke_mark_def update_artifacts_def)
qed

definition expired_rows :: "time \<Rightarrow> tdb \<Rightarrow> artifact_row list" where
  "expired_rows now d = filter (expired_artifact now) (td_artifacts d)"

lemma expired_rows_deleted:
  "filter (expired_artifact now) (update_rows (\<lambda>a. ta_id a \<in> I \<and> ta_deletedAt a = None) (deleted_write now) as)
     = filter (\<lambda>a. ta_id a \<notin> I) (filter (expired_artifact now) as)"
  by (induction as) (auto simp: update_rows_def expired_artifact_def deleted_write_def)

lemma filter_append_tail:
  "(\<And>x. x \<in> set as \<Longrightarrow> \<not> P x) \<Longrightarrow> (\<And>x. x \<in> set bs \<Longrightarrow> P x) \<Longrightarrow> filter P (as @ bs) = bs"
  by (simp add: filter_id_conv)

lemma length_filter_take:
  fixes xs ys :: "'r list" and k :: "'r \<Rightarrow> 'k"
  assumes "distinct (map k xs)" "mset ys = mset xs"
  shows "length (filter (\<lambda>x. k x \<notin> k ` set (take n ys)) xs) = length xs - n"
proof -
  have dys: "distinct (map k ys)"
    using assms by (metis distinct_map mset_eq_imp_distinct_iff mset_map)
  have "length (filter (\<lambda>x. k x \<notin> k ` set (take n ys)) xs) = length (filter (\<lambda>x. k x \<notin> k ` set (take n ys)) ys)"
    using assms(2) by (metis mset_filter size_mset)
  also have "filter (\<lambda>x. k x \<notin> k ` set (take n ys)) ys = drop n ys"
  proof -
    have sep: "k x \<notin> k ` set (take n ys)" if "x \<in> set (drop n ys)" for x
    proof
      assume "k x \<in> k ` set (take n ys)"
      then obtain y where "y \<in> set (take n ys)" "k y = k x" by auto
      moreover have "distinct (map k (take n ys) @ map k (drop n ys))"
        using dys by (metis append_take_drop_id map_append)
      then have "k ` set (take n ys) \<inter> k ` set (drop n ys) = {}" by simp
      ultimately show False using that by (metis IntI empty_iff image_eqI)
    qed
    have "filter (\<lambda>x. k x \<notin> k ` set (take n ys)) (take n ys @ drop n ys) = drop n ys"
      by (rule filter_append_tail) (simp, rule sep)
    then show ?thesis unfolding append_take_drop_id .
  qed
  finally show ?thesis using mset_eq_length [OF assms(2)] by simp
qed

lemma sweep_once:
  assumes keyed: "keyed ta_id (td_artifacts d)" and rem: "\<And>a. a \<in> set (expired_rows now d) \<Longrightarrow> removable now d a"
  shows "\<exists>d'. cleanupExpired now d = (Inr (), d') \<and> length (expired_rows now d') = length (expired_rows now d) - 100 \<and>
    keyed ta_id (td_artifacts d') \<and> set (expired_rows now d') \<subseteq> set (expired_rows now d) \<and>
    (\<forall>a \<in> set (expired_rows now d'). removable now d' a) \<and>
    (\<forall>a \<in> set (expired_rows now d) - set (expired_rows now d'). td_files d' (ta_relativePath a) = None) \<and>
    (\<forall>n. td_files d n = None \<longrightarrow> td_files d' n = None)"
proof -
  define E where "E = expired_rows now d"
  define B where "B = take 100 (sort_key ta_expiresAt E)"
  have BE: "set B \<subseteq> set E" unfolding B_def using set_take_subset by fastforce
  with rem have "removable now d a" if "a \<in> set B" for a using that E_def by blast
  from cleanup_loop [OF this] obtain d' where d': "each_row (cleanup_one now) B d = (Inr (), d')"
      "td_sessions d' = td_sessions d"
      "td_artifacts d' = update_rows (\<lambda>a. ta_id a \<in> ta_id ` set B \<and> ta_deletedAt a = None) (deleted_write now) (td_artifacts d)"
      "td_files d' = (\<lambda>n. if n \<in> ta_relativePath ` set B then None else td_files d n)" by blast
  have E': "expired_rows now d' = filter (\<lambda>a. ta_id a \<notin> ta_id ` set B) E"
    unfolding expired_rows_def d'(3) E_def by (rule expired_rows_deleted)
  have "distinct (map ta_id E)" using keyed unfolding keyed_def E_def expired_rows_def by (rule distinct_map_filter)
  then have len: "length (expired_rows now d') = length E - 100" and inj: "inj_on ta_id (set E)"
    unfolding E' B_def by (simp_all add: length_filter_take distinct_map)
  have gone: "a \<in> set B" if "a \<in> set E - set (expired_rows now d')" for a
    using that E' BE inj by (auto simp: inj_on_def)
  have keyed': "keyed ta_id (td_artifacts d')" using keyed by (simp add: d'(3) keyed_update_rows deleted_write_def)
  have "cleanupExpired now d = (Inr (), d')"
    using d'(1) by (simp add: cleanupExpired_def B_def E_def expired_rows_def)
  moreover have "removable now d' a" if "a \<in> set (expired_rows now d')" for a
    using rem [of a] that E' d'(2,4) by (auto simp: removable_def E_def)
  moreover have "td_files d' (ta_relativePath a) = None" if "a \<in> set E - set (expired_rows now d')" for a
    using gone [OF that] d'(4) by simp
  moreover have "set (expired_rows now d') \<subseteq> set E" by (auto simp: E')
  moreover have "td_files d n = None \<Longrightarrow> td_files d' n = None" for n by (simp add: d'(4))
  ultimately show ?thesis using len keyed' unfolding E_def by blast
qed

lemma sweeps_run:
  assumes "keyed ta_id (td_artifacts d)" "\<And>a. a \<in> set (expired_rows now d) \<Longrightarrow> removable now d a"
    and "length (expired_rows now d) \<le> 100 * k"
  shows "\<exists>d'. ((\<lambda>(r, x). if isl r then (r, x) else cleanupExpired now x) ^^ k) (Inr (), d) = (Inr (), d') \<and>
    expired_rows now d' = [] \<and> (\<forall>a \<in> set (expired_rows now d). td_files d' (ta_relativePath a) = None) \<and>
    (\<forall>n. td_files d n = None \<longrightarrow> td_files d' n = None)"
  using assms
proof (induction k arbitrary: d)
  case 0
  then show ?case by simp
next
  case (Suc k)
  let ?step = "\<lambda>(r, x). if isl r then (r, x) else cleanupExpired now x"
  from sweep_once [OF Suc.prems(1,2)] obtain d1 where d1: "cleanupExpired now d = (Inr (), d1)"
      "length (expired_rows now d1) = length (expired_rows now d) - 100" "keyed ta_id (td_artifacts d1)"
      "\<And>a. a \<in> set (expired_rows now d1) \<Longrightarrow> removable now d1 a"
      "\<And>a. a \<in> set (expired_rows now d) - set (expired_rows now d1) \<Longrightarrow> td_files d1 (ta_relativePath a) = None"
      "\<And>n. td_files d n = None \<Longrightarrow> td_files d1 n = None"
    by blast
  have "length (expired_rows now d1) \<le> 100 * k" using d1(2) Suc.prems(3) by simp
  from Suc.IH [OF d1(3,4) this] obtain d' where
      d': "(?step ^^ k) (Inr (), d1) = (Inr (), d')" "expired_rows now d' = []"
        "\<forall>a \<in> set (expired_rows now d1). td_files d' (ta_relativePath a) = None"
        "\<And>n. td_files d1 n = None \<Longrightarrow> td_files d' n = None" by blast
  have "(?step ^^ Suc k) (Inr (), d) = (Inr (), d')"
    unfolding funpow_Suc_right o_apply using d1(1) d'(1) by simp
  moreover have "td_files d' (ta_relativePath a) = None" if "a \<in> set (expired_rows now d)" for a
    using that d1(5) [of a] d'(3,4) by blast
  ultimately show ?case using d'(2,4) d1(6) by blast
qed

text \<open>C19: The sweeps come to an end. A sweep removes the files of the hundred artifacts that
  expired first and marks them deleted; repeated for an unchanged set of tables, it returns
  without an error every time, and after \<open>k\<close> sweeps with at most \<open>100 * k\<close> expired artifacts at
  the beginning no expired artifact and none of their files is left. It is asked that no session
  of an expired artifact is alive and that nobody put a directory in the place of its file.\<close>

theorem sweeps_come_to_an_end:
  assumes "keyed ta_id (td_artifacts d)" "\<And>a. a \<in> set (expired_rows now d) \<Longrightarrow> removable now d a"
    and "length (expired_rows now d) \<le> 100 * k"
  shows "\<exists>d'. ((\<lambda>(r, x). if isl r then (r, x) else cleanupExpired now x) ^^ k) (Inr (), d) = (Inr (), d') \<and>
    expired_rows now d' = [] \<and> (\<forall>a \<in> set (expired_rows now d). td_files d' (ta_relativePath a) = None)"
  using sweeps_run [OF assms] by blast

end
