(* ===== verification/Transfer_Faults.thy ===== *)
theory Transfer_Faults
  imports Transfer_Lifecycle
begin

text \<open>
  Three lives of an artifact that end wrong: an upload key that can never be used again, a
  staging that outlives its revocation, and one that the sweep takes for stale.
\<close>

section \<open>An upload key after a day\<close>

lemma upload_key_refused:
  assumes artifact: "um_artifactId (deriveUploadMaterial env (act_userId (ig_actor inp)) (iu_idempotencyKey inp)) \<in> ta_id ` set (td_artifacts d)"
    and no_session: "find_session (um_sessionId (deriveUploadMaterial env (act_userId (ig_actor inp)) (iu_idempotencyKey inp))) d = None"
  obtains e where "issueStagedUpload env svc disk inp now d d d = (Inl e, d)"
    "upload_invalid inp = None \<Longrightarrow> sv_handler svc \<noteq> None \<Longrightarrow> \<not> isl (te_origin env) \<Longrightarrow>
      now + 1000 < min (min (ig_resourceExpiresAt inp) (now + stagedLeaseTtlMs env)) (now + firstByteTtlMs env) \<Longrightarrow>
      prepareUploadAdmission env disk (iu_contentLength inp) = None \<Longrightarrow>
      assertAdmission env (act_userId (ig_actor inp)) now d = None \<Longrightarrow> e = DbFault unique_violation"
proof -
  let ?m = "deriveUploadMaterial env (act_userId (ig_actor inp)) (iu_idempotencyKey inp)"
  have create: "create_upload (upload_artifact_row env ?m inp e1 now) s d = (Inl (DbFault unique_violation), d)" for e1 s
    using artifact by (simp add: create_upload_def transaction_def create_artifact_def upload_artifact_row_def)
  define X where "X = min (min (ig_resourceExpiresAt inp) (now + stagedLeaseTtlMs env)) (now + firstByteTtlMs env)"
  note unfolded = issueStagedUpload_def [of env svc disk inp now d d d, unfolded Let_def no_session, folded X_def]
  show thesis
  proof (cases "upload_invalid inp = None \<and> sv_handler svc \<noteq> None \<and> \<not> isl (te_origin env) \<and> now + 1000 < X \<and>
      prepareUploadAdmission env disk (iu_contentLength inp) = None \<and>
      assertAdmission env (act_userId (ig_actor inp)) now d = None")
    case True
    then have "issueStagedUpload env svc disk inp now d d d = (Inl (DbFault unique_violation), d)"
      by (cases "te_origin env") (auto simp: unfolded create no_session)
    with that show thesis by blast
  next
    case False
    have "isl (fst (issueStagedUpload env svc disk inp now d d d)) \<and> snd (issueStagedUpload env svc disk inp now d d d) = d"
      by (simp add: unfolded create no_session split: option.splits sum.splits)
    then obtain e where "issueStagedUpload env svc disk inp now d d d = (Inl e, d)"
      by (cases "issueStagedUpload env svc disk inp now d d d") (auto simp: isl_def)
    with that False show thesis unfolding X_def by blast
  qed
qed


section \<open>Revocation during a staging\<close>

text \<open>C21: A revocation during a staging is lost. \<open>stage\<close> records its artifact with an update by the
  identifier alone, where \<open>upload\<close> asks for a staging row. When the revocation runs between the
  creation of the row and the creation of the temporary file, everything after it succeeds: the
  artifact is recorded as ready although it has a time of deletion, the staging reports
  success, its file stays, and neither a second revocation nor any sweep at any time will
  remove it.\<close>

theorem staging_survives_its_revocation:
  assumes begin_run: "stage_begin env disk u inp now d = (Inr path, d1)"
    and revoked: "revoke ri now1 d1 = (Inr (), d2)" "ri_artifactId ri = u"
    and received: "receive env (si_expectedMaxBytes inp) stage_overflow u source d2 = (Inr got, d3)"
  shows "\<exists>d4 d5 a. move_file u path d3 = (Inr (), d4) \<and>
      stage_ready env u got now2 d4 = (Inr \<lparr>cu_artifactId = u, cu_sizeBytes = int (length got), cu_sha256 = sha256_bytes env got\<rparr>, d5) \<and>
      find_artifact u d5 = Some a \<and> ta_state a = ART_READY \<and> ta_deletedAt a = Some now1 \<and>
      td_files d5 path = Some (Regular got) \<and>
      (\<forall>t. \<not> expired_artifact t a \<and> \<not> stale_artifact t a) \<and>
      revoke ri now3 d5 = (Inr (), d5)"
proof -
  let ?a = "stage_row env u inp now"
  from stage_begin_cases [OF begin_run] have new: "u \<notin> ta_id ` set (td_artifacts d)" and path: "path = artifact_name u"
    and d1: "d1 = d\<lparr>td_artifacts := td_artifacts d @ [?a]\<rparr>" by auto
  have row: "ta_id ?a = u" "ta_deletedAt ?a = None" by (simp_all add: stage_row_def)
  have "find_key ta_id u (td_artifacts d) = None" using new by (simp add: row_simps)
  then have find1: "find_artifact u d1 = Some ?a" by (simp add: d1 find_artifact_def find_key_append row(1))
  have path_ok: "artifactPath (artifact_name u) = Inr path"
    using begin_run by (auto simp: stage_begin_def path artifactPath_def split: option.splits sum.splits if_splits)
  from revoked find1 have begin1: "revoke_begin ri d1 = Inr (Some ?a)"
    by (auto simp: revoke_def revoke_begin_def stage_row_def split: option.splits if_splits)
  with revoked obtain dx where dx: "unlink_artifact ?a (revoke_sessions u now1 d1) = (None, dx)" "d2 = revoke_mark u now1 dx"
    by (auto simp: revoke_def stage_row_def split: option.splits prod.splits)
  then have files: "td_files dx path = None" "td_artifacts dx = td_artifacts d1"
    using path_ok
    by (auto simp: unlink_artifact_def unlink_both_def unlinkIfExists_def revoke_sessions_def update_sessions_def
        stage_row_def Let_def split: if_splits sum.splits)
  have "find_artifact u dx = Some ?a" using find1 files(2) by (simp add: find_artifact_def)
  moreover have "ta_id (deleted_write now1 x) = ta_id x" for x by (simp add: deleted_write_def)
  ultimately have find2: "find_artifact u d2 = Some (deleted_write now1 ?a)"
    by (simp add: dx(2) revoke_mark_def find_artifact_update row)
  have files2: "td_files d2 path = None" using files by (simp add: dx(2) revoke_mark_def update_artifacts_def)
  from receive_effect [OF received] obtain ps where d3: "d3 = d2\<lparr>td_partials := ps\<rparr>"
      "ps (partial_name u) = Some (Regular got)" by auto
  define d4 where "d4 = d3\<lparr>td_partials := (td_partials d3)(partial_name u := None), td_files := (td_files d3)(path \<mapsto> Regular got)\<rparr>"
  have move: "move_file u path d3 = (Inr (), d4)" using d3 files2 by (simp add: move_file_def d4_def)
  have find4: "find_artifact u d4 = Some (deleted_write now1 ?a)" using find2 by (simp add: d4_def d3 find_artifact_def)
  define d5 where "d5 = update_artifacts (\<lambda>a. ta_id a = u) (ready_write env got now2) d4"
  define a where "a = ready_write env got now2 (deleted_write now1 ?a)"
  have ready: "stage_ready env u got now2 d4 =
      (Inr \<lparr>cu_artifactId = u, cu_sizeBytes = int (length got), cu_sha256 = sha256_bytes env got\<rparr>, d5)"
    using find4 by (simp add: stage_ready_def d5_def)
  have find5: "find_artifact u d5 = Some a"
    using find4 by (simp add: d5_def find_artifact_update ready_write_def a_def deleted_write_def stage_row_def)
  have fields: "ta_state a = ART_READY" "ta_deletedAt a = Some now1" by (simp_all add: a_def ready_write_def deleted_write_def)
  have "revoke_begin ri d5 = Inr None"
    using begin1 find5 fields revoked(2) by (auto simp: revoke_begin_def split: option.splits if_splits)
  then have "revoke ri now3 d5 = (Inr (), d5)" by (simp add: revoke_def)
  moreover have "td_files d5 path = Some (Regular got)" by (simp add: d5_def update_artifacts_def d4_def)
  ultimately show ?thesis
    using move ready find5 fields by (auto simp: expired_artifact_def stale_artifact_def)
qed

section \<open>A long staging\<close>

text \<open>A staging or an upload that takes longer than half an hour can be lost. The sweep takes every
  staging artifact that was created more than thirty minutes ago for stale, whatever is being
  written to it: after it the temporary file is gone, the row is failed and the upload session
  closed, and when the writer has received its last byte it fails with \<open>ENOENT\<close>.\<close>

theorem long_staging_is_swept:
  assumes row: "find_artifact u d = Some a" "ta_state a = ART_STAGING" "ta_createdAt a < now - 1800000"
    and keyed: "keyed ta_id (td_artifacts d)"
    and name: "artifactPath (ta_relativePath a) = Inr path"
    and few: "length (filter (stale_artifact now) (td_artifacts d)) = 1"
    and no_directory: "td_partials d (partial_name u) \<noteq> Some Directory" "td_files d path \<noteq> Some Directory"
  shows "\<exists>r d'. each_row (reconcile_one now) (find_many (stale_artifact now) 100 (td_artifacts d)) d = (r, d') \<and> r = Inr () \<and>
      move_file u path d' = (Inl (Plain ''ENOENT''), d') \<and>
      find_artifact u d' = Some (failed_write now a) \<and>
      (\<forall>s \<in> set (td_sessions d'). is_upload_of u s \<longrightarrow> ts_completedAt s \<noteq> None)"
proof -
  have a: "a \<in> set (td_artifacts d)" "ta_id a = u" using row(1) by (auto simp: find_artifact_def dest: find_key_SomeD)
  have "a \<in> set (filter (stale_artifact now) (td_artifacts d))" using a row by (simp add: stale_artifact_def)
  moreover from few obtain b where "filter (stale_artifact now) (td_artifacts d) = [b]" by (auto simp: length_Suc_conv)
  ultimately have rows: "find_many (stale_artifact now) 100 (td_artifacts d) = [a]"
    by (simp add: find_many_def)
  define d1 where "d1 = d\<lparr>td_partials := (td_partials d)(partial_name u := None), td_files := (td_files d)(path := None)\<rparr>"
  have unlink: "unlink_artifact a d = (None, d1)"
    using name no_directory a(2) by (simp add: unlink_artifact_def unlink_both_def unlinkIfExists_def d1_def)
  define d2 where "d2 = update_artifacts (\<lambda>x. ta_id x = u \<and> ta_state x = ART_STAGING) (failed_write now) d1"
  define d3 where "d3 = update_sessions (\<lambda>s. ts_artifactId s = Some u \<and> ts_purpose s = ''UPLOAD'' \<and> ts_completedAt s = None)
            (stale_session_write now) d2"
  have run: "each_row (reconcile_one now) [a] d = (Inr (), d3)"
    using unlink a(2) by (simp add: reconcile_one_def d2_def d3_def)
  have "find_artifact u d1 = Some a" using row(1) by (simp add: d1_def find_artifact_def)
  then have "find_artifact u d2 = Some (failed_write now a)"
    using row(2) a(2) by (simp add: d2_def find_artifact_update failed_write_def)
  then have "find_artifact u d3 = Some (failed_write now a)" by (simp add: d3_def update_sessions_def find_artifact_def)
  moreover have "move_file u path d3 = (Inl (Plain ''ENOENT''), d3)"
    by (simp add: move_file_def d3_def d2_def d1_def update_sessions_def update_artifacts_def)
  moreover have "ts_completedAt s \<noteq> None" if "s \<in> set (td_sessions d3)" "is_upload_of u s" for s
    using that by (auto simp: d3_def update_sessions_def row_simps stale_session_write_def is_upload_of_def split: if_splits)
  ultimately show ?thesis using run rows by auto
qed

end
