(* ===== verification/Transfer_Issue.thy ===== *)
theory Transfer_Issue
  imports Transfer_Safety
begin

text \<open>
  Every session that is issued is issued with a delivery: the object that the services build
  passes the contract of the deliveries, so its validation after the row was written never
  fails. The disposition header of a delivery cannot be broken out of.
\<close>

section \<open>Texts\<close>

lemma hex_printable: "list_all hex_lower s \<Longrightarrow> list_all printable s"
  by (auto simp: list_all_iff hex_lower_def digit_char_def printable_def less_eq_char_def)

lemma uuid_printable: "rx_test UUID u \<Longrightarrow> list_all printable u \<and> length u = 36"
proof -
  assume "rx_test UUID u"
  then obtain a b c v d w e where u: "u = a @ ''-'' @ b @ ''-'' @ [v] @ c @ ''-'' @ [w] @ d @ ''-'' @ e"
    and parts: "length a = 8" "list_all hex_lower a" "length b = 4" "list_all hex_lower b" "length c = 3" "list_all hex_lower c"
      "length d = 3" "list_all hex_lower d" "length e = 12" "list_all hex_lower e"
    and digits: "CHR ''1'' \<le> v" "v \<le> CHR ''8''" "w \<in> set ''89ab''"
    unfolding rx_test_iff UUID_def cats.simps lang.simps in_conc lang_lit
    by (auto simp: pow_Cls)
  then show ?thesis
    by (auto simp: hex_printable) (auto simp: printable_def less_eq_char_def)
qed

section \<open>Deliveries\<close>

text \<open>
  What the code relies on of the panel: its identifier is a UUID in lower case, the origin is a
  text of visible characters whose extensions by a path are HTTPS addresses without credentials,
  an HMAC with SHA-256 has 32 bytes, and \<open>toISOString\<close> gives the form of a date.
\<close>

definition panel_ok :: "transfer_env \<Rightarrow> string \<Rightarrow> bool" where
  "panel_ok env origin \<longleftrightarrow> rx_test UUID (te_installationId env) \<and> te_origin env = Inr origin \<and> origin \<noteq> [] \<and>
     list_all printable origin \<and> length origin \<le> 3000 \<and>
     (\<forall>path. list_all printable path \<longrightarrow> te_parse_url env (origin @ path) = Some (''https:'', [], [])) \<and>
     (\<forall>bs. length (te_hmac env bs) = 32) \<and>
     (\<forall>t. te_iso env t \<noteq> [] \<and> length (te_iso env t) \<le> 64 \<and> is_iso_date (te_iso env t))"

definition parts_ok :: "delivery_parts \<Rightarrow> bool" where
  "parts_ok p \<longleftrightarrow> p = generated_parts \<or>
     (\<exists>n checksum. p = artifact_parts n checksum \<and> 0 \<le> n \<and> n \<le> max_safe_integer \<and> rx_test SHA256_HEX checksum) \<or>
     (\<exists>n. p = upload_parts n \<and> 0 \<le> n \<and> n \<le> max_safe_integer)"

lemma plain_lengths:
  "rx_test RESOURCE_ID s \<Longrightarrow> 1 \<le> length s \<and> length s \<le> 256"
  "rx_test SHA256_HEX s \<Longrightarrow> length s = 64"
  by (simp_all add: RESOURCE_ID_def SHA256_HEX_def rx_test_Rep_Cls)

lemma kind_length: "rx_test RESOURCE_KIND s \<Longrightarrow> 1 \<le> length s \<and> length s \<le> 64"
  unfolding rx_test_iff RESOURCE_KIND_def lang.simps in_conc by (auto simp: pow_Cls)

lemma path_printable: "list_all printable ''/api/public/v1/transfers/''" "list_all printable ''/download''"
  "list_all printable ''/upload''" "list_all printable ''?secret=''"
  by code_simp+

lemma parts_path:
  assumes "parts_ok p"
  shows "list_all printable (dp_path p) \<and> length (dp_path p) \<le> 9"
proof -
  have "dp_path p = ''/download'' \<or> dp_path p = ''/upload''"
    using assms by (auto simp: parts_ok_def generated_parts_def artifact_parts_def upload_parts_def)
  moreover have "length ''/download'' \<le> 9" "length ''/upload'' \<le> 9" by simp_all
  ultimately show ?thesis using path_printable(2,3) by metis
qed

lemma delivery_url_ok:
  assumes "panel_ok env origin" "rx_test UUID u" "list_all printable secret" "length secret = 43" "parts_ok p"
  shows "requireDeliveryUrl (te_parse_url env)
     (JStr (origin @ ''/api/public/v1/transfers/'' @ u @ dp_path p @ ''?secret='' @ secret)) l = None"
proof -
  let ?path = "''/api/public/v1/transfers/'' @ u @ dp_path p @ ''?secret='' @ secret"
  have path: "list_all printable ?path" "length ?path \<le> 121"
    using uuid_printable [OF assms(2)] parts_path [OF assms(5)] assms(3,4) path_printable by auto
  moreover have "list_all printable origin" "origin \<noteq> []" "length origin \<le> 3000"
      "te_parse_url env (origin @ ?path) = Some (''https:'', [], [])"
    using assms(1) path(1) by (simp_all add: panel_ok_def del: list_all_append)
  ultimately have "rx_test VISIBLE (origin @ ?path)" "length (origin @ ?path) \<le> 4096" "1 \<le> length (origin @ ?path)"
    unfolding VISIBLE_def by (auto intro: iffD2 [OF rx_test_plus_Cls, OF conjI])
  with \<open>te_parse_url env (origin @ ?path) = _\<close> show ?thesis
    by (simp add: requireDeliveryUrl_def requireString_None)
qed

lemmas delivery_checks = requireExactKeys_None requireString_None requireInteger_None requireBoolean_None requireEnum_None
  requireUniqueStrings_None requireIsoDate_None

lemma header_names: "rx_test HEADER ''range''" "rx_test HEADER ''if-range''" "rx_test HEADER ''content-type''"
  by code_simp+

lemma transfer_delivery_valid:
  assumes panel: "panel_ok env origin" and u: "rx_test UUID u" and secret: "list_all printable secret" "length secret = 43"
    and resource: "rx_test RESOURCE_KIND kind" "rx_test RESOURCE_ID rid" and parts: "parts_ok p"
  shows "validatePublicDelivery (te_parse_url env)
     (transfer_delivery env origin (te_installationId env) u secret kind rid t p) = None"
proof -
  define v where "v = transfer_delivery env origin (te_installationId env) u secret kind rid t p"
  have fields: "field v ''kind'' = JStr ''TransferSession''" "field v ''purpose'' = JStr (dp_purpose p)"
    "field v ''targetInstallationId'' = JStr (te_installationId env)"
    "field v ''resource'' = JObj [(''kind'', JStr kind), (''id'', JStr rid)]"
    "field v ''method'' = JStr (dp_method p)" "field v ''allowedHeaders'' = JArr (map JStr (dp_headers p))"
    "field v ''cachePolicy'' = JStr ''NO_STORE''" "field v ''referrerPolicy'' = JStr ''NO_REFERRER''"
    "field v ''expiresAt'' = JStr (te_iso env t)" "field v ''browserReachabilityRequired'' = JBool True"
    "field v ''rangeSupported'' = JBool (dp_ranges p)" "field v ''resumeSupported'' = JBool (dp_ranges p)"
    "field v ''fallbackReason'' = JNull"
    "field v ''url'' = JStr (origin @ ''/api/public/v1/transfers/'' @ u @ dp_path p @ ''?secret='' @ secret)"
    "field v ''reusable'' = JBool (dp_reusable p)" "field v ''transferMode'' = JStr (dp_mode p)"
    "field v ''contentLength'' = (case dp_length p of None \<Rightarrow> JNull | Some n \<Rightarrow> JNum n)"
    "field v ''sha256'' = json_opt (dp_sha256 p)" "field v ''leaseId'' = JStr u"
    by (simp_all add: v_def transfer_delivery_def)
  have rec: "isContractRecord v" by (simp add: v_def transfer_delivery_def)
  have keys: "own_keys v = BASE_KEYS @ [''url'', ''reusable'', ''transferMode'', ''contentLength'', ''sha256'', ''leaseId'']"
    by (simp add: v_def transfer_delivery_def BASE_KEYS_def)
  have lens: "length (te_installationId env) = 36" "length u = 36"
    using uuid_printable u panel by (simp_all add: panel_ok_def)
  have iso: "te_iso env t \<noteq> []" "length (te_iso env t) \<le> 64" "is_iso_date (te_iso env t)" "rx_test UUID (te_installationId env)"
    using panel by (simp_all add: panel_ok_def)
  have parts_base: "dp_purpose p \<in> set PUBLIC_DELIVERY_PURPOSES" "dp_method p \<in> set [''GET'', ''HEAD'', ''POST'', ''PUT'']"
    "distinct (dp_headers p)" "length (dp_headers p) \<le> 16"
    "\<forall>h \<in> set (dp_headers p). 1 \<le> length h \<and> length h \<le> 128 \<and> rx_test HEADER h"
    using parts header_names
    by (auto simp: parts_ok_def generated_parts_def artifact_parts_def upload_parts_def PUBLIC_DELIVERY_PURPOSES_def)
  have base: "validateBase v = None"
    unfolding validateBase_def fields first_error_None list.set ball_simps
    using parts_base resource kind_length [OF resource(1)] plain_lengths(1) [OF resource(2)] lens iso
    by (auto simp: delivery_checks PUBLIC_DELIVERY_KINDS_def Suc_le_eq)
  have url: "requireDeliveryUrl (te_parse_url env) (field v ''url'') l = None" for l
    unfolding fields using panel u secret parts by (rule delivery_url_ok)
  have keys_ok: "requireExactKeys v
      (BASE_KEYS @ [''url'', ''reusable'', ''transferMode'', ''contentLength'', ''sha256'', ''leaseId'']) [] l = None" for l
    by (simp add: requireExactKeys_None keys)
  have mode: "dp_mode p \<in> set [''GENERATED_STREAM'', ''STAGED_ARTIFACT'']"
    and len: "dp_length p = Some n \<Longrightarrow> 0 \<le> n \<and> n \<le> max_safe_integer"
    and sha: "dp_sha256 p = Some c \<Longrightarrow> rx_test SHA256_HEX c" for n c
    using parts by (auto simp: parts_ok_def generated_parts_def artifact_parts_def upload_parts_def)
  have transfer: "validate_transfer v = None"
    unfolding validate_transfer_def flag_def fields
    using parts by (auto simp: json_opt_def parts_ok_def generated_parts_def artifact_parts_def upload_parts_def)
  have rest: "requireBoolean (field v ''reusable'') l = None"
    "requireEnum (field v ''transferMode'') [''GENERATED_STREAM'', ''STAGED_ARTIFACT''] l = None"
    "requireString (field v ''leaseId'') l 1 1024 (Some UUID) = None"
    "field v ''contentLength'' \<noteq> JNull \<Longrightarrow> requireInteger (field v ''contentLength'') l 0 max_safe_integer = None"
    "field v ''sha256'' \<noteq> JNull \<Longrightarrow> requireString (field v ''sha256'') l 1 1024 (Some SHA256_HEX) = None" for l
    unfolding fields using mode len sha u lens plain_lengths(2)
    by (auto simp: delivery_checks json_opt_def max_safe_integer_def split: option.splits)
  show ?thesis unfolding v_def [symmetric] validatePublicDelivery_def
    using rec base url keys_ok transfer rest by (simp add: fields(1))
qed

text \<open>An issue that fails leaves the state, one that returns gives a valid delivery.\<close>

definition issue_ok :: "transfer_env \<Rightarrow> tdb \<Rightarrow> (json, tdb) outcome \<Rightarrow> bool" where
  "issue_ok env d r =
     (case r of
        (Inl _, d') \<Rightarrow> d' = d
      | (Inr v, _) \<Rightarrow> validatePublicDelivery (te_parse_url env) v = None)"

lemma resource_patterns: "RESOURCE_KIND = TRANSFER_SOURCE_KIND" "RESOURCE_ID = TRANSFER_RESOURCE_ID"
  by (simp_all add: RESOURCE_KIND_def TRANSFER_SOURCE_KIND_def RESOURCE_ID_def TRANSFER_RESOURCE_ID_def)

lemma issue_ok_checked: "issue_ok env d (checked_delivery env v, d)"
  by (auto simp: issue_ok_def checked_delivery_def split: option.splits)

lemma assertTransferResource_None:
  "assertTransferResource k r = None \<longleftrightarrow> rx_test RESOURCE_KIND k \<and> rx_test RESOURCE_ID r"
  by (simp add: assertTransferResource_def resource_patterns)

lemma issue_ok_delivery:
  assumes "panel_ok env origin" "rx_test UUID u" "length secret = 32"
    "assertTransferResource kind rid = None" "parts_ok p"
  shows "issue_ok env d (checked_delivery env
     (transfer_delivery env origin (te_installationId env) u (base64url secret) kind rid t p), d')"
  using transfer_delivery_valid [OF assms(1,2) base64url_printable length_base64url_32 [OF assms(3)] _ _ assms(5), of kind rid t]
    assms(4)
  by (simp add: issue_ok_def checked_delivery_def assertTransferResource_None)

lemma create_session_state: "create_session s d = (Inl e, d') \<Longrightarrow> d' = d"
  by (auto simp: create_session_def split: if_splits option.splits)

lemma generated_issue_ok:
  assumes "panel_ok env origin" "rx_test UUID u" "length rnd = 32"
  shows "issue_ok env d (issueGeneratedStream env svc u rnd inp now d)"
proof -
  have origin: "te_origin env = Inr origin" using assms(1) by (simp add: panel_ok_def)
  have parts: "parts_ok generated_parts" by (simp add: parts_ok_def)
  have fails: "issue_ok env d (Inl e, d)" for e by (simp add: issue_ok_def)
  show ?thesis
  proof (cases "validateIssue svc inp")
    case None
    then have "assertTransferResource (ig_sourceKind inp) (ig_resourceId inp) = None" by (simp add: validateIssue_def)
    note delivered = issue_ok_delivery [OF assms this parts]
    show ?thesis
      by (auto simp: issueGeneratedStream_def None origin Let_def fails delivered
          dest!: create_session_state split: option.splits prod.splits sum.splits)
  qed (simp add: issueGeneratedStream_def fails)
qed

text \<open>The artifacts of the table were admitted with a resource that has the form of one.\<close>

definition resources_ok :: "tdb \<Rightarrow> bool" where
  "resources_ok d \<longleftrightarrow> (\<forall>a \<in> set (td_artifacts d). assertTransferResource (ta_sourceKind a) (ta_resourceId a) = None)"

lemma staged_issue_ok:
  assumes "panel_ok env origin" "rx_test UUID u" "length rnd = 32" "resources_ok d"
  shows "issue_ok env d (issueStagedArtifact env svc u rnd artifactId actor now d)"
proof -
  have origin: "te_origin env = Inr origin" using assms(1) by (simp add: panel_ok_def)
  have fails: "issue_ok env d (Inl e, d)" for e by (simp add: issue_ok_def)
  have delivered: "issue_ok env d (checked_delivery env (transfer_delivery env origin (te_installationId env) u (base64url rnd)
      (ta_sourceKind a) (ta_resourceId a) t (artifact_parts n checksum)), d')"
    if "find_artifact artifactId d = Some a" "\<not> (n < 0 \<or> n > max_safe_integer \<or> \<not> rx_test SHA256_HEX checksum)"
    for a t n checksum d'
  proof (rule issue_ok_delivery [OF assms(1-3)])
    show "assertTransferResource (ta_sourceKind a) (ta_resourceId a) = None"
      using that(1) assms(4) by (auto simp: resources_ok_def find_artifact_def dest: find_key_SomeD)
    show "parts_ok (artifact_parts n checksum)" using that(2) unfolding parts_ok_def by (metis linorder_not_less)
  qed
  show ?thesis
    by (auto simp: issueStagedArtifact_def origin Let_def fails intro: delivered
        dest!: create_session_state split: option.splits prod.splits sum.splits)
qed

lemma create_upload_state: "create_upload a s d = (Inl e, d') \<Longrightarrow> d' = d"
  by (auto simp: create_upload_def transaction_def split: prod.splits sum.splits option.splits)

lemma upload_issue_ok:
  assumes "panel_ok env origin"
  shows "issue_ok env d (issueStagedUpload env svc disk inp now seen d later)"
proof -
  have origin: "te_origin env = Inr origin" and hmac: "length (te_hmac env bs) = 32" for bs
    using assms by (simp_all add: panel_ok_def)
  have fails: "issue_ok env d (Inl e, d)" for e by (simp add: issue_ok_def)
  have replay: "issue_ok env d (replayStagedUpload env s m inp origin now, d)" for s m
    by (auto simp: replayStagedUpload_def buildUploadDelivery_def issue_ok_checked fails split: option.splits)
  have delivered: "issue_ok env d (buildUploadDelivery env (upload_session_row env
      (deriveUploadMaterial env (act_userId (ig_actor inp)) (iu_idempotencyKey inp)) inp t now)
      (um_secret (deriveUploadMaterial env (act_userId (ig_actor inp)) (iu_idempotencyKey inp))) origin, d')"
    if "upload_invalid inp = None" for t d'
  proof -
    have "assertTransferResource (ig_sourceKind inp) (ig_resourceId inp) = None"
      and "0 \<le> iu_contentLength inp \<and> iu_contentLength inp \<le> max_safe_integer"
      using that by (auto simp: upload_invalid_def safe_integer_def max_safe_integer_def split: if_splits)
    moreover define m where "m = deriveUploadMaterial env (act_userId (ig_actor inp)) (iu_idempotencyKey inp)"
    moreover obtain bs where "um_secret m = base64url bs" "length bs = 32"
      by (simp add: m_def deriveUploadMaterial_def upload_digest_def hmac)
    moreover have "rx_test UUID (um_sessionId m)"
      by (simp add: m_def deriveUploadMaterial_def upload_digest_def hmac uuid_of_digest)
    moreover have "parts_ok (upload_parts (iu_contentLength inp))"
      using \<open>0 \<le> iu_contentLength inp \<and> _\<close> unfolding parts_ok_def by blast
    ultimately show ?thesis
      using issue_ok_delivery [OF assms, of "um_sessionId m" bs "ig_sourceKind inp" "ig_resourceId inp" "upload_parts (iu_contentLength inp)"]
      by (auto simp: buildUploadDelivery_def upload_session_row_def new_session_def simp flip: m_def)
  qed
  show ?thesis
    by (auto simp: issueStagedUpload_def origin Let_def fails intro: delivered replay
        dest!: create_upload_state split: option.splits prod.splits sum.splits)
qed

text \<open>C18: A panel whose identifier, origin and digests have the documented form issues a session for a
  generated stream, a staged artifact or an upload only together with an object that passes the
  contract of the deliveries; an issue that fails has written nothing.\<close>

theorem issued_sessions_have_valid_deliveries:
  assumes "panel_ok env origin" "rx_test UUID u" "length rnd = 32" "resources_ok d"
  shows "issue_ok env d (issueGeneratedStream env svc u rnd inp now d) \<and>
     issue_ok env d (issueStagedArtifact env svc u rnd artifactId actor now d) \<and>
     issue_ok env d (issueStagedUpload env svc disk up now seen d later)"
  using generated_issue_ok [OF assms(1-3)] staged_issue_ok [OF assms] upload_issue_ok [OF assms(1)] by simp

section \<open>The disposition header\<close>

definition header_char :: "char \<Rightarrow> bool" where
  "header_char c = (CHR 0x20 \<le> c \<and> c \<le> CHR 0x7E)"

lemma upper_digit_char: "n < 16 \<Longrightarrow> header_char (upper_digit n) \<and> upper_digit n \<noteq> CHR 0x22"
proof -
  have "\<forall>k \<in> set [0..<16]. header_char (upper_digit k) \<and> upper_digit k \<noteq> CHR 0x22" by code_simp
  then show "n < 16 \<Longrightarrow> ?thesis" by simp
qed

lemma encode_char_chars: "list_all (\<lambda>c. header_char c \<and> c \<noteq> CHR 0x22) (encode_char c)"
proof -
  have n: "(of_char c :: nat) < 256" by simp
  have pct: "m < 256 \<Longrightarrow> list_all (\<lambda>c. header_char c \<and> c \<noteq> CHR 0x22) (percent m)" for m
    using upper_digit_char by (simp add: percent_def header_char_def less_eq_char_def less_mult_imp_div_less)
  have "uri_unreserved c \<Longrightarrow> header_char c \<and> c \<noteq> CHR 0x22"
    by (auto simp: uri_unreserved_def upper_def lower_def digit_char_def header_char_def less_eq_char_def)
  moreover have "192 + (of_char c :: nat) div 64 < 256" using less_mult_imp_div_less [of "of_char c :: nat" 4 64] n by simp
  moreover have "128 + (of_char c :: nat) mod 64 < 256" using mod_less_divisor [of 64 "of_char c :: nat"] by linarith
  ultimately show ?thesis using n by (auto simp: encode_char_def Let_def pct)
qed

lemma encoded_chars: "list_all (\<lambda>c. header_char c \<and> c \<noteq> CHR 0x22) (encodeURIComponent s)"
  using encode_char_chars by (auto simp: encodeURIComponent_def list_all_iff)

lemma fallback_chars: "list_all (\<lambda>c. header_char c \<and> c \<noteq> CHR 0x22) (asciiFallback s)"
  by (auto simp: asciiFallback_def or_download_def list_all_iff header_char_def less_eq_char_def)

text \<open>Whatever the filename, the disposition header is one line of visible ASCII with exactly two
  quotes, the ones of the fallback name: the name breaks out of neither its quotes nor the header.\<close>

theorem disposition_is_one_header:
  "list_all header_char (attachmentDisposition filename) \<and>
   (\<exists>fallback extended. attachmentDisposition filename =
      ''attachment; filename='' @ [CHR 0x22] @ fallback @ [CHR 0x22] @ ''; filename*=UTF-8'' @ [CHR 0x27, CHR 0x27] @ extended \<and>
      CHR 0x22 \<notin> set (fallback @ extended))"
proof -
  have "list_all header_char (''attachment; filename='' @ [CHR 0x22])" "list_all header_char ([CHR 0x22] @ ''; filename*=UTF-8'' @ [CHR 0x27, CHR 0x27])"
    by code_simp+
  then have "list_all header_char (attachmentDisposition filename)"
    using fallback_chars [of "sanitizeFilename filename"] encoded_chars [of "sanitizeFilename filename"]
    by (auto simp: attachmentDisposition_def Let_def list_all_iff)
  moreover have "CHR 0x22 \<notin> set (asciiFallback (sanitizeFilename filename) @ encodeURIComponent (sanitizeFilename filename))"
    using fallback_chars [of "sanitizeFilename filename"] encoded_chars [of "sanitizeFilename filename"]
    by (auto simp: list_all_iff)
  ultimately show ?thesis unfolding attachmentDisposition_def Let_def by blast
qed

end
