(* ===== verification/Transfer_Examples.thy ===== *)
theory Transfer_Examples
  imports Transfer_Theorems Transfer_Faults Transfer_Issue
begin

text \<open>
  Concrete runs of the transfers for the witnesses: a panel whose digests are all zero bytes, one
  user, an artifact of two bytes that is staged and downloaded, a stream that is read, and an
  upload. The states are named by the operations that lead to them.
\<close>

definition PANEL :: string where "PANEL = ''11111111-1111-4111-8111-111111111111''"
definition USER :: string where "USER = ''22222222-2222-4222-8222-222222222222''"
definition ART :: string where "ART = ''33333333-3333-4333-8333-333333333333''"
definition SES :: string where "SES = ''44444444-4444-4444-8444-444444444444''"
definition ZEROS :: bytes where "ZEROS = replicate 32 0"

definition demo_panel :: transfer_env where
  "demo_panel = \<lparr>te_installationId = PANEL, te_origin = Inr ''https://p.example'', te_hash = (\<lambda>_. ZEROS),
     te_hmac = (\<lambda>_. ZEROS), te_encrypt = (\<lambda>_. ''sealed''), te_decrypt = (\<lambda>_. None),
     te_iso = (\<lambda>_. ''2024-02-29T23:59:59.999Z''), te_parse_url = (\<lambda>_. Some (''https:'', [], [])), te_config = (\<lambda>_. None)\<rparr>"

definition demo_actor :: transfer_actor where
  "demo_actor = \<lparr>act_userId = USER, act_role = ''ADMIN''\<rparr>"

definition demo_stage :: stage_input where
  "demo_stage = \<lparr>si_sourceKind = ''LOGS'', si_resourceId = ''site-1'', si_actor = demo_actor, si_filename = ''a.txt'',
     si_contentType = ''text/plain'', si_expiresAt = 10000, si_expectedMaxBytes = 100\<rparr>"

definition demo_disk :: disk_state where
  "demo_disk = \<lparr>bsize = 4096, bavail = 100000000, blocks = 200000000\<rparr>"

definition two_bytes :: byte_source where
  "two_bytes = \<lparr>src_chunks = [[1], [2]], src_error = None\<rparr>"

definition demo_svc :: transfer_svc where
  "demo_svc = \<lparr>sv_sources = [''LOGS'' \<mapsto> 7], sv_handler = Some 0\<rparr>"

text \<open>The artifact while it is staged and when it is ready, and the session that is issued for it.\<close>

definition ART_FILE :: string where "ART_FILE = ''33333333-3333-4333-8333-333333333333.artifact''"
definition DIGEST0 :: string where "DIGEST0 = replicate 64 CHR ''0''"
definition SECRET0 :: string where "SECRET0 = replicate 43 CHR ''A''"

definition demo_art :: artifact_row where
  "demo_art = \<lparr>ta_id = ART, ta_target = PANEL, ta_sourceKind = ''LOGS'', ta_resourceId = ''site-1'', ta_state = ART_STAGING,
     ta_relativePath = ART_FILE, ta_contentType = ''text/plain'', ta_filename = ''a.txt'', ta_sizeBytes = None,
     ta_sha256 = None, ta_createdByUserId = USER, ta_expiresAt = 10000, ta_readyAt = None, ta_deletedAt = None,
     ta_createdAt = 0\<rparr>"

definition demo_ready :: artifact_row where
  "demo_ready = demo_art\<lparr>ta_state := ART_READY, ta_sizeBytes := Some 2, ta_sha256 := Some DIGEST0, ta_readyAt := Some 10\<rparr>"

definition demo_session :: session_row where
  "demo_session = \<lparr>ts_id = SES, ts_target = PANEL, ts_purpose = ''DOWNLOAD'', ts_sourceKind = ''LOGS'',
     ts_resourceId = ''site-1'', ts_payloadEnc = None, ts_mode = ''STAGED_ARTIFACT'', ts_secretHash = DIGEST0,
     ts_actorUserId = USER, ts_actorRole = ''ADMIN'', ts_contentType = ''text/plain'', ts_filename = ''a.txt'',
     ts_artifactId = Some ART, ts_contentLength = Some 2, ts_sha256 = Some DIGEST0, ts_expiresAt = 10000,
     ts_startedAt = None, ts_completedAt = None, ts_consumedAt = None, ts_failureCode = None, ts_createdAt = 20\<rparr>"

definition staged1 :: tdb where
  "staged1 = \<lparr>td_sessions = [], td_artifacts = [demo_art], td_partials = Map.empty, td_files = Map.empty\<rparr>"
definition staged2 :: tdb where "staged2 = staged1\<lparr>td_partials := [partial_name ART \<mapsto> Regular [1, 2]]\<rparr>"
definition staged3 :: tdb where "staged3 = staged1\<lparr>td_files := [ART_FILE \<mapsto> Regular [1, 2]]\<rparr>"
definition staged4 :: tdb where "staged4 = staged3\<lparr>td_artifacts := [demo_ready]\<rparr>"
definition staged5 :: tdb where "staged5 = staged4\<lparr>td_sessions := [demo_session]\<rparr>"

lemma panel_texts:
  "artifact_name ART = ART_FILE" "artifactPath ART_FILE = Inr ART_FILE" "base64url ZEROS = SECRET0"
  "hex_of ZEROS = DIGEST0" "rx_test TRANSFER_UUID ART" "rx_test SHA256_HEX DIGEST0"
  by code_simp+

lemma demo_checks:
  "validateStage demo_panel demo_stage 0 = None" "assertDiskAdmission demo_panel demo_disk 100 = None"
  "assertTransferActor demo_actor = None" "assertAdmission demo_panel USER 20 staged4 = None"
  by code_simp+

lemmas concrete_rows = update_rows_def find_key_def find_first_def count_rows_def

lemmas demo_data = demo_panel_def demo_stage_def demo_actor_def demo_art_def demo_ready_def

lemma run1: "stage_begin demo_panel demo_disk ART demo_stage 0 empty_tdb = (Inr ART_FILE, staged1)"
  using demo_checks(1,2)
  by (simp add: stage_begin_def panel_texts create_artifact_def empty_tdb_def staged1_def stage_row_def demo_data)

lemma run2: "receive demo_panel 100 stage_overflow ART two_bytes staged1 = (Inr [1, 2], staged2)"
  by (simp add: receive_def staged1_def staged2_def two_bytes_def maxArtifactBytes_def positiveInt_def demo_panel_def)

lemma run3: "move_file ART ART_FILE staged2 = (Inr (), staged3)"
  by (simp add: move_file_def staged1_def staged2_def staged3_def)

lemma run4: "stage_ready demo_panel ART [1, 2] 10 staged3
    = (Inr \<lparr>cu_artifactId = ART, cu_sizeBytes = 2, cu_sha256 = DIGEST0\<rparr>, staged4)"
  by (simp add: stage_ready_def find_artifact_def staged3_def staged1_def staged4_def update_artifacts_def concrete_rows
      ready_write_def sha256_bytes_def panel_texts demo_data)

lemma run5: "snd (issueStagedArtifact demo_panel demo_svc SES ZEROS ART demo_actor 20 staged4) = staged5"
  using demo_checks(3,4)
  by (simp add: issueStagedArtifact_def panel_texts find_artifact_def staged4_def staged3_def staged1_def staged5_def concrete_rows
      demo_data demo_svc_def artifact_row_session_def new_session_def create_session_def demo_session_def sha256_text_def
      max_safe_integer_def stagedLeaseTtlMs_def positiveInt_def Let_def)

section \<open>A staged artifact\<close>

definition demo_flight :: "flight_phase \<Rightarrow> flight" where
  "demo_flight p = \<lparr>fl_artifact = ART, fl_upload = None, fl_limit = 100, fl_phase = p\<rparr>"

definition demo_tsys :: "tdb \<Rightarrow> flight list \<Rightarrow> string list \<Rightarrow> tsys" where
  "demo_tsys d fs us = \<lparr>ty_db = d, ty_svc = demo_svc, ty_flights = fs, ty_streams = us\<rparr>"

lemma reach_svc: "transfer_reachable demo_panel (demo_tsys empty_tdb [] [])"
  using tr_step [OF tr_initial tr_svc, of demo_panel demo_svc] by (simp add: initial_tsys_def demo_tsys_def)

lemma reach_flight:
  assumes "transfer_reachable env (demo_tsys d [f] us)" "flight_step env (f, d) (f', d')"
  shows "transfer_reachable env (demo_tsys d' [f'] us)"
  using tr_step [OF assms(1) tr_flight [of _ "[]" f "[]"]] assms(2) by (simp add: demo_tsys_def)

lemma reach_staged: "transfer_reachable demo_panel (demo_tsys staged4 [] [])"
proof -
  let ?r = "transfer_reachable demo_panel"
  from tr_step [OF reach_svc tr_stage, of demo_disk ART demo_stage 0] run1
  have "?r (demo_tsys staged1 [demo_flight Opened] [])"
    by (simp add: demo_tsys_def demo_flight_def demo_stage_def)
  then have "?r (demo_tsys staged2 [demo_flight (Received [1, 2])] [])"
  proof (rule reach_flight)
    have "flight_receive demo_panel (demo_flight Opened) two_bytes staged1 = (Inr [1, 2], staged2)"
      using run2 by (simp add: flight_receive_def demo_flight_def)
    from fs_receive [OF _ this] show "flight_step demo_panel (demo_flight Opened, staged1) (demo_flight (Received [1, 2]), staged2)"
      by (simp add: demo_flight_def phase_of_def)
  qed
  then have "?r (demo_tsys staged3 [demo_flight (Moved [1, 2])] [])"
  proof (rule reach_flight)
    have "move_file ART (fl_file (demo_flight (Received [1, 2]))) staged2 = (Inr (), staged3)"
      using run3 by (simp add: fl_file_def demo_flight_def panel_texts)
    with fs_move [of "demo_flight (Received [1, 2])" "[1, 2]" staged2 "Inr ()" staged3 demo_panel]
    show "flight_step demo_panel (demo_flight (Received [1, 2]), staged2) (demo_flight (Moved [1, 2]), staged3)"
      by (simp add: demo_flight_def phase_of_def)
  qed
  then obtain c where "?r (demo_tsys staged4 [demo_flight (Over (Inr c))] [])"
  proof (rule reach_flight [THEN that [rotated]])
    have "flight_ready demo_panel (demo_flight (Moved [1, 2])) [1, 2] 10 staged3
        = (Inr \<lparr>cu_artifactId = ART, cu_sizeBytes = 2, cu_sha256 = DIGEST0\<rparr>, staged4)"
      using run4 by (simp add: flight_ready_def demo_flight_def)
    from fs_ready [OF _ this]
    show "flight_step demo_panel (demo_flight (Moved [1, 2]), staged3)
        (demo_flight (Over (Inr \<lparr>cu_artifactId = ART, cu_sizeBytes = 2, cu_sha256 = DIGEST0\<rparr>)), staged4)"
      by (simp add: demo_flight_def phase_of_def)
  qed
  from tr_step [OF this tr_end [of _ "[]" _ "[]"]] fe_stage [of "demo_flight (Over (Inr c))" "Inr c" staged4]
  show ?thesis by (simp add: demo_tsys_def demo_flight_def)
qed

lemma reach_issued: "transfer_reachable demo_panel (demo_tsys staged5 [] [])"
  using tr_step [OF reach_staged tr_issue_artifact [OF prod.collapse [symmetric]], of SES ZEROS ART demo_actor 20]
  by (simp add: demo_tsys_def run5)

definition demo_download :: "(unit, tdb \<times> response) outcome" where
  "demo_download = download demo_panel demo_svc SES SECRET0 (Some ''bytes=1-1'') None None (\<lambda>_. None) None
     [Finish 206] 30 staged5 empty_response"

lemma demo_found: "requireDownload demo_panel SES SECRET0 30 staged5 = Inr demo_session"
proof -
  have "rx_test SECRET SECRET0" by code_simp
  then show ?thesis
    by (simp add: requireDownload_def requireSession_def find_session_def staged5_def concrete_rows demo_session_def demo_panel_def
        sha256_text_def panel_texts secureHashMatch_def)
qed

lemma demo_downloaded: "case demo_download of (r, (d, resp)) \<Rightarrow> r = Inr () \<and> re_status resp = 206 \<and> re_body resp = [2]"
  by code_simp

theorem download_is_the_artifact_witness:
  "\<exists>d resp b. demo_download = (Inr (), (d, resp)) \<and> re_status resp = 206 \<and> re_body resp = [2] \<and>
     ts_contentLength demo_session = Some (int (length b)) \<and> ts_sha256 demo_session = Some (sha256_bytes demo_panel b) \<and>
     delivers resp True b"
proof -
  obtain d resp where run: "demo_download = (Inr (), (d, resp))" "re_status resp = 206" "re_body resp = [2]"
    using demo_downloaded by auto
  have "ts_mode demo_session = ''STAGED_ARTIFACT''" "sv_handler (ty_svc (demo_tsys staged5 [] [])) \<noteq> None"
    by (simp_all add: demo_session_def demo_tsys_def demo_svc_def)
  from download_is_the_artifact [OF reach_issued _ this, of SES SECRET0 30 "Some ''bytes=1-1''" None None
      "\<lambda>_. None" None "[Finish 206]" "Inr ()" d resp] demo_found run
  show ?thesis by (auto simp: demo_tsys_def demo_download_def)
qed

text \<open>The artifact is revoked at 30: every later download fails.\<close>

definition demo_revoke :: revoke_input where
  "demo_revoke = \<lparr>ri_artifactId = ART, ri_sourceKind = ''LOGS'', ri_resourceId = ''site-1'', ri_createdByUserId = USER\<rparr>"

lemma revoke_run: "fst (revoke demo_revoke 30 staged5) = Inr ()"
  by code_simp


text \<open>The sweep after its expiry takes it.\<close>

theorem sweeps_come_to_an_end_witness:
  "\<exists>d'. cleanupExpired 20000 staged5 = (Inr (), d') \<and> expired_rows 20000 d' = [] \<and> td_files d' ART_FILE = None \<and>
     td_files staged5 ART_FILE = Some (Regular [1, 2])"
proof -
  have fs: "td_files staged5 = [ART_FILE \<mapsto> Regular [1, 2]]" by (simp add: staged5_def staged4_def staged3_def)
  have rows: "expired_rows 20000 staged5 = [demo_ready]" "keyed ta_id (td_artifacts staged5)"
    by (simp_all add: expired_rows_def staged5_def staged4_def expired_artifact_def demo_ready_def demo_art_def keyed_def)
  have "a \<in> set (expired_rows 20000 staged5) \<Longrightarrow> removable 20000 staged5 a" for a
    unfolding rows removable_def
    by (simp add: fs panel_texts demo_ready_def demo_art_def) (simp add: staged5_def demo_session_def)
  from sweeps_come_to_an_end [OF rows(2) this, of 1] show ?thesis
    by (auto simp: rows fs) (simp add: demo_ready_def demo_art_def)
qed

section \<open>A stream\<close>

definition demo_stream :: generated_input where
  "demo_stream = \<lparr>ig_sourceKind = ''LOGS'', ig_resourceId = ''site-1'', ig_actor = demo_actor, ig_filename = ''a.txt'',
     ig_contentType = ''text/plain'', ig_resourceExpiresAt = 10000, ig_resourcePayload = None\<rparr>"

definition stream_row :: session_row where
  "stream_row = demo_session\<lparr>ts_mode := ''GENERATED_STREAM'', ts_artifactId := None, ts_contentLength := None,
     ts_sha256 := None, ts_createdAt := 0\<rparr>"

definition streamed1 :: tdb where "streamed1 = empty_tdb\<lparr>td_sessions := [stream_row]\<rparr>"
definition streamed2 :: tdb where "streamed2 = empty_tdb\<lparr>td_sessions := [stream_row\<lparr>ts_startedAt := Some 30\<rparr>]\<rparr>"

definition demo_call :: stream_call where
  "demo_call = \<lparr>sc_source = 7, sc_resourceId = ''site-1'', sc_actor = demo_actor, sc_payload = JNull\<rparr>"

lemma stream_issued: "snd (issueGeneratedStream demo_panel demo_svc SES ZEROS demo_stream 0 empty_tdb) = streamed1"
proof -
  have "validateIssue demo_svc demo_stream = None" "assertAdmission demo_panel USER 0 empty_tdb = None" by code_simp+
  then show ?thesis
    by (simp add: issueGeneratedStream_def demo_panel_def demo_stream_def demo_actor_def firstByteTtlMs_def positiveInt_def
        generated_row_def new_session_def create_session_def empty_tdb_def streamed1_def stream_row_def demo_session_def
        panel_texts sha256_text_def Let_def)
qed

lemma stream_found:
  "requireDownload demo_panel SES SECRET0 30 streamed1 = Inr stream_row"
  "requireDownload demo_panel SES SECRET0 31 streamed2 = Inr (stream_row\<lparr>ts_startedAt := Some 30\<rparr>)"
proof -
  have "rx_test SECRET SECRET0" by code_simp
  then show "requireDownload demo_panel SES SECRET0 30 streamed1 = Inr stream_row"
    "requireDownload demo_panel SES SECRET0 31 streamed2 = Inr (stream_row\<lparr>ts_startedAt := Some 30\<rparr>)"
    by (simp_all add: requireDownload_def requireSession_def find_session_def streamed1_def streamed2_def stream_row_def concrete_rows
        demo_session_def demo_panel_def sha256_text_def panel_texts secureHashMatch_def)
qed

lemma stream_started: "stream_begin demo_panel demo_svc stream_row None 30 streamed1 = (Inr (Inr demo_call), streamed2)"
  by (simp add: stream_begin_def claim_stream_def truthy_def demo_svc_def stream_row_def demo_session_def streamed1_def streamed2_def
      concrete_rows stream_guard_def update_sessions_def stream_started_write_def open_payload_def demo_call_def demo_actor_def
      empty_tdb_def)

theorem stream_is_read_once_witness:
  "transfer_reachable demo_panel (demo_tsys streamed2 [] [SES]) \<and>
   requireDownload demo_panel SES SECRET0 31 streamed2 = Inr (stream_row\<lparr>ts_startedAt := Some 30\<rparr>) \<and>
   isl (fst (stream_begin demo_panel demo_svc (stream_row\<lparr>ts_startedAt := Some 30\<rparr>) None 31 streamed2))"
proof -
  have "transfer_reachable demo_panel (demo_tsys streamed1 [] [])"
    using tr_step [OF reach_svc tr_issue_stream [OF _ prod.collapse [symmetric]], of SES ZEROS demo_stream 0] stream_issued
    by (simp add: demo_tsys_def)
  from tr_step [OF this tr_stream, of SES SECRET0 30 stream_row None 30 demo_call streamed2] stream_found(1) stream_started
  have reach: "transfer_reachable demo_panel (demo_tsys streamed2 [] [SES])"
    by (simp add: demo_tsys_def stream_row_def demo_session_def)
  with stream_is_read_once [OF reach] stream_found(2) show ?thesis
    by (fastforce simp: demo_tsys_def stream_row_def demo_session_def)
qed

section \<open>An upload\<close>

definition demo_upload :: upload_input where
  "demo_upload = \<lparr>ig_sourceKind = ''FILES'', ig_resourceId = ''site-1'', ig_actor = demo_actor, ig_filename = ''a.txt'',
     ig_contentType = ''text/plain'', ig_resourceExpiresAt = 1000000000, iu_contentLength = 2, iu_idempotencyKey = ''key-00001''\<rparr>"

definition UP :: string where "UP = ''00000000-0000-8000-8000-000000000000''"

definition demo_material :: upload_material where
  "demo_material = \<lparr>um_sessionId = UP, um_artifactId = UP, um_secret = SECRET0\<rparr>"

definition up_art :: artifact_row where "up_art = upload_artifact_row demo_panel demo_material demo_upload 14400000 0"
definition up_row :: session_row where "up_row = upload_session_row demo_panel demo_material demo_upload 900000 0"
definition uploaded1 :: tdb where "uploaded1 = empty_tdb\<lparr>td_sessions := [up_row], td_artifacts := [up_art]\<rparr>"

lemma demo_material: "deriveUploadMaterial demo_panel USER ''key-00001'' = demo_material"
proof -
  have "uuidFromDigest ZEROS = UP" by code_simp
  then show ?thesis by (simp add: deriveUploadMaterial_def upload_digest_def demo_panel_def demo_material_def panel_texts)
qed

lemma upload_issued:
  "\<exists>delivery. issueStagedUpload demo_panel demo_svc demo_disk demo_upload 0 empty_tdb empty_tdb empty_tdb = (Inr delivery, uploaded1)"
proof -
  have checks: "upload_invalid demo_upload = None" "prepareUploadAdmission demo_panel demo_disk 2 = None"
    "assertAdmission demo_panel USER 0 empty_tdb = None"
    "\<not> isl (buildUploadDelivery demo_panel up_row SECRET0 ''https://p.example'')" by code_simp+
  have inputs: "te_origin demo_panel = Inr ''https://p.example''" "act_userId (ig_actor demo_upload) = USER"
    "iu_idempotencyKey demo_upload = ''key-00001''" "iu_contentLength demo_upload = 2" "ig_resourceExpiresAt demo_upload = 1000000000"
    "sv_handler demo_svc = Some 0" "um_secret demo_material = SECRET0" "stagedLeaseTtlMs demo_panel = 14400000" "firstByteTtlMs demo_panel = 900000"
    by (simp_all add: demo_panel_def demo_upload_def demo_actor_def demo_svc_def demo_material_def stagedLeaseTtlMs_def firstByteTtlMs_def positiveInt_def)
  have "create_upload up_art up_row empty_tdb = (Inr (), uploaded1)"
    by (simp add: create_upload_def transaction_def create_artifact_def create_session_def find_artifact_def concrete_rows
        empty_tdb_def uploaded1_def up_art_def up_row_def upload_artifact_row_def upload_session_row_def new_session_def)
  then show ?thesis
    using checks
    by (auto simp: issueStagedUpload_def inputs demo_material find_session_def concrete_rows empty_tdb_def Let_def
        isl_def simp flip: up_art_def up_row_def)
       (metis old.sum.exhaust)
qed

definition demo_uploaded :: "(completed_upload, tdb) outcome" where
  "demo_uploaded = upload demo_panel demo_svc UP SECRET0 (Some ''2'') (Some ''text/plain'') two_bytes 30 uploaded1"

lemma demo_uploaded:
  "case fst demo_uploaded of Inl _ \<Rightarrow> False
     | Inr c \<Rightarrow> (case find_artifact (cu_artifactId c) (snd demo_uploaded) of None \<Rightarrow> False | Some a \<Rightarrow> 40 < ta_expiresAt a)"
  by code_simp

theorem uploaded_bytes_are_found_witness:
  "\<exists>c d res. demo_uploaded = (Inr c, d) \<and>
     requireUploadedArtifact \<lparr>ui_sessionId = UP, ui_sourceKind = ''FILES'', ui_resourceId = ''site-1'', ui_actorUserId = USER\<rparr> 40 d
       = Inr res \<and> td_files d (ur_path res) = Some (Regular [1, 2])"
proof -
  obtain delivery where "issueStagedUpload demo_panel demo_svc demo_disk demo_upload 0 empty_tdb empty_tdb empty_tdb = (Inr delivery, uploaded1)"
    using upload_issued by blast
  with tr_step [OF reach_svc tr_issue_upload, of demo_disk demo_upload 0 empty_tdb empty_tdb]
  have reach: "transfer_reachable demo_panel (demo_tsys uploaded1 [] [])" by (simp add: demo_tsys_def)
  obtain c where c: "fst demo_uploaded = Inr c" using demo_uploaded by (auto split: sum.splits)
  have alive: "40 < ta_expiresAt a" if "find_artifact (cu_artifactId c) (snd demo_uploaded) = Some a" for a
    using demo_uploaded c that by simp
  have run: "demo_uploaded = (Inr c, snd demo_uploaded)" using c by (simp add: prod_eq_iff)
  have row: "find_session UP uploaded1 = Some up_row" "upload_claimed UP 30 uploaded1"
    by (simp_all add: find_session_def upload_claimed_def uploaded1_def concrete_rows up_row_def upload_session_row_def
        new_session_def demo_material_def upload_guard_def)
  have "ts_sourceKind up_row = ''FILES''" "ts_resourceId up_row = ''site-1''" "ts_actorUserId up_row = USER"
    by (simp_all add: up_row_def upload_session_row_def new_session_def demo_upload_def demo_actor_def)
  moreover have "upload demo_panel (ty_svc (demo_tsys uploaded1 [] [])) UP SECRET0 (Some ''2'') (Some ''text/plain'') two_bytes 30
      (ty_db (demo_tsys uploaded1 [] [])) = (Inr c, snd demo_uploaded)"
    using run by (simp add: demo_tsys_def demo_uploaded_def)
  moreover have "find_session UP (ty_db (demo_tsys uploaded1 [] [])) = Some up_row"
    "upload_claimed UP 30 (ty_db (demo_tsys uploaded1 [] []))" "src_error two_bytes = None"
    using row by (simp_all add: demo_tsys_def two_bytes_def)
  ultimately have "\<exists>res. requireUploadedArtifact \<lparr>ui_sessionId = UP, ui_sourceKind = ''FILES'', ui_resourceId = ''site-1'',
        ui_actorUserId = USER\<rparr> 40 (snd demo_uploaded) = Inr res \<and>
      td_files (snd demo_uploaded) (ur_path res) = Some (Regular (concat (src_chunks two_bytes)))"
    using uploaded_bytes_are_found [OF reach, of UP up_row 30 SECRET0 "Some ''2''" "Some ''text/plain''" two_bytes c
        "snd demo_uploaded" 40] alive by metis
  with run show ?thesis by (auto simp: two_bytes_def)
qed


section \<open>Revocation and sweep of a staging\<close>

definition early1 :: tdb where "early1 = snd (revoke demo_revoke 5 staged1)"
definition early2 :: tdb where "early2 = snd (receive demo_panel 100 stage_overflow ART two_bytes early1)"

theorem staging_survives_its_revocation_witness:
  "fst (revoke demo_revoke 5 staged1) = Inr () \<and> (\<exists>d a. find_artifact ART d = Some a \<and> ta_state a = ART_READY \<and>
     ta_deletedAt a = Some 5 \<and> td_files d ART_FILE = Some (Regular [1, 2]) \<and> revoke demo_revoke 40 d = (Inr (), d))"
proof -
  have runs: "fst (revoke demo_revoke 5 staged1) = Inr ()" "fst (receive demo_panel 100 stage_overflow ART two_bytes early1) = Inr [1, 2]"
    by code_simp+
  have "revoke demo_revoke 5 staged1 = (Inr (), early1)" "ri_artifactId demo_revoke = ART"
    "receive demo_panel (si_expectedMaxBytes demo_stage) stage_overflow ART two_bytes early1 = (Inr [1, 2], early2)"
    using runs by (simp_all add: early1_def early2_def prod_eq_iff demo_revoke_def demo_stage_def)
  from staging_survives_its_revocation [OF run1 this, of 30 40] runs(1) show ?thesis by blast
qed

theorem long_staging_is_swept_witness:
  "\<exists>d. move_file ART ART_FILE d = (Inl (Plain ''ENOENT''), d) \<and> find_artifact ART d = Some (failed_write 1800001 demo_art)"
proof -
  have "find_artifact ART staged2 = Some demo_art" "ta_state demo_art = ART_STAGING" "ta_createdAt demo_art < 1800001 - 1800000"
    "keyed ta_id (td_artifacts staged2)" "artifactPath (ta_relativePath demo_art) = Inr ART_FILE"
    "length (filter (stale_artifact 1800001) (td_artifacts staged2)) = 1"
    "td_partials staged2 (partial_name ART) \<noteq> Some Directory" "td_files staged2 ART_FILE \<noteq> Some Directory"
    by (simp_all add: find_artifact_def staged2_def staged1_def concrete_rows demo_art_def keyed_def panel_texts stale_artifact_def)
  from long_staging_is_swept [OF this] show ?thesis by blast
qed

section \<open>Deliveries\<close>

theorem issued_sessions_have_valid_deliveries_witness:
  "panel_ok demo_panel ''https://p.example'' \<and>
   issue_ok demo_panel staged4 (issueStagedArtifact demo_panel demo_svc SES ZEROS ART demo_actor 20 staged4)"
proof -
  have "rx_test UUID PANEL" "list_all printable ''https://p.example''" "is_iso_date ''2024-02-29T23:59:59.999Z''" "rx_test UUID SES"
    "assertTransferResource ''LOGS'' ''site-1'' = None" by code_simp+
  then have ok: "panel_ok demo_panel ''https://p.example''" "rx_test UUID SES" "length ZEROS = 32" "resources_ok staged4"
    by (simp_all add: panel_ok_def demo_panel_def ZEROS_def resources_ok_def staged4_def demo_ready_def demo_art_def)
  with issued_sessions_have_valid_deliveries [OF ok] show ?thesis by blast
qed

end
