(* ===== verification/Webhook_Contract.thy ===== *)
theory Webhook_Contract
  imports Operation_Contract Encodings Transfer_Validation
begin

text \<open>
  The messages of the webhooks: what the master sends to the panel of a site and what that
  panel answers, \<open>shared/src/webhook-federation.ts\<close>, and the verification of a delivery of
  GitHub or Gitea, \<open>api/src/webhooks/webhook-provider.ts\<close>. The parser of a JSON body (UTF-8 and
  \<open>JSON.parse\<close>) and HMAC are arguments.
\<close>

section \<open>Patterns\<close>

datatype provider = GITHUB | GITEA

fun provider_name :: "provider \<Rightarrow> string" where
  "provider_name GITHUB = ''GITHUB''"
| "provider_name GITEA = ''GITEA''"

definition FEDERATED_WEBHOOK_PROVIDERS :: "string list" where
  "FEDERATED_WEBHOOK_PROVIDERS = [''GITHUB'', ''GITEA'']"

definition FEDERATED_WEBHOOK_MAX_RAW_BYTES :: nat where
  "FEDERATED_WEBHOOK_MAX_RAW_BYTES = 65536"

text \<open>\<open>Math.ceil(n * 4 / 3)\<close>\<close>

definition FEDERATED_WEBHOOK_MAX_ENCODED_BYTES :: nat where
  "FEDERATED_WEBHOOK_MAX_ENCODED_BYTES = (FEDERATED_WEBHOOK_MAX_RAW_BYTES * 4 + 2) div 3"

text \<open>
  The pattern of a domain without its look-ahead, which asks for at most 253 characters and is
  checked with the length.
\<close>

definition lower_digit :: rx where "lower_digit = Cls (\<lambda>c. lower c \<or> digit_char c)"

definition DOMAIN_LABEL :: rx where
  "DOMAIN_LABEL = Cat lower_digit
     (opt (Cat (Rep 0 61 (Cls (\<lambda>c. lower c \<or> digit_char c \<or> c = CHR ''-''))) lower_digit))"

definition DOMAIN_NAME :: rx where
  "DOMAIN_NAME = Cat DOMAIN_LABEL (plus (Cat (lit ''.'') DOMAIN_LABEL))"

definition DELIVERY_ID :: rx where "DELIVERY_ID = Rep 1 128 (Cls safe_id_char)"
definition BASE64URL :: rx where "BASE64URL = plus (Cls base64url_char)"
definition SIGNATURE :: rx where "SIGNATURE = Cat (opt (lit ''sha256='')) (Rep 64 64 (Cls hex_lower))"

section \<open>The messages\<close>

definition WEBHOOK_KEYS :: "string list" where
  "WEBHOOK_KEYS =
     [''schemaVersion'', ''deliveryId'', ''routeId'', ''targetInstallationId'', ''siteId'', ''domainId'', ''domain'',
      ''provider'', ''providerDeliveryId'', ''event'', ''receivedAt'', ''rawBodyBase64'', ''rawBodySha256'',
      ''providerSignature'']"

definition validateFederatedWebhookDelivery :: "json \<Rightarrow> check" where
  "validateFederatedWebhookDelivery value =
     (if \<not> isContractRecord value then Some ''FederatedWebhookDelivery is invalid''
      else first_error
       [requireExactKeys value WEBHOOK_KEYS [] ''webhookDelivery'',
        throw_if (field value ''schemaVersion'' \<noteq> JNum 1) ''webhookDelivery.schemaVersion is invalid'',
        requireString (field value ''deliveryId'') ''webhookDelivery.deliveryId'' 1 1024 (Some UUID),
        requireString (field value ''routeId'') ''webhookDelivery.routeId'' 1 1024 (Some UUID),
        requireString (field value ''targetInstallationId'') ''webhookDelivery.targetInstallationId'' 1 1024 (Some UUID),
        requireString (field value ''siteId'') ''webhookDelivery.siteId'' 1 1024 (Some UUID),
        requireString (field value ''domainId'') ''webhookDelivery.domainId'' 1 1024 (Some UUID),
        requireString (field value ''domain'') ''webhookDelivery.domain'' 1 253 (Some DOMAIN_NAME),
        requireEnum (field value ''provider'') FEDERATED_WEBHOOK_PROVIDERS ''webhookDelivery.provider'',
        requireString (field value ''providerDeliveryId'') ''webhookDelivery.providerDeliveryId'' 1 128 (Some DELIVERY_ID),
        throw_if (field value ''event'' \<noteq> JStr ''push'') ''webhookDelivery.event is invalid'',
        requireIsoDate (field value ''receivedAt'') ''webhookDelivery.receivedAt'',
        requireString (field value ''rawBodyBase64'') ''webhookDelivery.rawBodyBase64'' 1 FEDERATED_WEBHOOK_MAX_ENCODED_BYTES
          (Some BASE64URL),
        requireString (field value ''rawBodySha256'') ''webhookDelivery.rawBodySha256'' 1 1024 (Some SHA256_HEX),
        requireString (field value ''providerSignature'') ''webhookDelivery.providerSignature'' 1 71 (Some SIGNATURE)])"

definition validateFederatedWebhookDeliveryResult :: "json \<Rightarrow> check" where
  "validateFederatedWebhookDeliveryResult value =
     (if \<not> isContractRecord value then Some ''FederatedWebhookDeliveryResult is invalid''
      else first_error
       [requireExactKeys value [''schemaVersion'', ''deliveryId'', ''status'', ''deployId'', ''duplicate''] []
          ''webhookDeliveryResult'',
        throw_if (field value ''schemaVersion'' \<noteq> JNum 1) ''webhookDeliveryResult.schemaVersion is invalid'',
        requireString (field value ''deliveryId'') ''webhookDeliveryResult.deliveryId'' 1 1024 (Some UUID),
        requireEnum (field value ''status'') [''DELIVERED'', ''IGNORED''] ''webhookDeliveryResult.status'',
        (if field value ''deployId'' \<noteq> JNull
         then requireString (field value ''deployId'') ''webhookDeliveryResult.deployId'' 1 1024 (Some UUID) else None),
        requireBoolean (field value ''duplicate'') ''webhookDeliveryResult.duplicate''])"

definition assertFederatedWebhookRawLength :: "string \<Rightarrow> check" where
  "assertFederatedWebhookRawLength encoded =
     requireInteger (JNum (int (raw_bytes (length encoded)))) ''webhookDelivery.rawBodyBytes'' 1
       (int FEDERATED_WEBHOOK_MAX_RAW_BYTES)"

text \<open>A member that was validated to be a text.\<close>

definition text_field :: "json \<Rightarrow> string \<Rightarrow> string" where
  "text_field value k = (case field value k of JStr s \<Rightarrow> s | _ \<Rightarrow> [])"

section \<open>Headers of a provider\<close>

definition malformed_headers :: exn where "malformed_headers = BadRequest ''Malformed webhook headers''"

text \<open>\<open>/^[!#$%&'*+.^_`|~0-9A-Za-z-]+$/\<close>\<close>

definition HEADER_NAME :: rx where
  "HEADER_NAME = plus (Cls (\<lambda>c. upper c \<or> lower c \<or> digit_char c \<or> c \<in> set ''!#$%&*+.^_|~-'' \<or> c = CHR 0x27 \<or> c = CHR 0x60))"

text \<open>The values of one name; the first malformed pair throws.\<close>

fun header_values :: "string \<Rightarrow> string list \<Rightarrow> exn + string list" where
  "header_values name [] = Inr []"
| "header_values name [_] = Inl malformed_headers"
| "header_values name (k # v # rest) =
     (if \<not> rx_test HEADER_NAME k \<or> list_ex control_char v then Inl malformed_headers
      else case header_values name rest of
        Inl e \<Rightarrow> Inl e
      | Inr vs \<Rightarrow> Inr ((if js_lower k = name then [js_trim v] else []) @ vs))"

definition uniqueRawHeader :: "string list \<Rightarrow> string \<Rightarrow> exn + string" where
  "uniqueRawHeader rawHeaders name =
     (if odd (length rawHeaders) then Inl malformed_headers
      else case header_values name rawHeaders of
        Inl e \<Rightarrow> Inl e
      | Inr vs \<Rightarrow>
         (case vs of
            [v] \<Rightarrow> if v = [] then Inl (BadRequest (''Webhook header '' @ name @ '' is required exactly once'')) else Inr v
          | _ \<Rightarrow> Inl (BadRequest (''Webhook header '' @ name @ '' is required exactly once''))))"

fun header_names_of :: "string list \<Rightarrow> string list" where
  "header_names_of [] = []"
| "header_names_of [k] = [js_lower k]"
| "header_names_of (k # _ # rest) = js_lower k # header_names_of rest"

definition detectWebhookProvider :: "string list \<Rightarrow> provider" where
  "detectWebhookProvider rawHeaders =
     (if ''x-gitea-signature'' \<in> set (header_names_of rawHeaders) then GITEA else GITHUB)"

section \<open>Verification\<close>

text \<open>Two texts of 64 digits are compared as their bytes.\<close>

definition safeEqualHex :: "string \<Rightarrow> string \<Rightarrow> bool" where
  "safeEqualHex actual expected = (rx_test SHA256_HEX actual \<and> rx_test SHA256_HEX expected \<and> actual = expected)"

text \<open>\<open>/^application\/json(?:\s*;\s*charset=utf-8)?$/i\<close>\<close>

definition CONTENT_TYPE :: rx where
  "CONTENT_TYPE = Cat (lit ''application/json'')
     (opt (cats [Star (Cls js_space), lit '';'', Star (Cls js_space), lit ''charset=utf-8'']))"

definition EVENT :: rx where
  "EVENT = Cat (Cls lower) (Rep 0 63 (Cls (\<lambda>c. lower c \<or> digit_char c \<or> c = CHR ''_'')))"

text \<open>The digits of \<open>/^sha256=([0-9a-f]{64})$/\<close> and \<open>/^([0-9a-f]{64})$/\<close>.\<close>

definition signature_digest :: "provider \<Rightarrow> string \<Rightarrow> string option" where
  "signature_digest p signature =
     (case p of
        GITHUB \<Rightarrow> if take 7 signature = ''sha256='' \<and> rx_test SHA256_HEX (drop 7 signature) then Some (drop 7 signature) else None
      | GITEA \<Rightarrow> if rx_test SHA256_HEX signature then Some signature else None)"

fun signature_header :: "provider \<Rightarrow> string" where
  "signature_header GITHUB = ''x-hub-signature-256''"
| "signature_header GITEA = ''x-gitea-signature''"

fun event_header :: "provider \<Rightarrow> string" where
  "event_header GITHUB = ''x-github-event''"
| "event_header GITEA = ''x-gitea-event''"

fun delivery_header :: "provider \<Rightarrow> string" where
  "delivery_header GITHUB = ''x-github-delivery''"
| "delivery_header GITEA = ''x-gitea-delivery''"

text \<open>\<open>parse\<close> is \<open>None\<close> where the body is no UTF-8 or no JSON.\<close>

definition parseJsonBody :: "(bytes \<Rightarrow> json option) \<Rightarrow> bytes \<Rightarrow> exn + json" where
  "parseJsonBody parse body =
     (case parse body of
        None \<Rightarrow> Inl (BadRequest ''Webhook body must be valid JSON UTF-8'')
      | Some v \<Rightarrow> if isContractRecord v then Inr v else Inl (BadRequest ''Webhook body must be a JSON object''))"

record verified_delivery =
  vd_provider :: provider
  vd_providerDeliveryId :: string
  vd_event :: string
  vd_signature :: string
  vd_payload :: json

definition secret_unsafe :: "string \<Rightarrow> bool" where
  "secret_unsafe secret =
     (utf8_length secret < 16 \<or> utf8_length secret > 512 \<or> list_ex (\<lambda>c. c \<in> {CHR 0x00, CHR 0x0D, CHR 0x0A}) secret)"

definition verifyWebhookProviderDelivery ::
  "(string \<Rightarrow> bytes \<Rightarrow> bytes) \<Rightarrow> (bytes \<Rightarrow> json option) \<Rightarrow> provider \<Rightarrow> string \<Rightarrow> string list \<Rightarrow> bytes
     \<Rightarrow> exn + verified_delivery"
where
  "verifyWebhookProviderDelivery hmac parse p secret rawHeaders body =
     (if body = [] then Inl (BadRequest ''Webhook body is required'')
      else if length body > FEDERATED_WEBHOOK_MAX_RAW_BYTES then Inl (HttpError 413 ''Webhook body exceeds 64 KiB'')
      else if secret_unsafe secret then Inl (Plain ''Webhook verifier secret is invalid'')
      else case uniqueRawHeader rawHeaders ''content-type'' of
        Inl e \<Rightarrow> Inl e
      | Inr contentType \<Rightarrow>
     if \<not> rx_test CONTENT_TYPE (js_lower contentType)
     then Inl (BadRequest ''Webhook content type must be application/json'')
     else case uniqueRawHeader rawHeaders (signature_header p) of
        Inl e \<Rightarrow> Inl e
      | Inr signature \<Rightarrow>
     if (case signature_digest p signature of
           None \<Rightarrow> True | Some actual \<Rightarrow> \<not> safeEqualHex actual (hex_of (hmac secret body)))
     then Inl (Unauthorized ''Webhook signature is invalid'')
     else case uniqueRawHeader rawHeaders (event_header p) of
        Inl e \<Rightarrow> Inl e
      | Inr event \<Rightarrow>
     if \<not> rx_test EVENT event then Inl (BadRequest ''Webhook event is invalid'')
     else case uniqueRawHeader rawHeaders (delivery_header p) of
        Inl e \<Rightarrow> Inl e
      | Inr providerDeliveryId \<Rightarrow>
     if \<not> rx_test DELIVERY_ID providerDeliveryId then Inl (BadRequest ''Webhook delivery ID is invalid'')
     else case parseJsonBody parse body of
        Inl e \<Rightarrow> Inl e
      | Inr payload \<Rightarrow>
          Inr \<lparr>vd_provider = p, vd_providerDeliveryId = providerDeliveryId, vd_event = event, vd_signature = signature,
               vd_payload = payload\<rparr>)"

text \<open>A delivery that passes carries the HMAC of its body under the secret.\<close>

lemma verified_delivery:
  assumes "verifyWebhookProviderDelivery hmac parse p secret rawHeaders body = Inr v"
  shows "vd_provider v = p" "body \<noteq> []" "length body \<le> FEDERATED_WEBHOOK_MAX_RAW_BYTES"
    "signature_digest p (vd_signature v) = Some (hex_of (hmac secret body))"
    "uniqueRawHeader rawHeaders (signature_header p) = Inr (vd_signature v)"
    "rx_test DELIVERY_ID (vd_providerDeliveryId v)" "parse body = Some (vd_payload v)" "isContractRecord (vd_payload v)"
    "uniqueRawHeader rawHeaders (delivery_header p) = Inr (vd_providerDeliveryId v)"
  using assms
  by (auto simp: verifyWebhookProviderDelivery_def parseJsonBody_def safeEqualHex_def
      split: if_splits sum.splits option.splits)

end
