(* ===== verification/Webhook_Store.thy ===== *)
theory Webhook_Store
  imports Webhook_Contract Transfer_Artifact
begin

text \<open>
  The state of the webhooks on the master: the tables \<open>webhook_routes\<close> and
  \<open>webhook_deliveries\<close> of \<open>api/prisma/schema.prisma\<close> and the spool of
  \<open>api/src/webhooks/webhook-spool.service.ts\<close>, with the ciphers of
  \<open>api/src/common/crypto/webhook-cipher.ts\<close>. Hash functions, HMAC and the ciphers are
  arguments: sealing gives bytes or a text, opening gives the value that was sealed or fails.
\<close>

section \<open>Surroundings\<close>

record webhook_env =
  we_installationId :: string
  we_role :: string
  we_origin :: "exn + string"
  we_hash :: "bytes \<Rightarrow> bytes"
  we_mac :: "bytes \<Rightarrow> bytes"
  we_hmac :: "string \<Rightarrow> bytes \<Rightarrow> bytes"
  we_parse :: "bytes \<Rightarrow> json option"
  we_seal_text :: "json \<Rightarrow> string"
  we_open_text :: "string \<Rightarrow> json option"
  we_seal :: "string \<Rightarrow> json \<Rightarrow> bytes"
  we_open :: "string \<Rightarrow> bytes \<Rightarrow> json option"
  we_iso :: "time \<Rightarrow> string"
  we_parse_url :: "string \<Rightarrow> (string \<times> string \<times> string) option"
  we_config :: "string \<Rightarrow> int option"

definition sha_hex :: "webhook_env \<Rightarrow> bytes \<Rightarrow> string" where
  "sha_hex env bs = hex_of (we_hash env bs)"

section \<open>Rows\<close>

datatype route_state = ROUTE_ACTIVE | ROUTE_REVOKED

record wroute =
  wr_id :: string
  wr_dedupeKey :: "string option"
  wr_tokenVersion :: int
  wr_tokenHash :: string
  wr_createdByUserId :: string
  wr_remoteServerId :: "string option"
  wr_target :: string
  wr_siteId :: string
  wr_domainId :: string
  wr_domain :: string
  wr_provider :: provider
  wr_verifierEnc :: string
  wr_state :: route_state
  wr_revokedAt :: "time option"

datatype delivery_state = W_ACCEPTED | W_DELIVERING | W_RETRY_WAIT | W_DELIVERED | W_DLQ

record wdelivery =
  wd_id :: string
  wd_routeId :: string
  wd_providerDeliveryId :: string
  wd_event :: string
  wd_bodySha256 :: string
  wd_spoolPath :: string
  wd_state :: delivery_state
  wd_attempt :: int
  wd_maxAttempts :: int
  wd_availableAt :: time
  wd_leaseOwner :: "string option"
  wd_leaseExpiresAt :: "time option"
  wd_lastAttemptAt :: "time option"
  wd_targetRequestId :: "string option"
  wd_result :: "string option"
  wd_lastErrorCode :: "string option"
  wd_acceptedAt :: time
  wd_deliveredAt :: "time option"
  wd_dlqAt :: "time option"
  wd_createdAt :: time

text \<open>The spool has the directories \<open>queue\<close> and \<open>dlq\<close>, and \<open>tmp\<close> with the time of each file.\<close>

record wdb =
  ws_routes :: "wroute list"
  ws_deliveries :: "wdelivery list"
  ws_queue :: "string \<Rightarrow> bytes option"
  ws_dlq :: "string \<Rightarrow> bytes option"
  ws_tmp :: "string \<Rightarrow> (bytes \<times> time) option"

definition find_route :: "string \<Rightarrow> wdb \<Rightarrow> wroute option" where
  "find_route u d = find_key wr_id u (ws_routes d)"

definition find_delivery :: "string \<Rightarrow> wdb \<Rightarrow> wdelivery option" where
  "find_delivery u d = find_key wd_id u (ws_deliveries d)"

definition update_routes :: "(wroute \<Rightarrow> bool) \<Rightarrow> (wroute \<Rightarrow> wroute) \<Rightarrow> wdb \<Rightarrow> wdb" where
  "update_routes P f d = d\<lparr>ws_routes := update_rows P f (ws_routes d)\<rparr>"

definition update_deliveries :: "(wdelivery \<Rightarrow> bool) \<Rightarrow> (wdelivery \<Rightarrow> wdelivery) \<Rightarrow> wdb \<Rightarrow> wdb" where
  "update_deliveries P f d = d\<lparr>ws_deliveries := update_rows P f (ws_deliveries d)\<rparr>"

interpretation routes: row_store wr_id "\<lambda>d. keyed wr_id (ws_routes d)" find_route update_routes
    "\<lambda>P d. count_rows P (ws_routes d)"
  by unfold_locales
     (auto simp: find_route_def update_routes_def keyed_update_rows find_key_update_rows count_rows_key
       dest: find_key_SomeD)

interpretation deliveries: row_store wd_id "\<lambda>d. keyed wd_id (ws_deliveries d)" find_delivery update_deliveries
    "\<lambda>P d. count_rows P (ws_deliveries d)"
  by unfold_locales
     (auto simp: find_delivery_def update_deliveries_def keyed_update_rows find_key_update_rows count_rows_key
       dest: find_key_SomeD)

section \<open>Ciphers\<close>

definition deriveWebhookRouteToken :: "webhook_env \<Rightarrow> string \<Rightarrow> int \<Rightarrow> exn + string" where
  "deriveWebhookRouteToken env routeId version =
     (if \<not> safe_integer version \<or> version < 1 then Inl (Plain ''Webhook token version is invalid'')
      else Inr (base64url (we_mac env (utf8_bytes (''route-token:v1:'' @ routeId @ '':'' @ show_int version)))))"

definition webhookRouteTokenHash :: "webhook_env \<Rightarrow> string \<Rightarrow> string" where
  "webhookRouteTokenHash env token = sha_hex env (utf8_bytes token)"

definition encryptWebhookRouteVerifier :: "webhook_env \<Rightarrow> string \<Rightarrow> provider \<Rightarrow> string \<Rightarrow> string" where
  "encryptWebhookRouteVerifier env routeId p secret = we_seal_text env
     (JObj [(''version'', JNum 1), (''routeId'', JStr routeId), (''provider'', JStr (provider_name p)), (''secret'', JStr secret)])"

definition provider_of :: "json \<Rightarrow> provider option" where
  "provider_of v = (if v = JStr ''GITHUB'' then Some GITHUB else if v = JStr ''GITEA'' then Some GITEA else None)"

definition decryptWebhookRouteVerifier :: "webhook_env \<Rightarrow> string \<Rightarrow> string \<Rightarrow> exn + provider \<times> string" where
  "decryptWebhookRouteVerifier env routeId encoded =
     (case we_open_text env encoded of
        None \<Rightarrow> Inl (Plain ''Unsupported state or unable to authenticate data'')
      | Some envelope \<Rightarrow>
         (case provider_of (field envelope ''provider'') of
            Some p \<Rightarrow>
              if field envelope ''version'' = JNum 1 \<and> field envelope ''routeId'' = JStr routeId
              then Inr (p, text_field envelope ''secret'')
              else Inl (Plain ''Webhook route verifier binding mismatch'')
          | None \<Rightarrow> Inl (Plain ''Webhook route verifier binding mismatch'')))"

text \<open>The data that the cipher of the spool authenticates beside the payload.\<close>

definition spoolAad :: "string \<Rightarrow> string \<Rightarrow> string \<Rightarrow> string" where
  "spoolAad deliveryId routeId rawBodySha256 =
     ''meowbox:webhook-spool:v1'' @ [CHR 0x00] @ routeId @ [CHR 0x00] @ deliveryId @ [CHR 0x00] @ rawBodySha256"

definition encryptWebhookSpool :: "webhook_env \<Rightarrow> json \<Rightarrow> bytes" where
  "encryptWebhookSpool env delivery =
     we_seal env (spoolAad (text_field delivery ''deliveryId'') (text_field delivery ''routeId'')
       (text_field delivery ''rawBodySha256'')) delivery"

definition decryptWebhookSpool :: "webhook_env \<Rightarrow> string \<Rightarrow> string \<Rightarrow> string \<Rightarrow> bytes \<Rightarrow> exn + json" where
  "decryptWebhookSpool env deliveryId routeId rawBodySha256 encoded =
     (case we_open env (spoolAad deliveryId routeId rawBodySha256) encoded of
        None \<Rightarrow> Inl (Plain ''Webhook spool payload is invalid'')
      | Some v \<Rightarrow> Inr v)"

section \<open>The spool\<close>

definition PAYLOAD_FILE :: rx where
  "PAYLOAD_FILE = Cat (Rep 36 36 (Cls (\<lambda>c. hex_any c \<or> c = CHR ''-'')))
     (Cat (lit ''.'') (cats (map (\<lambda>x. Cls (\<lambda>c. to_lower c = x)) ''payload'')))"

definition PARTIAL_FILE :: rx where
  "PARTIAL_FILE = cats [Rep 36 36 (Cls (\<lambda>c. hex_any c \<or> c = CHR ''-'')), lit ''-'',
     Rep 36 36 (Cls (\<lambda>c. hex_any c \<or> c = CHR ''-'')), lit ''.'',
     cats (map (\<lambda>x. Cls (\<lambda>c. to_lower c = x)) ''partial'')]"

definition payload_file :: "string \<Rightarrow> string" where "payload_file u = u @ ''.payload''"
definition spool_partial :: "string \<Rightarrow> string \<Rightarrow> string" where "spool_partial u v = u @ ''-'' @ v @ ''.partial''"

text \<open>A name without a separator resolves to an entry of its directory.\<close>

definition resolve_file :: "rx \<Rightarrow> string \<Rightarrow> exn + string" where
  "resolve_file pattern name =
     (if \<not> rx_test pattern name then Inl (Plain ''Unsafe webhook spool filename'') else Inr name)"

definition spoolReserveBytes :: "webhook_env \<Rightarrow> int" where
  "spoolReserveBytes env = positiveInt (we_config env ''WEBHOOK_SPOOL_RESERVE_BYTES'') (1024 ^ 3)"

definition spoolReservePercent :: "webhook_env \<Rightarrow> int" where
  "spoolReservePercent env = boundedPercent (we_config env ''WEBHOOK_SPOOL_RESERVE_PERCENT'') 10"

definition assertSpoolAdmission :: "webhook_env \<Rightarrow> disk_state \<Rightarrow> int \<Rightarrow> exn option" where
  "assertSpoolAdmission env disk n =
     (let free = bavail disk * bsize disk; total = blocks disk * bsize disk;
          percentage = total * spoolReservePercent env div 100;
          reserve = (if percentage > spoolReserveBytes env then percentage else spoolReserveBytes env) in
      if free \<le> reserve + n then Some (Unavailable ''Webhook spool disk reserve would be violated'') else None)"

text \<open>The temporary file, and its renaming; \<open>v\<close> is the second random identifier.\<close>

definition spool_stage :: "webhook_env \<Rightarrow> disk_state \<Rightarrow> string \<Rightarrow> json \<Rightarrow> time \<Rightarrow> wdb \<Rightarrow> (string \<times> string, wdb) outcome" where
  "spool_stage env disk v delivery now d =
     (let payload = encryptWebhookSpool env delivery; u = text_field delivery ''deliveryId'' in
      case assertSpoolAdmission env disk (int (length payload)) of
        Some e \<Rightarrow> (Inl e, d)
      | None \<Rightarrow>
         (case (resolve_file PAYLOAD_FILE (payload_file u), resolve_file PARTIAL_FILE (spool_partial u v)) of
            (Inl e, _) \<Rightarrow> (Inl e, d)
          | (_, Inl e) \<Rightarrow> (Inl e, d)
          | (Inr final, Inr temporary) \<Rightarrow>
              if ws_tmp d temporary \<noteq> None then (Inl (Plain ''EEXIST''), d)
              else (Inr (temporary, final), d\<lparr>ws_tmp := (ws_tmp d)(temporary \<mapsto> (payload, now))\<rparr>)))"

definition spool_publish :: "string \<Rightarrow> string \<Rightarrow> wdb \<Rightarrow> wdb" where
  "spool_publish temporary final d =
     (case ws_tmp d temporary of
        None \<Rightarrow> d
      | Some (payload, _) \<Rightarrow> d\<lparr>ws_tmp := (ws_tmp d)(temporary := None), ws_queue := (ws_queue d)(final \<mapsto> payload)\<rparr>)"

definition spool_write :: "webhook_env \<Rightarrow> disk_state \<Rightarrow> string \<Rightarrow> json \<Rightarrow> time \<Rightarrow> wdb \<Rightarrow> (string, wdb) outcome" where
  "spool_write env disk v delivery now d =
     (case spool_stage env disk v delivery now d of
        (Inl e, d') \<Rightarrow> (Inl e, d')
      | (Inr (temporary, final), d') \<Rightarrow> (Inr final, spool_publish temporary final d'))"

definition spool_read :: "webhook_env \<Rightarrow> wdelivery \<Rightarrow> wdb \<Rightarrow> exn + json" where
  "spool_read env w d =
     (case resolve_file PAYLOAD_FILE (payload_file (wd_id w)) of
        Inl e \<Rightarrow> Inl e
      | Inr name \<Rightarrow>
         (case ws_queue d name of
            None \<Rightarrow> Inl (Plain ''ENOENT'')
          | Some payload \<Rightarrow>
              if length payload > 262144 then Inl (Plain ''Webhook spool file is invalid'')
              else case decryptWebhookSpool env (wd_id w) (wd_routeId w) (wd_bodySha256 w) payload of
                  Inl e \<Rightarrow> Inl e
                | Inr v \<Rightarrow> (case validateFederatedWebhookDelivery v of Some m \<Rightarrow> Inl (Plain m) | None \<Rightarrow> Inr v)))"

definition remove_queue :: "string \<Rightarrow> wdb \<Rightarrow> wdb" where
  "remove_queue u d = d\<lparr>ws_queue := (ws_queue d)(payload_file u := None)\<rparr>"

definition remove_dlq :: "string \<Rightarrow> wdb \<Rightarrow> wdb" where
  "remove_dlq u d = d\<lparr>ws_dlq := (ws_dlq d)(payload_file u := None)\<rparr>"

text \<open>A rename; where its source is missing, a file at its target counts as moved.\<close>

definition moveToDlq :: "string \<Rightarrow> wdb \<Rightarrow> (unit, wdb) outcome" where
  "moveToDlq u d =
     (let f = payload_file u in
      case ws_queue d f of
        Some b \<Rightarrow> (Inr (), d\<lparr>ws_queue := (ws_queue d)(f := None), ws_dlq := (ws_dlq d)(f \<mapsto> b)\<rparr>)
      | None \<Rightarrow> (if ws_dlq d f \<noteq> None then Inr () else Inl (Plain ''ENOENT''), d))"

definition moveToQueue :: "string \<Rightarrow> wdb \<Rightarrow> (unit, wdb) outcome" where
  "moveToQueue u d =
     (let f = payload_file u in
      case ws_dlq d f of
        Some b \<Rightarrow> (Inr (), d\<lparr>ws_dlq := (ws_dlq d)(f := None), ws_queue := (ws_queue d)(f \<mapsto> b)\<rparr>)
      | None \<Rightarrow> (if ws_queue d f \<noteq> None then Inr () else Inl (Plain ''ENOENT''), d))"

text \<open>At the start of the panel the temporary files of the last crash go.\<close>

definition cleanupPartialFiles :: "time \<Rightarrow> wdb \<Rightarrow> wdb" where
  "cleanupPartialFiles now d = d\<lparr>ws_tmp := (\<lambda>name. case ws_tmp d name of
     Some (b, t) \<Rightarrow> if rx_test PARTIAL_FILE name \<and> t < now - 600000 then None else Some (b, t) | None \<Rightarrow> None)\<rparr>"

end
