(* ===== verification/Webhook_Route.thy ===== *)
theory Webhook_Route
  imports Webhook_Store Public_Delivery
begin

text \<open>
  The routes of the webhooks, \<open>api/src/webhooks/webhook-route.service.ts\<close>: the addresses that the
  master gives to GitHub and Gitea. The other panels and their capabilities are arguments.
\<close>

section \<open>The target\<close>

record remote_context =
  rc_publicDeliveryOff :: bool
  rc_mode :: string
  rc_enabled :: bool

definition resolveTarget ::
  "webhook_env \<Rightarrow> (string \<Rightarrow> (string \<times> string option) option) \<Rightarrow> (string \<Rightarrow> exn + remote_context) \<Rightarrow> string
     \<Rightarrow> exn + string option \<times> string"
where
  "resolveTarget env servers contexts serverId =
     (if we_role env \<noteq> ''MASTER'' then Inl (Conflict ''Webhook routes are master-owned'')
      else if serverId = ''main'' \<or> serverId = we_installationId env then Inr (None, we_installationId env)
      else case servers serverId of
        None \<Rightarrow> Inl (NotFound ''Webhook target not found'')
      | Some (sid, installation) \<Rightarrow>
         (case truthy installation of
            None \<Rightarrow> Inl (NotFound ''Webhook target not found'')
          | Some i \<Rightarrow>
             (case contexts sid of
                Inl e \<Rightarrow> Inl e
              | Inr c \<Rightarrow>
                  if rc_publicDeliveryOff c \<or> rc_mode c \<noteq> ''v1-enabled'' \<or> \<not> rc_enabled c
                  then Inl (Unavailable ''Webhook target capability is unavailable'')
                  else Inr (Some sid, i))))"

section \<open>The address of a route\<close>

definition route_headers :: "provider \<Rightarrow> string list" where
  "route_headers p =
     (case p of
        GITHUB \<Rightarrow> [''content-type'', ''x-github-delivery'', ''x-github-event'', ''x-hub-signature-256'']
      | GITEA \<Rightarrow> [''content-type'', ''x-gitea-delivery'', ''x-gitea-event'', ''x-gitea-signature''])"

definition route_object :: "wroute \<Rightarrow> string \<Rightarrow> string \<Rightarrow> json" where
  "route_object r origin token = JObj
     [(''kind'', JStr ''PublicEndpoint''), (''purpose'', JStr ''DEPLOY_WEBHOOK''),
      (''targetInstallationId'', JStr (wr_target r)),
      (''resource'', JObj [(''kind'', JStr ''WEBHOOK_ROUTE''), (''id'', JStr (wr_id r))]),
      (''method'', JStr ''POST''), (''allowedHeaders'', JArr (map JStr (route_headers (wr_provider r)))),
      (''cachePolicy'', JStr ''NO_STORE''), (''referrerPolicy'', JStr ''NO_REFERRER''), (''expiresAt'', JNull),
      (''browserReachabilityRequired'', JBool False), (''rangeSupported'', JBool False), (''resumeSupported'', JBool False),
      (''fallbackReason'', JNull), (''reusable'', JBool True),
      (''url'', JStr (origin @ ''/api/public/v1/webhooks/'' @ token))]"

definition route_delivery :: "webhook_env \<Rightarrow> wroute \<Rightarrow> exn + json" where
  "route_delivery env r =
     (case deriveWebhookRouteToken env (wr_id r) (wr_tokenVersion r) of
        Inl e \<Rightarrow> Inl e
      | Inr token \<Rightarrow>
          if webhookRouteTokenHash env token \<noteq> wr_tokenHash r then Inl (Plain ''Webhook route token binding mismatch'')
          else case we_origin env of
            Inl e \<Rightarrow> Inl e
          | Inr origin \<Rightarrow>
             (let v = route_object r origin token in
              case validatePublicDelivery (we_parse_url env) v of Some m \<Rightarrow> Inl (Plain m) | None \<Rightarrow> Inr v))"

section \<open>Creation\<close>

record route_input =
  rt_serverId :: string
  rt_siteId :: string
  rt_domainId :: string
  rt_domain :: string
  rt_provider :: provider
  rt_secret :: string
  rt_actorUserId :: string

definition route_digest :: "webhook_env \<Rightarrow> string list \<Rightarrow> string" where
  "route_digest env parts = sha_hex env (utf8_bytes (concat (map (\<lambda>p. p @ [CHR 0x00]) parts)))"

definition route_dedupe :: "webhook_env \<Rightarrow> route_input \<Rightarrow> string \<Rightarrow> string" where
  "route_dedupe env inp target = route_digest env
     [''webhook-route-v1'', rt_actorUserId inp, target, rt_siteId inp, rt_domainId inp, provider_name (rt_provider inp)]"

definition assertRouteVerifier :: "webhook_env \<Rightarrow> wroute \<Rightarrow> provider \<Rightarrow> string \<Rightarrow> exn option" where
  "assertRouteVerifier env r p secret =
     (case decryptWebhookRouteVerifier env (wr_id r) (wr_verifierEnc r) of
        Inl e \<Rightarrow> Some e
      | Inr (q, s) \<Rightarrow>
          if q \<noteq> p \<or> s \<noteq> secret then Some (Conflict ''Webhook route already exists with a different verifier'') else None)"

definition active_route :: "wroute \<Rightarrow> bool" where
  "active_route r = (wr_state r = ROUTE_ACTIVE \<and> wr_revokedAt r = None)"

definition find_dedupe :: "string \<Rightarrow> wdb \<Rightarrow> wroute option" where
  "find_dedupe key d = find_first (\<lambda>r. wr_dedupeKey r = Some key) (ws_routes d)"

definition new_route :: "webhook_env \<Rightarrow> string \<Rightarrow> route_input \<Rightarrow> string option \<times> string \<Rightarrow> string \<Rightarrow> wroute" where
  "new_route env u inp target token =
     \<lparr>wr_id = u, wr_dedupeKey = Some (route_dedupe env inp (snd target)), wr_tokenVersion = 1,
      wr_tokenHash = webhookRouteTokenHash env token, wr_createdByUserId = rt_actorUserId inp,
      wr_remoteServerId = fst target, wr_target = snd target, wr_siteId = rt_siteId inp, wr_domainId = rt_domainId inp,
      wr_domain = js_lower (js_trim (rt_domain inp)), wr_provider = rt_provider inp,
      wr_verifierEnc = encryptWebhookRouteVerifier env u (rt_provider inp) (rt_secret inp),
      wr_state = ROUTE_ACTIVE, wr_revokedAt = None\<rparr>"

definition create_route_row :: "wroute \<Rightarrow> wdb \<Rightarrow> (unit, wdb) outcome" where
  "create_route_row r d =
     (if wr_id r \<in> wr_id ` set (ws_routes d) \<or> wr_tokenHash r \<in> wr_tokenHash ` set (ws_routes d) \<or>
         (wr_dedupeKey r \<noteq> None \<and> wr_dedupeKey r \<in> wr_dedupeKey ` set (ws_routes d))
      then (Inl (DbFault unique_violation), d) else (Inr (), d\<lparr>ws_routes := ws_routes d @ [r]\<rparr>))"

definition existing_route :: "webhook_env \<Rightarrow> route_input \<Rightarrow> wroute \<Rightarrow> exn + json" where
  "existing_route env inp r =
     (case assertRouteVerifier env r (rt_provider inp) (rt_secret inp) of Some e \<Rightarrow> Inl e | None \<Rightarrow> route_delivery env r)"

text \<open>
  \<open>domains\<close> is the table of the domains of the master, \<open>seen\<close> the state at the first search and
  \<open>later\<close> the one at the search after a lost race.
\<close>

definition create_route ::
  "webhook_env \<Rightarrow> (string \<Rightarrow> (string \<times> string option) option) \<Rightarrow> (string \<Rightarrow> exn + remote_context) \<Rightarrow> domain_row list
     \<Rightarrow> string \<Rightarrow> route_input \<Rightarrow> wdb \<Rightarrow> wdb \<Rightarrow> wdb \<Rightarrow> (json, wdb) outcome"
where
  "create_route env servers contexts domains u inp seen d later =
     (case resolveTarget env servers contexts (rt_serverId inp) of
        Inl e \<Rightarrow> (Inl e, d)
      | Inr target \<Rightarrow>
     if fst target = None \<and>
        (case find_key sd_id (rt_domainId inp) domains of
           None \<Rightarrow> True
         | Some l \<Rightarrow> sd_siteId l \<noteq> rt_siteId inp \<or> sd_domain l \<noteq> js_lower (js_trim (rt_domain inp)))
     then (Inl (NotFound ''Webhook target domain not found''), d)
     else case (case find_dedupe (route_dedupe env inp (snd target)) seen of
                  Some r \<Rightarrow> if active_route r then Some r else None | None \<Rightarrow> None) of
        Some r \<Rightarrow> (existing_route env inp r, d)
      | None \<Rightarrow>
         (case deriveWebhookRouteToken env u 1 of
            Inl e \<Rightarrow> (Inl e, d)
          | Inr token \<Rightarrow>
             (case create_route_row (new_route env u inp target token) d of
                (Inr _, d') \<Rightarrow> (route_delivery env (new_route env u inp target token), d')
              | (Inl e, d') \<Rightarrow>
                 (case find_dedupe (route_dedupe env inp (snd target)) later of
                    None \<Rightarrow> (Inl (Conflict ''Webhook route creation conflict''), d')
                  | Some r \<Rightarrow>
                      if wr_state r \<noteq> ROUTE_ACTIVE then (Inl (Conflict ''Webhook route creation conflict''), d')
                      else (existing_route env inp r, d')))))"

section \<open>Rotation and revocation\<close>

definition requireActive :: "string \<Rightarrow> wdb \<Rightarrow> exn + wroute" where
  "requireActive u d =
     (case find_route u d of
        Some r \<Rightarrow> if active_route r then Inr r else Inl (NotFound ''Webhook route not found'')
      | None \<Rightarrow> Inl (NotFound ''Webhook route not found''))"

definition rotated_write :: "int \<Rightarrow> string \<Rightarrow> wroute \<Rightarrow> wroute" where
  "rotated_write version hash r = r\<lparr>wr_tokenVersion := version, wr_tokenHash := hash\<rparr>"

definition rotate_write :: "webhook_env \<Rightarrow> wroute \<Rightarrow> wdb \<Rightarrow> (unit, wdb) outcome" where
  "rotate_write env current d =
     (let version = wr_tokenVersion current + 1; u = wr_id current in
      case deriveWebhookRouteToken env u version of
        Inl e \<Rightarrow> (Inl e, d)
      | Inr token \<Rightarrow>
         (let P = (\<lambda>r. wr_id r = u \<and> active_route r \<and> wr_tokenVersion r = wr_tokenVersion current);
              hash = webhookRouteTokenHash env token in
          if count_rows P (ws_routes d) \<noteq> 1 then (Inl (Conflict ''Webhook route changed concurrently''), d)
          else if hash \<in> wr_tokenHash ` set (filter (\<lambda>r. wr_id r \<noteq> u) (ws_routes d))
          then (Inl (DbFault unique_violation), d)
          else (Inr (), update_routes P (rotated_write version hash) d)))"

text \<open>\<open>rotate\<close> without another operation between its parts.\<close>

definition rotate_route :: "webhook_env \<Rightarrow> string \<Rightarrow> wdb \<Rightarrow> (json, wdb) outcome" where
  "rotate_route env u d =
     (case requireActive u d of
        Inl e \<Rightarrow> (Inl e, d)
      | Inr current \<Rightarrow>
         (case rotate_write env current d of
            (Inl e, d') \<Rightarrow> (Inl e, d')
          | (Inr _, d') \<Rightarrow>
             (case requireActive u d' of Inl e \<Rightarrow> (Inl e, d') | Inr r \<Rightarrow> (route_delivery env r, d'))))"

definition revoke_write :: "time \<Rightarrow> wroute \<Rightarrow> wroute" where
  "revoke_write now r = r\<lparr>wr_state := ROUTE_REVOKED, wr_revokedAt := Some now, wr_dedupeKey := None\<rparr>"

definition revoke_route :: "string \<Rightarrow> time \<Rightarrow> wdb \<Rightarrow> (unit, wdb) outcome" where
  "revoke_route u now d =
     (if count_rows (\<lambda>r. wr_id r = u \<and> active_route r) (ws_routes d) \<noteq> 1
      then (Inl (NotFound ''Webhook route not found''), d)
      else (Inr (), update_routes (\<lambda>r. wr_id r = u \<and> active_route r) (revoke_write now) d))"

section \<open>The token of a request\<close>

definition TOKEN :: rx where "TOKEN = Rep 43 43 (Cls base64url_char)"

definition resolvePublicToken :: "webhook_env \<Rightarrow> string \<Rightarrow> wdb \<Rightarrow> exn + wroute" where
  "resolvePublicToken env token d =
     (if \<not> rx_test TOKEN token then Inl (NotFound ''Webhook route not found'')
      else case find_first (\<lambda>r. wr_tokenHash r = webhookRouteTokenHash env token) (ws_routes d) of
        None \<Rightarrow> Inl (NotFound ''Webhook route not found'')
      | Some r \<Rightarrow>
          if \<not> active_route r then Inl (NotFound ''Webhook route not found'')
          else case deriveWebhookRouteToken env (wr_id r) (wr_tokenVersion r) of
            Inl e \<Rightarrow> Inl e
          | Inr expected \<Rightarrow> if token \<noteq> expected then Inl (NotFound ''Webhook route not found'') else Inr r)"

definition route_verifier :: "webhook_env \<Rightarrow> wroute \<Rightarrow> exn + provider \<times> string" where
  "route_verifier env r =
     (case decryptWebhookRouteVerifier env (wr_id r) (wr_verifierEnc r) of
        Inl e \<Rightarrow> Inl e
      | Inr (p, secret) \<Rightarrow>
          if p \<noteq> wr_provider r then Inl (Plain ''Webhook route provider binding mismatch'') else Inr (p, secret))"

section \<open>The last deliveries of a route\<close>

definition listDeliveries :: "string \<Rightarrow> wdb \<Rightarrow> exn + wdelivery list" where
  "listDeliveries routeId d =
     (if find_route routeId d = None then Inl (NotFound ''Webhook route not found'')
      else Inr (take 100 (rev (sort_key wd_createdAt (filter (\<lambda>w. wd_routeId w = routeId) (ws_deliveries d))))))"

end
