(* ===== verification/Webhook_Ingress.thy ===== *)
theory Webhook_Ingress
  imports Webhook_Route
begin

text \<open>
  The acceptance of a webhook, \<open>api/src/webhooks/webhook-ingress.service.ts\<close>: the token, the
  signature, the search for an earlier delivery with the same identifier, the limit of the
  queue, the payload in the spool and the row of the delivery. \<open>accept\<close> waits between these, so
  each is one definition, and \<open>accept\<close> takes the states it sees.
\<close>

section \<open>Checks\<close>

datatype ingress_result = Ignored | Accepted string bool

record ingress_request =
  iq_route :: wroute
  iq_delivery :: verified_delivery
  iq_sha :: string
  iq_body :: bytes

definition WEBHOOK_MAX_ATTEMPTS :: int where "WEBHOOK_MAX_ATTEMPTS = 6"

definition queueLimit :: "webhook_env \<Rightarrow> int" where
  "queueLimit env =
     (case we_config env ''WEBHOOK_QUEUE_LIMIT'' of Some n \<Rightarrow> if 1 \<le> n \<and> n \<le> 100000 then n else 1000 | None \<Rightarrow> 1000)"

definition ref_char :: "char \<Rightarrow> bool" where
  "ref_char c = (upper c \<or> lower c \<or> digit_char c \<or> c \<in> set ''._/-'')"

definition PUSH_REF :: rx where
  "PUSH_REF = Cat (lit ''refs/heads/'') (Rep 1 128 (Cls ref_char))"

definition push_ref_invalid :: exn where "push_ref_invalid = Conflict ''Webhook push ref is invalid''"

text \<open>\<open>None\<close> is an event other than a push, which is ignored.\<close>

definition ingress_verify :: "webhook_env \<Rightarrow> string \<Rightarrow> string list \<Rightarrow> bytes \<Rightarrow> wdb \<Rightarrow> exn + ingress_request option" where
  "ingress_verify env token rawHeaders body d =
     (case resolvePublicToken env token d of
        Inl e \<Rightarrow> Inl e
      | Inr r \<Rightarrow>
     (case route_verifier env r of
        Inl e \<Rightarrow> Inl e
      | Inr (p, secret) \<Rightarrow>
     (case verifyWebhookProviderDelivery (we_hmac env) (we_parse env) p secret rawHeaders body of
        Inl e \<Rightarrow> Inl e
      | Inr v \<Rightarrow>
          if vd_event v \<noteq> ''push'' then Inr None
          else case field (vd_payload v) ''ref'' of
            JStr ref \<Rightarrow>
              if rx_test PUSH_REF ref
              then Inr (Some \<lparr>iq_route = r, iq_delivery = v, iq_sha = sha_hex env body, iq_body = body\<rparr>)
              else Inl push_ref_invalid
          | _ \<Rightarrow> Inl push_ref_invalid)))"

definition isSameProviderDelivery :: "wdelivery \<Rightarrow> ingress_request \<Rightarrow> bool" where
  "isSameProviderDelivery w q = (wd_bodySha256 w = iq_sha q \<and> wd_event w = vd_event (iq_delivery q))"

definition provider_key :: "wdelivery \<Rightarrow> string \<times> string" where
  "provider_key w = (wd_routeId w, wd_providerDeliveryId w)"

definition request_key :: "ingress_request \<Rightarrow> string \<times> string" where
  "request_key q = (wr_id (iq_route q), vd_providerDeliveryId (iq_delivery q))"

definition find_provider :: "ingress_request \<Rightarrow> wdb \<Rightarrow> wdelivery option" where
  "find_provider q d = find_first (\<lambda>w. provider_key w = request_key q) (ws_deliveries d)"

definition other_bytes :: exn where "other_bytes = Conflict ''Webhook delivery ID is bound to different bytes''"
definition queue_is_full :: exn where "queue_is_full = Unavailable ''Webhook delivery queue is full''"

definition waiting :: "wdelivery \<Rightarrow> bool" where
  "waiting w = (wd_state w \<in> {W_ACCEPTED, W_DELIVERING, W_RETRY_WAIT})"

definition replay_of :: "ingress_request \<Rightarrow> wdelivery \<Rightarrow> exn + ingress_result" where
  "replay_of q w = (if isSameProviderDelivery w q then Inr (Accepted (wd_id w) True) else Inl other_bytes)"

text \<open>The search before anything is written; \<open>None\<close> asks for a new delivery.\<close>

definition ingress_lookup :: "webhook_env \<Rightarrow> ingress_request \<Rightarrow> wdb \<Rightarrow> exn + ingress_result option" where
  "ingress_lookup env q seen =
     (case find_provider q seen of
        Some w \<Rightarrow> map_sum id Some (replay_of q w)
      | None \<Rightarrow>
          if int (count_rows waiting (ws_deliveries seen)) \<ge> queueLimit env then Inl queue_is_full else Inr None)"

section \<open>The payload\<close>

definition webhook_object :: "webhook_env \<Rightarrow> ingress_request \<Rightarrow> string \<Rightarrow> time \<Rightarrow> json" where
  "webhook_object env q u now =
     (let r = iq_route q; v = iq_delivery q in JObj
       [(''schemaVersion'', JNum 1), (''deliveryId'', JStr u), (''routeId'', JStr (wr_id r)),
        (''targetInstallationId'', JStr (wr_target r)), (''siteId'', JStr (wr_siteId r)), (''domainId'', JStr (wr_domainId r)),
        (''domain'', JStr (wr_domain r)), (''provider'', JStr (provider_name (vd_provider v))),
        (''providerDeliveryId'', JStr (vd_providerDeliveryId v)), (''event'', JStr ''push''),
        (''receivedAt'', JStr (we_iso env now)), (''rawBodyBase64'', JStr (base64url (iq_body q))),
        (''rawBodySha256'', JStr (iq_sha q)), (''providerSignature'', JStr (vd_signature v))])"

section \<open>The row\<close>

definition new_delivery :: "ingress_request \<Rightarrow> string \<Rightarrow> string \<Rightarrow> time \<Rightarrow> wdelivery" where
  "new_delivery q u path now =
     \<lparr>wd_id = u, wd_routeId = wr_id (iq_route q), wd_providerDeliveryId = vd_providerDeliveryId (iq_delivery q),
      wd_event = ''push'', wd_bodySha256 = iq_sha q, wd_spoolPath = path, wd_state = W_ACCEPTED, wd_attempt = 0,
      wd_maxAttempts = WEBHOOK_MAX_ATTEMPTS, wd_availableAt = now, wd_leaseOwner = None, wd_leaseExpiresAt = None,
      wd_lastAttemptAt = None, wd_targetRequestId = None, wd_result = None, wd_lastErrorCode = None, wd_acceptedAt = now,
      wd_deliveredAt = None, wd_dlqAt = None, wd_createdAt = now\<rparr>"

definition create_delivery :: "wdelivery \<Rightarrow> wdb \<Rightarrow> (unit, wdb) outcome" where
  "create_delivery w d =
     (if wd_id w \<in> wd_id ` set (ws_deliveries d) \<or> provider_key w \<in> provider_key ` set (ws_deliveries d)
      then (Inl (DbFault unique_violation), d)
      else if wd_routeId w \<notin> wr_id ` set (ws_routes d) then (Inl (DbFault foreign_key_fault), d)
      else (Inr (), d\<lparr>ws_deliveries := ws_deliveries d @ [w]\<rparr>))"

text \<open>The transaction: the earlier delivery, or a new one.\<close>

definition admit_tx :: "webhook_env \<Rightarrow> ingress_request \<Rightarrow> string \<Rightarrow> string \<Rightarrow> time \<Rightarrow> wdb \<Rightarrow> (wdelivery option, wdb) outcome" where
  "admit_tx env q u path now d =
     (case find_provider q d of
        Some w \<Rightarrow> (Inr (Some w), d)
      | None \<Rightarrow>
          if int (count_rows waiting (ws_deliveries d)) \<ge> queueLimit env then (Inl queue_is_full, d)
          else case create_delivery (new_delivery q u path now) d of
            (Inl e, d') \<Rightarrow> (Inl e, d')
          | (Inr _, d') \<Rightarrow> (Inr None, d'))"

text \<open>Everything after the payload was written: \<open>later\<close> is the state at the search after a lost race.\<close>

definition ingress_admit ::
  "webhook_env \<Rightarrow> ingress_request \<Rightarrow> string \<Rightarrow> string \<Rightarrow> time \<Rightarrow> db_error option \<Rightarrow> wdb \<Rightarrow> wdb \<Rightarrow> (ingress_result, wdb) outcome"
where
  "ingress_admit env q u path now fault later d =
     (case transaction fault (admit_tx env q u path now) d of
        (Inr None, d') \<Rightarrow> (Inr (Accepted u False), d')
      | (Inr (Some w), d') \<Rightarrow> (replay_of q w, remove_queue u d')
      | (Inl e, d') \<Rightarrow>
          (if error_code e = ''P2002''
           then (case find_provider q later of
                   Some w \<Rightarrow> if isSameProviderDelivery w q then Inr (Accepted (wd_id w) True) else Inl e
                 | None \<Rightarrow> Inl e)
           else Inl e, remove_queue u d'))"

text \<open>
  The whole operation: \<open>u\<close> and \<open>v\<close> are its random identifiers, \<open>seen\<close> the state of its first
  reads, \<open>d\<close> the one when the payload is written, and the transaction follows at once.
\<close>

definition accept ::
  "webhook_env \<Rightarrow> disk_state \<Rightarrow> string \<Rightarrow> string list \<Rightarrow> bytes \<Rightarrow> string \<Rightarrow> string \<Rightarrow> time \<Rightarrow> db_error option
     \<Rightarrow> wdb \<Rightarrow> wdb \<Rightarrow> wdb \<Rightarrow> (ingress_result, wdb) outcome"
where
  "accept env disk token rawHeaders body u v now fault seen later d =
     (case ingress_verify env token rawHeaders body seen of
        Inl e \<Rightarrow> (Inl e, d)
      | Inr None \<Rightarrow> (Inr Ignored, d)
      | Inr (Some q) \<Rightarrow>
     (case ingress_lookup env q seen of
        Inl e \<Rightarrow> (Inl e, d)
      | Inr (Some r) \<Rightarrow> (Inr r, d)
      | Inr None \<Rightarrow>
     (let delivery = webhook_object env q u now in
      case validateFederatedWebhookDelivery delivery of
        Some m \<Rightarrow> (Inl (Plain m), d)
      | None \<Rightarrow>
     (case spool_write env disk v delivery now d of
        (Inl e, d') \<Rightarrow> (Inl e, d')
      | (Inr path, d') \<Rightarrow> ingress_admit env q u path now fault later d'))))"

section \<open>The answer\<close>

text \<open>The controller: the status of the response.\<close>

definition ingress_status :: "ingress_result \<Rightarrow> nat" where
  "ingress_status r = (case r of Ignored \<Rightarrow> 204 | Accepted _ _ \<Rightarrow> 202)"

end
