(* ===== verification/Webhook_Worker.thy ===== *)
theory Webhook_Worker
  imports Webhook_Ingress
begin

text \<open>
  The worker that delivers the accepted webhooks,
  \<open>api/src/webhooks/webhook-delivery-worker.service.ts\<close>: the claim, the execution in its parts,
  the failure with its retries, the redrive of a dead delivery and the sweep of the dead ones.
\<close>

section \<open>Configuration\<close>

definition WEBHOOK_LEASE_MS :: int where "WEBHOOK_LEASE_MS = 30000"

definition WEBHOOK_RETRY_DELAYS_MS :: "int list" where
  "WEBHOOK_RETRY_DELAYS_MS = [5000, 30000, 120000, 600000, 3600000]"

definition webhook_concurrency :: "webhook_env \<Rightarrow> nat" where
  "webhook_concurrency env =
     (case we_config env ''WEBHOOK_WORKER_CONCURRENCY'' of Some n \<Rightarrow> if 1 \<le> n \<and> n \<le> 16 then nat n else 4 | None \<Rightarrow> 4)"

definition dlqRetentionMs :: "webhook_env \<Rightarrow> int" where
  "dlqRetentionMs env =
     (case we_config env ''WEBHOOK_DLQ_RETENTION_MS'' of
        Some n \<Rightarrow> if safe_integer n \<and> n \<ge> 60000 then n else 604800000 | None \<Rightarrow> 604800000)"

section \<open>The claim\<close>

definition deliverable :: "time \<Rightarrow> wdelivery \<Rightarrow> bool" where
  "deliverable now w =
     ((wd_state w \<in> {W_ACCEPTED, W_RETRY_WAIT} \<and> wd_availableAt w \<le> now) \<or>
      (wd_state w = W_DELIVERING \<and> (case wd_leaseExpiresAt w of None \<Rightarrow> False | Some t \<Rightarrow> t \<le> now)))"

text \<open>A delivery with its route; the sorts are stable, so the later one decides first.\<close>

record claimed =
  cl_delivery :: wdelivery
  cl_route :: wroute

definition with_route :: "wdb \<Rightarrow> wdelivery \<Rightarrow> claimed list" where
  "with_route d w = (case find_route (wd_routeId w) d of None \<Rightarrow> [] | Some r \<Rightarrow> [\<lparr>cl_delivery = w, cl_route = r\<rparr>])"

definition candidates :: "time \<Rightarrow> wdb \<Rightarrow> claimed list" where
  "candidates now d = concat (map (with_route d)
     (take 32 (sort_key wd_availableAt (sort_key wd_createdAt (filter (deliverable now) (ws_deliveries d))))))"

definition delivering_write :: "string \<Rightarrow> time \<Rightarrow> wdelivery \<Rightarrow> wdelivery" where
  "delivering_write owner now w =
     w\<lparr>wd_state := W_DELIVERING, wd_leaseOwner := Some owner, wd_leaseExpiresAt := Some (now + WEBHOOK_LEASE_MS),
       wd_lastAttemptAt := Some now, wd_attempt := wd_attempt w + 1\<rparr>"

definition claim_delivery :: "string \<Rightarrow> time \<Rightarrow> string \<Rightarrow> wdb \<Rightarrow> claimed option \<times> wdb" where
  "claim_delivery owner now u d =
     (if count_rows (\<lambda>w. wd_id w = u \<and> deliverable now w) (ws_deliveries d) \<noteq> 1 then (None, d)
      else let d' = update_deliveries (\<lambda>w. wd_id w = u \<and> deliverable now w) (delivering_write owner now) d in
        (case find_delivery u d' of
           None \<Rightarrow> None
         | Some w \<Rightarrow> (case with_route d' w of [] \<Rightarrow> None | c # _ \<Rightarrow> Some c), d'))"

text \<open>The candidates were read before; those of a target that is being served are passed over.\<close>

fun claim_first :: "string \<Rightarrow> string list \<Rightarrow> time \<Rightarrow> claimed list \<Rightarrow> wdb \<Rightarrow> claimed option \<times> wdb" where
  "claim_first owner targets now [] d = (None, d)"
| "claim_first owner targets now (c # cs) d =
     (if wr_target (cl_route c) \<in> set targets then claim_first owner targets now cs d
      else case claim_delivery owner now (wd_id (cl_delivery c)) d of
        (Some x, d') \<Rightarrow> (Some x, d')
      | (None, d') \<Rightarrow> claim_first owner targets now cs d')"

definition claimNextDelivery :: "string \<Rightarrow> string list \<Rightarrow> time \<Rightarrow> wdb \<Rightarrow> wdb \<Rightarrow> claimed option \<times> wdb" where
  "claimNextDelivery owner targets now seen d = claim_first owner targets now (candidates now seen) d"

section \<open>The execution\<close>

definition route_revoked :: exn where "route_revoked = Plain ''Webhook route is revoked''"

text \<open>What is read for the target; the first component says that the failure is final.\<close>

definition execute_read :: "webhook_env \<Rightarrow> claimed \<Rightarrow> wdb \<Rightarrow> (bool \<times> exn) + json" where
  "execute_read env c d =
     (if \<not> active_route (cl_route c) then Inl (True, route_revoked)
      else case spool_read env (cl_delivery c) d of Inl e \<Rightarrow> Inl (False, e) | Inr v \<Rightarrow> Inr v)"

text \<open>The answer of another panel: its status, the chunks of its body and its request identifier.\<close>

record dispatch_response =
  dr_status :: nat
  dr_chunks :: "bytes list"
  dr_requestId :: string

fun bounded_body :: "bytes list \<Rightarrow> bytes \<Rightarrow> bytes option" where
  "bounded_body [] got = Some got"
| "bounded_body (chunk # chunks) got =
     (if length got + length chunk > 65536 then None else bounded_body chunks (got @ chunk))"

text \<open>\<open>parse\<close> is \<open>JSON.parse\<close> of the bytes as text.\<close>

definition readBoundedJson :: "(bytes \<Rightarrow> json option) \<Rightarrow> bytes list \<Rightarrow> exn + json" where
  "readBoundedJson parse chunks =
     (case bounded_body chunks [] of
        None \<Rightarrow> Inl (Plain ''Webhook target response exceeded bounds'')
      | Some b \<Rightarrow> (case parse b of None \<Rightarrow> Inl (Plain ''Webhook target response is invalid'') | Some v \<Rightarrow> Inr v))"

definition json_object :: "json \<Rightarrow> bool" where
  "json_object v = (case v of JObj _ \<Rightarrow> True | JArr _ \<Rightarrow> True | _ \<Rightarrow> False)"

definition remote_result :: "(bytes \<Rightarrow> json option) \<Rightarrow> dispatch_response \<Rightarrow> exn + json" where
  "remote_result parse response =
     (case readBoundedJson parse (dr_chunks response) of
        Inl e \<Rightarrow> Inl e
      | Inr parsed \<Rightarrow>
          if dr_status response \<noteq> 200 \<or> \<not> json_object parsed
          then Inl (Plain (''Webhook target rejected delivery with status '' @ show_nat (dr_status response)))
          else let data = field parsed ''data'' in
            (case validateFederatedWebhookDeliveryResult data of Some m \<Rightarrow> Inl (Plain m) | None \<Rightarrow> Inr data))"

section \<open>The end of an execution\<close>

definition owned_delivery :: "string \<Rightarrow> string \<Rightarrow> wdelivery \<Rightarrow> bool" where
  "owned_delivery owner u w = (wd_id w = u \<and> wd_state w = W_DELIVERING \<and> wd_leaseOwner w = Some owner)"

definition delivered_write :: "json \<Rightarrow> string option \<Rightarrow> time \<Rightarrow> wdelivery \<Rightarrow> wdelivery" where
  "delivered_write result requestId now w =
     w\<lparr>wd_state := W_DELIVERED, wd_leaseOwner := None, wd_leaseExpiresAt := None, wd_targetRequestId := requestId,
       wd_result := Some (json_stringify result), wd_lastErrorCode := None, wd_deliveredAt := Some now\<rparr>"

text \<open>The record of a delivered webhook; its payload is removed after it, when it was recorded.\<close>

definition record_delivered :: "string \<Rightarrow> claimed \<Rightarrow> json \<Rightarrow> string option \<Rightarrow> time \<Rightarrow> wdb \<Rightarrow> bool \<times> wdb" where
  "record_delivered owner c result requestId now d =
     (let P = owned_delivery owner (wd_id (cl_delivery c)) in
      (count_rows P (ws_deliveries d) = 1, update_deliveries P (delivered_write result requestId now) d))"

definition dead_write :: "string \<Rightarrow> time \<Rightarrow> wdelivery \<Rightarrow> wdelivery" where
  "dead_write code now w =
     w\<lparr>wd_state := W_DLQ, wd_leaseOwner := None, wd_leaseExpiresAt := None, wd_lastErrorCode := Some code, wd_dlqAt := Some now\<rparr>"

definition retry_write :: "string \<Rightarrow> time \<Rightarrow> wdelivery \<Rightarrow> wdelivery" where
  "retry_write code at w =
     w\<lparr>wd_state := W_RETRY_WAIT, wd_availableAt := at, wd_leaseOwner := None, wd_leaseExpiresAt := None,
       wd_lastErrorCode := Some code\<rparr>"

definition retry_delay :: "int \<Rightarrow> int" where
  "retry_delay attempt = WEBHOOK_RETRY_DELAYS_MS ! nat (min (attempt - 1) (int (length WEBHOOK_RETRY_DELAYS_MS) - 1))"

text \<open>
  The record of a failure; \<open>True\<close> where the delivery is dead and its payload is still to be moved.
  \<open>code\<close> is the class of the error.
\<close>

definition record_failure :: "string \<Rightarrow> claimed \<Rightarrow> string \<Rightarrow> bool \<Rightarrow> time \<Rightarrow> wdb \<Rightarrow> bool \<times> wdb" where
  "record_failure owner c code forceDlq now d =
     (let w = cl_delivery c; P = owned_delivery owner (wd_id w) in
      if forceDlq \<or> wd_attempt w \<ge> wd_maxAttempts w
      then (count_rows P (ws_deliveries d) = 1, update_deliveries P (dead_write code now) d)
      else (False, update_deliveries P (retry_write code (now + retry_delay (wd_attempt w))) d))"

definition execute_failed :: "string \<Rightarrow> claimed \<Rightarrow> string \<Rightarrow> bool \<Rightarrow> time \<Rightarrow> wdb \<Rightarrow> wdb" where
  "execute_failed owner c code forceDlq now d =
     (let (dead, d') = record_failure owner c code forceDlq now d in
      if dead then snd (moveToDlq (wd_id (cl_delivery c)) d') else d')"

text \<open>
  An execution without interruption. \<open>target\<close> is the answer of the panel of the site, with the
  request identifier of another panel, and \<open>code_of\<close> the class of an error.
\<close>

definition execute_delivery ::
  "webhook_env \<Rightarrow> string \<Rightarrow> (exn \<Rightarrow> string) \<Rightarrow> (json \<Rightarrow> exn + json \<times> string option) \<Rightarrow> time \<Rightarrow> claimed \<Rightarrow> wdb \<Rightarrow> wdb"
where
  "execute_delivery env owner code_of target now c d =
     (case execute_read env c d of
        Inl (force, e) \<Rightarrow> execute_failed owner c (code_of e) force now d
      | Inr v \<Rightarrow>
         (case target v of
            Inl e \<Rightarrow> execute_failed owner c (code_of e) False now d
          | Inr (result, requestId) \<Rightarrow>
              if field result ''deliveryId'' \<noteq> JStr (wd_id (cl_delivery c))
              then execute_failed owner c (code_of (Plain ''Webhook target result binding mismatch'')) False now d
              else let (recorded, d') = record_delivered owner c result requestId now d in
                   if recorded then remove_queue (wd_id (cl_delivery c)) d' else d'))"

section \<open>Dead deliveries\<close>

definition redrive_check :: "string \<Rightarrow> wdb \<Rightarrow> exn option" where
  "redrive_check u d =
     (case find_delivery u d of
        None \<Rightarrow> Some (NotFound ''Webhook DLQ delivery not found'')
      | Some w \<Rightarrow>
          if wd_state w \<noteq> W_DLQ then Some (NotFound ''Webhook DLQ delivery not found'')
          else case find_route (wd_routeId w) d of
            None \<Rightarrow> Some (NotFound ''Webhook DLQ delivery not found'')
          | Some r \<Rightarrow> if active_route r then None else Some (Conflict ''Webhook route is revoked''))"

definition redriven_write :: "time \<Rightarrow> wdelivery \<Rightarrow> wdelivery" where
  "redriven_write now w =
     w\<lparr>wd_state := W_ACCEPTED, wd_attempt := 0, wd_availableAt := now, wd_leaseOwner := None, wd_leaseExpiresAt := None,
       wd_lastErrorCode := None, wd_dlqAt := None\<rparr>"

definition redrive_write :: "string \<Rightarrow> time \<Rightarrow> wdb \<Rightarrow> (unit, wdb) outcome" where
  "redrive_write u now d =
     (let P = (\<lambda>w. wd_id w = u \<and> wd_state w = W_DLQ) in
      (if count_rows P (ws_deliveries d) = 1 then Inr () else Inl (Conflict ''Webhook delivery changed concurrently''),
       update_deliveries P (redriven_write now) d))"

definition redrive :: "string \<Rightarrow> time \<Rightarrow> wdb \<Rightarrow> (unit, wdb) outcome" where
  "redrive u now d =
     (case redrive_check u d of
        Some e \<Rightarrow> (Inl e, d)
      | None \<Rightarrow> (case moveToQueue u d of (Inl e, d') \<Rightarrow> (Inl e, d') | (Inr _, d') \<Rightarrow> redrive_write u now d'))"

definition expired_dead :: "webhook_env \<Rightarrow> time \<Rightarrow> wdelivery \<Rightarrow> bool" where
  "expired_dead env now w =
     (wd_state w = W_DLQ \<and> (case wd_dlqAt w of None \<Rightarrow> False | Some t \<Rightarrow> t \<le> now - dlqRetentionMs env))"

definition dead_ids :: "webhook_env \<Rightarrow> time \<Rightarrow> wdb \<Rightarrow> string list" where
  "dead_ids env now d = map wd_id
     (take 100 (sort_key (\<lambda>w. the (wd_dlqAt w)) (filter (expired_dead env now) (ws_deliveries d))))"

definition remove_payloads :: "string list \<Rightarrow> wdb \<Rightarrow> wdb" where
  "remove_payloads us d = fold (\<lambda>u d. remove_queue u (remove_dlq u d)) us d"

definition delete_dead :: "string list \<Rightarrow> wdb \<Rightarrow> wdb" where
  "delete_dead us d = d\<lparr>ws_deliveries := delete_rows (\<lambda>w. wd_id w \<in> set us \<and> wd_state w = W_DLQ) (ws_deliveries d)\<rparr>"

definition cleanupDlq :: "webhook_env \<Rightarrow> time \<Rightarrow> wdb \<Rightarrow> nat \<times> wdb" where
  "cleanupDlq env now d =
     (let us = dead_ids env now d in (length us, if us = [] then d else delete_dead us (remove_payloads us d)))"

end
