(* ===== verification/Webhook_System.thy ===== *)
theory Webhook_System
  imports Webhook_Worker
begin

text \<open>
  The webhooks of the master as one system: the tables and the spool, the requests that were
  verified, the payloads that were written and are not yet admitted, and the deliveries the
  worker has in hand. A step is one effect of one operation, and the answers of the panels of
  the sites are arbitrary. A redrive is one step, and only for a delivery that the worker does
  not have in hand; \<open>Webhook_Faults\<close> shows what happens otherwise. \<open>cleanupDlq\<close> is no step,
  because nothing calls it.
\<close>

datatype wflight_phase = Wf_Claimed | Wf_Sent json | Wf_Removing | Wf_Moving

record wflight =
  wf_claim :: claimed
  wf_phase :: wflight_phase

definition wf_id :: "wflight \<Rightarrow> string" where "wf_id f = wd_id (cl_delivery (wf_claim f))"
definition wf_target :: "wflight \<Rightarrow> string" where "wf_target f = wr_target (cl_route (wf_claim f))"

record wpending =
  wp_id :: string
  wp_path :: string
  wp_object :: json
  wp_request :: ingress_request
  wp_time :: time

record wsys =
  wy_db :: wdb
  wy_owner :: string
  wy_checked :: "ingress_request list"
  wy_pending :: "wpending list"
  wy_flights :: "wflight list"

text \<open>An earlier state, as far as the claim uses it: its routes are still there.\<close>

definition seen_before :: "wdb \<Rightarrow> wdb \<Rightarrow> bool" where
  "seen_before seen d \<longleftrightarrow> keyed wd_id (ws_deliveries seen) \<and>
     (\<forall>u r. find_route u seen = Some r \<longrightarrow> (\<exists>r'. find_route u d = Some r' \<and> wr_target r' = wr_target r)) \<and>
     (\<forall>u w. find_delivery u seen = Some w \<longrightarrow> (\<exists>w'. find_delivery u d = Some w' \<and> wd_routeId w' = wd_routeId w))"

definition new_request_id :: "wsys \<Rightarrow> string \<Rightarrow> bool" where
  "new_request_id y u \<longleftrightarrow> u \<notin> wd_id ` set (ws_deliveries (wy_db y)) \<and> u \<notin> wp_id ` set (wy_pending y)"

inductive wstep :: "webhook_env \<Rightarrow> wsys \<Rightarrow> wsys \<Rightarrow> bool" for env where
  wt_create_route: "create_route env servers contexts domains u inp seen (wy_db y) later = (r, d') \<Longrightarrow>
     wstep env y (y\<lparr>wy_db := d'\<rparr>)"
| wt_rotate: "rotate_write env current (wy_db y) = (r, d') \<Longrightarrow> wstep env y (y\<lparr>wy_db := d'\<rparr>)"
| wt_revoke: "revoke_route u now (wy_db y) = (r, d') \<Longrightarrow> wstep env y (y\<lparr>wy_db := d'\<rparr>)"
| wt_verify: "ingress_verify env token rawHeaders body (wy_db y) = Inr (Some q) \<Longrightarrow>
     wstep env y (y\<lparr>wy_checked := wy_checked y @ [q]\<rparr>)"
| wt_spool: "q \<in> set (wy_checked y) \<Longrightarrow> new_request_id y u \<Longrightarrow>
     validateFederatedWebhookDelivery (webhook_object env q u now) = None \<Longrightarrow>
     spool_write env disk v (webhook_object env q u now) now (wy_db y) = (Inr path, d') \<Longrightarrow>
     wstep env y (y\<lparr>wy_db := d', wy_pending := wy_pending y @
       [\<lparr>wp_id = u, wp_path = path, wp_object = webhook_object env q u now, wp_request = q, wp_time = now\<rparr>]\<rparr>)"
| wt_admit: "wy_pending y = ps @ p # qs \<Longrightarrow>
     ingress_admit env (wp_request p) (wp_id p) (wp_path p) (wp_time p) fault later (wy_db y) = (r, d') \<Longrightarrow>
     wstep env y (y\<lparr>wy_db := d', wy_pending := ps @ qs\<rparr>)"
| wt_claim: "length (wy_flights y) < webhook_concurrency env \<Longrightarrow> seen_before seen (wy_db y) \<Longrightarrow>
     claimNextDelivery (wy_owner y) (map wf_target (wy_flights y)) now seen (wy_db y) = (Some c, d') \<Longrightarrow>
     wstep env y (y\<lparr>wy_db := d', wy_flights := wy_flights y @ [\<lparr>wf_claim = c, wf_phase = Wf_Claimed\<rparr>]\<rparr>)"
| wt_read: "wy_flights y = fs @ f # gs \<Longrightarrow> wf_phase f = Wf_Claimed \<Longrightarrow> execute_read env (wf_claim f) (wy_db y) = Inr v \<Longrightarrow>
     wstep env y (y\<lparr>wy_flights := fs @ f\<lparr>wf_phase := Wf_Sent v\<rparr> # gs\<rparr>)"
| wt_failed: "wy_flights y = fs @ f # gs \<Longrightarrow> wf_phase f = Wf_Claimed \<or> wf_phase f = Wf_Sent v \<Longrightarrow>
     record_failure (wy_owner y) (wf_claim f) code force now (wy_db y) = (dead, d') \<Longrightarrow>
     wstep env y (y\<lparr>wy_db := d', wy_flights := fs @ (if dead then [f\<lparr>wf_phase := Wf_Moving\<rparr>] else []) @ gs\<rparr>)"
| wt_delivered: "wy_flights y = fs @ f # gs \<Longrightarrow> wf_phase f = Wf_Sent v \<Longrightarrow>
     record_delivered (wy_owner y) (wf_claim f) result requestId now (wy_db y) = (recorded, d') \<Longrightarrow>
     wstep env y (y\<lparr>wy_db := d', wy_flights := fs @ (if recorded then [f\<lparr>wf_phase := Wf_Removing\<rparr>] else []) @ gs\<rparr>)"
| wt_remove: "wy_flights y = fs @ f # gs \<Longrightarrow> wf_phase f = Wf_Removing \<Longrightarrow>
     wstep env y (y\<lparr>wy_db := remove_queue (wf_id f) (wy_db y), wy_flights := fs @ gs\<rparr>)"
| wt_move: "wy_flights y = fs @ f # gs \<Longrightarrow> wf_phase f = Wf_Moving \<Longrightarrow>
     wstep env y (y\<lparr>wy_db := snd (moveToDlq (wf_id f) (wy_db y)), wy_flights := fs @ gs\<rparr>)"
| wt_redrive: "u \<notin> wf_id ` set (wy_flights y) \<Longrightarrow> redrive u now (wy_db y) = (r, d') \<Longrightarrow> wstep env y (y\<lparr>wy_db := d'\<rparr>)"
| wt_restart: "wstep env y (y\<lparr>wy_db := cleanupPartialFiles now (wy_db y), wy_owner := owner, wy_checked := [],
     wy_pending := [], wy_flights := []\<rparr>)"

definition initial_wsys :: wsys where
  "initial_wsys = \<lparr>wy_db = \<lparr>ws_routes = [], ws_deliveries = [], ws_queue = Map.empty, ws_dlq = Map.empty, ws_tmp = Map.empty\<rparr>,
     wy_owner = [], wy_checked = [], wy_pending = [], wy_flights = []\<rparr>"

inductive wreachable :: "webhook_env \<Rightarrow> wsys \<Rightarrow> bool" for env where
  w_initial: "wreachable env initial_wsys"
| w_step: "wreachable env y \<Longrightarrow> wstep env y y' \<Longrightarrow> wreachable env y'"

lemma wreachable_run: "(wstep env)\<^sup>*\<^sup>* y z \<Longrightarrow> wreachable env y \<Longrightarrow> wreachable env z"
  by (induction rule: rtranclp_induct) (auto intro: w_step)

section \<open>The invariant\<close>

text \<open>
  A request was verified: its route is in the table, and the signature is the HMAC of the body
  under the secret of the route.
\<close>

definition signed_body :: "webhook_env \<Rightarrow> wdb \<Rightarrow> string \<Rightarrow> string \<Rightarrow> bytes \<Rightarrow> bool" where
  "signed_body env d routeId signature body \<longleftrightarrow>
     (\<exists>r p secret. r \<in> set (ws_routes d) \<and> wr_id r = routeId \<and> route_verifier env r = Inr (p, secret) \<and>
        signature_digest p signature = Some (hex_of (we_hmac env secret body)))"

definition request_ok :: "webhook_env \<Rightarrow> wdb \<Rightarrow> ingress_request \<Rightarrow> bool" where
  "request_ok env d q \<longleftrightarrow> signed_body env d (wr_id (iq_route q)) (vd_signature (iq_delivery q)) (iq_body q) \<and>
     iq_sha q = sha_hex env (iq_body q) \<and> vd_event (iq_delivery q) = ''push''"

text \<open>The payload that belongs to a delivery.\<close>

definition payload_ok :: "webhook_env \<Rightarrow> wdb \<Rightarrow> string \<Rightarrow> string \<Rightarrow> string \<Rightarrow> json \<Rightarrow> bool" where
  "payload_ok env d u routeId sha v \<longleftrightarrow> validateFederatedWebhookDelivery v = None \<and>
     (\<exists>q now. v = webhook_object env q u now) \<and>
     field v ''deliveryId'' = JStr u \<and> field v ''routeId'' = JStr routeId \<and> field v ''rawBodySha256'' = JStr sha \<and>
     (\<exists>body. field v ''rawBodyBase64'' = JStr (base64url body) \<and> sha_hex env body = sha \<and>
        signed_body env d routeId (text_field v ''providerSignature'') body)"

definition sealed_for :: "webhook_env \<Rightarrow> wdb \<Rightarrow> wdelivery \<Rightarrow> bytes \<Rightarrow> bool" where
  "sealed_for env d w b \<longleftrightarrow>
     (\<exists>v. b = encryptWebhookSpool env v \<and> payload_ok env d (wd_id w) (wd_routeId w) (wd_bodySha256 w) v)"

definition keys_unique :: "wdb \<Rightarrow> bool" where
  "keys_unique d \<longleftrightarrow> keyed wr_id (ws_routes d) \<and> keyed wd_id (ws_deliveries d) \<and> keyed provider_key (ws_deliveries d) \<and>
     (\<forall>w \<in> set (ws_deliveries d). wd_routeId w \<in> wr_id ` set (ws_routes d) \<and> wd_event w = ''push'')"

text \<open>The files of a delivery: those that are there are its payload, and the one it needs is there.\<close>

definition spool_row :: "webhook_env \<Rightarrow> wdb \<Rightarrow> wdelivery \<Rightarrow> bool" where
  "spool_row env d w \<longleftrightarrow> (let f = payload_file (wd_id w) in
     (\<forall>b. ws_queue d f = Some b \<or> ws_dlq d f = Some b \<longrightarrow> sealed_for env d w b) \<and>
     (waiting w \<longrightarrow> ws_queue d f \<noteq> None) \<and>
     (wd_state w = W_DLQ \<longrightarrow> ws_queue d f \<noteq> None \<or> ws_dlq d f \<noteq> None))"

definition spool_ok :: "webhook_env \<Rightarrow> wdb \<Rightarrow> bool" where
  "spool_ok env d \<longleftrightarrow> (\<forall>n. ws_dlq d n \<noteq> None \<longrightarrow> n \<in> payload_file ` wd_id ` set (ws_deliveries d)) \<and>
     (\<forall>w \<in> set (ws_deliveries d). spool_row env d w)"

definition pending_ok :: "webhook_env \<Rightarrow> wsys \<Rightarrow> bool" where
  "pending_ok env y \<longleftrightarrow> keyed wp_id (wy_pending y) \<and> (\<forall>q \<in> set (wy_checked y). request_ok env (wy_db y) q) \<and>
     (\<forall>p \<in> set (wy_pending y). wp_id p \<notin> wd_id ` set (ws_deliveries (wy_db y)) \<and> request_ok env (wy_db y) (wp_request p) \<and>
        payload_ok env (wy_db y) (wp_id p) (wr_id (iq_route (wp_request p))) (iq_sha (wp_request p)) (wp_object p) \<and>
        ws_queue (wy_db y) (payload_file (wp_id p)) = Some (encryptWebhookSpool env (wp_object p)))"

text \<open>A claimed delivery, as it is in the table now.\<close>

definition claim_row :: "wdb \<Rightarrow> wflight \<Rightarrow> wdelivery \<Rightarrow> bool" where
  "claim_row d f w \<longleftrightarrow> find_delivery (wf_id f) d = Some w \<and> wd_routeId w = wd_routeId (cl_delivery (wf_claim f)) \<and>
     wd_bodySha256 w = wd_bodySha256 (cl_delivery (wf_claim f)) \<and>
     (\<exists>r. find_route (wd_routeId w) d = Some r \<and> wr_target r = wf_target f) \<and>
     (wf_phase f = Wf_Removing \<longrightarrow> wd_state w = W_DELIVERED) \<and> (wf_phase f = Wf_Moving \<longrightarrow> wd_state w = W_DLQ)"

definition wflights_ok :: "webhook_env \<Rightarrow> wsys \<Rightarrow> bool" where
  "wflights_ok env y \<longleftrightarrow> distinct (map wf_target (wy_flights y)) \<and> length (wy_flights y) \<le> webhook_concurrency env \<and>
     (\<forall>f \<in> set (wy_flights y). \<exists>w. claim_row (wy_db y) f w)"

definition wsys_ok :: "webhook_env \<Rightarrow> wsys \<Rightarrow> bool" where
  "wsys_ok env y \<longleftrightarrow> keys_unique (wy_db y) \<and> spool_ok env (wy_db y) \<and> pending_ok env y \<and> wflights_ok env y"

end
