(* ===== verification/Webhook_Frame.thy ===== *)
theory Webhook_Frame
  imports Webhook_System
begin

text \<open>
  What the operations of the webhooks leave as it is: the routes only grow, the fields that bind
  a delivery to its payload are never written, and what an acceptance writes keeps the invariant.
\<close>

lemma payload_file_inject [simp]: "payload_file u = payload_file v \<longleftrightarrow> u = v"
  by (simp add: payload_file_def)

section \<open>Routes only grow\<close>

definition route_kept :: "wroute \<Rightarrow> wroute \<Rightarrow> bool" where
  "route_kept r r' \<longleftrightarrow> wr_id r' = wr_id r \<and> wr_provider r' = wr_provider r \<and> wr_verifierEnc r' = wr_verifierEnc r \<and>
     wr_target r' = wr_target r"

definition routes_grow :: "wdb \<Rightarrow> wdb \<Rightarrow> bool" where
  "routes_grow d d' \<longleftrightarrow> (\<forall>r \<in> set (ws_routes d). \<exists>r' \<in> set (ws_routes d'). route_kept r r')"

lemma routes_grow_same: "ws_routes d' = ws_routes d \<Longrightarrow> routes_grow d d'"
  by (auto simp: routes_grow_def route_kept_def)

lemma route_verifier_kept: "route_kept r r' \<Longrightarrow> route_verifier env r' = route_verifier env r"
  by (auto simp: route_kept_def route_verifier_def split: sum.splits)

lemma signed_mono: "routes_grow d d' \<Longrightarrow> signed_body env d u s b \<Longrightarrow> signed_body env d' u s b"
proof -
  assume grow: "routes_grow d d'" and "signed_body env d u s b"
  then obtain r p secret where r: "r \<in> set (ws_routes d)" "wr_id r = u" "route_verifier env r = Inr (p, secret)"
    "signature_digest p s = Some (hex_of (we_hmac env secret b))" by (auto simp: signed_body_def)
  from grow r(1) obtain r' where r': "r' \<in> set (ws_routes d')" "route_kept r r'" by (auto simp: routes_grow_def)
  have "route_verifier env r' = Inr (p, secret)" using r(3) route_verifier_kept [OF r'(2)] by simp
  moreover have "wr_id r' = u" using r(2) r'(2) by (simp add: route_kept_def)
  ultimately show ?thesis using r'(1) r(4) unfolding signed_body_def by blast
qed

lemma request_mono: "routes_grow d d' \<Longrightarrow> request_ok env d q \<Longrightarrow> request_ok env d' q"
  by (auto simp: request_ok_def intro: signed_mono)

lemma payload_mono: "routes_grow d d' \<Longrightarrow> payload_ok env d u r s v \<Longrightarrow> payload_ok env d' u r s v"
  unfolding payload_ok_def by (blast intro: signed_mono)

lemma sealed_mono: "routes_grow d d' \<Longrightarrow> sealed_for env d w b \<Longrightarrow> sealed_for env d' w b"
  unfolding sealed_for_def by (blast intro: payload_mono)

text \<open>What an update of a delivery never touches.\<close>

definition delivery_kept :: "wdelivery \<Rightarrow> wdelivery \<Rightarrow> bool" where
  "delivery_kept w w' \<longleftrightarrow> wd_id w' = wd_id w \<and> wd_routeId w' = wd_routeId w \<and>
     wd_providerDeliveryId w' = wd_providerDeliveryId w \<and> wd_event w' = wd_event w \<and> wd_bodySha256 w' = wd_bodySha256 w"

lemma delivery_kept_refl [simp]: "delivery_kept w w"
  by (simp add: delivery_kept_def)

lemma sealed_kept: "delivery_kept w w' \<Longrightarrow> sealed_for env d w' b = sealed_for env d w b"
  by (simp add: delivery_kept_def sealed_for_def)

lemma writes_keep [simp]:
  "delivery_kept w (delivering_write owner now w)" "delivery_kept w (delivered_write res req now w)"
  "delivery_kept w (dead_write code now w)" "delivery_kept w (retry_write code at w)" "delivery_kept w (redriven_write now w)"
  by (simp_all add: delivery_kept_def delivering_write_def delivered_write_def dead_write_def retry_write_def redriven_write_def)

lemma kept_fields:
  assumes "\<And>w. delivery_kept w (f w)"
  shows "wd_id (f w) = wd_id w" "wd_routeId (f w) = wd_routeId w" "provider_key (f w) = provider_key w"
    "wd_event (f w) = wd_event w" "wd_bodySha256 (f w) = wd_bodySha256 w"
  using assms [of w] by (simp_all add: delivery_kept_def provider_key_def)

section \<open>Writes of one kind\<close>

text \<open>A change of the routes.\<close>

definition routes_only :: "wdb \<Rightarrow> wdb \<Rightarrow> bool" where
  "routes_only d d' \<longleftrightarrow> routes_grow d d' \<and> keyed wr_id (ws_routes d') \<and> (\<exists>rs. d' = d\<lparr>ws_routes := rs\<rparr>)"

lemma find_route_grow:
  assumes "routes_grow d d'" "keyed wr_id (ws_routes d')" "find_route u d = Some r"
  shows "\<exists>r'. find_route u d' = Some r' \<and> wr_target r' = wr_target r"
proof -
  from assms(3) have r: "r \<in> set (ws_routes d)" "wr_id r = u" by (auto simp: find_route_def dest: find_key_SomeD)
  with assms(1) obtain r' where r': "r' \<in> set (ws_routes d')" "route_kept r r'" by (auto simp: routes_grow_def)
  then have "find_route u d' = Some r'"
    using assms(2) r(2) by (auto simp: find_route_def find_key_iff route_kept_def)
  with r'(2) show ?thesis by (simp add: route_kept_def)
qed

lemma claim_row_routes:
  assumes "routes_grow d d'" "keyed wr_id (ws_routes d')" "ws_deliveries d' = ws_deliveries d" "claim_row d f w"
  shows "claim_row d' f w"
  using assms(4) find_route_grow [OF assms(1,2)] assms(3)
  unfolding claim_row_def find_delivery_def by fastforce

lemma routes_only_ok:
  assumes ok: "wsys_ok env y" and only: "routes_only (wy_db y) d'"
  shows "wsys_ok env (y\<lparr>wy_db := d'\<rparr>)"
proof -
  from only obtain rs where d': "d' = (wy_db y)\<lparr>ws_routes := rs\<rparr>" and grow: "routes_grow (wy_db y) d'"
    and keyed: "keyed wr_id (ws_routes d')" by (auto simp: routes_only_def)
  have same: "ws_deliveries d' = ws_deliveries (wy_db y)" "ws_queue d' = ws_queue (wy_db y)" "ws_dlq d' = ws_dlq (wy_db y)"
    by (simp_all add: d')
  have ids: "wr_id ` set (ws_routes (wy_db y)) \<subseteq> wr_id ` set (ws_routes d')"
    using grow unfolding routes_grow_def route_kept_def by (metis image_eqI image_subsetI)
  have "keys_unique d'" using ok keyed ids by (auto simp: wsys_ok_def keys_unique_def same)
  moreover have "spool_ok env d'"
    using ok sealed_mono [OF grow] unfolding wsys_ok_def spool_ok_def spool_row_def Let_def same by blast
  moreover have "pending_ok env (y\<lparr>wy_db := d'\<rparr>)"
    using ok request_mono [OF grow] payload_mono [OF grow] by (simp add: wsys_ok_def pending_ok_def same)
  moreover have "wflights_ok env (y\<lparr>wy_db := d'\<rparr>)"
    using ok claim_row_routes [OF grow keyed same(1)] by (auto simp: wsys_ok_def wflights_ok_def) blast
  ultimately show ?thesis by (simp add: wsys_ok_def)
qed

text \<open>A change of the rows of the deliveries.\<close>

lemma update_keys:
  assumes "keys_unique d" "\<And>w. delivery_kept w (f w)"
  shows "keys_unique (update_deliveries P f d)"
  using assms(1) kept_fields [of f, OF assms(2)]
  by (auto simp: keys_unique_def update_deliveries_def keyed_update_rows row_simps)

lemma update_find:
  "(\<And>w. delivery_kept w (f w)) \<Longrightarrow>
     find_delivery u (update_deliveries P f d) = map_option (\<lambda>w. if P w then f w else w) (find_delivery u d)"
  by (rule deliveries.look_update) (rule kept_fields)

lemma update_ids:
  assumes "\<And>w. delivery_kept w (f w)"
  shows "wd_id ` set (ws_deliveries (update_deliveries P f d)) = wd_id ` set (ws_deliveries d)"
  using arg_cong [OF map_update_rows [of wd_id f P, OF kept_fields(1) [OF assms]], of set]
  by (simp add: update_deliveries_def)

lemma sealed_frame: "ws_routes d' = ws_routes d \<Longrightarrow> sealed_for env d' w b = sealed_for env d w b"
  by (simp add: sealed_for_def payload_ok_def signed_body_def)

lemma update_spool:
  assumes ok: "spool_ok env d" and kept: "\<And>w. delivery_kept w (f w)"
    and state: "\<And>w. w \<in> set (ws_deliveries d) \<Longrightarrow> P w \<Longrightarrow>
      (waiting (f w) \<longrightarrow> ws_queue d (payload_file (wd_id w)) \<noteq> None) \<and>
      (wd_state (f w) = W_DLQ \<longrightarrow> ws_queue d (payload_file (wd_id w)) \<noteq> None \<or> ws_dlq d (payload_file (wd_id w)) \<noteq> None)"
  shows "spool_ok env (update_deliveries P f d)"
proof -
  let ?d = "update_deliveries P f d" and ?g = "\<lambda>w. if P w then f w else w"
  have same: "ws_queue ?d = ws_queue d" "ws_dlq ?d = ws_dlq d" "ws_routes ?d = ws_routes d"
    by (simp_all add: update_deliveries_def)
  have row: "spool_row env ?d (?g w)" if w: "w \<in> set (ws_deliveries d)" for w
  proof -
    have "spool_row env d w" using ok w by (simp add: spool_ok_def)
    then show ?thesis
      using state [OF w] kept_fields(1) [of f, OF kept]
      by (simp add: spool_row_def Let_def same sealed_frame [OF same(3)] sealed_kept [OF kept])
  qed
  have rows: "set (ws_deliveries ?d) = ?g ` set (ws_deliveries d)" by (simp add: update_deliveries_def set_update_rows)
  show ?thesis
    unfolding spool_ok_def same update_ids [OF kept] unfolding rows ball_simps(9)
    using ok row unfolding spool_ok_def by blast
qed

lemma update_pending:
  assumes "pending_ok env y" "\<And>w. delivery_kept w (f w)"
  shows "pending_ok env (y\<lparr>wy_db := update_deliveries P f (wy_db y)\<rparr>)"
proof -
  note update_ids [of f P "wy_db y", OF assms(2)]
  moreover have "routes_grow (wy_db y) (update_deliveries P f (wy_db y))"
    by (rule routes_grow_same) (simp add: update_deliveries_def)
  ultimately show ?thesis
    using assms(1) request_mono payload_mono by (simp add: pending_ok_def) (simp add: update_deliveries_def)
qed

lemma update_claim_row:
  assumes "claim_row d f w" "\<And>w. delivery_kept w (g w)" "P w \<Longrightarrow> wf_phase f = Wf_Removing \<or> wf_phase f = Wf_Moving \<Longrightarrow> wd_state (g w) = wd_state w"
  shows "claim_row (update_deliveries P g d) f (if P w then g w else w)"
  using assms(1,3) kept_fields [of g, OF assms(2)]
  by (auto simp: claim_row_def update_find [of g, OF assms(2)]) (simp_all add: find_route_def update_deliveries_def)

section \<open>The routes\<close>

lemma routes_only_refl: "keyed wr_id (ws_routes d) \<Longrightarrow> routes_only d d"
  by (auto simp: routes_only_def intro: routes_grow_same exI [of _ "ws_routes d"])

lemma create_row_only:
  assumes "keyed wr_id (ws_routes d)" "create_route_row r d = (res, d')"
  shows "routes_only d d'"
  using assms
  by (auto simp: create_route_row_def routes_only_def routes_grow_def route_kept_def keyed_append_row
      intro: exI [of _ "ws_routes d"] exI [of _ "ws_routes d @ [r]"] split: if_splits)

lemma create_route_only:
  assumes "keyed wr_id (ws_routes d)" "create_route env servers contexts domains u inp seen d later = (r, d')"
  shows "routes_only d d'"
  using assms(2) routes_only_refl [OF assms(1)] create_row_only [OF assms(1)]
  by (auto simp: create_route_def split: sum.splits if_splits option.splits prod.splits)

lemma update_routes_only:
  assumes "keyed wr_id (ws_routes d)" "\<And>r. route_kept r (f r)"
  shows "routes_only d (update_routes P f d)"
proof -
  have "\<exists>r' \<in> set (update_rows P f (ws_routes d)). route_kept r r'" if "r \<in> set (ws_routes d)" for r
    using that assms(2) [of r] by (auto simp: row_simps route_kept_def intro: bexI [of _ r])
  moreover have "wr_id (f r) = wr_id r" for r using assms(2) [of r] by (simp add: route_kept_def)
  ultimately show ?thesis
    using assms(1) by (auto simp: routes_only_def routes_grow_def update_routes_def keyed_update_rows)
qed

lemma rotate_only:
  assumes "keyed wr_id (ws_routes d)" "rotate_write env current d = (r, d')"
  shows "routes_only d d'"
  using assms(2) routes_only_refl [OF assms(1)] update_routes_only [OF assms(1), of "rotated_write v h" for v h]
  by (auto simp: rotate_write_def Let_def rotated_write_def route_kept_def split: sum.splits if_splits)

lemma revoke_only:
  assumes "keyed wr_id (ws_routes d)" "revoke_route u now d = (r, d')"
  shows "routes_only d d'"
  using assms(2) routes_only_refl [OF assms(1)] update_routes_only [OF assms(1), of "revoke_write now"]
  by (auto simp: revoke_route_def revoke_write_def route_kept_def split: if_splits)

section \<open>A new delivery\<close>

lemma verified_request:
  assumes "ingress_verify env token rawHeaders body d = Inr (Some q)"
  shows "request_ok env d q" "iq_route q \<in> set (ws_routes d)" "active_route (iq_route q)"
    "deriveWebhookRouteToken env (wr_id (iq_route q)) (wr_tokenVersion (iq_route q)) = Inr token" "iq_body q = body"
    "\<exists>p secret. route_verifier env (iq_route q) = Inr (p, secret) \<and>
       verifyWebhookProviderDelivery (we_hmac env) (we_parse env) p secret rawHeaders body = Inr (iq_delivery q)"
    "\<exists>ref. field (vd_payload (iq_delivery q)) ''ref'' = JStr ref \<and> rx_test PUSH_REF ref"
proof -
  obtain p secret where r: "resolvePublicToken env token d = Inr (iq_route q)"
    and v: "route_verifier env (iq_route q) = Inr (p, secret)"
      "verifyWebhookProviderDelivery (we_hmac env) (we_parse env) p secret rawHeaders body = Inr (iq_delivery q)"
    and push: "vd_event (iq_delivery q) = ''push''" and sha: "iq_sha q = sha_hex env body" and body: "iq_body q = body"
    and ref: "\<exists>ref. field (vd_payload (iq_delivery q)) ''ref'' = JStr ref \<and> rx_test PUSH_REF ref"
    using assms by (auto simp: ingress_verify_def split: sum.splits prod.splits if_splits json.splits)
  then show route: "iq_route q \<in> set (ws_routes d)" "active_route (iq_route q)"
    "deriveWebhookRouteToken env (wr_id (iq_route q)) (wr_tokenVersion (iq_route q)) = Inr token"
    by (auto simp: resolvePublicToken_def dest: find_first_SomeD split: if_splits option.splits sum.splits)
  show "request_ok env d q"
    unfolding request_ok_def signed_body_def using route(1) v(1) verified_delivery(4) [OF v(2)] push sha body by blast
qed (use assms in \<open>auto simp: ingress_verify_def split: sum.splits prod.splits if_splits json.splits\<close>)

lemma object_payload:
  assumes "request_ok env d q" "validateFederatedWebhookDelivery (webhook_object env q u now) = None"
  shows "payload_ok env d u (wr_id (iq_route q)) (iq_sha q) (webhook_object env q u now)"
proof -
  have "\<exists>q' now'. webhook_object env q u now = webhook_object env q' u now'" by blast
  then show ?thesis using assms
    unfolding payload_ok_def request_ok_def by (auto simp: webhook_object_def Let_def text_field_def)
qed

lemma spool_write_Inr:
  assumes "spool_write env disk v obj now d = (Inr path, d')"
  shows "\<exists>tmp. d' = d\<lparr>ws_tmp := tmp, ws_queue := (ws_queue d)(payload_file (text_field obj ''deliveryId'') \<mapsto> encryptWebhookSpool env obj)\<rparr>"
    "path = payload_file (text_field obj ''deliveryId'')"
  using assms
  by (auto simp: spool_write_def spool_stage_def spool_publish_def resolve_file_def Let_def
      split: option.splits sum.splits if_splits prod.splits)

lemma object_id: "text_field (webhook_object env q u now) ''deliveryId'' = u"
  by (simp add: webhook_object_def Let_def text_field_def)

text \<open>A change of files alone, that leaves the files of the rows and of the pending payloads right.\<close>

lemma files_ok:
  assumes ok: "wsys_ok env y" and d': "ws_routes d' = ws_routes (wy_db y)" "ws_deliveries d' = ws_deliveries (wy_db y)"
    and spool: "spool_ok env d'"
    and pend: "\<And>p. p \<in> set ps \<Longrightarrow> ws_queue d' (payload_file (wp_id p)) = ws_queue (wy_db y) (payload_file (wp_id p))"
    and ps: "keyed wp_id ps" "set ps \<subseteq> set (wy_pending y)"
    and fs: "distinct (map wf_target fs)" "length fs \<le> webhook_concurrency env" "set fs \<subseteq> set (wy_flights y)"
  shows "wsys_ok env (y\<lparr>wy_db := d', wy_pending := ps, wy_flights := fs\<rparr>)"
proof -
  have grow: "routes_grow (wy_db y) d'" using d'(1) by (rule routes_grow_same)
  have "keyed wr_id (ws_routes d')" using ok d' by (simp add: wsys_ok_def keys_unique_def)
  note rows = claim_row_routes [OF grow this d'(2)]
  have "keys_unique d'" using ok by (simp add: wsys_ok_def keys_unique_def d')
  moreover have "pending_ok env (y\<lparr>wy_db := d', wy_pending := ps, wy_flights := fs\<rparr>)"
    using ok ps pend request_mono [OF grow] payload_mono [OF grow] by (auto simp: wsys_ok_def pending_ok_def d')
  moreover have "wflights_ok env (y\<lparr>wy_db := d', wy_pending := ps, wy_flights := fs\<rparr>)"
    using ok fs rows by (fastforce simp: wsys_ok_def wflights_ok_def)
  ultimately show ?thesis using spool by (simp add: wsys_ok_def)
qed

lemma spool_step_ok:
  assumes ok: "wsys_ok env y" and q: "q \<in> set (wy_checked y)" and new: "new_request_id y u"
    and valid: "validateFederatedWebhookDelivery (webhook_object env q u now) = None"
    and run: "spool_write env disk v (webhook_object env q u now) now (wy_db y) = (Inr path, d')"
  shows "wsys_ok env (y\<lparr>wy_db := d', wy_pending := wy_pending y @
       [\<lparr>wp_id = u, wp_path = path, wp_object = webhook_object env q u now, wp_request = q, wp_time = now\<rparr>]\<rparr>)"
proof -
  let ?o = "webhook_object env q u now"
  from spool_write_Inr(1) [OF run] obtain tmp where
    d': "d' = (wy_db y)\<lparr>ws_tmp := tmp, ws_queue := (ws_queue (wy_db y))(payload_file u \<mapsto> encryptWebhookSpool env ?o)\<rparr>"
    by (auto simp: object_id)
  have same: "ws_routes d' = ws_routes (wy_db y)" "ws_deliveries d' = ws_deliveries (wy_db y)" "ws_dlq d' = ws_dlq (wy_db y)"
    by (simp_all add: d')
  have row: "spool_row env d' w" if w: "w \<in> set (ws_deliveries (wy_db y))" for w
  proof -
    have "wd_id w \<noteq> u" using new w by (auto simp: new_request_id_def)
    moreover have "spool_row env (wy_db y) w" using ok w by (simp add: wsys_ok_def spool_ok_def)
    ultimately show ?thesis by (simp add: spool_row_def Let_def sealed_frame [OF same(1)] same) (simp add: d')
  qed
  have spool: "spool_ok env d'" using ok row by (simp add: wsys_ok_def spool_ok_def same)
  have "wsys_ok env (y\<lparr>wy_db := d', wy_pending := wy_pending y, wy_flights := wy_flights y\<rparr>)"
    by (rule files_ok [OF ok same(1,2) spool])
       (use ok new in \<open>auto simp: wsys_ok_def pending_ok_def wflights_ok_def d' new_request_id_def\<close>)
  moreover have "request_ok env (wy_db y) q" using ok q by (simp add: wsys_ok_def pending_ok_def)
  moreover have "routes_grow (wy_db y) d'" using same(1) by (rule routes_grow_same)
  ultimately show ?thesis
    using new object_payload [OF request_mono valid] request_mono
    by (auto simp: wsys_ok_def pending_ok_def wflights_ok_def keyed_append_row new_request_id_def same) (simp add: d')
qed

text \<open>Removing the file of a request that was not admitted, and of a delivery that is over.\<close>

lemma remove_queue_ok:
  assumes "spool_ok env d" "\<And>w. w \<in> set (ws_deliveries d) \<Longrightarrow> wd_id w = u \<Longrightarrow> wd_state w = W_DELIVERED"
  shows "spool_ok env (remove_queue u d)"
proof -
  have same: "ws_routes (remove_queue u d) = ws_routes d" "ws_deliveries (remove_queue u d) = ws_deliveries d"
    "ws_dlq (remove_queue u d) = ws_dlq d" "ws_queue (remove_queue u d) = (ws_queue d)(payload_file u := None)"
    by (simp_all add: remove_queue_def)
  have "spool_row env (remove_queue u d) w" if w: "w \<in> set (ws_deliveries d)" for w
  proof -
    have "spool_row env d w" using assms(1) w by (simp add: spool_ok_def)
    then show ?thesis using assms(2) [OF w]
      by (auto simp: spool_row_def Let_def sealed_frame [OF same(1)] same waiting_def)
  qed
  then show ?thesis using assms(1) by (simp add: spool_ok_def same)
qed

lemma new_delivery_fields [simp]:
  "wd_id (new_delivery q u path now) = u" "wd_routeId (new_delivery q u path now) = wr_id (iq_route q)"
  "wd_bodySha256 (new_delivery q u path now) = iq_sha q" "wd_event (new_delivery q u path now) = ''push''"
  "wd_state (new_delivery q u path now) = W_ACCEPTED" "provider_key (new_delivery q u path now) = request_key q"
  "wd_attempt (new_delivery q u path now) = 0" "wd_maxAttempts (new_delivery q u path now) = 6"
  by (simp_all add: new_delivery_def provider_key_def request_key_def WEBHOOK_MAX_ATTEMPTS_def)

lemma admit_cases:
  assumes "ingress_admit env q u path now fault later d = (r, d')"
  obtains (replayed) w where "find_provider q d = Some w" "d' = remove_queue u d" "r = replay_of q w"
  | (created) "find_provider q d = None" "d' = d\<lparr>ws_deliveries := ws_deliveries d @ [new_delivery q u path now]\<rparr>"
      "r = Inr (Accepted u False)" "u \<notin> wd_id ` set (ws_deliveries d)" "wr_id (iq_route q) \<in> wr_id ` set (ws_routes d)"
  | (refused) "d' = remove_queue u d"
proof (cases "transaction fault (admit_tx env q u path now) d")
  case (Pair res x)
  show thesis
  proof (cases res)
    case (Inl e)
    then have "x = d" using Pair transaction_error [of fault "admit_tx env q u path now" d e] by simp
    then show thesis using assms Pair Inl refused by (auto simp: ingress_admit_def)
  next
    case (Inr o_w)
    with Pair have tx: "admit_tx env q u path now d = (Inr o_w, x)" by (simp add: transaction_ok)
    show thesis
    proof (cases o_w)
      case (Some w)
      with tx have "find_provider q d = Some w" "x = d"
        by (auto simp: admit_tx_def create_delivery_def split: option.splits if_splits)
      then show thesis using assms Pair Inr Some replayed by (auto simp: ingress_admit_def)
    next
      case None
      with tx have "find_provider q d = None" "x = d\<lparr>ws_deliveries := ws_deliveries d @ [new_delivery q u path now]\<rparr>"
        "u \<notin> wd_id ` set (ws_deliveries d)" "wr_id (iq_route q) \<in> wr_id ` set (ws_routes d)"
        by (auto simp: admit_tx_def create_delivery_def split: option.splits if_splits)
      then show thesis using assms Pair Inr None created by (auto simp: ingress_admit_def)
    qed
  qed
qed

lemma admit_step_ok:
  assumes ok: "wsys_ok env y" and pending: "wy_pending y = ps @ p # qs"
    and run: "ingress_admit env (wp_request p) (wp_id p) (wp_path p) (wp_time p) fault later (wy_db y) = (r, d')"
  shows "wsys_ok env (y\<lparr>wy_db := d', wy_pending := ps @ qs\<rparr>)"
proof -
  let ?d = "wy_db y" and ?q = "wp_request p" and ?u = "wp_id p"
  have keyed: "keyed wp_id (ps @ qs)" and "?u \<notin> wp_id ` set (ps @ qs)"
    using ok pending by (auto simp: wsys_ok_def pending_ok_def keyed_def)
  then have fresh: "x \<in> set ps \<or> x \<in> set qs \<Longrightarrow> wp_id x \<noteq> ?u" for x
    by (metis UnCI image_eqI set_append)
  have p: "?u \<notin> wd_id ` set (ws_deliveries ?d)" "request_ok env ?d ?q"
    "payload_ok env ?d ?u (wr_id (iq_route ?q)) (iq_sha ?q) (wp_object p)"
    "ws_queue ?d (payload_file ?u) = Some (encryptWebhookSpool env (wp_object p))"
    using ok pending by (auto simp: wsys_ok_def pending_ok_def)
  have removed: "wsys_ok env (y\<lparr>wy_db := remove_queue ?u ?d, wy_pending := ps @ qs\<rparr>)"
  proof -
    have "wsys_ok env (y\<lparr>wy_db := remove_queue ?u ?d, wy_pending := ps @ qs, wy_flights := wy_flights y\<rparr>)"
    proof (rule files_ok [OF ok])
      show "spool_ok env (remove_queue ?u ?d)"
        by (rule remove_queue_ok, use ok in \<open>simp add: wsys_ok_def\<close>) (use p(1) in force)
      show "ws_queue (remove_queue ?u ?d) (payload_file (wp_id x)) = ws_queue ?d (payload_file (wp_id x))"
        if "x \<in> set (ps @ qs)" for x
        using that fresh [of x] by (simp add: remove_queue_def)
    qed (use ok keyed pending in \<open>auto simp: remove_queue_def wsys_ok_def wflights_ok_def\<close>)
    then show ?thesis by simp
  qed
  from run show ?thesis
  proof (cases rule: admit_cases)
    case replayed
    with removed show ?thesis by simp
  next
    case refused
    with removed show ?thesis by simp
  next
    case created
    let ?w = "new_delivery ?q ?u (wp_path p) (wp_time p)"
    have same: "ws_routes d' = ws_routes ?d" "ws_queue d' = ws_queue ?d" "ws_dlq d' = ws_dlq ?d"
      and rows: "ws_deliveries d' = ws_deliveries ?d @ [?w]"
      using created(2) by simp_all
    have "request_key ?q \<notin> provider_key ` set (ws_deliveries ?d)"
      using created(1) by (auto simp: find_provider_def row_simps)
    then have "keys_unique d'"
      using ok created(4,5) by (auto simp: wsys_ok_def keys_unique_def same rows keyed_append_row)
    moreover have "spool_ok env d'"
    proof -
      have dead: "ws_dlq ?d n \<noteq> None \<longrightarrow> n \<in> payload_file ` wd_id ` set (ws_deliveries ?d)" for n
        using ok by (simp add: wsys_ok_def spool_ok_def)
      have "payload_file ?u \<notin> payload_file ` wd_id ` set (ws_deliveries ?d)" using p(1) by (auto simp: image_iff)
      with dead [of "payload_file ?u"] have "ws_dlq ?d (payload_file ?u) = None" by blast
      moreover have "sealed_for env ?d ?w (encryptWebhookSpool env (wp_object p))"
        using p(3) by (auto simp: sealed_for_def)
      ultimately have "spool_row env d' ?w"
        using p(4) by (simp add: spool_row_def Let_def same sealed_frame [OF same(1)])
      moreover have "spool_row env d' w" if "w \<in> set (ws_deliveries ?d)" for w
        using ok that by (simp add: wsys_ok_def spool_ok_def spool_row_def Let_def same sealed_frame [OF same(1)])
      ultimately show ?thesis using ok by (auto simp: wsys_ok_def spool_ok_def same rows)
    qed
    moreover have "pending_ok env (y\<lparr>wy_db := d', wy_pending := ps @ qs\<rparr>)"
      using ok keyed fresh pending request_mono [OF routes_grow_same [OF same(1)]] payload_mono [OF routes_grow_same [OF same(1)]]
      by (auto simp: wsys_ok_def pending_ok_def same rows)
    moreover have "wflights_ok env (y\<lparr>wy_db := d', wy_pending := ps @ qs\<rparr>)"
    proof -
      have "claim_row d' f w" if "claim_row ?d f w" for f w
        using that by (auto simp: claim_row_def find_delivery_def find_route_def rows same find_key_append)
      then show ?thesis using ok by (fastforce simp: wsys_ok_def wflights_ok_def)
    qed
    ultimately show ?thesis by (simp add: wsys_ok_def)
  qed
qed

end
