(* ===== verification/Webhook_Safety.thy ===== *)
theory Webhook_Safety
  imports Webhook_Frame
begin

text \<open>
  Every step of the webhooks keeps the invariant: the payload of a waiting delivery is in the
  queue, it is the one that was signed for its route, and the worker has at most one delivery
  for a target in hand.
\<close>

section \<open>The worker\<close>

lemma with_route_SomeD: "c \<in> set (with_route d w) \<Longrightarrow> cl_delivery c = w \<and> find_route (wd_routeId w) d = Some (cl_route c)"
  by (auto simp: with_route_def split: option.splits)

lemma claim_delivery_Some:
  assumes "keyed wd_id (ws_deliveries d)" "claim_delivery owner now u d = (Some c, d')"
  shows "\<exists>w. find_delivery u d = Some w \<and> deliverable now w \<and> cl_delivery c = delivering_write owner now w \<and>
     find_route (wd_routeId w) d = Some (cl_route c) \<and>
     d' = update_deliveries (\<lambda>w. wd_id w = u \<and> deliverable now w) (delivering_write owner now) d"
proof -
  let ?d = "update_deliveries (\<lambda>w. wd_id w = u \<and> deliverable now w) (delivering_write owner now) d"
  from assms(2) have hit: "count_rows (\<lambda>w. wd_id w = u \<and> deliverable now w) (ws_deliveries d) = 1" and d': "d' = ?d"
    by (auto simp: claim_delivery_def Let_def split: if_splits)
  from deliveries.guard_hit [OF assms(1), THEN iffD1, OF hit] obtain w where w: "find_delivery u d = Some w" "deliverable now w"
    by blast
  have "wd_id w = u" using w(1) by (rule deliveries.look_key)
  with w have "find_delivery u ?d = Some (delivering_write owner now w)" by (simp add: update_find)
  with assms(2) hit have "c \<in> set (with_route ?d (delivering_write owner now w))"
    by (auto simp: claim_delivery_def Let_def split: list.splits)
  then have "cl_delivery c = delivering_write owner now w" "find_route (wd_routeId w) ?d = Some (cl_route c)"
    by (auto dest!: with_route_SomeD simp: delivering_write_def)
  with w d' show ?thesis by (simp add: find_route_def update_deliveries_def)
qed

text \<open>Every row has a route, so a claim that hits returns it.\<close>

lemma claim_delivery_unchanged:
  assumes keys: "keys_unique d" and none: "claim_delivery owner now u d = (None, d')"
  shows "d' = d"
proof (cases "count_rows (\<lambda>w. wd_id w = u \<and> deliverable now w) (ws_deliveries d) = 1")
  case True
  let ?d = "update_deliveries (\<lambda>w. wd_id w = u \<and> deliverable now w) (delivering_write owner now) d"
  have keyed: "keyed wd_id (ws_deliveries d)" "keyed wr_id (ws_routes d)" using keys by (simp_all add: keys_unique_def)
  from deliveries.guard_hit [OF keyed(1), THEN iffD1, OF True] obtain w where w: "find_delivery u d = Some w" "deliverable now w"
    by blast
  then have row: "w \<in> set (ws_deliveries d)" "wd_id w = u" by (auto simp: find_delivery_def dest: find_key_SomeD)
  then have "find_route (wd_routeId w) d \<noteq> None" using keys by (auto simp: keys_unique_def find_route_def row_simps)
  moreover have "find_delivery u ?d = Some (delivering_write owner now w)" using w row by (simp add: update_find)
  moreover have "wd_routeId (delivering_write owner now w) = wd_routeId w" by (simp add: delivering_write_def)
  moreover have "find_route x ?d = find_route x d" for x by (simp add: find_route_def update_deliveries_def)
  ultimately have False using none True by (auto simp: claim_delivery_def Let_def with_route_def)
  then show ?thesis ..
qed (use none in \<open>auto simp: claim_delivery_def\<close>)

lemma claim_first_Some:
  assumes "keys_unique d" "claim_first owner targets now cs d = (Some c, d')"
  shows "\<exists>x \<in> set cs. wr_target (cl_route x) \<notin> set targets \<and> claim_delivery owner now (wd_id (cl_delivery x)) d = (Some c, d')"
  using assms(2)
proof (induction cs)
  case (Cons x cs)
  show ?case
  proof (cases "wr_target (cl_route x) \<in> set targets")
    case True
    with Cons show ?thesis by auto
  next
    case False
    obtain o_c d1 where run: "claim_delivery owner now (wd_id (cl_delivery x)) d = (o_c, d1)" by fastforce
    show ?thesis
    proof (cases o_c)
      case None
      with run have "d1 = d" using claim_delivery_unchanged [OF assms(1)] by blast
      with Cons run None False show ?thesis by auto
    next
      case (Some y)
      with Cons.prems run False show ?thesis by auto
    qed
  qed
qed simp

lemma candidates_seen:
  assumes "x \<in> set (candidates now seen)" "keyed wd_id (ws_deliveries seen)"
  shows "find_delivery (wd_id (cl_delivery x)) seen = Some (cl_delivery x) \<and>
     find_route (wd_routeId (cl_delivery x)) seen = Some (cl_route x)"
proof -
  from assms(1) obtain w where w: "w \<in> set (ws_deliveries seen)" "x \<in> set (with_route seen w)"
    by (auto simp: candidates_def dest!: in_set_takeD)
  have "cl_delivery x = w" "find_route (wd_routeId w) seen = Some (cl_route x)" using with_route_SomeD [OF w(2)] by simp_all
  with w(1) assms(2) show ?thesis by (simp add: find_delivery_def find_key_unique)
qed

text \<open>A guarded write to the rows, for which only the flights are left to show.\<close>

lemma update_step_ok:
  assumes ok: "wsys_ok env y" and kept: "\<And>w. delivery_kept w (f w)"
    and state: "\<And>w. w \<in> set (ws_deliveries (wy_db y)) \<Longrightarrow> P w \<Longrightarrow>
      waiting w \<and> (waiting (f w) \<or> wd_state (f w) \<in> {W_DELIVERED, W_DLQ})"
    and flights: "wflights_ok env (y\<lparr>wy_db := update_deliveries P f (wy_db y), wy_flights := fs\<rparr>)"
  shows "wsys_ok env (y\<lparr>wy_db := update_deliveries P f (wy_db y), wy_flights := fs\<rparr>)"
proof -
  let ?d = "wy_db y"
  have parts: "keys_unique ?d" "spool_ok env ?d" "pending_ok env y" using ok by (simp_all add: wsys_ok_def)
  have "ws_queue ?d (payload_file (wd_id w)) \<noteq> None" if w: "w \<in> set (ws_deliveries ?d)" "P w" for w
    using parts(2) w state [OF w] by (auto simp: spool_ok_def spool_row_def Let_def)
  then have "spool_ok env (update_deliveries P f ?d)" using update_spool [OF parts(2) kept] by blast
  moreover have "keys_unique (update_deliveries P f ?d)" using parts(1) kept by (rule update_keys)
  moreover have "pending_ok env (y\<lparr>wy_db := update_deliveries P f ?d, wy_flights := fs\<rparr>)"
    using update_pending [OF parts(3), of f P] kept by (simp add: pending_ok_def)
  ultimately show ?thesis using flights by (simp add: wsys_ok_def)
qed

text \<open>What such a write does to the deliveries in hand.\<close>

lemma flights_row:
  assumes "wsys_ok env y" "\<And>w. delivery_kept w (f w)" "\<And>w. P w \<Longrightarrow> waiting w" "g \<in> set (wy_flights y)"
  shows "\<exists>w. claim_row (update_deliveries P f (wy_db y)) g w"
proof -
  from assms(1,4) obtain w where w: "claim_row (wy_db y) g w" by (auto simp: wsys_ok_def wflights_ok_def)
  have "claim_row (update_deliveries P f (wy_db y)) g (if P w then f w else w)"
    by (rule update_claim_row [OF w assms(2)]) (use w assms(3) [of w] in \<open>auto simp: claim_row_def waiting_def\<close>)
  then show ?thesis ..
qed

lemma flights_split:
  assumes "wsys_ok env y" "wy_flights y = fs @ f # gs"
  shows "distinct (map wf_target (fs @ gs))" "length (fs @ gs) < webhook_concurrency env"
    "\<exists>w. claim_row (wy_db y) f w" "wf_target f \<notin> wf_target ` set (fs @ gs)"
  using assms by (auto simp: wsys_ok_def wflights_ok_def)

lemma deliverable_waiting: "deliverable now w \<Longrightarrow> waiting w"
  by (auto simp: deliverable_def waiting_def)

lemma owned_waiting: "owned_delivery owner u w \<Longrightarrow> waiting w"
  by (simp add: owned_delivery_def waiting_def)

lemma claim_step_ok:
  assumes ok: "wsys_ok env y" and free: "length (wy_flights y) < webhook_concurrency env"
    and seen: "seen_before seen (wy_db y)"
    and run: "claimNextDelivery owner (map wf_target (wy_flights y)) now seen (wy_db y) = (Some c, d')"
  shows "wsys_ok env (y\<lparr>wy_db := d', wy_flights := wy_flights y @ [\<lparr>wf_claim = c, wf_phase = Wf_Claimed\<rparr>]\<rparr>)"
proof -
  let ?d = "wy_db y" and ?f = "\<lparr>wf_claim = c, wf_phase = Wf_Claimed\<rparr>"
  have keys: "keys_unique ?d" using ok by (simp add: wsys_ok_def)
  from claim_first_Some [OF keys run [unfolded claimNextDelivery_def]] obtain x where
    x: "x \<in> set (candidates now seen)" "wr_target (cl_route x) \<notin> set (map wf_target (wy_flights y))"
      "claim_delivery owner now (wd_id (cl_delivery x)) ?d = (Some c, d')" by blast
  let ?u = "wd_id (cl_delivery x)" and ?P = "\<lambda>w. wd_id w = wd_id (cl_delivery x) \<and> deliverable now w"
  have "keyed wd_id (ws_deliveries ?d)" using keys by (simp add: keys_unique_def)
  from claim_delivery_Some [OF this x(3)] obtain w where
    w: "find_delivery ?u ?d = Some w" "deliverable now w" "cl_delivery c = delivering_write owner now w"
      "find_route (wd_routeId w) ?d = Some (cl_route c)" and d': "d' = update_deliveries ?P (delivering_write owner now) ?d"
    by blast
  have id: "wd_id w = ?u" using w(1) by (rule deliveries.look_key)
  have "find_delivery ?u seen = Some (cl_delivery x)" "find_route (wd_routeId (cl_delivery x)) seen = Some (cl_route x)"
    using candidates_seen [OF x(1)] seen by (simp_all add: seen_before_def)
  then have "wr_target (cl_route c) = wr_target (cl_route x)"
    using seen w(1,4) by (fastforce simp: seen_before_def)
  then have other: "wf_target ?f \<notin> wf_target ` set (wy_flights y)" using x(2) by (simp add: wf_target_def)
  have route: "find_route r d' = find_route r ?d" for r by (simp add: d' find_route_def update_deliveries_def)
  have "find_delivery ?u d' = Some (delivering_write owner now w)"
    using w(1,2) id by (simp add: d' update_find)
  then have "claim_row d' ?f (delivering_write owner now w)"
    using w(3,4) id by (simp add: claim_row_def wf_id_def wf_target_def route delivering_write_def)
  moreover have "\<exists>w. claim_row d' g w" if "g \<in> set (wy_flights y)" for g
    unfolding d' by (rule flights_row [OF ok _ _ that]) (auto intro: deliverable_waiting)
  ultimately have "wflights_ok env (y\<lparr>wy_db := d', wy_flights := wy_flights y @ [?f]\<rparr>)"
    using ok free other by (auto simp: wflights_ok_def wsys_ok_def)
  then show ?thesis
    unfolding d'
  proof (rule update_step_ok [OF ok, rotated -1])
    show "waiting v \<and> (waiting (delivering_write owner now v) \<or> wd_state (delivering_write owner now v) \<in> {W_DELIVERED, W_DLQ})"
      if "?P v" for v
      using that deliverable_waiting [of now v] by (simp add: waiting_def delivering_write_def)
  qed simp
qed

lemma owned_hit:
  assumes "keys_unique d" "count_rows (owned_delivery owner u) (ws_deliveries d) = 1"
  shows "\<exists>w. find_delivery u d = Some w \<and> owned_delivery owner u w"
proof -
  let ?P = "\<lambda>w. wd_state w = W_DELIVERING \<and> wd_leaseOwner w = Some owner"
  have eq: "owned_delivery owner u = (\<lambda>w. wd_id w = u \<and> ?P w)" by (auto simp: owned_delivery_def)
  have "keyed wd_id (ws_deliveries d)" using assms(1) by (simp add: keys_unique_def)
  from deliveries.guard_hit [OF this, of u ?P] assms(2) obtain w where "find_delivery u d = Some w" "?P w"
    unfolding eq by auto
  moreover then have "wd_id w = u" by (auto dest: deliveries.look_key)
  ultimately show ?thesis by (simp add: owned_delivery_def)
qed

text \<open>The end of an execution: the flight goes, or it goes on to its file when its row was written.\<close>

lemma end_step_ok:
  assumes ok: "wsys_ok env y" and split: "wy_flights y = fs @ f # gs"
    and keeps: "\<And>w. delivery_kept w (h w)" "\<And>w. waiting (h w) \<or> wd_state (h w) \<in> {W_DELIVERED, W_DLQ}"
    and goes: "go \<Longrightarrow> count_rows (owned_delivery owner (wf_id f)) (ws_deliveries (wy_db y)) = 1 \<and>
       (\<forall>w. p = Wf_Removing \<and> wd_state (h w) = W_DELIVERED \<or> p = Wf_Moving \<and> wd_state (h w) = W_DLQ)"
  shows "wsys_ok env (y\<lparr>wy_db := update_deliveries (owned_delivery owner (wf_id f)) h (wy_db y),
      wy_flights := fs @ (if go then [f\<lparr>wf_phase := p\<rparr>] else []) @ gs\<rparr>)"
proof (rule update_step_ok [OF ok keeps(1)])
  let ?P = "owned_delivery owner (wf_id f)"
  show "waiting w \<and> (waiting (h w) \<or> wd_state (h w) \<in> {W_DELIVERED, W_DLQ})" if "?P w" for w
    using that keeps(2) owned_waiting by blast
  note parts = flights_split [OF ok split]
  have old: "\<exists>w. claim_row (update_deliveries ?P h (wy_db y)) g w" if "g \<in> set (fs @ gs)" for g
    using flights_row [OF ok keeps(1), of ?P g] that owned_waiting split by auto
  have new: "\<exists>w. claim_row (update_deliveries ?P h (wy_db y)) (f\<lparr>wf_phase := p\<rparr>) w" if go
  proof -
    note gone = goes [OF that]
    have "keys_unique (wy_db y)" using ok by (simp add: wsys_ok_def)
    from owned_hit [OF this] gone obtain w where w: "find_delivery (wf_id f) (wy_db y) = Some w" "?P w" by blast
    with parts(3) have row: "claim_row (wy_db y) f w" by (auto simp: claim_row_def)
    let ?g = "f\<lparr>wf_phase := Wf_Claimed\<rparr>"
    have same: "wf_id ?g = wf_id f" "wf_target ?g = wf_target f" "wf_id (f\<lparr>wf_phase := p\<rparr>) = wf_id f"
      "wf_target (f\<lparr>wf_phase := p\<rparr>) = wf_target f" by (simp_all add: wf_id_def wf_target_def)
    have "claim_row (wy_db y) ?g w" using row unfolding claim_row_def same by auto
    from update_claim_row [OF this keeps(1), of ?P] w(2)
    have "claim_row (update_deliveries ?P h (wy_db y)) ?g (h w)" by simp
    then show ?thesis using gone by (auto simp: claim_row_def same intro!: exI [of _ "h w"])
  qed
  show "wflights_ok env (y\<lparr>wy_db := update_deliveries ?P h (wy_db y), wy_flights := fs @ (if go then [f\<lparr>wf_phase := p\<rparr>] else []) @ gs\<rparr>)"
    using parts old new by (auto simp: wflights_ok_def wf_target_def [of "f\<lparr>wf_phase := p\<rparr>"] wf_target_def [of f])
qed

lemma failed_step_ok:
  assumes ok: "wsys_ok env y" and split: "wy_flights y = fs @ f # gs"
    and run: "record_failure owner (wf_claim f) code force now (wy_db y) = (dead, d')"
  shows "wsys_ok env (y\<lparr>wy_db := d', wy_flights := fs @ (if dead then [f\<lparr>wf_phase := Wf_Moving\<rparr>] else []) @ gs\<rparr>)"
proof (cases "force \<or> wd_attempt (cl_delivery (wf_claim f)) \<ge> wd_maxAttempts (cl_delivery (wf_claim f))")
  case True
  then have d': "d' = update_deliveries (owned_delivery owner (wf_id f)) (dead_write code now) (wy_db y)"
    and dead: "dead \<longleftrightarrow> count_rows (owned_delivery owner (wf_id f)) (ws_deliveries (wy_db y)) = 1"
    using run by (auto simp: record_failure_def Let_def wf_id_def)
  show ?thesis unfolding d'
    by (rule end_step_ok [OF ok split]) (use dead in \<open>auto simp: dead_write_def delivery_kept_def\<close>)
next
  case False
  let ?w = "retry_write code (now + retry_delay (wd_attempt (cl_delivery (wf_claim f))))"
  have d': "d' = update_deliveries (owned_delivery owner (wf_id f)) ?w (wy_db y)" "\<not> dead"
    using run False by (auto simp: record_failure_def Let_def wf_id_def)
  have "wsys_ok env (y\<lparr>wy_db := d', wy_flights := fs @ (if False then [f\<lparr>wf_phase := Wf_Moving\<rparr>] else []) @ gs\<rparr>)"
    unfolding d' by (rule end_step_ok [OF ok split]) (auto simp: retry_write_def waiting_def delivery_kept_def)
  with d' show ?thesis by simp
qed

lemma delivered_step_ok:
  assumes ok: "wsys_ok env y" and split: "wy_flights y = fs @ f # gs"
    and run: "record_delivered owner (wf_claim f) result requestId now (wy_db y) = (recorded, d')"
  shows "wsys_ok env (y\<lparr>wy_db := d', wy_flights := fs @ (if recorded then [f\<lparr>wf_phase := Wf_Removing\<rparr>] else []) @ gs\<rparr>)"
proof -
  have d': "d' = update_deliveries (owned_delivery owner (wf_id f)) (delivered_write result requestId now) (wy_db y)"
    and recorded: "recorded \<longleftrightarrow> count_rows (owned_delivery owner (wf_id f)) (ws_deliveries (wy_db y)) = 1"
    using run by (auto simp: record_delivered_def Let_def wf_id_def)
  show ?thesis unfolding d'
    by (rule end_step_ok [OF ok split]) (use recorded in \<open>auto simp: delivered_write_def delivery_kept_def\<close>)
qed

section \<open>Files of a delivery that is over\<close>

lemma found_id: "find_delivery u d = Some w \<Longrightarrow> u \<in> wd_id ` set (ws_deliveries d)"
  by (metis find_delivery_def find_key_SomeD image_eqI)

text \<open>The row of a delivery in hand is the only one with its identifier.\<close>

lemma flight_state:
  assumes ok: "wsys_ok env y" and f: "f \<in> set (wy_flights y)" and w: "w \<in> set (ws_deliveries (wy_db y))" "wd_id w = wf_id f"
  shows "wf_phase f = Wf_Removing \<Longrightarrow> wd_state w = W_DELIVERED" "wf_phase f = Wf_Moving \<Longrightarrow> wd_state w = W_DLQ"
proof -
  have "keyed wd_id (ws_deliveries (wy_db y))" using ok by (simp add: wsys_ok_def keys_unique_def)
  with w have "find_delivery (wf_id f) (wy_db y) = Some w" by (metis find_delivery_def find_key_unique)
  moreover obtain w' where "claim_row (wy_db y) f w'" using ok f by (auto simp: wsys_ok_def wflights_ok_def)
  ultimately show "wf_phase f = Wf_Removing \<Longrightarrow> wd_state w = W_DELIVERED" "wf_phase f = Wf_Moving \<Longrightarrow> wd_state w = W_DLQ"
    by (auto simp: claim_row_def)
qed

lemma flight_pending:
  assumes "wsys_ok env y" "f \<in> set (wy_flights y)" "p \<in> set (wy_pending y)"
  shows "wp_id p \<noteq> wf_id f"
proof -
  obtain w where "find_delivery (wf_id f) (wy_db y) = Some w"
    using assms(1,2) by (auto simp: wsys_ok_def wflights_ok_def claim_row_def)
  then have "wf_id f \<in> wd_id ` set (ws_deliveries (wy_db y))" by (rule found_id)
  then show ?thesis using assms(1,3) by (auto simp: wsys_ok_def pending_ok_def)
qed

lemma remove_step_ok:
  assumes ok: "wsys_ok env y" and split: "wy_flights y = fs @ f # gs" and phase: "wf_phase f = Wf_Removing"
  shows "wsys_ok env (y\<lparr>wy_db := remove_queue (wf_id f) (wy_db y), wy_flights := fs @ gs\<rparr>)"
proof -
  have f: "f \<in> set (wy_flights y)" by (simp add: split)
  note parts = flights_split [OF ok split]
  have "wsys_ok env (y\<lparr>wy_db := remove_queue (wf_id f) (wy_db y), wy_pending := wy_pending y, wy_flights := fs @ gs\<rparr>)"
  proof (rule files_ok [OF ok])
    show "spool_ok env (remove_queue (wf_id f) (wy_db y))"
      by (rule remove_queue_ok, use ok in \<open>simp add: wsys_ok_def\<close>) (rule flight_state(1) [OF ok f _ _ phase])
    show "ws_queue (remove_queue (wf_id f) (wy_db y)) (payload_file (wp_id p)) = ws_queue (wy_db y) (payload_file (wp_id p))"
      if "p \<in> set (wy_pending y)" for p
      using flight_pending [OF ok f that] by (simp add: remove_queue_def)
  qed (use ok parts split in \<open>auto simp: remove_queue_def wsys_ok_def pending_ok_def\<close>)
  then show ?thesis by simp
qed

text \<open>A file goes from one directory to the other; its bytes stay those of its row.\<close>

lemma spool_row_moved:
  assumes "spool_row env d w" "ws_routes d' = ws_routes d"
    "\<And>b. ws_queue d' (payload_file (wd_id w)) = Some b \<or> ws_dlq d' (payload_file (wd_id w)) = Some b \<Longrightarrow>
       ws_queue d (payload_file (wd_id w)) = Some b \<or> ws_dlq d (payload_file (wd_id w)) = Some b"
    "waiting w \<Longrightarrow> ws_queue d' (payload_file (wd_id w)) \<noteq> None"
    "wd_state w = W_DLQ \<Longrightarrow> ws_queue d' (payload_file (wd_id w)) \<noteq> None \<or> ws_dlq d' (payload_file (wd_id w)) \<noteq> None"
  shows "spool_row env d' w"
  using assms by (simp add: spool_row_def Let_def sealed_frame [OF assms(2)]) blast

lemma moveToDlq_ok:
  assumes "spool_ok env d" "\<And>w. w \<in> set (ws_deliveries d) \<Longrightarrow> wd_id w = u \<Longrightarrow> wd_state w = W_DLQ"
    "u \<in> wd_id ` set (ws_deliveries d)"
  shows "spool_ok env (snd (moveToDlq u d))"
proof (cases "ws_queue d (payload_file u)")
  case None
  with assms(1) show ?thesis by (simp add: moveToDlq_def Let_def)
next
  case (Some b)
  let ?d = "d\<lparr>ws_queue := (ws_queue d)(payload_file u := None), ws_dlq := (ws_dlq d)(payload_file u \<mapsto> b)\<rparr>"
  have "spool_row env ?d w" if w: "w \<in> set (ws_deliveries d)" for w
  proof -
    have row: "spool_row env d w" using assms(1) w by (simp add: spool_ok_def)
    then show ?thesis
      by (rule spool_row_moved)
         (use row Some assms(2) [OF w] in \<open>auto simp: spool_row_def Let_def waiting_def split: if_splits\<close>)
  qed
  then have "spool_ok env ?d" using assms(1,3) by (auto simp: spool_ok_def)
  with Some show ?thesis by (simp add: moveToDlq_def Let_def)
qed

lemma moveToQueue_ok:
  assumes "spool_ok env d" "moveToQueue u d = (Inr (), d')"
  shows "spool_ok env d'" "ws_queue d' (payload_file u) \<noteq> None"
    "\<exists>q dl. d' = d\<lparr>ws_queue := q, ws_dlq := dl\<rparr> \<and> (\<forall>n. n \<noteq> payload_file u \<longrightarrow> q n = ws_queue d n)"
proof -
  have "spool_ok env d' \<and> ws_queue d' (payload_file u) \<noteq> None \<and>
    (\<exists>q dl. d' = d\<lparr>ws_queue := q, ws_dlq := dl\<rparr> \<and> (\<forall>n. n \<noteq> payload_file u \<longrightarrow> q n = ws_queue d n))"
  proof (cases "ws_dlq d (payload_file u)")
    case None
    then have "d' = d" "ws_queue d (payload_file u) \<noteq> None"
      using assms(2) by (auto simp: moveToQueue_def Let_def split: if_splits)
    with assms(1) show ?thesis by (intro conjI exI [of _ "ws_queue d"] exI [of _ "ws_dlq d"]) simp_all
  next
    case (Some b)
    let ?d = "d\<lparr>ws_dlq := (ws_dlq d)(payload_file u := None), ws_queue := (ws_queue d)(payload_file u \<mapsto> b)\<rparr>"
    have d': "d' = ?d" using assms(2) Some by (simp add: moveToQueue_def Let_def)
    have "spool_row env ?d w" if w: "w \<in> set (ws_deliveries d)" for w
    proof -
      have row: "spool_row env d w" using assms(1) w by (simp add: spool_ok_def)
      then show ?thesis
        by (rule spool_row_moved) (use row Some in \<open>auto simp: spool_row_def Let_def split: if_splits\<close>)
    qed
    then have "spool_ok env ?d" using assms(1) by (auto simp: spool_ok_def)
    with d' show ?thesis
      by (intro conjI exI [of _ "(ws_queue d)(payload_file u \<mapsto> b)"] exI [of _ "(ws_dlq d)(payload_file u := None)"]) simp_all
  qed
  then show "spool_ok env d'" "ws_queue d' (payload_file u) \<noteq> None"
    "\<exists>q dl. d' = d\<lparr>ws_queue := q, ws_dlq := dl\<rparr> \<and> (\<forall>n. n \<noteq> payload_file u \<longrightarrow> q n = ws_queue d n)" by blast+
qed

lemma move_step_ok:
  assumes ok: "wsys_ok env y" and split: "wy_flights y = fs @ f # gs" and phase: "wf_phase f = Wf_Moving"
  shows "wsys_ok env (y\<lparr>wy_db := snd (moveToDlq (wf_id f) (wy_db y)), wy_flights := fs @ gs\<rparr>)"
proof -
  let ?d = "snd (moveToDlq (wf_id f) (wy_db y))"
  have f: "f \<in> set (wy_flights y)" by (simp add: split)
  note parts = flights_split [OF ok split]
  have same: "ws_routes ?d = ws_routes (wy_db y)" "ws_deliveries ?d = ws_deliveries (wy_db y)"
    by (simp_all add: moveToDlq_def Let_def split: option.split)
  from parts(3) have row: "wf_id f \<in> wd_id ` set (ws_deliveries (wy_db y))"
    by (auto simp: claim_row_def dest: found_id)
  have "wsys_ok env (y\<lparr>wy_db := ?d, wy_pending := wy_pending y, wy_flights := fs @ gs\<rparr>)"
  proof (rule files_ok [OF ok same])
    show "spool_ok env ?d"
      by (rule moveToDlq_ok [OF _ _ row], use ok in \<open>simp add: wsys_ok_def\<close>) (rule flight_state(2) [OF ok f _ _ phase])
    show "ws_queue ?d (payload_file (wp_id p)) = ws_queue (wy_db y) (payload_file (wp_id p))" if "p \<in> set (wy_pending y)" for p
      using flight_pending [OF ok f that] by (simp add: moveToDlq_def Let_def split: option.split)
  qed (use ok parts split in \<open>auto simp: wsys_ok_def pending_ok_def\<close>)
  then show ?thesis by simp
qed

lemma redrive_step_ok:
  assumes ok: "wsys_ok env y" and away: "u \<notin> wf_id ` set (wy_flights y)" and run: "redrive u now (wy_db y) = (r, d')"
  shows "wsys_ok env (y\<lparr>wy_db := d'\<rparr>)"
proof (cases "redrive_check u (wy_db y) = None \<and> fst (moveToQueue u (wy_db y)) = Inr ()")
  case False
  have "snd (moveToQueue u (wy_db y)) = wy_db y" if "fst (moveToQueue u (wy_db y)) = Inl e" for e
    using that by (auto simp: moveToQueue_def Let_def split: option.splits)
  then have "d' = wy_db y" using run False
    by (auto simp: redrive_def split: option.splits prod.splits sum.splits)
  with ok show ?thesis by simp
next
  case True
  let ?P = "\<lambda>w. wd_id w = u \<and> wd_state w = W_DLQ"
  from True obtain d1 where move: "moveToQueue u (wy_db y) = (Inr (), d1)" by (cases "moveToQueue u (wy_db y)") auto
  with run True have d': "d' = update_deliveries ?P (redriven_write now) d1"
    by (simp add: redrive_def redrive_write_def Let_def)
  have "spool_ok env (wy_db y)" using ok by (simp add: wsys_ok_def)
  note moved = moveToQueue_ok [OF this move]
  from moved(3) obtain q dl where d1: "d1 = (wy_db y)\<lparr>ws_queue := q, ws_dlq := dl\<rparr>" "\<And>n. n \<noteq> payload_file u \<Longrightarrow> q n = ws_queue (wy_db y) n"
    by blast
  have row: "u \<in> wd_id ` set (ws_deliveries (wy_db y))"
    using True by (auto simp: redrive_check_def split: option.splits dest: found_id)
  have "wsys_ok env (y\<lparr>wy_db := d1, wy_pending := wy_pending y, wy_flights := wy_flights y\<rparr>)"
  proof (rule files_ok [OF ok])
    show "ws_queue d1 (payload_file (wp_id p)) = ws_queue (wy_db y) (payload_file (wp_id p))" if "p \<in> set (wy_pending y)" for p
    proof -
      have "wp_id p \<noteq> u" using ok that row by (auto simp: wsys_ok_def pending_ok_def)
      then show ?thesis using d1(2) by (simp add: d1(1))
    qed
  qed (use ok moved(1) in \<open>auto simp: d1(1) wsys_ok_def pending_ok_def wflights_ok_def\<close>)
  then have mid: "wsys_ok env (y\<lparr>wy_db := d1\<rparr>)" by simp
  have keep: "delivery_kept w (redriven_write now w)" for w by simp
  have "spool_ok env d'" unfolding d'
    by (rule update_spool [OF moved(1) keep]) (use moved(2) in \<open>auto simp: redriven_write_def\<close>)
  moreover have "keys_unique d'" unfolding d' using mid by (intro update_keys keep) (simp add: wsys_ok_def)
  moreover have "pending_ok env (y\<lparr>wy_db := d'\<rparr>)"
    using update_pending [OF _ keep, of env "y\<lparr>wy_db := d1\<rparr>" ?P] mid by (simp add: wsys_ok_def d')
  moreover have "\<exists>w. claim_row d' g w" if g: "g \<in> set (wy_flights y)" for g
  proof -
    from mid g obtain w where w: "claim_row d1 g w" by (auto simp: wsys_ok_def wflights_ok_def)
    then have "wd_id w = wf_id g" by (auto simp: claim_row_def dest: deliveries.look_key)
    then have "\<not> ?P w" using g away by auto
    then show ?thesis unfolding d' using update_claim_row [OF w keep, of ?P] by auto
  qed
  ultimately show ?thesis using mid by (simp add: wsys_ok_def wflights_ok_def)
qed

lemma restart_step_ok:
  assumes ok: "wsys_ok env y"
  shows "wsys_ok env (y\<lparr>wy_db := cleanupPartialFiles now (wy_db y), wy_owner := owner, wy_checked := [],
     wy_pending := [], wy_flights := []\<rparr>)"
proof -
  let ?d = "cleanupPartialFiles now (wy_db y)"
  have same: "ws_routes ?d = ws_routes (wy_db y)" "ws_deliveries ?d = ws_deliveries (wy_db y)"
    "ws_queue ?d = ws_queue (wy_db y)" "ws_dlq ?d = ws_dlq (wy_db y)"
    by (simp_all add: cleanupPartialFiles_def)
  have "spool_ok env ?d"
    using ok by (simp add: wsys_ok_def spool_ok_def spool_row_def Let_def same sealed_frame [OF same(1)])
  moreover have "keys_unique ?d" using ok by (simp add: wsys_ok_def keys_unique_def same)
  ultimately show ?thesis by (simp add: wsys_ok_def pending_ok_def wflights_ok_def keyed_def)
qed

section \<open>Every step\<close>

lemma keyed_routes: "wsys_ok env y \<Longrightarrow> keyed wr_id (ws_routes (wy_db y))"
  by (simp add: wsys_ok_def keys_unique_def)

theorem wstep_ok:
  assumes "wstep env y y'" "wsys_ok env y"
  shows "wsys_ok env y'"
  using assms
proof (induction rule: wstep.induct)
  case (wt_create_route servers contexts domains u inp seen y later r d')
  then show ?case using routes_only_ok [OF wt_create_route(2)] create_route_only [OF keyed_routes [OF wt_create_route(2)] wt_create_route(1)] by blast
next
  case (wt_rotate current y r d')
  then show ?case using routes_only_ok [OF wt_rotate(2)] rotate_only [OF keyed_routes [OF wt_rotate(2)] wt_rotate(1)] by blast
next
  case (wt_revoke u now y r d')
  then show ?case using routes_only_ok [OF wt_revoke(2)] revoke_only [OF keyed_routes [OF wt_revoke(2)] wt_revoke(1)] by blast
next
  case (wt_verify token rawHeaders body y q)
  then show ?case using verified_request(1) [OF wt_verify(1)]
    by (auto simp: wsys_ok_def pending_ok_def wflights_ok_def)
next
  case (wt_spool q y u now disk v path d')
  then show ?case using spool_step_ok by blast
next
  case (wt_admit y ps p qs fault later r d')
  then show ?case using admit_step_ok by blast
next
  case (wt_claim y seen now c d')
  then show ?case using claim_step_ok by blast
next
  case (wt_read y fs f gs v)
  note parts = flights_split [OF wt_read(4,1)]
  have "\<exists>w. claim_row (wy_db y) (f\<lparr>wf_phase := Wf_Sent v\<rparr>) w"
    using parts(3) by (auto simp: claim_row_def wf_id_def wf_target_def)
  then show ?case using wt_read(1,4)
    by (auto simp: wsys_ok_def pending_ok_def wflights_ok_def wf_target_def)
next
  case (wt_failed y fs f gs v code force now dead d')
  then show ?case using failed_step_ok by blast
next
  case (wt_delivered y fs f gs v result requestId now recorded d')
  then show ?case using delivered_step_ok by blast
next
  case (wt_remove y fs f gs)
  then show ?case using remove_step_ok by blast
next
  case (wt_move y fs f gs)
  then show ?case using move_step_ok by blast
next
  case (wt_redrive u y now r d')
  then show ?case using redrive_step_ok by blast
next
  case (wt_restart y now owner)
  then show ?case using restart_step_ok by blast
qed

lemma initial_wsys_ok: "wsys_ok env initial_wsys"
  by (simp add: initial_wsys_def wsys_ok_def keys_unique_def spool_ok_def pending_ok_def wflights_ok_def keyed_def)

theorem wreachable_ok: "wreachable env y \<Longrightarrow> wsys_ok env y"
  by (induction rule: wreachable.induct) (simp_all add: initial_wsys_ok wstep_ok)

end
