(* ===== verification/Deploy_Trigger.thy ===== *)
theory Deploy_Trigger
  imports Operation_Worker Operation_Refinement
begin

text \<open>
  The start of a deploy, \<open>triggerDeploy\<close> of \<open>api/src/deploy/deploy.service.ts\<close> with the check of
  \<open>api/src/sites/domain-context.service.ts\<close>: an operation of the ledger, the row of the deploy,
  and the command to the agent. The paths of a site are resolved by code outside the model,
  which may throw.
\<close>

record trigger_input =
  tg_siteId :: string
  tg_domainId :: string
  tg_userId :: string
  tg_role :: string
  tg_branch :: "string option"
  tg_key :: "string option"

text \<open>The command to the agent; the members that are columns of the domain are left out.\<close>

record deploy_command =
  dc_deployId :: string
  dc_operationId :: string
  dc_domainId :: string
  dc_branch :: string

definition requireOwnedSiteDomain ::
  "(domain_row \<Rightarrow> exn option) \<Rightarrow> string \<Rightarrow> string \<Rightarrow> string \<Rightarrow> string \<Rightarrow> db \<Rightarrow> exn + domain_row"
where
  "requireOwnedSiteDomain root siteId domainId userId role d =
     (case find_first (\<lambda>s. sd_id s = domainId \<and> sd_siteId s = siteId) (db_domains d) of
        None \<Rightarrow> Inl (NotFound ''Domain application not found'')
      | Some s \<Rightarrow>
          if role \<noteq> ''ADMIN'' \<and> (case find_key st_id (sd_siteId s) (db_sites d) of
               None \<Rightarrow> True | Some site \<Rightarrow> st_userId site \<noteq> userId)
          then Inl (Forbidden ''Access denied'')
          else case root s of Some e \<Rightarrow> Inl e | None \<Rightarrow> Inr s)"

definition trigger_context :: "(domain_row \<Rightarrow> exn option) \<Rightarrow> trigger_input \<Rightarrow> db \<Rightarrow> exn + domain_row" where
  "trigger_context root inp = requireOwnedSiteDomain root (tg_siteId inp) (tg_domainId inp) (tg_userId inp) (tg_role inp)"

definition requested_branch :: "trigger_input \<Rightarrow> domain_row \<Rightarrow> string" where
  "requested_branch inp s =
     (case truthy (tg_branch inp) of Some b \<Rightarrow> b
      | None \<Rightarrow> (case truthy (sd_deployBranch s) of Some b \<Rightarrow> b | None \<Rightarrow> ''main''))"

definition trigger_operation :: "trigger_input \<Rightarrow> string \<Rightarrow> begin_input" where
  "trigger_operation inp branch =
     \<lparr>bi_idempotencyKey = tg_key inp, bi_type = ''DOMAIN_DEPLOY'', bi_siteId = Some (tg_siteId inp),
      bi_siteDomainId = Some (tg_domainId inp), bi_databaseId = None, bi_globalLockKey = None, bi_lockSite = Some False,
      bi_parentOperationId = None, bi_userId = tg_userId inp, bi_request = JObj [(''branch'', JStr branch)],
      bi_queued = None\<rparr>"

definition no_log :: exn where
  "no_log = BadRequest ''Deploy operation exists without a deploy log; retry with a new idempotency key''"

text \<open>A replay answers with the deploy that the operation made.\<close>

definition replayed_log :: "string \<Rightarrow> db \<Rightarrow> exn + deploy_row" where
  "replayed_log operationId d =
     (case find_first (\<lambda>l. dl_operationId l = Some operationId) (db_deploys d) of None \<Rightarrow> Inl no_log | Some l \<Rightarrow> Inr l)"

section \<open>The checks and the row\<close>

definition ready_status :: "domain_row \<Rightarrow> bool" where
  "ready_status s = (sd_appStatus s \<in> set [''RUNNING'', ''ERROR''])"

definition trigger_checks :: "domain_row \<Rightarrow> db \<Rightarrow> exn option" where
  "trigger_checks s d =
     (if truthy (sd_gitRepository s) = None
      then Some (BadRequest ''Domain application has no git repository configured'')
      else if \<not> ready_status s then Some (BadRequest (''Domain application is busy ('' @ sd_appStatus s @ '')''))
      else if list_ex (\<lambda>l. dl_siteDomainId l = sd_id s \<and> dl_status l \<in> set [''PENDING'', ''IN_PROGRESS'']) (db_deploys d)
      then Some (BadRequest ''A deploy is already in progress for this domain'') else None)"

definition new_log :: "trigger_input \<Rightarrow> string \<Rightarrow> string \<Rightarrow> string \<Rightarrow> time \<Rightarrow> deploy_row" where
  "new_log inp logId operationId branch now =
     \<lparr>dl_id = logId, dl_siteId = tg_siteId inp, dl_siteDomainId = tg_domainId inp, dl_operationId = Some operationId,
      dl_branch = branch, dl_triggeredBy = Some (tg_userId inp), dl_output = [], dl_status = ''PENDING'', dl_commitSha = None,
      dl_commitMessage = None, dl_durationMs = None, dl_startedAt = now, dl_completedAt = None\<rparr>"

definition trigger_tx :: "trigger_input \<Rightarrow> deploy_row \<Rightarrow> db \<Rightarrow> (deploy_row, db) outcome" where
  "trigger_tx inp l d =
     (let P = (\<lambda>s. sd_id s = tg_domainId inp \<and> sd_siteId s = tg_siteId inp \<and> ready_status s) in
      if count_rows P (db_domains d) \<noteq> 1 then (Inl (BadRequest ''Domain application is busy''), d)
      else if dl_id l \<in> dl_id ` set (db_deploys d) \<or> dl_operationId l \<in> dl_operationId ` set (db_deploys d)
      then (Inl (DbFault unique_violation), d)
      else (Inr l, d\<lparr>db_domains := update_rows P (\<lambda>s. s\<lparr>sd_appStatus := ''DEPLOYING'', sd_appErrorMessage := None\<rparr>) (db_domains d),
                     db_deploys := db_deploys d @ [l]\<rparr>))"

section \<open>The parts after the operation was begun\<close>

text \<open>The \<open>try\<close> block: an error, or the row; and the command if it was sent.\<close>

definition trigger_body ::
  "(domain_row \<Rightarrow> exn option) \<Rightarrow> trigger_input \<Rightarrow> string \<Rightarrow> string \<Rightarrow> string \<Rightarrow> time \<Rightarrow> db_error option \<Rightarrow> db
     \<Rightarrow> (exn + deploy_row) \<times> deploy_command option \<times> db"
where
  "trigger_body root inp logId operationId branch now fault d =
     (case trigger_context root inp d of
        Inl e \<Rightarrow> (Inl e, None, d)
      | Inr s \<Rightarrow>
     (case trigger_checks s d of
        Some e \<Rightarrow> (Inl e, None, d)
      | None \<Rightarrow>
     (case transaction fault (trigger_tx inp (new_log inp logId operationId branch now)) d of
        (Inl e, d') \<Rightarrow> (Inl e, None, d')
      | (Inr l, d') \<Rightarrow>
         (let c = \<lparr>dc_deployId = dl_id l, dc_operationId = operationId, dc_domainId = tg_domainId inp, dc_branch = branch\<rparr> in
          case step operationId ''await-agent'' 10 d' of
            (Inl e, d'') \<Rightarrow> (Inl e, Some c, d'') | (Inr _, d'') \<Rightarrow> (Inr l, Some c, d'')))))"

text \<open>The \<open>catch\<close> block; \<open>fault\<close> is an error of its last transaction, which is ignored.\<close>

definition trigger_failed :: "op_env \<Rightarrow> trigger_input \<Rightarrow> string \<Rightarrow> exn \<Rightarrow> time \<Rightarrow> db_error option \<Rightarrow> db \<Rightarrow> db" where
  "trigger_failed env inp operationId e now fault d =
     (let message = safe_message env (exn_message e);
          d1 = d\<lparr>db_deploys := update_rows (\<lambda>l. dl_operationId l = Some operationId)
                   (\<lambda>l. l\<lparr>dl_status := ''FAILED'', dl_output := ''Deploy trigger failed: '' @ message, dl_completedAt := Some now\<rparr>)
                   (db_deploys d),
                 db_domains := update_rows (\<lambda>s. sd_id s = tg_domainId inp \<and> sd_appStatus s = ''DEPLOYING'')
                   (\<lambda>s. s\<lparr>sd_appStatus := ''ERROR'', sd_appErrorMessage := Some message\<rparr>) (db_domains d)\<rparr>
      in snd (fail env operationId (exn_message e) now fault d1))"

text \<open>
  The whole call without interruption. The result is the error or the row of the deploy, the
  command that was sent, and the state; \<open>u1\<close>, \<open>u2\<close> and \<open>logId\<close> are the random identifiers.
\<close>

definition triggerDeploy ::
  "op_env \<Rightarrow> (domain_row \<Rightarrow> exn option) \<Rightarrow> bool \<Rightarrow> trigger_input \<Rightarrow> string \<Rightarrow> string \<Rightarrow> string \<Rightarrow> time
     \<Rightarrow> db_error option \<Rightarrow> db_error option \<Rightarrow> db_error option \<Rightarrow> db \<Rightarrow> (exn + deploy_row) \<times> deploy_command option \<times> db"
where
  "triggerDeploy env root maintenance inp u1 u2 logId now fault1 fault2 fault3 d =
     (case trigger_context root inp d of
        Inl e \<Rightarrow> (Inl e, None, d)
      | Inr s \<Rightarrow>
     (let branch = requested_branch inp s in
      case begin_operation env maintenance (trigger_operation inp branch) u1 u2 now fault1 d d of
        (Inl e, d1) \<Rightarrow> (Inl e, None, d1)
      | (Inr ticket, d1) \<Rightarrow>
          if tk_replayed ticket then (replayed_log (tk_id ticket) d1, None, d1)
          else (case start (tk_id ticket) ''validate'' now d1 of
            (Inl e, d2) \<Rightarrow> (Inl e, None, d2)
          | (Inr _, d2) \<Rightarrow>
             (case trigger_body root inp logId (tk_id ticket) branch now fault2 d2 of
                (Inr l, c, d3) \<Rightarrow> (Inr l, c, d3)
              | (Inl e, c, d3) \<Rightarrow> (Inl e, c, trigger_failed env inp (tk_id ticket) e now fault3 d3)))))"

section \<open>What a key stands for\<close>

text \<open>The operation of a key, and whether it has a deploy.\<close>

definition key_operation :: "string \<Rightarrow> db \<Rightarrow> op_row option" where
  "key_operation k d = find_key op_idempotencyKey k (db_ops d)"

definition log_of :: "string \<Rightarrow> db \<Rightarrow> deploy_row option" where
  "log_of operationId d = find_first (\<lambda>l. dl_operationId l = Some operationId) (db_deploys d)"

end
