(* ===== verification/Webhook_Target.thy ===== *)
theory Webhook_Target
  imports Webhook_Worker Deploy_Trigger Json_Parse
begin

text \<open>
  The delivery of a webhook at the panel of the site,
  \<open>api/src/webhooks/webhook-target-delivery.service.ts\<close>: the check of the binding, the receipt
  that makes a repeated delivery safe, and the deploy it starts.
\<close>

section \<open>Receipts\<close>

datatype receipt_state = R_PROCESSING | R_DELIVERED | R_FAILED

record receipt =
  rp_id :: string
  rp_issuer :: string
  rp_deliveryId :: string
  rp_routeId :: string
  rp_requestHash :: string
  rp_state :: receipt_state
  rp_deployId :: "string option"
  rp_result :: "string option"
  rp_lastErrorCode :: "string option"
  rp_completedAt :: "time option"

record target_db =
  tb_db :: db
  tb_receipts :: "receipt list"

definition receipt_key :: "receipt \<Rightarrow> string \<times> string" where
  "receipt_key r = (rp_issuer r, rp_deliveryId r)"

definition find_receipt :: "string \<Rightarrow> string \<Rightarrow> target_db \<Rightarrow> receipt option" where
  "find_receipt issuer u t = find_key receipt_key (issuer, u) (tb_receipts t)"

definition update_receipts :: "(receipt \<Rightarrow> bool) \<Rightarrow> (receipt \<Rightarrow> receipt) \<Rightarrow> target_db \<Rightarrow> target_db" where
  "update_receipts P f t = t\<lparr>tb_receipts := update_rows P f (tb_receipts t)\<rparr>"

section \<open>The binding\<close>

definition decodeBody :: "webhook_env \<Rightarrow> json \<Rightarrow> exn + bytes" where
  "decodeBody env delivery =
     (let encoded = text_field delivery ''rawBodyBase64'' in
      case assertFederatedWebhookRawLength encoded of
        Some m \<Rightarrow> Inl (Plain m)
      | None \<Rightarrow>
         (let body = base64url_decode encoded in
          if base64url body \<noteq> encoded \<or> sha_hex env body \<noteq> text_field delivery ''rawBodySha256''
          then Inl (Conflict ''Webhook body binding mismatch'') else Inr body))"

text \<open>The branch is the group of the pattern of a push reference.\<close>

definition parsePush :: "webhook_env \<Rightarrow> bytes \<Rightarrow> exn + string" where
  "parsePush env body =
     (case we_parse env body of
        None \<Rightarrow> Inl (Conflict ''Webhook body is not valid JSON UTF-8'')
      | Some v \<Rightarrow>
         (case (if isContractRecord v then field v ''ref'' else JNull) of
            JStr ref \<Rightarrow> if rx_test PUSH_REF ref then Inr (drop 11 ref) else Inl push_ref_invalid
          | _ \<Rightarrow> Inl push_ref_invalid))"

definition target_check :: "webhook_env \<Rightarrow> string \<Rightarrow> json \<Rightarrow> exn + bytes" where
  "target_check env issuer delivery =
     (case validateFederatedWebhookDelivery delivery of
        Some m \<Rightarrow> Inl (Plain m)
      | None \<Rightarrow>
          if field delivery ''targetInstallationId'' \<noteq> JStr (we_installationId env) \<or>
             (we_role env \<noteq> ''TARGET'' \<and> \<not> (we_role env = ''MASTER'' \<and> issuer = we_installationId env))
          then Inl (Conflict ''Webhook target binding mismatch'') else decodeBody env delivery)"

definition delivery_hash :: "webhook_env \<Rightarrow> json \<Rightarrow> string" where
  "delivery_hash env delivery = sha_hex env (utf8_bytes (stable_json delivery))"

section \<open>The receipt\<close>

definition result_object :: "string \<Rightarrow> string \<Rightarrow> json \<Rightarrow> bool \<Rightarrow> json" where
  "result_object u status deployId duplicate = JObj
     [(''schemaVersion'', JNum 1), (''deliveryId'', JStr u), (''status'', JStr status), (''deployId'', deployId),
      (''duplicate'', JBool duplicate)]"

definition new_receipt :: "string \<Rightarrow> string \<Rightarrow> json \<Rightarrow> string \<Rightarrow> receipt" where
  "new_receipt rid issuer delivery hash =
     \<lparr>rp_id = rid, rp_issuer = issuer, rp_deliveryId = text_field delivery ''deliveryId'',
      rp_routeId = text_field delivery ''routeId'', rp_requestHash = hash, rp_state = R_PROCESSING, rp_deployId = None,
      rp_result = None, rp_lastErrorCode = None, rp_completedAt = None\<rparr>"

definition create_receipt :: "receipt \<Rightarrow> target_db \<Rightarrow> (unit, target_db) outcome" where
  "create_receipt r t =
     (if rp_id r \<in> rp_id ` set (tb_receipts t) \<or> receipt_key r \<in> receipt_key ` set (tb_receipts t)
      then (Inl (DbFault unique_violation), t) else (Inr (), t\<lparr>tb_receipts := tb_receipts t @ [r]\<rparr>))"

text \<open>
  The answer of an earlier delivery (\<open>Inl\<close>), or the receipt to work on; \<open>seen\<close> is the state at
  the first search.
\<close>

definition with_member :: "string \<Rightarrow> json \<Rightarrow> json \<Rightarrow> json" where
  "with_member k v obj = (case obj of JObj ms \<Rightarrow> JObj (set_member ms k v) | _ \<Rightarrow> obj)"

definition stored_answer :: "receipt \<Rightarrow> (exn + json) option" where
  "stored_answer r =
     (case (rp_state r, truthy (rp_result r)) of
        (R_DELIVERED, Some text) \<Rightarrow>
          (case json_parse text of
             None \<Rightarrow> Some (Inl (Plain ''Unexpected token in JSON''))
           | Some v \<Rightarrow>
              (case validateFederatedWebhookDeliveryResult v of
                 Some m \<Rightarrow> Some (Inl (Plain m)) | None \<Rightarrow> Some (Inr (with_member ''duplicate'' (JBool True) v))))
      | _ \<Rightarrow> None)"

definition different_request :: exn where
  "different_request = Conflict ''Webhook delivery ID is bound to a different request''"

definition take_receipt ::
  "webhook_env \<Rightarrow> string \<Rightarrow> json \<Rightarrow> string \<Rightarrow> target_db \<Rightarrow> target_db \<Rightarrow> ((exn + json) + receipt) \<times> target_db"
where
  "take_receipt env issuer delivery rid seen t =
     (let u = text_field delivery ''deliveryId''; hash = delivery_hash env delivery in
      case find_receipt issuer u seen of
        Some r \<Rightarrow>
          (if rp_requestHash r \<noteq> hash then (Inl (Inl different_request), t)
           else case stored_answer r of Some a \<Rightarrow> (Inl a, t) | None \<Rightarrow> (Inr r, t))
      | None \<Rightarrow>
         (case create_receipt (new_receipt rid issuer delivery hash) t of
            (Inr _, t') \<Rightarrow> (Inr (new_receipt rid issuer delivery hash), t')
          | (Inl _, t') \<Rightarrow>
             (case find_receipt issuer u t' of
                Some r \<Rightarrow> if rp_requestHash r \<noteq> hash then (Inl (Inl (Conflict ''Webhook receipt conflict'')), t') else (Inr r, t')
              | None \<Rightarrow> (Inl (Inl (Conflict ''Webhook receipt conflict'')), t'))))"

section \<open>The deploy\<close>

definition operation_key :: "webhook_env \<Rightarrow> string \<Rightarrow> string \<Rightarrow> string" where
  "operation_key env issuer u = ''webhook-'' @ sha_hex env (utf8_bytes (issuer @ [CHR 0x00] @ u))"

text \<open>The domain of the delivery, with the owner of its site.\<close>

definition target_domain :: "json \<Rightarrow> db \<Rightarrow> domain_row option" where
  "target_domain delivery d =
     (case find_first (\<lambda>s. sd_domain s = text_field delivery ''domain'') (db_domains d) of
        None \<Rightarrow> None
      | Some s \<Rightarrow>
          if sd_id s = text_field delivery ''domainId'' \<and> sd_siteId s = text_field delivery ''siteId'' then Some s else None)"

definition site_owner :: "db \<Rightarrow> string \<Rightarrow> string" where
  "site_owner d siteId = (case find_key st_id siteId (db_sites d) of Some s \<Rightarrow> st_userId s | None \<Rightarrow> [])"

definition webhook_trigger :: "webhook_env \<Rightarrow> string \<Rightarrow> json \<Rightarrow> domain_row \<Rightarrow> string \<Rightarrow> db \<Rightarrow> trigger_input" where
  "webhook_trigger env issuer delivery s branch d =
     \<lparr>tg_siteId = sd_siteId s, tg_domainId = sd_id s, tg_userId = site_owner d (sd_siteId s), tg_role = ''ADMIN'',
      tg_branch = Some branch, tg_key = Some (operation_key env issuer (text_field delivery ''deliveryId''))\<rparr>"

text \<open>\<open>trigger\<close> is \<open>triggerDeploy\<close> with the identifiers and faults of one call.\<close>

type_synonym trigger = "trigger_input \<Rightarrow> db \<Rightarrow> (exn + deploy_row) \<times> deploy_command option \<times> db"

definition run_delivery :: "webhook_env \<Rightarrow> string \<Rightarrow> json \<Rightarrow> bytes \<Rightarrow> receipt \<Rightarrow> trigger \<Rightarrow> db \<Rightarrow> (exn + json) \<times> deploy_command option \<times> db" where
  "run_delivery env issuer delivery body r trigger d =
     (let u = text_field delivery ''deliveryId''; duplicate = (rp_state r \<noteq> R_PROCESSING) in
      case target_domain delivery d of
        None \<Rightarrow> (Inl (NotFound ''Webhook target domain not found''), None, d)
      | Some s \<Rightarrow>
     (case parsePush env body of
        Inl e \<Rightarrow> (Inl e, None, d)
      | Inr branch \<Rightarrow>
          if branch \<noteq> (case truthy (sd_deployBranch s) of Some b \<Rightarrow> b | None \<Rightarrow> ''main'')
          then (Inr (result_object u ''IGNORED'' JNull duplicate), None, d)
          else (case trigger (webhook_trigger env issuer delivery s branch d) d of
            (Inl e, c, d') \<Rightarrow> (Inl e, c, d')
          | (Inr l, c, d') \<Rightarrow> (Inr (result_object u ''DELIVERED'' (JStr (dl_id l)) duplicate), c, d'))))"

definition receipt_delivered :: "json \<Rightarrow> time \<Rightarrow> receipt \<Rightarrow> receipt" where
  "receipt_delivered result now r =
     r\<lparr>rp_state := R_DELIVERED, rp_deployId := (case field result ''deployId'' of JStr s \<Rightarrow> Some s | _ \<Rightarrow> None),
       rp_result := Some (json_stringify (with_member ''duplicate'' (JBool False) result)), rp_lastErrorCode := None,
       rp_completedAt := Some now\<rparr>"

definition receipt_failed :: "receipt \<Rightarrow> receipt" where
  "receipt_failed r = r\<lparr>rp_state := R_FAILED, rp_lastErrorCode := Some ''TARGET_DEPLOY_FAILED''\<rparr>"

fun is_http :: "exn \<Rightarrow> bool" where
  "is_http (Plain _) = False"
| "is_http (DbFault _) = False"
| "is_http (NeedsAttention _) = False"
| "is_http (OperationFailed _) = False"
| "is_http OperationCancelled = False"
| "is_http _ = True"

definition finish_delivery :: "receipt \<Rightarrow> exn + json \<Rightarrow> time \<Rightarrow> target_db \<Rightarrow> (json, target_db) outcome" where
  "finish_delivery r res now t =
     (let failed = (\<lambda>e t. (Inl (if is_http e then e else Unavailable ''Webhook target delivery failed''),
            update_receipts (\<lambda>x. rp_id x = rp_id r \<and> rp_state x \<noteq> R_DELIVERED) receipt_failed t)) in
      case res of
        Inl e \<Rightarrow> failed e t
      | Inr result \<Rightarrow>
         (case validateFederatedWebhookDeliveryResult result of
            Some m \<Rightarrow> failed (Plain m) t
          | None \<Rightarrow>
              if rp_id r \<notin> rp_id ` set (tb_receipts t) then failed (DbFault not_found_fault) t
              else (Inr result, update_receipts (\<lambda>x. rp_id x = rp_id r) (receipt_delivered result now) t)))"

text \<open>The whole delivery without interruption, with the command that was sent.\<close>

definition deliver ::
  "webhook_env \<Rightarrow> string \<Rightarrow> json \<Rightarrow> string \<Rightarrow> trigger \<Rightarrow> time \<Rightarrow> target_db \<Rightarrow> (exn + json) \<times> deploy_command option \<times> target_db"
where
  "deliver env issuer delivery rid trigger now t =
     (case target_check env issuer delivery of
        Inl e \<Rightarrow> (Inl e, None, t)
      | Inr body \<Rightarrow>
     (case take_receipt env issuer delivery rid t t of
        (Inl a, t') \<Rightarrow> (a, None, t')
      | (Inr r, t') \<Rightarrow>
         (case run_delivery env issuer delivery body r trigger (tb_db t') of
            (res, c, d') \<Rightarrow>
             (case finish_delivery r res now (t'\<lparr>tb_db := d'\<rparr>) of (out, t'') \<Rightarrow> (out, c, t'')))))"

end
