(* ===== verification/Webhook_Theorems.thy ===== *)
theory Webhook_Theorems
  imports Webhook_Safety Webhook_Target Json_Parse
begin

text \<open>
  What the webhooks promise: the bytes that GitHub or Gitea signed are the bytes the panel of the
  site works on, a push is accepted once, the worker serves a target once at a time, and a
  delivery that keeps failing comes to its end.
\<close>

section \<open>The size of a payload\<close>

lemma esc_plain: "base64url_char c \<Longrightarrow> esc c = [c]"
  by (auto simp: esc_def Let_def base64url_char_def upper_def lower_def digit_char_def less_eq_char_def)

lemma quote_plain: "list_all base64url_char s \<Longrightarrow> length (quote s) = length s + 2"
proof -
  assume "list_all base64url_char s"
  then have "concat (map esc s) = s" by (induction s) (simp_all add: esc_plain)
  then show ?thesis by (simp add: quote_def)
qed

lemma length_utf8_bytes: "length (utf8_bytes s) \<le> 2 * length s"
  by (induction s) (simp_all add: utf8_bytes_def Let_def)

lemma hex_lower_any: "hex_lower c \<Longrightarrow> hex_any c"
proof -
  assume hex: "hex_lower c"
  then have "\<not> (CHR ''A'' \<le> c \<and> c \<le> CHR ''Z'')" by (auto simp: hex_lower_def digit_char_def less_eq_char_def)
  with hex show ?thesis unfolding hex_any_def to_lower_def by (simp only: if_False)
qed

lemma uuid_chars: "rx_test UUID u \<Longrightarrow> list_all (\<lambda>c. hex_any c \<or> c = CHR ''-'') u \<and> length u = 36"
proof -
  assume "rx_test UUID u"
  then obtain a b c v d w e where u: "u = a @ ''-'' @ b @ ''-'' @ [v] @ c @ ''-'' @ [w] @ d @ ''-'' @ e"
    and parts: "length a = 8" "list_all hex_lower a" "length b = 4" "list_all hex_lower b" "length c = 3" "list_all hex_lower c"
      "length d = 3" "list_all hex_lower d" "length e = 12" "list_all hex_lower e"
    and digits: "CHR ''1'' \<le> v" "v \<le> CHR ''8''" "w \<in> set ''89ab''"
    unfolding rx_test_iff UUID_def cats.simps lang.simps in_conc lang_lit
    by (auto simp: pow_Cls)
  have "hex_lower v" "hex_lower w"
    using digits by (auto simp: hex_lower_def digit_char_def less_eq_char_def)
  with parts show ?thesis unfolding u by (auto simp: list_all_iff hex_lower_any)
qed

lemma payload_name: "rx_test UUID u \<Longrightarrow> rx_test PAYLOAD_FILE (payload_file u)"
proof -
  assume "rx_test UUID u"
  then have "u \<in> lang (Rep 36 36 (Cls (\<lambda>c. hex_any c \<or> c = CHR ''-'')))"
    using uuid_chars [of u] rx_test_Rep_Cls [of 36 36] by (auto simp: rx_test_iff)
  moreover have "rx_test (Cat (lit ''.'') (cats (map (\<lambda>x. Cls (\<lambda>c. to_lower c = x)) ''payload''))) ''.payload''"
    by code_simp
  ultimately show ?thesis
    unfolding PAYLOAD_FILE_def payload_file_def rx_test_iff lang.simps(4) [of "Rep 36 36 _"] in_conc by blast
qed

lemma test_length: "rx_test UUID s \<Longrightarrow> length s = 36"
  using uuid_chars by blast

lemma sha_length: "rx_test SHA256_HEX s \<Longrightarrow> length s = 64"
  by (simp add: SHA256_HEX_def rx_test_Rep_Cls)

text \<open>Every text of a delivery but its body is short.\<close>

definition small_text :: "string \<Rightarrow> bool" where "small_text s \<longleftrightarrow> length s \<le> 253"

lemma length_join: "length (join_with c ss) \<le> sum_list (map (\<lambda>s. length s + 1) ss)"
  by (induction c ss rule: join_with.induct) auto

lemma length_member: "length (quote k @ '':'' @ quote s) \<le> 6 * length k + 6 * length s + 5"
  using length_quote [of k] length_quote [of s] by simp

lemma object_fields:
  "field (webhook_object env q u now) ''deliveryId'' = JStr u"
  "field (webhook_object env q u now) ''routeId'' = JStr (wr_id (iq_route q))"
  "field (webhook_object env q u now) ''targetInstallationId'' = JStr (wr_target (iq_route q))"
  "field (webhook_object env q u now) ''siteId'' = JStr (wr_siteId (iq_route q))"
  "field (webhook_object env q u now) ''domainId'' = JStr (wr_domainId (iq_route q))"
  "field (webhook_object env q u now) ''domain'' = JStr (wr_domain (iq_route q))"
  "field (webhook_object env q u now) ''provider'' = JStr (provider_name (vd_provider (iq_delivery q)))"
  "field (webhook_object env q u now) ''providerDeliveryId'' = JStr (vd_providerDeliveryId (iq_delivery q))"
  "field (webhook_object env q u now) ''receivedAt'' = JStr (we_iso env now)"
  "field (webhook_object env q u now) ''rawBodyBase64'' = JStr (base64url (iq_body q))"
  "field (webhook_object env q u now) ''rawBodySha256'' = JStr (iq_sha q)"
  "field (webhook_object env q u now) ''providerSignature'' = JStr (vd_signature (iq_delivery q))"
  by (simp_all add: webhook_object_def Let_def)

text \<open>The checks of the members, one by one.\<close>

lemma valid_webhook:
  assumes "validateFederatedWebhookDelivery v = None"
  shows "\<exists>s. field v ''deliveryId'' = JStr s \<and> rx_test UUID s" "\<exists>s. field v ''routeId'' = JStr s \<and> rx_test UUID s"
    "\<exists>s. field v ''targetInstallationId'' = JStr s \<and> rx_test UUID s" "\<exists>s. field v ''siteId'' = JStr s \<and> rx_test UUID s"
    "\<exists>s. field v ''domainId'' = JStr s \<and> rx_test UUID s" "\<exists>s. field v ''domain'' = JStr s \<and> length s \<le> 253"
    "\<exists>s. field v ''providerDeliveryId'' = JStr s \<and> length s \<le> 128" "\<exists>s. field v ''receivedAt'' = JStr s \<and> length s \<le> 64"
    "\<exists>s. field v ''rawBodyBase64'' = JStr s \<and> length s \<le> FEDERATED_WEBHOOK_MAX_ENCODED_BYTES"
    "\<exists>s. field v ''rawBodySha256'' = JStr s \<and> rx_test SHA256_HEX s"
    "\<exists>s. field v ''providerSignature'' = JStr s \<and> length s \<le> 71"
  using assms
  by (simp_all add: validateFederatedWebhookDelivery_def requireString_None requireIsoDate_None split: if_splits) blast+

lemma webhook_object_texts:
  assumes "validateFederatedWebhookDelivery (webhook_object env q u now) = None"
  shows "rx_test UUID u"
    "list_all small_text [u, wr_id (iq_route q), wr_target (iq_route q), wr_siteId (iq_route q), wr_domainId (iq_route q),
       wr_domain (iq_route q), provider_name (vd_provider (iq_delivery q)), vd_providerDeliveryId (iq_delivery q),
       we_iso env now, iq_sha q, vd_signature (iq_delivery q)]"
    "length (base64url (iq_body q)) \<le> 87382"
proof -
  note valid = valid_webhook [OF assms, unfolded object_fields json.inject ex_simps simp_thms]
  have name: "length (provider_name p) \<le> 6" for p by (cases p) simp_all
  show "list_all small_text [u, wr_id (iq_route q), wr_target (iq_route q), wr_siteId (iq_route q), wr_domainId (iq_route q),
       wr_domain (iq_route q), provider_name (vd_provider (iq_delivery q)), vd_providerDeliveryId (iq_delivery q),
       we_iso env now, iq_sha q, vd_signature (iq_delivery q)]"
    using valid(6-8,11) test_length [OF valid(1)] test_length [OF valid(2)] test_length [OF valid(3)]
      test_length [OF valid(4)] test_length [OF valid(5)] sha_length [OF valid(10)] name [of "vd_provider (iq_delivery q)"]
    by (simp add: small_text_def)
  show "rx_test UUID u" "length (base64url (iq_body q)) \<le> 87382"
    using valid by (simp_all add: FEDERATED_WEBHOOK_MAX_ENCODED_BYTES_def FEDERATED_WEBHOOK_MAX_RAW_BYTES_def)
qed

lemma object_size:
  assumes "validateFederatedWebhookDelivery (webhook_object env q u now) = None"
  shows "length (json_stringify (webhook_object env q u now)) \<le> 110000"
proof -
  let ?small = "[(''deliveryId'', u), (''routeId'', wr_id (iq_route q)), (''targetInstallationId'', wr_target (iq_route q)),
    (''siteId'', wr_siteId (iq_route q)), (''domainId'', wr_domainId (iq_route q)), (''domain'', wr_domain (iq_route q)),
    (''provider'', provider_name (vd_provider (iq_delivery q))), (''providerDeliveryId'', vd_providerDeliveryId (iq_delivery q)),
    (''receivedAt'', we_iso env now), (''rawBodySha256'', iq_sha q), (''providerSignature'', vd_signature (iq_delivery q))]"
  let ?body = "base64url (iq_body q)"
  note texts = webhook_object_texts [OF assms]
  have "list_all (\<lambda>(k, t). length k \<le> 20 \<and> length t \<le> 253) ?small" using texts(2) by (simp add: small_text_def)
  then have member: "list_all (\<lambda>(k, t). length (quote k) + length (quote t) \<le> 1700) ?small"
    by (rule list.pred_mono_strong) (use length_member in \<open>fastforce intro: order_trans\<close>)
  have body: "length (quote ?body) \<le> 87384" using texts(3) quote_plain [OF base64url_chars] by simp
  have fixed: "length (quote ''schemaVersion'' @ '':'' @ show_int 1) \<le> 200" "length (quote ''event'' @ '':'' @ quote ''push'') \<le> 200"
    "length (quote ''rawBodyBase64'') \<le> 200"
    by code_simp+
  have sum: "length (join_with (CHR '','') ss) \<le> sum_list (map (\<lambda>s. length s + 1) ss)" for ss by (rule length_join)
  show ?thesis
    using member sum [of "map (\<lambda>(key, v). quote key @ '':'' @ json_stringify v)
       (filter (\<lambda>(key, v). v \<noteq> JUndefined) (case webhook_object env q u now of JObj ms \<Rightarrow> ms | _ \<Rightarrow> []))"] body fixed
    by (simp add: webhook_object_def Let_def)
qed

section \<open>What the worker reads\<close>

text \<open>
  The cipher of the spool, AES in Galois mode over the text of the value: it opens what it sealed,
  and adds five bytes of a mark, twelve of a vector and sixteen of a tag.
\<close>

definition spool_cipher :: "webhook_env \<Rightarrow> bool" where
  "spool_cipher env \<longleftrightarrow> (\<forall>aad v. plain v \<longrightarrow> we_open env aad (we_seal env aad v) = Some v \<and>
     length (we_seal env aad v) \<le> length (utf8_bytes (json_stringify v)) + 33)"

lemma webhook_object_plain: "plain (webhook_object env q u now)"
  by (simp add: webhook_object_def Let_def)

lemma sealed_read:
  assumes cipher: "spool_cipher env" and there: "ws_queue d (payload_file (wd_id w)) = Some b" and seal: "sealed_for env d w b"
  shows "\<exists>v. spool_read env w d = Inr v \<and> payload_ok env d (wd_id w) (wd_routeId w) (wd_bodySha256 w) v"
proof -
  from seal obtain v where b: "b = encryptWebhookSpool env v" and ok: "payload_ok env d (wd_id w) (wd_routeId w) (wd_bodySha256 w) v"
    by (auto simp: sealed_for_def)
  from ok obtain q now where v: "v = webhook_object env q (wd_id w) now" and valid: "validateFederatedWebhookDelivery v = None"
    by (auto simp: payload_ok_def object_fields)
  have plain: "plain v" unfolding v by (rule webhook_object_plain)
  then have "length b \<le> length (utf8_bytes (json_stringify v)) + 33" using cipher by (simp add: b encryptWebhookSpool_def spool_cipher_def)
  moreover have "length (json_stringify v) \<le> 110000" using object_size valid by (simp add: v)
  ultimately have "length b \<le> 262144" using length_utf8_bytes [of "json_stringify v"] by simp
  moreover have "decryptWebhookSpool env (wd_id w) (wd_routeId w) (wd_bodySha256 w) b = Inr v"
    using cipher ok plain by (simp add: b decryptWebhookSpool_def encryptWebhookSpool_def spool_cipher_def payload_ok_def text_field_def)
  moreover have "rx_test PAYLOAD_FILE (payload_file (wd_id w))"
    using webhook_object_texts(1) valid v by (intro payload_name) blast
  ultimately have "spool_read env w d = Inr v" using there valid by (simp add: spool_read_def resolve_file_def)
  with ok show ?thesis by blast
qed


text \<open>C25: However claims, crashes, retries and redrives follow each other, the worker never has more deliveries in hand
  than its concurrency, and never two for the same target.\<close>

theorem one_delivery_per_target:
  assumes "wreachable env y"
  shows "length (wy_flights y) \<le> webhook_concurrency env \<and> distinct (map (\<lambda>f. wr_target (cl_route (wf_claim f))) (wy_flights y))"
  using wreachable_ok [OF assms] by (simp add: wsys_ok_def wflights_ok_def wf_target_def [abs_def])

section \<open>A push is accepted once\<close>

definition deliveries_stay :: "wdb \<Rightarrow> wdb \<Rightarrow> bool" where
  "deliveries_stay d d' \<longleftrightarrow> (\<forall>w \<in> set (ws_deliveries d). \<exists>w' \<in> set (ws_deliveries d'). delivery_kept w w')"

lemma stay_same: "ws_deliveries d' = ws_deliveries d \<Longrightarrow> deliveries_stay d d'"
  unfolding deliveries_stay_def using delivery_kept_refl by metis

lemma kept_trans: "delivery_kept a b \<Longrightarrow> delivery_kept b c \<Longrightarrow> delivery_kept a c"
  by (simp add: delivery_kept_def)

lemma stay_trans: "deliveries_stay a b \<Longrightarrow> deliveries_stay b c \<Longrightarrow> deliveries_stay a c"
  unfolding deliveries_stay_def using kept_trans by meson

lemma stay_update: "(\<And>w. delivery_kept w (f w)) \<Longrightarrow> deliveries_stay d (update_deliveries P f d)"
proof -
  assume kept: "\<And>w. delivery_kept w (f w)"
  have kept: "delivery_kept w (if P w then f w else w)" for w using kept by simp
  have rows: "set (ws_deliveries (update_deliveries P f d)) = (\<lambda>w. if P w then f w else w) ` set (ws_deliveries d)"
    by (simp add: update_deliveries_def set_update_rows)
  show ?thesis unfolding deliveries_stay_def rows using kept by blast
qed

lemma stay_append: "deliveries_stay d (d\<lparr>ws_deliveries := ws_deliveries d @ [w]\<rparr>)"
  unfolding deliveries_stay_def using delivery_kept_refl by fastforce

lemma routes_only_stay: "routes_only d d' \<Longrightarrow> deliveries_stay d d'"
  by (auto simp: routes_only_def intro: stay_same)

lemma failure_stay: "record_failure owner c code force now d = (dead, d') \<Longrightarrow> deliveries_stay d d'"
  by (auto simp: record_failure_def Let_def split: if_splits intro!: stay_update)

lemma delivered_stay: "record_delivered owner c result requestId now d = (recorded, d') \<Longrightarrow> deliveries_stay d d'"
  by (auto simp: record_delivered_def Let_def intro!: stay_update)

lemma admit_stay: "ingress_admit env q u path now fault later d = (r, d') \<Longrightarrow> deliveries_stay d d'"
  by (erule admit_cases) (auto intro: stay_same stay_append simp: remove_queue_def)

lemma claim_stay: "keys_unique d \<Longrightarrow> claimNextDelivery owner targets now seen d = (Some c, d') \<Longrightarrow> deliveries_stay d d'"
proof -
  assume keys: "keys_unique d" and "claimNextDelivery owner targets now seen d = (Some c, d')"
  then have "claim_first owner targets now (candidates now seen) d = (Some c, d')" by (simp add: claimNextDelivery_def)
  from claim_first_Some [OF keys this] obtain x :: claimed where "claim_delivery owner now (wd_id (cl_delivery x)) d = (Some c, d')"
    by blast
  with keys claim_delivery_Some obtain P where "d' = update_deliveries P (delivering_write owner now) d"
    unfolding keys_unique_def by blast
  then show ?thesis by (simp add: stay_update)
qed

lemma redrive_stay: "redrive u now d = (r, d') \<Longrightarrow> deliveries_stay d d'"
proof -
  assume run: "redrive u now d = (r, d')"
  have move: "ws_deliveries (snd (moveToQueue u d)) = ws_deliveries d"
    by (simp add: moveToQueue_def Let_def split: option.split)
  have "deliveries_stay (snd (moveToQueue u d)) (update_deliveries P (redriven_write now) (snd (moveToQueue u d)))" for P
    by (rule stay_update) simp
  then show ?thesis
    using run stay_same [OF move] stay_trans
    by (auto simp: redrive_def redrive_write_def Let_def intro: stay_same split: option.splits prod.splits sum.splits)
qed

lemma wstep_stay:
  assumes "wstep env y y'" "wsys_ok env y"
  shows "deliveries_stay (wy_db y) (wy_db y')"
  using assms
proof (cases rule: wstep.cases)
  case (wt_spool q u now disk v path d')
  from spool_write_Inr(1) [OF wt_spool(5)] have "ws_deliveries d' = ws_deliveries (wy_db y)" by auto
  then show ?thesis using wt_spool(1) by (simp add: stay_same)
next
  case (wt_claim seen now c d')
  then show ?thesis using claim_stay assms(2) by (auto simp: wsys_ok_def)
next
  case (wt_move fs f gs)
  then show ?thesis by (auto simp: moveToDlq_def Let_def intro!: stay_same split: option.split)
qed (use keyed_routes [OF assms(2)] in \<open>auto simp: remove_queue_def cleanupPartialFiles_def intro: stay_same admit_stay
   failure_stay delivered_stay redrive_stay routes_only_stay create_route_only rotate_only revoke_only\<close>)

lemma run_stay:
  assumes "(wstep env)\<^sup>*\<^sup>* y z" "wreachable env y"
  shows "deliveries_stay (wy_db y) (wy_db z)"
  using assms
proof (induction rule: rtranclp_induct)
  case (step b c)
  have "wsys_ok env b" using wreachable_ok wreachable_run [OF step(1,4)] by blast
  then show ?case using step wstep_stay stay_trans by blast
qed (simp add: stay_same)

lemma found_provider:
  assumes "keys_unique d" "w \<in> set (ws_deliveries d)" "provider_key w = request_key q"
  shows "find_provider q d = Some w"
proof -
  have "keyed provider_key (ws_deliveries d)" using assms(1) by (simp add: keys_unique_def)
  from find_key_unique [OF this assms(2)] assms(3) show ?thesis by (simp add: find_provider_def find_key_def)
qed

lemma admit_new:
  assumes "ingress_admit env q u path now fault later d = (Inr (Accepted v False), d')"
  shows "v = u \<and> new_delivery q u path now \<in> set (ws_deliveries d')"
proof -
  have "transaction fault (admit_tx env q u path now) d = (Inr None, d') \<and> v = u"
    using assms by (auto simp: ingress_admit_def replay_of_def split: prod.splits sum.splits option.splits if_splits)
  then show ?thesis
    by (auto simp: transaction_ok admit_tx_def create_delivery_def split: option.splits if_splits)
qed

text \<open>C24: Once a push has been admitted, every later request of the same route with the same provider identifier finds
  it, whatever happened to the delivery since: with the same bytes the answer is the first delivery, as a replay, and
  with other bytes it is refused. The first search gives this answer, and so does the transaction after it when the
  first search was made too early; neither adds a delivery.\<close>

theorem push_is_accepted_once:
  assumes "wreachable env y" "wy_pending y = ps @ p # qs"
    and admit: "ingress_admit env (wp_request p) (wp_id p) (wp_path p) (wp_time p) fault later (wy_db y) = (Inr (Accepted u False), d')"
    and later: "(wstep env)\<^sup>*\<^sup>* (y\<lparr>wy_db := d', wy_pending := ps @ qs\<rparr>) z"
    and q: "request_key q = request_key (wp_request p)" "vd_event (iq_delivery q) = ''push''"
  shows "ingress_lookup env q (wy_db z) =
       (if iq_sha q = iq_sha (wp_request p) then Inr (Some (Accepted u True)) else Inl other_bytes) \<and>
     ingress_admit env q v path now None later' (wy_db z) =
       (if iq_sha q = iq_sha (wp_request p) then Inr (Accepted u True) else Inl other_bytes, remove_queue v (wy_db z))"
proof -
  let ?y = "y\<lparr>wy_db := d', wy_pending := ps @ qs\<rparr>" and ?w = "new_delivery (wp_request p) (wp_id p) (wp_path p) (wp_time p)"
  have reach: "wreachable env ?y" by (rule w_step [OF assms(1) wt_admit [OF assms(2) admit]])
  have row: "?w \<in> set (ws_deliveries d')" "u = wp_id p" using admit_new [OF admit] by simp_all
  obtain w where w: "w \<in> set (ws_deliveries (wy_db z))" "delivery_kept ?w w"
    using run_stay [OF later reach] row by (auto simp: deliveries_stay_def)
  have "provider_key w = request_key q" using w(2) q(1) by (simp add: delivery_kept_def provider_key_def [of w] provider_key_def [of ?w, symmetric]
      request_key_def new_delivery_def)
  moreover have "keys_unique (wy_db z)"
    using wreachable_ok [OF wreachable_run [OF later reach]] by (simp add: wsys_ok_def)
  ultimately have found: "find_provider q (wy_db z) = Some w" using w(1) by (intro found_provider)
  have "wd_id w = u" "wd_bodySha256 w = iq_sha (wp_request p)" "wd_event w = ''push''"
    using w(2) row by (simp_all add: delivery_kept_def)
  with found q(2) show ?thesis
    by (auto simp: ingress_lookup_def ingress_admit_def transaction_def admit_tx_def replay_of_def isSameProviderDelivery_def)
qed

section \<open>From the provider to the panel of the site\<close>

lemma push_ref: "rx_test PUSH_REF ref \<Longrightarrow> \<exists>branch. ref = ''refs/heads/'' @ branch \<and> drop 11 ref = branch"
  unfolding PUSH_REF_def rx_test_iff lang.simps in_conc lang_lit by auto

text \<open>C23: A push that the master accepted is one the panel of the site can work on: from the message that the master
  stores and sends, that panel gets back exactly the bytes of the request, whose hash it checks, and the branch it reads
  in them is the one of the reference that the master checked. Hypotheses: both panels compute the same hash and parse
  JSON alike, and the message went to the panel of the route.\<close>

theorem accepted_payload_is_deliverable:
  assumes verify: "ingress_verify env token rawHeaders body d = Inr (Some q)"
    and valid: "validateFederatedWebhookDelivery (webhook_object env q u now) = None"
    and panel: "we_hash tenv = we_hash env" "we_parse tenv = we_parse env" "we_installationId tenv = wr_target (iq_route q)"
      "we_role tenv = ''TARGET''"
  shows "target_check tenv issuer (webhook_object env q u now) = Inr body \<and>
     (\<exists>branch. field (vd_payload (iq_delivery q)) ''ref'' = JStr (''refs/heads/'' @ branch) \<and> parsePush tenv body = Inr branch)"
proof
  note request = verified_request [OF verify]
  from request(6) obtain p secret where v: "verifyWebhookProviderDelivery (we_hmac env) (we_parse env) p secret rawHeaders body = Inr (iq_delivery q)"
    by blast
  note body = verified_delivery [OF v]
  have sha: "iq_sha q = sha_hex env body" "iq_body q = body" using request(1,5) by (auto simp: request_ok_def)
  have "raw_bytes (length (base64url body)) = length body" by (rule raw_bytes_base64url)
  then have "assertFederatedWebhookRawLength (base64url body) = None"
    using body(2,3) by (cases body) (auto simp: assertFederatedWebhookRawLength_def requireInteger_None FEDERATED_WEBHOOK_MAX_RAW_BYTES_def
        max_safe_integer_def)
  then have "decodeBody tenv (webhook_object env q u now) = Inr body"
    using sha panel(1) by (simp add: decodeBody_def text_field_def object_fields base64_round_trip sha_hex_def)
  with valid panel show "target_check tenv issuer (webhook_object env q u now) = Inr body"
    by (simp add: target_check_def object_fields)
  from request(7) obtain ref where ref: "field (vd_payload (iq_delivery q)) ''ref'' = JStr ref" "rx_test PUSH_REF ref" by blast
  from push_ref [OF ref(2)] obtain branch where branch: "ref = ''refs/heads/'' @ branch" "drop 11 ref = branch" by blast
  have "parsePush tenv body = Inr branch" using body(7,8) ref branch(2) panel(2) by (simp add: parsePush_def)
  with ref(1) branch(1) show "\<exists>branch. field (vd_payload (iq_delivery q)) ''ref'' = JStr (''refs/heads/'' @ branch) \<and> parsePush tenv body = Inr branch"
    by blast
qed

end
