(* ===== verification/Webhook_Faults.thy ===== *)
theory Webhook_Faults
  imports Webhook_Theorems
begin

text \<open>
  The deliveries that fail: how many attempts they get and when, what a crash of the worker does
  to the count, and what a redrive can do to a delivery whose execution is not over.
\<close>

section \<open>Attempts\<close>

text \<open>One attempt whose target answers with an error, or whose payload cannot be read.\<close>

definition failing_round :: "webhook_env \<Rightarrow> string \<Rightarrow> (exn \<Rightarrow> string) \<Rightarrow> exn \<Rightarrow> string \<Rightarrow> time \<Rightarrow> wdb \<Rightarrow> wdb" where
  "failing_round env owner code_of e u now d =
     (case claim_delivery owner now u d of
        (None, d') \<Rightarrow> d'
      | (Some c, d') \<Rightarrow> execute_delivery env owner code_of (\<lambda>_. Inl e) now c d')"

text \<open>An attempt that a crash of the worker cuts off after the claim.\<close>

definition crashed_round :: "string \<Rightarrow> string \<Rightarrow> time \<Rightarrow> wdb \<Rightarrow> wdb" where
  "crashed_round owner u now d = snd (claim_delivery owner now u d)"

text \<open>Times at which each attempt finds the delivery due again, from the attempt after the \<open>n\<close>-th on.\<close>

fun due_times :: "int \<Rightarrow> time \<Rightarrow> time list \<Rightarrow> bool" where
  "due_times n from [] = True"
| "due_times n from (t # ts) = (from \<le> t \<and> due_times (n + 1) (t + retry_delay (n + 1)) ts)"

lemma claim_hit:
  assumes "keys_unique d" "find_delivery u d = Some w" "deliverable now w"
  shows "\<exists>c. claim_delivery owner now u d =
      (Some c, update_deliveries (\<lambda>w. wd_id w = u \<and> deliverable now w) (delivering_write owner now) d) \<and>
    cl_delivery c = delivering_write owner now w \<and> find_route (wd_routeId w) d = Some (cl_route c)"
proof -
  obtain o_c d' where run: "claim_delivery owner now u d = (o_c, d')" by fastforce
  have keyed: "keyed wd_id (ws_deliveries d)" using assms(1) by (simp add: keys_unique_def)
  have hit: "count_rows (\<lambda>w. wd_id w = u \<and> deliverable now w) (ws_deliveries d) = 1"
    using deliveries.guard_hit [OF keyed] assms(2,3) by blast
  have "o_c \<noteq> None"
  proof
    assume none: "o_c = None"
    then have "d' = d" using claim_delivery_unchanged [OF assms(1)] run by blast
    moreover have "d' = update_deliveries (\<lambda>w. wd_id w = u \<and> deliverable now w) (delivering_write owner now) d"
      using run hit by (simp add: claim_delivery_def Let_def)
    moreover have "wd_id w = u" using assms(2) by (rule deliveries.look_key)
    ultimately have "find_delivery u d = Some (delivering_write owner now w)"
      using update_find [of "delivering_write owner now" u "\<lambda>w. wd_id w = u \<and> deliverable now w" d] assms(2,3) by simp
    then have "wd_attempt w = wd_attempt w + 1" using assms(2) by (metis delivering_write_def option.inject wdelivery.select_convs(8)
        wdelivery.surjective wdelivery.update_convs(7,8,11,12,13))
    then show False by simp
  qed
  then obtain c where "o_c = Some c" by blast
  with run claim_delivery_Some [OF keyed, of owner now u c d'] assms(2) show ?thesis by auto
qed

lemma owned_count:
  assumes "keys_unique d" "find_delivery u d = Some w" "owned_delivery owner u w"
  shows "count_rows (owned_delivery owner u) (ws_deliveries d) = 1"
proof -
  let ?P = "\<lambda>w. wd_state w = W_DELIVERING \<and> wd_leaseOwner w = Some owner"
  have eq: "owned_delivery owner u = (\<lambda>w. wd_id w = u \<and> ?P w)" by (auto simp: owned_delivery_def)
  have "keyed wd_id (ws_deliveries d)" using assms(1) by (simp add: keys_unique_def)
  from deliveries.guard_hit [OF this, of u ?P] assms(2,3) show ?thesis unfolding eq by blast
qed

lemma failing_execution:
  "active_route (cl_route c) \<Longrightarrow>
     \<exists>code. execute_delivery env owner code_of (\<lambda>_. Inl e) now c d = execute_failed owner c code False now d"
  by (auto simp: execute_delivery_def execute_read_def split: sum.split)

text \<open>The row after a failed attempt, and everything else as it was.\<close>

lemma move_rows [simp]:
  "ws_deliveries (snd (moveToDlq u d)) = ws_deliveries d" "ws_routes (snd (moveToDlq u d)) = ws_routes d"
  by (simp_all add: moveToDlq_def Let_def split: option.split)

lemma failed_row:
  assumes keys: "keys_unique d" and w: "find_delivery u d = Some w" "owned_delivery owner u w"
    and c: "cl_delivery c = w" and run: "d' = execute_failed owner c code False now d"
  shows "find_delivery u d' = Some (if wd_attempt w \<ge> wd_maxAttempts w then dead_write code now w
      else retry_write code (now + retry_delay (wd_attempt w)) w) \<and> keys_unique d' \<and> ws_routes d' = ws_routes d"
proof -
  have id: "wd_id w = u" using w(1) by (rule deliveries.look_key)
  note hit = owned_count [OF keys w]
  show ?thesis
  proof (cases "wd_attempt w \<ge> wd_maxAttempts w")
    case True
    let ?d = "update_deliveries (owned_delivery owner u) (dead_write code now) d"
    have d': "d' = snd (moveToDlq u ?d)"
      using True run hit id c by (simp add: execute_failed_def record_failure_def Let_def)
    have "keys_unique d'" using update_keys [OF keys, of "dead_write code now" "owned_delivery owner u"]
      by (simp add: keys_unique_def d')
    moreover have "find_delivery u d' = find_delivery u ?d" by (simp add: d' find_delivery_def)
    moreover have "find_delivery u ?d = Some (dead_write code now w)" using w by (simp add: update_find)
    moreover have "ws_routes d' = ws_routes d" by (simp add: d' update_deliveries_def)
    ultimately show ?thesis using True by simp
  next
    case False
    let ?f = "retry_write code (now + retry_delay (wd_attempt w))"
    have d': "d' = update_deliveries (owned_delivery owner u) ?f d"
      using False run id c by (simp add: execute_failed_def record_failure_def Let_def)
    have "keys_unique d'" unfolding d' using keys by (rule update_keys) simp
    moreover have "find_delivery u d' = Some (?f w)" using w by (simp add: d' update_find)
    moreover have "ws_routes d' = ws_routes d" by (simp add: d' update_deliveries_def)
    ultimately show ?thesis using False by simp
  qed
qed

lemma round_row:
  assumes keys: "keys_unique d" and w: "find_delivery u d = Some w" "deliverable now w"
    and r: "find_route (wd_routeId w) d = Some r" "active_route r"
    and run: "d' = failing_round env owner code_of e u now d"
  shows "\<exists>code. find_delivery u d' = Some (if wd_attempt w + 1 \<ge> wd_maxAttempts w
        then dead_write code now (delivering_write owner now w)
        else retry_write code (now + retry_delay (wd_attempt w + 1)) (delivering_write owner now w)) \<and>
     keys_unique d' \<and> ws_routes d' = ws_routes d"
proof -
  let ?P = "\<lambda>w. wd_id w = u \<and> deliverable now w" and ?w = "delivering_write owner now w"
  let ?d = "update_deliveries ?P (delivering_write owner now) d"
  from claim_hit [OF keys w] obtain c where c: "claim_delivery owner now u d = (Some c, ?d)" "cl_delivery c = ?w" "cl_route c = r"
    using r(1) by auto
  have id: "wd_id w = u" using w(1) by (rule deliveries.look_key)
  have d: "keys_unique ?d" "find_delivery u ?d = Some ?w"
    using update_keys [OF keys, of "delivering_write owner now"] update_find [of "delivering_write owner now" u ?P d] w id by simp_all
  have own: "owned_delivery owner u ?w" using id by (simp add: owned_delivery_def delivering_write_def)
  from failing_execution [of c env owner code_of e now ?d] c r(2) obtain code where
    d': "d' = execute_failed owner c code False now ?d" using run by (auto simp: failing_round_def)
  have same: "wd_attempt ?w = wd_attempt w + 1" "wd_maxAttempts ?w = wd_maxAttempts w" "ws_routes ?d = ws_routes d"
    by (simp_all add: delivering_write_def update_deliveries_def)
  from failed_row [OF d own c(2) d'] same show ?thesis by auto
qed

text \<open>C27: A delivery that keeps failing gets exactly its attempts: after each of them but the last it waits for the
  next, and with the last one it is dead. \<open>due_times\<close> lists times at which it is due again, at least the delay of each
  attempt apart. Hypothesis: its route stays active; a revoked route ends the delivery at once.\<close>

theorem failing_delivery_ends_in_dlq:
  assumes "keys_unique d" "find_delivery u d = Some w" "wd_state w \<in> {W_ACCEPTED, W_RETRY_WAIT}"
    and "find_route (wd_routeId w) d = Some r" "active_route r"
    and "due_times (wd_attempt w) (wd_availableAt w) ts" "ts \<noteq> []" "wd_attempt w + int (length ts) \<le> wd_maxAttempts w"
  shows "\<exists>w'. find_delivery u (fold (failing_round env owner code_of e u) ts d) = Some w' \<and>
     wd_attempt w' = wd_attempt w + int (length ts) \<and>
     wd_state w' = (if wd_attempt w + int (length ts) < wd_maxAttempts w then W_RETRY_WAIT else W_DLQ)"
  using assms
proof (induction ts arbitrary: d w)
  case (Cons t ts)
  let ?d = "failing_round env owner code_of e u t d" and ?w = "delivering_write owner t w"
  have "deliverable t w" using Cons.prems(3,6) by (auto simp: deliverable_def)
  from round_row [OF Cons.prems(1,2) this Cons.prems(4,5) refl] obtain code where row:
    "find_delivery u ?d = Some (if wd_attempt w + 1 \<ge> wd_maxAttempts w then dead_write code t ?w
        else retry_write code (t + retry_delay (wd_attempt w + 1)) ?w)" "keys_unique ?d" "ws_routes ?d = ws_routes d"
    by blast
  show ?case
  proof (cases ts)
    case Nil
    with row(1) Cons.prems(8) show ?thesis by (auto simp: dead_write_def retry_write_def delivering_write_def)
  next
    case (Cons t' ts')
    let ?v = "retry_write code (t + retry_delay (wd_attempt w + 1)) ?w"
    have v: "find_delivery u ?d = Some ?v" using row(1) Cons.prems(8) Cons by simp
    have sel: "wd_state ?v = W_RETRY_WAIT" "wd_attempt ?v = wd_attempt w + 1" "wd_maxAttempts ?v = wd_maxAttempts w"
      "wd_availableAt ?v = t + retry_delay (wd_attempt w + 1)" "wd_routeId ?v = wd_routeId w"
      by (simp_all add: retry_write_def delivering_write_def)
    have route: "find_route (wd_routeId ?v) ?d = Some r" using Cons.prems(4) row(3) by (simp add: sel find_route_def)
    have due: "due_times (wd_attempt ?v) (wd_availableAt ?v) ts" using Cons.prems(6) by (simp add: sel)
    have left: "wd_attempt ?v + int (length ts) \<le> wd_maxAttempts ?v" using Cons.prems(8) by (simp add: sel)
    have "wd_state ?v \<in> {W_ACCEPTED, W_RETRY_WAIT}" "ts \<noteq> []" using Cons by (simp_all add: sel)
    from Cons.IH [OF row(2) v this(1) route Cons.prems(5) due this(2) left, unfolded sel]
    show ?thesis by (simp add: add_ac)
  qed
qed simp

section \<open>Crashes\<close>

text \<open>A crash of the worker costs an attempt but is never checked against the limit: after any number of claims
  that a crash cut off, each at least a lease after the one before, the delivery has that many attempts more and is due
  again once the last lease has run out. The limit is only read where a failure is recorded.\<close>

theorem crashes_never_exhaust_a_delivery:
  assumes "keys_unique d" "find_delivery u d = Some w" "wd_state w = W_ACCEPTED" "wd_availableAt w \<le> t"
  shows "\<exists>w'. find_delivery u (fold (crashed_round owner u) (map (\<lambda>i. t + int i * WEBHOOK_LEASE_MS) [0..<n]) d) = Some w' \<and>
     wd_attempt w' = wd_attempt w + int n \<and> deliverable (t + int n * WEBHOOK_LEASE_MS) w'"
proof -
  have "\<exists>w'. keys_unique (fold (crashed_round owner u) (map (\<lambda>i. t + int i * WEBHOOK_LEASE_MS) [0..<n]) d) \<and>
     find_delivery u (fold (crashed_round owner u) (map (\<lambda>i. t + int i * WEBHOOK_LEASE_MS) [0..<n]) d) = Some w' \<and>
     wd_attempt w' = wd_attempt w + int n \<and> deliverable (t + int n * WEBHOOK_LEASE_MS) w'"
  proof (induction n)
    case 0
    then show ?case using assms by (simp add: deliverable_def)
  next
    case (Suc n)
    let ?t = "t + int n * WEBHOOK_LEASE_MS" and ?P = "\<lambda>w. wd_id w = u \<and> deliverable (t + int n * WEBHOOK_LEASE_MS) w"
    let ?d = "fold (crashed_round owner u) (map (\<lambda>i. t + int i * WEBHOOK_LEASE_MS) [0..<n]) d"
    from Suc obtain v where v: "keys_unique ?d" "find_delivery u ?d = Some v" "wd_attempt v = wd_attempt w + int n" "deliverable ?t v"
      by blast
    from claim_hit [OF v(1,2,4), of owner] have d': "crashed_round owner u ?t ?d = update_deliveries ?P (delivering_write owner ?t) ?d"
      by (auto simp: crashed_round_def)
    have id: "wd_id v = u" using v(2) by (rule deliveries.look_key)
    have "keys_unique (update_deliveries ?P (delivering_write owner ?t) ?d)" using v(1) by (rule update_keys) simp
    moreover have "find_delivery u (update_deliveries ?P (delivering_write owner ?t) ?d) = Some (delivering_write owner ?t v)"
      using v id update_find [of "delivering_write owner ?t" u ?P ?d] by simp
    moreover have "wd_attempt (delivering_write owner ?t v) = wd_attempt w + int (Suc n)"
      "deliverable (t + int (Suc n) * WEBHOOK_LEASE_MS) (delivering_write owner ?t v)"
      using v(3) by (simp_all add: delivering_write_def deliverable_def algebra_simps)
    ultimately show ?case by (simp add: d')
  qed
  then show ?thesis by blast
qed

section \<open>A redrive before the payload was moved\<close>

text \<open>C29: A dead delivery is recorded before its payload is moved. When an administrator redrives it in between, the
  redrive finds the payload still in the queue and succeeds, and the move that follows takes it away: the delivery
  waits to be delivered while its payload is only among the dead ones, and every attempt to read it fails.\<close>

theorem redrive_race_strands_payload:
  assumes keys: "keys_unique d" and payload: "ws_queue d (payload_file u) = Some b" "ws_dlq d (payload_file u) = None"
    and u: "wd_id (cl_delivery c) = u" "rx_test PAYLOAD_FILE (payload_file u)"
    and dead: "record_failure owner c code force now d = (True, d1)"
    and redriven: "redrive u t d1 = (Inr (), d2)"
    and moved: "d3 = snd (moveToDlq u d2)"
  shows "\<exists>w. find_delivery u d3 = Some w \<and> wd_state w = W_ACCEPTED \<and> waiting w \<and> spool_read env w d3 = Inl (Plain ''ENOENT'') \<and>
     ws_dlq d3 (payload_file u) = Some b"
proof -
  from dead u have d1: "d1 = update_deliveries (owned_delivery owner u) (dead_write code now) d"
    "count_rows (owned_delivery owner u) (ws_deliveries d) = 1"
    by (auto simp: record_failure_def Let_def split: if_splits)
  from owned_hit [OF keys d1(2)] obtain w where w: "find_delivery u d = Some w" "owned_delivery owner u w" by blast
  let ?v = "dead_write code now w"
  have v: "find_delivery u d1 = Some ?v" using w by (simp add: d1 update_find)
  have spool: "ws_queue d1 = ws_queue d" "ws_dlq d1 = ws_dlq d" by (simp_all add: d1 update_deliveries_def)
  have "moveToQueue u d1 = (Inr (), d1)" using payload by (simp add: moveToQueue_def Let_def spool)
  then have d2: "d2 = update_deliveries (\<lambda>w. wd_id w = u \<and> wd_state w = W_DLQ) (redriven_write t) d1"
    using redriven by (auto simp: redrive_def redrive_write_def Let_def split: option.splits if_splits)
  have "wd_id w = u" using w(1) by (rule deliveries.look_key)
  then have found: "find_delivery u d2 = Some (redriven_write t ?v)" using v by (simp add: d2 update_find) (simp add: dead_write_def)
  have files: "ws_queue d2 = ws_queue d" by (simp add: d2 update_deliveries_def spool)
  have d3: "find_delivery u d3 = find_delivery u d2" "ws_queue d3 (payload_file u) = None" "ws_dlq d3 (payload_file u) = Some b"
    using moved payload by (simp_all add: moveToDlq_def Let_def files find_delivery_def)
  have id: "wd_id (redriven_write t ?v) = u" using found by (rule deliveries.look_key)
  with u(2) d3 found show ?thesis
    by (auto simp: spool_read_def resolve_file_def waiting_def) (simp_all add: redriven_write_def)
qed

end
