(* ===== verification/Webhook_Deploy.thy ===== *)
theory Webhook_Deploy
  imports Webhook_Target
begin

text \<open>
  A webhook starts a deploy through an operation whose key is made of the delivery. The operation
  is what makes a repeated delivery safe: after it has begun, every call with its key gets the
  deploy of the first one. It is also what makes a failed one final.
\<close>

section \<open>The operation of a key\<close>

definition key_valid :: "string \<Rightarrow> bool" where
  "key_valid k \<longleftrightarrow> k \<noteq> [] \<and> js_trim k = k \<and> rx_test IDEMPOTENCY_KEY k"

lemma operation_key_valid:
  assumes "\<And>bs. length (we_hash env bs) = 32"
  shows "key_valid (operation_key env issuer u)"
proof -
  let ?h = "sha_hex env (utf8_bytes (issuer @ [CHR 0x00] @ u))"
  have "rx_test SHA256_HEX ?h" using sha256_hex_shape [of "we_hash env b" for b] assms by (simp add: sha_hex_def)
  then have h: "length ?h = 64" "list_all hex_lower ?h" by (simp_all add: SHA256_HEX_def rx_test_Rep_Cls)
  have safe: "hex_lower c \<Longrightarrow> safe_id_char c" for c
    by (auto simp: hex_lower_def safe_id_char_def digit_char_def lower_def less_eq_char_def)
  have "list_all safe_id_char ''webhook-''" by code_simp
  then have chars: "list_all safe_id_char (operation_key env issuer u)" "length (operation_key env issuer u) = 72"
    using h safe by (auto simp: operation_key_def list_all_iff)
  have no_space: "safe_id_char c \<Longrightarrow> \<not> js_space c" for c
    by (auto simp: safe_id_char_def js_space_def upper_def lower_def digit_char_def less_eq_char_def)
  have trim: "list_all safe_id_char s \<Longrightarrow> dropWhile js_space s = s" for s
    by (cases s) (simp_all add: no_space)
  have "js_trim (operation_key env issuer u) = operation_key env issuer u"
    using chars(1) trim by (simp add: js_trim_def list_all_rev)
  with chars show ?thesis by (auto simp: key_valid_def IDEMPOTENCY_KEY_def rx_test_Rep_Cls)
qed

definition made_for :: "op_env \<Rightarrow> trigger_input \<Rightarrow> string \<Rightarrow> op_row \<Rightarrow> bool" where
  "made_for env inp branch r \<longleftrightarrow> op_type r = ''DOMAIN_DEPLOY'' \<and> op_createdByUserId r = tg_userId inp \<and>
     op_requestHash r = request_hash env (trigger_operation inp branch) None"

lemma trigger_keys:
  assumes "tg_key inp = Some k" "key_valid k"
  shows "begin_key u1 (trigger_operation inp branch) = k" "begin_lock_key (trigger_operation inp branch) = None"
    "begin_invalid False (trigger_operation inp branch) k now = None"
  using assms by (auto simp: begin_key_def begin_lock_key_def trigger_operation_def key_valid_def begin_invalid_def truthy_def split: list.splits)

text \<open>A call with the key of an operation that was made for it gets the deploy of that operation, and changes nothing.\<close>

lemma replay_decides:
  assumes "tg_key inp = Some k" "key_valid k" "key_operation k z = Some r"
    and "trigger_context root inp z = Inr s" "made_for env inp (requested_branch inp s) r"
  shows "triggerDeploy env root False inp u1 u2 logId now f1 f2 f3 z = (replayed_log (op_id r) z, None, z)"
proof -
  let ?op = "trigger_operation inp (requested_branch inp s)"
  have "assertReplay r ?op (request_hash env ?op None) = None"
    using assms(5) by (simp add: assertReplay_def made_for_def trigger_operation_def)
  then have "begin_operation env False ?op u1 u2 now f1 z z = (Inr (replay_ticket r), z)"
    using assms(3) trigger_keys [OF assms(1,2)] by (simp add: begin_operation_def Let_def key_operation_def)
  then show ?thesis using assms(4) by (simp add: triggerDeploy_def Let_def replay_ticket_def)
qed

lemma begun_row:
  assumes key: "tg_key inp = Some k" "key_valid k" "key_operation k d = None"
    and begun: "begin_operation env False (trigger_operation inp branch) u1 u2 now fault d d = (Inr ticket, d1)"
  shows "tk_id ticket = u2" "\<not> tk_replayed ticket" "db_domains d1 = db_domains d" "db_deploys d1 = db_deploys d" "db_sites d1 = db_sites d"
    "\<exists>r \<in> set (db_ops d1). op_id r = u2 \<and> op_idempotencyKey r = k \<and> made_for env inp branch r \<and> op_status r = PENDING"
proof -
  let ?op = "trigger_operation inp branch"
  obtain res x where tx: "transaction fault (begin_tx env ?op k u2 now) d = (res, x)" by fastforce
  have "\<exists>v. res = Inr v"
  proof (cases res)
    case (Inl e)
    with tx have "x = d" using transaction_error [of fault "begin_tx env ?op k u2 now" d e] by simp
    with begun tx Inl key(3) trigger_keys [OF key(1,2)] show ?thesis
      by (auto simp: begin_operation_def Let_def key_operation_def begin_failed_def split: if_splits)
  qed simp
  then obtain v where v: "res = Inr v" by blast
  with tx have ok: "begin_tx env ?op k u2 now d = (Inr v, x)" by (simp add: transaction_ok)
  note new = begin_tx_ok [OF ok]
  have x: "x = d1" and t: "tk_id ticket = op_id v" "\<not> tk_replayed ticket"
    using begun tx v key(3) trigger_keys [OF key(1,2)]
    by (auto simp: begin_operation_def Let_def key_operation_def split: if_splits)
  from new(5) have rows: "db_ops x = db_ops d @ [v]" "db_domains x = db_domains d" "db_deploys x = db_deploys d" "db_sites x = db_sites d"
    by (auto simp: create_operation_def new(1) [symmetric] split: if_splits option.splits)
  have "op_requestHash v = request_hash env ?op None"
    unfolding new(1) by (simp add: new_operation_def trigger_keys [OF key(1,2)])
  then have made: "op_id v = u2" "op_idempotencyKey v = k" "made_for env inp branch v"
    unfolding made_for_def by (simp_all add: new(1) new_operation_def) (simp_all add: trigger_operation_def)
  have pending: "op_status v = PENDING" by (simp add: new(1) new_operation_def) (simp add: trigger_operation_def)
  show "tk_id ticket = u2" "\<not> tk_replayed ticket" using t made(1) by simp_all
  show "db_domains d1 = db_domains d" "db_deploys d1 = db_deploys d" "db_sites d1 = db_sites d" using rows x by simp_all
  show "\<exists>r \<in> set (db_ops d1). op_id r = u2 \<and> op_idempotencyKey r = k \<and> made_for env inp branch r \<and> op_status r = PENDING"
    using rows(1) x made pending by auto
qed

section \<open>A call is a run of the ledger\<close>

lemma run_one: "op_step env now d d' \<Longrightarrow> run env now d now d'"
  by (rule run_step [OF run_here])

lemma run_trans: "run env t d t' d' \<Longrightarrow> run env now x t d \<Longrightarrow> run env now x t' d'"
  by (induction rule: run.induct) (auto intro: run_wait run_step)

lemma trigger_body_run: "run env now d now (snd (snd (trigger_body root inp logId k branch now fault d)))"
proof -
  let ?tx = "trigger_tx inp (new_log inp logId k branch now)"
  obtain res x where tx: "transaction fault ?tx d = (res, x)" by fastforce
  have "db_ops (snd (transaction fault ?tx d)) = db_ops d \<and> db_locks (snd (transaction fault ?tx d)) = db_locks d"
    by (rule transaction_keeps [where I = "\<lambda>x. db_ops x = db_ops d \<and> db_locks x = db_locks d"])
       (auto simp: trigger_tx_def Let_def split: if_splits)
  with tx have x: "run env now d now x" by (intro run_one other_tables) simp_all
  have await: "run env now d now (snd (step k ''await-agent'' 10 x))"
    by (rule run_trans [OF run_one [OF progress_step] x])
  show ?thesis
  proof (cases "trigger_context root inp d")
    case (Inr s)
    show ?thesis
    proof (cases "trigger_checks s d")
      case None
      obtain res2 x2 where "step k ''await-agent'' 10 x = (res2, x2)" by fastforce
      with x await tx Inr None show ?thesis by (cases res; cases res2) (simp_all add: trigger_body_def Let_def)
    qed (use Inr in \<open>simp add: trigger_body_def run_here\<close>)
  qed (simp add: trigger_body_def run_here)
qed

lemma trigger_failed_run: "run env now d now (trigger_failed env inp k e now fault d)"
  unfolding trigger_failed_def Let_def by (rule run_step [OF run_one [OF other_tables] fail_step]) simp_all

lemma trigger_run:
  assumes "trigger_context root inp d = Inr s"
    "begin_operation env m (trigger_operation inp (requested_branch inp s)) u1 u2 now f1 d d = (Inr ticket, d1)"
  shows "run env now d1 now (snd (snd (triggerDeploy env root m inp u1 u2 logId now f1 f2 f3 d)))"
proof -
  let ?branch = "requested_branch inp s"
  obtain res2 d2 where started: "start (tk_id ticket) ''validate'' now d1 = (res2, d2)" by fastforce
  have r2: "run env now d1 now d2" using run_one [OF start_step] started by (metis snd_conv)
  obtain res3 c d3 where body: "trigger_body root inp logId (tk_id ticket) ?branch now f2 d2 = (res3, c, d3)" by (metis prod_cases3)
  have r3: "run env now d1 now d3" using run_trans [OF trigger_body_run r2] body by (metis snd_conv)
  have "run env now d1 now (trigger_failed env inp (tk_id ticket) e now f3 d3)" for e by (rule run_trans [OF trigger_failed_run r3])
  with r2 r3 assms started body run_here [of env now d1] show ?thesis
    by (simp add: triggerDeploy_def Let_def split: sum.split)
qed

text \<open>Along a run the operation of a key stays the operation of the key.\<close>

lemma key_kept:
  assumes "run env now d t z" "reachable env now d" "r \<in> set (db_ops d)" "op_idempotencyKey r = k" "made_for env inp branch r"
  shows "\<exists>r'. key_operation k z = Some r' \<and> op_id r' = op_id r \<and> made_for env inp branch r'"
proof -
  from run_row [OF assms(1-3)] obtain r' where r': "r' \<in> set (db_ops z)" "immutable_same r r'" by blast
  have "sys_inv t z" by (rule reachable_inv, rule run_reachable' [OF assms(1,2)])
  then have "keyed op_idempotencyKey (db_ops z)" by (simp add: sys_inv_def keys_ok_def)
  from find_key_unique [OF this r'(1)] r'(2) assms(4,5) show ?thesis
    by (simp add: key_operation_def immutable_same_def made_for_def)
qed

section \<open>Once begun, decided\<close>

text \<open>After a call that began its operation, every call with its key gets the deploy of that operation.\<close>

lemma later_call:
  assumes reach: "reachable env now d" and key: "tg_key inp = Some k" "key_valid k" "key_operation k d = None"
    and begun: "trigger_context root inp d = Inr s"
      "begin_operation env False (trigger_operation inp (requested_branch inp s)) u1 u2 now f1 d d = (Inr ticket, d1)"
    and later: "run env now (snd (snd (triggerDeploy env root False inp u1 u2 logId now f1 f2 f3 d))) t z"
    and again: "trigger_context root inp z = Inr s'" "requested_branch inp s' = requested_branch inp s"
  shows "triggerDeploy env root False inp v1 v2 logId' t' g1 g2 g3 z = (replayed_log u2 z, None, z)"
proof -
  have reach1: "reachable env now d1" using run_reachable' [OF run_one [OF begin_step] reach] begun(2) by (metis snd_conv)
  have run: "run env now d1 t z" by (rule run_trans [OF later trigger_run [OF begun]])
  from begun_row(6) [OF key begun(2)] obtain r where
    r: "r \<in> set (db_ops d1)" "op_id r = u2" "op_idempotencyKey r = k" "made_for env inp (requested_branch inp s) r" by blast
  from key_kept [OF run reach1 r(1,3,4)] r(2) obtain r' where
    r': "key_operation k z = Some r'" "op_id r' = u2" "made_for env inp (requested_branch inp s') r'" unfolding again(2) by blast
  from replay_decides [OF key(1,2) r'(1) again(1) r'(3)] r'(2) show ?thesis by simp
qed

lemma trigger_success:
  assumes "triggerDeploy env root m inp u1 u2 logId now f1 f2 f3 d = (Inr l, c, d')" "trigger_context root inp d = Inr s"
    and key: "tg_key inp = Some k" "key_valid k" "key_operation k d = None" "m = False"
  shows "\<exists>ticket d1. begin_operation env False (trigger_operation inp (requested_branch inp s)) u1 u2 now f1 d d = (Inr ticket, d1)"
    "dl_operationId l = Some u2"
proof -
  obtain res d1 where begun: "begin_operation env False (trigger_operation inp (requested_branch inp s)) u1 u2 now f1 d d = (res, d1)"
    by fastforce
  with assms(1,2) key(4) obtain ticket where t: "res = Inr ticket" by (cases res) (auto simp: triggerDeploy_def Let_def)
  with begun show "\<exists>ticket d1. begin_operation env False (trigger_operation inp (requested_branch inp s)) u1 u2 now f1 d d = (Inr ticket, d1)"
    by blast
  note row = begun_row [OF key(1-3) begun [unfolded t]]
  obtain res2 d2 where started: "start (tk_id ticket) ''validate'' now d1 = (res2, d2)" by fastforce
  obtain res3 c3 d3 where body: "trigger_body root inp logId u2 (requested_branch inp s) now f2 d2 = (res3, c3, d3)" by (metis prod_cases3)
  have l: "res3 = Inr l" using assms(1,2) key(4) begun t row(1,2) started body
    by (auto simp: triggerDeploy_def Let_def split: sum.splits)
  obtain res4 x where tx: "transaction f2 (trigger_tx inp (new_log inp logId u2 (requested_branch inp s) now)) d2 = (res4, x)" by fastforce
  have "res4 = Inr l" using body l tx by (auto simp: trigger_body_def Let_def split: sum.splits option.splits prod.splits)
  with tx have "trigger_tx inp (new_log inp logId u2 (requested_branch inp s) now) d2 = (Inr l, x)" by (simp add: transaction_ok)
  then show "dl_operationId l = Some u2" by (auto simp: trigger_tx_def Let_def new_log_def split: if_splits)
qed

text \<open>C26: A deploy that was started once under a key is not started again: whatever happened in the ledger since, a
  second call with the key returns the deploy of the first, sends the agent no command and writes nothing. Hypotheses:
  the row of the deploy is still there, and the domain is found and means the same branch.\<close>

theorem deploy_happens_once:
  assumes "reachable env now d" "tg_key inp = Some k" "key_valid k" "key_operation k d = None"
    and first: "triggerDeploy env root False inp u1 u2 logId now f1 f2 f3 d = (Inr l, c, d')"
    and later: "run env now d' t z"
    and kept: "log_of (the (dl_operationId l)) z = Some l'" "dl_id l' = dl_id l"
    and branch: "trigger_context root inp d = Inr s" "trigger_context root inp z = Inr s'"
      "requested_branch inp s' = requested_branch inp s"
  shows "triggerDeploy env root False inp v1 v2 logId' t' g1 g2 g3 z = (Inr l', None, z)"
proof -
  note success = trigger_success [OF first branch(1) assms(2-4) refl]
  from success(1) obtain ticket d1 where begun:
    "begin_operation env False (trigger_operation inp (requested_branch inp s)) u1 u2 now f1 d d = (Inr ticket, d1)" by blast
  have "run env now (snd (snd (triggerDeploy env root False inp u1 u2 logId now f1 f2 f3 d))) t z" using first later by simp
  from later_call [OF assms(1-4) branch(1) begun this branch(2,3)] kept(1) success(2) show ?thesis
    by (simp add: replayed_log_def log_of_def)
qed

section \<open>A failure before the deploy was recorded\<close>

lemma context_same:
  "db_domains d' = db_domains d \<Longrightarrow> db_sites d' = db_sites d \<Longrightarrow> trigger_context root inp d' = trigger_context root inp d"
  by (simp only: trigger_context_def requireOwnedSiteDomain_def)

lemma unfit_trigger:
  assumes reach: "reachable env now d" and key: "tg_key inp = Some k" "key_valid k" "key_operation k d = None"
    and begun: "trigger_context root inp d = Inr s"
      "begin_operation env False (trigger_operation inp (requested_branch inp s)) u1 u2 now f1 d d = (Inr ticket, d1)"
    and unfit: "trigger_checks s d = Some e"
  shows "\<exists>d'. triggerDeploy env root False inp u1 u2 logId now f1 f2 f3 d = (Inl e, None, d')"
proof -
  note row = begun_row [OF key begun(2)]
  have "reachable env now d1" using run_reachable' [OF run_one [OF begin_step] reach] begun(2) by (metis snd_conv)
  then have "keyed op_id (db_ops d1)" using reachable_inv by (auto simp: sys_inv_def keys_ok_def)
  moreover from row(6) obtain r where r: "r \<in> set (db_ops d1)" "op_id r = u2" "op_status r = PENDING" by blast
  ultimately have "count_rows (\<lambda>r. op_id r = u2 \<and> op_status r = PENDING) (db_ops d1) = 1"
    using find_key_unique [of op_id "db_ops d1" r] by (simp add: count_rows_key)
  then obtain d2 where started: "start u2 ''validate'' now d1 = (Inr (), d2)" "d2 = snd (start u2 ''validate'' now d1)"
    by (simp add: start_def guarded_update_def)
  have same: "db_domains d2 = db_domains d" "db_sites d2 = db_sites d" "db_deploys d2 = db_deploys d"
    using row(3-5) by (simp_all add: started(2) start_def guarded_update_def)
  have "trigger_checks s d2 = Some e" using unfit by (simp only: trigger_checks_def same)
  then have "trigger_body root inp logId u2 (requested_branch inp s) now f2 d2 = (Inl e, None, d2)"
    using begun(1) context_same [OF same(1,2)] by (simp add: trigger_body_def)
  with begun row(1,2) started(1) show ?thesis by (simp add: triggerDeploy_def Let_def)
qed

lemma webhook_branch:
  assumes "parsePush wenv body = Inr branch"
  shows "requested_branch (webhook_trigger wenv issuer delivery s branch d) s' = branch"
proof -
  have "branch \<noteq> []" using assms unfolding parsePush_def
    by (auto simp: PUSH_REF_def rx_test_iff in_conc lang_lit pow_Cls split: option.splits json.splits if_splits)
  then show ?thesis by (cases branch) (simp_all add: requested_branch_def webhook_trigger_def)
qed

text \<open>C28: A webhook that reaches a domain while its application cannot be deployed (it is stopped, say, or has no
  repository) is lost for good. The first delivery fails with the reason, after its operation has begun; every later
  delivery of the same webhook, also after a redrive and with an application that could be deployed now, finds the
  operation without a deploy and fails, because the key of the operation is made of the delivery alone. Hypotheses:
  nothing else writes a deploy for that operation, and the domain and the owner of its site are the same.\<close>

theorem failed_trigger_is_never_retried:
  assumes reach: "reachable env now d" and hash: "\<And>bs. length (we_hash wenv bs) = 32"
    and new: "key_operation (operation_key wenv issuer (text_field delivery ''deliveryId'')) d = None"
    and push: "parsePush wenv body = Inr branch"
    and first: "target_domain delivery d = Some s" "branch = (case truthy (sd_deployBranch s) of Some b \<Rightarrow> b | None \<Rightarrow> ''main'')"
      "trigger_context root (webhook_trigger wenv issuer delivery s branch d) d = Inr s"
      "begin_operation env False (trigger_operation (webhook_trigger wenv issuer delivery s branch d) branch) u1 u2 now f1 d d = (Inr ticket, d1)"
      "trigger_checks s d = Some e"
    and failed: "run_delivery wenv issuer delivery body r (\<lambda>inp. triggerDeploy env root False inp u1 u2 logId now f1 f2 f3) d = (res, c, d')"
    and later: "run env now d' t z" "log_of u2 z = None"
    and again: "target_domain delivery z = Some s'" "branch = (case truthy (sd_deployBranch s') of Some b \<Rightarrow> b | None \<Rightarrow> ''main'')"
      "webhook_trigger wenv issuer delivery s' branch z = webhook_trigger wenv issuer delivery s branch d"
      "trigger_context root (webhook_trigger wenv issuer delivery s branch d) z = Inr s'"
  shows "res = Inl e \<and> c = None \<and>
     run_delivery wenv issuer delivery body r' (\<lambda>inp. triggerDeploy env root False inp v1 v2 logId' t' g1 g2 g3) z = (Inl no_log, None, z)"
proof -
  let ?inp = "webhook_trigger wenv issuer delivery s branch d"
  let ?k = "operation_key wenv issuer (text_field delivery ''deliveryId'')"
  have key: "tg_key ?inp = Some ?k" "key_valid ?k" using operation_key_valid hash by (simp_all add: webhook_trigger_def)
  note branch = webhook_branch [OF push]
  have "begin_operation env False (trigger_operation ?inp (requested_branch ?inp s)) u1 u2 now f1 d d = (Inr ticket, d1)"
    using first(4) by (simp only: branch)
  note begun = first(3) this
  from unfit_trigger [OF reach key new begun first(5)] obtain x where
    x: "triggerDeploy env root False ?inp u1 u2 logId now f1 f2 f3 d = (Inl e, None, x)" by blast
  with failed first(1,2) push have out: "res = Inl e" "c = None" "d' = x" by (simp_all add: run_delivery_def Let_def)
  have "run env now (snd (snd (triggerDeploy env root False ?inp u1 u2 logId now f1 f2 f3 d))) t z" using later(1) out x by simp
  from later_call [OF reach key new begun this again(4)] later(2)
  have "triggerDeploy env root False ?inp v1 v2 logId' t' g1 g2 g3 z = (Inl no_log, None, z)"
    by (simp add: branch replayed_log_def log_of_def)
  with out again(1-3) push show ?thesis by (simp add: run_delivery_def Let_def)
qed

end
