(* ===== verification/Webhook_Examples.thy ===== *)
theory Webhook_Examples
  imports Webhook_Faults Webhook_Deploy
begin

text \<open>
  Concrete webhooks for the witnesses: a master whose digests are all zero bytes and whose cipher
  is the text itself, a route for a domain of the master, and one push that is verified, stored,
  admitted and claimed. The states are named by the operations that lead to them.
\<close>

definition HUB :: string where "HUB = ''11111111-1111-4111-8111-111111111111''"
definition ROUTE :: string where "ROUTE = ''22222222-2222-4222-8222-222222222222''"
definition SITE :: string where "SITE = ''33333333-3333-4333-8333-333333333333''"
definition DOM :: string where "DOM = ''44444444-4444-4444-8444-444444444444''"
definition PUSH :: string where "PUSH = ''55555555-5555-4555-8555-555555555555''"
definition PUSH_NONCE :: string where "PUSH_NONCE = ''66666666-6666-4666-8666-666666666666''"
definition ZERO32 :: bytes where "ZERO32 = replicate 32 0"
definition ZERO64 :: string where "ZERO64 = replicate 64 CHR ''0''"
definition SIG0 :: string where "SIG0 = ''sha256='' @ ZERO64"
definition TOKEN0 :: string where "TOKEN0 = replicate 43 CHR ''A''"
definition SECRET16 :: string where "SECRET16 = ''0123456789abcdef''"

definition char_byte :: "char \<Rightarrow> 8 word" where "char_byte c = of_nat (of_char c)"
definition byte_char :: "8 word \<Rightarrow> char" where "byte_char b = char_of (unat b)"

definition hub :: webhook_env where
  "hub = \<lparr>we_installationId = HUB, we_role = ''MASTER'', we_origin = Inr ''https://p.example'', we_hash = (\<lambda>_. ZERO32),
     we_mac = (\<lambda>_. ZERO32), we_hmac = (\<lambda>_ _. ZERO32), we_parse = (\<lambda>_. Some (JObj [(''ref'', JStr ''refs/heads/main'')])),
     we_seal_text = json_stringify, we_open_text = json_parse,
     we_seal = (\<lambda>_ v. map char_byte (json_stringify v)), we_open = (\<lambda>_ b. json_parse (map byte_char b)),
     we_iso = (\<lambda>_. ''2024-02-29T23:59:59.999Z''), we_parse_url = (\<lambda>_. Some (''https:'', [], [])), we_config = (\<lambda>_. None)\<rparr>"

lemma byte_char_byte: "byte_char (char_byte c) = c"
proof -
  have "of_char c < (256 :: nat)" by simp
  then have "unat (of_nat (of_char c) :: 8 word) = of_char c" by (simp add: unat_of_nat)
  then show ?thesis by (simp add: byte_char_def char_byte_def)
qed

lemma hub_cipher: "spool_cipher hub"
proof -
  have "length s \<le> length (utf8_bytes s)" for s by (induction s) (simp_all add: utf8_bytes_def Let_def)
  moreover have "map (byte_char \<circ> char_byte) s = s" for s by (simp add: comp_def byte_char_byte)
  ultimately show ?thesis by (simp add: spool_cipher_def hub_def parse_stringify le_Suc_eq trans_le_add1)
qed

definition hub_domain :: domain_row where
  "hub_domain = \<lparr>sd_id = DOM, sd_siteId = SITE, sd_isPrimary = True, sd_position = 0, sd_domain = ''a.example'',
     sd_deployBranch = None, sd_gitRepository = Some ''git@host:a'', sd_appStatus = ''STOPPED'', sd_appErrorMessage = None\<rparr>"

definition hub_input :: route_input where
  "hub_input = \<lparr>rt_serverId = ''main'', rt_siteId = SITE, rt_domainId = DOM, rt_domain = '' A.example'', rt_provider = GITHUB,
     rt_secret = SECRET16, rt_actorUserId = ''user-1''\<rparr>"

definition hub_route :: wroute where "hub_route = new_route hub ROUTE hub_input (None, HUB) TOKEN0"
definition no_webhooks :: wdb where "no_webhooks = wy_db initial_wsys"
definition hub1 :: wdb where "hub1 = no_webhooks\<lparr>ws_routes := [hub_route]\<rparr>"

definition hub_body :: bytes where "hub_body = [123, 125]"

definition hub_headers :: "string list" where
  "hub_headers = [''Content-Type'', ''application/json'', ''X-Hub-Signature-256'', SIG0,
     ''X-GitHub-Event'', ''push'', ''X-GitHub-Delivery'', ''d-1'']"

definition hub_request :: ingress_request where
  "hub_request = \<lparr>iq_route = hub_route, iq_delivery = \<lparr>vd_provider = GITHUB, vd_providerDeliveryId = ''d-1'', vd_event = ''push'',
       vd_signature = SIG0, vd_payload = JObj [(''ref'', JStr ''refs/heads/main'')]\<rparr>,
     iq_sha = ZERO64, iq_body = hub_body\<rparr>"

lemma hub_token: "deriveWebhookRouteToken hub ROUTE 1 = Inr TOKEN0"
  by code_simp

lemma hub_created: "snd (create_route hub (\<lambda>_. None) (\<lambda>_. Inl malformed_headers) [hub_domain] ROUTE hub_input
     no_webhooks no_webhooks no_webhooks) = hub1"
proof -
  have "resolveTarget hub (\<lambda>_. None) (\<lambda>_. Inl malformed_headers) (rt_serverId hub_input) = Inr (None, HUB)" by code_simp
  moreover have "js_lower (js_trim (rt_domain hub_input)) = ''a.example''" by code_simp
  moreover have "find_key sd_id (rt_domainId hub_input) [hub_domain] = Some hub_domain" by code_simp
  ultimately show ?thesis
    by (simp add: create_route_def hub_token find_dedupe_def find_first_def create_route_row_def hub1_def hub_route_def
        no_webhooks_def initial_wsys_def) (simp add: hub_domain_def hub_input_def)
qed

lemma hub_hash: "sha_hex hub b = ZERO64" "webhookRouteTokenHash hub t = ZERO64"
proof -
  have "hex_of ZERO32 = ZERO64" by code_simp
  then show "sha_hex hub b = ZERO64" "webhookRouteTokenHash hub t = ZERO64"
    by (simp_all add: sha_hex_def webhookRouteTokenHash_def hub_def)
qed

lemma hub_route_fields:
  "wr_id hub_route = ROUTE" "wr_tokenVersion hub_route = 1" "wr_tokenHash hub_route = ZERO64" "wr_provider hub_route = GITHUB"
  "active_route hub_route" "wr_target hub_route = HUB" "wr_siteId hub_route = SITE" "wr_domainId hub_route = DOM"
  "wr_domain hub_route = ''a.example''"
proof -
  have "js_lower (js_trim '' A.example'') = ''a.example''" by code_simp
  then show "wr_id hub_route = ROUTE" "wr_tokenVersion hub_route = 1" "wr_tokenHash hub_route = ZERO64" "wr_provider hub_route = GITHUB"
    "active_route hub_route" "wr_target hub_route = HUB" "wr_siteId hub_route = SITE" "wr_domainId hub_route = DOM"
    "wr_domain hub_route = ''a.example''"
    by (simp_all add: hub_route_def new_route_def hub_input_def active_route_def hub_hash)
qed

lemma hub_resolved: "resolvePublicToken hub TOKEN0 hub1 = Inr hub_route"
proof -
  have "rx_test TOKEN TOKEN0" by code_simp
  then show ?thesis
    by (simp add: resolvePublicToken_def hub1_def find_first_def hub_route_fields hub_hash hub_token)
qed

definition hub_envelope :: json where
  "hub_envelope = JObj [(''version'', JNum 1), (''routeId'', JStr ROUTE), (''provider'', JStr ''GITHUB''), (''secret'', JStr SECRET16)]"

lemma hub_verifier: "route_verifier hub hub_route = Inr (GITHUB, SECRET16)"
proof -
  have "wr_verifierEnc hub_route = json_stringify hub_envelope"
    by (simp add: hub_route_def new_route_def encryptWebhookRouteVerifier_def hub_input_def hub_def hub_envelope_def del: json_stringify.simps)
  moreover have "plain hub_envelope" by (simp add: hub_envelope_def)
  ultimately have "we_open_text hub (wr_verifierEnc hub_route) = Some hub_envelope"
    by (simp add: hub_def parse_stringify)
  then show ?thesis
    by (simp add: route_verifier_def decryptWebhookRouteVerifier_def hub_route_fields provider_of_def text_field_def)
       (simp add: hub_envelope_def)
qed

lemma hub_header_values:
  "uniqueRawHeader hub_headers ''content-type'' = Inr ''application/json''"
  "uniqueRawHeader hub_headers ''x-hub-signature-256'' = Inr SIG0"
  "uniqueRawHeader hub_headers ''x-github-event'' = Inr ''push''"
  "uniqueRawHeader hub_headers ''x-github-delivery'' = Inr ''d-1''"
  by code_simp+

lemma hub_provider:
  "verifyWebhookProviderDelivery (we_hmac hub) (we_parse hub) GITHUB SECRET16 hub_headers hub_body = Inr (iq_delivery hub_request)"
proof -
  have texts: "\<not> secret_unsafe SECRET16" "rx_test CONTENT_TYPE (js_lower ''application/json'')" "hex_of ZERO32 = ZERO64"
    "signature_digest GITHUB SIG0 = Some ZERO64" "safeEqualHex ZERO64 ZERO64" "rx_test EVENT ''push''"
    "rx_test DELIVERY_ID ''d-1''"
    by code_simp+
  show ?thesis
    by (simp add: verifyWebhookProviderDelivery_def hub_header_values texts parseJsonBody_def hub_request_def)
       (simp add: hub_def hub_body_def FEDERATED_WEBHOOK_MAX_RAW_BYTES_def texts)
qed

lemma hub_verified: "ingress_verify hub TOKEN0 hub_headers hub_body hub1 = Inr (Some hub_request)"
proof -
  have "rx_test PUSH_REF ''refs/heads/main''" by code_simp
  then show ?thesis
    by (simp add: ingress_verify_def hub_resolved hub_verifier hub_provider) (simp add: hub_request_def hub_hash)
qed

section \<open>The run\<close>

definition hub_time :: time where "hub_time = 100"
definition hub_object :: json where "hub_object = webhook_object hub hub_request PUSH hub_time"

lemma hub_object_valid: "validateFederatedWebhookDelivery hub_object = None"
proof -
  have tests: "rx_test UUID PUSH" "rx_test UUID ROUTE" "rx_test UUID HUB" "rx_test UUID SITE" "rx_test UUID DOM"
    "rx_test DOMAIN_NAME ''a.example''" "rx_test DELIVERY_ID ''d-1''" "rx_test SHA256_HEX ZERO64"
    "rx_test SIGNATURE SIG0" "is_iso_date ''2024-02-29T23:59:59.999Z''" "base64url hub_body = ''e30''"
    "rx_test BASE64URL ''e30''" "length ZERO64 = 64" "length SIG0 = 71"
    by code_simp+
  have lengths: "length PUSH = 36" "length ROUTE = 36" "length HUB = 36" "length SITE = 36" "length DOM = 36"
    using tests(1-5) test_length by blast+
  have keys: "isContractRecord hub_object" "requireExactKeys hub_object WEBHOOK_KEYS [] l = None" for l
    by (simp_all add: hub_object_def webhook_object_def Let_def requireExactKeys_None WEBHOOK_KEYS_def)
  have rest: "field hub_object ''schemaVersion'' = JNum 1" "field hub_object ''event'' = JStr ''push''"
    by (simp_all add: hub_object_def webhook_object_def Let_def)
  show ?thesis
    using keys rest tests lengths
    by (simp add: validateFederatedWebhookDelivery_def object_fields [of hub hub_request PUSH hub_time, folded hub_object_def]
        requireString_None requireEnum_None requireIsoDate_None hub_route_fields)
       (simp add: hub_request_def hub_route_fields hub_def FEDERATED_WEBHOOK_PROVIDERS_def FEDERATED_WEBHOOK_MAX_ENCODED_BYTES_def
          FEDERATED_WEBHOOK_MAX_RAW_BYTES_def)
qed

lemma hub_object_id: "text_field hub_object ''deliveryId'' = PUSH"
  by (simp add: hub_object_def object_id)

definition hub_disk :: disk_state where
  "hub_disk = \<lparr>bsize = 4096, bavail = 100000000, blocks = 200000000\<rparr>"

definition hub2 :: wdb where "hub2 = snd (spool_write hub hub_disk PUSH_NONCE hub_object hub_time hub1)"

lemma hub_admission: "n \<le> 200000 \<Longrightarrow> assertSpoolAdmission hub hub_disk n = None"
  by (simp add: assertSpoolAdmission_def hub_disk_def hub_def spoolReserveBytes_def spoolReservePercent_def positiveInt_def
      boundedPercent_def Let_def)

lemma hub_stored: "spool_write hub hub_disk PUSH_NONCE hub_object hub_time hub1 = (Inr (payload_file PUSH), hub2)"
proof -
  have "length (encryptWebhookSpool hub hub_object) = length (json_stringify hub_object)"
    by (simp add: encryptWebhookSpool_def hub_def)
  also have "\<dots> \<le> 110000" using object_size hub_object_valid unfolding hub_object_def by blast
  finally have "assertSpoolAdmission hub hub_disk (int (length (encryptWebhookSpool hub hub_object))) = None"
    by (intro hub_admission) simp
  moreover have "rx_test PAYLOAD_FILE (payload_file PUSH)" "rx_test PARTIAL_FILE (spool_partial PUSH PUSH_NONCE)" by code_simp+
  ultimately have "fst (spool_write hub hub_disk PUSH_NONCE hub_object hub_time hub1) = Inr (payload_file PUSH)"
    by (simp add: spool_write_def spool_stage_def hub_object_id resolve_file_def hub1_def no_webhooks_def initial_wsys_def Let_def)
  then show ?thesis unfolding hub2_def by (simp add: prod_eq_iff)
qed

lemma hub2_rows: "ws_routes hub2 = [hub_route]" "ws_deliveries hub2 = []" "ws_queue hub2 = [payload_file PUSH \<mapsto> encryptWebhookSpool hub hub_object]"
  "ws_dlq hub2 = Map.empty"
proof -
  from spool_write_Inr(1) [OF hub_stored] obtain tmp where
    eq: "hub2 = hub1\<lparr>ws_tmp := tmp, ws_queue := (ws_queue hub1)(payload_file PUSH \<mapsto> encryptWebhookSpool hub hub_object)\<rparr>"
    unfolding hub_object_id by blast
  show "ws_routes hub2 = [hub_route]" "ws_deliveries hub2 = []" "ws_queue hub2 = [payload_file PUSH \<mapsto> encryptWebhookSpool hub hub_object]"
    "ws_dlq hub2 = Map.empty"
    unfolding eq by (simp_all add: hub1_def no_webhooks_def initial_wsys_def)
qed

definition hub_row :: wdelivery where "hub_row = new_delivery hub_request PUSH (payload_file PUSH) hub_time"
definition hub3 :: wdb where "hub3 = hub2\<lparr>ws_deliveries := [hub_row]\<rparr>"

lemma hub_admitted: "ingress_admit hub hub_request PUSH (payload_file PUSH) hub_time None hub2 hub2 = (Inr (Accepted PUSH False), hub3)"
proof -
  have "queueLimit hub = 1000" by (simp add: queueLimit_def hub_def)
  then show ?thesis
    by (simp add: ingress_admit_def transaction_def admit_tx_def find_provider_def find_first_def hub2_rows count_rows_def
        create_delivery_def hub_row_def [symmetric] hub3_def) (simp add: hub_row_def hub_request_def hub_route_fields)
qed

definition hub_claim :: claimed where
  "hub_claim = \<lparr>cl_delivery = delivering_write ''w'' hub_time hub_row, cl_route = hub_route\<rparr>"
definition hub4 :: wdb where "hub4 = hub3\<lparr>ws_deliveries := [delivering_write ''w'' hub_time hub_row]\<rparr>"

lemma hub_row_fields:
  "wd_id hub_row = PUSH" "wd_routeId hub_row = ROUTE" "wd_state hub_row = W_ACCEPTED" "wd_availableAt hub_row = hub_time"
  "wd_attempt hub_row = 0" "wd_maxAttempts hub_row = 6" "waiting hub_row"
  by (simp_all add: hub_row_def hub_request_def hub_route_fields waiting_def) (simp add: new_delivery_def)

lemma hub_claimed: "claimNextDelivery ''w'' [] hub_time hub3 hub3 = (Some hub_claim, hub4)"
proof -
  let ?w = "delivering_write ''w'' hub_time hub_row"
  have due: "deliverable hub_time hub_row" by (simp add: deliverable_def hub_row_fields)
  have w: "wd_id ?w = PUSH" "wd_routeId ?w = ROUTE" by (simp_all add: delivering_write_def hub_row_fields)
  have joined: "with_route (hub3\<lparr>ws_deliveries := rows\<rparr>) v = [\<lparr>cl_delivery = v, cl_route = hub_route\<rparr>]" if "wd_routeId v = ROUTE" for v rows
    using that by (simp add: with_route_def find_route_def find_key_def find_first_def hub3_def hub2_rows hub_route_fields)
  have "candidates hub_time hub3 = [\<lparr>cl_delivery = hub_row, cl_route = hub_route\<rparr>]"
    using joined [of hub_row "[hub_row]"] due by (simp add: candidates_def hub3_def hub_row_fields)
  then show ?thesis
    using due joined [OF w(2), of "[?w]"]
    by (simp add: claimNextDelivery_def claim_delivery_def hub3_def count_rows_def hub_row_fields update_deliveries_def update_rows_def
        find_delivery_def find_key_def find_first_def w hub_claim_def hub4_def)
qed

definition hub_pending :: wpending where
  "hub_pending = \<lparr>wp_id = PUSH, wp_path = payload_file PUSH, wp_object = hub_object, wp_request = hub_request, wp_time = hub_time\<rparr>"

definition hub_sys :: "wdb \<Rightarrow> wpending list \<Rightarrow> wflight list \<Rightarrow> wsys" where
  "hub_sys d ps fs = \<lparr>wy_db = d, wy_owner = ''w'', wy_checked = [hub_request], wy_pending = ps, wy_flights = fs\<rparr>"

lemma hub_sys_sel [simp]:
  "wy_db (hub_sys d ps fs) = d" "wy_owner (hub_sys d ps fs) = ''w''" "wy_checked (hub_sys d ps fs) = [hub_request]"
  "wy_pending (hub_sys d ps fs) = ps" "wy_flights (hub_sys d ps fs) = fs" "(hub_sys d ps fs)\<lparr>wy_db := e\<rparr> = hub_sys e ps fs"
  "(hub_sys d ps fs)\<lparr>wy_pending := qs\<rparr> = hub_sys d qs fs" "(hub_sys d ps fs)\<lparr>wy_flights := gs\<rparr> = hub_sys d ps gs"
  by (simp_all add: hub_sys_def)

lemma hub_reach1: "wreachable hub (hub_sys hub1 [] [])"
proof -
  have "wstep hub initial_wsys (initial_wsys\<lparr>wy_db := cleanupPartialFiles 0 no_webhooks, wy_owner := ''w'', wy_checked := [],
     wy_pending := [], wy_flights := []\<rparr>)"
    unfolding no_webhooks_def by (rule wt_restart)
  moreover have "cleanupPartialFiles 0 no_webhooks = no_webhooks"
    by (simp add: cleanupPartialFiles_def no_webhooks_def initial_wsys_def)
  ultimately have "wreachable hub (initial_wsys\<lparr>wy_owner := ''w''\<rparr>)"
    using w_step [OF w_initial] by (simp add: no_webhooks_def initial_wsys_def)
  moreover have "wstep hub (initial_wsys\<lparr>wy_owner := ''w''\<rparr>) (initial_wsys\<lparr>wy_owner := ''w'', wy_db := hub1\<rparr>)"
    using wt_create_route [of hub "\<lambda>_. None" "\<lambda>_. Inl malformed_headers" "[hub_domain]" ROUTE hub_input no_webhooks "initial_wsys\<lparr>wy_owner := ''w''\<rparr>"
        no_webhooks _ hub1] hub_created by (simp add: no_webhooks_def prod_eq_iff)
  ultimately have "wreachable hub (initial_wsys\<lparr>wy_owner := ''w'', wy_db := hub1\<rparr>)" by (rule w_step)
  from w_step [OF this wt_verify] hub_verified show ?thesis
    by (fastforce simp: initial_wsys_def hub_sys_def)
qed

lemma hub_reach2: "wreachable hub (hub_sys hub2 [hub_pending] [])"
proof -
  have "wstep hub (hub_sys hub1 [] []) ((hub_sys hub1 [] [])\<lparr>wy_db := hub2, wy_pending := wy_pending (hub_sys hub1 [] []) @
     [\<lparr>wp_id = PUSH, wp_path = payload_file PUSH, wp_object = webhook_object hub hub_request PUSH hub_time, wp_request = hub_request, wp_time = hub_time\<rparr>]\<rparr>)"
    by (rule wt_spool) (use hub_object_valid hub_stored in \<open>simp_all add: new_request_id_def hub_object_def hub1_def no_webhooks_def initial_wsys_def\<close>)
  from w_step [OF hub_reach1 this] show ?thesis by (simp add: hub_pending_def hub_object_def)
qed

lemma hub_reach3: "wreachable hub (hub_sys hub3 [] [])"
proof -
  have "wstep hub (hub_sys hub2 [hub_pending] []) ((hub_sys hub2 [hub_pending] [])\<lparr>wy_db := hub3, wy_pending := [] @ []\<rparr>)"
    by (rule wt_admit [where p = hub_pending]) (use hub_admitted in \<open>simp_all add: hub_pending_def\<close>)
  from w_step [OF hub_reach2 this] show ?thesis by simp
qed

lemma hub_reach4: "wreachable hub (hub_sys hub4 [] [\<lparr>wf_claim = hub_claim, wf_phase = Wf_Claimed\<rparr>])"
proof -
  have "keyed wd_id (ws_deliveries hub3)" using wreachable_ok [OF hub_reach3] by (simp add: wsys_ok_def keys_unique_def)
  then have "seen_before hub3 hub3" by (simp add: seen_before_def)
  moreover have "webhook_concurrency hub = 4" by (simp add: webhook_concurrency_def hub_def)
  ultimately have "wstep hub (hub_sys hub3 [] []) ((hub_sys hub3 [] [])\<lparr>wy_db := hub4, wy_flights := wy_flights (hub_sys hub3 [] []) @ [\<lparr>wf_claim = hub_claim, wf_phase = Wf_Claimed\<rparr>]\<rparr>)"
    by (intro wt_claim) (use hub_claimed in simp_all)
  from w_step [OF hub_reach3 this] show ?thesis by simp
qed

lemma hub_keys: "keys_unique hub3"
  using wreachable_ok [OF hub_reach3] by (simp add: wsys_ok_def)

lemma hub_found: "find_delivery PUSH hub3 = Some hub_row" "find_route ROUTE hub3 = Some hub_route" "active_route hub_route"
  by (simp_all add: find_delivery_def find_route_def find_key_def find_first_def hub3_def hub2_rows hub_row_fields hub_route_fields)

section \<open>Witnesses\<close>


theorem one_delivery_per_target_witness: "length [\<lparr>wf_claim = hub_claim, wf_phase = Wf_Claimed\<rparr>] \<le> webhook_concurrency hub"
  using one_delivery_per_target [OF hub_reach4] by simp

theorem push_is_accepted_once_witness:
  "ingress_lookup hub hub_request hub3 = Inr (Some (Accepted PUSH True)) \<and>
   ingress_admit hub hub_request PUSH_NONCE ''x'' 200 None hub3 hub3 = (Inr (Accepted PUSH True), remove_queue PUSH_NONCE hub3)"
proof -
  have "wy_pending (hub_sys hub2 [hub_pending] []) = [] @ hub_pending # []" by simp
  moreover have "vd_event (iq_delivery hub_request) = ''push''" by (simp add: hub_request_def)
  ultimately show ?thesis
    using push_is_accepted_once [OF hub_reach2, of "[]" hub_pending "[]" None hub2 PUSH hub3 "hub_sys hub3 [] []" hub_request PUSH_NONCE "''x''" 200 hub3]
      hub_admitted by (simp add: hub_pending_def)
qed

definition hub_target :: webhook_env where "hub_target = hub\<lparr>we_role := ''TARGET''\<rparr>"

theorem accepted_payload_is_deliverable_witness:
  "target_check hub_target ''any'' hub_object = Inr hub_body \<and> parsePush hub_target hub_body \<noteq> Inl push_ref_invalid"
proof -
  have "we_hash hub_target = we_hash hub" "we_parse hub_target = we_parse hub" "we_role hub_target = ''TARGET''"
    "we_installationId hub_target = wr_target (iq_route hub_request)"
    by (simp_all add: hub_target_def hub_request_def hub_route_fields) (simp add: hub_def)
  from accepted_payload_is_deliverable [OF hub_verified hub_object_valid [unfolded hub_object_def] this(1,2,4,3), of "''any''"]
  show ?thesis by (auto simp: hub_object_def)
qed

definition six_times :: "time list" where "six_times = [100, 6000, 40000, 200000, 900000, 5000000]"

theorem failing_delivery_ends_in_dlq_witness:
  "\<exists>w'. find_delivery PUSH (fold (failing_round hub ''w'' (\<lambda>_. ''ERROR'') (Plain ''down'') PUSH) six_times hub3) = Some w' \<and>
     wd_attempt w' = 6 \<and> wd_state w' = W_DLQ"
proof -
  have "due_times 0 100 six_times" by code_simp
  then show ?thesis
    using failing_delivery_ends_in_dlq [OF hub_keys hub_found(1) _ _ hub_found(3), of six_times hub "''w''" "\<lambda>_. ''ERROR''" "Plain ''down''"]
      hub_found(2) by (simp add: hub_row_fields hub_time_def) (simp add: six_times_def)
qed

theorem crashes_never_exhaust_a_delivery_witness:
  "\<exists>w'. find_delivery PUSH (fold (crashed_round ''w'' PUSH) (map (\<lambda>i. 100 + int i * WEBHOOK_LEASE_MS) [0..<10]) hub3) = Some w' \<and>
     wd_attempt w' = 10"
  using crashes_never_exhaust_a_delivery [OF hub_keys hub_found(1) hub_row_fields(3), of 100 "''w''" 10]
  by (auto simp: hub_row_fields hub_time_def)

theorem redrive_race_strands_payload_witness:
  "\<exists>w. find_delivery PUSH (snd (moveToDlq PUSH (snd (redrive PUSH 300 (snd (record_failure ''w'' hub_claim ''ERROR'' True 200 hub4)))))) = Some w \<and>
     waiting w"
proof -
  let ?w = "delivering_write ''w'' hub_time hub_row" and ?d1 = "snd (record_failure ''w'' hub_claim ''ERROR'' True 200 hub4)"
  have fields: "wd_id ?w = PUSH" "wd_routeId ?w = ROUTE" "wd_state ?w = W_DELIVERING" "wd_leaseOwner ?w = Some ''w''"
    by (simp_all add: delivering_write_def hub_row_fields)
  have own: "owned_delivery ''w'' PUSH ?w" by (simp add: owned_delivery_def fields)
  have claim: "wd_id (cl_delivery hub_claim) = PUSH" by (simp add: hub_claim_def fields)
  have dead: "record_failure ''w'' hub_claim ''ERROR'' True 200 hub4 = (True, hub4\<lparr>ws_deliveries := [dead_write ''ERROR'' 200 ?w]\<rparr>)"
    using own by (simp add: record_failure_def claim Let_def hub4_def count_rows_def update_deliveries_def update_rows_def)
  have d: "wd_id (dead_write ''ERROR'' 200 ?w) = PUSH" "wd_routeId (dead_write ''ERROR'' 200 ?w) = ROUTE" "wd_state (dead_write ''ERROR'' 200 ?w) = W_DLQ"
    using fields by (simp_all add: dead_write_def)
  have files: "ws_queue hub4 (payload_file PUSH) \<noteq> None" "ws_dlq hub4 (payload_file PUSH) = None" "ws_routes hub4 = [hub_route]"
    by (simp_all add: hub4_def hub3_def hub2_rows)
  have "fst (redrive PUSH 300 ?d1) = Inr ()"
    using d files hub_route_fields
    by (simp add: dead redrive_def redrive_check_def find_delivery_def find_route_def find_key_def find_first_def
        moveToQueue_def redrive_write_def count_rows_def Let_def hub_found split: option.split)
  then have redriven: "redrive PUSH 300 ?d1 = (Inr (), snd (redrive PUSH 300 ?d1))" by (simp add: prod_eq_iff)
  have keys: "keys_unique hub4" using wreachable_ok [OF hub_reach4] by (simp add: wsys_ok_def)
  have name: "rx_test PAYLOAD_FILE (payload_file PUSH)" by code_simp
  from files(1) obtain b where b: "ws_queue hub4 (payload_file PUSH) = Some b" by blast
  have failed: "record_failure ''w'' hub_claim ''ERROR'' True 200 hub4 = (True, ?d1)" by (simp add: dead)
  from redrive_race_strands_payload [OF keys b files(2) claim name failed redriven refl] show ?thesis by blast
qed

section \<open>Deploys\<close>

definition ledger :: op_env where
  "ledger = \<lparr>sha256_hex = (\<lambda>_. ZERO64), encrypt_operations = (\<lambda>_. ''sealed''), decrypt_operations = (\<lambda>_. None),
     safe_message = (\<lambda>m. m), iso_of = (\<lambda>_. ''2024-02-29T23:59:59.999Z''), date_parse = (\<lambda>_. None)\<rparr>"

definition one_site :: "string \<Rightarrow> db" where
  "one_site status = empty_db\<lparr>db_sites := [\<lparr>st_id = SITE, st_userId = ''user-1'', st_status = ''ACTIVE'', st_errorMessage = None\<rparr>],
     db_domains := [hub_domain\<lparr>sd_appStatus := status\<rparr>]\<rparr>"

lemma one_site_reachable: "reachable ledger now (one_site status)"
proof -
  have "op_step ledger now empty_db (one_site status)" by (rule other_tables) (simp_all add: one_site_def empty_db_def)
  then show ?thesis by (rule stepped [OF initial])
qed

definition site_trigger :: trigger_input where
  "site_trigger = webhook_trigger hub HUB hub_object hub_domain ''main'' (one_site ''RUNNING'')"

lemma hub_push: "parsePush hub hub_body = Inr ''main''"
proof -
  have "rx_test PUSH_REF ''refs/heads/main''" by code_simp
  then show ?thesis by (simp add: parsePush_def) (simp add: hub_def)
qed

lemma hub_key: "key_valid (operation_key hub HUB PUSH)"
  by (rule operation_key_valid) (simp add: hub_def ZERO32_def)

lemma site_trigger_fields:
  "tg_key site_trigger = Some (operation_key hub HUB PUSH)" "tg_siteId site_trigger = SITE" "tg_domainId site_trigger = DOM"
  "tg_userId site_trigger = ''user-1''" "tg_role site_trigger = ''ADMIN''" "tg_branch site_trigger = Some ''main''"
  by (simp_all add: site_trigger_def webhook_trigger_def hub_object_id hub_domain_def site_owner_def one_site_def find_key_def find_first_def)

lemma site_context:
  assumes "db_domains z = [hub_domain\<lparr>sd_appStatus := status\<rparr>]"
  shows "trigger_context (\<lambda>_. None) site_trigger z = Inr (hub_domain\<lparr>sd_appStatus := status\<rparr>)"
    "requested_branch site_trigger (hub_domain\<lparr>sd_appStatus := status\<rparr>) = ''main''"
    "target_domain hub_object z = Some (hub_domain\<lparr>sd_appStatus := status\<rparr>)"
proof -
  have texts: "text_field hub_object ''domain'' = ''a.example''" "text_field hub_object ''domainId'' = DOM" "text_field hub_object ''siteId'' = SITE"
    by (simp_all add: text_field_def object_fields hub_object_def) (simp_all add: hub_request_def hub_route_fields)
  then show "trigger_context (\<lambda>_. None) site_trigger z = Inr (hub_domain\<lparr>sd_appStatus := status\<rparr>)"
    "requested_branch site_trigger (hub_domain\<lparr>sd_appStatus := status\<rparr>) = ''main''"
    "target_domain hub_object z = Some (hub_domain\<lparr>sd_appStatus := status\<rparr>)"
    using assms by (simp_all add: trigger_context_def requireOwnedSiteDomain_def site_trigger_fields find_first_def requested_branch_def
        target_domain_def) (simp_all add: hub_domain_def)
qed

lemma site_begun: "\<exists>ticket d1. begin_operation ledger False (trigger_operation site_trigger ''main'') ''x'' ''op-1'' 0 None (one_site status) (one_site status) = (Inr ticket, d1)"
proof -
  let ?op = "trigger_operation site_trigger ''main''" and ?k = "operation_key hub HUB PUSH"
  note keys = trigger_keys [OF site_trigger_fields(1) hub_key]
  have scope: "begin_scope ?op = \<lparr>sc_globalLockKey = None, sc_siteId = Some SITE, sc_siteDomainId = Some DOM, sc_databaseId = None,
      sc_lockSite = Some False, sc_parentOperationId = None\<rparr>"
    by (simp add: begin_scope_def keys) (simp add: trigger_operation_def site_trigger_fields)
  have specs: "distinct (map lk_resourceKey (operationLockSpecs (begin_scope ?op)))" unfolding scope by code_simp
  have empty: "db_ops (one_site status) = []" "db_locks (one_site status) = []" "db_backups (one_site status) = []"
    by (simp_all add: one_site_def empty_db_def)
  have site: "truthy (Some SITE) = Some SITE" by code_simp
  have op: "bi_queued ?op = None" "bi_parentOperationId ?op = None" "bi_siteId ?op = Some SITE"
    by (simp_all add: trigger_operation_def site_trigger_fields)
  have "\<not> queue_full (one_site status) ?op" "\<not> parent_unfit (one_site status) ?op" "active_backup (one_site status) (Some SITE) = None"
    by (simp_all add: queue_full_def parent_unfit_def active_backup_def op empty find_first_def)
  moreover have "assertScopeHierarchyAvailable (one_site status) (begin_scope ?op) None = None"
    unfolding scope by (simp add: assertScopeHierarchyAvailable_def empty find_key_def find_first_def site)
  moreover have "create_locks x (operationLockSpecs (begin_scope ?op)) [] = Some (map (own_lock x) (operationLockSpecs (begin_scope ?op)))" for x
    using specs by (simp add: create_locks_def)
  then have "\<exists>v x. create_operation (new_operation ledger ?op ?k ''op-1'' 0) (operationLockSpecs (begin_scope ?op)) (one_site status) = (Inr v, x)"
    by (simp add: create_operation_def empty)
  ultimately obtain v x where "begin_tx ledger ?op ?k ''op-1'' 0 (one_site status) = (Inr v, x)"
    by (auto simp: begin_tx_def op site)
  then show ?thesis
    using keys site by (simp add: begin_operation_def Let_def find_key_def find_first_def empty transaction_def op)
qed

text \<open>A stopped application, and the same one after it was started.\<close>

definition first_try :: "(exn + json) \<times> deploy_command option \<times> db" where
  "first_try = run_delivery hub HUB hub_object hub_body (new_receipt PUSH_NONCE HUB hub_object ZERO64)
     (\<lambda>inp. triggerDeploy ledger (\<lambda>_. None) False inp ''x'' ''op-1'' ''log-1'' 0 None None None) (one_site ''STOPPED'')"

definition restarted :: db where
  "restarted = (snd (snd first_try))\<lparr>db_domains := [hub_domain\<lparr>sd_appStatus := ''RUNNING''\<rparr>], db_deploys := [],
     db_sites := db_sites (one_site ''RUNNING'')\<rparr>"

theorem failed_trigger_is_never_retried_witness:
  "run_delivery hub HUB hub_object hub_body (new_receipt PUSH_NONCE HUB hub_object ZERO64)
     (\<lambda>inp. triggerDeploy ledger (\<lambda>_. None) False inp ''y'' ''op-2'' ''log-2'' 9 None None None) restarted = (Inl no_log, None, restarted)"
proof -
  let ?s = "hub_domain\<lparr>sd_appStatus := ''STOPPED''\<rparr>" and ?t = "hub_domain\<lparr>sd_appStatus := ''RUNNING''\<rparr>"
  have owner: "site_owner (one_site status) SITE = ''user-1''" "site_owner restarted SITE = ''user-1''" for status
    by (simp_all add: site_owner_def restarted_def one_site_def find_key_def find_first_def)
  have dom: "db_domains (one_site ''STOPPED'') = [?s]" "db_domains restarted = [?t]"
    by (simp_all add: one_site_def restarted_def)
  have hash: "length (we_hash hub bs) = 32" for bs by (simp add: hub_def ZERO32_def)
  have main: "''main'' = (case truthy (sd_deployBranch ?s) of Some b \<Rightarrow> b | None \<Rightarrow> ''main'')"
    "''main'' = (case truthy (sd_deployBranch ?t) of Some b \<Rightarrow> b | None \<Rightarrow> ''main'')"
    by (simp_all add: hub_domain_def)
  have same: "webhook_trigger hub HUB hub_object ?s ''main'' (one_site ''STOPPED'') = site_trigger"
    "webhook_trigger hub HUB hub_object ?t ''main'' restarted = site_trigger"
    by (simp_all add: site_trigger_def webhook_trigger_def) (simp_all add: hub_domain_def owner)
  have fresh: "key_operation (operation_key hub HUB (text_field hub_object ''deliveryId'')) (one_site ''STOPPED'') = None"
    by (simp add: key_operation_def one_site_def empty_db_def find_key_def find_first_def)
  have busy: "trigger_checks ?s (one_site ''STOPPED'') = Some (BadRequest ''Domain application is busy (STOPPED)'')"
    by code_simp
  from site_begun [of "''STOPPED''"] obtain ticket d1 where begun:
    "begin_operation ledger False (trigger_operation site_trigger ''main'') ''x'' ''op-1'' 0 None (one_site ''STOPPED'') (one_site ''STOPPED'') = (Inr ticket, d1)"
    by blast
  obtain res c d' where first: "first_try = (res, c, d')" by (metis prod_cases3)
  have later: "run ledger 0 d' 0 restarted"
    by (rule run_one, rule other_tables) (simp_all add: restarted_def first)
  have none: "log_of ''op-1'' restarted = None" by (simp add: log_of_def restarted_def find_first_def)
  show ?thesis
    using failed_trigger_is_never_retried [OF one_site_reachable hash fresh hub_push site_context(3) [OF dom(1)] main(1)
        _ _ busy first [unfolded first_try_def] later none site_context(3) [OF dom(2)] main(2)] same begun site_context(1) [OF dom(1)] site_context(1) [OF dom(2)]
    by simp
qed

text \<open>An application that can be deployed.\<close>

definition deployed :: "(exn + deploy_row) \<times> deploy_command option \<times> db" where
  "deployed = triggerDeploy ledger (\<lambda>_. None) False site_trigger ''x'' ''op-1'' ''log-1'' 0 None None None (one_site ''RUNNING'')"

definition deploy_log :: deploy_row where "deploy_log = new_log site_trigger ''log-1'' ''op-1'' ''main'' 0"

lemma deployed_once: "fst deployed = Inr deploy_log"
  by code_simp

definition after_deploy :: db where
  "after_deploy = (snd (snd deployed))\<lparr>db_domains := [hub_domain\<lparr>sd_appStatus := ''RUNNING''\<rparr>],
     db_deploys := [deploy_log\<lparr>dl_status := ''SUCCESS''\<rparr>]\<rparr>"

theorem deploy_happens_once_witness:
  "triggerDeploy ledger (\<lambda>_. None) False site_trigger ''y'' ''op-2'' ''log-2'' 9 None None None after_deploy
     = (Inr (deploy_log\<lparr>dl_status := ''SUCCESS''\<rparr>), None, after_deploy)"
proof -
  have first: "triggerDeploy ledger (\<lambda>_. None) False site_trigger ''x'' ''op-1'' ''log-1'' 0 None None None (one_site ''RUNNING'')
      = (Inr deploy_log, fst (snd deployed), snd (snd deployed))"
    using deployed_once by (simp add: prod_eq_iff deployed_def)
  have later: "run ledger 0 (snd (snd deployed)) 9 after_deploy"
    by (rule run_wait [OF run_one, OF other_tables]) (simp_all add: after_deploy_def)
  have dom: "db_domains (one_site ''RUNNING'') = [hub_domain\<lparr>sd_appStatus := ''RUNNING''\<rparr>]"
    "db_domains after_deploy = [hub_domain\<lparr>sd_appStatus := ''RUNNING''\<rparr>]"
    by (simp_all add: one_site_def after_deploy_def)
  have fresh: "key_operation (operation_key hub HUB PUSH) (one_site ''RUNNING'') = None"
    by (simp add: key_operation_def one_site_def empty_db_def find_key_def find_first_def)
  have log: "log_of (the (dl_operationId deploy_log)) after_deploy = Some (deploy_log\<lparr>dl_status := ''SUCCESS''\<rparr>)"
    by (simp add: log_of_def after_deploy_def find_first_def deploy_log_def new_log_def)
  show ?thesis
    by (rule deploy_happens_once [OF one_site_reachable site_trigger_fields(1) hub_key fresh first later log _
          site_context(1) [OF dom(1)] site_context(1) [OF dom(2)] refl]) simp
qed

end
