(* ===== verification/Fed_Request.thy ===== *)
theory Fed_Request
  imports Webhook_Contract Json_Parse
begin

text \<open>
  The parts of a request between panels that are signed: the headers and the body,
  \<open>api/src/federation/delegation-headers.ts\<close>, and the request target,
  \<open>exact-request-target.ts\<close>. The master computes them before it signs and the target computes
  them again before it verifies. Texts are code units below 256; a header or a target with
  larger ones is refused by both sides like one with a code unit above 126.
\<close>

section \<open>Errors\<close>

text \<open>
  The errors of the federation carry a \<open>code\<close>, which decides the answer of the guard; their
  messages never leave it. \<open>Uncoded\<close> is an error without a code.
\<close>

datatype fed_error = Coded string | Uncoded

fun code_of :: "fed_error \<Rightarrow> string" where
  "code_of (Coded code) = code"
| "code_of Uncoded = []"

definition fed_check :: "bool \<Rightarrow> string \<Rightarrow> fed_error option" where
  "fed_check bad code = (if bad then Some (Coded code) else None)"

fun first_fed_error :: "fed_error option list \<Rightarrow> fed_error option" where
  "first_fed_error [] = None"
| "first_fed_error (Some e # _) = Some e"
| "first_fed_error (None # cs) = first_fed_error cs"

lemma first_fed_error_None [simp]: "first_fed_error cs = None \<longleftrightarrow> (\<forall>c \<in> set cs. c = None)"
  by (induction cs rule: first_fed_error.induct) auto

lemma fed_check_None [simp]: "fed_check bad code = None \<longleftrightarrow> \<not> bad"
  by (simp add: fed_check_def)

section \<open>Headers\<close>

record fed_header =
  fh_name :: string
  fh_value :: string

definition ALLOWED_HEADERS :: "string list" where
  "ALLOWED_HEADERS = [''accept'', ''accept-language'', ''content-type'', ''idempotency-key'', ''if-match'',
     ''if-modified-since'', ''if-none-match'', ''if-range'', ''if-unmodified-since'', ''range'']"

fun header_pairs :: "string list \<Rightarrow> (string \<times> string) list" where
  "header_pairs (k # v # rest) = (k, v) # header_pairs rest"
| "header_pairs _ = []"

definition rawHeaderPairs :: "string list \<Rightarrow> fed_error + (string \<times> string) list" where
  "rawHeaderPairs rawHeaders =
     (if odd (length rawHeaders) then Inl (Coded ''INVALID_HEADER'') else Inr (header_pairs rawHeaders))"

text \<open>\<open>/^[\x20-\x7e]+$/\<close>\<close>

definition header_text :: "string \<Rightarrow> bool" where
  "header_text s = (s \<noteq> [] \<and> list_all (\<lambda>c. printable c \<or> c = CHR '' '') s)"

text \<open>The loop, with the names it has seen and the headers it keeps.\<close>

fun canonical_headers :: "string list \<Rightarrow> (string \<times> string) list \<Rightarrow> fed_error + fed_header list" where
  "canonical_headers seen [] = Inr []"
| "canonical_headers seen ((rawName, rawValue) # pairs) =
     (if \<not> rx_test HEADER_NAME rawName \<or> list_ex control_char rawValue then Inl (Coded ''INVALID_HEADER'')
      else let name = js_lower rawName in
      if name \<in> set seen then Inl (Coded ''DUPLICATE_HEADER'')
      else if name = ''content-encoding'' then
        (if js_lower (js_trim rawValue) \<noteq> ''identity'' then Inl (Coded ''COMPRESSED_BODY_UNSUPPORTED'')
         else canonical_headers (name # seen) pairs)
      else if name \<notin> set ALLOWED_HEADERS then canonical_headers (name # seen) pairs
      else let v = js_trim rawValue in
      if \<not> header_text v then Inl (Coded ''INVALID_HEADER'')
      else (case canonical_headers (name # seen) pairs of
              Inl e \<Rightarrow> Inl e
            | Inr hs \<Rightarrow> Inr (\<lparr>fh_name = name, fh_value = v\<rparr> # hs)))"

text \<open>On the allowed names, letters and hyphens, \<open>localeCompare\<close> is the order of the code units.\<close>

definition canonicalizeFederationHeaders :: "(string \<times> string) list \<Rightarrow> fed_error + fed_header list" where
  "canonicalizeFederationHeaders pairs =
     (case canonical_headers [] pairs of Inl e \<Rightarrow> Inl e | Inr hs \<Rightarrow> Inr (sort_key fh_name hs))"

definition canonicalHeaderValue :: "fed_header list \<Rightarrow> string \<Rightarrow> string option" where
  "canonicalHeaderValue headers name = map_option fh_value (find_first (\<lambda>h. fh_name h = name) headers)"

section \<open>Method and body\<close>

definition MAX_CONTROL_BODY_BYTES :: nat where "MAX_CONTROL_BODY_BYTES = 1024 * 1024"

text \<open>Methods are tokens of ASCII letters.\<close>

definition to_upper :: "char \<Rightarrow> char" where
  "to_upper c = (if lower c then char_of ((of_char c :: nat) - 32) else c)"

definition js_upper :: "string \<Rightarrow> string" where "js_upper s = map to_upper s"

definition sha256Body :: "(bytes \<Rightarrow> bytes) \<Rightarrow> bytes \<Rightarrow> string" where
  "sha256Body sha body = hex_of (sha body)"

text \<open>
  \<open>parse\<close> is the decoder of UTF-8 that fails on malformed input, followed by \<open>JSON.parse\<close>. The
  result is the digest of the body and the idempotency key.
\<close>

definition validateGenericControlRequest ::
  "(bytes \<Rightarrow> bytes) \<Rightarrow> (bytes \<Rightarrow> json option) \<Rightarrow> string \<Rightarrow> fed_header list \<Rightarrow> bytes \<Rightarrow> fed_error + string \<times> string option"
where
  "validateGenericControlRequest sha parse httpMethod headers body =
     (let normalizedMethod = js_upper httpMethod;
          contentType = truthy (canonicalHeaderValue headers ''content-type'');
          idempotencyKey = canonicalHeaderValue headers ''idempotency-key'';
          isMutation = normalizedMethod \<notin> {''GET'', ''HEAD'', ''OPTIONS''}
      in case first_fed_error
          [fed_check (length body > MAX_CONTROL_BODY_BYTES) ''BODY_TOO_LARGE'',
           fed_check (normalizedMethod \<in> {''GET'', ''HEAD''} \<and> body \<noteq> []) ''BODY_NOT_ALLOWED'',
           fed_check (body \<noteq> [] \<and> (case contentType of None \<Rightarrow> True | Some t \<Rightarrow> \<not> rx_test CONTENT_TYPE (js_lower t)))
             ''INVALID_CONTENT_TYPE'',
           fed_check (body \<noteq> [] \<and> parse body = None) ''INVALID_JSON_BODY'',
           fed_check (isMutation \<and> truthy idempotencyKey = None) ''IDEMPOTENCY_KEY_REQUIRED'',
           fed_check (case truthy idempotencyKey of None \<Rightarrow> False | Some k \<Rightarrow> \<not> rx_test ADMISSION_KEY k)
             ''INVALID_IDEMPOTENCY_KEY'']
         of Some e \<Rightarrow> Inl e | None \<Rightarrow> Inr (sha256Body sha body, idempotencyKey))"

section \<open>The request target\<close>

text \<open>\<open>VALID_ESCAPE\<close>: no percent sign is left when the escapes are taken out.\<close>

fun escapes_valid :: "string \<Rightarrow> bool" where
  "escapes_valid [] = True"
| "escapes_valid (c # s) =
     (if c \<noteq> CHR ''%'' then escapes_valid s
      else (case s of a # b # r \<Rightarrow> is_hex a \<and> is_hex b \<and> escapes_valid r | _ \<Rightarrow> False))"

definition has_text :: "string \<Rightarrow> string \<Rightarrow> bool" where
  "has_text s t = rx_search (lit t) s"

definition ENCODED_PATH_SEPARATOR :: rx where
  "ENCODED_PATH_SEPARATOR = Cat (lit ''%'') (Alt (lit ''2f'') (lit ''5c''))"

fun split_slash :: "string \<Rightarrow> string list" where
  "split_slash [] = [[]]"
| "split_slash (c # s) =
     (if c = CHR ''/'' then [] # split_slash s
      else (case split_slash s of t # ts \<Rightarrow> (c # t) # ts | [] \<Rightarrow> [[c]]))"

text \<open>\<open>decodeURIComponent\<close>, to the bytes of its result; it throws on a malformed escape or on bytes that are no UTF-8.\<close>

fun percent_bytes :: "string \<Rightarrow> bytes option" where
  "percent_bytes [] = Some []"
| "percent_bytes (c # s) =
     (if c \<noteq> CHR ''%'' then map_option (\<lambda>bs. utf8_bytes [c] @ bs) (percent_bytes s)
      else (case s of
          a # b # r \<Rightarrow> if is_hex a \<and> is_hex b
            then map_option (\<lambda>bs. of_nat (hex_number a * 16 + hex_number b) # bs) (percent_bytes r) else None
        | _ \<Rightarrow> None))"

definition continuation :: "8 word \<Rightarrow> bool" where
  "continuation b \<longleftrightarrow> 0x80 \<le> b \<and> b \<le> 0xBF"

text \<open>Well-formed UTF-8: the shortest form, no surrogates, nothing above U+10FFFF.\<close>

fun utf8_valid :: "bytes \<Rightarrow> bool" where
  "utf8_valid [] = True"
| "utf8_valid (a # r) =
     (if a < 0x80 then utf8_valid r
      else if 0xC2 \<le> a \<and> a \<le> 0xDF then (case r of b # r' \<Rightarrow> continuation b \<and> utf8_valid r' | _ \<Rightarrow> False)
      else if 0xE0 \<le> a \<and> a \<le> 0xEF then
        (case r of b # c # r' \<Rightarrow> continuation b \<and> continuation c \<and> (a = 0xE0 \<longrightarrow> 0xA0 \<le> b) \<and> (a = 0xED \<longrightarrow> b \<le> 0x9F) \<and>
           utf8_valid r' | _ \<Rightarrow> False)
      else if 0xF0 \<le> a \<and> a \<le> 0xF4 then
        (case r of b # c # d # r' \<Rightarrow> continuation b \<and> continuation c \<and> continuation d \<and> (a = 0xF0 \<longrightarrow> 0x90 \<le> b) \<and>
           (a = 0xF4 \<longrightarrow> b \<le> 0x8F) \<and> utf8_valid r' | _ \<Rightarrow> False)
      else False)"

definition decode_component :: "string \<Rightarrow> bytes option" where
  "decode_component s = (case percent_bytes s of Some bs \<Rightarrow> if utf8_valid bs then Some bs else None | None \<Rightarrow> None)"

definition dot_segment :: "bytes \<Rightarrow> bool" where "dot_segment bs \<longleftrightarrow> bs = [0x2E] \<or> bs = [0x2E, 0x2E]"
definition control_byte :: "8 word \<Rightarrow> bool" where "control_byte b \<longleftrightarrow> b < 0x20 \<or> b = 0x7F"

definition segment_error :: "string \<Rightarrow> fed_error option" where
  "segment_error segment =
     (case decode_component segment of
        None \<Rightarrow> Some (Coded ''INVALID_REQUEST_TARGET'')
      | Some bs \<Rightarrow> fed_check (dot_segment bs \<or> list_ex control_byte bs) ''UNSAFE_PATH'')"

definition assertSafePath :: "string \<Rightarrow> fed_error option" where
  "assertSafePath rawPath = first_fed_error
     (fed_check (has_text rawPath ''//'' \<or> CHR 0x5C \<in> set rawPath \<or> rx_search_ci ENCODED_PATH_SEPARATOR rawPath) ''UNSAFE_PATH''
      # map segment_error (split_slash rawPath))"

definition assertBoundedRequestTarget :: "string \<Rightarrow> fed_error option" where
  "assertBoundedRequestTarget inboundTarget = first_fed_error
     [fed_check (inboundTarget = [] \<or> \<not> list_all printable inboundTarget \<or> CHR ''#'' \<in> set inboundTarget \<or>
        ends_with inboundTarget ''?'') ''INVALID_REQUEST_TARGET'',
      fed_check (length inboundTarget > 8192) ''REQUEST_TARGET_TOO_LARGE'',
      fed_check (\<not> escapes_valid inboundTarget) ''INVALID_REQUEST_TARGET'']"

text \<open>
  Path and query as \<open>new URL(...)\<close> writes them, for a target that is printable, without a
  fragment, a backslash or a dot segment: it escapes the characters of the path and query
  percent-encode sets of the URL Standard.
\<close>

definition hex_upper :: "nat \<Rightarrow> char" where
  "hex_upper n = (if n < 10 then char_of (n + 48) else char_of (n + 55))"

definition percent_encode :: "(char \<Rightarrow> bool) \<Rightarrow> string \<Rightarrow> string" where
  "percent_encode P s = concat (map (\<lambda>c. if P c then
     [CHR ''%'', hex_upper ((of_char c :: nat) div 16), hex_upper ((of_char c :: nat) mod 16)] else [c]) s)"

definition query_encoded :: "char \<Rightarrow> bool" where
  "query_encoded c \<longleftrightarrow> c \<in> set ''#<>'' \<or> c = CHR 0x22 \<or> c = CHR 0x27"

definition path_encoded :: "char \<Rightarrow> bool" where
  "path_encoded c \<longleftrightarrow> c \<in> set ''#<>?^{}'' \<or> c = CHR 0x22 \<or> c = CHR 0x60"

definition url_text :: "string \<Rightarrow> string option \<Rightarrow> string" where
  "url_text path query = percent_encode path_encoded path @
     (case query of None \<Rightarrow> [] | Some q \<Rightarrow> if q = [] then [] else ''?'' @ percent_encode query_encoded q)"

record exact_target =
  xt_inboundTarget :: string
  xt_rawPath :: string
  xt_rawQuery :: "string option"
  xt_targetPathAndQuery :: string

definition split_query :: "string \<Rightarrow> string \<times> string option" where
  "split_query s = (case dropWhile (\<lambda>c. c \<noteq> CHR ''?'') s of
     [] \<Rightarrow> (s, None) | _ # q \<Rightarrow> (takeWhile (\<lambda>c. c \<noteq> CHR ''?'') s, Some q))"

definition parseTargetPathAndQuery :: "string \<Rightarrow> string \<Rightarrow> fed_error + exact_target" where
  "parseTargetPathAndQuery inbound targetPathAndQuery =
     (let (rawPath, rawQuery) = split_query targetPathAndQuery in
      case first_fed_error
        [fed_check (take 5 rawPath \<noteq> ''/api/'' \<or> rawPath = ''/api/'') ''INVALID_REQUEST_TARGET'',
         fed_check (length rawPath > 4096 \<or> (case rawQuery of None \<Rightarrow> False | Some q \<Rightarrow> length q > 4096)) ''REQUEST_TARGET_TOO_LARGE'',
         assertSafePath rawPath,
         fed_check (url_text rawPath rawQuery \<noteq> targetPathAndQuery) ''INVALID_REQUEST_TARGET'']
      of Some e \<Rightarrow> Inl e
       | None \<Rightarrow> Inr \<lparr>xt_inboundTarget = inbound, xt_rawPath = rawPath, xt_rawQuery = rawQuery,
           xt_targetPathAndQuery = targetPathAndQuery\<rparr>)"

text \<open>At the target, and at the master below the prefix of the proxy.\<close>

definition parseExactTargetApiRequest :: "string \<Rightarrow> fed_error + exact_target" where
  "parseExactTargetApiRequest inboundTarget =
     (case assertBoundedRequestTarget inboundTarget of
        Some e \<Rightarrow> Inl e
      | None \<Rightarrow> parseTargetPathAndQuery inboundTarget inboundTarget)"

definition parseExactFederationTarget :: "string \<Rightarrow> string \<Rightarrow> fed_error + exact_target" where
  "parseExactFederationTarget inboundTarget serverId =
     (let prefix = ''/api/proxy/'' @ serverId @ ''/'' in
      case first_fed_error
        [fed_check (\<not> rx_test UUID serverId) ''INVALID_SERVER_ID'',
         assertBoundedRequestTarget inboundTarget,
         fed_check (take (length prefix) inboundTarget \<noteq> prefix) ''REQUEST_TARGET_MISMATCH'']
      of Some e \<Rightarrow> Inl e
       | None \<Rightarrow> parseTargetPathAndQuery inboundTarget (''/api/'' @ drop (length prefix) inboundTarget))"

end
