(* ===== verification/Fed_Claims.thy ===== *)
theory Fed_Claims
  imports Fed_Request
begin

text \<open>
  The signed assertion of a request between panels, \<open>api/src/federation/delegation-envelope.ts\<close>.
  The master signs a payload of 21 lines, built from its claims and from the request; the
  assertion that travels is the JSON text of the claims alone. What arrives is the attacker's:
  the claims are the JSON value that was parsed, whatever its types, and the checks see its
  members as JavaScript does, through the conversion to a text. Ed25519, the domain cipher of
  the master key and \<open>JSON.parse\<close> are members of the environment.
\<close>

section \<open>Conversions\<close>

text \<open>\<open>String(v)\<close>\<close>

fun js_text :: "json \<Rightarrow> string" where
  "js_text JUndefined = ''undefined''"
| "js_text JNull = ''null''"
| "js_text (JBool b) = (if b then ''true'' else ''false'')"
| "js_text (JNum i) = show_int i"
| "js_text (JStr s) = s"
| "js_text (JArr vs) = join_with (CHR '','') (map (\<lambda>v. if v = JNull \<or> v = JUndefined then [] else js_text v) vs)"
| "js_text (JObj _) = ''[object Object]''"

definition js_test :: "rx \<Rightarrow> json \<Rightarrow> bool" where "js_test r v = rx_test r (js_text v)"

text \<open>
  \<open>v > w\<close>, for members that match the pattern of a permission: a text compared with a number
  is compared as \<open>NaN\<close>.
\<close>

fun js_primitive :: "json \<Rightarrow> string + int" where
  "js_primitive JNull = Inr 0"
| "js_primitive (JBool b) = Inr (if b then 1 else 0)"
| "js_primitive (JNum i) = Inr i"
| "js_primitive v = Inl (js_text v)"

definition js_greater :: "json \<Rightarrow> json \<Rightarrow> bool" where
  "js_greater v w =
     (case (js_primitive v, js_primitive w) of
        (Inl s, Inl t) \<Rightarrow> t < s | (Inr m, Inr n) \<Rightarrow> n < m | _ \<Rightarrow> False)"

text \<open>\<open>new Set(vs).size === vs.length\<close>: two arrays or objects are never the same member.\<close>

fun is_reference :: "json \<Rightarrow> bool" where
  "is_reference (JArr _) = True"
| "is_reference (JObj _) = True"
| "is_reference _ = False"

definition js_distinct :: "json list \<Rightarrow> bool" where
  "js_distinct vs = distinct (filter (\<lambda>v. \<not> is_reference v) vs)"

fun is_safe_integer :: "json \<Rightarrow> bool" where
  "is_safe_integer (JNum i) = (- max_safe_integer \<le> i \<and> i \<le> max_safe_integer)"
| "is_safe_integer _ = False"

fun int_of_json :: "json \<Rightarrow> int" where
  "int_of_json (JNum i) = i"
| "int_of_json _ = 0"

section \<open>Patterns\<close>

definition base64url_class :: rx where "base64url_class = Cls base64url_char"
definition FED_KEY_ID :: rx where "FED_KEY_ID = Cat (lit ''ed25519-'') (Rep 22 22 base64url_class)"
definition NONCE :: rx where "NONCE = Rep 22 64 base64url_class"
definition SUBJECT :: rx where "SUBJECT = Rep 1 128 (Cls printable)"
definition OPTIONAL_ID :: rx where "OPTIONAL_ID = Rep 8 128 (Cls safe_id_char)"

definition FED_PERMISSION :: rx where
  "FED_PERMISSION = cats [Cls lower, Star (Cls (\<lambda>c. lower c \<or> digit_char c)),
     Star (Cat (Cls (\<lambda>c. c \<in> set ''.:_-'')) (plus (Cls (\<lambda>c. lower c \<or> digit_char c))))]"

definition METHODS :: "string list" where
  "METHODS = [''DELETE'', ''GET'', ''HEAD'', ''OPTIONS'', ''PATCH'', ''POST'', ''PUT'']"

text \<open>\<open>isIP\<close> of the runtime: the patterns of its two families.\<close>

definition any_hex :: "char \<Rightarrow> bool" where
  "any_hex c = (digit_char c \<or> (CHR ''a'' \<le> c \<and> c \<le> CHR ''f'') \<or> (CHR ''A'' \<le> c \<and> c \<le> CHR ''F''))"

definition V4SEG :: rx where
  "V4SEG = alts [Cat (lit ''25'') (Cls (\<lambda>c. CHR ''0'' \<le> c \<and> c \<le> CHR ''5'')),
     cats [lit ''2'', Cls (\<lambda>c. CHR ''0'' \<le> c \<and> c \<le> CHR ''4''), Cls digit_char],
     Cat (lit ''1'') (Rep 2 2 (Cls digit_char)), Cat (Cls (\<lambda>c. CHR ''1'' \<le> c \<and> c \<le> CHR ''9'')) (Cls digit_char),
     Cls digit_char]"

definition IPV4 :: rx where "IPV4 = Cat (Rep 3 3 (Cat V4SEG (lit ''.''))) V4SEG"

definition V6SEG :: rx where "V6SEG = Rep 1 4 (Cls any_hex)"
definition V6HEAD :: "nat \<Rightarrow> rx" where "V6HEAD n = Rep n n (Cat V6SEG (lit '':''))"
definition V6TAIL :: "nat \<Rightarrow> nat \<Rightarrow> rx" where "V6TAIL m n = Rep m n (Cat (lit '':'') V6SEG)"

definition V6FORM :: "nat \<Rightarrow> rx" where
  "V6FORM n = Cat (V6HEAD n) (alts [cats [V6TAIL 0 (5 - n), lit '':'', IPV4], V6TAIL 1 (7 - n), lit '':''])"

definition IPV6 :: rx where
  "IPV6 = Cat (alts ([Cat (V6HEAD 7) (Alt V6SEG (lit '':'')), Cat (V6HEAD 6) (alts [IPV4, V6TAIL 1 1, lit '':''])] @
       map V6FORM [5, 4, 3, 2, 1] @
       [Cat (lit '':'') (alts [cats [V6TAIL 0 5, lit '':'', IPV4], V6TAIL 1 7, lit '':''])]))
     (opt (Cat (lit ''%'') (plus (Cls (\<lambda>c. lower c \<or> upper c \<or> digit_char c \<or> c \<in> set ''-.:'')))))"

definition is_ip :: "string \<Rightarrow> bool" where "is_ip s \<longleftrightarrow> rx_test IPV4 s \<or> rx_test IPV6 s"

section \<open>Claims and request\<close>

definition permission_list :: "json \<Rightarrow> json list option" where
  "permission_list claims =
     (case field claims ''permissions'' of JArr vs \<Rightarrow> Some vs | JStr s \<Rightarrow> Some (map (\<lambda>c. JStr [c]) s) | _ \<Rightarrow> None)"

text \<open>\<open>permissions.some((permission, index) => index > 0 && permissions[index - 1] > permission)\<close>\<close>

fun js_unsorted :: "json list \<Rightarrow> bool" where
  "js_unsorted (v # w # vs) = (js_greater v w \<or> js_unsorted (w # vs))"
| "js_unsorted _ = False"

text \<open>\<open>claims.browserIp.length > 64 || isIP(claims.browserIp) === 0\<close>, where the member has a length.\<close>

definition browser_ip_bad :: "json \<Rightarrow> bool" where
  "browser_ip_bad v =
     ((case v of JStr s \<Rightarrow> length s > 64 | JArr vs \<Rightarrow> length vs > 64 | _ \<Rightarrow> False) \<or> \<not> is_ip (js_text v))"

definition role_names :: "string list" where "role_names = [''ADMIN'', ''MANAGER'', ''VIEWER'', ''SERVICE'']"

text \<open>
  A missing or mistyped list of permissions, and a missing address, throw a \<open>TypeError\<close>;
  everything else is \<open>INVALID_CLAIMS\<close>.
\<close>

definition assertClaims :: "json \<Rightarrow> fed_error option" where
  "assertClaims claims =
     (let f = field claims in
      case permission_list claims of
        None \<Rightarrow> Some Uncoded
      | Some permissions \<Rightarrow> first_fed_error
         [fed_check (\<not> js_test FED_KEY_ID (f ''keyId'')) ''INVALID_CLAIMS'',
          fed_check (\<not> js_test UUID (f ''requestId'')) ''INVALID_CLAIMS'',
          fed_check (\<not> js_test UUID (f ''targetInstallationId'')) ''INVALID_CLAIMS'',
          fed_check (\<not> js_test UUID (f ''issuerInstallationId'')) ''INVALID_CLAIMS'',
          fed_check (\<not> js_test ACTION_ID (f ''actionId'')) ''INVALID_CLAIMS'',
          fed_check (\<not> js_test NONCE (f ''nonce'')) ''INVALID_CLAIMS'',
          fed_check (\<not> js_test SUBJECT (f ''subject'')) ''INVALID_CLAIMS'',
          (if f ''browserIp'' = JUndefined \<or> f ''browserIp'' = JNull then Some Uncoded else None),
          fed_check (browser_ip_bad (f ''browserIp'')) ''INVALID_CLAIMS'',
          fed_check (f ''actorKind'' \<noteq> JStr ''OPERATOR'' \<and> f ''actorKind'' \<noteq> JStr ''SERVICE'') ''INVALID_CLAIMS'',
          fed_check (f ''role'' \<notin> JStr ` set role_names) ''INVALID_CLAIMS'',
          fed_check ((f ''actorKind'' = JStr ''SERVICE'') \<noteq> (f ''role'' = JStr ''SERVICE'')) ''INVALID_CLAIMS'',
          fed_check (\<not> is_safe_integer (f ''issuedAt'') \<or> \<not> is_safe_integer (f ''expiresAt'')) ''INVALID_CLAIMS'',
          fed_check (int_of_json (f ''expiresAt'') \<le> int_of_json (f ''issuedAt'')) ''INVALID_CLAIMS'',
          fed_check (int_of_json (f ''expiresAt'') - int_of_json (f ''issuedAt'') > 60) ''INVALID_CLAIMS'',
          fed_check (\<not> is_safe_integer (f ''principalVersion'') \<or> int_of_json (f ''principalVersion'') < 1) ''INVALID_CLAIMS'',
          fed_check (length permissions > 64 \<or> list_ex (\<lambda>p. \<not> js_test FED_PERMISSION p) permissions \<or>
            \<not> js_distinct permissions \<or> js_unsorted permissions) ''INVALID_CLAIMS'',
          fed_check (f ''operationId'' \<noteq> JNull \<and> \<not> js_test OPTIONAL_ID (f ''operationId'')) ''INVALID_CLAIMS'',
          fed_check (f ''idempotencyId'' \<noteq> JNull \<and> \<not> js_test OPTIONAL_ID (f ''idempotencyId'')) ''INVALID_CLAIMS''])"

record binding =
  bi_method :: string
  bi_targetPathAndQuery :: string
  bi_headers :: "fed_header list"
  bi_bodySha256 :: string

definition header_name_ok :: "string \<Rightarrow> bool" where
  "header_name_ok s = (s \<noteq> [] \<and> list_all (\<lambda>c. lower c \<or> digit_char c \<or> c = CHR ''-'') s)"

fun headers_canonical :: "fed_header list \<Rightarrow> bool" where
  "headers_canonical (h # h' # hs) =
     (header_name_ok (fh_name h) \<and> header_text (fh_value h) \<and> fh_name h < fh_name h' \<and> headers_canonical (h' # hs))"
| "headers_canonical [h] = (header_name_ok (fh_name h) \<and> header_text (fh_value h))"
| "headers_canonical [] = True"

definition assertBinding :: "binding \<Rightarrow> fed_error option" where
  "assertBinding b = first_fed_error
     [fed_check (bi_method b \<notin> set METHODS \<or> take 5 (bi_targetPathAndQuery b) \<noteq> ''/api/'' \<or>
        \<not> list_all printable (bi_targetPathAndQuery b) \<or> \<not> rx_test SHA256_HEX (bi_bodySha256 b)) ''INVALID_CLAIMS'',
      fed_check (\<not> headers_canonical (bi_headers b)) ''INVALID_CLAIMS'']"

section \<open>The payload\<close>

text \<open>\<open>canonicalJson\<close>: on values without \<open>undefined\<close>, which no parser and no panel makes, it is \<open>stableJson\<close>.\<close>

definition canonicalJson :: "json \<Rightarrow> string" where "canonicalJson v = stable_json v"

definition header_json :: "fed_header list \<Rightarrow> json" where
  "header_json hs = JArr (map (\<lambda>h. JObj [(''name'', JStr (fh_name h)), (''value'', JStr (fh_value h))]) hs)"

definition or_dash :: "json \<Rightarrow> json" where
  "or_dash v = (if v = JNull \<or> v = JUndefined then JStr ''-'' else v)"

definition claim_lines :: "json \<Rightarrow> (string \<times> json) list" where
  "claim_lines claims = (let f = field claims in
     [(''key-id:'', f ''keyId''), (''issued-at:'', f ''issuedAt''), (''expires-at:'', f ''expiresAt''), (''nonce:'', f ''nonce''),
      (''request-id:'', f ''requestId''), (''target-installation-id:'', f ''targetInstallationId''),
      (''action-id:'', f ''actionId''), (''actor-kind:'', f ''actorKind''),
      (''issuer-installation-id:'', f ''issuerInstallationId''), (''subject:'', f ''subject''),
      (''browser-ip:'', f ''browserIp''), (''role:'', f ''role''), (''permissions:'', f ''permissions''),
      (''principal-version:'', f ''principalVersion''), (''operation-id:'', or_dash (f ''operationId'')),
      (''idempotency-id:'', or_dash (f ''idempotencyId''))])"

definition binding_lines :: "binding \<Rightarrow> string list" where
  "binding_lines b =
     [''method:'' @ bi_method b, ''target:'' @ bi_targetPathAndQuery b,
      ''headers:'' @ base64url (utf8_bytes (canonicalJson (header_json (bi_headers b)))),
      ''body-sha256:'' @ bi_bodySha256 b]"

definition payload_lines :: "json \<Rightarrow> binding \<Rightarrow> string list" where
  "payload_lines claims b =
     ''MEOWBOX-EDDSA-V1'' # map (\<lambda>(k, v). k @ js_text v) (claim_lines claims) @ binding_lines b"

definition line_text :: "string list \<Rightarrow> string" where
  "line_text ls = concat (map (\<lambda>l. l @ [CHR 0x0A]) ls)"

text \<open>\<open>permissions.join\<close> throws where the list is a text.\<close>

definition buildDelegationPayload :: "json \<Rightarrow> binding \<Rightarrow> fed_error + bytes" where
  "buildDelegationPayload claims b =
     (case first_fed_error [assertClaims claims, assertBinding b] of
        Some e \<Rightarrow> Inl e
      | None \<Rightarrow>
         (case field claims ''permissions'' of
            JArr _ \<Rightarrow> Inr (utf8_bytes (line_text (payload_lines claims b)))
          | _ \<Rightarrow> Inl Uncoded))"

section \<open>Signatures\<close>

text \<open>
  \<open>fe_decrypt\<close> is \<open>decryptWithDomain('federation', ...)\<close>, \<open>fe_sign\<close> signs with a stored private
  key, \<open>fe_verify\<close> verifies with a stored public key; they are \<open>None\<close> or \<open>False\<close> where the
  library throws or the key is not of Ed25519. \<open>fe_json\<close> reads a JSON text of bytes with the
  lenient decoder of \<open>Buffer\<close>, \<open>fe_body_json\<close> with the strict one.
\<close>

record fed_env =
  fe_sha :: "bytes \<Rightarrow> bytes"
  fe_json :: "bytes \<Rightarrow> json option"
  fe_body_json :: "bytes \<Rightarrow> json option"
  fe_decrypt :: "string \<Rightarrow> json option"
  fe_sign :: "json \<Rightarrow> bytes \<Rightarrow> bytes option"
  fe_verify :: "string \<Rightarrow> bytes \<Rightarrow> bytes \<Rightarrow> bool"

record relationship =
  rk_issuerInstallationId :: string
  rk_targetInstallationId :: string
  rk_kid :: string
  rk_publicKeySpki :: string
  rk_encryptedPrivateKey :: string

definition openFederationPrivateKey :: "fed_env \<Rightarrow> relationship \<Rightarrow> json option" where
  "openFederationPrivateKey env k =
     (case fe_decrypt env (rk_encryptedPrivateKey k) of
        None \<Rightarrow> None
      | Some stored \<Rightarrow>
         if field stored ''version'' \<noteq> JNum 1 \<or> field stored ''kind'' \<noteq> JStr ''RELATIONSHIP'' \<or>
            field stored ''issuerInstallationId'' \<noteq> JStr (rk_issuerInstallationId k) \<or>
            field stored ''targetInstallationId'' \<noteq> JStr (rk_targetInstallationId k) \<or>
            field stored ''kid'' \<noteq> JStr (rk_kid k) \<or> \<not> js_test FED_KEY_ID (field stored ''kid'')
         then None else Some (field stored ''privateKeyPkcs8''))"

definition signFederationPayload :: "fed_env \<Rightarrow> bytes \<Rightarrow> relationship \<Rightarrow> fed_error + string" where
  "signFederationPayload env payload k =
     (case openFederationPrivateKey env k of
        None \<Rightarrow> Inl Uncoded
      | Some private \<Rightarrow> (case fe_sign env private payload of None \<Rightarrow> Inl Uncoded | Some s \<Rightarrow> Inr (base64url s)))"

definition SIGNATURE_TEXT :: rx where "SIGNATURE_TEXT = Rep 86 86 base64url_class"

definition verifyFederationPayload :: "fed_env \<Rightarrow> bytes \<Rightarrow> string \<Rightarrow> string \<Rightarrow> bool" where
  "verifyFederationPayload env payload signature publicKeySpki =
     (rx_test SIGNATURE_TEXT signature \<and>
      (let s = base64url_decode signature in
       length s = 64 \<and> base64url s = signature \<and> fe_verify env publicKeySpki payload s))"

section \<open>Encoding and verification\<close>

record encoded_assertion =
  ea_assertion :: string
  ea_signature :: string

definition assertion_text :: "json \<Rightarrow> string" where
  "assertion_text claims = base64url (utf8_bytes (canonicalJson claims))"

definition encodeDelegationAssertion :: "fed_env \<Rightarrow> json \<Rightarrow> binding \<Rightarrow> relationship \<Rightarrow> fed_error + encoded_assertion" where
  "encodeDelegationAssertion env claims b k =
     (if field claims ''keyId'' \<noteq> JStr (rk_kid k) \<or>
         field claims ''issuerInstallationId'' \<noteq> JStr (rk_issuerInstallationId k) \<or>
         field claims ''targetInstallationId'' \<noteq> JStr (rk_targetInstallationId k)
      then Inl (Coded ''ASSERTION_BINDING_MISMATCH'')
      else case buildDelegationPayload claims b of
        Inl e \<Rightarrow> Inl e
      | Inr payload \<Rightarrow>
         (case signFederationPayload env payload k of
            Inl e \<Rightarrow> Inl e
          | Inr s \<Rightarrow> Inr \<lparr>ea_assertion = assertion_text claims, ea_signature = s\<rparr>))"

definition ASSERTION_TEXT :: rx where "ASSERTION_TEXT = Rep 1 8192 base64url_class"

definition decodeDelegationClaims :: "fed_env \<Rightarrow> string \<Rightarrow> fed_error + json" where
  "decodeDelegationClaims env assertion =
     (if \<not> rx_test ASSERTION_TEXT assertion then Inl (Coded ''INVALID_ASSERTION'')
      else case fe_json env (base64url_decode assertion) of
        None \<Rightarrow> Inl (Coded ''INVALID_ASSERTION'')
      | Some parsed \<Rightarrow>
         (case assertClaims parsed of
            Some e \<Rightarrow> Inl e
          | None \<Rightarrow>
             if assertion_text parsed \<noteq> assertion then Inl (Coded ''NON_CANONICAL_ASSERTION'') else Inr parsed))"

record delegation_context =
  dc_issuer :: string
  dc_target :: string
  dc_keyId :: string
  dc_publicKeySpki :: string
  dc_nowSeconds :: int
  dc_skew :: int

definition verifyDelegationAssertion :: "fed_env \<Rightarrow> encoded_assertion \<Rightarrow> binding \<Rightarrow> delegation_context \<Rightarrow> fed_error + json" where
  "verifyDelegationAssertion env encoded b c =
     (case decodeDelegationClaims env (ea_assertion encoded) of
        Inl e \<Rightarrow> Inl e
      | Inr claims \<Rightarrow>
     if field claims ''issuerInstallationId'' \<noteq> JStr (dc_issuer c) \<or>
        field claims ''targetInstallationId'' \<noteq> JStr (dc_target c) \<or> field claims ''keyId'' \<noteq> JStr (dc_keyId c)
     then Inl (Coded ''ASSERTION_BINDING_MISMATCH'')
     else if \<not> is_safe_integer (JNum (dc_nowSeconds c)) \<or> dc_skew c < 0 \<or>
        int_of_json (field claims ''issuedAt'') > dc_nowSeconds c + dc_skew c \<or>
        int_of_json (field claims ''expiresAt'') < dc_nowSeconds c - dc_skew c
     then Inl (Coded ''ASSERTION_EXPIRED'')
     else case buildDelegationPayload claims b of
        Inl e \<Rightarrow> Inl e
      | Inr payload \<Rightarrow>
         if verifyFederationPayload env payload (ea_signature encoded) (dc_publicKeySpki c)
         then Inr claims else Inl (Coded ''INVALID_SIGNATURE''))"

end
