(* ===== verification/Fed_Policy.thy ===== *)
theory Fed_Policy
  imports Fed_Claims
begin

text \<open>
  Which action a request may run: the permissions of a principal,
  \<open>api/src/federation/federation-principal-policy.ts\<close>, the policy of an action,
  \<open>federation-action-policy.ts\<close>, and the search of the action of a path in the catalogue,
  \<open>federation-action-catalogue.service.ts\<close> and \<open>shared/src/federation-actions.ts\<close>. The
  catalogue itself is generated and an argument.
\<close>

section \<open>Principals\<close>

record identity_binding =
  ib_issuerInstallationId :: string
  ib_targetInstallationId :: string
  ib_subject :: json
  ib_principalVersion :: json

definition assertFederationIdentityBinding :: "identity_binding \<Rightarrow> fed_error option" where
  "assertFederationIdentityBinding i = fed_check
     (\<not> rx_test UUID (ib_issuerInstallationId i) \<or> \<not> rx_test UUID (ib_targetInstallationId i) \<or>
      ib_issuerInstallationId i = ib_targetInstallationId i \<or> \<not> js_test SUBJECT (ib_subject i) \<or>
      \<not> is_safe_integer (ib_principalVersion i) \<or> int_of_json (ib_principalVersion i) < 1) ''INVALID_IDENTITY''"

text \<open>\<open>JSON.parse\<close> of a policy that the panel stored, a list of permissions.\<close>

fun json_string :: "json \<Rightarrow> string option" where
  "json_string (JStr s) = Some s"
| "json_string _ = None"

definition parseFederationPermissions :: "string \<Rightarrow> fed_error + string list" where
  "parseFederationPermissions raw =
     (case json_parse raw of
        Some (JArr vs) \<Rightarrow>
          if length vs > 128 \<or> list_ex (\<lambda>v. case v of JStr s \<Rightarrow> \<not> rx_test FED_PERMISSION s | _ \<Rightarrow> True) vs \<or> \<not> distinct vs
          then Inl (Coded ''POLICY_INVALID'') else Inr (List.map_filter json_string vs)
      | _ \<Rightarrow> Inl (Coded ''POLICY_INVALID''))"

text \<open>
  Only texts are members of a policy; there is at least one.
\<close>

definition intersectFederationPermissions :: "json list \<Rightarrow> string list list \<Rightarrow> fed_error + string list" where
  "intersectFederationPermissions asserted policies =
     (if length asserted > 64 \<or> list_ex (\<lambda>p. \<not> js_test FED_PERMISSION p) asserted \<or> \<not> js_distinct asserted
      then Inl (Coded ''INVALID_IDENTITY'')
      else Inr (sort (filter (\<lambda>s. list_all (\<lambda>policy. s \<in> set policy) policies) (List.map_filter json_string asserted))))"

section \<open>The catalogue\<close>

record descriptor =
  ad_actionId :: string
  ad_http :: "(string \<times> string) option"
  ad_owner :: string
  ad_mode :: string
  ad_roles :: "string list"
  ad_permissions :: "string list"
  ad_requestMedia :: "string list"
  ad_responseMedia :: "string list"
  ad_idempotency :: string
  ad_cancellation :: string
  ad_deadlines :: "json list"
  ad_remoteActivation :: string

text \<open>\<open>/^[A-Za-z0-9._~:/\-*]+$/\<close>\<close>

definition template_char :: "char \<Rightarrow> bool" where
  "template_char c = (upper c \<or> lower c \<or> digit_char c \<or> c \<in> set ''._~:/-*'')"

definition isSafeRouteTemplate :: "string \<Rightarrow> bool" where
  "isSafeRouteTemplate t = (take 5 t = ''/api/'' \<and> \<not> has_text t ''//'' \<and> \<not> has_text t ''..'' \<and> list_all template_char t)"

text \<open>\<open>decodeRouteParameter(value) !== null\<close>\<close>

definition route_parameter :: "string \<Rightarrow> bool" where
  "route_parameter s =
     (case decode_component s of
        None \<Rightarrow> False
      | Some bs \<Rightarrow> bs \<noteq> [] \<and> \<not> dot_segment bs \<and> 0x2F \<notin> set bs \<and> 0x5C \<notin> set bs \<and> \<not> list_ex control_byte bs)"

text \<open>\<open>/^:[A-Za-z_][A-Za-z0-9_]*$/\<close>\<close>

definition PARAMETER_NAME :: rx where
  "PARAMETER_NAME = cats [lit '':'', Cls (\<lambda>c. upper c \<or> lower c \<or> c = CHR ''_''),
     Star (Cls (\<lambda>c. upper c \<or> lower c \<or> digit_char c \<or> c = CHR ''_''))]"

definition segment_matches :: "string \<Rightarrow> string \<Rightarrow> bool" where
  "segment_matches t c =
     (if take 1 t \<noteq> '':'' then t = c else rx_test PARAMETER_NAME t \<and> route_parameter c)"

definition matchesFederationRouteTemplate :: "string \<Rightarrow> string \<Rightarrow> bool" where
  "matchesFederationRouteTemplate routeTemplate concretePath =
     (isSafeRouteTemplate routeTemplate \<and> CHR ''*'' \<notin> set routeTemplate \<and> take 5 concretePath = ''/api/'' \<and>
      CHR ''?'' \<notin> set concretePath \<and> CHR ''#'' \<notin> set concretePath \<and> \<not> has_text concretePath ''//'' \<and>
      CHR 0x5C \<notin> set concretePath \<and> list_all printable concretePath \<and>
      list_all2 segment_matches (split_slash routeTemplate) (split_slash concretePath))"

definition HTTP_METHODS :: "string list" where
  "HTTP_METHODS = [''GET'', ''POST'', ''PUT'', ''PATCH'', ''DELETE'', ''ALL'', ''HEAD'', ''OPTIONS'']"

definition resolveConcreteHttpFederationAction :: "descriptor list \<Rightarrow> json \<Rightarrow> string \<Rightarrow> string \<Rightarrow> descriptor option" where
  "resolveConcreteHttpFederationAction actions actionId httpMethod concretePath =
     (case find_first (\<lambda>a. JStr (ad_actionId a) = actionId) actions of
        None \<Rightarrow> None
      | Some a \<Rightarrow>
         (case ad_http a of
            None \<Rightarrow> None
          | Some (m, template) \<Rightarrow>
              if ad_remoteActivation a \<noteq> ''ALLOW'' \<or> m = ''ALL'' \<or> m \<noteq> httpMethod \<or>
                 \<not> matchesFederationRouteTemplate template concretePath
              then None else Some a))"

definition resolveHttp :: "descriptor list \<Rightarrow> json \<Rightarrow> string \<Rightarrow> string \<Rightarrow> descriptor option" where
  "resolveHttp actions actionId httpMethod concretePath =
     (let normalizedMethod = js_upper httpMethod in
      if normalizedMethod \<notin> set HTTP_METHODS then None
      else resolveConcreteHttpFederationAction actions actionId normalizedMethod concretePath)"

text \<open>Two actions that match one path are an error of the catalogue.\<close>

definition resolveHttpByConcretePath :: "descriptor list \<Rightarrow> string \<Rightarrow> string \<Rightarrow> fed_error + descriptor option" where
  "resolveHttpByConcretePath actions httpMethod concretePath =
     (case filter (\<lambda>a. ad_http a \<noteq> None \<and> resolveHttp actions (JStr (ad_actionId a)) httpMethod concretePath \<noteq> None) actions of
        [] \<Rightarrow> Inr None
      | [a] \<Rightarrow> Inr (Some a)
      | _ \<Rightarrow> Inl Uncoded)"

section \<open>The policy of an action\<close>

text \<open>
  \<open>role in OPERATOR_ROLE_RANK\<close> also finds what every object inherits; a rank compared with
  such a member is compared with \<open>NaN\<close>.
\<close>

definition operator_rank :: "string \<Rightarrow> nat option" where
  "operator_rank role =
     (if role = ''VIEWER'' then Some 1 else if role = ''MANAGER'' then Some 2 else if role = ''ADMIN'' then Some 3 else None)"

definition inherited_names :: "string list" where
  "inherited_names = [''constructor'', ''__defineGetter__'', ''__defineSetter__'', ''hasOwnProperty'', ''__lookupGetter__'',
     ''__lookupSetter__'', ''isPrototypeOf'', ''propertyIsEnumerable'', ''toString'', ''valueOf'', ''__proto__'', ''toLocaleString'']"

definition exceeds_ceiling :: "json \<Rightarrow> string \<Rightarrow> bool" where
  "exceeds_ceiling role maxRole =
     (case operator_rank maxRole of
        None \<Rightarrow> maxRole \<notin> set inherited_names
      | Some ceiling \<Rightarrow> (case operator_rank (js_text role) of Some rank \<Rightarrow> rank > ceiling | None \<Rightarrow> False))"

definition role_policy :: "descriptor \<Rightarrow> json \<Rightarrow> string \<Rightarrow> fed_error option" where
  "role_policy d claims issuerMaxRole =
     (if field claims ''actorKind'' = JStr ''OPERATOR'' then first_fed_error
        [fed_check (field claims ''role'' = JStr ''SERVICE'' \<or> field claims ''role'' \<notin> JStr ` set (ad_roles d)) ''ROLE_DENIED'',
         fed_check (exceeds_ceiling (field claims ''role'') issuerMaxRole) ''ROLE_CEILING_EXCEEDED'']
      else fed_check (field claims ''role'' \<noteq> JStr ''SERVICE'') ''ROLE_DENIED'')"

definition asserted_permissions :: "json \<Rightarrow> json list" where
  "asserted_permissions claims = (case field claims ''permissions'' of JArr vs \<Rightarrow> vs | _ \<Rightarrow> [])"

definition assertDelegatedActionPolicy ::
  "descriptor \<Rightarrow> json \<Rightarrow> string \<Rightarrow> string \<Rightarrow> string option \<Rightarrow> fed_error + string list"
where
  "assertDelegatedActionPolicy d claims issuerMaxRole issuerPermissionPolicyJson idempotencyKey =
     (case first_fed_error
        [fed_check (field claims ''actionId'' \<noteq> JStr (ad_actionId d)) ''ACTION_UNKNOWN'',
         fed_check ((field claims ''actorKind'' = JStr ''SERVICE'') \<noteq> (''SERVICE'' \<in> set (ad_roles d))) ''ACTOR_KIND_DENIED'',
         role_policy d claims issuerMaxRole] of
        Some e \<Rightarrow> Inl e
      | None \<Rightarrow>
     case parseFederationPermissions issuerPermissionPolicyJson of
        Inl e \<Rightarrow> Inl e
      | Inr policy \<Rightarrow>
     case intersectFederationPermissions (asserted_permissions claims) [policy, ad_permissions d] of
        Inl e \<Rightarrow> Inl e
      | Inr effective \<Rightarrow>
     if length effective \<noteq> length (ad_permissions d) \<or> \<not> set (ad_permissions d) \<subseteq> set effective
     then Inl (Coded ''PERMISSION_DENIED'')
     else if field claims ''idempotencyId'' \<noteq> json_opt idempotencyKey then Inl (Coded ''IDEMPOTENCY_BINDING_MISMATCH'')
     else Inr effective)"

text \<open>The permissions that are granted are asserted, in the policy of the issuer and asked for by the action.\<close>

lemma action_policy:
  assumes "assertDelegatedActionPolicy d claims maxRole policyJson key = Inr effective"
  shows "field claims ''actionId'' = JStr (ad_actionId d)" "field claims ''idempotencyId'' = json_opt key"
    "field claims ''actorKind'' = JStr ''SERVICE'' \<longleftrightarrow> ''SERVICE'' \<in> set (ad_roles d)"
    "role_policy d claims maxRole = None" "set effective = set (ad_permissions d)"
    "\<exists>policy. parseFederationPermissions policyJson = Inr policy \<and> set effective \<subseteq> set policy"
    "JStr ` set effective \<subseteq> set (asserted_permissions claims)"
  using assms
  by (auto simp: assertDelegatedActionPolicy_def intersectFederationPermissions_def map_filter_def
      split: option.splits sum.splits if_splits elim!: json_string.elims)

section \<open>Capabilities\<close>

record capability =
  cp_actionId :: string
  cp_schemaVersion :: json
  cp_enabled :: bool
  cp_roles :: "string list"
  cp_permissions :: "string list"
  cp_requestMedia :: "string list"
  cp_responseMedia :: "string list"
  cp_executionMode :: string
  cp_idempotency :: string
  cp_cancellation :: string
  cp_deadlines :: "json list"
  cp_legacySafe :: bool

text \<open>The deadlines are \<open>connectMs\<close>, \<open>headersMs\<close>, \<open>idleMs\<close> and \<open>operationMs\<close>, in this order.\<close>

definition join_nul :: "string list \<Rightarrow> string" where "join_nul ss = join_with (CHR 0x00) ss"

definition sameStrings :: "string list \<Rightarrow> string list \<Rightarrow> bool" where
  "sameStrings l r = (join_nul (sort l) = join_nul (sort r))"

definition federationCapabilityMatchesDescriptor :: "descriptor \<Rightarrow> capability option \<Rightarrow> bool" where
  "federationCapabilityMatchesDescriptor d capability =
     (case capability of
        None \<Rightarrow> False
      | Some c \<Rightarrow> cp_actionId c = ad_actionId d \<and> cp_schemaVersion c = JNum 1 \<and> sameStrings (cp_roles c) (ad_roles d) \<and>
          sameStrings (cp_permissions c) (ad_permissions d) \<and> sameStrings (cp_requestMedia c) (ad_requestMedia d) \<and>
          sameStrings (cp_responseMedia c) (ad_responseMedia d) \<and> cp_executionMode c = ad_mode d \<and>
          cp_idempotency c = ad_idempotency d \<and> cp_cancellation c = ad_cancellation d \<and> cp_deadlines c = ad_deadlines d \<and>
          \<not> cp_legacySafe c)"

end
