(* ===== verification/Fed_Store.thy ===== *)
theory Fed_Store
  imports Fed_Policy
begin

text \<open>
  The tables of the federation and the services that write them when a request is admitted:
  the tombstones of consumed assertions, \<open>api/src/federation/federation-replay.service.ts\<close>, the
  receipts of idempotency keys, \<open>federation-idempotency.service.ts\<close>, and the principals,
  \<open>federated-principal.service.ts\<close> and \<open>service-principal.service.ts\<close>. The unique keys and the
  reference to the issuer are those of the schema; \<open>fault\<close> is an error of the database.
\<close>

section \<open>Tables\<close>

record fed_issuer =
  is_id :: string
  is_issuerInstallationId :: string
  is_targetInstallationId :: string
  is_state :: string
  is_maxRole :: string
  is_permissionPolicyJson :: string
  is_principalVersion :: int
  is_revokedAt :: "time option"

record fed_key =
  fk_kid :: string
  fk_issuerId :: string
  fk_publicKeySpki :: string
  fk_encryptedPrivateKey :: "string option"
  fk_state :: string
  fk_validFrom :: time
  fk_expiresAt :: "time option"
  fk_revokedAt :: "time option"

record fed_replay =
  fr_hash :: string
  fr_issuerId :: string
  fr_kid :: string
  fr_requestId :: string
  fr_actionId :: string
  fr_expiresAt :: time

record fed_receipt =
  fi_id :: string
  fi_issuerId :: string
  fi_actorKind :: string
  fi_subjectHash :: string
  fi_actionId :: string
  fi_keyHash :: string
  fi_requestHash :: string
  fi_requestId :: string
  fi_expiresAt :: time

record fed_principal =
  pr_id :: string
  pr_userId :: string
  pr_issuerId :: string
  pr_subject :: string
  pr_principalVersion :: int
  pr_displayLabel :: "string option"
  pr_tombstonedAt :: "time option"
  pr_lastSeenAt :: time

record fed_user =
  us_id :: string
  us_username :: string
  us_email :: string
  us_passwordHash :: string
  us_identityKind :: string
  us_role :: string

record fed_service =
  sp_id :: string
  sp_issuerId :: string
  sp_subject :: string
  sp_purposeNamespace :: string
  sp_state :: string
  sp_principalVersion :: int
  sp_permissionsJson :: string
  sp_deactivatedAt :: "time option"
  sp_lastSeenAt :: time

record fdb =
  fb_issuers :: "fed_issuer list"
  fb_keys :: "fed_key list"
  fb_replays :: "fed_replay list"
  fb_receipts :: "fed_receipt list"
  fb_principals :: "fed_principal list"
  fb_users :: "fed_user list"
  fb_services :: "fed_service list"

type_synonym 'a fed_outcome = "(fed_error + 'a) \<times> fdb"

definition fed_transaction :: "fed_error option \<Rightarrow> (fdb \<Rightarrow> 'a fed_outcome) \<Rightarrow> fdb \<Rightarrow> 'a fed_outcome" where
  "fed_transaction fault body db =
     (case fault of
        Some e \<Rightarrow> (Inl e, db)
      | None \<Rightarrow> (case body db of (Inl e, _) \<Rightarrow> (Inl e, db) | (Inr v, db') \<Rightarrow> (Inr v, db')))"

lemma fed_transaction_ok:
  "fed_transaction fault body db = (Inr v, db') \<longleftrightarrow> fault = None \<and> body db = (Inr v, db')"
  by (auto simp: fed_transaction_def split: option.splits prod.splits sum.splits)

lemma fed_transaction_error: "fed_transaction fault body db = (Inl e, db') \<Longrightarrow> db' = db"
  by (auto simp: fed_transaction_def split: option.splits prod.splits sum.splits)

text \<open>The codes of the database for a unique key, a missing reference, a lost transaction, and of the runtime for a wrong type.\<close>

definition unique_conflict :: fed_error where "unique_conflict = Coded ''P2002''"
definition missing_reference :: fed_error where "missing_reference = Coded ''P2003''"
definition lost_transaction :: fed_error where "lost_transaction = Coded ''P2034''"
definition wrong_type :: fed_error where "wrong_type = Coded ''ERR_INVALID_ARG_TYPE''"

definition fed_digest :: "fed_env \<Rightarrow> string list \<Rightarrow> string" where
  "fed_digest env parts = hex_of (fe_sha env (utf8_bytes (concat (map (\<lambda>p. p @ [CHR 0x00]) parts))))"

section \<open>Tombstones\<close>

record replay_input =
  ri_issuerId :: string
  ri_kid :: string
  ri_requestId :: json
  ri_actionId :: string
  ri_nonce :: json
  ri_expiresAt :: time

text \<open>\<open>createHash(...).update\<close> takes texts only.\<close>

definition replayHash :: "fed_env \<Rightarrow> replay_input \<Rightarrow> (string \<times> string) option" where
  "replayHash env i =
     (case (ri_requestId i, ri_nonce i) of
        (JStr r, JStr n) \<Rightarrow> Some (hex_of (fe_sha env (utf8_bytes
           (join_with (CHR 0x00) [ri_issuerId i, ri_kid i, r, ri_actionId i, n]))), r)
      | _ \<Rightarrow> None)"

text \<open>A positive integer of the configuration, or the default.\<close>

definition configured_integer :: "int option \<Rightarrow> int \<Rightarrow> int" where
  "configured_integer configured fallback = (case configured of Some n \<Rightarrow> if 0 < n then n else fallback | None \<Rightarrow> fallback)"

definition max_active_replays :: "int option \<Rightarrow> int" where
  "max_active_replays configured = configured_integer configured 10000"

definition replay_key :: "fed_replay \<Rightarrow> string \<times> string" where
  "replay_key r = (fr_issuerId r, fr_requestId r)"

definition create_replay :: "fed_replay \<Rightarrow> fdb \<Rightarrow> unit fed_outcome" where
  "create_replay r db =
     (if fr_hash r \<in> fr_hash ` set (fb_replays db) \<or> replay_key r \<in> replay_key ` set (fb_replays db) then (Inl unique_conflict, db)
      else if fr_issuerId r \<notin> is_id ` set (fb_issuers db) then (Inl missing_reference, db)
      else (Inr (), db\<lparr>fb_replays := fb_replays db @ [r]\<rparr>))"

definition consume_tx :: "int \<Rightarrow> replay_input \<Rightarrow> string \<Rightarrow> string \<Rightarrow> time \<Rightarrow> fdb \<Rightarrow> unit fed_outcome" where
  "consume_tx maxActive i hash requestId now db =
     (if maxActive \<le> int (count_rows (\<lambda>r. fr_issuerId r = ri_issuerId i \<and> now < fr_expiresAt r) (fb_replays db))
      then (Inl (Coded ''REPLAY_CAPACITY_EXCEEDED''), db)
      else create_replay \<lparr>fr_hash = hash, fr_issuerId = ri_issuerId i, fr_kid = ri_kid i, fr_requestId = requestId,
        fr_actionId = ri_actionId i, fr_expiresAt = ri_expiresAt i\<rparr> db)"

definition consume_replay ::
  "fed_env \<Rightarrow> int \<Rightarrow> replay_input \<Rightarrow> time \<Rightarrow> fed_error option \<Rightarrow> fdb \<Rightarrow> string fed_outcome"
where
  "consume_replay env maxActive i now fault db =
     (if ri_expiresAt i \<le> now then (Inl (Coded ''REPLAY_EXPIRY_INVALID''), db)
      else case replayHash env i of
        None \<Rightarrow> (Inl wrong_type, db)
      | Some (hash, requestId) \<Rightarrow>
         (case fed_transaction fault (consume_tx maxActive i hash requestId now) db of
            (Inl e, db') \<Rightarrow> (Inl (if e = unique_conflict then Coded ''REPLAY_DETECTED'' else e), db')
          | (Inr _, db') \<Rightarrow> (Inr hash, db')))"

text \<open>
  \<open>pruneExpired\<close>: the hashes it finds, the first to expire first, and the rows it then deletes.
\<close>

definition expired_replays :: "time \<Rightarrow> int \<Rightarrow> fdb \<Rightarrow> string list" where
  "expired_replays now batchSize db =
     map fr_hash (take (nat (max 1 (min 1000 batchSize))) (sort_key fr_expiresAt (filter (\<lambda>r. fr_expiresAt r \<le> now) (fb_replays db))))"

definition delete_replays :: "string list \<Rightarrow> fdb \<Rightarrow> nat \<times> fdb" where
  "delete_replays hashes db =
     (count_rows (\<lambda>r. fr_hash r \<in> set hashes) (fb_replays db),
      db\<lparr>fb_replays := delete_rows (\<lambda>r. fr_hash r \<in> set hashes) (fb_replays db)\<rparr>)"

definition prune_replays :: "time \<Rightarrow> int \<Rightarrow> fdb \<Rightarrow> nat \<times> fdb" where
  "prune_replays now batchSize db =
     (let expired = expired_replays now batchSize db in if expired = [] then (0, db) else delete_replays expired db)"

section \<open>Idempotency\<close>

record claim_input =
  ci_issuerId :: string
  ci_actorKind :: string
  ci_subject :: json
  ci_actionId :: string
  ci_idempotencyKey :: string
  ci_requestId :: string
  ci_requestHash :: string

definition federationRequestHash :: "fed_env \<Rightarrow> binding \<Rightarrow> string" where
  "federationRequestHash env b =
     fed_digest env [bi_method b, bi_targetPathAndQuery b, json_stringify (header_json (bi_headers b)), bi_bodySha256 b]"

definition receipt_ttl :: "int option \<Rightarrow> int" where
  "receipt_ttl configured =
     (case configured of Some n \<Rightarrow> if 0 < n \<and> n \<le> max_safe_integer then min n (30 * 24 * 60 * 60 * 1000) else 24 * 60 * 60 * 1000
      | None \<Rightarrow> 24 * 60 * 60 * 1000)"

text \<open>The selector: issuer, kind of actor, subject, action and key.\<close>

type_synonym selector = "string \<times> string \<times> string \<times> string \<times> string"

definition selector_of :: "fed_receipt \<Rightarrow> selector" where
  "selector_of r = (fi_issuerId r, fi_actorKind r, fi_subjectHash r, fi_actionId r, fi_keyHash r)"

definition claim_selector :: "fed_env \<Rightarrow> claim_input \<Rightarrow> string \<Rightarrow> selector" where
  "claim_selector env i subject =
     (ci_issuerId i, ci_actorKind i, fed_digest env [ci_actorKind i, subject], ci_actionId i, fed_digest env [ci_idempotencyKey i])"

definition throwExisting :: "fed_receipt \<Rightarrow> claim_input \<Rightarrow> fed_error" where
  "throwExisting existing i =
     (if fi_requestHash existing \<noteq> ci_requestHash i then Coded ''IDEMPOTENCY_CONFLICT'' else Coded ''IDEMPOTENCY_REPLAY'')"

definition new_fed_receipt :: "string \<Rightarrow> selector \<Rightarrow> claim_input \<Rightarrow> time \<Rightarrow> fed_receipt" where
  "new_fed_receipt rid s i expiresAt = (case s of (issuer, kind, subjectHash, action, keyHash) \<Rightarrow>
     \<lparr>fi_id = rid, fi_issuerId = issuer, fi_actorKind = kind, fi_subjectHash = subjectHash, fi_actionId = action,
      fi_keyHash = keyHash, fi_requestHash = ci_requestHash i, fi_requestId = ci_requestId i, fi_expiresAt = expiresAt\<rparr>)"

definition create_fed_receipt :: "fed_receipt \<Rightarrow> fdb \<Rightarrow> string fed_outcome" where
  "create_fed_receipt r db =
     (if fi_id r \<in> fi_id ` set (fb_receipts db) \<or> selector_of r \<in> selector_of ` set (fb_receipts db) then (Inl unique_conflict, db)
      else if fi_issuerId r \<notin> is_id ` set (fb_issuers db) then (Inl missing_reference, db)
      else (Inr (fi_id r), db\<lparr>fb_receipts := fb_receipts db @ [r]\<rparr>))"

definition claim_tx :: "string \<Rightarrow> selector \<Rightarrow> int \<Rightarrow> claim_input \<Rightarrow> time \<Rightarrow> fdb \<Rightarrow> string fed_outcome" where
  "claim_tx rid s ttl i now db =
     (let db1 = db\<lparr>fb_receipts := delete_rows (\<lambda>r. selector_of r = s \<and> fi_expiresAt r \<le> now) (fb_receipts db)\<rparr> in
      case find_first (\<lambda>r. selector_of r = s) (fb_receipts db1) of
        Some existing \<Rightarrow> (Inl (throwExisting existing i), db1)
      | None \<Rightarrow> create_fed_receipt (new_fed_receipt rid s i (now + ttl)) db1)"

text \<open>After a conflict of unique keys the receipt is searched once more.\<close>

definition claim_receipt ::
  "fed_env \<Rightarrow> string \<Rightarrow> int \<Rightarrow> claim_input \<Rightarrow> time \<Rightarrow> fed_error option \<Rightarrow> fdb \<Rightarrow> string fed_outcome"
where
  "claim_receipt env rid ttl i now fault db =
     (case ci_subject i of
        JStr subject \<Rightarrow>
          (let s = claim_selector env i subject in
           case fed_transaction fault (claim_tx rid s ttl i now) db of
             (Inr r, db') \<Rightarrow> (Inr r, db')
           | (Inl e, db') \<Rightarrow>
               (if e \<noteq> unique_conflict then (Inl e, db')
                else case find_first (\<lambda>r. selector_of r = s) (fb_receipts db') of
                  Some existing \<Rightarrow> (Inl (throwExisting existing i), db')
                | None \<Rightarrow> (Inl e, db')))
      | _ \<Rightarrow> (Inl wrong_type, db))"

definition prune_receipts :: "time \<Rightarrow> int \<Rightarrow> fdb \<Rightarrow> nat \<times> fdb" where
  "prune_receipts now limit db =
     (let expired = map fi_id (take (nat (max 1 (min 1000 limit)))
            (sort_key fi_expiresAt (filter (\<lambda>r. fi_expiresAt r \<le> now) (fb_receipts db)))) in
      if expired = [] then (0, db)
      else (count_rows (\<lambda>r. fi_id r \<in> set expired) (fb_receipts db),
            db\<lparr>fb_receipts := delete_rows (\<lambda>r. fi_id r \<in> set expired) (fb_receipts db)\<rparr>))"

section \<open>Principals\<close>

definition find_issuer :: "string \<Rightarrow> string \<Rightarrow> fdb \<Rightarrow> fed_issuer option" where
  "find_issuer issuer target db =
     find_first (\<lambda>i. is_issuerInstallationId i = issuer \<and> is_targetInstallationId i = target) (fb_issuers db)"

definition assertActiveIssuer :: "fed_issuer \<Rightarrow> int \<Rightarrow> fed_error option" where
  "assertActiveIssuer i version = first_fed_error
     [fed_check (is_state i \<noteq> ''ACTIVE'' \<or> is_revokedAt i \<noteq> None) ''ISSUER_NOT_ACTIVE'',
      fed_check (is_principalVersion i \<noteq> version) ''PRINCIPAL_VERSION_MISMATCH'']"

text \<open>One attempt to find or create the user of an operator: its random bytes, the new identifiers, a fault, the time.\<close>

record operator_attempt =
  oa_random :: bytes
  oa_userId :: string
  oa_principalId :: string
  oa_passwordHash :: string
  oa_fault :: "fed_error option"
  oa_now :: time

definition reserved_digest :: "fed_env \<Rightarrow> string \<Rightarrow> string \<Rightarrow> bytes \<Rightarrow> string" where
  "reserved_digest env issuer subject random =
     base64url (fe_sha env (utf8_bytes (issuer @ [CHR 0x00] @ subject @ [CHR 0x00]) @ random))"

definition new_fed_user :: "fed_env \<Rightarrow> string \<Rightarrow> string \<Rightarrow> operator_attempt \<Rightarrow> fed_user" where
  "new_fed_user env issuer subject a =
     (let digest = reserved_digest env issuer subject (oa_random a) in
      \<lparr>us_id = oa_userId a, us_username = ''__meowbox_federated_'' @ digest,
       us_email = ''federated+'' @ digest @ ''@federation.invalid'', us_passwordHash = oa_passwordHash a,
       us_identityKind = ''FEDERATED'', us_role = ''MANAGER''\<rparr>)"

text \<open>No caller gives a label.\<close>

definition new_fed_principal :: "fed_issuer \<Rightarrow> string \<Rightarrow> int \<Rightarrow> operator_attempt \<Rightarrow> fed_principal" where
  "new_fed_principal i subject version a =
     \<lparr>pr_id = oa_principalId a, pr_userId = oa_userId a, pr_issuerId = is_id i, pr_subject = subject,
      pr_principalVersion = version, pr_displayLabel = None, pr_tombstonedAt = None, pr_lastSeenAt = oa_now a\<rparr>"

definition create_principal :: "fed_user \<Rightarrow> fed_principal \<Rightarrow> fdb \<Rightarrow> (string \<times> string) fed_outcome" where
  "create_principal u p db =
     (if us_id u \<in> us_id ` set (fb_users db) \<or> us_username u \<in> us_username ` set (fb_users db) \<or>
         us_email u \<in> us_email ` set (fb_users db) \<or> pr_id p \<in> pr_id ` set (fb_principals db) \<or>
         pr_userId p \<in> pr_userId ` set (fb_principals db) \<or>
         (pr_issuerId p, pr_subject p) \<in> (\<lambda>q. (pr_issuerId q, pr_subject q)) ` set (fb_principals db)
      then (Inl unique_conflict, db)
      else (Inr (us_id u, pr_id p), db\<lparr>fb_users := fb_users db @ [u], fb_principals := fb_principals db @ [p]\<rparr>))"

definition existing_principal :: "fed_principal \<Rightarrow> int \<Rightarrow> operator_attempt \<Rightarrow> fdb \<Rightarrow> (string \<times> string) fed_outcome" where
  "existing_principal p version a db =
     (if pr_tombstonedAt p \<noteq> None then (Inl (Coded ''PRINCIPAL_TOMBSTONED''), db)
      else if (case find_first (\<lambda>u. us_id u = pr_userId p) (fb_users db) of
                 Some u \<Rightarrow> us_identityKind u \<noteq> ''FEDERATED'' | None \<Rightarrow> True) \<or> pr_principalVersion p \<noteq> version
      then (Inl (Coded ''PRINCIPAL_STATE_INVALID''), db)
      else (Inr (pr_userId p, pr_id p), db\<lparr>fb_principals :=
        update_rows (\<lambda>q. pr_id q = pr_id p) (\<lambda>q. q\<lparr>pr_lastSeenAt := oa_now a, pr_displayLabel := None\<rparr>) (fb_principals db)\<rparr>))"

definition operator_tx ::
  "fed_env \<Rightarrow> string \<Rightarrow> string \<Rightarrow> string \<Rightarrow> int \<Rightarrow> operator_attempt \<Rightarrow> fdb \<Rightarrow> (string \<times> string) fed_outcome"
where
  "operator_tx env issuer target subject version a db =
     (case find_issuer issuer target db of
        None \<Rightarrow> (Inl (Coded ''ISSUER_NOT_ACTIVE''), db)
      | Some i \<Rightarrow>
     case assertActiveIssuer i version of
        Some e \<Rightarrow> (Inl e, db)
      | None \<Rightarrow>
     case find_first (\<lambda>p. pr_issuerId p = is_id i \<and> pr_subject p = subject) (fb_principals db) of
        Some p \<Rightarrow> existing_principal p version a db
      | None \<Rightarrow> create_principal (new_fed_user env issuer subject a) (new_fed_principal i subject version a) db)"

text \<open>
  Up to three attempts. \<open>between\<close> is what other requests do before the next one.
\<close>

fun operator_attempts ::
  "fed_env \<Rightarrow> string \<Rightarrow> string \<Rightarrow> string \<Rightarrow> int \<Rightarrow> (fdb \<Rightarrow> fdb) \<Rightarrow> operator_attempt list \<Rightarrow> fdb \<Rightarrow> (string \<times> string) fed_outcome"
where
  "operator_attempts env issuer target subject version between [] db = (Inl (Coded ''PRINCIPAL_STATE_INVALID''), db)"
| "operator_attempts env issuer target subject version between (a # as) db =
     (case fed_transaction (oa_fault a) (operator_tx env issuer target subject version a) db of
        (Inr v, db') \<Rightarrow> (Inr v, db')
      | (Inl e, db') \<Rightarrow>
          if (e = unique_conflict \<or> e = lost_transaction) \<and> as \<noteq> []
          then operator_attempts env issuer target subject version between as (between db') else (Inl e, db'))"

definition resolveVerifiedOperator ::
  "fed_env \<Rightarrow> identity_binding \<Rightarrow> (fdb \<Rightarrow> fdb) \<Rightarrow> operator_attempt \<times> operator_attempt \<times> operator_attempt \<Rightarrow> fdb
     \<Rightarrow> (string \<times> string) fed_outcome"
where
  "resolveVerifiedOperator env i between attempts db =
     (case assertFederationIdentityBinding i of
        Some e \<Rightarrow> (Inl e, db)
      | None \<Rightarrow>
         (case (ib_subject i, attempts) of
            (JStr subject, a, b, c) \<Rightarrow> operator_attempts env (ib_issuerInstallationId i) (ib_targetInstallationId i) subject
               (int_of_json (ib_principalVersion i)) between [a, b, c] db
          | _ \<Rightarrow> (Inl wrong_type, db)))"

definition tombstone_principal :: "string \<Rightarrow> string \<Rightarrow> time \<Rightarrow> fdb \<Rightarrow> unit fed_outcome" where
  "tombstone_principal issuerId subject now db =
     (let P = (\<lambda>p. pr_issuerId p = issuerId \<and> pr_subject p = subject \<and> pr_tombstonedAt p = None);
          db' = db\<lparr>fb_principals := update_rows P (\<lambda>p. p\<lparr>pr_tombstonedAt := Some now\<rparr>) (fb_principals db)\<rparr> in
      if count_rows P (fb_principals db) \<noteq> 1 then (Inl (Coded ''PRINCIPAL_STATE_INVALID''), db') else (Inr (), db'))"

text \<open>
  A service is never created; the issuer is read first. The result is the principal and its
  permissions. \<open>fault\<close> is an error of the last write.
\<close>

definition service_action_allowed :: "string \<Rightarrow> string \<Rightarrow> bool" where
  "service_action_allowed purpose actionId \<longleftrightarrow>
     actionId = purpose \<or> take (Suc (length purpose)) actionId = purpose @ ''.''"

definition resolveVerifiedService ::
  "identity_binding \<Rightarrow> string \<Rightarrow> json list \<Rightarrow> time \<Rightarrow> fed_error option \<Rightarrow> fdb \<Rightarrow> fdb \<Rightarrow> (string \<times> string list) fed_outcome"
where
  "resolveVerifiedService i actionId permissions now fault seen db =
     (case first_fed_error [assertFederationIdentityBinding i, fed_check (\<not> rx_test ACTION_ID actionId) ''INVALID_IDENTITY''] of
        Some e \<Rightarrow> (Inl e, db)
      | None \<Rightarrow>
     case find_issuer (ib_issuerInstallationId i) (ib_targetInstallationId i) seen of
        None \<Rightarrow> (Inl (Coded ''ISSUER_NOT_ACTIVE''), db)
      | Some issuer \<Rightarrow>
     case assertActiveIssuer issuer (int_of_json (ib_principalVersion i)) of
        Some e \<Rightarrow> (Inl e, db)
      | None \<Rightarrow>
     case ib_subject i of
        JStr subject \<Rightarrow>
     (case find_first (\<lambda>p. sp_issuerId p = is_id issuer \<and> sp_subject p = subject) (fb_services db) of
        None \<Rightarrow> (Inl (Coded ''SERVICE_NOT_ENROLLED''), db)
      | Some p \<Rightarrow>
     if sp_state p \<noteq> ''ACTIVE'' \<or> sp_deactivatedAt p \<noteq> None \<or> sp_principalVersion p \<noteq> int_of_json (ib_principalVersion i)
     then (Inl (Coded ''PRINCIPAL_STATE_INVALID''), db)
     else if \<not> service_action_allowed (sp_purposeNamespace p) actionId then (Inl (Coded ''SERVICE_SCOPE_DENIED''), db)
     else case parseFederationPermissions (is_permissionPolicyJson issuer) of
        Inl e \<Rightarrow> (Inl e, db)
      | Inr issuerPermissions \<Rightarrow>
     case parseFederationPermissions (sp_permissionsJson p) of
        Inl e \<Rightarrow> (Inl e, db)
      | Inr principalPermissions \<Rightarrow>
     case intersectFederationPermissions permissions [issuerPermissions, principalPermissions] of
        Inl e \<Rightarrow> (Inl e, db)
      | Inr effective \<Rightarrow>
     case fault of
        Some e \<Rightarrow> (Inl e, db)
      | None \<Rightarrow> (Inr (sp_id p, effective), db\<lparr>fb_services :=
          update_rows (\<lambda>q. sp_id q = sp_id p) (\<lambda>q. q\<lparr>sp_lastSeenAt := now\<rparr>) (fb_services db)\<rparr>))
      | _ \<Rightarrow> (Inl Uncoded, db))"

end
