(* ===== verification/Fed_Verifier.thy ===== *)
theory Fed_Verifier
  imports Fed_Store
begin

text \<open>
  The admission of a request at the target panel: \<open>verify\<close> of
  \<open>api/src/federation/federation-delegation-verifier.service.ts\<close> and the guard in front of
  every controller, \<open>federation-delegation.guard.ts\<close>. \<open>verify\<close> is written as its four stages,
  because other requests may run between them: the checks, which only read; the tombstone of
  the assertion; the principal; the receipt of the idempotency key.
\<close>

section \<open>Verification\<close>

text \<open>The configuration of the target, its identity included.\<close>

record fed_config =
  fc_installationRole :: string
  fc_installationId :: string
  fc_maxActiveReplays :: "int option"
  fc_receiptTtlMs :: "int option"
  fc_catalogue :: "descriptor list"

record verify_input =
  vi_encoded :: encoded_assertion
  vi_binding :: binding
  vi_concretePath :: string
  vi_idempotencyKey :: "string option"

text \<open>What the first stage has read: the claims, the key with its issuer, the action and the permissions.\<close>

record fed_flight =
  fl_input :: verify_input
  fl_now :: time
  fl_claims :: json
  fl_key :: fed_key
  fl_issuer :: fed_issuer
  fl_descriptor :: descriptor
  fl_permissions :: "string list"

definition find_fed_key :: "json \<Rightarrow> fdb \<Rightarrow> (fed_key \<times> fed_issuer) option" where
  "find_fed_key kid db =
     (case find_first (\<lambda>k. JStr (fk_kid k) = kid) (fb_keys db) of
        None \<Rightarrow> None
      | Some k \<Rightarrow> map_option (Pair k) (find_first (\<lambda>i. is_id i = fk_issuerId k) (fb_issuers db)))"

definition key_inactive :: "fed_key \<Rightarrow> time \<Rightarrow> bool" where
  "key_inactive k now =
     (fk_state k \<noteq> ''ACTIVE'' \<or> fk_revokedAt k \<noteq> None \<or> now < fk_validFrom k \<or>
      (case fk_expiresAt k of None \<Rightarrow> False | Some t \<Rightarrow> t \<le> now))"

text \<open>The database refuses a search by something that is not a text.\<close>

fun is_text :: "json \<Rightarrow> bool" where
  "is_text (JStr _) = True"
| "is_text _ = False"

definition verify_checks :: "fed_env \<Rightarrow> fed_config \<Rightarrow> verify_input \<Rightarrow> time \<Rightarrow> fdb \<Rightarrow> fed_error + fed_flight" where
  "verify_checks env config input now db =
     (case decodeDelegationClaims env (ea_assertion (vi_encoded input)) of
        Inl e \<Rightarrow> Inl e
      | Inr untrusted \<Rightarrow>
     if fc_installationRole config \<noteq> ''TARGET'' then Inl (Coded ''TARGET_ROLE_INVALID'')
     else if \<not> is_text (field untrusted ''keyId'') then Inl Uncoded
     else case find_fed_key (field untrusted ''keyId'') db of
        None \<Rightarrow> Inl (Coded ''ISSUER_NOT_FOUND'')
      | Some (key, issuer) \<Rightarrow>
     if JStr (is_issuerInstallationId issuer) \<noteq> field untrusted ''issuerInstallationId'' \<or>
        is_targetInstallationId issuer \<noteq> fc_installationId config
     then Inl (Coded ''ISSUER_NOT_FOUND'')
     else if key_inactive key now then Inl (Coded ''KEY_NOT_ACTIVE'')
     else if fk_encryptedPrivateKey key \<noteq> None then Inl (Coded ''TARGET_PRIVATE_KEY_PRESENT'')
     else case verifyDelegationAssertion env (vi_encoded input) (vi_binding input)
         \<lparr>dc_issuer = is_issuerInstallationId issuer, dc_target = fc_installationId config, dc_keyId = fk_kid key,
          dc_publicKeySpki = fk_publicKeySpki key, dc_nowSeconds = now div 1000, dc_skew = 30\<rparr> of
        Inl e \<Rightarrow> Inl e
      | Inr claims \<Rightarrow>
     case resolveHttp (fc_catalogue config) (field claims ''actionId'') (bi_method (vi_binding input)) (vi_concretePath input) of
        None \<Rightarrow> Inl (Coded ''ACTION_DENIED'')
      | Some d \<Rightarrow>
     case assertDelegatedActionPolicy d claims (is_maxRole issuer) (is_permissionPolicyJson issuer) (vi_idempotencyKey input) of
        Inl e \<Rightarrow> Inl e
      | Inr effective \<Rightarrow>
          Inr \<lparr>fl_input = input, fl_now = now, fl_claims = claims, fl_key = key, fl_issuer = issuer, fl_descriptor = d,
               fl_permissions = effective\<rparr>)"

definition replay_expires :: "json \<Rightarrow> time \<Rightarrow> time" where
  "replay_expires claims now = max ((int_of_json (field claims ''expiresAt'') + 30) * 1000) (now + 120000)"

definition flight_replay :: "fed_flight \<Rightarrow> replay_input" where
  "flight_replay f =
     \<lparr>ri_issuerId = is_id (fl_issuer f), ri_kid = fk_kid (fl_key f), ri_requestId = field (fl_claims f) ''requestId'',
      ri_actionId = ad_actionId (fl_descriptor f), ri_nonce = field (fl_claims f) ''nonce'',
      ri_expiresAt = replay_expires (fl_claims f) (fl_now f)\<rparr>"

definition verify_consume :: "fed_env \<Rightarrow> fed_config \<Rightarrow> fed_flight \<Rightarrow> fed_error option \<Rightarrow> fdb \<Rightarrow> string fed_outcome" where
  "verify_consume env config f fault db =
     consume_replay env (max_active_replays (fc_maxActiveReplays config)) (flight_replay f) (fl_now f) fault db"

definition flight_identity :: "fed_flight \<Rightarrow> identity_binding" where
  "flight_identity f =
     \<lparr>ib_issuerInstallationId = js_text (field (fl_claims f) ''issuerInstallationId''),
      ib_targetInstallationId = js_text (field (fl_claims f) ''targetInstallationId''),
      ib_subject = field (fl_claims f) ''subject'', ib_principalVersion = field (fl_claims f) ''principalVersion''\<rparr>"

text \<open>What the other requests and the clock bring to the resolution of a principal.\<close>

record principal_run =
  pn_between :: "fdb \<Rightarrow> fdb"
  pn_attempts :: "operator_attempt \<times> operator_attempt \<times> operator_attempt"
  pn_seen :: fdb
  pn_fault :: "fed_error option"
  pn_now :: time

text \<open>The user (of an operator), the principal and its permissions.\<close>

definition verify_principal ::
  "fed_env \<Rightarrow> fed_flight \<Rightarrow> principal_run \<Rightarrow> fdb \<Rightarrow> (string option \<times> string \<times> string list) fed_outcome"
where
  "verify_principal env f r db =
     (if field (fl_claims f) ''actorKind'' = JStr ''OPERATOR'' then
        (case resolveVerifiedOperator env (flight_identity f) (pn_between r) (pn_attempts r) db of
           (Inl e, db') \<Rightarrow> (Inl e, db')
         | (Inr (userId, principalId), db') \<Rightarrow> (Inr (Some userId, principalId, fl_permissions f), db'))
      else
        (case resolveVerifiedService (flight_identity f) (ad_actionId (fl_descriptor f)) (asserted_permissions (fl_claims f))
             (pn_now r) (pn_fault r) (pn_seen r) db of
           (Inl e, db') \<Rightarrow> (Inl e, db')
         | (Inr (principalId, effective), db') \<Rightarrow>
             if \<not> set (ad_permissions (fl_descriptor f)) \<subseteq> set effective then (Inl (Coded ''SERVICE_PERMISSION_DENIED''), db')
             else (Inr (None, principalId, effective), db')))"

definition flight_claim :: "fed_env \<Rightarrow> fed_flight \<Rightarrow> string \<Rightarrow> claim_input" where
  "flight_claim env f key =
     \<lparr>ci_issuerId = is_id (fl_issuer f), ci_actorKind = js_text (field (fl_claims f) ''actorKind''),
      ci_subject = field (fl_claims f) ''subject'', ci_actionId = ad_actionId (fl_descriptor f), ci_idempotencyKey = key,
      ci_requestId = js_text (field (fl_claims f) ''requestId''),
      ci_requestHash = federationRequestHash env (vi_binding (fl_input f))\<rparr>"

text \<open>The receipt, for a request that carries a key.\<close>

definition verify_claim ::
  "fed_env \<Rightarrow> fed_config \<Rightarrow> fed_flight \<Rightarrow> string \<Rightarrow> fed_error option \<Rightarrow> fdb \<Rightarrow> string option fed_outcome"
where
  "verify_claim env config f rid fault db =
     (case vi_idempotencyKey (fl_input f) of
        None \<Rightarrow> (Inr None, db)
      | Some key \<Rightarrow>
         (case claim_receipt env rid (receipt_ttl (fc_receiptTtlMs config)) (flight_claim env f key) (fl_now f) fault db of
            (Inl e, db') \<Rightarrow> (Inl e, db') | (Inr r, db') \<Rightarrow> (Inr (Some r), db')))"

record fed_context =
  fx_flight :: fed_flight
  fx_permissions :: "string list"
  fx_userId :: "string option"
  fx_principalId :: string
  fx_receiptId :: "string option"
  fx_replayHash :: string

text \<open>
  The members of the context that the claims carry are read from them; only an address and an
  operation may be other values than texts.
\<close>

definition fx_claim :: "fed_context \<Rightarrow> string \<Rightarrow> json" where "fx_claim x k = field (fl_claims (fx_flight x)) k"

text \<open>The faults and identifiers of one verification.\<close>

record verify_run =
  vr_consumeFault :: "fed_error option"
  vr_principal :: principal_run
  vr_receiptId :: string
  vr_claimFault :: "fed_error option"

definition verify ::
  "fed_env \<Rightarrow> fed_config \<Rightarrow> verify_input \<Rightarrow> time \<Rightarrow> verify_run \<Rightarrow> fdb \<Rightarrow> fed_context fed_outcome"
where
  "verify env config input now r db =
     (case verify_checks env config input now db of
        Inl e \<Rightarrow> (Inl e, db)
      | Inr f \<Rightarrow>
     case verify_consume env config f (vr_consumeFault r) db of
        (Inl e, db1) \<Rightarrow> (Inl e, db1)
      | (Inr hash, db1) \<Rightarrow>
     case verify_principal env f (vr_principal r) db1 of
        (Inl e, db2) \<Rightarrow> (Inl e, db2)
      | (Inr (userId, principalId, effective), db2) \<Rightarrow>
     case verify_claim env config f (vr_receiptId r) (vr_claimFault r) db2 of
        (Inl e, db3) \<Rightarrow> (Inl e, db3)
      | (Inr receiptId, db3) \<Rightarrow>
          (Inr \<lparr>fx_flight = f, fx_permissions = effective, fx_userId = userId, fx_principalId = principalId,
                fx_receiptId = receiptId, fx_replayHash = hash\<rparr>, db3))"

section \<open>The guard\<close>

datatype request_body = No_Body | Raw_Body bytes | Parsed_Body json

text \<open>A request as the runtime hands it over: its headers by lower-case name, and the raw list.\<close>

record fed_request =
  rq_headers :: "(string \<times> string) list"
  rq_rawHeaders :: "string list"
  rq_method :: string
  rq_originalUrl :: string
  rq_body :: request_body

definition ASSERTION_HEADER :: string where "ASSERTION_HEADER = ''x-meowbox-assertion''"
definition SIGNATURE_HEADER :: string where "SIGNATURE_HEADER = ''x-meowbox-signature''"

definition hasFederationAssertionAttempt :: "fed_request \<Rightarrow> bool" where
  "hasFederationAssertionAttempt q =
     (list_ex (\<lambda>(name, v). name = ASSERTION_HEADER \<or> name = SIGNATURE_HEADER \<or> take 10 (js_lower name) = ''x-meowbox-'')
        (rq_headers q))"

definition signedHeader :: "fed_request \<Rightarrow> string \<Rightarrow> fed_error + string" where
  "signedHeader q name = (case truthy (map_of (rq_headers q) name) of None \<Rightarrow> Inl Uncoded | Some v \<Rightarrow> Inr v)"

definition assertFederationHeaderNamespace :: "(string \<times> string) list \<Rightarrow> fed_error option" where
  "assertFederationHeaderNamespace pairs =
     (if list_ex (\<lambda>(rawName, v). let name = js_lower rawName in
          take 10 name = ''x-meowbox-'' \<and> name \<noteq> ASSERTION_HEADER \<and> name \<noteq> SIGNATURE_HEADER) pairs
      then Some Uncoded else None)"

definition raw_body :: "fed_request \<Rightarrow> fed_error + bytes" where
  "raw_body q = (case rq_body q of No_Body \<Rightarrow> Inr [] | Raw_Body b \<Rightarrow> Inr b | Parsed_Body _ \<Rightarrow> Inl Uncoded)"

text \<open>Everything between the assertion header and the call of \<open>verify\<close>.\<close>

definition guard_input :: "fed_env \<Rightarrow> fed_request \<Rightarrow> string \<Rightarrow> string \<Rightarrow> fed_error + verify_input \<times> bytes" where
  "guard_input env q assertion signature =
     (case rawHeaderPairs (rq_rawHeaders q) of
        Inl e \<Rightarrow> Inl e
      | Inr pairs \<Rightarrow>
     case assertFederationHeaderNamespace pairs of
        Some e \<Rightarrow> Inl e
      | None \<Rightarrow>
     case canonicalizeFederationHeaders pairs of
        Inl e \<Rightarrow> Inl e
      | Inr headers \<Rightarrow>
     case raw_body q of
        Inl e \<Rightarrow> Inl e
      | Inr body \<Rightarrow>
     case validateGenericControlRequest (fe_sha env) (fe_body_json env) (js_upper (rq_method q)) headers body of
        Inl e \<Rightarrow> Inl e
      | Inr (bodySha256, key) \<Rightarrow>
     case parseExactTargetApiRequest (rq_originalUrl q) of
        Inl e \<Rightarrow> Inl e
      | Inr target \<Rightarrow>
          Inr (\<lparr>vi_encoded = \<lparr>ea_assertion = assertion, ea_signature = signature\<rparr>,
                vi_binding = \<lparr>bi_method = js_upper (rq_method q), bi_targetPathAndQuery = xt_targetPathAndQuery target,
                   bi_headers = headers, bi_bodySha256 = bodySha256\<rparr>,
                vi_concretePath = xt_rawPath target, vi_idempotencyKey = key\<rparr>, body))"

section \<open>The answer to a rejected request\<close>

definition VERIFIED_BOUNDARY_CODES :: "string list" where
  "VERIFIED_BOUNDARY_CODES = [''ACTION_DENIED'', ''ACTOR_KIND_DENIED'', ''ROLE_DENIED'', ''ROLE_CEILING_EXCEEDED'',
     ''PERMISSION_DENIED'', ''IDEMPOTENCY_BINDING_MISMATCH'', ''REPLAY_DETECTED'', ''REPLAY_CAPACITY_EXCEEDED'',
     ''IDEMPOTENCY_CONFLICT'', ''IDEMPOTENCY_REPLAY'', ''SERVICE_PERMISSION_DENIED'', ''PRINCIPAL_VERSION_MISMATCH'',
     ''PRINCIPAL_TOMBSTONED'', ''SERVICE_SCOPE_DENIED'']"

definition PERMISSION_CODES :: "string list" where
  "PERMISSION_CODES = [''ACTOR_KIND_DENIED'', ''ROLE_DENIED'', ''ROLE_CEILING_EXCEEDED'', ''PERMISSION_DENIED'',
     ''SERVICE_PERMISSION_DENIED'', ''SERVICE_SCOPE_DENIED'']"

record rejection =
  rj_status :: nat
  rj_code :: string
  rj_message :: string
  rj_requestId :: json
  rj_targetInstallationId :: json
  rj_actionId :: json
  rj_retryable :: bool
  rj_retryAfterSeconds :: "nat option"

text \<open>Status, code, message, and whether to come back; \<open>random\<close> is the identifier of an unknown request.\<close>

definition classify_error :: "string \<Rightarrow> nat \<times> string \<times> string \<times> bool" where
  "classify_error internalCode =
     (if internalCode = ''ACTION_DENIED'' then (404, ''REMOTE_ACTION_UNKNOWN'', ''Federation action is not available'', False)
      else if internalCode \<in> set PERMISSION_CODES then (403, ''REMOTE_PERMISSION_DENIED'', ''Federation action is not permitted'', False)
      else if take 12 internalCode = ''IDEMPOTENCY_''
      then (409, ''REMOTE_IDEMPOTENCY_CONFLICT'', ''Federation mutation requires reconciliation'', False)
      else if internalCode = ''REPLAY_DETECTED'' then (409, ''REMOTE_REPLAY_REJECTED'', ''Federation replay was rejected'', False)
      else if internalCode = ''REPLAY_CAPACITY_EXCEEDED''
      then (503, ''REMOTE_REPLAY_REJECTED'', ''Federation replay capacity is unavailable'', True)
      else (401, ''REMOTE_AUTH_FAILED'', ''Federation request rejected'', False))"

definition or_else :: "json \<Rightarrow> json \<Rightarrow> json" where
  "or_else v w = (if v = JNull \<or> v = JUndefined then w else v)"

definition rejectClassified :: "fed_error \<Rightarrow> json option \<Rightarrow> string \<Rightarrow> rejection" where
  "rejectClassified e decoded random =
     (let internalCode = code_of e;
          correlation = (if internalCode \<in> set VERIFIED_BOUNDARY_CODES then decoded else None);
          (status, code, message, retryable) = classify_error internalCode;
          told = (\<lambda>k. case correlation of None \<Rightarrow> JUndefined | Some claims \<Rightarrow> field claims k) in
      \<lparr>rj_status = status, rj_code = code, rj_message = message, rj_requestId = or_else (told ''requestId'') (JStr random),
       rj_targetInstallationId = or_else (told ''targetInstallationId'') JNull, rj_actionId = or_else (told ''actionId'') JNull,
       rj_retryable = retryable, rj_retryAfterSeconds = (if retryable then Some 1 else None)\<rparr>)"

section \<open>The decision of the guard\<close>

text \<open>A request without a header of the federation passes unchanged; one that is admitted carries its user and its body.\<close>

datatype fed_user_kind = Operator_User string string | Service_User string

datatype guard_answer =
    Not_Federated
  | Admitted fed_context fed_user_kind "json option"
  | Rejected rejection

definition request_user :: "fed_context \<Rightarrow> fed_user_kind" where
  "request_user x =
     (case fx_userId x of
        Some u \<Rightarrow> Operator_User u (js_text (fx_claim x ''role'')) | None \<Rightarrow> Service_User (''service:'' @ fx_principalId x))"

definition request_json :: "fed_env \<Rightarrow> bytes \<Rightarrow> json option" where
  "request_json env body = (if body = [] then None else fe_body_json env body)"

definition canActivate ::
  "fed_env \<Rightarrow> fed_config \<Rightarrow> fed_request \<Rightarrow> string \<Rightarrow> time \<Rightarrow> verify_run \<Rightarrow> fdb \<Rightarrow> guard_answer \<times> fdb"
where
  "canActivate env config q random now r db =
     (if \<not> hasFederationAssertionAttempt q then (Not_Federated, db)
      else case (signedHeader q ASSERTION_HEADER, signedHeader q SIGNATURE_HEADER) of
        (Inr assertion, Inr signature) \<Rightarrow>
         (case decodeDelegationClaims env assertion of
            Inl e \<Rightarrow> (Rejected (rejectClassified e None random), db)
          | Inr decoded \<Rightarrow>
             (case guard_input env q assertion signature of
                Inl e \<Rightarrow> (Rejected (rejectClassified e (Some decoded) random), db)
              | Inr (input, body) \<Rightarrow>
                 (case verify env config input now r db of
                    (Inl e, db') \<Rightarrow> (Rejected (rejectClassified e (Some decoded) random), db')
                  | (Inr x, db') \<Rightarrow> (Admitted x (request_user x) (request_json env body), db'))))
      | _ \<Rightarrow> (Rejected (rejectClassified Uncoded None random), db))"

end
