(* ===== verification/Fed_System.thy ===== *)
theory Fed_System
  imports Fed_Verifier "HOL-Library.Multiset"
begin

text \<open>
  The requests at one target as a system: the tables, the requests between two stages of
  \<open>verify\<close>, and those that were admitted, the last one at the end. A step is one stage of one
  request; the attempts of one request to create a principal are one step, because a failed
  attempt leaves nothing behind. The channels of the WebSocket consume assertions from the same
  table, and the enrolment changes the issuers, the keys and the services, but deletes no
  issuer. The two services' \<open>pruneExpired\<close> are no steps, because nothing calls them;
  \<open>Fed_Theorems\<close> says what a call would do.
\<close>

record fsys =
  fy_db :: fdb
  fy_checked :: "fed_flight list"
  fy_consumed :: "(fed_flight \<times> string) list"
  fy_resolved :: "(fed_flight \<times> string \<times> string option \<times> string \<times> string list) list"
  fy_admitted :: "fed_context list"

definition admit_flight :: "fed_flight \<Rightarrow> string \<Rightarrow> string option \<Rightarrow> string \<Rightarrow> string list \<Rightarrow> string option \<Rightarrow> fed_context" where
  "admit_flight f hash userId principalId effective receiptId =
     \<lparr>fx_flight = f, fx_permissions = effective, fx_userId = userId, fx_principalId = principalId,
      fx_receiptId = receiptId, fx_replayHash = hash\<rparr>"

definition only_registry :: "fdb \<Rightarrow> fdb \<Rightarrow> bool" where
  "only_registry db db' \<longleftrightarrow> fb_replays db' = fb_replays db \<and> fb_receipts db' = fb_receipts db \<and>
     is_id ` set (fb_issuers db) \<subseteq> is_id ` set (fb_issuers db')"

definition got :: "fed_error + 'a \<Rightarrow> ('a \<Rightarrow> 'b) \<Rightarrow> 'b list" where
  "got r g = (case r of Inl _ \<Rightarrow> [] | Inr v \<Rightarrow> [g v])"

inductive fstep :: "fed_env \<Rightarrow> fed_config \<Rightarrow> fsys \<Rightarrow> fsys \<Rightarrow> bool" for env config where
  ft_check: "verify_checks env config input now (fy_db y) = Inr f \<Longrightarrow>
     fstep env config y (y\<lparr>fy_checked := fy_checked y @ [f]\<rparr>)"
| ft_consume: "fy_checked y = fs @ f # gs \<Longrightarrow> verify_consume env config f fault (fy_db y) = (r, db') \<Longrightarrow>
     fstep env config y (y\<lparr>fy_db := db', fy_checked := fs @ gs, fy_consumed := fy_consumed y @ got r (Pair f)\<rparr>)"
| ft_principal: "fy_consumed y = fs @ (f, hash) # gs \<Longrightarrow> pn_between run = id \<Longrightarrow>
     verify_principal env f run (fy_db y) = (r, db') \<Longrightarrow>
     fstep env config y (y\<lparr>fy_db := db', fy_consumed := fs @ gs, fy_resolved := fy_resolved y @ got r (\<lambda>p. (f, hash, p))\<rparr>)"
| ft_claim: "fy_resolved y = fs @ (f, hash, userId, principalId, effective) # gs \<Longrightarrow>
     verify_claim env config f rid fault (fy_db y) = (r, db') \<Longrightarrow>
     fstep env config y (y\<lparr>fy_db := db', fy_resolved := fs @ gs,
       fy_admitted := fy_admitted y @ got r (admit_flight f hash userId principalId effective)\<rparr>)"
| ft_channel: "consume_replay env maxActive i now fault (fy_db y) = (r, db') \<Longrightarrow> fstep env config y (y\<lparr>fy_db := db'\<rparr>)"
| ft_registry: "only_registry (fy_db y) db' \<Longrightarrow> fstep env config y (y\<lparr>fy_db := db'\<rparr>)"
| ft_restart: "fstep env config y (y\<lparr>fy_checked := [], fy_consumed := [], fy_resolved := []\<rparr>)"

definition initial_fsys :: "fdb \<Rightarrow> fsys" where
  "initial_fsys db = \<lparr>fy_db = db, fy_checked = [], fy_consumed = [], fy_resolved = [], fy_admitted = []\<rparr>"

inductive freachable :: "fed_env \<Rightarrow> fed_config \<Rightarrow> fsys \<Rightarrow> bool" for env config where
  f_initial: "fb_replays db = [] \<Longrightarrow> fb_receipts db = [] \<Longrightarrow> freachable env config (initial_fsys db)"
| f_step: "freachable env config y \<Longrightarrow> fstep env config y y' \<Longrightarrow> freachable env config y'"

inductive_cases fstep_cases: "fstep env config y y'"

section \<open>What a request is\<close>

text \<open>The issuer and the identifier of a request; what its key protects.\<close>

definition flight_key :: "fed_flight \<Rightarrow> string \<times> json" where
  "flight_key f = (is_id (fl_issuer f), field (fl_claims f) ''requestId'')"

definition mutation_key :: "fed_flight \<Rightarrow> string \<times> string \<times> json \<times> string \<times> string option" where
  "mutation_key f = (is_id (fl_issuer f), js_text (field (fl_claims f) ''actorKind''), field (fl_claims f) ''subject'',
     ad_actionId (fl_descriptor f), vi_idempotencyKey (fl_input f))"

text \<open>The requests that have their tombstone.\<close>

definition past_tombstone :: "fsys \<Rightarrow> fed_flight list" where
  "past_tombstone y = map fst (fy_consumed y) @ map fst (fy_resolved y) @ map fx_flight (fy_admitted y)"

definition tombstone_keys :: "fdb \<Rightarrow> (string \<times> json) set" where
  "tombstone_keys db = (\<lambda>r. (fr_issuerId r, JStr (fr_requestId r))) ` set (fb_replays db)"

definition consumed_once :: "fsys \<Rightarrow> bool" where
  "consumed_once y \<longleftrightarrow> distinct (map flight_key (past_tombstone y)) \<and>
     flight_key ` set (past_tombstone y) \<subseteq> tombstone_keys (fy_db y)"

section \<open>Tombstones\<close>

lemma consume_replay_cases:
  assumes "consume_replay env maxActive i now fault db = (r, db')"
  obtains e where "r = Inl e" "db' = db"
  | hash u row where "r = Inr hash" "ri_requestId i = JStr u" "db' = db\<lparr>fb_replays := fb_replays db @ [row]\<rparr>"
      "fr_issuerId row = ri_issuerId i" "fr_requestId row = u" "fr_expiresAt row = ri_expiresAt i" "fr_hash row = hash"
      "replayHash env i = Some (hash, u)" "(ri_issuerId i, JStr u) \<notin> tombstone_keys db" "hash \<notin> fr_hash ` set (fb_replays db)"
      "now < ri_expiresAt i"
proof (cases r)
  case (Inl e)
  then have "db' = db" using assms
    by (auto simp: consume_replay_def split: if_splits option.splits prod.splits sum.splits dest: fed_transaction_error)
  with Inl show ?thesis using that(1) by blast
next
  case (Inr hash)
  with assms obtain u where u: "replayHash env i = Some (hash, u)" "now < ri_expiresAt i"
    and "fed_transaction fault (consume_tx maxActive i hash u now) db = (Inr (), db')"
    by (auto simp: consume_replay_def split: if_splits option.splits prod.splits sum.splits)
  then have tx: "consume_tx maxActive i hash u now db = (Inr (), db')" by (simp add: fed_transaction_ok)
  let ?row = "\<lparr>fr_hash = hash, fr_issuerId = ri_issuerId i, fr_kid = ri_kid i, fr_requestId = u,
        fr_actionId = ri_actionId i, fr_expiresAt = ri_expiresAt i\<rparr>"
  have "create_replay ?row db = (Inr (), db')" using tx by (auto simp: consume_tx_def split: if_splits)
  then have "db' = db\<lparr>fb_replays := fb_replays db @ [?row]\<rparr>" "replay_key ?row \<notin> replay_key ` set (fb_replays db)"
    "hash \<notin> fr_hash ` set (fb_replays db)"
    by (auto simp: create_replay_def split: if_splits)
  moreover have "ri_requestId i = JStr u" using u(1) by (auto simp: replayHash_def split: json.splits)
  ultimately show ?thesis using that(2) [of hash u ?row] Inr u
    by (auto simp: tombstone_keys_def replay_key_def image_iff)
qed

lemma operator_keeps:
  "operator_tx env issuer target subject version a db = (r, db') \<Longrightarrow>
     fb_replays db' = fb_replays db \<and> fb_receipts db' = fb_receipts db"
  by (auto simp: operator_tx_def existing_principal_def create_principal_def split: option.splits if_splits)

lemma transaction_keeps_tables:
  "fed_transaction fault body db = (r, db') \<Longrightarrow> (\<And>v d. body db = (v, d) \<Longrightarrow> P d) \<Longrightarrow> P db \<Longrightarrow> P db'"
  by (auto simp: fed_transaction_def split: option.splits prod.splits sum.splits)

lemma attempts_keep:
  "operator_attempts env issuer target subject version id as db = (r, db') \<Longrightarrow>
     fb_replays db' = fb_replays db \<and> fb_receipts db' = fb_receipts db"
proof (induction as arbitrary: db r db')
  case (Cons a as)
  obtain r1 d1 where tx: "fed_transaction (oa_fault a) (operator_tx env issuer target subject version a) db = (r1, d1)"
    by fastforce
  have "fb_replays d1 = fb_replays db \<and> fb_receipts d1 = fb_receipts db"
    by (rule transaction_keeps_tables [OF tx]) (auto dest: operator_keeps)
  then show ?case using Cons tx by (auto split: sum.splits if_splits)
qed simp

lemma resolve_operator_keeps:
  "fb_replays (snd (resolveVerifiedOperator env i id attempts db)) = fb_replays db \<and>
   fb_receipts (snd (resolveVerifiedOperator env i id attempts db)) = fb_receipts db"
proof -
  obtain a b c where abc: "attempts = (a, b, c)" by (cases attempts)
  have "fb_replays (snd (operator_attempts env u v t n id as db)) = fb_replays db \<and>
      fb_receipts (snd (operator_attempts env u v t n id as db)) = fb_receipts db" for u v t n as
    by (rule attempts_keep [OF surjective_pairing])
  then show ?thesis
    by (simp add: resolveVerifiedOperator_def abc split: option.split json.split del: operator_attempts.simps)
qed

lemma resolve_service_keeps:
  "fb_replays (snd (resolveVerifiedService i actionId ps now fault seen db)) = fb_replays db \<and>
   fb_receipts (snd (resolveVerifiedService i actionId ps now fault seen db)) = fb_receipts db"
  unfolding resolveVerifiedService_def by (simp split: option.split sum.split json.split)

lemma principal_keeps:
  assumes "verify_principal env f run db = (r, db')" "pn_between run = id"
  shows "fb_replays db' = fb_replays db" "fb_receipts db' = fb_receipts db"
proof -
  have "fb_replays (snd (verify_principal env f run db)) = fb_replays db \<and>
      fb_receipts (snd (verify_principal env f run db)) = fb_receipts db"
    using resolve_operator_keeps [of env "flight_identity f" "pn_attempts run" db]
      resolve_service_keeps [of "flight_identity f" "ad_actionId (fl_descriptor f)" "asserted_permissions (fl_claims f)"
        "pn_now run" "pn_fault run" "pn_seen run" db] assms(2)
    by (auto simp: verify_principal_def split: prod.split sum.split)
  then show "fb_replays db' = fb_replays db" "fb_receipts db' = fb_receipts db" using assms(1) by simp_all
qed

lemma claim_tx_replays: "claim_tx rid s ttl i now db = (r, db') \<Longrightarrow> fb_replays db' = fb_replays db"
  by (auto simp: claim_tx_def create_fed_receipt_def Let_def split: option.splits if_splits)

lemma claim_replays: "verify_claim env config f rid fault db = (r, db') \<Longrightarrow> fb_replays db' = fb_replays db"
proof -
  assume "verify_claim env config f rid fault db = (r, db')"
  moreover have "fed_transaction fault (claim_tx rid s ttl i now) db = (v, d) \<Longrightarrow> fb_replays d = fb_replays db" for s ttl i now v d
    by (erule transaction_keeps_tables) (auto dest: claim_tx_replays)
  ultimately show ?thesis
    by (auto simp: verify_claim_def claim_receipt_def Let_def split: option.splits prod.splits sum.splits json.splits if_splits)
qed

lemma tombstone_keys_cong: "fb_replays db' = fb_replays db \<Longrightarrow> tombstone_keys db' = tombstone_keys db"
  by (simp add: tombstone_keys_def)

section \<open>A request is past its tombstone once\<close>

lemma distinct_submset:
  assumes "mset xs \<subseteq># mset ys" "distinct ys"
  shows "distinct xs"
  unfolding distinct_count_atmost_1
proof
  fix a
  have "count (mset xs) a \<le> count (mset ys) a" using assms(1) by (rule mset_subset_eq_count)
  also have "\<dots> \<le> 1" using assms(2) by (simp add: distinct_count_atmost_1)
  finally show "count (mset xs) a = (if a \<in> set xs then 1 else 0)"
    by (metis count_mset_0_iff le_less_Suc_eq less_one nat_less_le One_nat_def linorder_not_less)
qed

lemma consumed_once_fewer:
  assumes "mset (past_tombstone y') \<subseteq># mset (past_tombstone y)" "tombstone_keys (fy_db y) \<subseteq> tombstone_keys (fy_db y')"
    and "consumed_once y"
  shows "consumed_once y'"
proof -
  have "mset (map flight_key (past_tombstone y')) \<subseteq># mset (map flight_key (past_tombstone y))"
    using image_mset_subseteq_mono [OF assms(1)] by simp
  moreover have "set (past_tombstone y') \<subseteq> set (past_tombstone y)" using set_mset_mono [OF assms(1)] by simp
  ultimately show ?thesis using assms(2,3) distinct_submset unfolding consumed_once_def by blast
qed

lemma got_simps [simp]: "got (Inl e) g = []" "got (Inr v) g = [g v]"
  by (simp_all add: got_def)

lemma consumed_once_step:
  assumes "fstep env config y y'" "consumed_once y"
  shows "consumed_once y'"
  using assms(1)
proof cases
  case (ft_consume fs f gs fault r db')
  from ft_consume(3) show ?thesis
    unfolding verify_consume_def
  proof (cases rule: consume_replay_cases)
    case (1 e)
    then show ?thesis using ft_consume assms(2)
      by (intro consumed_once_fewer [OF _ _ assms(2)]) (simp_all add: past_tombstone_def)
  next
    case (2 hash u row)
    have key: "flight_key f = (is_id (fl_issuer f), JStr u)" using 2 by (simp add: flight_key_def flight_replay_def)
    have keys: "tombstone_keys db' = insert (flight_key f) (tombstone_keys (fy_db y))"
      using 2 key by (simp add: tombstone_keys_def flight_replay_def)
    have "flight_key f \<notin> tombstone_keys (fy_db y)" using 2 key by (simp add: flight_replay_def)
    then have "flight_key f \<notin> flight_key ` set (past_tombstone y)"
      using assms(2) by (auto simp: consumed_once_def)
    then have "distinct (flight_key f # map flight_key (past_tombstone y))" "flight_key ` set (f # past_tombstone y) \<subseteq> tombstone_keys db'"
      using assms(2) keys by (auto simp: consumed_once_def)
    moreover have m: "mset (past_tombstone y') = mset (f # past_tombstone y)" and d: "fy_db y' = db'"
      using ft_consume(1) 2(1) by (simp_all add: past_tombstone_def)
    moreover have "mset (map flight_key (past_tombstone y')) = mset (flight_key f # map flight_key (past_tombstone y))"
      using arg_cong [OF m, of "image_mset flight_key"] by simp
    ultimately show ?thesis
      using distinct_submset [of "map flight_key (past_tombstone y')" "flight_key f # map flight_key (past_tombstone y)"]
        mset_eq_setD [OF m] unfolding consumed_once_def d by simp
  qed
next
  case (ft_principal fs f hash gs run r db')
  have "tombstone_keys (fy_db y) \<subseteq> tombstone_keys (fy_db y')"
    using principal_keeps(1) [OF ft_principal(4,3)] ft_principal(1) by (simp add: tombstone_keys_def)
  then show ?thesis using ft_principal assms(2)
    by (cases r) (auto intro!: consumed_once_fewer [OF _ _ assms(2)] simp: past_tombstone_def)
next
  case (ft_claim fs f hash userId principalId effective gs rid fault r db')
  have "tombstone_keys (fy_db y) \<subseteq> tombstone_keys (fy_db y')"
    using claim_replays [OF ft_claim(3)] ft_claim(1) by (simp add: tombstone_keys_def)
  then show ?thesis using ft_claim assms(2)
    by (cases r) (auto intro!: consumed_once_fewer [OF _ _ assms(2)] simp: past_tombstone_def admit_flight_def)
next
  case (ft_channel maxActive i now fault r db')
  have "tombstone_keys (fy_db y) \<subseteq> tombstone_keys db'"
    using ft_channel(2) by (cases rule: consume_replay_cases) (auto simp: tombstone_keys_def)
  then show ?thesis using ft_channel assms(2) by (intro consumed_once_fewer [OF _ _ assms(2)]) (simp_all add: past_tombstone_def)
next
  case (ft_registry db')
  then show ?thesis using assms(2)
    by (intro consumed_once_fewer [OF _ _ assms(2)]) (simp_all add: past_tombstone_def only_registry_def tombstone_keys_def)
qed (use assms(2) in \<open>auto intro!: consumed_once_fewer [OF _ _ assms(2)] simp: past_tombstone_def\<close>)

lemma reachable_consumed_once: "freachable env config y \<Longrightarrow> consumed_once y"
proof (induction rule: freachable.induct)
  case (f_initial db)
  then show ?case by (simp add: initial_fsys_def consumed_once_def past_tombstone_def)
qed (rule consumed_once_step)

section \<open>Receipts\<close>

definition flight_selector :: "fed_env \<Rightarrow> fed_flight \<Rightarrow> selector" where
  "flight_selector env f = (let k = the (vi_idempotencyKey (fl_input f)) in
     claim_selector env (flight_claim env f k) (js_text (field (fl_claims f) ''subject'')))"

text \<open>The receipt of an admitted request outlives its time to live, by this request or a later one with the same key.\<close>

definition receipt_kept :: "fed_env \<Rightarrow> int \<Rightarrow> fdb \<Rightarrow> fed_context \<Rightarrow> bool" where
  "receipt_kept env ttl db x \<longleftrightarrow> vi_idempotencyKey (fl_input (fx_flight x)) \<noteq> None \<longrightarrow>
     (\<exists>r \<in> set (fb_receipts db). selector_of r = flight_selector env (fx_flight x) \<and> fl_now (fx_flight x) + ttl \<le> fi_expiresAt r)"

definition spaced :: "int \<Rightarrow> fed_context \<Rightarrow> fed_context \<Rightarrow> bool" where
  "spaced ttl x x' \<longleftrightarrow> mutation_key (fx_flight x) = mutation_key (fx_flight x') \<longrightarrow>
     vi_idempotencyKey (fl_input (fx_flight x)) \<noteq> None \<longrightarrow> fl_now (fx_flight x) + ttl \<le> fl_now (fx_flight x')"

definition receipts_ok :: "fed_env \<Rightarrow> int \<Rightarrow> fsys \<Rightarrow> bool" where
  "receipts_ok env ttl y \<longleftrightarrow> sorted_wrt (spaced ttl) (fy_admitted y) \<and> (\<forall>x \<in> set (fy_admitted y). receipt_kept env ttl (fy_db y) x)"

lemma claim_receipt_cases:
  assumes "claim_receipt env rid ttl i now fault db = (r, db')" "0 < ttl"
  obtains e where "r = Inl e" "db' = db"
  | subject row where "r = Inr rid" "ci_subject i = JStr subject" "selector_of row = claim_selector env i subject"
      "fi_expiresAt row = now + ttl" "fb_replays db' = fb_replays db"
      "fb_receipts db' = delete_rows (\<lambda>r. selector_of r = claim_selector env i subject) (fb_receipts db) @ [row]"
      "\<forall>r \<in> set (fb_receipts db). selector_of r = claim_selector env i subject \<longrightarrow> fi_expiresAt r \<le> now"
proof (cases r)
  case (Inl e)
  then have "db' = db" using assms(1)
    by (auto simp: claim_receipt_def Let_def split: json.splits option.splits prod.splits sum.splits if_splits
        dest: fed_transaction_error)
  with Inl show ?thesis using that(1) by blast
next
  case (Inr v)
  with assms(1) obtain subject where s: "ci_subject i = JStr subject"
    and tx: "claim_tx rid (claim_selector env i subject) ttl i now db = (Inr v, db')"
    by (auto simp: claim_receipt_def Let_def fed_transaction_ok split: json.splits option.splits prod.splits sum.splits if_splits)
  let ?s = "claim_selector env i subject"
  let ?rows = "delete_rows (\<lambda>r. selector_of r = ?s \<and> fi_expiresAt r \<le> now) (fb_receipts db)"
  let ?row = "new_fed_receipt rid ?s i (now + ttl)"
  from tx have none: "find_first (\<lambda>r. selector_of r = ?s) ?rows = None" and v: "v = rid" "db' = db\<lparr>fb_receipts := ?rows @ [?row]\<rparr>"
    by (auto simp: claim_tx_def create_fed_receipt_def Let_def new_fed_receipt_def split: option.splits if_splits prod.splits)
  have old: "\<forall>r \<in> set (fb_receipts db). selector_of r = ?s \<longrightarrow> fi_expiresAt r \<le> now"
    using none by (auto simp: find_first_None set_delete_rows)
  then have "?rows = delete_rows (\<lambda>r. selector_of r = ?s) (fb_receipts db)"
    by (auto simp: delete_rows_def intro: filter_cong)
  moreover have "selector_of ?row = ?s" "fi_expiresAt ?row = now + ttl"
    by (auto simp: new_fed_receipt_def selector_of_def split: prod.splits)
  ultimately show ?thesis using that(2) [of subject ?row] Inr s v old by simp
qed

lemma receipt_ttl_pos: "0 < receipt_ttl configured"
  by (simp add: receipt_ttl_def split: option.split)

lemma mutation_selector:
  assumes "mutation_key f = mutation_key g" "vi_idempotencyKey (fl_input f) = Some k"
  shows "flight_selector env f = flight_selector env g" "vi_idempotencyKey (fl_input g) = Some k"
  using assms by (simp_all add: mutation_key_def flight_selector_def claim_selector_def flight_claim_def)

lemma receipts_ok_cong:
  "receipts_ok env ttl y \<Longrightarrow> fy_admitted y' = fy_admitted y \<Longrightarrow> fb_receipts (fy_db y') = fb_receipts (fy_db y) \<Longrightarrow>
     receipts_ok env ttl y'"
  by (simp add: receipts_ok_def receipt_kept_def)

lemma claim_step_receipts:
  assumes "receipts_ok env (receipt_ttl (fc_receiptTtlMs config)) y"
    and claim: "verify_claim env config f rid fault (fy_db y) = (r, db')"
  shows "receipts_ok env (receipt_ttl (fc_receiptTtlMs config))
    (y\<lparr>fy_db := db', fy_resolved := rest, fy_admitted := fy_admitted y @ got r (admit_flight f hash userId principalId effective)\<rparr>)"
proof (cases "vi_idempotencyKey (fl_input f)")
  case None
  then have "r = Inr None" "db' = fy_db y" using claim by (simp_all add: verify_claim_def)
  then show ?thesis using assms(1) None
    by (auto simp: receipts_ok_def sorted_wrt_append receipt_kept_def spaced_def admit_flight_def mutation_key_def)
next
  case (Some k)
  let ?ttl = "receipt_ttl (fc_receiptTtlMs config)" and ?s = "flight_selector env f" and ?rows = "fb_receipts (fy_db y)"
  obtain v d where c: "claim_receipt env rid ?ttl (flight_claim env f k) (fl_now f) fault (fy_db y) = (v, d)"
    and r: "db' = d" "r = map_sum id Some v"
    using claim Some by (auto simp: verify_claim_def split: prod.splits sum.splits)
  from c receipt_ttl_pos show ?thesis
  proof (cases rule: claim_receipt_cases)
    case (1 e)
    then show ?thesis using assms(1) r by (intro receipts_ok_cong [OF assms(1)]) simp_all
  next
    case (2 subject row)
    have s: "claim_selector env (flight_claim env f k) subject = ?s"
      using 2(2) Some by (simp add: flight_selector_def flight_claim_def)
    have rows: "fb_receipts db' = delete_rows (\<lambda>r. selector_of r = ?s) ?rows @ [row]"
      and old: "\<And>r. r \<in> set ?rows \<Longrightarrow> selector_of r = ?s \<Longrightarrow> fi_expiresAt r \<le> fl_now f"
      and row: "selector_of row = ?s" "fi_expiresAt row = fl_now f + ?ttl"
      using 2 s r(1) by auto
    let ?x = "admit_flight f hash userId principalId effective (Some rid)"
    have x: "fx_flight ?x = f" by (simp add: admit_flight_def)
    have kept: "\<exists>q \<in> set ?rows. selector_of q = flight_selector env (fx_flight z) \<and> fl_now (fx_flight z) + ?ttl \<le> fi_expiresAt q"
      if "z \<in> set (fy_admitted y)" "vi_idempotencyKey (fl_input (fx_flight z)) \<noteq> None" for z
      using assms(1) that by (simp add: receipts_ok_def receipt_kept_def)
    have "spaced ?ttl z ?x" if z: "z \<in> set (fy_admitted y)" for z
      unfolding spaced_def x
    proof (intro impI)
      assume key: "mutation_key (fx_flight z) = mutation_key f" and some: "vi_idempotencyKey (fl_input (fx_flight z)) \<noteq> None"
      then have "flight_selector env (fx_flight z) = ?s" using mutation_selector(1) by blast
      then show "fl_now (fx_flight z) + ?ttl \<le> fl_now f" using kept [OF z some] old by fastforce
    qed
    moreover have "receipt_kept env ?ttl db' z" if z: "z \<in> set (fy_admitted y)" for z
      unfolding receipt_kept_def
    proof
      assume some: "vi_idempotencyKey (fl_input (fx_flight z)) \<noteq> None"
      then obtain q where q: "q \<in> set ?rows" "selector_of q = flight_selector env (fx_flight z)"
        "fl_now (fx_flight z) + ?ttl \<le> fi_expiresAt q" using kept [OF z] by blast
      show "\<exists>r \<in> set (fb_receipts db'). selector_of r = flight_selector env (fx_flight z) \<and>
          fl_now (fx_flight z) + ?ttl \<le> fi_expiresAt r"
      proof (cases "selector_of q = ?s")
        case True
        then show ?thesis using q old [OF q(1)] row rows receipt_ttl_pos [of "fc_receiptTtlMs config"] by (intro bexI [of _ row]) auto
      next
        case False
        then show ?thesis using q rows by (auto simp: set_delete_rows)
      qed
    qed
    moreover have "receipt_kept env ?ttl db' ?x" using row rows by (auto simp: receipt_kept_def x)
    ultimately show ?thesis using assms(1) r 2(1) by (auto simp: receipts_ok_def sorted_wrt_append)
  qed
qed

lemma consume_keeps_receipts: "consume_replay env maxActive i now fault db = (r, db') \<Longrightarrow> fb_receipts db' = fb_receipts db"
  by (erule consume_replay_cases) auto

lemma receipts_ok_step:
  assumes "fstep env config y y'" "receipts_ok env (receipt_ttl (fc_receiptTtlMs config)) y"
  shows "receipts_ok env (receipt_ttl (fc_receiptTtlMs config)) y'"
  using assms(1)
proof cases
  case (ft_claim fs f hash userId principalId effective gs rid fault r db')
  then show ?thesis using claim_step_receipts [OF assms(2) ft_claim(3)] by simp
qed (use assms(2) in \<open>auto intro!: receipts_ok_cong [OF assms(2)] simp: only_registry_def verify_consume_def
       dest: consume_keeps_receipts principal_keeps(2)\<close>)

lemma reachable_receipts_ok:
  "freachable env config y \<Longrightarrow> receipts_ok env (receipt_ttl (fc_receiptTtlMs config)) y"
proof (induction rule: freachable.induct)
  case (f_initial db)
  then show ?case by (simp add: initial_fsys_def receipts_ok_def)
qed (rule receipts_ok_step)

end
