(* ===== verification/Fed_Dispatch.thy ===== *)
theory Fed_Dispatch
  imports Fed_Policy Fed_Store
begin

text \<open>
  The other end: how the master sends a request to a panel,
  \<open>api/src/federation/federation-dispatcher.service.ts\<close>. The context of the remote panel, which
  another service puts together from its manifest and its state, is an argument, and so are the
  answer of the network and the tables of the registry.
\<close>

section \<open>Errors\<close>

definition FEDERATION_ERROR_RETRYABLE :: "string list" where
  "FEDERATION_ERROR_RETRYABLE = [''REMOTE_OFFLINE'', ''REMOTE_DNS_FAILED'', ''REMOTE_CONNECT_TIMEOUT'', ''REMOTE_HEADER_TIMEOUT'',
     ''REMOTE_IDLE_TIMEOUT'']"

record dispatch_error =
  de_code :: string
  de_requestId :: string
  de_targetInstallationId :: string
  de_actionId :: "string option"
  de_message :: string
  de_retryable :: bool
  de_targetStatus :: "nat option"
  de_httpStatus :: nat

definition errorContract :: "string \<Rightarrow> string \<Rightarrow> string \<Rightarrow> string option \<Rightarrow> string \<Rightarrow> nat option \<Rightarrow> nat \<Rightarrow> dispatch_error" where
  "errorContract code requestId target actionId message targetStatus httpStatus =
     \<lparr>de_code = code, de_requestId = requestId, de_targetInstallationId = target, de_actionId = actionId, de_message = message,
      de_retryable = (code \<in> set FEDERATION_ERROR_RETRYABLE), de_targetStatus = targetStatus, de_httpStatus = httpStatus\<rparr>"

text \<open>An error without a code may be that of an aborted signal.\<close>

definition transportErrorCode :: "string \<Rightarrow> bool \<Rightarrow> string" where
  "transportErrorCode code aborted =
     (if code = ''UND_ERR_CONNECT_TIMEOUT'' then ''REMOTE_CONNECT_TIMEOUT''
      else if code = ''UND_ERR_HEADERS_TIMEOUT'' then ''REMOTE_HEADER_TIMEOUT''
      else if code = ''UND_ERR_BODY_TIMEOUT'' then ''REMOTE_IDLE_TIMEOUT''
      else if rx_search_ci (alts [lit ''cert'', lit ''tls'', lit ''ssl'', lit ''self_signed'', lit ''altname'']) code then ''REMOTE_TLS_FAILED''
      else if rx_search_ci (alts [lit ''enotfound'', lit ''eai_again'', lit ''dns'']) code then ''REMOTE_DNS_FAILED''
      else if aborted then ''REMOTE_ABORTED'' else ''REMOTE_OFFLINE'')"

definition transport_failure :: "string \<Rightarrow> string \<Rightarrow> string option \<Rightarrow> fed_error \<Rightarrow> bool \<Rightarrow> dispatch_error" where
  "transport_failure requestId target actionId e aborted =
     (let code = transportErrorCode (code_of e) aborted in
      errorContract code requestId target actionId ''Remote transport failed'' None (if code = ''REMOTE_ABORTED'' then 499 else 502))"

section \<open>The remote panel as the registry knows it\<close>

record fed_endpoint =
  ep_generation :: int
  ep_state :: string
  ep_verifiedAt :: "time option"
  ep_apiOrigin :: string

record fed_server =
  sv_id :: string
  sv_activeEndpointGeneration :: int
  sv_endpoints :: "fed_endpoint list"
  sv_issuers :: "(fed_issuer \<times> fed_key list) list"

record fed_remote_context =
  rc_topologyMode :: string
  rc_killHttp :: bool
  rc_killPublicDelivery :: bool
  rc_selected :: "int option"
  rc_mode :: string
  rc_transport :: string
  rc_trust :: string
  rc_capability :: string
  rc_manifestValidUntil :: time
  rc_capabilities :: "(string \<times> capability) list"

section \<open>The claims of the master\<close>

record master_claims =
  mc_keyId :: string
  mc_issuedAt :: int
  mc_expiresAt :: int
  mc_nonce :: string
  mc_requestId :: string
  mc_targetInstallationId :: string
  mc_actionId :: string
  mc_actorKind :: string
  mc_issuerInstallationId :: string
  mc_subject :: string
  mc_browserIp :: string
  mc_role :: string
  mc_permissions :: "string list"
  mc_principalVersion :: int
  mc_operationId :: "string option"
  mc_idempotencyId :: "string option"

definition claims_json :: "master_claims \<Rightarrow> json" where
  "claims_json c = JObj
     [(''keyId'', JStr (mc_keyId c)), (''issuedAt'', JNum (mc_issuedAt c)), (''expiresAt'', JNum (mc_expiresAt c)),
      (''nonce'', JStr (mc_nonce c)), (''requestId'', JStr (mc_requestId c)),
      (''targetInstallationId'', JStr (mc_targetInstallationId c)), (''actionId'', JStr (mc_actionId c)),
      (''actorKind'', JStr (mc_actorKind c)), (''issuerInstallationId'', JStr (mc_issuerInstallationId c)),
      (''subject'', JStr (mc_subject c)), (''browserIp'', JStr (mc_browserIp c)), (''role'', JStr (mc_role c)),
      (''permissions'', JArr (map JStr (mc_permissions c))), (''principalVersion'', JNum (mc_principalVersion c)),
      (''operationId'', json_opt (mc_operationId c)), (''idempotencyId'', json_opt (mc_idempotencyId c))]"

section \<open>The dispatch\<close>

record fed_actor =
  fa_kind :: string
  fa_subject :: string
  fa_role :: string

record dispatch_input =
  dp_targetInstallationId :: string
  dp_inboundTarget :: string
  dp_method :: string
  dp_rawHeaders :: "string list"
  dp_body :: bytes
  dp_actor :: fed_actor
  dp_browserIp :: string

text \<open>\<open>dispatch\<close> and \<open>dispatchService\<close> differ in the actor.\<close>

definition operator_actor :: "string \<Rightarrow> string \<Rightarrow> fed_actor" where
  "operator_actor u role = \<lparr>fa_kind = ''OPERATOR'', fa_subject = u, fa_role = role\<rparr>"

definition service_actor :: "string \<Rightarrow> fed_actor" where
  "service_actor subject = \<lparr>fa_kind = ''SERVICE'', fa_subject = subject, fa_role = ''SERVICE''\<rparr>"

text \<open>What the master has when it dispatches: its identity, the registry, the contexts and the clock.\<close>

record master_state =
  ma_installationRole :: string
  ma_installationId :: string
  ma_catalogue :: "descriptor list"
  ma_server :: "string \<Rightarrow> fed_server option"
  ma_context :: "string \<Rightarrow> fed_error + fed_remote_context"
  ma_now :: time
  ma_requestId :: string
  ma_nonce :: string

definition EXECUTION_MODES_HTTP :: "string list" where
  "EXECUTION_MODES_HTTP = [''INTERACTIVE'', ''OPERATION'', ''STAGED_ARTIFACT'', ''APP_HANDOFF'']"

definition context_not_ready :: "fed_remote_context \<Rightarrow> fed_actor \<Rightarrow> time \<Rightarrow> bool" where
  "context_not_ready c actor now =
     (rc_topologyMode c \<noteq> ''PUBLIC'' \<or> rc_killHttp c \<or> fa_kind actor = ''SERVICE'' \<and> rc_killPublicDelivery c \<or>
      rc_selected c \<noteq> Some 1 \<or> rc_mode c \<notin> {''v1-read-only'', ''v1-enabled''} \<or> rc_transport c \<noteq> ''ONLINE'' \<or>
      rc_trust c \<noteq> ''ACTIVE'' \<or> rc_capability c \<notin> {''FRESH'', ''PARTIAL''} \<or> rc_manifestValidUntil c \<le> now)"

definition assertCapability :: "descriptor \<Rightarrow> capability option \<Rightarrow> string \<Rightarrow> bool" where
  "assertCapability d capability role =
     (case capability of
        None \<Rightarrow> False
      | Some c \<Rightarrow> cp_enabled c \<and> federationCapabilityMatchesDescriptor d (Some c) \<and> role \<in> set (cp_roles c) \<and> role \<in> set (ad_roles d))"

definition find_signing_key :: "master_state \<Rightarrow> string \<Rightarrow> fed_server \<Rightarrow> (fed_issuer \<times> fed_key) option" where
  "find_signing_key m target server =
     (case find_first (\<lambda>(i, ks). is_issuerInstallationId i = ma_installationId m \<and> is_targetInstallationId i = target \<and>
             is_state i = ''ACTIVE'' \<and> is_revokedAt i = None) (sv_issuers server) of
        None \<Rightarrow> None
      | Some (i, ks) \<Rightarrow>
     case find_first (\<lambda>k. fk_state k = ''ACTIVE'' \<and> fk_revokedAt k = None \<and> fk_validFrom k \<le> ma_now m \<and>
             (case fk_expiresAt k of None \<Rightarrow> True | Some t \<Rightarrow> ma_now m < t) \<and> fk_encryptedPrivateKey k \<noteq> None) ks of
        None \<Rightarrow> None
      | Some k \<Rightarrow> if truthy (fk_encryptedPrivateKey k) = None then None else Some (i, k))"

definition dispatch_claims ::
  "master_state \<Rightarrow> dispatch_input \<Rightarrow> descriptor \<Rightarrow> fed_issuer \<Rightarrow> fed_key \<Rightarrow> string option \<Rightarrow> master_claims"
where
  "dispatch_claims m i d issuer key idempotencyKey = (let nowSeconds = ma_now m div 1000 in
     \<lparr>mc_keyId = fk_kid key, mc_issuedAt = nowSeconds, mc_expiresAt = nowSeconds + 60, mc_nonce = ma_nonce m,
      mc_requestId = ma_requestId m, mc_targetInstallationId = dp_targetInstallationId i, mc_actionId = ad_actionId d,
      mc_actorKind = fa_kind (dp_actor i), mc_issuerInstallationId = ma_installationId m, mc_subject = fa_subject (dp_actor i),
      mc_browserIp = dp_browserIp i, mc_role = fa_role (dp_actor i), mc_permissions = sort (ad_permissions d),
      mc_principalVersion = is_principalVersion issuer, mc_operationId = None, mc_idempotencyId = idempotencyKey\<rparr>)"

text \<open>The request that leaves, with what was signed.\<close>

record outbound =
  ob_origin :: string
  ob_target :: string
  ob_method :: string
  ob_headers :: "(string \<times> string) list"
  ob_body :: bytes
  ob_claims :: master_claims
  ob_binding :: binding

text \<open>
  The signature and the request, once the action, the panel and the key are known; an error
  here is not an error of the transport, but it is reported as one.
\<close>

definition dispatch_signed ::
  "fed_env \<Rightarrow> master_state \<Rightarrow> dispatch_input \<Rightarrow> exact_target \<Rightarrow> descriptor \<Rightarrow> fed_server \<Rightarrow> fed_issuer \<Rightarrow> fed_key
     \<Rightarrow> fed_header list \<Rightarrow> string \<times> string option \<Rightarrow> fed_error + outbound"
where
  "dispatch_signed env m i target d server issuer key headers control =
     (let claims = dispatch_claims m i d issuer key (snd control);
          b = \<lparr>bi_method = js_upper (dp_method i), bi_targetPathAndQuery = xt_targetPathAndQuery target, bi_headers = headers,
               bi_bodySha256 = fst control\<rparr> in
      case assertDelegatedActionPolicy d (claims_json claims) (is_maxRole issuer) (is_permissionPolicyJson issuer) (snd control) of
        Inl e \<Rightarrow> Inl e
      | Inr _ \<Rightarrow>
      case encodeDelegationAssertion env (claims_json claims) b
          \<lparr>rk_issuerInstallationId = ma_installationId m, rk_targetInstallationId = dp_targetInstallationId i, rk_kid = fk_kid key,
           rk_publicKeySpki = fk_publicKeySpki key, rk_encryptedPrivateKey = (case fk_encryptedPrivateKey key of Some e \<Rightarrow> e | None \<Rightarrow> [])\<rparr> of
        Inl e \<Rightarrow> Inl e
      | Inr encoded \<Rightarrow>
      case find_first (\<lambda>p. ep_generation p = sv_activeEndpointGeneration server \<and> ep_state p = ''ACTIVE'' \<and> ep_verifiedAt p \<noteq> None)
          (sv_endpoints server) of
        None \<Rightarrow> Inl Uncoded
      | Some endpoint \<Rightarrow> Inr
          \<lparr>ob_origin = ep_apiOrigin endpoint, ob_target = xt_targetPathAndQuery target, ob_method = js_upper (dp_method i),
           ob_headers = map (\<lambda>h. (fh_name h, fh_value h)) headers @
             [(''x-meowbox-assertion'', ea_assertion encoded), (''x-meowbox-signature'', ea_signature encoded)],
           ob_body = dp_body i, ob_claims = claims, ob_binding = b\<rparr>)"

text \<open>
  A stage ends with an error of its own, which the caller gets, or with an error that is
  reported as a failure of the transport.
\<close>

datatype dispatch_stop = Stop dispatch_error | Broken fed_error

definition stop_with :: "master_state \<Rightarrow> dispatch_input \<Rightarrow> string \<Rightarrow> string option \<Rightarrow> string \<Rightarrow> nat \<Rightarrow> dispatch_stop" where
  "stop_with m i code actionId message httpStatus =
     Stop (errorContract code (ma_requestId m) (dp_targetInstallationId i) actionId message None httpStatus)"

text \<open>The action of the request, and whether the actor may run it.\<close>

definition dispatch_action :: "master_state \<Rightarrow> dispatch_input \<Rightarrow> dispatch_stop + exact_target \<times> descriptor" where
  "dispatch_action m i =
     (case parseExactFederationTarget (dp_inboundTarget i) (dp_targetInstallationId i) of
        Inl e \<Rightarrow> Inl (Broken e)
      | Inr target \<Rightarrow>
     case resolveHttpByConcretePath (ma_catalogue m) (js_upper (dp_method i)) (xt_rawPath target) of
        Inl e \<Rightarrow> Inl (Broken e)
      | Inr None \<Rightarrow> Inl (stop_with m i ''REMOTE_ACTION_UNKNOWN'' None ''Remote action is not catalogued for this transport'' 404)
      | Inr (Some d) \<Rightarrow>
          if ad_owner d \<noteq> ''target'' \<or> ad_mode d \<notin> set EXECUTION_MODES_HTTP
          then Inl (stop_with m i ''REMOTE_ACTION_UNKNOWN'' None ''Remote action is not catalogued for this transport'' 404)
          else if fa_role (dp_actor i) \<notin> set (ad_roles d)
          then Inl (stop_with m i ''REMOTE_PERMISSION_DENIED'' (Some (ad_actionId d)) ''Remote action is not allowed for this role'' 403)
          else Inr (target, d))"

text \<open>The panel, whether it is ready, and whether it takes the action.\<close>

definition dispatch_panel :: "master_state \<Rightarrow> dispatch_input \<Rightarrow> descriptor \<Rightarrow> dispatch_stop + fed_server" where
  "dispatch_panel m i d = (let stop = \<lambda>code. stop_with m i code (Some (ad_actionId d)) in
     case ma_server m (dp_targetInstallationId i) of
        None \<Rightarrow> Inl (stop ''REMOTE_DISABLED'' ''Remote target is not registered'' 404)
      | Some server \<Rightarrow>
     case ma_context m (sv_id server) of
        Inl e \<Rightarrow> Inl (Broken e)
      | Inr c \<Rightarrow>
          if context_not_ready c (dp_actor i) (ma_now m)
          then Inl (stop ''REMOTE_NOT_READY'' ''Remote target is not ready for delegated HTTP'' 503)
          else if rc_mode c = ''v1-read-only'' \<and> js_upper (dp_method i) \<in> {''DELETE'', ''PATCH'', ''POST'', ''PUT''}
          then Inl (stop ''REMOTE_POLICY_BLOCKED'' ''Remote target is read-only'' 403)
          else if \<not> assertCapability d (map_of (rc_capabilities c) (ad_actionId d)) (fa_role (dp_actor i)) then Inl (Broken Uncoded)
          else Inr server)"

definition dispatch_request :: "fed_env \<Rightarrow> dispatch_input \<Rightarrow> fed_error + fed_header list \<times> string \<times> string option" where
  "dispatch_request env i =
     (case rawHeaderPairs (dp_rawHeaders i) of
        Inl e \<Rightarrow> Inl e
      | Inr pairs \<Rightarrow>
     case canonicalizeFederationHeaders pairs of
        Inl e \<Rightarrow> Inl e
      | Inr headers \<Rightarrow>
     case validateGenericControlRequest (fe_sha env) (fe_body_json env) (js_upper (dp_method i)) headers (dp_body i) of
        Inl e \<Rightarrow> Inl e
      | Inr control \<Rightarrow> Inr (headers, control))"

definition dispatch_send :: "fed_env \<Rightarrow> master_state \<Rightarrow> dispatch_input \<Rightarrow> dispatch_stop + descriptor \<times> outbound" where
  "dispatch_send env m i =
     (case dispatch_action m i of
        Inl stop \<Rightarrow> Inl stop
      | Inr (target, d) \<Rightarrow>
     case dispatch_panel m i d of
        Inl stop \<Rightarrow> Inl stop
      | Inr server \<Rightarrow>
     case dispatch_request env i of
        Inl e \<Rightarrow> Inl (Broken e)
      | Inr (headers, control) \<Rightarrow>
     if ma_installationRole m \<noteq> ''MASTER'' then Inl (Broken Uncoded)
     else case find_signing_key m (dp_targetInstallationId i) server of
        None \<Rightarrow> Inl (stop_with m i ''REMOTE_AUTH_FAILED'' (Some (ad_actionId d)) ''Remote trust is unavailable'' 503)
      | Some (issuer, key) \<Rightarrow>
     case dispatch_signed env m i target d server issuer key headers control of
        Inl e \<Rightarrow> Inl (Broken e)
      | Inr out \<Rightarrow> Inr (d, out))"

section \<open>The answer\<close>

record fed_response =
  rs_statusCode :: nat
  rs_headers :: "(string \<times> string list) list"

definition SAFE_RESPONSE_HEADERS :: "string list" where
  "SAFE_RESPONSE_HEADERS = [''accept-ranges'', ''cache-control'', ''content-disposition'', ''content-length'', ''content-range'',
     ''content-type'', ''etag'', ''last-modified'', ''retry-after'']"

definition safeResponseHeaders :: "(string \<times> string list) list \<Rightarrow> (string \<times> string list) list" where
  "safeResponseHeaders headers =
     filter (\<lambda>(name, v). name \<in> set SAFE_RESPONSE_HEADERS) (map (\<lambda>(rawName, v). (js_lower rawName, v)) headers)"

definition responseMedia :: "(string \<times> string list) list \<Rightarrow> string option" where
  "responseMedia headers =
     (case map_of headers ''content-type'' of
        Some (v # vs) \<Rightarrow> truthy (Some (js_lower (js_trim (takeWhile (\<lambda>c. c \<noteq> CHR '';'') v))))
      | _ \<Rightarrow> None)"

text \<open>\<open>Inl\<close> is an error of the network; a redirect, a cookie and an undeclared medium are refused.\<close>

definition dispatch_answer ::
  "master_state \<Rightarrow> dispatch_input \<Rightarrow> descriptor \<Rightarrow> (fed_error \<times> bool) + fed_response \<Rightarrow> dispatch_error + fed_response"
where
  "dispatch_answer m i d answer = (let actionId = Some (ad_actionId d) in
     case answer of
       Inl (e, aborted) \<Rightarrow> Inl (transport_failure (ma_requestId m) (dp_targetInstallationId i) actionId e aborted)
     | Inr r \<Rightarrow>
        (let refuse = (\<lambda>code message. Inl (errorContract code (ma_requestId m) (dp_targetInstallationId i) actionId message
            (Some (rs_statusCode r)) 502)) in
         if 300 \<le> rs_statusCode r \<and> rs_statusCode r < 400
         then refuse ''REMOTE_APPLICATION_ERROR'' ''Remote redirect was rejected''
         else if map_of (rs_headers r) ''set-cookie'' \<noteq> None
         then refuse ''REMOTE_APPLICATION_ERROR'' ''Remote response attempted to set a cookie''
         else if rs_statusCode r \<noteq> 204 \<and>
           (case responseMedia (rs_headers r) of None \<Rightarrow> True | Some media \<Rightarrow> media \<notin> set (map js_lower (ad_responseMedia d)))
         then refuse ''REMOTE_SCHEMA_MISMATCH'' ''Remote response media is not declared''
         else Inr \<lparr>rs_statusCode = rs_statusCode r, rs_headers = safeResponseHeaders (rs_headers r)\<rparr>))"

text \<open>The whole dispatch; \<open>network\<close> answers the request that leaves.\<close>

definition action_of_stop :: "master_state \<Rightarrow> dispatch_input \<Rightarrow> string option" where
  "action_of_stop m i = (case dispatch_action m i of Inr (target, d) \<Rightarrow> Some (ad_actionId d) | Inl _ \<Rightarrow> None)"

definition dispatchAs ::
  "fed_env \<Rightarrow> (outbound \<Rightarrow> (fed_error \<times> bool) + fed_response) \<Rightarrow> master_state \<Rightarrow> dispatch_input \<Rightarrow> dispatch_error + fed_response"
where
  "dispatchAs env network m i =
     (case dispatch_send env m i of
        Inl (Stop e) \<Rightarrow> Inl e
      | Inl (Broken e) \<Rightarrow> Inl (transport_failure (ma_requestId m) (dp_targetInstallationId i) (action_of_stop m i) e False)
      | Inr (d, out) \<Rightarrow> dispatch_answer m i d (network out))"

end
