(* ===== verification/Fed_Payload.thy ===== *)
theory Fed_Payload
  imports Fed_Claims
begin

text \<open>
  What the signature of an assertion covers. The payload determines the text of every claim and
  the request itself, \<open>payload_determines\<close>: no line can be forged inside another, because every
  line consists of printable characters.
\<close>

section \<open>Characters of a pattern\<close>

text \<open>Every text of the pattern consists of characters of the class.\<close>

primrec within :: "(char \<Rightarrow> bool) \<Rightarrow> rx \<Rightarrow> bool" where
  "within Q Never = True"
| "within Q Empty = True"
| "within Q (Cls P) = (\<forall>c. P c \<longrightarrow> Q c)"
| "within Q (Cat r q) = (within Q r \<and> within Q q)"
| "within Q (Alt r q) = (within Q r \<and> within Q q)"
| "within Q (Star r) = within Q r"
| "within Q (Rep m n r) = within Q r"

lemma pow_all: "(\<And>s. s \<in> A \<Longrightarrow> list_all Q s) \<Longrightarrow> s \<in> pow A n \<Longrightarrow> list_all Q s"
  by (induction n arbitrary: s) (auto simp: in_conc)

lemma within_lang: "within Q r \<Longrightarrow> s \<in> lang r \<Longrightarrow> list_all Q s"
proof (induction r arbitrary: s)
  case (Star r)
  then show ?case using pow_all [of "lang r" Q s] by auto
next
  case (Rep m n r)
  then show ?case using pow_all [of "lang r" Q s] by auto
qed (auto simp: in_conc)

lemma within_test: "within Q r \<Longrightarrow> rx_test r s \<Longrightarrow> list_all Q s"
  by (simp add: rx_test_iff within_lang)

section \<open>Bytes of a text\<close>

definition utf8_char :: "char \<Rightarrow> bytes" where
  "utf8_char c = (let n = (of_char c :: nat) in
     if n < 128 then [of_nat n] else [of_nat (192 + n div 64), of_nat (128 + n mod 64)])"

lemma utf8_bytes_Cons: "utf8_bytes (c # s) = utf8_char c @ utf8_bytes s"
  by (simp add: utf8_bytes_def utf8_char_def)

lemma utf8_char_prefix: "utf8_char c @ xs = utf8_char d @ ys \<Longrightarrow> c = d \<and> xs = ys"
proof -
  let ?n = "of_char c :: nat" and ?m = "of_char d :: nat"
  have eq: "(of_nat a :: 8 word) = of_nat b \<longleftrightarrow> a = b" if "a < 256" "b < 256" for a b
    using that by (simp add: word_unat_eq_iff unat_of_nat)
  have n: "?n < 256" "?m < 256" using nat_of_char_less_256 by auto
  then have div: "?n div 64 < 4" "?m div 64 < 4" by (auto simp: less_mult_imp_div_less)
  have mod: "?n mod 64 < 64" "?m mod 64 < 64" by simp_all
  assume e: "utf8_char c @ xs = utf8_char d @ ys"
  have "?n = ?m \<and> xs = ys"
  proof (cases "?n < 128"; cases "?m < 128")
    assume "\<not> ?n < 128" "\<not> ?m < 128"
    with e have "(of_nat (192 + ?n div 64) :: 8 word) = of_nat (192 + ?m div 64)"
      "(of_nat (128 + ?n mod 64) :: 8 word) = of_nat (128 + ?m mod 64)" "xs = ys"
      unfolding utf8_char_def Let_def by (simp_all only: if_False append_Cons append_Nil list.inject) 
    then have "?n div 64 = ?m div 64" "?n mod 64 = ?m mod 64" "xs = ys"
      using div mod eq [of "192 + ?n div 64" "192 + ?m div 64"] eq [of "128 + ?n mod 64" "128 + ?m mod 64"] by simp_all
    then show ?thesis by (metis div_mult_mod_eq)
  next
    assume "?n < 128" "?m < 128"
    with e have "(of_nat ?n :: 8 word) = of_nat ?m" "xs = ys" unfolding utf8_char_def Let_def by simp_all
    then show ?thesis using eq n by simp
  next
    assume "?n < 128" "\<not> ?m < 128"
    with e have "(of_nat ?n :: 8 word) = of_nat (192 + ?m div 64)"
      unfolding utf8_char_def Let_def by (simp only: if_True if_False append_Cons append_Nil list.inject)
    then show ?thesis using eq [of ?n "192 + ?m div 64"] n div \<open>?n < 128\<close> by simp
  next
    assume "\<not> ?n < 128" "?m < 128"
    with e have "(of_nat ?m :: 8 word) = of_nat (192 + ?n div 64)"
      unfolding utf8_char_def Let_def by (simp only: if_True if_False append_Cons append_Nil list.inject)
    then show ?thesis using eq [of ?m "192 + ?n div 64"] n div \<open>?m < 128\<close> by simp
  qed
  then show ?thesis by (simp add: of_char_eq_iff)
qed

lemma utf8_bytes_inj: "utf8_bytes s = utf8_bytes t \<longleftrightarrow> s = t"
proof
  have some: "utf8_char c \<noteq> []" for c by (simp add: utf8_char_def Let_def)
  have nil: "utf8_bytes [] = []" by (simp add: utf8_bytes_def)
  show "utf8_bytes s = utf8_bytes t \<Longrightarrow> s = t"
  proof (induction s arbitrary: t)
    case Nil
    then show ?case using some nil by (cases t) (auto simp: utf8_bytes_Cons)
  next
    case (Cons c s)
    show ?case
    proof (cases t)
      case Nil
      then show ?thesis using Cons.prems some nil by (auto simp: utf8_bytes_Cons)
    next
      case (Cons d t')
      then show ?thesis using Cons.prems Cons.IH utf8_char_prefix unfolding Cons utf8_bytes_Cons by blast
    qed
  qed
qed simp

lemma base64url_inj: "base64url a = base64url b \<longleftrightarrow> a = b"
  using base64_round_trip by metis

section \<open>Lines and lists\<close>

lemma split_at_char:
  "list_all (\<lambda>c. c \<noteq> x) s \<Longrightarrow> list_all (\<lambda>c. c \<noteq> x) t \<Longrightarrow> s @ x # u = t @ x # v \<Longrightarrow> s = t \<and> u = v"
proof (induction s arbitrary: t)
  case Nil
  then show ?case by (cases t) auto
next
  case (Cons c s)
  then show ?case by (cases t) auto
qed

lemma line_text_inj:
  assumes "list_all (list_all printable) ls" "list_all (list_all printable) ms" "line_text ls = line_text ms"
  shows "ls = ms"
  using assms
proof (induction ls arbitrary: ms)
  case Nil
  then show ?case by (cases ms) (auto simp: line_text_def)
next
  case (Cons l ls)
  then obtain m ms' where ms: "ms = m # ms'" by (cases ms) (auto simp: line_text_def)
  have plain: "list_all printable s \<Longrightarrow> list_all (\<lambda>c. c \<noteq> CHR 0x0A) s" for s
    by (auto simp: list_all_iff printable_def less_eq_char_def)
  have "l @ CHR 0x0A # line_text ls = m @ CHR 0x0A # line_text ms'"
    using Cons.prems(3) by (simp add: ms line_text_def)
  then have "l = m \<and> line_text ls = line_text ms'"
    using Cons.prems(1,2) ms plain by (intro split_at_char) auto
  then show ?case using Cons ms by auto
qed

lemma printable_join: "list_all (list_all printable) ss \<Longrightarrow> list_all printable (join_with (CHR '','') ss)"
  by (induction "CHR '',''" ss rule: join_with.induct) (auto simp: printable_def less_eq_char_def)

text \<open>A list without commas is determined by its text, but for the empty list and the list of the empty text.\<close>

fun join_tail :: "string list \<Rightarrow> string" where
  "join_tail [] = []"
| "join_tail (s # ss) = CHR '','' # s @ join_tail ss"

lemma join_with_tails: "join_with (CHR '','') (s # ss) = s @ join_tail ss"
  by (induction ss arbitrary: s) simp_all

abbreviation no_comma :: "string \<Rightarrow> bool" where "no_comma s \<equiv> list_all (\<lambda>c. c \<noteq> CHR '','') s"

lemma join_tail_inj:
  "no_comma s \<Longrightarrow> no_comma t \<Longrightarrow> list_all no_comma ss \<Longrightarrow> list_all no_comma ts \<Longrightarrow>
     s @ join_tail ss = t @ join_tail ts \<Longrightarrow> s = t \<and> ss = ts"
proof (induction ss arbitrary: s t ts)
  case Nil
  show ?case
  proof (cases ts)
    case (Cons u us)
    then have "CHR '','' \<in> set (t @ join_tail ts)" by simp
    then have "CHR '','' \<in> set s" using Nil.prems(5) by (metis append_Nil2 join_tail.simps(1))
    with Nil.prems(1) show ?thesis by (auto simp: list_all_iff)
  qed (use Nil in simp)
next
  case (Cons u us)
  show ?case
  proof (cases ts)
    case Nil
    with Cons have "CHR '','' \<in> set t" by (metis append_Nil2 in_set_conv_decomp join_tail.simps)
    with Cons.prems(2) show ?thesis by (auto simp: list_all_iff)
  next
    case ts: (Cons v vs)
    with Cons.prems have "s = t \<and> u @ join_tail us = v @ join_tail vs" by (intro split_at_char) auto
    then show ?thesis using Cons.IH [of u v vs] Cons.prems ts by simp
  qed
qed

lemma join_members:
  assumes "list_all no_comma ss" "list_all no_comma ts" "join_with (CHR '','') ss = join_with (CHR '','') ts"
    and "s \<in> set ss" "s \<noteq> []"
  shows "s \<in> set ts"
proof (cases ss)
  case ss: (Cons u us)
  show ?thesis
  proof (cases ts)
    case Nil
    with assms ss have "u @ join_tail us = []" by (simp add: join_with_tails del: join_with.simps(2,3))
    then show ?thesis using assms ss by (cases us) auto
  next
    case (Cons v vs)
    with assms ss have "u = v \<and> us = vs" by (intro join_tail_inj) (auto simp: join_with_tails simp del: join_with.simps(2,3))
    with assms ss Cons show ?thesis by simp
  qed
qed (use assms in simp)

section \<open>The texts of valid claims\<close>

lemma printable_patterns:
  "within printable FED_KEY_ID" "within printable UUID" "within printable ACTION_ID" "within printable NONCE"
  "within printable SUBJECT" "within printable OPTIONAL_ID" "within printable FED_PERMISSION" "within printable IPV4"
  "within printable IPV6" "within printable SHA256_HEX"
  by (auto simp: FED_KEY_ID_def UUID_def ACTION_ID_def NONCE_def SUBJECT_def OPTIONAL_ID_def FED_PERMISSION_def IPV4_def IPV6_def
      V4SEG_def V6FORM_def V6HEAD_def V6TAIL_def V6SEG_def SHA256_HEX_def base64url_class_def plus_def opt_def
      base64url_char_def safe_id_char_def any_hex_def hex_lower_def printable_def lower_def upper_def digit_char_def
      less_eq_char_def)

lemma printable_show_int: "list_all printable (show_int i)"
proof -
  have "list_all printable (show_nat n)" for n
    using show_nat_digits [of n] by (auto simp: list_all_iff is_digit_def printable_def less_eq_char_def)
  then show ?thesis by (simp add: show_int_def printable_def less_eq_char_def)
qed

text \<open>What \<open>assertClaims\<close> lets through.\<close>

lemma assertClaims_None:
  assumes "assertClaims claims = None"
  shows "js_test FED_KEY_ID (field claims ''keyId'')" "js_test UUID (field claims ''requestId'')"
    "js_test UUID (field claims ''targetInstallationId'')" "js_test UUID (field claims ''issuerInstallationId'')"
    "js_test ACTION_ID (field claims ''actionId'')" "js_test NONCE (field claims ''nonce'')"
    "js_test SUBJECT (field claims ''subject'')" "is_ip (js_text (field claims ''browserIp''))"
    "field claims ''actorKind'' \<in> {JStr ''OPERATOR'', JStr ''SERVICE''}" "field claims ''role'' \<in> JStr ` set role_names"
    "is_safe_integer (field claims ''issuedAt'')" "is_safe_integer (field claims ''expiresAt'')"
    "is_safe_integer (field claims ''principalVersion'')"
    "int_of_json (field claims ''issuedAt'') < int_of_json (field claims ''expiresAt'')"
    "int_of_json (field claims ''expiresAt'') \<le> int_of_json (field claims ''issuedAt'') + 60"
    "field claims ''operationId'' = JNull \<or> js_test OPTIONAL_ID (field claims ''operationId'')"
    "field claims ''idempotencyId'' = JNull \<or> js_test OPTIONAL_ID (field claims ''idempotencyId'')"
    "\<exists>ps. permission_list claims = Some ps \<and> (\<forall>p \<in> set ps. js_test FED_PERMISSION p)"
    "field claims ''actorKind'' = JStr ''SERVICE'' \<longleftrightarrow> field claims ''role'' = JStr ''SERVICE''"
  using assms by (auto simp: assertClaims_def Let_def browser_ip_bad_def list_ex_iff split: option.splits)

lemma safe_integer_num: "is_safe_integer v \<Longrightarrow> \<exists>i. v = JNum i"
  by (cases v) auto

lemma printable_integer: "is_safe_integer v \<Longrightarrow> list_all printable (js_text v)"
  using safe_integer_num printable_show_int by fastforce

lemma printable_tested: "js_test r v \<Longrightarrow> within printable r \<Longrightarrow> list_all printable (js_text v)"
  by (simp add: js_test_def within_test)

lemma printable_or_dash: "v = JNull \<or> js_test OPTIONAL_ID v \<Longrightarrow> list_all printable (js_text (or_dash v))"
  using printable_tested printable_patterns(6) by (auto simp: or_dash_def printable_def less_eq_char_def)

lemma printable_permissions:
  assumes "\<forall>p \<in> set ps. js_test FED_PERMISSION p"
  shows "list_all printable (js_text (JArr ps))"
proof -
  have "list_all printable (js_text p)" if "p \<in> set ps" for p
    using assms that printable_patterns(7) printable_tested by blast
  then have "list_all (list_all printable) (map (\<lambda>v. if v = JNull \<or> v = JUndefined then [] else js_text v) ps)"
    by (auto simp: list_all_iff)
  from printable_join [OF this] show ?thesis by simp
qed

lemma printable_claims:
  assumes "assertClaims claims = None" "field claims ''permissions'' = JArr ps" "(k, v) \<in> set (claim_lines claims)"
  shows "list_all printable (js_text v)"
proof -
  note c = assertClaims_None [OF assms(1)]
  have ip: "list_all printable (js_text (field claims ''browserIp''))"
    using c(8) printable_patterns(8,9) within_test unfolding is_ip_def by blast
  have names: "list_all printable (js_text (field claims ''actorKind''))" "list_all printable (js_text (field claims ''role''))"
    using c(9,10) by (auto simp: role_names_def printable_def less_eq_char_def)
  have perms: "list_all printable (js_text (field claims ''permissions''))"
    using c(18) assms(2) printable_permissions by (simp add: permission_list_def del: js_text.simps)
  have "v \<in> field claims ` {''keyId'', ''nonce'', ''requestId'', ''targetInstallationId'', ''actionId'', ''issuerInstallationId'',
      ''subject''} \<or> v \<in> field claims ` {''issuedAt'', ''expiresAt'', ''principalVersion''} \<or>
      v \<in> field claims ` {''browserIp'', ''actorKind'', ''role'', ''permissions''} \<or>
      v \<in> (\<lambda>n. or_dash (field claims n)) ` {''operationId'', ''idempotencyId''}"
    using assms(3) unfolding claim_lines_def Let_def by (simp add: disj_ac) blast
  then show ?thesis
    using printable_tested [OF c(1)] printable_tested [OF c(2)] printable_tested [OF c(3)] printable_tested [OF c(4)]
      printable_tested [OF c(5)] printable_tested [OF c(6)] printable_tested [OF c(7)] printable_patterns
      printable_integer [OF c(11)] printable_integer [OF c(12)] printable_integer [OF c(13)] ip names perms
      printable_or_dash [OF c(16)] printable_or_dash [OF c(17)]
    by auto
qed

definition claim_texts :: "json \<Rightarrow> string list" where
  "claim_texts claims = map (js_text \<circ> snd) (claim_lines claims)"

lemma printable_prefixes:
  "list_all (\<lambda>(k, v). list_all printable k) (claim_lines claims)"
  "list_all printable ''MEOWBOX-EDDSA-V1''" "list_all printable ''method:''" "list_all printable ''target:''"
  "list_all printable ''headers:''" "list_all printable ''body-sha256:''"
  by (simp_all add: claim_lines_def Let_def printable_def less_eq_char_def)

lemma printable_methods: "m \<in> set METHODS \<Longrightarrow> list_all printable m"
  by (auto simp: METHODS_def printable_def less_eq_char_def)

lemma assertBinding_None:
  assumes "assertBinding b = None"
  shows "bi_method b \<in> set METHODS" "list_all printable (bi_targetPathAndQuery b)" "rx_test SHA256_HEX (bi_bodySha256 b)"
    "take 5 (bi_targetPathAndQuery b) = ''/api/''" "headers_canonical (bi_headers b)"
  using assms by (auto simp: assertBinding_def)

lemma payload_built:
  "buildDelegationPayload claims b = Inr p \<longleftrightarrow> assertClaims claims = None \<and> assertBinding b = None \<and>
     (\<exists>ps. field claims ''permissions'' = JArr ps) \<and> p = utf8_bytes (line_text (payload_lines claims b))"
  by (auto simp: buildDelegationPayload_def split: option.splits json.splits)

lemma payload_printable:
  assumes "buildDelegationPayload claims b = Inr p"
  shows "list_all (list_all printable) (payload_lines claims b)"
proof -
  from assms obtain ps where c: "assertClaims claims = None" "assertBinding b = None" "field claims ''permissions'' = JArr ps"
    by (auto simp: payload_built)
  have "list_all (list_all printable) (map (\<lambda>(k, v). k @ js_text v) (claim_lines claims))"
    using printable_claims [OF c(1,3)] printable_prefixes(1) [of claims] by (auto simp: list_all_iff)
  moreover have "list_all (list_all printable) (binding_lines b)"
    using assertBinding_None [OF c(2)] printable_prefixes printable_methods within_test [OF printable_patterns(10)]
    by (simp add: binding_lines_def base64url_printable)
  ultimately show ?thesis using printable_prefixes(2) by (simp add: payload_lines_def)
qed

lemma header_json_inj: "header_json hs = header_json gs \<longleftrightarrow> hs = gs"
proof -
  have "inj (\<lambda>h :: fed_header. JObj [(''name'', JStr (fh_name h)), (''value'', JStr (fh_value h))])"
    by (intro injI) (simp add: fed_header.equality)
  then show ?thesis by (simp add: header_json_def inj_map_eq_map)
qed

lemma canonical_header_json: "canonical (header_json hs) = header_json hs"
proof -
  have "sort_key fst [(''name'', v), (''value'', w)] = [(''name'', v), (''value'', w :: json)]" for v w
    by (simp add: less_eq_char_def)
  then show ?thesis by (simp add: header_json_def comp_def)
qed

lemma header_text_inj: "canonicalJson (header_json hs) = canonicalJson (header_json gs) \<longleftrightarrow> hs = gs"
  by (simp add: canonicalJson_def stable_json_iff_canonical canonical_header_json header_json_inj)

text \<open>The payload determines the request and the text of every claim.\<close>

lemma payload_determines:
  assumes "buildDelegationPayload c b = Inr p" "buildDelegationPayload c' b' = Inr p"
  shows "b' = b" "claim_texts c' = claim_texts c"
proof -
  from assms have "utf8_bytes (line_text (payload_lines c' b')) = utf8_bytes (line_text (payload_lines c b))"
    by (simp add: payload_built)
  then have lines: "payload_lines c' b' = payload_lines c b"
    using line_text_inj payload_printable assms by (simp add: utf8_bytes_inj)
  have n: "length (claim_lines c') = length (claim_lines c)" "map fst (claim_lines c') = map fst (claim_lines c)"
    by (simp_all add: claim_lines_def Let_def)
  from lines n(1) have "binding_lines b' = binding_lines b"
    and cl: "map (\<lambda>(k, v). k @ js_text v) (claim_lines c') = map (\<lambda>(k, v). k @ js_text v) (claim_lines c)"
    by (simp_all add: payload_lines_def)
  then show "b' = b" by (simp add: binding_lines_def base64url_inj utf8_bytes_inj header_text_inj binding.equality)
  from cl show "claim_texts c' = claim_texts c"
    by (simp add: claim_texts_def claim_lines_def Let_def)
qed

end
