(* ===== verification/Fed_Theorems.thy ===== *)
theory Fed_Theorems
  imports Fed_System Fed_Dispatch Fed_Payload
begin

text \<open>
  What an admitted request is: it was signed, by the key of its issuer, for exactly this method,
  target, headers and body; it runs an action of the catalogue that issuer, claims and policy
  allow; it is admitted once.
\<close>

section \<open>What the stages have established\<close>

definition flight_context :: "fed_config \<Rightarrow> fed_flight \<Rightarrow> delegation_context" where
  "flight_context config f =
     \<lparr>dc_issuer = is_issuerInstallationId (fl_issuer f), dc_target = fc_installationId config, dc_keyId = fk_kid (fl_key f),
      dc_publicKeySpki = fk_publicKeySpki (fl_key f), dc_nowSeconds = fl_now f div 1000, dc_skew = 30\<rparr>"

lemma checked_stages:
  assumes "verify_checks env config input now db = Inr f"
  obtains untrusted key issuer claims d effective where
    "decodeDelegationClaims env (ea_assertion (vi_encoded input)) = Inr untrusted"
    "find_fed_key (field untrusted ''keyId'') db = Some (key, issuer)"
    "is_targetInstallationId issuer = fc_installationId config" "\<not> key_inactive key now"
    "verifyDelegationAssertion env (vi_encoded input) (vi_binding input)
       \<lparr>dc_issuer = is_issuerInstallationId issuer, dc_target = fc_installationId config, dc_keyId = fk_kid key,
        dc_publicKeySpki = fk_publicKeySpki key, dc_nowSeconds = now div 1000, dc_skew = 30\<rparr> = Inr claims"
    "resolveHttp (fc_catalogue config) (field claims ''actionId'') (bi_method (vi_binding input)) (vi_concretePath input) = Some d"
    "assertDelegatedActionPolicy d claims (is_maxRole issuer) (is_permissionPolicyJson issuer) (vi_idempotencyKey input) = Inr effective"
    "f = \<lparr>fl_input = input, fl_now = now, fl_claims = claims, fl_key = key, fl_issuer = issuer, fl_descriptor = d,
        fl_permissions = effective\<rparr>"
proof -
  from assms obtain untrusted where u: "decodeDelegationClaims env (ea_assertion (vi_encoded input)) = Inr untrusted"
    unfolding verify_checks_def by (cases "decodeDelegationClaims env (ea_assertion (vi_encoded input))") simp_all
  note a1 = assms [unfolded verify_checks_def u sum.case]
  from a1 have t: "fc_installationRole config = ''TARGET''" "is_text (field untrusted ''keyId'')" by (metis Inl_Inr_False)+
  from a1 obtain key issuer where k: "find_fed_key (field untrusted ''keyId'') db = Some (key, issuer)"
    by (cases "find_fed_key (field untrusted ''keyId'') db") (use t in auto)
  note a2 = a1 [unfolded k option.case prod.case]
  from a2 have c: "is_targetInstallationId issuer = fc_installationId config" "\<not> key_inactive key now"
    "JStr (is_issuerInstallationId issuer) = field untrusted ''issuerInstallationId''" "fk_encryptedPrivateKey key = None"
    using t by (metis Inl_Inr_False)+
  let ?ctx = "\<lparr>dc_issuer = is_issuerInstallationId issuer, dc_target = fc_installationId config, dc_keyId = fk_kid key,
        dc_publicKeySpki = fk_publicKeySpki key, dc_nowSeconds = now div 1000, dc_skew = 30\<rparr>"
  have a3: "(case verifyDelegationAssertion env (vi_encoded input) (vi_binding input) ?ctx of
        Inl e \<Rightarrow> Inl e
      | Inr claims \<Rightarrow>
     case resolveHttp (fc_catalogue config) (field claims ''actionId'') (bi_method (vi_binding input)) (vi_concretePath input) of
        None \<Rightarrow> Inl (Coded ''ACTION_DENIED'')
      | Some d \<Rightarrow>
     case assertDelegatedActionPolicy d claims (is_maxRole issuer) (is_permissionPolicyJson issuer) (vi_idempotencyKey input) of
        Inl e \<Rightarrow> Inl e
      | Inr effective \<Rightarrow>
          Inr \<lparr>fl_input = input, fl_now = now, fl_claims = claims, fl_key = key, fl_issuer = issuer, fl_descriptor = d,
               fl_permissions = effective\<rparr>) = Inr f"
    using a2 t c by simp
  then obtain claims where v: "verifyDelegationAssertion env (vi_encoded input) (vi_binding input) ?ctx = Inr claims"
    by (cases "verifyDelegationAssertion env (vi_encoded input) (vi_binding input) ?ctx") simp_all
  note a4 = a3 [unfolded v sum.case]
  then obtain d where d: "resolveHttp (fc_catalogue config) (field claims ''actionId'') (bi_method (vi_binding input))
      (vi_concretePath input) = Some d"
    by (cases "resolveHttp (fc_catalogue config) (field claims ''actionId'') (bi_method (vi_binding input)) (vi_concretePath input)")
       simp_all
  note a5 = a4 [unfolded d option.case]
  then obtain effective where e: "assertDelegatedActionPolicy d claims (is_maxRole issuer) (is_permissionPolicyJson issuer)
      (vi_idempotencyKey input) = Inr effective"
    by (cases "assertDelegatedActionPolicy d claims (is_maxRole issuer) (is_permissionPolicyJson issuer) (vi_idempotencyKey input)")
       simp_all
  show ?thesis using that [OF u k c(1,2) v d e] a5 [unfolded e sum.case] by simp
qed

lemma checked_flight:
  assumes "verify_checks env config input now db = Inr f"
  shows "fl_input f = input" "fl_now f = now"
    "verifyDelegationAssertion env (vi_encoded input) (vi_binding input) (flight_context config f) = Inr (fl_claims f)"
    "fl_key f \<in> set (fb_keys db)" "fl_issuer f \<in> set (fb_issuers db)" "is_id (fl_issuer f) = fk_issuerId (fl_key f)"
    "is_targetInstallationId (fl_issuer f) = fc_installationId config" "\<not> key_inactive (fl_key f) now"
    "resolveHttp (fc_catalogue config) (field (fl_claims f) ''actionId'') (bi_method (vi_binding input)) (vi_concretePath input)
       = Some (fl_descriptor f)"
    "assertDelegatedActionPolicy (fl_descriptor f) (fl_claims f) (is_maxRole (fl_issuer f)) (is_permissionPolicyJson (fl_issuer f))
       (vi_idempotencyKey input) = Inr (fl_permissions f)"
proof -
  from assms obtain untrusted key issuer claims d effective where s:
    "find_fed_key (field untrusted ''keyId'') db = Some (key, issuer)"
    "is_targetInstallationId issuer = fc_installationId config" "\<not> key_inactive key now"
    "verifyDelegationAssertion env (vi_encoded input) (vi_binding input)
       \<lparr>dc_issuer = is_issuerInstallationId issuer, dc_target = fc_installationId config, dc_keyId = fk_kid key,
        dc_publicKeySpki = fk_publicKeySpki key, dc_nowSeconds = now div 1000, dc_skew = 30\<rparr> = Inr claims"
    "resolveHttp (fc_catalogue config) (field claims ''actionId'') (bi_method (vi_binding input)) (vi_concretePath input) = Some d"
    "assertDelegatedActionPolicy d claims (is_maxRole issuer) (is_permissionPolicyJson issuer) (vi_idempotencyKey input) = Inr effective"
    and f: "f = \<lparr>fl_input = input, fl_now = now, fl_claims = claims, fl_key = key, fl_issuer = issuer, fl_descriptor = d,
        fl_permissions = effective\<rparr>"
    by (rule checked_stages)
  from s(1) have "key \<in> set (fb_keys db)" "issuer \<in> set (fb_issuers db)" "is_id issuer = fk_issuerId key"
    by (auto simp: find_fed_key_def split: option.splits dest!: find_first_SomeD)
  with s f show "fl_input f = input" "fl_now f = now"
    "verifyDelegationAssertion env (vi_encoded input) (vi_binding input) (flight_context config f) = Inr (fl_claims f)"
    "fl_key f \<in> set (fb_keys db)" "fl_issuer f \<in> set (fb_issuers db)" "is_id (fl_issuer f) = fk_issuerId (fl_key f)"
    "is_targetInstallationId (fl_issuer f) = fc_installationId config" "\<not> key_inactive (fl_key f) now"
    "resolveHttp (fc_catalogue config) (field (fl_claims f) ''actionId'') (bi_method (vi_binding input)) (vi_concretePath input)
       = Some (fl_descriptor f)"
    "assertDelegatedActionPolicy (fl_descriptor f) (fl_claims f) (is_maxRole (fl_issuer f)) (is_permissionPolicyJson (fl_issuer f))
       (vi_idempotencyKey input) = Inr (fl_permissions f)"
    by (simp_all add: flight_context_def)
qed

lemma verified_assertion:
  assumes "verifyDelegationAssertion env encoded b c = Inr claims"
  shows "assertClaims claims = None" "assertion_text claims = ea_assertion encoded"
    "field claims ''issuerInstallationId'' = JStr (dc_issuer c)" "field claims ''targetInstallationId'' = JStr (dc_target c)"
    "field claims ''keyId'' = JStr (dc_keyId c)"
    "int_of_json (field claims ''issuedAt'') \<le> dc_nowSeconds c + dc_skew c"
    "dc_nowSeconds c - dc_skew c \<le> int_of_json (field claims ''expiresAt'')"
    "\<exists>payload s. buildDelegationPayload claims b = Inr payload \<and> fe_verify env (dc_publicKeySpki c) payload s"
  using assms
  by (auto simp: verifyDelegationAssertion_def decodeDelegationClaims_def verifyFederationPayload_def Let_def
      split: sum.splits option.splits if_splits)

lemma verified_context:
  assumes "verify env config input now r db = (Inr x, db')"
  shows "verify_checks env config input now db = Inr (fx_flight x)"
    "\<exists>db1. verify_consume env config (fx_flight x) (vr_consumeFault r) db = (Inr (fx_replayHash x), db1) \<and>
       (\<exists>db2. verify_principal env (fx_flight x) (vr_principal r) db1 =
         (Inr (fx_userId x, fx_principalId x, fx_permissions x), db2) \<and>
        verify_claim env config (fx_flight x) (vr_receiptId r) (vr_claimFault r) db2 = (Inr (fx_receiptId x), db'))"
  using assms by (auto simp: verify_def split: sum.splits prod.splits)

lemma intersect_subset:
  assumes "intersectFederationPermissions asserted policies = Inr effective"
  shows "JStr ` set effective \<subseteq> set asserted" "\<And>policy. policy \<in> set policies \<Longrightarrow> set effective \<subseteq> set policy"
  using assms by (auto simp: intersectFederationPermissions_def map_filter_def list_all_iff split: if_splits elim!: json_string.elims)

text \<open>The principal: its subject is a text, and its permissions were asserted and suffice for the action.\<close>

lemma resolved_principal:
  assumes "verify_principal env f run db = (Inr (userId, principalId, effective), db')"
    and "JStr ` set (fl_permissions f) \<subseteq> set (asserted_permissions (fl_claims f))"
    and "set (ad_permissions (fl_descriptor f)) \<subseteq> set (fl_permissions f)"
  shows "\<exists>s. field (fl_claims f) ''subject'' = JStr s" "JStr ` set effective \<subseteq> set (asserted_permissions (fl_claims f))"
    "set (ad_permissions (fl_descriptor f)) \<subseteq> set effective" "userId = None \<longleftrightarrow> field (fl_claims f) ''actorKind'' \<noteq> JStr ''OPERATOR''"
proof -
  have "(\<exists>s. field (fl_claims f) ''subject'' = JStr s) \<and> JStr ` set effective \<subseteq> set (asserted_permissions (fl_claims f)) \<and>
    set (ad_permissions (fl_descriptor f)) \<subseteq> set effective \<and> (userId = None \<longleftrightarrow> field (fl_claims f) ''actorKind'' \<noteq> JStr ''OPERATOR'')"
  proof (cases "field (fl_claims f) ''actorKind'' = JStr ''OPERATOR''")
    case True
    obtain r d where r: "resolveVerifiedOperator env (flight_identity f) (pn_between run) (pn_attempts run) db = (r, d)" by fastforce
    then have e: "effective = fl_permissions f" "userId \<noteq> None" "\<exists>v. r = Inr v"
      using assms(1) True by (simp_all add: verify_principal_def split: sum.splits prod.splits) auto
    from r e(3) have "\<exists>s. ib_subject (flight_identity f) = JStr s"
      by (cases "ib_subject (flight_identity f)")
         (auto simp: resolveVerifiedOperator_def simp del: operator_attempts.simps split: option.splits)
    then show ?thesis using e(1,2) True assms(2,3) by (simp add: flight_identity_def)
  next
    case False
    then obtain p where r: "resolveVerifiedService (flight_identity f) (ad_actionId (fl_descriptor f))
        (asserted_permissions (fl_claims f)) (pn_now run) (pn_fault run) (pn_seen run) db = (Inr (p, effective), db')"
      and e: "set (ad_permissions (fl_descriptor f)) \<subseteq> set effective" "userId = None"
      using assms(1) by (auto simp: verify_principal_def split: sum.splits prod.splits if_splits)
    from r have "\<exists>s. ib_subject (flight_identity f) = JStr s"
      by (cases "ib_subject (flight_identity f)") (auto simp: resolveVerifiedService_def split: option.splits)
    moreover from r obtain policies
      where "intersectFederationPermissions (asserted_permissions (fl_claims f)) policies = Inr effective"
      by (auto simp: resolveVerifiedService_def split: option.splits sum.splits json.splits if_splits)
    then have "JStr ` set effective \<subseteq> set (asserted_permissions (fl_claims f))" by (rule intersect_subset(1))
    ultimately show ?thesis using e False by (auto simp: flight_identity_def)
  qed
  then show "\<exists>s. field (fl_claims f) ''subject'' = JStr s" "JStr ` set effective \<subseteq> set (asserted_permissions (fl_claims f))"
    "set (ad_permissions (fl_descriptor f)) \<subseteq> set effective" "userId = None \<longleftrightarrow> field (fl_claims f) ''actorKind'' \<noteq> JStr ''OPERATOR''"
    by blast+
qed

section \<open>Authenticity\<close>

text \<open>The claims that were signed are those of the admitted request.\<close>

definition agree_on :: "json \<Rightarrow> master_claims \<Rightarrow> bool" where
  "agree_on claims c \<longleftrightarrow>
     field claims ''requestId'' = JStr (mc_requestId c) \<and> field claims ''keyId'' = JStr (mc_keyId c) \<and>
     field claims ''issuerInstallationId'' = JStr (mc_issuerInstallationId c) \<and>
     field claims ''targetInstallationId'' = JStr (mc_targetInstallationId c) \<and>
     field claims ''actionId'' = JStr (mc_actionId c) \<and> field claims ''actorKind'' = JStr (mc_actorKind c) \<and>
     field claims ''subject'' = JStr (mc_subject c) \<and> field claims ''role'' = JStr (mc_role c) \<and>
     field claims ''nonce'' = JStr (mc_nonce c) \<and> field claims ''issuedAt'' = JNum (mc_issuedAt c) \<and>
     field claims ''expiresAt'' = JNum (mc_expiresAt c) \<and> field claims ''principalVersion'' = JNum (mc_principalVersion c)"

definition agrees :: "fed_context \<Rightarrow> master_claims \<Rightarrow> bool" where
  "agrees x c \<longleftrightarrow> agree_on (fl_claims (fx_flight x)) c \<and>
     vi_idempotencyKey (fl_input (fx_flight x)) = mc_idempotencyId c \<and> set (fx_permissions x) \<subseteq> set (mc_permissions c)"

definition text_claims :: "string list" where
  "text_claims = [''requestId'', ''nonce'', ''subject'', ''keyId'', ''issuerInstallationId'', ''targetInstallationId'', ''actionId'',
     ''role'', ''actorKind'']"

definition number_claims :: "string list" where
  "number_claims = [''issuedAt'', ''expiresAt'', ''principalVersion'']"

lemma show_int_inj: "show_int i = show_int j \<longleftrightarrow> i = j"
  using print_json_inj [of "JNum i" "JNum j"] by auto

lemma claims_json_fields:
  "field (claims_json c) ''keyId'' = JStr (mc_keyId c)" "field (claims_json c) ''issuedAt'' = JNum (mc_issuedAt c)"
  "field (claims_json c) ''expiresAt'' = JNum (mc_expiresAt c)" "field (claims_json c) ''nonce'' = JStr (mc_nonce c)"
  "field (claims_json c) ''requestId'' = JStr (mc_requestId c)"
  "field (claims_json c) ''targetInstallationId'' = JStr (mc_targetInstallationId c)"
  "field (claims_json c) ''actionId'' = JStr (mc_actionId c)" "field (claims_json c) ''actorKind'' = JStr (mc_actorKind c)"
  "field (claims_json c) ''issuerInstallationId'' = JStr (mc_issuerInstallationId c)"
  "field (claims_json c) ''subject'' = JStr (mc_subject c)" "field (claims_json c) ''browserIp'' = JStr (mc_browserIp c)"
  "field (claims_json c) ''role'' = JStr (mc_role c)"
  "field (claims_json c) ''permissions'' = JArr (map JStr (mc_permissions c))"
  "field (claims_json c) ''principalVersion'' = JNum (mc_principalVersion c)"
  "field (claims_json c) ''operationId'' = json_opt (mc_operationId c)"
  "field (claims_json c) ''idempotencyId'' = json_opt (mc_idempotencyId c)"
  by (simp_all add: claims_json_def)

lemma master_texts: "k \<in> set text_claims \<Longrightarrow> \<exists>s. field (claims_json c) k = JStr s"
  unfolding text_claims_def using claims_json_fields [of c] by auto

lemma master_numbers: "k \<in> set number_claims \<Longrightarrow> \<exists>i. field (claims_json c) k = JNum i"
  unfolding number_claims_def using claims_json_fields [of c] by auto

lemma claim_texts_fields:
  assumes "claim_texts c = claim_texts d"
  shows "k \<in> set (text_claims @ number_claims) \<Longrightarrow> js_text (field c k) = js_text (field d k)"
    "js_text (field c ''permissions'') = js_text (field d ''permissions'')"
    "js_text (or_dash (field c ''idempotencyId'')) = js_text (or_dash (field d ''idempotencyId''))"
  using assms
  by (auto simp: claim_texts_def claim_lines_def Let_def text_claims_def number_claims_def simp del: js_text.simps)

lemma no_comma_permission: "js_test FED_PERMISSION v \<Longrightarrow> list_all (\<lambda>c. c \<noteq> CHR '','') (js_text v)"
  unfolding js_test_def
  by (erule within_test [rotated])
     (auto simp: FED_PERMISSION_def plus_def lower_def digit_char_def less_eq_char_def)

lemma permission_not_empty: "js_test FED_PERMISSION v \<Longrightarrow> js_text v \<noteq> []"
  by (auto simp: js_test_def FED_PERMISSION_def rx_test.simps)

lemma permissions_signed:
  assumes "\<forall>p \<in> set vs. js_test FED_PERMISSION p" "\<forall>p \<in> set ps. js_test FED_PERMISSION (JStr p)"
    and "js_text (JArr vs) = js_text (JArr (map JStr ps))" "JStr p \<in> set vs"
  shows "p \<in> set ps"
proof (rule join_members)
  let ?t = "\<lambda>v. if v = JNull \<or> v = JUndefined then [] else js_text v"
  show "list_all no_comma (map ?t vs)" "list_all no_comma ps"
    using assms(1,2) no_comma_permission by (fastforce simp: list_all_iff)+
  show "join_with (CHR '','') (map ?t vs) = join_with (CHR '','') ps"
    using assms(3) by (simp add: comp_def)
  show "p \<in> set (map ?t vs)" using assms(4) by force
  show "p \<noteq> []" using assms(1,4) permission_not_empty by fastforce
qed

lemma optional_id_dash: "js_test OPTIONAL_ID (JStr s) \<Longrightarrow> s \<noteq> ''-''"
  by (auto simp: js_test_def OPTIONAL_ID_def rx_test_Rep_Cls)

lemma idempotency_signed:
  assumes "field c ''idempotencyId'' = json_opt k" "field d ''idempotencyId'' = json_opt l"
    and "assertClaims c = None" "assertClaims d = None" "claim_texts c = claim_texts d"
  shows "k = l"
  using assertClaims_None(17) [OF assms(3)] assertClaims_None(17) [OF assms(4)] claim_texts_fields(3) [OF assms(5)]
  unfolding assms(1,2) by (auto simp: json_opt_def or_dash_def dest: optional_id_dash split: option.splits)

lemma policy_texts:
  assumes "assertDelegatedActionPolicy d claims maxRole policyJson key = Inr effective"
    and "assertClaims claims = None"
  shows "field claims ''actionId'' = JStr (ad_actionId d)" "\<exists>s. field claims ''role'' = JStr s" "\<exists>s. field claims ''actorKind'' = JStr s"
  using action_policy(1) [OF assms(1)] assertClaims_None(9,10) [OF assms(2)] by auto

lemma consumed_texts:
  assumes "verify_consume env config f fault db = (Inr hash, db')"
  shows "\<exists>u. field (fl_claims f) ''requestId'' = JStr u" "\<exists>n. field (fl_claims f) ''nonce'' = JStr n"
  using assms by (auto simp: verify_consume_def consume_replay_def replayHash_def flight_replay_def
      split: if_splits option.splits json.splits)

text \<open>
  The signatures cannot be forged: what a stored key verifies is the payload of claims and a
  request that the issuer has signed.
\<close>

definition only_signed :: "fed_env \<Rightarrow> fdb \<Rightarrow> (master_claims \<times> binding) list \<Rightarrow> bool" where
  "only_signed env db signatures \<longleftrightarrow>
     (\<forall>k \<in> set (fb_keys db). \<forall>payload s. fe_verify env (fk_publicKeySpki k) payload s \<longrightarrow>
        (\<exists>(c, b) \<in> set signatures. buildDelegationPayload (claims_json c) b = Inr payload))"

text \<open>The context of a verification is the one that was signed.\<close>

lemma verified_was_signed:
  assumes v: "verify env config input now r db = (Inr x, db')"
    and unforgeable: "only_signed env db signatures"
  shows "\<exists>(c, b) \<in> set signatures. b = vi_binding input \<and> agrees x c"
proof -
  let ?f = "fx_flight x" and ?j = "fl_claims (fx_flight x)"
  note f = checked_flight [OF verified_context(1) [OF v]]
  note a = verified_assertion [OF f(3)] and p = action_policy [OF f(10)]
  from a(8) obtain payload s where pay: "buildDelegationPayload ?j (vi_binding input) = Inr payload"
    and "fe_verify env (fk_publicKeySpki (fl_key ?f)) payload s" by (auto simp: flight_context_def)
  then obtain c b where cb: "(c, b) \<in> set signatures" "buildDelegationPayload (claims_json c) b = Inr payload"
    using unforgeable f(4) unfolding only_signed_def by blast
  have same: "b = vi_binding input" "claim_texts ?j = claim_texts (claims_json c)"
    using payload_determines [OF cb(2) pay] payload_determines [OF pay cb(2)] by simp_all
  from cb(2) have valid: "assertClaims (claims_json c) = None" by (simp add: payload_built)
  note t = claim_texts_fields(1) [OF same(2)]
  from verified_context(2) [OF v] obtain db1 db2 where
    stages: "verify_consume env config ?f (vr_consumeFault r) db = (Inr (fx_replayHash x), db1)"
      "verify_principal env ?f (vr_principal r) db1 = (Inr (fx_userId x, fx_principalId x, fx_permissions x), db2)" by blast
  note principal = resolved_principal [OF stages(2) p(7) equalityD2 [OF p(5)]]
  have texts: "\<exists>s. field ?j k = JStr s" if "k \<in> set text_claims" for k
    using that consumed_texts [OF stages(1)] principal(1) a(3-5) policy_texts [OF f(10) a(1)]
    unfolding text_claims_def by auto
  have ints: "\<exists>i. field ?j k = JNum i" if "k \<in> set number_claims" for k
    using that assertClaims_None(11-13) [OF a(1)] safe_integer_num unfolding number_claims_def by auto
  have "vi_idempotencyKey (fl_input ?f) = mc_idempotencyId c"
    using idempotency_signed [OF p(2) claims_json_fields(16) a(1) valid same(2)] f(1) by simp
  moreover have "set (fx_permissions x) \<subseteq> set (mc_permissions c)"
  proof
    fix e
    assume "e \<in> set (fx_permissions x)"
    then have e: "JStr e \<in> set (asserted_permissions ?j)" using principal(2) by blast
    then obtain vs where vs: "field ?j ''permissions'' = JArr vs" "JStr e \<in> set vs"
      by (cases "field ?j ''permissions''") (simp_all add: asserted_permissions_def)
    have "\<forall>p \<in> set vs. js_test FED_PERMISSION p" using assertClaims_None(18) [OF a(1)] vs(1) by (simp add: permission_list_def)
    moreover have "\<forall>p \<in> set (mc_permissions c). js_test FED_PERMISSION (JStr p)"
      using assertClaims_None(18) [OF valid] by (simp add: permission_list_def claims_json_fields)
    moreover have "js_text (JArr vs) = js_text (JArr (map JStr (mc_permissions c)))"
      using claim_texts_fields(2) [OF same(2)] vs(1) by (simp add: claims_json_fields del: js_text.simps)
    ultimately show "e \<in> set (mc_permissions c)" using vs(2) by (rule permissions_signed)
  qed
  moreover have "field ?j k = field (claims_json c) k" if k: "k \<in> set (text_claims @ number_claims)" for k
  proof (cases "k \<in> set text_claims")
    case True
    from texts [OF this] master_texts [OF this] obtain u w where "field ?j k = JStr u" "field (claims_json c) k = JStr w" by blast
    with t [OF k] show ?thesis by simp
  next
    case False
    with k have "k \<in> set number_claims" by simp
    from ints [OF this] master_numbers [OF this] obtain u w where "field ?j k = JNum u" "field (claims_json c) k = JNum w" by blast
    with t [OF k] show ?thesis by (simp add: show_int_inj)
  qed
  from this [of "''requestId''"] this [of "''nonce''"] this [of "''subject''"] this [of "''keyId''"] this [of "''issuerInstallationId''"]
    this [of "''targetInstallationId''"] this [of "''actionId''"] this [of "''role''"] this [of "''actorKind''"]
    this [of "''issuedAt''"] this [of "''expiresAt''"] this [of "''principalVersion''"]
  have "agree_on ?j c" by (simp add: agree_on_def claims_json_fields text_claims_def number_claims_def)
  ultimately have "agrees x c" by (simp add: agrees_def)
  with cb(1) same(1) show ?thesis by blast
qed

lemma guard_admitted:
  assumes "canActivate env config q random now r db = (Admitted x user j, db')"
  obtains input body assertion signature where "guard_input env q assertion signature = Inr (input, body)"
    "verify env config input now r db = (Inr x, db')" "j = request_json env body" "user = request_user x"
  using assms by (auto simp: canActivate_def split: if_splits sum.splits prod.splits)

lemma control_digest:
  "validateGenericControlRequest sha parse m headers body = Inr (h, k) \<Longrightarrow> h = sha256Body sha body"
  by (simp add: validateGenericControlRequest_def Let_def split: option.splits)

lemma exact_target_text: "parseExactTargetApiRequest inbound = Inr t \<Longrightarrow> xt_targetPathAndQuery t = inbound"
  by (auto simp: parseExactTargetApiRequest_def parseTargetPathAndQuery_def split: option.splits prod.splits)

lemma guard_binding:
  assumes "guard_input env q assertion signature = Inr (input, body)"
  shows "bi_method (vi_binding input) = js_upper (rq_method q)" "bi_targetPathAndQuery (vi_binding input) = rq_originalUrl q"
    "canonicalizeFederationHeaders (header_pairs (rq_rawHeaders q)) = Inr (bi_headers (vi_binding input))"
    "raw_body q = Inr body" "bi_bodySha256 (vi_binding input) = sha256Body (fe_sha env) body"
  using assms
  by (auto simp: guard_input_def rawHeaderPairs_def split: sum.splits option.splits if_splits
      dest!: control_digest exact_target_text)


section \<open>Authority\<close>

text \<open>
  The action is in the catalogue, open to other panels and the one of this method and path; the
  role may run it and is not above the ceiling of the issuer; the permissions of the action were
  asserted, are in the policy of the issuer and are granted; the key was in force.
\<close>

definition within_authority :: "fed_config \<Rightarrow> fdb \<Rightarrow> fed_context \<Rightarrow> bool" where
  "within_authority config db x \<longleftrightarrow> (let f = fx_flight x; d = fl_descriptor f; i = vi_binding (fl_input f) in
     d \<in> set (fc_catalogue config) \<and> ad_remoteActivation d = ''ALLOW'' \<and>
     (\<exists>template. ad_http d = Some (js_upper (bi_method i), template) \<and>
        matchesFederationRouteTemplate template (vi_concretePath (fl_input f))) \<and>
     (\<exists>role \<in> set (ad_roles d). fx_claim x ''role'' = JStr role \<and>
        (\<forall>rank ceiling. operator_rank role = Some rank \<longrightarrow> operator_rank (is_maxRole (fl_issuer f)) = Some ceiling \<longrightarrow> rank \<le> ceiling)) \<and>
     set (ad_permissions d) \<subseteq> set (fx_permissions x) \<and> JStr ` set (fx_permissions x) \<subseteq> set (asserted_permissions (fl_claims f)) \<and>
     (\<exists>policy. parseFederationPermissions (is_permissionPolicyJson (fl_issuer f)) = Inr policy \<and> set (ad_permissions d) \<subseteq> set policy) \<and>
     fl_key f \<in> set (fb_keys db) \<and> \<not> key_inactive (fl_key f) (fl_now f) \<and> fl_issuer f \<in> set (fb_issuers db) \<and>
     is_targetInstallationId (fl_issuer f) = fc_installationId config)"

lemma resolved_action:
  assumes "resolveHttp actions actionId m path = Some d"
  shows "d \<in> set actions" "ad_remoteActivation d = ''ALLOW''"
    "\<exists>template. ad_http d = Some (js_upper m, template) \<and> matchesFederationRouteTemplate template path"
  using assms
  by (auto simp: resolveHttp_def resolveConcreteHttpFederationAction_def Let_def split: if_splits option.splits prod.splits
      dest: find_first_SomeD)

lemma role_allowed:
  assumes "role_policy d claims maxRole = None" "assertClaims claims = None"
    and "field claims ''actorKind'' = JStr ''SERVICE'' \<longleftrightarrow> ''SERVICE'' \<in> set (ad_roles d)"
  shows "\<exists>role \<in> set (ad_roles d). field claims ''role'' = JStr role \<and>
    (\<forall>rank ceiling. operator_rank role = Some rank \<longrightarrow> operator_rank maxRole = Some ceiling \<longrightarrow> rank \<le> ceiling)"
proof (cases "field claims ''actorKind'' = JStr ''OPERATOR''")
  case True
  then obtain role where "role \<in> set (ad_roles d)" "field claims ''role'' = JStr role"
    "\<not> exceeds_ceiling (JStr role) maxRole"
    using assms(1) by (auto simp: role_policy_def)
  then show ?thesis by (intro bexI [of _ role]) (auto simp: exceeds_ceiling_def split: option.splits)
next
  case False
  then have "field claims ''actorKind'' = JStr ''SERVICE''" using assertClaims_None(9) [OF assms(2)] by auto
  then have "field claims ''role'' = JStr ''SERVICE''" "''SERVICE'' \<in> set (ad_roles d)"
    using assertClaims_None(19) [OF assms(2)] assms(3) by simp_all
  then show ?thesis by (intro bexI [of _ "''SERVICE''"]) (simp_all add: operator_rank_def)
qed

lemma verified_within_authority:
  assumes v: "verify env config input now r db = (Inr x, db')"
  shows "within_authority config db x"
proof -
  let ?f = "fx_flight x"
  note f = checked_flight [OF verified_context(1) [OF v]]
  note a = verified_assertion [OF f(3)] and p = action_policy [OF f(10)]
  from verified_context(2) [OF v] obtain db1 db2 where
    stage: "verify_principal env ?f (vr_principal r) db1 = (Inr (fx_userId x, fx_principalId x, fx_permissions x), db2)" by blast
  note principal = resolved_principal [OF stage p(7) equalityD2 [OF p(5)]]
  show ?thesis
    unfolding within_authority_def Let_def fx_claim_def
    using resolved_action [OF f(9)] role_allowed [OF p(4) a(1) p(3)] principal(2,3) p(5,6) f(1,2,4-8) by simp
qed

text \<open>C11: An admitted request runs an action of the catalogue that is open to other panels and belongs to its
  method and path, in a role that may run it and that is not above the ceiling of its issuer; every
  permission the action needs was asserted, is in the policy of the issuer and is granted, and
  nothing is granted that was not asserted; the key was in force and belongs to an issuer of this
  panel.\<close>
theorem admitted_request_is_authorized:
  assumes "canActivate env config q random now r db = (Admitted x user j, db')"
  shows "within_authority config db x"
  using assms by (rule guard_admitted) (rule verified_within_authority)

section \<open>Once\<close>

text \<open>C10: In every reachable state no two admitted requests of one issuer have the same identifier: an
  assertion is admitted at most once, under every interleaving of requests, channels, enrolments and
  restarts.\<close>
theorem assertion_is_admitted_once:
  assumes "freachable env config y"
  shows "distinct (map (flight_key \<circ> fx_flight) (fy_admitted y))"
  using reachable_consumed_once [OF assms] by (simp add: consumed_once_def past_tombstone_def)

text \<open>C12: Of two admitted requests of one actor for one action with the same idempotency key, the second came
  at least the life of a receipt after the first.\<close>
theorem mutation_is_admitted_once:
  assumes "freachable env config y" "i < k" "k < length (fy_admitted y)"
    and "mutation_key (fx_flight (fy_admitted y ! i)) = mutation_key (fx_flight (fy_admitted y ! k))"
    and "vi_idempotencyKey (fl_input (fx_flight (fy_admitted y ! i))) \<noteq> None"
  shows "fl_now (fx_flight (fy_admitted y ! i)) + receipt_ttl (fc_receiptTtlMs config) \<le> fl_now (fx_flight (fy_admitted y ! k))"
  using reachable_receipts_ok [OF assms(1)] assms(2-5) by (auto simp: receipts_ok_def sorted_wrt_iff_nth_less spaced_def)

section \<open>The life of a tombstone\<close>

lemma checked_claims:
  assumes "verify_checks env config input now db = Inr f"
  shows "decodeDelegationClaims env (ea_assertion (vi_encoded input)) = Inr (fl_claims f)"
  using checked_flight(3) [OF assms] by (auto simp: verifyDelegationAssertion_def split: sum.splits if_splits option.splits)

lemma checked_window:
  assumes "verify_checks env config input now db = Inr f"
  shows "int_of_json (field (fl_claims f) ''issuedAt'') \<le> now div 1000 + 30"
    "now div 1000 - 30 \<le> int_of_json (field (fl_claims f) ''expiresAt'')"
    "int_of_json (field (fl_claims f) ''expiresAt'') \<le> int_of_json (field (fl_claims f) ''issuedAt'') + 60"
  using verified_assertion(6,7) [OF checked_flight(3) [OF assms]] checked_flight(2) [OF assms]
    assertClaims_None(15) [OF verified_assertion(1) [OF checked_flight(3) [OF assms]]]
  by (simp_all add: flight_context_def)

text \<open>C14: When the tombstone of an assertion has expired, the assertion is no longer accepted, provided that the
  clock of its issuer is at most 29 seconds ahead.\<close>
theorem tombstone_outlives_assertion:
  assumes "verify_checks env config input now db = Inr f"
    and "int_of_json (field (fl_claims f) ''issuedAt'') \<le> now div 1000 + 29"
    and "replay_expires (fl_claims f) now \<le> later"
  shows "\<exists>e. verify_checks env config input later db' = Inl e"
proof (cases "verify_checks env config input later db'")
  case (Inr f')
  have same: "fl_claims f' = fl_claims f" using checked_claims [OF assms(1)] checked_claims [OF Inr] by simp
  have "(now + 120000) div 1000 \<le> later div 1000" using assms(3) by (intro zdiv_mono1) (simp_all add: replay_expires_def)
  then have "now div 1000 + 120 \<le> later div 1000" by simp
  then show ?thesis using checked_window(2) [OF Inr] checked_window(3) [OF assms(1)] assms(2) unfolding same by simp
qed simp

end
