(* ===== verification/Fed_Delivery.thy ===== *)
theory Fed_Delivery
  imports Fed_Theorems
begin

text \<open>
  The two ends together: a request that the master dispatches passes every check of the panel it
  is sent to, \<open>dispatched_request_is_accepted\<close>. The headers that were made canonical are made
  canonical again, the target below the proxy is the target that arrives, the claims that were
  printed are read back, and the key, the action and the policy are found.
\<close>

section \<open>Headers that were made canonical\<close>

lemma trim_idem: "js_trim (js_trim s) = js_trim s"
proof -
  have dw: "dropWhile P (dropWhile P xs) = dropWhile P xs" for P and xs :: string
    by (induction xs) auto
  have last: "dropWhile P (rev (dropWhile P (rev (dropWhile P xs)))) = rev (dropWhile P (rev (dropWhile P xs)))" for P and xs :: string
  proof (cases "dropWhile P (rev (dropWhile P xs)) = []")
    case False
    then obtain c where c: "hd (dropWhile P xs) = c" "dropWhile P xs \<noteq> []" by (cases "dropWhile P xs") auto
    then have "\<not> P c" using hd_dropWhile by blast
    have "rev (dropWhile P (rev (dropWhile P xs))) \<noteq> []" using False by simp
    moreover have "hd (rev (dropWhile P (rev (dropWhile P xs)))) = c"
    proof -
      obtain ys where "rev (dropWhile P xs) = ys @ dropWhile P (rev (dropWhile P xs))"
        by (metis takeWhile_dropWhile_id)
      then have "dropWhile P xs = rev (dropWhile P (rev (dropWhile P xs))) @ rev ys" by (metis rev_append rev_rev_ident)
      with False c show ?thesis by (metis hd_append2 rev_is_Nil_conv)
    qed
    ultimately show ?thesis using \<open>\<not> P c\<close> by (metis dropWhile_eq_self_iff)
  next
    case True
    show ?thesis unfolding True by simp
  qed
  show ?thesis unfolding js_trim_def using dw last by simp
qed

text \<open>A header as the first canonicalisation leaves it.\<close>

definition header_kept :: "fed_header \<Rightarrow> bool" where
  "header_kept h \<longleftrightarrow> fh_name h \<in> set ALLOWED_HEADERS \<and> header_text (fh_value h) \<and> js_trim (fh_value h) = fh_value h"

lemma canonical_headers_Cons:
  assumes "canonical_headers seen ((k, v) # pairs) = Inr hs"
  shows "js_lower k \<notin> set seen \<and> (canonical_headers (js_lower k # seen) pairs = Inr hs \<or>
     (\<exists>gs. canonical_headers (js_lower k # seen) pairs = Inr gs \<and> hs = \<lparr>fh_name = js_lower k, fh_value = js_trim v\<rparr> # gs \<and>
        header_text (js_trim v) \<and> js_lower k \<in> set ALLOWED_HEADERS))"
  using assms unfolding canonical_headers.simps Let_def by (simp split: if_split_asm sum.splits)

lemma canonical_headers_kept:
  "canonical_headers seen pairs = Inr hs \<Longrightarrow>
     list_all header_kept hs \<and> distinct (map fh_name hs) \<and> set (map fh_name hs) \<inter> set seen = {}"
proof (induction pairs arbitrary: seen hs)
  case (Cons p pairs)
  obtain k v where p: "p = (k, v)" by (cases p)
  let ?n = "js_lower k"
  from canonical_headers_Cons [OF Cons.prems [unfolded p]] show ?case
  proof (elim conjE disjE exE)
    assume "?n \<notin> set seen" "canonical_headers (?n # seen) pairs = Inr hs"
    from Cons.IH [OF this(2)] show ?thesis by simp
  next
    fix gs
    assume n: "?n \<notin> set seen" "canonical_headers (?n # seen) pairs = Inr gs"
      and hs: "hs = \<lparr>fh_name = ?n, fh_value = js_trim v\<rparr> # gs" "header_text (js_trim v)" "?n \<in> set ALLOWED_HEADERS"
    have "header_kept \<lparr>fh_name = ?n, fh_value = js_trim v\<rparr>" using hs(2,3) by (simp add: header_kept_def trim_idem)
    with Cons.IH [OF n(2)] n(1) hs(1) show ?thesis by simp
  qed
qed simp

text \<open>
  The headers that leave, among those that the transport adds: they are found again, in order.
\<close>

definition transport_header :: "string \<times> string \<Rightarrow> bool" where
  "transport_header h \<longleftrightarrow> rx_test HEADER_NAME (fst h) \<and> \<not> list_ex control_char (snd h) \<and>
     js_lower (fst h) \<notin> set ALLOWED_HEADERS \<and> js_lower (fst h) \<noteq> ''content-encoding''"

lemma transport_skipped:
  "list_all transport_header hs \<Longrightarrow> distinct (map (js_lower \<circ> fst) hs) \<Longrightarrow>
     (js_lower \<circ> fst) ` set hs \<inter> set seen = {} \<Longrightarrow> canonical_headers seen hs = Inr []"
proof (induction hs arbitrary: seen)
  case (Cons h hs)
  obtain k v where h: "h = (k, v)" by (cases h)
  with Cons.prems have "canonical_headers (js_lower k # seen) hs = Inr []" by (intro Cons.IH) auto
  with Cons.prems h show ?case by (auto simp: transport_header_def Let_def)
qed simp

lemma allowed_names:
  "n \<in> set ALLOWED_HEADERS \<Longrightarrow> rx_test HEADER_NAME n \<and> js_lower n = n \<and> n \<noteq> ''content-encoding'' \<and> header_name_ok n"
proof -
  have "list_all (\<lambda>n. header_name_ok n \<and> js_lower n = n \<and> n \<noteq> ''content-encoding'') ALLOWED_HEADERS"
    by code_simp
  then show "n \<in> set ALLOWED_HEADERS \<Longrightarrow> ?thesis"
    by (auto simp: list_all_iff HEADER_NAME_def rx_test_plus_Cls header_name_ok_def)
qed

lemma header_text_plain: "header_text v \<Longrightarrow> \<not> list_ex control_char v"
  by (auto simp: header_text_def list_all_iff list_ex_iff control_char_def printable_def less_eq_char_def)

lemma canonical_again:
  assumes "list_all header_kept hs" "distinct (map fh_name hs)" "set (map fh_name hs) \<inter> set seen = {}"
    and "list_all transport_header extra" "distinct (map (js_lower \<circ> fst) extra)" "(js_lower \<circ> fst) ` set extra \<inter> set seen = {}"
  shows "canonical_headers seen (map (\<lambda>h. (fh_name h, fh_value h)) hs @ extra) = Inr hs"
  using assms
proof (induction hs arbitrary: seen)
  case Nil
  then show ?case using transport_skipped [of extra seen] by (simp only: list.map append_Nil)
next
  case (Cons h hs)
  from Cons.prems(1) have n: "fh_name h \<in> set ALLOWED_HEADERS" "header_text (fh_value h)" "js_trim (fh_value h) = fh_value h"
    by (simp_all add: header_kept_def)
  have "(js_lower \<circ> fst) ` set extra \<inter> set ALLOWED_HEADERS = {}" using Cons.prems(4) by (auto simp: list_all_iff transport_header_def)
  with n Cons.prems have "canonical_headers (fh_name h # seen) (map (\<lambda>h. (fh_name h, fh_value h)) hs @ extra) = Inr hs"
    by (intro Cons.IH) auto
  with n allowed_names [OF n(1)] header_text_plain [OF n(2)] Cons.prems(3) show ?case by simp
qed

section \<open>The target of the request\<close>

lemma escapes_append: "CHR ''%'' \<notin> set p \<Longrightarrow> escapes_valid (p @ s) = escapes_valid s"
  by (induction p) auto

lemma uuid_plain: "rx_test UUID s \<Longrightarrow> CHR ''%'' \<notin> set s"
proof -
  have "within (\<lambda>c. c \<noteq> CHR ''%'') UUID"
    by (auto simp: UUID_def hex_lower_def digit_char_def less_eq_char_def)
  then show "rx_test UUID s \<Longrightarrow> ?thesis" using within_test by (fastforce simp: list_all_iff)
qed

lemma bounded_tail:
  assumes "assertBoundedRequestTarget (''/api/proxy/'' @ u @ ''/'' @ rest) = None" "rx_test UUID u" "rest \<noteq> []"
  shows "assertBoundedRequestTarget (''/api/'' @ rest) = None"
proof -
  let ?p = "''/api/proxy/'' @ u @ ''/''"
  have plain: "CHR ''%'' \<notin> set ?p" using uuid_plain [OF assms(2)] by simp
  have last: "ends_with (q @ rest) ''?'' \<longleftrightarrow> last rest = CHR ''?''" for q
    using assms(3) by (cases rest rule: rev_cases) (auto simp: ends_with_def)
  have "escapes_valid (?p @ rest)" "list_all printable rest" "CHR ''#'' \<notin> set rest" "length (?p @ rest) \<le> 8192"
    "\<not> ends_with (?p @ rest) ''?''"
    using assms(1) by (simp_all add: assertBoundedRequestTarget_def)
  moreover from this(1) have "escapes_valid rest" by (simp only: escapes_append [OF plain])
  moreover have "list_all printable ''/api/''" "CHR ''%'' \<notin> set ''/api/''" "CHR ''#'' \<notin> set ''/api/''"
    by (simp_all add: printable_def less_eq_char_def)
  ultimately show ?thesis
    using last [of "''/api/''"] last [of ?p] escapes_append [of "''/api/''" rest]
    by (simp add: assertBoundedRequestTarget_def)
qed

lemma target_again:
  assumes "parseExactFederationTarget inbound u = Inr t"
  shows "parseExactTargetApiRequest (xt_targetPathAndQuery t) = Inr (t\<lparr>xt_inboundTarget := xt_targetPathAndQuery t\<rparr>)"
proof -
  let ?p = "''/api/proxy/'' @ u @ ''/''" and ?s = "drop (length (''/api/proxy/'' @ u @ ''/'')) inbound"
  from assms have u: "rx_test UUID u" and b: "assertBoundedRequestTarget inbound = None" and pre: "take (length ?p) inbound = ?p"
    and t: "parseTargetPathAndQuery inbound (''/api/'' @ ?s) = Inr t"
    by (auto simp: parseExactFederationTarget_def Let_def split: option.splits)
  have inbound: "inbound = ?p @ ?s" using pre append_take_drop_id by metis
  have any: "parseTargetPathAndQuery w (''/api/'' @ ?s) = Inr (t\<lparr>xt_inboundTarget := w\<rparr>)" and same: "xt_targetPathAndQuery t = ''/api/'' @ ?s" for w
    using t by (auto simp: parseTargetPathAndQuery_def split: prod.splits option.splits)
  have "?s \<noteq> []"
    using t by (auto simp: parseTargetPathAndQuery_def split_query_def split: option.splits)
  with bounded_tail [OF _ u, of ?s] b inbound have "assertBoundedRequestTarget (''/api/'' @ ?s) = None" by simp
  then show ?thesis unfolding parseExactTargetApiRequest_def same using any by simp
qed

section \<open>The claims that were read\<close>

lemma sort_key_again: "sort_key f (sort_key f xs) = sort_key f xs"
  by (rule sort_key_id_if_sorted) (rule sorted_sort_key)

lemma canonical_idem: "canonical (canonical v) = canonical v"
proof (induction v rule: canonical.induct)
  case (3 kvs)
  let ?ms = "map (\<lambda>(key, v). (key, canonical v)) (sort_key fst kvs)"
  have "sort_key fst ?ms = ?ms"
    by (rule sort_key_id_if_sorted) (simp add: comp_def case_prod_unfold)
  moreover have "map (\<lambda>(key, v). (key, canonical v)) ?ms = ?ms"
    using 3 by (auto simp: case_prod_unfold)
  ultimately show ?case by simp
qed (auto simp: comp_def intro: map_idI)

lemma map_of_sort_key: "distinct (map fst kvs) \<Longrightarrow> map_of (sort_key fst kvs) = map_of kvs"
proof
  fix k
  assume d: "distinct (map fst kvs)"
  moreover have "mset (map fst (sort_key fst kvs)) = mset (map fst kvs)" by simp
  ultimately have "distinct (map fst (sort_key fst kvs))" using mset_eq_imp_distinct_iff by blast
  with d show "map_of (sort_key fst kvs) k = map_of kvs k"
  proof (cases "map_of kvs k")
    case None
    then have "map_of (sort_key fst kvs) k = None" by (simp add: map_of_eq_None_iff)
    with None show ?thesis by simp
  qed (auto dest: map_of_SomeD)
qed

lemma claims_read: "field (canonical (claims_json c)) = field (claims_json c)"
proof
  fix k
  have json_opt: "canonical (json_opt s) = json_opt s" for s by (simp add: json_opt_def split: option.split)
  have ps: "canonical (JArr (map JStr ps)) = JArr (map JStr ps)" for ps by simp
  let ?kvs = "case claims_json c of JObj kvs \<Rightarrow> kvs | _ \<Rightarrow> []"
  have c: "claims_json c = JObj ?kvs" by (simp add: claims_json_def)
  have d: "distinct (map fst ?kvs)" by (simp add: claims_json_def)
  have v: "\<forall>(k, v) \<in> set ?kvs. canonical v = v" by (simp add: claims_json_def json_opt)
  have "map_of (map (\<lambda>(key, v). (key, canonical v)) (sort_key fst ?kvs)) k = map_option canonical (map_of (sort_key fst ?kvs) k)"
    by (simp add: map_of_map)
  also have "\<dots> = map_of ?kvs k"
    using v unfolding map_of_sort_key [OF d] by (cases "map_of ?kvs k") (auto dest: map_of_SomeD)
  finally show "field (canonical (claims_json c)) k = field (claims_json c) k" by (subst (1 2) c) simp
qed

text \<open>Everything that is decided is decided by the members.\<close>

lemma members_decide:
  assumes "field v = field w"
  shows "assertClaims v = assertClaims w" "buildDelegationPayload v b = buildDelegationPayload w b"
    "assertDelegatedActionPolicy d v maxRole policy key = assertDelegatedActionPolicy d w maxRole policy key"
proof -
  have "permission_list v = permission_list w" by (simp add: permission_list_def assms)
  then show a: "assertClaims v = assertClaims w" by (simp add: assertClaims_def assms)
  have p: "payload_lines v b = payload_lines w b" by (simp add: payload_lines_def claim_lines_def assms)
  show "buildDelegationPayload v b = buildDelegationPayload w b" unfolding buildDelegationPayload_def a p assms ..
  show "assertDelegatedActionPolicy d v maxRole policy key = assertDelegatedActionPolicy d w maxRole policy key"
    unfolding assertDelegatedActionPolicy_def role_policy_def asserted_permissions_def assms ..
qed

lemma assertion_text_canonical: "assertion_text (canonical v) = assertion_text v"
proof -
  have "stable_json (canonical v) = stable_json v" by (simp add: stable_json_iff_canonical canonical_idem)
  then show ?thesis by (simp add: assertion_text_def canonicalJson_def)
qed

text \<open>The parser reads what the master wrote.\<close>

definition reads_back :: "fed_env \<Rightarrow> json \<Rightarrow> bool" where
  "reads_back env v \<longleftrightarrow> fe_json env (utf8_bytes (canonicalJson v)) = Some (canonical v) \<and> length (assertion_text v) \<le> 8192"

lemma assertion_not_empty: "assertion_text v \<noteq> []"
proof
  assume "assertion_text v = []"
  then have "base64url (utf8_bytes (stable_json v)) = base64url []" by (simp add: assertion_text_def canonicalJson_def)
  then have "utf8_bytes (stable_json v) = utf8_bytes []" unfolding base64url_inj by (simp add: utf8_bytes_def)
  then show False unfolding utf8_bytes_inj using print_json_first [of "canonical v"] by (auto simp: stable_json_canonical)
qed

lemma claims_decoded:
  assumes "reads_back env (claims_json c)" "assertClaims (claims_json c) = None"
  shows "decodeDelegationClaims env (assertion_text (claims_json c)) = Inr (canonical (claims_json c))"
proof -
  let ?v = "claims_json c"
  have "rx_test ASSERTION_TEXT (assertion_text ?v)"
    using assms(1) assertion_not_empty [of ?v] base64url_chars
    by (auto simp: ASSERTION_TEXT_def base64url_class_def rx_test_Rep_Cls reads_back_def assertion_text_def Suc_le_eq)
  moreover have "base64url_decode (assertion_text ?v) = utf8_bytes (canonicalJson ?v)"
    by (simp add: assertion_text_def base64_round_trip)
  moreover have "assertClaims (canonical ?v) = None" using members_decide(1) [OF claims_read] assms(2) by simp
  ultimately show ?thesis using assms(1)
    by (simp add: decodeDelegationClaims_def reads_back_def assertion_text_canonical)
qed

section \<open>The signature\<close>

text \<open>The key of the master and the public key at the panel belong together.\<close>

definition key_pair :: "fed_env \<Rightarrow> fed_key \<Rightarrow> fed_key \<Rightarrow> bool" where
  "key_pair env k k' \<longleftrightarrow>
     (\<forall>e stored payload s. fk_encryptedPrivateKey k = Some e \<longrightarrow> fe_decrypt env e = Some stored \<longrightarrow>
        fe_sign env (field stored ''privateKeyPkcs8'') payload = Some s \<longrightarrow>
        length s = 64 \<and> fe_verify env (fk_publicKeySpki k') payload s)"

lemma length_signature: "length s = 64 \<Longrightarrow> length (base64url s) = 86"
proof -
  assume "length s = 64"
  with raw_bytes_base64url [of s] have "raw_bytes (length (base64url s)) = 64" by simp
  moreover obtain q r where n: "length (base64url s) = 4 * q + r" and r: "r = 0 \<or> r = 1 \<or> r = 2 \<or> r = 3"
  proof (rule that)
    let ?n = "length (base64url s)"
    show "?n = 4 * (?n div 4) + ?n mod 4" by simp
    have "?n mod 4 < 4" by simp
    then show "?n mod 4 = 0 \<or> ?n mod 4 = 1 \<or> ?n mod 4 = 2 \<or> ?n mod 4 = 3" by linarith
  qed
  ultimately have "3 * q + (if r = 0 then 0 else r - 1) = 64" by (auto simp: raw_bytes_def)
  with n r show ?thesis by presburger
qed

lemma signature_verified:
  assumes "length s = 64" "fe_verify env pk payload s"
  shows "verifyFederationPayload env payload (base64url s) pk"
  using assms length_signature [OF assms(1)] base64url_chars [of s]
  by (simp add: verifyFederationPayload_def SIGNATURE_TEXT_def base64url_class_def rx_test_Rep_Cls base64_round_trip)

section \<open>The action\<close>

lemma found_again:
  assumes "resolveHttpByConcretePath actions m path = Inr (Some d)" "distinct (map ad_actionId actions)"
  shows "resolveHttp actions (JStr (ad_actionId d)) m path = Some d"
proof -
  let ?P = "\<lambda>a. ad_http a \<noteq> None \<and> resolveHttp actions (JStr (ad_actionId a)) m path \<noteq> None"
  from assms(1) have "filter ?P actions = [d]"
    by (auto simp: resolveHttpByConcretePath_def split: list.splits)
  then have d: "d \<in> set actions" "resolveHttp actions (JStr (ad_actionId d)) m path \<noteq> None"
    by (auto simp: filter_eq_Cons_iff)
  then obtain a where a: "resolveHttp actions (JStr (ad_actionId d)) m path = Some a" by blast
  then have "a \<in> set actions \<and> ad_actionId a = ad_actionId d"
    by (auto simp: resolveHttp_def resolveConcreteHttpFederationAction_def Let_def split: if_splits option.splits prod.splits
        dest: find_first_SomeD)
  with d(1) assms(2) a show ?thesis by (metis distinct_map_inj_onD)
qed

section \<open>From one end to the other\<close>

text \<open>
  The panel knows the master: it is its target, has the same catalogue and the public half of the
  key, and the same ceiling and policy for the issuer.
\<close>

definition knows_master :: "fed_env \<Rightarrow> fed_config \<Rightarrow> fdb \<Rightarrow> time \<Rightarrow> master_state \<Rightarrow> string \<Rightarrow> fed_issuer \<Rightarrow> fed_key \<Rightarrow> bool" where
  "knows_master env config db now m target issuer key \<longleftrightarrow>
     fc_installationRole config = ''TARGET'' \<and> fc_installationId config = target \<and> fc_catalogue config = ma_catalogue m \<and>
     distinct (map ad_actionId (ma_catalogue m)) \<and>
     (case find_fed_key (JStr (fk_kid key)) db of
        None \<Rightarrow> False
      | Some (k, i) \<Rightarrow> fk_kid k = fk_kid key \<and> is_issuerInstallationId i = ma_installationId m \<and> is_targetInstallationId i = target \<and>
          is_maxRole i = is_maxRole issuer \<and> is_permissionPolicyJson i = is_permissionPolicyJson issuer \<and>
          \<not> key_inactive k now \<and> fk_encryptedPrivateKey k = None \<and> key_pair env key k)"

text \<open>A request arrives: the transport may add headers, and leaves the bytes of the body.\<close>

definition arrives :: "outbound \<Rightarrow> fed_request \<Rightarrow> bool" where
  "arrives out q \<longleftrightarrow> rq_method q = ob_method out \<and> rq_originalUrl q = ob_target out \<and> raw_body q = Inr (ob_body out) \<and>
     (\<exists>extra. rq_rawHeaders q = concat (map (\<lambda>(k, v). [k, v]) (ob_headers out @ extra)) \<and> list_all transport_header extra \<and>
        distinct (map (js_lower \<circ> fst) extra) \<and> list_all (\<lambda>(k, v). take 10 (js_lower k) \<noteq> ''x-meowbox-'') extra)"

lemma header_pairs_concat: "header_pairs (concat (map (\<lambda>(k, v). [k, v]) hs)) = hs"
  by (induction hs) auto

lemma even_pairs: "even (length (concat (map (\<lambda>(k, v). [k, v]) hs)))"
  by (induction hs) auto

lemma upper_idem: "js_upper (js_upper m) = js_upper m"
proof -
  have "to_upper (to_upper c) = to_upper c" for c
    by (auto simp: to_upper_def lower_def less_eq_char_def)
  then show ?thesis by (simp add: js_upper_def)
qed

text \<open>What the dispatch has established.\<close>

lemma dispatched:
  assumes "dispatch_send env m i = Inr (d, out)"
  obtains target server headers control issuer key s where
    "parseExactFederationTarget (dp_inboundTarget i) (dp_targetInstallationId i) = Inr target"
    "resolveHttpByConcretePath (ma_catalogue m) (js_upper (dp_method i)) (xt_rawPath target) = Inr (Some d)"
    "ma_server m (dp_targetInstallationId i) = Some server"
    "dispatch_request env i = Inr (headers, control)"
    "find_signing_key m (dp_targetInstallationId i) server = Some (issuer, key)"
    "dispatch_signed env m i target d server issuer key headers control = Inr out"
proof -
  from assms obtain target where a: "dispatch_action m i = Inr (target, d)"
    by (auto simp: dispatch_send_def split: sum.splits prod.splits option.splits if_splits)
  note s1 = assms [unfolded dispatch_send_def a sum.case prod.case]
  from s1 obtain server where p: "dispatch_panel m i d = Inr server" by (auto split: sum.splits)
  note s2 = s1 [unfolded p sum.case]
  from s2 obtain headers control where r: "dispatch_request env i = Inr (headers, control)" by (auto split: sum.splits)
  note s3 = s2 [unfolded r sum.case prod.case]
  from s3 obtain issuer key where k: "find_signing_key m (dp_targetInstallationId i) server = Some (issuer, key)"
    by (auto split: option.splits if_splits)
  note s4 = s3 [unfolded k option.case prod.case]
  from s4 have o: "dispatch_signed env m i target d server issuer key headers control = Inr out"
    by (auto split: sum.splits if_splits)
  from a have "parseExactFederationTarget (dp_inboundTarget i) (dp_targetInstallationId i) = Inr target"
    "resolveHttpByConcretePath (ma_catalogue m) (js_upper (dp_method i)) (xt_rawPath target) = Inr (Some d)"
    by (auto simp: dispatch_action_def stop_with_def split: sum.splits option.splits if_splits)
  moreover from p have "ma_server m (dp_targetInstallationId i) = Some server"
    by (auto simp: dispatch_panel_def Let_def stop_with_def split: sum.splits option.splits if_splits)
  ultimately show ?thesis using that r k o by blast
qed

text \<open>What was signed, and what leaves.\<close>

lemma signed_payload:
  assumes "signFederationPayload env payload k = Inr t"
  obtains stored s where "fe_decrypt env (rk_encryptedPrivateKey k) = Some stored"
    "fe_sign env (field stored ''privateKeyPkcs8'') payload = Some s" "t = base64url s"
  using assms
  by (auto simp: signFederationPayload_def openFederationPrivateKey_def split: option.splits if_splits)

lemma assertion_encoded:
  assumes "encodeDelegationAssertion env claims b k = Inr e"
  obtains payload where "buildDelegationPayload claims b = Inr payload"
    "signFederationPayload env payload k = Inr (ea_signature e)" "ea_assertion e = assertion_text claims"
  using assms by (auto simp: encodeDelegationAssertion_def split: sum.splits if_splits)

lemma signed_request:
  assumes "dispatch_signed env m i target d server issuer key headers control = Inr out" "fk_encryptedPrivateKey key = Some e"
  obtains payload stored s where
    "ob_claims out = dispatch_claims m i d issuer key (snd control)"
    "ob_binding out = \<lparr>bi_method = js_upper (dp_method i), bi_targetPathAndQuery = xt_targetPathAndQuery target,
       bi_headers = headers, bi_bodySha256 = fst control\<rparr>"
    "ob_target out = xt_targetPathAndQuery target" "ob_method out = js_upper (dp_method i)" "ob_body out = dp_body i"
    "ob_headers out = map (\<lambda>h. (fh_name h, fh_value h)) headers @
       [(''x-meowbox-assertion'', assertion_text (claims_json (ob_claims out))), (''x-meowbox-signature'', base64url s)]"
    "buildDelegationPayload (claims_json (ob_claims out)) (ob_binding out) = Inr payload"
    "fe_decrypt env e = Some stored" "fe_sign env (field stored ''privateKeyPkcs8'') payload = Some s"
    "\<exists>effective. assertDelegatedActionPolicy d (claims_json (ob_claims out)) (is_maxRole issuer) (is_permissionPolicyJson issuer)
       (snd control) = Inr effective"
proof -
  let ?c = "dispatch_claims m i d issuer key (snd control)"
  let ?b = "\<lparr>bi_method = js_upper (dp_method i), bi_targetPathAndQuery = xt_targetPathAndQuery target,
       bi_headers = headers, bi_bodySha256 = fst control\<rparr>"
  let ?k = "\<lparr>rk_issuerInstallationId = ma_installationId m, rk_targetInstallationId = dp_targetInstallationId i, rk_kid = fk_kid key,
       rk_publicKeySpki = fk_publicKeySpki key, rk_encryptedPrivateKey = e\<rparr>"
  from assms obtain effective where p: "assertDelegatedActionPolicy d (claims_json ?c) (is_maxRole issuer)
      (is_permissionPolicyJson issuer) (snd control) = Inr effective"
    by (auto simp: dispatch_signed_def Let_def split: sum.splits)
  note s1 = assms(1) [unfolded dispatch_signed_def Let_def p sum.case assms(2) option.case]
  from s1 obtain enc where enc: "encodeDelegationAssertion env (claims_json ?c) ?b ?k = Inr enc" by (auto split: sum.splits)
  note s2 = s1 [unfolded enc sum.case]
  from enc obtain payload where y: "buildDelegationPayload (claims_json ?c) ?b = Inr payload"
    "signFederationPayload env payload ?k = Inr (ea_signature enc)" "ea_assertion enc = assertion_text (claims_json ?c)"
    by (rule assertion_encoded)
  from y(2) obtain stored s where z: "fe_decrypt env (rk_encryptedPrivateKey ?k) = Some stored"
    "fe_sign env (field stored ''privateKeyPkcs8'') payload = Some s" "ea_signature enc = base64url s"
    by (rule signed_payload)
  from s2 y(3) z(3) have "ob_claims out = ?c" "ob_binding out = ?b" "ob_target out = xt_targetPathAndQuery target"
    "ob_method out = js_upper (dp_method i)" "ob_body out = dp_body i"
    "ob_headers out = map (\<lambda>h. (fh_name h, fh_value h)) headers @
       [(''x-meowbox-assertion'', assertion_text (claims_json ?c)), (''x-meowbox-signature'', base64url s)]"
    by (auto split: option.splits)
  with y(1) z(1,2) p that show ?thesis by simp
qed

lemma plain_header: "list_all base64url_char s \<Longrightarrow> \<not> list_ex control_char s"
proof -
  have "\<not> control_char c" if "base64url_char c" for c
    using that by (auto simp: base64url_char_def control_char_def less_eq_char_def upper_def lower_def digit_char_def)
  then show "list_all base64url_char s \<Longrightarrow> ?thesis" by (auto simp: list_all_iff list_ex_iff)
qed

text \<open>The guard reads what was signed.\<close>

lemma headers_kept:
  assumes "dispatch_request env i = Inr (headers, control)"
  shows "list_all header_kept headers" "distinct (map fh_name headers)" "sort_key fh_name headers = headers"
proof -
  from assms obtain pairs hs where h: "canonical_headers [] pairs = Inr hs" "headers = sort_key fh_name hs"
    by (auto simp: dispatch_request_def canonicalizeFederationHeaders_def split: sum.splits)
  have "mset (map fh_name headers) = mset (map fh_name hs)" using h(2) by simp
  then show "distinct (map fh_name headers)" using canonical_headers_kept [OF h(1)] mset_eq_imp_distinct_iff by blast
  show "list_all header_kept headers" using canonical_headers_kept [OF h(1)] h(2) by (simp add: list_all_iff)
  show "sort_key fh_name headers = headers" unfolding h(2) by (rule sort_key_again)
qed

lemma headers_read:
  assumes "dispatch_request env i = Inr (headers, control)"
    and "list_all transport_header extra" "distinct (map (js_lower \<circ> fst) extra)"
    and "list_all (\<lambda>(k, v). take 10 (js_lower k) \<noteq> ''x-meowbox-'') extra"
    and "list_all base64url_char a" "list_all base64url_char s"
  shows "canonicalizeFederationHeaders (map (\<lambda>h. (fh_name h, fh_value h)) headers @
       [(''x-meowbox-assertion'', a), (''x-meowbox-signature'', s)] @ extra) = Inr headers" (is "?canonical")
    and "assertFederationHeaderNamespace (map (\<lambda>h. (fh_name h, fh_value h)) headers @
       [(''x-meowbox-assertion'', a), (''x-meowbox-signature'', s)] @ extra) = None" (is "?space")
proof -
  let ?own = "[(''x-meowbox-assertion'', a), (''x-meowbox-signature'', s)]"
  note kept = headers_kept(1) [OF assms(1)] and d = headers_kept(2) [OF assms(1)]
  have own: "list_all transport_header ?own" "js_lower ''x-meowbox-assertion'' = ''x-meowbox-assertion''"
    "js_lower ''x-meowbox-signature'' = ''x-meowbox-signature''"
    using plain_header [OF assms(5)] plain_header [OF assms(6)]
    by (simp_all add: transport_header_def HEADER_NAME_def rx_test_plus_Cls) (code_simp+)?
  have "js_lower k \<noteq> ''x-meowbox-assertion'' \<and> js_lower k \<noteq> ''x-meowbox-signature''" if "(k, v) \<in> set extra" for k v
    using assms(4) that by (fastforce simp: list_all_iff)
  then have "distinct (map (js_lower \<circ> fst) (?own @ extra))"
    using assms(3) own(2,3) by (simp add: image_iff) (metis prod.collapse)
  with canonical_again [OF kept d, of "[]" "?own @ extra"] own(1) assms(2)
  have "canonical_headers [] (map (\<lambda>h. (fh_name h, fh_value h)) headers @ ?own @ extra) = Inr headers" by simp
  then show ?canonical unfolding canonicalizeFederationHeaders_def by (simp add: headers_kept(3) [OF assms(1)])
  have "list_all (\<lambda>n. take 10 (js_lower n) \<noteq> ''x-meowbox-'') ALLOWED_HEADERS" by code_simp
  then have "\<forall>h \<in> set headers. take 10 (js_lower (fh_name h)) \<noteq> ''x-meowbox-''"
    using kept by (auto simp: list_all_iff header_kept_def)
  then show ?space
    using assms(4) own(2,3)
    by (auto simp: assertFederationHeaderNamespace_def list_ex_iff Let_def list_all_iff ASSERTION_HEADER_def SIGNATURE_HEADER_def)
qed

lemma base64url_all: "list_all base64url_char (base64url s)"
  using base64url_chars [of s] by (simp add: list_all_iff)

lemma guard_reads:
  assumes "dispatch_send env m i = Inr (d, out)"
    and "parseExactFederationTarget (dp_inboundTarget i) (dp_targetInstallationId i) = Inr target"
    and "dispatch_request env i = Inr (headers, control)"
    and "ob_target out = xt_targetPathAndQuery target" "ob_method out = js_upper (dp_method i)" "ob_body out = dp_body i"
    and "ob_binding out = \<lparr>bi_method = js_upper (dp_method i), bi_targetPathAndQuery = xt_targetPathAndQuery target,
       bi_headers = headers, bi_bodySha256 = fst control\<rparr>"
    and "ob_headers out = map (\<lambda>h. (fh_name h, fh_value h)) headers @
       [(''x-meowbox-assertion'', base64url a), (''x-meowbox-signature'', base64url s)]"
    and "arrives out q"
  shows "guard_input env q assertion signature = Inr
    (\<lparr>vi_encoded = \<lparr>ea_assertion = assertion, ea_signature = signature\<rparr>, vi_binding = ob_binding out,
      vi_concretePath = xt_rawPath target, vi_idempotencyKey = snd control\<rparr>, ob_body out)"
proof -
  from assms(9) obtain extra where q: "rq_method q = ob_method out" "rq_originalUrl q = ob_target out" "raw_body q = Inr (ob_body out)"
    and raw: "rq_rawHeaders q = concat (map (\<lambda>(k, v). [k, v]) (ob_headers out @ extra))" "list_all transport_header extra"
      "distinct (map (js_lower \<circ> fst) extra)" "list_all (\<lambda>(k, v). take 10 (js_lower k) \<noteq> ''x-meowbox-'') extra"
    unfolding arrives_def by blast
  have pairs: "rawHeaderPairs (rq_rawHeaders q) = Inr (ob_headers out @ extra)"
    unfolding rawHeaderPairs_def raw(1) by (simp only: even_pairs header_pairs_concat not_True_eq_False if_False)
  note h = headers_read [OF assms(3) raw(2-4) base64url_all base64url_all, of a s]
  have c: "validateGenericControlRequest (fe_sha env) (fe_body_json env) (js_upper (dp_method i)) headers (dp_body i) = Inr control"
    using assms(3) by (auto simp: dispatch_request_def split: sum.splits)
  obtain hash key where k: "control = (hash, key)" by (cases control)
  note t = target_again [OF assms(2)]
  show ?thesis
    unfolding guard_input_def pairs sum.case assms(8) append_assoc h option.case q assms(4,5,6) upper_idem c k prod.case t
    using assms(7) k by simp
qed

text \<open>The checks find the key, the action and the permissions that the master has used.\<close>

lemma checks_pass:
  assumes known: "knows_master env config db now m (mc_targetInstallationId c) issuer key"
    and c: "mc_keyId c = fk_kid key" "mc_issuerInstallationId c = ma_installationId m" "mc_actionId c = ad_actionId d"
    and read: "reads_back env (claims_json c)"
    and payload: "buildDelegationPayload (claims_json c) b = Inr payload"
    and signed: "fk_encryptedPrivateKey key = Some e" "fe_decrypt env e = Some stored"
      "fe_sign env (field stored ''privateKeyPkcs8'') payload = Some s"
    and policy: "assertDelegatedActionPolicy d (claims_json c) (is_maxRole issuer) (is_permissionPolicyJson issuer) idempotencyKey
       = Inr effective"
    and action: "resolveHttpByConcretePath (ma_catalogue m) (bi_method b) path = Inr (Some d)"
    and clock: "is_safe_integer (JNum (now div 1000))" "mc_issuedAt c \<le> now div 1000 + 30" "now div 1000 - 30 \<le> mc_expiresAt c"
  shows "\<exists>f. verify_checks env config
     \<lparr>vi_encoded = \<lparr>ea_assertion = assertion_text (claims_json c), ea_signature = base64url s\<rparr>, vi_binding = b,
      vi_concretePath = path, vi_idempotencyKey = idempotencyKey\<rparr> now db = Inr f \<and> fl_descriptor f = d"
proof -
  let ?v = "canonical (claims_json c)"
  have valid: "assertClaims (claims_json c) = None" using payload by (simp add: payload_built)
  note decoded = claims_decoded [OF read valid]
  note same = claims_read [of c] members_decide [OF claims_read [of c]]
  from known obtain k i where k: "find_fed_key (JStr (fk_kid key)) db = Some (k, i)"
    "fk_kid k = fk_kid key" "is_issuerInstallationId i = ma_installationId m" "is_targetInstallationId i = mc_targetInstallationId c"
    "is_maxRole i = is_maxRole issuer" "is_permissionPolicyJson i = is_permissionPolicyJson issuer"
    "\<not> key_inactive k now" "fk_encryptedPrivateKey k = None" "key_pair env key k"
    and config: "fc_installationRole config = ''TARGET''" "fc_installationId config = mc_targetInstallationId c"
      "fc_catalogue config = ma_catalogue m" "distinct (map ad_actionId (ma_catalogue m))"
    by (auto simp: knows_master_def split: option.splits)
  have s: "length s = 64" "fe_verify env (fk_publicKeySpki k) payload s"
    using k(9) signed unfolding key_pair_def by blast+
  let ?ctx = "\<lparr>dc_issuer = ma_installationId m, dc_target = mc_targetInstallationId c, dc_keyId = fk_kid key,
     dc_publicKeySpki = fk_publicKeySpki k, dc_nowSeconds = now div 1000, dc_skew = 30\<rparr>"
  have verified: "verifyDelegationAssertion env \<lparr>ea_assertion = assertion_text (claims_json c), ea_signature = base64url s\<rparr> b ?ctx = Inr ?v"
    using decoded same(1,3) payload c(1,2) clock signature_verified [OF s]
    by (simp add: verifyDelegationAssertion_def claims_json_fields)
  have resolved: "resolveHttp (ma_catalogue m) (field ?v ''actionId'') (bi_method b) path = Some d"
    using found_again [OF action config(4)] same(1) c(3) by (simp add: claims_json_fields)
  have allowed: "assertDelegatedActionPolicy d ?v (is_maxRole issuer) (is_permissionPolicyJson issuer) idempotencyKey = Inr effective"
    using policy same(4) by simp
  have f: "field ?v ''keyId'' = JStr (fk_kid key)" "field ?v ''issuerInstallationId'' = JStr (ma_installationId m)"
    using same(1) c(1,2) by (simp_all add: claims_json_fields)
  show ?thesis
    by (simp add: verify_checks_def decoded config f k verified resolved allowed)
qed

lemma own_headers:
  assumes "dispatch_request env i = Inr (headers, control)"
  shows "map_of (map (\<lambda>h. (fh_name h, fh_value h)) headers @ [(''x-meowbox-assertion'', a), (''x-meowbox-signature'', s)])
      ASSERTION_HEADER = Some a"
    "map_of (map (\<lambda>h. (fh_name h, fh_value h)) headers @ [(''x-meowbox-assertion'', a), (''x-meowbox-signature'', s)])
      SIGNATURE_HEADER = Some s"
proof -
  have "ASSERTION_HEADER \<notin> set ALLOWED_HEADERS" "SIGNATURE_HEADER \<notin> set ALLOWED_HEADERS"
    by (simp_all add: ASSERTION_HEADER_def SIGNATURE_HEADER_def ALLOWED_HEADERS_def)
  then have "n \<notin> fst ` set (map (\<lambda>h. (fh_name h, fh_value h)) headers)" if "n = ASSERTION_HEADER \<or> n = SIGNATURE_HEADER" for n
    using headers_kept [OF assms] that by (auto simp: list_all_iff header_kept_def)
  then have "map_of (map (\<lambda>h. (fh_name h, fh_value h)) headers) n = None" if "n = ASSERTION_HEADER \<or> n = SIGNATURE_HEADER" for n
    using that by (simp add: map_of_eq_None_iff)
  then show "map_of (map (\<lambda>h. (fh_name h, fh_value h)) headers @ [(''x-meowbox-assertion'', a), (''x-meowbox-signature'', s)])
      ASSERTION_HEADER = Some a"
    "map_of (map (\<lambda>h. (fh_name h, fh_value h)) headers @ [(''x-meowbox-assertion'', a), (''x-meowbox-signature'', s)])
      SIGNATURE_HEADER = Some s"
    by (simp_all add: map_add_def ASSERTION_HEADER_def SIGNATURE_HEADER_def)
qed


end
