(* ===== verification/Fed_Examples.thy ===== *)
theory Fed_Examples
  imports Fed_Delivery
begin

text \<open>
  Concrete panels for the witnesses: a master, a target that knows it, one action, and two
  requests of one operator a day apart with the same idempotency key. JSON is read by the parser of
  the model; the digest is the last byte, and a signature is valid for the two payloads only.
\<close>

section \<open>The environment\<close>

fun utf8_text :: "bytes \<Rightarrow> string" where
  "utf8_text (a # r) =
     (if a < 0x80 then char_of (unat a) # utf8_text r
      else (case r of b # r' \<Rightarrow> char_of ((unat a - 192) * 64 + (unat b - 128)) # utf8_text r' | [] \<Rightarrow> []))"
| "utf8_text [] = []"

lemma utf8_text_char: "utf8_text (utf8_char c @ r) = c # utf8_text r"
proof -
  let ?n = "of_char c :: nat"
  have n: "?n < 256" by simp
  show ?thesis
  proof (cases "?n < 128")
    case True
    then have "unat (of_nat ?n :: 8 word) = ?n" by (simp add: unat_of_nat)
    with True show ?thesis by (simp add: utf8_char_def Let_def word_less_nat_alt)
  next
    case False
    let ?a = "of_nat (192 + ?n div 64) :: 8 word" and ?b = "of_nat (128 + ?n mod 64) :: 8 word"
    have "?n div 64 < 4" using n by (subst less_mult_imp_div_less) simp_all
    then have "192 + ?n div 64 < 256" "128 + ?n mod 64 < 256" using mod_less_divisor [of 64 ?n] by simp_all
    then have ab: "unat ?a = 192 + ?n div 64" "unat ?b = 128 + ?n mod 64" by (simp_all add: unat_of_nat del: of_nat_add)
    have "(unat ?a - 192) * 64 + (unat ?b - 128) = ?n" unfolding ab by simp
    moreover have "\<not> ?a < 0x80" unfolding word_less_nat_alt ab by simp
    ultimately have "utf8_text (?a # ?b # r) = char_of ?n # utf8_text r" by (simp del: of_nat_add)
    moreover have "utf8_char c = [?a, ?b]" using False by (simp add: utf8_char_def Let_def)
    ultimately show ?thesis by simp
  qed
qed

lemma utf8_text_bytes: "utf8_text (utf8_bytes s) = s"
proof (induction s)
  case (Cons c s)
  then show ?case by (simp add: utf8_bytes_Cons utf8_text_char)
qed (simp add: utf8_bytes_def)

lemma print_plain: "plain v \<Longrightarrow> print_json v = json_stringify v"
proof (induction v rule: print_json.induct)
  case (6 vs)
  then have "map print_json vs = map json_stringify vs" unfolding map_eq_conv by (simp add: list_all_iff)
  then show ?case by (simp only: print_json.simps json_stringify.simps)
next
  case (7 kvs)
  then have "filter (\<lambda>(key, v). v \<noteq> JUndefined) kvs = kvs" by (auto simp: list_all_iff intro!: filter_True)
  moreover have "map (\<lambda>(key, v). quote key @ '':'' @ print_json v) kvs = map (\<lambda>(key, v). quote key @ '':'' @ json_stringify v) kvs"
    unfolding map_eq_conv using 7 by (auto simp: list_all_iff)
  ultimately show ?case by (simp only: print_json.simps json_stringify.simps)
qed simp_all

text \<open>A parser that undoes the printing reads every assertion back that is short enough.\<close>

lemma parser_reads_back:
  assumes "fe_json env = (\<lambda>b. json_parse (utf8_text b))" "length (assertion_text (claims_json c)) \<le> 8192"
  shows "reads_back env (claims_json c)"
proof -
  have "plain (canonical (claims_json c))"
    by (cases "mc_operationId c"; cases "mc_idempotencyId c") (simp_all add: claims_json_def json_opt_def list_all_iff)
  then have "json_parse (stable_json (claims_json c)) = Some (canonical (claims_json c))"
    by (simp add: stable_json_canonical print_plain parse_stringify)
  then show ?thesis using assms by (simp add: reads_back_def canonicalJson_def utf8_text_bytes)
qed

section \<open>The panels\<close>

definition MASTER_ID :: string where "MASTER_ID = ''11111111-1111-4111-8111-111111111111''"
definition TARGET_ID :: string where "TARGET_ID = ''22222222-2222-4222-8222-222222222222''"
definition FED_KID :: string where "FED_KID = ''ed25519-'' @ replicate 22 CHR ''k''"

text \<open>The identifier, the nonce and the time of the two requests.\<close>

definition fdemo_uuid :: "bool \<Rightarrow> string" where
  "fdemo_uuid n = (if n then ''44444444-4444-4444-8444-444444444444'' else ''33333333-3333-4333-8333-333333333333'')"

definition fdemo_nonce :: "bool \<Rightarrow> string" where
  "fdemo_nonce n = replicate 21 CHR ''A'' @ (if n then ''C'' else ''B'')"

definition fdemo_now :: "bool \<Rightarrow> time" where
  "fdemo_now n = (if n then 1700086400000 else 1700000000000)"

definition fdemo_action :: descriptor where
  "fdemo_action = \<lparr>ad_actionId = ''sites.create'', ad_http = Some (''POST'', ''/api/sites''), ad_owner = ''target'', ad_mode = ''OPERATION'',
     ad_roles = [''ADMIN'', ''MANAGER''], ad_permissions = [''sites:write''], ad_requestMedia = [''application/json''],
     ad_responseMedia = [''application/json''], ad_idempotency = ''REQUIRED'', ad_cancellation = ''NONE'', ad_deadlines = [],
     ad_remoteActivation = ''ALLOW''\<rparr>"

definition fdemo_capability :: capability where
  "fdemo_capability = \<lparr>cp_actionId = ''sites.create'', cp_schemaVersion = JNum 1, cp_enabled = True, cp_roles = [''ADMIN'', ''MANAGER''],
     cp_permissions = [''sites:write''], cp_requestMedia = [''application/json''], cp_responseMedia = [''application/json''],
     cp_executionMode = ''OPERATION'', cp_idempotency = ''REQUIRED'', cp_cancellation = ''NONE'', cp_deadlines = [], cp_legacySafe = False\<rparr>"

definition fdemo_issuer :: fed_issuer where
  "fdemo_issuer = \<lparr>is_id = ''issuer-1'', is_issuerInstallationId = MASTER_ID, is_targetInstallationId = TARGET_ID, is_state = ''ACTIVE'',
     is_maxRole = ''ADMIN'', is_permissionPolicyJson = json_stringify (JArr [JStr ''sites:write'']), is_principalVersion = 1,
     is_revokedAt = None\<rparr>"

definition fdemo_key :: fed_key where
  "fdemo_key = \<lparr>fk_kid = FED_KID, fk_issuerId = ''issuer-1'', fk_publicKeySpki = ''spki'', fk_encryptedPrivateKey = Some ''enc'',
     fk_state = ''ACTIVE'', fk_validFrom = 0, fk_expiresAt = None, fk_revokedAt = None\<rparr>"

definition fdemo_server :: fed_server where
  "fdemo_server = \<lparr>sv_id = ''server-1'', sv_activeEndpointGeneration = 1,
     sv_endpoints = [\<lparr>ep_generation = 1, ep_state = ''ACTIVE'', ep_verifiedAt = Some 0, ep_apiOrigin = ''https://t.example''\<rparr>],
     sv_issuers = [(fdemo_issuer, [fdemo_key])]\<rparr>"

definition fdemo_context :: fed_remote_context where
  "fdemo_context = \<lparr>rc_topologyMode = ''PUBLIC'', rc_killHttp = False, rc_killPublicDelivery = False, rc_selected = Some 1,
     rc_mode = ''v1-enabled'', rc_transport = ''ONLINE'', rc_trust = ''ACTIVE'', rc_capability = ''FRESH'',
     rc_manifestValidUntil = 2000000000000, rc_capabilities = [(''sites.create'', fdemo_capability)]\<rparr>"

definition fdemo_master :: "bool \<Rightarrow> master_state" where
  "fdemo_master n = \<lparr>ma_installationRole = ''MASTER'', ma_installationId = MASTER_ID, ma_catalogue = [fdemo_action],
     ma_server = (\<lambda>t. if t = TARGET_ID then Some fdemo_server else None), ma_context = (\<lambda>_. Inr fdemo_context), ma_now = fdemo_now n,
     ma_requestId = fdemo_uuid n, ma_nonce = fdemo_nonce n\<rparr>"

definition fdemo_input :: dispatch_input where
  "fdemo_input = \<lparr>dp_targetInstallationId = TARGET_ID, dp_inboundTarget = ''/api/proxy/'' @ TARGET_ID @ ''/sites'', dp_method = ''post'',
     dp_rawHeaders = [''Content-Type'', ''application/json'', ''Idempotency-Key'', ''key-0001'', ''Host'', ''m.example''],
     dp_body = [0x7B, 0x7D], dp_actor = operator_actor ''user-1'' ''ADMIN'', dp_browserIp = ''10.0.0.1''\<rparr>"

definition fdemo_claims :: "bool \<Rightarrow> master_claims" where
  "fdemo_claims n = dispatch_claims (fdemo_master n) fdemo_input fdemo_action fdemo_issuer fdemo_key (Some ''key-0001'')"

definition fdemo_headers :: "fed_header list" where
  "fdemo_headers = [\<lparr>fh_name = ''content-type'', fh_value = ''application/json''\<rparr>, \<lparr>fh_name = ''idempotency-key'', fh_value = ''key-0001''\<rparr>]"

text \<open>The digest: the last byte, after 31 zero bytes.\<close>

definition last_byte :: "bytes \<Rightarrow> bytes" where
  "last_byte b = replicate 31 0 @ [if b = [] then 0 else last b]"

definition fdemo_binding :: binding where
  "fdemo_binding = \<lparr>bi_method = ''POST'', bi_targetPathAndQuery = ''/api/sites'', bi_headers = fdemo_headers,
     bi_bodySha256 = hex_of (last_byte [0x7B, 0x7D])\<rparr>"

definition fdemo_payload :: "bool \<Rightarrow> bytes" where
  "fdemo_payload n = utf8_bytes (line_text (payload_lines (claims_json (fdemo_claims n)) fdemo_binding))"

definition fdemo_stored :: json where
  "fdemo_stored = JObj [(''version'', JNum 1), (''kind'', JStr ''RELATIONSHIP''), (''issuerInstallationId'', JStr MASTER_ID),
     (''targetInstallationId'', JStr TARGET_ID), (''kid'', JStr FED_KID), (''privateKeyPkcs8'', JStr ''pkcs8'')]"

definition fdemo_env :: fed_env where
  "fdemo_env = \<lparr>fe_sha = last_byte, fe_json = (\<lambda>b. json_parse (utf8_text b)), fe_body_json = (\<lambda>b. json_parse (utf8_text b)),
     fe_decrypt = (\<lambda>e. if e = ''enc'' then Some fdemo_stored else None),
     fe_sign = (\<lambda>_ p. if p \<in> {fdemo_payload False, fdemo_payload True} then Some (replicate 64 0) else None),
     fe_verify = (\<lambda>_ p s. p \<in> {fdemo_payload False, fdemo_payload True} \<and> s = replicate 64 0)\<rparr>"

definition fdemo_out :: "bool \<Rightarrow> outbound" where
  "fdemo_out n = \<lparr>ob_origin = ''https://t.example'', ob_target = ''/api/sites'', ob_method = ''POST'',
     ob_headers = [(''content-type'', ''application/json''), (''idempotency-key'', ''key-0001''),
       (''x-meowbox-assertion'', assertion_text (claims_json (fdemo_claims n))), (''x-meowbox-signature'', base64url (replicate 64 0))],
     ob_body = [0x7B, 0x7D], ob_claims = fdemo_claims n, ob_binding = fdemo_binding\<rparr>"

section \<open>The dispatch\<close>

lemma fdemo_target: "parseExactFederationTarget (dp_inboundTarget fdemo_input) (dp_targetInstallationId fdemo_input) =
   Inr \<lparr>xt_inboundTarget = dp_inboundTarget fdemo_input, xt_rawPath = ''/api/sites'', xt_rawQuery = None,
     xt_targetPathAndQuery = ''/api/sites''\<rparr>"
  by code_simp

lemma fdemo_found: "resolveHttpByConcretePath [fdemo_action] ''POST'' ''/api/sites'' = Inr (Some fdemo_action)"
  by code_simp

lemma fdemo_fields:
  "mc_keyId (fdemo_claims n) = FED_KID" "mc_issuedAt (fdemo_claims n) = (if n then 1700086400 else 1700000000)"
  "mc_expiresAt (fdemo_claims n) = (if n then 1700086460 else 1700000060)" "mc_nonce (fdemo_claims n) = fdemo_nonce n"
  "mc_requestId (fdemo_claims n) = fdemo_uuid n" "mc_targetInstallationId (fdemo_claims n) = TARGET_ID"
  "mc_actionId (fdemo_claims n) = ''sites.create''" "mc_actorKind (fdemo_claims n) = ''OPERATOR''"
  "mc_issuerInstallationId (fdemo_claims n) = MASTER_ID" "mc_subject (fdemo_claims n) = ''user-1''"
  "mc_browserIp (fdemo_claims n) = ''10.0.0.1''" "mc_role (fdemo_claims n) = ''ADMIN''" "mc_permissions (fdemo_claims n) = [''sites:write'']"
  "mc_principalVersion (fdemo_claims n) = 1" "mc_operationId (fdemo_claims n) = None" "mc_idempotencyId (fdemo_claims n) = Some ''key-0001''"
  by (simp_all add: fdemo_claims_def dispatch_claims_def Let_def fdemo_master_def fdemo_input_def fdemo_action_def fdemo_issuer_def
      fdemo_key_def fdemo_now_def operator_actor_def)

lemma fdemo_patterns:
  "rx_test FED_KEY_ID FED_KID" "rx_test UUID (fdemo_uuid n)" "rx_test UUID TARGET_ID" "rx_test UUID MASTER_ID"
  "rx_test ACTION_ID ''sites.create''" "rx_test NONCE (fdemo_nonce n)" "rx_test SUBJECT ''user-1''" "rx_test IPV4 ''10.0.0.1''"
  "rx_test FED_PERMISSION ''sites:write''" "rx_test OPTIONAL_ID ''key-0001''"
proof -
  have "rx_test UUID (fdemo_uuid True)" "rx_test UUID (fdemo_uuid False)" by code_simp+
  then show "rx_test UUID (fdemo_uuid n)" by (cases n) simp_all
  show "rx_test FED_KEY_ID FED_KID" "rx_test UUID TARGET_ID" "rx_test UUID MASTER_ID" "rx_test ACTION_ID ''sites.create''"
    "rx_test IPV4 ''10.0.0.1''" "rx_test FED_PERMISSION ''sites:write''"
    by code_simp+
  show "rx_test NONCE (fdemo_nonce n)" "rx_test SUBJECT ''user-1''" "rx_test OPTIONAL_ID ''key-0001''"
    by (simp_all add: NONCE_def SUBJECT_def OPTIONAL_ID_def rx_test_Rep_Cls fdemo_nonce_def base64url_class_def base64url_char_def
        list_all_iff upper_def safe_id_char_def printable_def less_eq_char_def lower_def digit_char_def)
qed

lemma fdemo_claims_valid: "assertClaims (claims_json (fdemo_claims n)) = None"
  by (simp add: assertClaims_def Let_def claims_json_fields fdemo_fields permission_list_def js_test_def fdemo_patterns
      browser_ip_bad_def is_ip_def role_names_def max_safe_integer_def js_distinct_def json_opt_def)

lemma fdemo_control: "validateGenericControlRequest last_byte (\<lambda>b. json_parse (utf8_text b)) ''POST'' fdemo_headers [0x7B, 0x7D] =
   Inr (bi_bodySha256 fdemo_binding, Some ''key-0001'')"
proof -
  have "canonicalHeaderValue fdemo_headers ''content-type'' = Some ''application/json''"
    "canonicalHeaderValue fdemo_headers ''idempotency-key'' = Some ''key-0001''"
    "rx_test CONTENT_TYPE (js_lower ''application/json'')" "js_upper ''POST'' = ''POST''"
    by code_simp+
  moreover have "rx_test ADMISSION_KEY ''key-0001''"
    by (simp add: ADMISSION_KEY_def rx_test_Rep_Cls printable_def less_eq_char_def)
  moreover have "json_parse (utf8_text [0x7B, 0x7D]) \<noteq> None" by code_simp
  ultimately show ?thesis
    by (simp add: validateGenericControlRequest_def Let_def MAX_CONTROL_BODY_BYTES_def fed_check_def sha256Body_def fdemo_binding_def)
qed

lemma fdemo_canonical: "canonicalizeFederationHeaders (header_pairs (dp_rawHeaders fdemo_input)) = Inr fdemo_headers"
  by code_simp

lemma fdemo_bound: "assertBinding fdemo_binding = None"
  by code_simp

lemma fdemo_permissions: "parseFederationPermissions (is_permissionPolicyJson fdemo_issuer) = Inr [''sites:write'']"
proof -
  have "json_parse (is_permissionPolicyJson fdemo_issuer) = Some (JArr [JStr ''sites:write''])"
    by (simp add: fdemo_issuer_def parse_stringify del: json_stringify.simps)
  then show ?thesis by (simp add: parseFederationPermissions_def fdemo_patterns map_filter_def)
qed

lemma fdemo_policy: "assertDelegatedActionPolicy fdemo_action (claims_json (fdemo_claims n)) ''ADMIN''
   (is_permissionPolicyJson fdemo_issuer) (Some ''key-0001'') = Inr [''sites:write'']"
proof -
  let ?c = "claims_json (fdemo_claims n)"
  have d: "ad_actionId fdemo_action = ''sites.create''" "ad_roles fdemo_action = [''ADMIN'', ''MANAGER'']"
    "ad_permissions fdemo_action = [''sites:write'']"
    by (simp_all add: fdemo_action_def)
  have "role_policy fdemo_action ?c ''ADMIN'' = None"
    by (simp add: role_policy_def claims_json_fields fdemo_fields d exceeds_ceiling_def operator_rank_def)
  moreover have "intersectFederationPermissions (asserted_permissions ?c) [[''sites:write''], ad_permissions fdemo_action]
      = Inr [''sites:write'']"
    by (simp add: intersectFederationPermissions_def asserted_permissions_def claims_json_fields fdemo_fields d js_test_def
        fdemo_patterns js_distinct_def map_filter_def)
  ultimately show ?thesis
    by (simp add: assertDelegatedActionPolicy_def fdemo_permissions claims_json_fields fdemo_fields d json_opt_def fed_check_def)
qed

lemma length_utf8: "length (utf8_bytes s) \<le> 2 * length s"
  by (induction s) (simp_all add: utf8_bytes_def Let_def)

lemma fdemo_length: "length (assertion_text (claims_json (fdemo_claims n))) \<le> 8192"
proof -
  let ?s = "stable_json (claims_json (fdemo_claims n))"
  have "length (show_int 1700086460) = 10" "length (show_int 1700086400) = 10" "length (show_int 1700000060) = 10"
    "length (show_int 1700000000) = 10" "length (show_int 1) = 1"
    by (simp_all add: show_int_def show_nat.simps)
  then have "length ?s \<le> 2000"
    by (cases n) (simp_all add: json_opt_def claims_json_def fdemo_fields quote_def esc_def FED_KID_def fdemo_nonce_def fdemo_uuid_def TARGET_ID_def
        MASTER_ID_def)
  with length_utf8 [of ?s] length_base64url_le [of "utf8_bytes ?s"] show ?thesis
    by (simp add: assertion_text_def canonicalJson_def)
qed

lemma fdemo_payload_built: "buildDelegationPayload (claims_json (fdemo_claims n)) fdemo_binding = Inr (fdemo_payload n)"
  by (simp add: buildDelegationPayload_def fdemo_claims_valid fdemo_bound claims_json_fields fdemo_payload_def)

lemma fdemo_opened: "openFederationPrivateKey fdemo_env
    \<lparr>rk_issuerInstallationId = MASTER_ID, rk_targetInstallationId = TARGET_ID, rk_kid = FED_KID, rk_publicKeySpki = p,
     rk_encryptedPrivateKey = ''enc''\<rparr> = Some (JStr ''pkcs8'')"
  by (simp add: openFederationPrivateKey_def fdemo_env_def fdemo_stored_def js_test_def fdemo_patterns)

lemma fdemo_signed: "signFederationPayload fdemo_env (fdemo_payload n)
    \<lparr>rk_issuerInstallationId = MASTER_ID, rk_targetInstallationId = TARGET_ID, rk_kid = FED_KID, rk_publicKeySpki = p,
     rk_encryptedPrivateKey = ''enc''\<rparr> = Inr (base64url (replicate 64 0))"
proof -
  have "fe_sign fdemo_env k (fdemo_payload n) = Some (replicate 64 0)" for k by (cases n) (simp_all add: fdemo_env_def)
  then show ?thesis by (simp add: signFederationPayload_def fdemo_opened)
qed

lemma fdemo_key_fields:
  "fk_kid fdemo_key = FED_KID" "fk_publicKeySpki fdemo_key = ''spki''" "fk_encryptedPrivateKey fdemo_key = Some ''enc''"
  "is_maxRole fdemo_issuer = ''ADMIN''"
  by (simp_all add: fdemo_key_def fdemo_issuer_def)

lemma fdemo_encoded: "encodeDelegationAssertion fdemo_env (claims_json (fdemo_claims n)) fdemo_binding
    \<lparr>rk_issuerInstallationId = MASTER_ID, rk_targetInstallationId = TARGET_ID, rk_kid = FED_KID, rk_publicKeySpki = p,
     rk_encryptedPrivateKey = ''enc''\<rparr> =
   Inr \<lparr>ea_assertion = assertion_text (claims_json (fdemo_claims n)), ea_signature = base64url (replicate 64 0)\<rparr>"
  by (simp add: encodeDelegationAssertion_def claims_json_fields fdemo_fields fdemo_payload_built fdemo_signed)

lemma fdemo_headers_read: "dispatch_request fdemo_env fdemo_input = Inr (fdemo_headers, bi_bodySha256 fdemo_binding, Some ''key-0001'')"
proof -
  have raw: "rawHeaderPairs (dp_rawHeaders fdemo_input) = Inr (header_pairs (dp_rawHeaders fdemo_input))" by code_simp
  have m: "js_upper (dp_method fdemo_input) = ''POST''" by code_simp
  have b: "dp_body fdemo_input = [0x7B, 0x7D]" "fe_sha fdemo_env = last_byte" "fe_body_json fdemo_env = (\<lambda>b. json_parse (utf8_text b))"
    by (simp_all add: fdemo_input_def fdemo_env_def)
  show ?thesis unfolding dispatch_request_def raw sum.case fdemo_canonical m b fdemo_control ..
qed

lemma fdemo_issuer_found: "find_signing_key (fdemo_master n) TARGET_ID fdemo_server = Some (fdemo_issuer, fdemo_key)"
  by (simp add: find_signing_key_def fdemo_server_def fdemo_master_def find_first_def fdemo_issuer_def fdemo_key_def fdemo_now_def)

lemma fdemo_action_chosen: "dispatch_action (fdemo_master n) fdemo_input =
   Inr (\<lparr>xt_inboundTarget = dp_inboundTarget fdemo_input, xt_rawPath = ''/api/sites'', xt_rawQuery = None,
     xt_targetPathAndQuery = ''/api/sites''\<rparr>, fdemo_action)"
proof -
  have c: "ma_catalogue (fdemo_master n) = [fdemo_action]" by (simp add: fdemo_master_def)
  have m: "js_upper (dp_method fdemo_input) = ''POST''" by code_simp
  show ?thesis unfolding dispatch_action_def fdemo_target sum.case exact_target.select_convs c m fdemo_found option.case
    by (simp add: fdemo_action_def EXECUTION_MODES_HTTP_def fdemo_input_def operator_actor_def)
qed

lemma fdemo_panel_ready: "dispatch_panel (fdemo_master n) fdemo_input fdemo_action = Inr fdemo_server"
proof -
  have "assertCapability fdemo_action (Some fdemo_capability) ''ADMIN''" by code_simp
  moreover have "\<not> context_not_ready fdemo_context (dp_actor fdemo_input) (fdemo_now n)"
    by (simp add: context_not_ready_def fdemo_context_def fdemo_input_def operator_actor_def fdemo_now_def)
  ultimately show ?thesis
    by (simp add: dispatch_panel_def Let_def fdemo_master_def fdemo_input_def operator_actor_def)
       (simp add: fdemo_context_def fdemo_action_def)
qed

lemma fdemo_sent: "dispatch_send fdemo_env (fdemo_master n) fdemo_input = Inr (fdemo_action, fdemo_out n)"
proof -
  have f: "dp_targetInstallationId fdemo_input = TARGET_ID" "ma_installationId (fdemo_master n) = MASTER_ID"
    "ma_installationRole (fdemo_master n) = ''MASTER''" "dp_body fdemo_input = [0x7B, 0x7D]"
    by (simp_all add: fdemo_input_def fdemo_master_def)
  have m: "js_upper (dp_method fdemo_input) = ''POST''" by code_simp
  have b: "\<lparr>bi_method = ''POST'', bi_targetPathAndQuery = ''/api/sites'', bi_headers = fdemo_headers,
      bi_bodySha256 = bi_bodySha256 fdemo_binding\<rparr> = fdemo_binding" by (simp add: fdemo_binding_def)
  have c: "dispatch_claims (fdemo_master n) fdemo_input fdemo_action fdemo_issuer fdemo_key (Some ''key-0001'') = fdemo_claims n"
    by (simp add: fdemo_claims_def)
  have "dispatch_signed fdemo_env (fdemo_master n) fdemo_input \<lparr>xt_inboundTarget = dp_inboundTarget fdemo_input, xt_rawPath = ''/api/sites'',
      xt_rawQuery = None, xt_targetPathAndQuery = ''/api/sites''\<rparr> fdemo_action fdemo_server fdemo_issuer fdemo_key fdemo_headers
      (bi_bodySha256 fdemo_binding, Some ''key-0001'') = Inr (fdemo_out n)"
    by (simp add: dispatch_signed_def Let_def f m b c fdemo_key_fields fdemo_policy fdemo_encoded)
       (simp add: fdemo_server_def find_first_def fdemo_out_def fdemo_headers_def f m)
  then show ?thesis
    unfolding dispatch_send_def fdemo_action_chosen sum.case prod.case fdemo_panel_ready fdemo_headers_read f fdemo_issuer_found option.case
    by simp
qed

section \<open>The target\<close>

definition fdemo_config :: fed_config where
  "fdemo_config = \<lparr>fc_installationRole = ''TARGET'', fc_installationId = TARGET_ID, fc_maxActiveReplays = None,
     fc_receiptTtlMs = None, fc_catalogue = [fdemo_action]\<rparr>"

definition target_key :: fed_key where "target_key = fdemo_key\<lparr>fk_encryptedPrivateKey := None\<rparr>"

definition fdemo_fdb :: fdb where
  "fdemo_fdb = \<lparr>fb_issuers = [fdemo_issuer], fb_keys = [target_key], fb_replays = [], fb_receipts = [], fb_principals = [], fb_users = [],
     fb_services = []\<rparr>"

definition fdemo_request :: "bool \<Rightarrow> fed_request" where
  "fdemo_request n = \<lparr>rq_headers = ob_headers (fdemo_out n) @ [(''host'', ''t.example'')],
     rq_rawHeaders = concat (map (\<lambda>(k, v). [k, v]) (ob_headers (fdemo_out n) @ [(''Host'', ''t.example'')])),
     rq_method = ''POST'', rq_originalUrl = ''/api/sites'', rq_body = Raw_Body [0x7B, 0x7D]\<rparr>"

lemma fdemo_known:
  assumes "find_fed_key (JStr FED_KID) db = Some (target_key, fdemo_issuer)"
  shows "knows_master fdemo_env fdemo_config db (fdemo_now n) (fdemo_master k) TARGET_ID fdemo_issuer fdemo_key"
proof -
  have "key_pair fdemo_env fdemo_key target_key" by (auto simp: key_pair_def fdemo_env_def split: if_splits)
  with assms show ?thesis
    by (simp add: knows_master_def fdemo_config_def fdemo_master_def fdemo_key_fields key_inactive_def)
       (simp add: target_key_def fdemo_key_def fdemo_issuer_def fdemo_now_def)
qed

lemma fdemo_arrives: "arrives (fdemo_out n) (fdemo_request n)"
  unfolding arrives_def
proof (intro conjI exI)
  show "rq_rawHeaders (fdemo_request n) = concat (map (\<lambda>(k, v). [k, v]) (ob_headers (fdemo_out n) @ [(''Host'', ''t.example'')]))"
    by (simp add: fdemo_request_def)
  show "list_all transport_header [(''Host'', ''t.example'')]" by code_simp
  show "list_all (\<lambda>(k, v). take 10 (js_lower k) \<noteq> ''x-meowbox-'') [(''Host'', ''t.example'')]" by code_simp
qed (simp_all add: fdemo_request_def fdemo_out_def raw_body_def)

lemma fdemo_reads_back: "reads_back fdemo_env (claims_json (fdemo_claims n))"
  by (rule parser_reads_back) (simp_all add: fdemo_env_def fdemo_length)


section \<open>The admission\<close>

definition fdemo_vinput :: "bool \<Rightarrow> verify_input" where
  "fdemo_vinput n = \<lparr>vi_encoded = \<lparr>ea_assertion = assertion_text (claims_json (fdemo_claims n)), ea_signature = base64url (replicate 64 0)\<rparr>,
     vi_binding = fdemo_binding, vi_concretePath = ''/api/sites'', vi_idempotencyKey = Some ''key-0001''\<rparr>"

definition fdemo_flight :: "bool \<Rightarrow> fed_flight" where
  "fdemo_flight n = \<lparr>fl_input = fdemo_vinput n, fl_now = fdemo_now n, fl_claims = canonical (claims_json (fdemo_claims n)),
     fl_key = target_key, fl_issuer = fdemo_issuer, fl_descriptor = fdemo_action, fl_permissions = [''sites:write'']\<rparr>"

lemma target_found:
  assumes "fb_keys db = [target_key]" "fb_issuers db = [fdemo_issuer]"
  shows "find_fed_key (JStr FED_KID) db = Some (target_key, fdemo_issuer)"
  by (simp add: find_fed_key_def assms find_first_def target_key_def fdemo_key_def fdemo_issuer_def)

lemma fdemo_checked:
  assumes "fb_keys db = [target_key]" "fb_issuers db = [fdemo_issuer]"
  shows "verify_checks fdemo_env fdemo_config (fdemo_vinput n) (fdemo_now n) db = Inr (fdemo_flight n)"
proof -
  have sign: "fe_sign fdemo_env k (fdemo_payload n) = Some (replicate 64 0)" for k by (cases n) (simp_all add: fdemo_env_def)
  have enc: "fe_decrypt fdemo_env ''enc'' = Some fdemo_stored" by (simp add: fdemo_env_def)
  have "\<exists>f. verify_checks fdemo_env fdemo_config (fdemo_vinput n) (fdemo_now n) db = Inr f \<and> fl_descriptor f = fdemo_action"
    unfolding fdemo_vinput_def
  proof (rule checks_pass [where m = "fdemo_master n" and key = fdemo_key and issuer = fdemo_issuer and stored = fdemo_stored and e = "''enc''" and s = "replicate 64 0"])
    show "knows_master fdemo_env fdemo_config db (fdemo_now n) (fdemo_master n) (mc_targetInstallationId (fdemo_claims n)) fdemo_issuer fdemo_key"
      using fdemo_known [OF target_found [OF assms]] by (simp add: fdemo_fields)
    show "resolveHttpByConcretePath (ma_catalogue (fdemo_master n)) (bi_method fdemo_binding) ''/api/sites'' = Inr (Some fdemo_action)"
      using fdemo_found by (simp add: fdemo_master_def fdemo_binding_def)
    show "mc_actionId (fdemo_claims n) = ad_actionId fdemo_action" by (simp add: fdemo_fields fdemo_action_def)
    show "mc_issuerInstallationId (fdemo_claims n) = ma_installationId (fdemo_master n)" by (simp add: fdemo_fields fdemo_master_def)
    show "assertDelegatedActionPolicy fdemo_action (claims_json (fdemo_claims n)) (is_maxRole fdemo_issuer) (is_permissionPolicyJson fdemo_issuer)
      (Some ''key-0001'') = Inr [''sites:write'']" using fdemo_policy by (simp add: fdemo_key_fields)
    show "fe_sign fdemo_env (field fdemo_stored ''privateKeyPkcs8'') (fdemo_payload n) = Some (replicate 64 0)" by (rule sign)
  qed (simp_all add: fdemo_fields fdemo_key_fields fdemo_reads_back fdemo_payload_built enc fdemo_now_def max_safe_integer_def)
  then obtain f where f: "verify_checks fdemo_env fdemo_config (fdemo_vinput n) (fdemo_now n) db = Inr f" "fl_descriptor f = fdemo_action" by blast
  note c = checked_flight [OF f(1)]
  have "fl_claims f = canonical (claims_json (fdemo_claims n))"
    using checked_claims [OF f(1)] claims_decoded [OF fdemo_reads_back fdemo_claims_valid] by (simp add: fdemo_vinput_def)
  moreover have "fl_issuer f = fdemo_issuer" "fl_key f = target_key" using c(4,5) assms by simp_all
  moreover from this have "fl_permissions f = [''sites:write'']"
    using c(10) f(2) members_decide(3) [OF claims_read [of "fdemo_claims n"]] \<open>fl_claims f = _\<close> fdemo_policy [of n]
    by (simp add: fdemo_key_fields fdemo_vinput_def)
  ultimately have "f = fdemo_flight n" using c(1,2) f(2) by (simp add: fdemo_flight_def fed_flight.equality)
  with f(1) show ?thesis by simp
qed

definition fdemo_attempt :: operator_attempt where
  "fdemo_attempt = \<lparr>oa_random = [1], oa_userId = ''user-9'', oa_principalId = ''principal-9'', oa_passwordHash = ''hash'', oa_fault = None,
     oa_now = 1700000000000\<rparr>"

definition fdemo_run :: "bool \<Rightarrow> verify_run" where
  "fdemo_run n = \<lparr>vr_consumeFault = None, vr_principal = \<lparr>pn_between = id, pn_attempts = (fdemo_attempt, fdemo_attempt, fdemo_attempt),
     pn_seen = fdemo_fdb, pn_fault = None, pn_now = fdemo_now n\<rparr>, vr_receiptId = (if n then ''receipt-2'' else ''receipt-1''),
     vr_claimFault = None\<rparr>"

definition fdemo_replay :: "bool \<Rightarrow> fed_replay" where
  "fdemo_replay n = \<lparr>fr_hash = hex_of (replicate 31 0 @ [if n then 67 else 66]), fr_issuerId = ''issuer-1'', fr_kid = FED_KID,
     fr_requestId = fdemo_uuid n, fr_actionId = ''sites.create'', fr_expiresAt = fdemo_now n + 120000\<rparr>"

lemma fdemo_members:
  "field (canonical (claims_json (fdemo_claims n))) k = field (claims_json (fdemo_claims n)) k"
  by (simp add: claims_read)

lemma last_byte_text: "c < CHR 0x80 \<Longrightarrow> last_byte (utf8_bytes (s @ [c])) = replicate 31 0 @ [of_nat (of_char c)]"
  by (simp add: last_byte_def utf8_bytes_def Let_def less_char_def)

lemma fdemo_hashed: "replayHash fdemo_env (flight_replay (fdemo_flight n)) = Some (fr_hash (fdemo_replay n), fdemo_uuid n)"
proof -
  have join: "join_with c [a, b, d, e, s @ [x]] = (a @ [c] @ b @ [c] @ d @ [c] @ e @ [c] @ s) @ [x]" for a b c d e s x by simp
  have nonce: "fdemo_nonce n = replicate 21 CHR ''A'' @ [if n then CHR ''C'' else CHR ''B'']" by (simp add: fdemo_nonce_def)
  have "last_byte (utf8_bytes (join_with (CHR 0x00) [a, b, d, e, fdemo_nonce n])) = replicate 31 0 @ [if n then 67 else 66]" for a b d e
    unfolding nonce join by (subst last_byte_text) (simp_all add: less_char_def)
  then show ?thesis
    by (simp add: replayHash_def flight_replay_def fdemo_flight_def fdemo_members claims_json_fields fdemo_fields fdemo_env_def
        fdemo_replay_def del: join_with.simps)
qed

lemma fdemo_consumed:
  assumes "fb_issuers db = [fdemo_issuer]" "fb_replays db = (if n then [fdemo_replay False] else [])"
  shows "verify_consume fdemo_env fdemo_config (fdemo_flight n) None db =
    (Inr (fr_hash (fdemo_replay n)), db\<lparr>fb_replays := fb_replays db @ [fdemo_replay n]\<rparr>)"
proof -
  have r: "flight_replay (fdemo_flight n) = \<lparr>ri_issuerId = ''issuer-1'', ri_kid = FED_KID, ri_requestId = JStr (fdemo_uuid n),
      ri_actionId = ''sites.create'', ri_nonce = JStr (fdemo_nonce n), ri_expiresAt = fdemo_now n + 120000\<rparr>"
    by (simp add: flight_replay_def fdemo_flight_def fdemo_members claims_json_fields fdemo_fields replay_expires_def fdemo_issuer_def
        target_key_def fdemo_key_def fdemo_action_def fdemo_now_def)
  have ne: "fr_hash (fdemo_replay True) \<noteq> fr_hash (fdemo_replay False)" "fdemo_uuid True \<noteq> fdemo_uuid False"
    by (simp_all add: fdemo_uuid_def fdemo_replay_def) code_simp
  have tx: "consume_tx 10000 (flight_replay (fdemo_flight n)) (fr_hash (fdemo_replay n)) (fdemo_uuid n) (fdemo_now n) db =
      (Inr (), db\<lparr>fb_replays := fb_replays db @ [fdemo_replay n]\<rparr>)"
    using assms ne unfolding r
    by (cases n) (simp_all add: consume_tx_def create_replay_def replay_key_def count_rows_def fdemo_issuer_def fdemo_replay_def)
  have "fl_now (fdemo_flight n) = fdemo_now n" "max_active_replays (fc_maxActiveReplays fdemo_config) = 10000"
    "\<not> ri_expiresAt (flight_replay (fdemo_flight n)) \<le> fdemo_now n"
    by (simp_all add: fdemo_flight_def fdemo_config_def max_active_replays_def configured_integer_def r [unfolded fdemo_flight_def])
  then show ?thesis
    by (simp add: verify_consume_def consume_replay_def fdemo_hashed fed_transaction_def tx)
qed

definition fdemo_user :: fed_user where "fdemo_user = new_fed_user fdemo_env MASTER_ID ''user-1'' fdemo_attempt"
definition fdemo_principal :: fed_principal where "fdemo_principal = new_fed_principal fdemo_issuer ''user-1'' 1 fdemo_attempt"

lemma fdemo_identity: "flight_identity (fdemo_flight n) =
   \<lparr>ib_issuerInstallationId = MASTER_ID, ib_targetInstallationId = TARGET_ID, ib_subject = JStr ''user-1'', ib_principalVersion = JNum 1\<rparr>"
  by (simp add: flight_identity_def fdemo_flight_def fdemo_members claims_json_fields fdemo_fields)

lemma fdemo_resolved:
  assumes "fb_issuers db = [fdemo_issuer]"
    and "fb_users db = (if n then [fdemo_user] else [])" "fb_principals db = (if n then [fdemo_principal] else [])"
  shows "verify_principal fdemo_env (fdemo_flight n) (vr_principal (fdemo_run n)) db =
    (Inr (Some ''user-9'', ''principal-9'', [''sites:write'']), db\<lparr>fb_users := [fdemo_user], fb_principals := [fdemo_principal]\<rparr>)"
proof -
  have i: "find_issuer MASTER_ID TARGET_ID db = Some fdemo_issuer" "assertActiveIssuer fdemo_issuer 1 = None"
    "is_id fdemo_issuer = ''issuer-1''"
    by (simp_all add: find_issuer_def assms(1) find_first_def fdemo_issuer_def assertActiveIssuer_def fed_check_def)
  have a: "oa_fault fdemo_attempt = None" by (simp add: fdemo_attempt_def)
  have p: "pr_issuerId fdemo_principal = ''issuer-1''" "pr_subject fdemo_principal = ''user-1''" "pr_id fdemo_principal = ''principal-9''"
    "pr_userId fdemo_principal = ''user-9''" "pr_tombstonedAt fdemo_principal = None" "pr_principalVersion fdemo_principal = 1"
    "fdemo_principal\<lparr>pr_lastSeenAt := oa_now fdemo_attempt, pr_displayLabel := None\<rparr> = fdemo_principal"
    "us_id fdemo_user = ''user-9''" "us_identityKind fdemo_user = ''FEDERATED''"
    by (simp_all add: fdemo_principal_def new_fed_principal_def fdemo_user_def new_fed_user_def Let_def fdemo_attempt_def fdemo_issuer_def)
  have u: "db\<lparr>fb_users := [fdemo_user], fb_principals := [fdemo_principal]\<rparr> = db\<lparr>fb_principals := [fdemo_principal]\<rparr>" if n
    using that assms(2) by (cases db) simp
  have tx: "operator_tx fdemo_env MASTER_ID TARGET_ID ''user-1'' 1 fdemo_attempt db =
    (Inr (''user-9'', ''principal-9''), db\<lparr>fb_users := [fdemo_user], fb_principals := [fdemo_principal]\<rparr>)"
  proof (cases n)
    case True
    with p assms show ?thesis
      by (simp add: u operator_tx_def i find_first_def existing_principal_def update_rows_def)
  next
    case False
    with assms p show ?thesis
      by (simp add: operator_tx_def i find_first_def create_principal_def fdemo_user_def [symmetric] fdemo_principal_def [symmetric])
  qed
  have "rx_test SUBJECT ''user-1''" by (rule fdemo_patterns)
  then have id: "assertFederationIdentityBinding (flight_identity (fdemo_flight n)) = None"
    by (simp add: fdemo_identity assertFederationIdentityBinding_def fed_check_def fdemo_patterns js_test_def max_safe_integer_def)
       (simp add: MASTER_ID_def TARGET_ID_def)
  have "resolveVerifiedOperator fdemo_env (flight_identity (fdemo_flight n)) id (fdemo_attempt, fdemo_attempt, fdemo_attempt) db =
    (Inr (''user-9'', ''principal-9''), db\<lparr>fb_users := [fdemo_user], fb_principals := [fdemo_principal]\<rparr>)"
    using id unfolding resolveVerifiedOperator_def fdemo_identity by (simp add: fed_transaction_def a tx)
  then show ?thesis
    by (simp add: verify_principal_def fdemo_run_def) (simp add: fdemo_flight_def fdemo_members claims_json_fields fdemo_fields)
qed

definition fdemo_receipt :: "bool \<Rightarrow> fed_receipt" where
  "fdemo_receipt n = \<lparr>fi_id = (if n then ''receipt-2'' else ''receipt-1''), fi_issuerId = ''issuer-1'', fi_actorKind = ''OPERATOR'',
     fi_subjectHash = fed_digest fdemo_env [''OPERATOR'', ''user-1''], fi_actionId = ''sites.create'',
     fi_keyHash = fed_digest fdemo_env [''key-0001''], fi_requestHash = federationRequestHash fdemo_env fdemo_binding,
     fi_requestId = fdemo_uuid n, fi_expiresAt = fdemo_now n + 86400000\<rparr>"

lemma fdemo_claimed:
  assumes "fb_issuers db = [fdemo_issuer]" "fb_receipts db = (if n then [fdemo_receipt False] else [])"
  shows "verify_claim fdemo_env fdemo_config (fdemo_flight n) (vr_receiptId (fdemo_run n)) None db =
    (Inr (Some (vr_receiptId (fdemo_run n))), db\<lparr>fb_receipts := [fdemo_receipt n]\<rparr>)"
proof -
  have c: "flight_claim fdemo_env (fdemo_flight n) ''key-0001'' =
    \<lparr>ci_issuerId = ''issuer-1'', ci_actorKind = ''OPERATOR'', ci_subject = JStr ''user-1'', ci_actionId = ''sites.create'',
     ci_idempotencyKey = ''key-0001'', ci_requestId = fdemo_uuid n, ci_requestHash = federationRequestHash fdemo_env fdemo_binding\<rparr>"
    by (simp add: flight_claim_def fdemo_flight_def fdemo_members claims_json_fields fdemo_fields fdemo_issuer_def fdemo_action_def fdemo_vinput_def)
  have t: "receipt_ttl (fc_receiptTtlMs fdemo_config) = 86400000" "fl_now (fdemo_flight n) = fdemo_now n"
    "vi_idempotencyKey (fl_input (fdemo_flight n)) = Some ''key-0001''" "is_id fdemo_issuer = ''issuer-1''"
    by (simp_all add: receipt_ttl_def fdemo_config_def fdemo_flight_def fdemo_vinput_def fdemo_issuer_def)
  have r: "new_fed_receipt (vr_receiptId (fdemo_run n)) (''issuer-1'', ''OPERATOR'', fed_digest fdemo_env [''OPERATOR'', ''user-1''],
      ''sites.create'', fed_digest fdemo_env [''key-0001'']) (flight_claim fdemo_env (fdemo_flight n) ''key-0001'') (fdemo_now n + 86400000)
      = fdemo_receipt n"
    by (simp add: c new_fed_receipt_def fdemo_receipt_def fdemo_run_def)
  have rows: "delete_rows (\<lambda>r. selector_of r = s \<and> fi_expiresAt r \<le> fdemo_now n) (fb_receipts db) = []"
    if "s = (''issuer-1'', ''OPERATOR'', fed_digest fdemo_env [''OPERATOR'', ''user-1''], ''sites.create'', fed_digest fdemo_env [''key-0001''])" for s
    using assms(2) that by (cases n) (simp_all add: delete_rows_def selector_of_def fdemo_receipt_def fdemo_now_def)
  have "claim_tx (vr_receiptId (fdemo_run n)) (''issuer-1'', ''OPERATOR'', fed_digest fdemo_env [''OPERATOR'', ''user-1''], ''sites.create'',
      fed_digest fdemo_env [''key-0001'']) 86400000 (flight_claim fdemo_env (fdemo_flight n) ''key-0001'') (fdemo_now n) db =
    (Inr (vr_receiptId (fdemo_run n)), db\<lparr>fb_receipts := [fdemo_receipt n]\<rparr>)"
    unfolding claim_tx_def Let_def rows [OF refl] r
    by (simp add: find_first_def create_fed_receipt_def assms(1) t(4)) (simp add: fdemo_receipt_def fdemo_run_def)
  then show ?thesis
    by (simp add: verify_claim_def t claim_receipt_def Let_def claim_selector_def fed_transaction_def c)
qed

text \<open>The tables before and after.\<close>

definition fdemo_admitted :: fdb where
  "fdemo_admitted = fdemo_fdb\<lparr>fb_replays := [fdemo_replay False], fb_users := [fdemo_user], fb_principals := [fdemo_principal],
     fb_receipts := [fdemo_receipt False]\<rparr>"

definition fdemo_tables :: "bool \<Rightarrow> fdb" where
  "fdemo_tables n = (if n then fdemo_admitted else fdemo_fdb)"

definition fdemo_result :: "bool \<Rightarrow> fed_context" where
  "fdemo_result n = \<lparr>fx_flight = fdemo_flight n, fx_permissions = [''sites:write''], fx_userId = Some ''user-9'', fx_principalId = ''principal-9'',
     fx_receiptId = Some (vr_receiptId (fdemo_run n)), fx_replayHash = fr_hash (fdemo_replay n)\<rparr>"

definition fdemo_after :: "bool \<Rightarrow> fdb" where
  "fdemo_after n = (fdemo_tables n)\<lparr>fb_replays := fb_replays (fdemo_tables n) @ [fdemo_replay n], fb_users := [fdemo_user],
     fb_principals := [fdemo_principal], fb_receipts := [fdemo_receipt n]\<rparr>"

lemma fdemo_after_first: "fdemo_after False = fdemo_tables True"
  by (simp add: fdemo_after_def fdemo_tables_def fdemo_admitted_def) (simp add: fdemo_fdb_def)

lemma fdemo_verified:
  "verify fdemo_env fdemo_config (fdemo_vinput n) (fdemo_now n) (fdemo_run n) (fdemo_tables n) = (Inr (fdemo_result n), fdemo_after n)"
proof -
  let ?db = "fdemo_tables n"
  have t: "fb_keys ?db = [target_key]" "fb_issuers ?db = [fdemo_issuer]" "fb_replays ?db = (if n then [fdemo_replay False] else [])"
    "fb_users ?db = (if n then [fdemo_user] else [])" "fb_principals ?db = (if n then [fdemo_principal] else [])"
    "fb_receipts ?db = (if n then [fdemo_receipt False] else [])"
    by (simp_all add: fdemo_tables_def fdemo_admitted_def fdemo_fdb_def)
  let ?db1 = "?db\<lparr>fb_replays := fb_replays ?db @ [fdemo_replay n]\<rparr>"
  let ?db2 = "?db1\<lparr>fb_users := [fdemo_user], fb_principals := [fdemo_principal]\<rparr>"
  have f: "vr_consumeFault (fdemo_run n) = None" "vr_claimFault (fdemo_run n) = None" by (simp_all add: fdemo_run_def)
  have "verify_principal fdemo_env (fdemo_flight n) (vr_principal (fdemo_run n)) ?db1 =
    (Inr (Some ''user-9'', ''principal-9'', [''sites:write'']), ?db2)"
    by (rule fdemo_resolved) (simp_all add: t(2,4,5))
  moreover have "verify_claim fdemo_env fdemo_config (fdemo_flight n) (vr_receiptId (fdemo_run n)) None ?db2 =
    (Inr (Some (vr_receiptId (fdemo_run n))), ?db2\<lparr>fb_receipts := [fdemo_receipt n]\<rparr>)"
    by (rule fdemo_claimed) (simp_all add: t(2,6))
  ultimately show ?thesis
    unfolding verify_def fdemo_checked [OF t(1,2)] sum.case f fdemo_consumed [OF t(2,3)] prod.case
    by (simp add: fdemo_result_def fdemo_after_def)
qed

section \<open>The witnesses\<close>

text \<open>A whole verification between two states without requests in flight.\<close>

lemma verified_reachable:
  assumes "freachable env config y" "fy_checked y = []" "fy_consumed y = []" "fy_resolved y = []"
    and v: "verify env config input now r (fy_db y) = (Inr x, db')" and b: "pn_between (vr_principal r) = id"
  shows "freachable env config (y\<lparr>fy_db := db', fy_admitted := fy_admitted y @ [x]\<rparr>)"
proof -
  let ?f = "fx_flight x"
  from verified_context(2) [OF v] obtain db1 db2 where s:
    "verify_consume env config ?f (vr_consumeFault r) (fy_db y) = (Inr (fx_replayHash x), db1)"
    "verify_principal env ?f (vr_principal r) db1 = (Inr (fx_userId x, fx_principalId x, fx_permissions x), db2)"
    "verify_claim env config ?f (vr_receiptId r) (vr_claimFault r) db2 = (Inr (fx_receiptId x), db')" by blast
  let ?y1 = "y\<lparr>fy_checked := [?f]\<rparr>"
  let ?y2 = "y\<lparr>fy_db := db1, fy_consumed := [(?f, fx_replayHash x)]\<rparr>"
  let ?y3 = "y\<lparr>fy_db := db2, fy_resolved := [(?f, fx_replayHash x, fx_userId x, fx_principalId x, fx_permissions x)]\<rparr>"
  have "fstep env config y ?y1" using ft_check [OF verified_context(1) [OF v]] assms(2) by simp
  moreover have "fstep env config ?y1 ?y2"
    using ft_consume [of ?y1 "[]" ?f "[]" env config "vr_consumeFault r" "Inr (fx_replayHash x)"] s(1) assms(2,3) by (cases y) simp
  moreover have "fstep env config ?y2 ?y3"
    using ft_principal [of ?y2 "[]" ?f "fx_replayHash x" "[]" "vr_principal r" env "Inr (fx_userId x, fx_principalId x, fx_permissions x)"]
      s(2) b assms(2-4) by (cases y) simp
  moreover have "fstep env config ?y3 (y\<lparr>fy_db := db', fy_admitted := fy_admitted y @ [x]\<rparr>)"
    using ft_claim [of ?y3 "[]" ?f "fx_replayHash x" "fx_userId x" "fx_principalId x" "fx_permissions x" "[]" env config
        "vr_receiptId r" "vr_claimFault r" "Inr (fx_receiptId x)"] s(3) assms(4)
    by (cases y; cases x) (simp add: admit_flight_def)
  ultimately show ?thesis using assms(1) f_step by blast
qed

definition fdemo_history :: fsys where
  "fdemo_history = (initial_fsys fdemo_fdb)\<lparr>fy_db := fdemo_after True, fy_admitted := [fdemo_result False, fdemo_result True]\<rparr>"

lemma fdemo_reachable: "freachable fdemo_env fdemo_config fdemo_history"
proof -
  have b: "pn_between (vr_principal (fdemo_run n)) = id" for n by (simp add: fdemo_run_def)
  have "freachable fdemo_env fdemo_config (initial_fsys fdemo_fdb)" by (rule f_initial) (simp_all add: fdemo_fdb_def)
  from verified_reachable [OF this _ _ _ _ b [of False], of "fdemo_vinput False" "fdemo_now False" "fdemo_result False" "fdemo_after False"]
  have "freachable fdemo_env fdemo_config ((initial_fsys fdemo_fdb)\<lparr>fy_db := fdemo_tables True, fy_admitted := [fdemo_result False]\<rparr>)"
    using fdemo_verified [of False] by (simp add: initial_fsys_def fdemo_tables_def [of False] fdemo_after_first)
  from verified_reachable [OF this _ _ _ _ b [of True], of "fdemo_vinput True" "fdemo_now True" "fdemo_result True" "fdemo_after True"]
  show ?thesis using fdemo_verified [of True] by (simp add: initial_fsys_def fdemo_history_def)
qed

theorem assertion_is_admitted_once_witness:
  "distinct (map (flight_key \<circ> fx_flight) (fy_admitted fdemo_history)) \<and> length (fy_admitted fdemo_history) = 2"
  using assertion_is_admitted_once [OF fdemo_reachable] by (simp add: fdemo_history_def)

theorem mutation_is_admitted_once_witness:
  "fl_now (fdemo_flight False) + receipt_ttl (fc_receiptTtlMs fdemo_config) \<le> fl_now (fdemo_flight True)"
proof -
  have "mutation_key (fdemo_flight False) = mutation_key (fdemo_flight True)"
    by (simp add: mutation_key_def fdemo_flight_def fdemo_members claims_json_fields fdemo_fields fdemo_vinput_def)
  then show ?thesis
    using mutation_is_admitted_once [OF fdemo_reachable, of 0 1]
    by (simp add: fdemo_history_def fdemo_result_def) (simp add: fdemo_flight_def fdemo_vinput_def)
qed

theorem tombstone_outlives_assertion_witness:
  "\<exists>e. verify_checks fdemo_env fdemo_config (fdemo_vinput False) (fdemo_now False + 120000) fdemo_fdb = Inl e"
proof (rule tombstone_outlives_assertion)
  show "verify_checks fdemo_env fdemo_config (fdemo_vinput False) (fdemo_now False) fdemo_fdb = Inr (fdemo_flight False)"
    by (rule fdemo_checked) (simp_all add: fdemo_fdb_def)
  show "int_of_json (field (fl_claims (fdemo_flight False)) ''issuedAt'') \<le> fdemo_now False div 1000 + 29"
    "replay_expires (fl_claims (fdemo_flight False)) (fdemo_now False) \<le> fdemo_now False + 120000"
    by (simp_all add: fdemo_flight_def fdemo_members claims_json_fields fdemo_fields fdemo_now_def replay_expires_def)
qed

lemma fdemo_decoded: "decodeDelegationClaims fdemo_env (assertion_text (claims_json (fdemo_claims n))) = Inr (canonical (claims_json (fdemo_claims n)))"
  by (rule claims_decoded [OF fdemo_reads_back fdemo_claims_valid])

lemma fdemo_admits: "canActivate fdemo_env fdemo_config (fdemo_request n) random (fdemo_now n) (fdemo_run n) (fdemo_tables n) =
   (Admitted (fdemo_result n) (request_user (fdemo_result n)) (Some (JObj [])), fdemo_after n)"
proof -
  have own: "dispatch_request fdemo_env fdemo_input = Inr (fdemo_headers, bi_bodySha256 fdemo_binding, Some ''key-0001'')" by (rule fdemo_headers_read)
  have h: "map_of (rq_headers (fdemo_request n)) ASSERTION_HEADER = Some (assertion_text (claims_json (fdemo_claims n)))"
    "map_of (rq_headers (fdemo_request n)) SIGNATURE_HEADER = Some (base64url (replicate 64 0))"
    by (simp_all add: fdemo_request_def fdemo_out_def ASSERTION_HEADER_def SIGNATURE_HEADER_def)
  have s: "base64url (replicate 64 0) \<noteq> []" using length_signature [of "replicate 64 0"] by force
  have "hasFederationAssertionAttempt (fdemo_request n)"
    by (simp add: hasFederationAssertionAttempt_def fdemo_request_def fdemo_out_def ASSERTION_HEADER_def)
  moreover have "signedHeader (fdemo_request n) ASSERTION_HEADER = Inr (assertion_text (claims_json (fdemo_claims n)))"
    "signedHeader (fdemo_request n) SIGNATURE_HEADER = Inr (base64url (replicate 64 0))"
    using assertion_not_empty [of "claims_json (fdemo_claims n)"] s by (simp_all add: signedHeader_def h truthy_def split: list.split)
  moreover have "guard_input fdemo_env (fdemo_request n) (assertion_text (claims_json (fdemo_claims n))) (base64url (replicate 64 0)) =
      Inr (fdemo_vinput n, [0x7B, 0x7D])"
  proof -
    have m: "js_upper (dp_method fdemo_input) = ''POST''" by code_simp
    have b: "ob_binding (fdemo_out n) = \<lparr>bi_method = js_upper (dp_method fdemo_input), bi_targetPathAndQuery = ''/api/sites'',
        bi_headers = fdemo_headers, bi_bodySha256 = bi_bodySha256 fdemo_binding\<rparr>"
      by (simp add: fdemo_out_def m) (simp add: fdemo_binding_def)
    have f: "ob_target (fdemo_out n) = ''/api/sites''" "ob_method (fdemo_out n) = js_upper (dp_method fdemo_input)"
      "ob_body (fdemo_out n) = dp_body fdemo_input" unfolding m by (simp_all add: fdemo_out_def fdemo_input_def)
    have hs: "ob_headers (fdemo_out n) = map (\<lambda>h. (fh_name h, fh_value h)) fdemo_headers @
        [(''x-meowbox-assertion'', base64url (utf8_bytes (canonicalJson (claims_json (fdemo_claims n))))),
         (''x-meowbox-signature'', base64url (replicate 64 0))]"
      by (simp add: fdemo_out_def fdemo_headers_def assertion_text_def)
    from guard_reads [OF fdemo_sent fdemo_target own _ f(2,3) _ hs fdemo_arrives] b f(1)
    show ?thesis by (simp add: fdemo_vinput_def fdemo_out_def)
  qed
  moreover have "request_json fdemo_env [0x7B, 0x7D] = Some (JObj [])"
  proof -
    have "json_parse (utf8_text [0x7B, 0x7D]) = Some (JObj [])" by code_simp
    then show ?thesis by (simp add: request_json_def fdemo_env_def)
  qed
  ultimately show ?thesis unfolding canActivate_def by (simp add: fdemo_decoded fdemo_verified)
qed

theorem admitted_request_is_authorized_witness: "within_authority fdemo_config fdemo_fdb (fdemo_result False)"
  using admitted_request_is_authorized [OF fdemo_admits [of False]] by (simp add: fdemo_tables_def)


end
